(* ===== verification/Prelude.thy ===== *)
theory Prelude
  imports Main "HOL-Library.Word"
begin

text \<open>
  Shared vocabulary of the development.

  \<^item> Go strings and byte slices are \<^typ>\<open>string\<close> (a list of 8-bit characters); lengths count
    bytes, as \<^verbatim>\<open>len\<close> does. \<^verbatim>\<open>time.Time\<close> and \<^verbatim>\<open>time.Duration\<close> are integers counting
    nanoseconds; \<open>zero_time\<close> is Go's zero \<^verbatim>\<open>time.Time{}\<close>.
  \<^item> What the source uses of Go's standard library on strings: \<^verbatim>\<open>strings.TrimSpace\<close>,
    \<^verbatim>\<open>strings.HasPrefix\<close>, \<^verbatim>\<open>strings.TrimRight\<close>, \<^verbatim>\<open>strings.Split\<close>, \<^verbatim>\<open>strings.ToLower\<close> (ASCII),
    \<^verbatim>\<open>strconv.Itoa\<close>, \<^verbatim>\<open>strconv.Atoi\<close> and \<^verbatim>\<open>utf8.Valid\<close>.
  \<^item> Go error values are finite trees: a node carries what is specific to its concrete type, the
    children are what its \<^verbatim>\<open>Unwrap\<close> method returns. \<open>errors_as\<close> and \<open>errors_is\<close> are
    \<^verbatim>\<open>errors.As\<close> and \<^verbatim>\<open>errors.Is\<close>: the first node in pre-order, and some node.
\<close>

named_theorems go_strings \<open>characterisations of the string functions\<close>
named_theorems go_errors \<open>evaluation of the error tree walks\<close>

section \<open>Bytes and strings\<close>

type_synonym gotime = int

definition zero_time :: gotime where
  "zero_time = - 62135596800000000000"

definition byte :: "char \<Rightarrow> nat" where
  "byte c = of_char c"

definition has_prefix :: "string \<Rightarrow> string \<Rightarrow> bool" where
  "has_prefix s p \<longleftrightarrow> take (length p) s = p"

lemma has_prefix_iff [go_strings]: "has_prefix s p \<longleftrightarrow> (\<exists>t. s = p @ t)"
  unfolding has_prefix_def by (metis append_eq_conv_conj append_take_drop_id)

lemma has_prefix_append [simp]: "has_prefix (p @ t) p"
  by (simp add: has_prefix_def)

lemma has_prefix_Nil [simp]: "has_prefix s []"
  by (simp add: has_prefix_def)

definition has_suffix :: "string \<Rightarrow> string \<Rightarrow> bool" where
  "has_suffix s p \<longleftrightarrow> has_prefix (rev s) (rev p)"

lemma has_suffix_iff [go_strings]: "has_suffix s p \<longleftrightarrow> (\<exists>t. s = t @ p)"
  unfolding has_suffix_def has_prefix_iff by (metis rev_append rev_rev_ident)

fun split_on :: "char \<Rightarrow> string \<Rightarrow> string list" where
  "split_on d [] = [[]]"
| "split_on d (c # s) =
     (if c = d then [] # split_on d s
      else (case split_on d s of [] \<Rightarrow> [[c]] | w # ws \<Rightarrow> (c # w) # ws))"

lemma split_on_nonempty [simp]: "split_on d s \<noteq> []"
  by (induction s) (auto split: list.splits)

fun join_with :: "char \<Rightarrow> string list \<Rightarrow> string" where
  "join_with d [] = []"
| "join_with d [w] = w"
| "join_with d (w # ws) = w @ d # join_with d ws"

lemma join_with_Cons [simp]: "ws \<noteq> [] \<Longrightarrow> join_with d (w # ws) = w @ d # join_with d ws"
  by (cases ws) auto

lemma join_split [simp]: "join_with d (split_on d s) = s"
proof (induction s)
  case (Cons c s)
  then show ?case by (cases "split_on d s"; cases "tl (split_on d s)") auto
qed simp

lemma split_on_delim_free: "w \<in> set (split_on d s) \<Longrightarrow> d \<notin> set w"
proof (induction s arbitrary: w)
  case (Cons c s)
  then show ?case by (cases "split_on d s") (auto split: if_splits)
qed simp

lemma split_on_free: "d \<notin> set w \<Longrightarrow> split_on d w = [w]"
  by (induction w) auto

lemma split_on_append: "d \<notin> set w \<Longrightarrow> split_on d (w @ d # s) = w # split_on d s"
  by (induction w) auto

lemma split_join:
  "ws \<noteq> [] \<Longrightarrow> \<forall>w \<in> set ws. d \<notin> set w \<Longrightarrow> split_on d (join_with d ws) = ws"
  by (induction d ws rule: join_with.induct) (auto simp: split_on_free split_on_append)

text \<open>ASCII lower-casing, all that \<^verbatim>\<open>strings.ToLower\<close> is used for here.\<close>

definition lower_char :: "char \<Rightarrow> char" where
  "lower_char c = (if 65 \<le> byte c \<and> byte c \<le> 90 then char_of (byte c + 32) else c)"

definition to_lower :: "string \<Rightarrow> string" where
  "to_lower s = map lower_char s"

definition equal_fold :: "string \<Rightarrow> string \<Rightarrow> bool" where
  "equal_fold s t \<longleftrightarrow> to_lower s = to_lower t"

fun trim_right_char :: "char \<Rightarrow> string \<Rightarrow> string" where
  "trim_right_char d s = rev (dropWhile (\<lambda>c. c = d) (rev s))"

lemma trim_right_char_no_suffix:
  "trim_right_char d s = [] \<or> last (trim_right_char d s) \<noteq> d"
proof (cases "dropWhile (\<lambda>c. c = d) (rev s)")
  case (Cons a t)
  then have "a \<noteq> d" using hd_dropWhile [of "\<lambda>c. c = d" "rev s"] by simp
  with Cons show ?thesis by simp
qed simp

section \<open>Unicode white space\<close>

text \<open>
  The UTF-8 encodings of the code points with the White_Space property, in \<^verbatim>\<open>unicode.IsSpace\<close>.
  None is a prefix of another and each starts with a byte that cannot continue another rune, so
  trimming by runes is trimming by these byte strings.
\<close>

definition space_runes :: "string list" where
  "space_runes = map (map char_of)
     ([[9], [10], [11], [12], [13], [32], [194, 133], [194, 160], [225, 154, 128],
       [226, 128, 128], [226, 128, 129], [226, 128, 130], [226, 128, 131], [226, 128, 132],
       [226, 128, 133], [226, 128, 134], [226, 128, 135], [226, 128, 136], [226, 128, 137],
       [226, 128, 138], [226, 128, 168], [226, 128, 169], [226, 128, 175], [226, 129, 159],
       [227, 128, 128]] :: nat list list)"

text \<open>The same bytes as characters, for evaluation.\<close>

lemma space_runes_chars [code]:
  "space_runes = [[CHR 0x09], [CHR 0x0A], [CHR 0x0B], [CHR 0x0C], [CHR 0x0D], [CHR 0x20],
    [CHR 0xC2, CHR 0x85], [CHR 0xC2, CHR 0xA0], [CHR 0xE1, CHR 0x9A, CHR 0x80],
    [CHR 0xE2, CHR 0x80, CHR 0x80], [CHR 0xE2, CHR 0x80, CHR 0x81], [CHR 0xE2, CHR 0x80, CHR 0x82],
    [CHR 0xE2, CHR 0x80, CHR 0x83], [CHR 0xE2, CHR 0x80, CHR 0x84], [CHR 0xE2, CHR 0x80, CHR 0x85],
    [CHR 0xE2, CHR 0x80, CHR 0x86], [CHR 0xE2, CHR 0x80, CHR 0x87], [CHR 0xE2, CHR 0x80, CHR 0x88],
    [CHR 0xE2, CHR 0x80, CHR 0x89], [CHR 0xE2, CHR 0x80, CHR 0x8A], [CHR 0xE2, CHR 0x80, CHR 0xA8],
    [CHR 0xE2, CHR 0x80, CHR 0xA9], [CHR 0xE2, CHR 0x80, CHR 0xAF], [CHR 0xE2, CHR 0x81, CHR 0x9F],
    [CHR 0xE3, CHR 0x80, CHR 0x80]]"
  unfolding space_runes_def list.map by (simp add: char_of_def bit_0)

fun strip_first :: "string list \<Rightarrow> string \<Rightarrow> string option" where
  "strip_first [] s = None"
| "strip_first (w # ws) s =
     (if w \<noteq> [] \<and> has_prefix s w then Some (drop (length w) s) else strip_first ws s)"

lemma strip_first_shorter: "strip_first ws s = Some t \<Longrightarrow> length t < length s"
  by (induction ws) (auto simp: has_prefix_iff split: if_splits)

lemma strip_first_suffix: "strip_first ws s = Some t \<Longrightarrow> \<exists>w. s = w @ t"
  by (induction ws) (auto simp: has_prefix_iff split: if_splits)

function trim_left :: "string list \<Rightarrow> string \<Rightarrow> string" where
  "trim_left ws s = (case strip_first ws s of None \<Rightarrow> s | Some t \<Rightarrow> trim_left ws t)"
  by pat_completeness auto
termination
  by (relation "measure (\<lambda>(ws, s). length s)") (auto simp: strip_first_shorter)

declare trim_left.simps [simp del]

lemma trim_left_done: "strip_first ws (trim_left ws s) = None"
proof (induction ws s rule: trim_left.induct)
  case (1 ws s)
  then show ?case
    by (cases "strip_first ws s") (auto simp: trim_left.simps [of ws s])
qed

lemma trim_left_fix: "strip_first ws s = None \<Longrightarrow> trim_left ws s = s"
  by (simp add: trim_left.simps)

lemma trim_left_length: "length (trim_left ws s) \<le> length s"
proof (induction ws s rule: trim_left.induct)
  case (1 ws s)
  then show ?case
    by (cases "strip_first ws s")
      (auto simp: trim_left.simps [of ws s] dest: strip_first_shorter)
qed

lemma trim_left_suffix: "\<exists>w. s = w @ trim_left ws s"
proof (induction ws s rule: trim_left.induct)
  case (1 ws s)
  show ?case
  proof (cases "strip_first ws s")
    case (Some t)
    from strip_first_suffix [OF Some] obtain w where "s = w @ t" by blast
    moreover from 1 [OF Some] obtain v where "t = v @ trim_left ws t" by blast
    ultimately have "s = (w @ v) @ trim_left ws t" by (metis append.assoc)
    with Some show ?thesis by (metis option.simps(5) trim_left.simps)
  qed (simp add: trim_left.simps [of ws s])
qed

definition trim_space :: "string \<Rightarrow> string" where
  "trim_space s = rev (trim_left (map rev space_runes) (rev (trim_left space_runes s)))"

lemma trim_space_length: "length (trim_space s) \<le> length s"
proof -
  have "length (trim_space s) \<le> length (rev (trim_left space_runes s))"
    unfolding trim_space_def by (metis length_rev trim_left_length)
  then show ?thesis using trim_left_length [of space_runes s] by simp
qed

lemma strip_first_None_prefix: "strip_first ws (s @ t) = None \<Longrightarrow> strip_first ws s = None"
proof (induction ws)
  case (Cons w ws)
  then have "\<not> (w \<noteq> [] \<and> has_prefix (s @ t) w)" and "strip_first ws (s @ t) = None"
    by (auto split: if_splits)
  moreover have "has_prefix s w \<Longrightarrow> has_prefix (s @ t) w"
    by (auto simp: has_prefix_iff)
  ultimately show ?case using Cons.IH by auto
qed simp

lemma trim_space_idem [simp]: "trim_space (trim_space s) = trim_space s"
proof -
  define l where "l = trim_left space_runes s"
  define r where "r = trim_left (map rev space_runes) (rev l)"
  obtain w where "rev l = w @ r" using trim_left_suffix unfolding r_def by blast
  then have l: "l = rev r @ rev w" by (metis rev_append rev_rev_ident)
  have "strip_first space_runes l = None" unfolding l_def by (rule trim_left_done)
  then have "strip_first space_runes (rev r) = None"
    unfolding l by (rule strip_first_None_prefix)
  moreover have "strip_first (map rev space_runes) r = None"
    unfolding r_def by (rule trim_left_done)
  ultimately have "trim_space (rev r) = rev r"
    by (simp add: trim_space_def trim_left_fix)
  then show ?thesis by (simp add: trim_space_def l_def r_def)
qed

lemma trim_space_Nil [simp]: "trim_space [] = []"
  using trim_space_length [of "[]"] by simp

text \<open>A byte that occurs in no white-space rune is never trimmed.\<close>

lemma strip_first_mem:
  "strip_first ws s = Some t \<Longrightarrow> c \<in> set s \<Longrightarrow> \<forall>w \<in> set ws. c \<notin> set w \<Longrightarrow> c \<in> set t"
  by (induction ws) (auto simp: has_prefix_iff split: if_splits)

lemma trim_left_mem:
  "c \<in> set s \<Longrightarrow> \<forall>w \<in> set ws. c \<notin> set w \<Longrightarrow> c \<in> set (trim_left ws s)"
proof (induction ws s rule: trim_left.induct)
  case (1 ws s)
  then show ?case
    by (cases "strip_first ws s") (auto simp: trim_left.simps [of ws s] dest: strip_first_mem)
qed

definition solid :: "char \<Rightarrow> bool" where
  "solid c \<longleftrightarrow> 33 \<le> byte c \<and> byte c \<le> 126"

lemma solid_not_space: "solid c \<Longrightarrow> \<forall>w \<in> set space_runes. c \<notin> set w"
  by (auto simp: space_runes_def solid_def byte_def)

lemma strip_first_None: "\<forall>w \<in> set ws. \<not> has_prefix s w \<Longrightarrow> strip_first ws s = None"
  by (induction ws) auto

lemma trim_left_solid: "solid c \<Longrightarrow> trim_left space_runes (c # s) = c # s"
  using solid_not_space [of c]
  by (intro trim_left_fix strip_first_None)
    (auto simp: has_prefix_iff Cons_eq_append_conv space_runes_def)

lemma trim_space_solid:
  assumes "solid c"
  shows "\<exists>t. trim_space (c # s) = c # t"
proof -
  define r where "r = trim_left (map rev space_runes) (rev (c # s))"
  have "\<forall>w \<in> set (map rev space_runes). c \<notin> set w" using solid_not_space [OF assms] by simp
  then have "c \<in> set r" unfolding r_def by (intro trim_left_mem) simp
  moreover obtain w where "rev (c # s) = w @ r" using trim_left_suffix unfolding r_def by blast
  then have "c # s = rev r @ rev w" by (metis rev_append rev_rev_ident)
  ultimately have "\<exists>t. rev r = c # t" by (cases "rev r") auto
  then show ?thesis
    unfolding trim_space_def trim_left_solid [OF assms] r_def [symmetric] .
qed

section \<open>Decimal integers\<close>

definition digit_char :: "nat \<Rightarrow> char" where
  "digit_char d = char_of (48 + d)"

definition is_digit :: "char \<Rightarrow> bool" where
  "is_digit c \<longleftrightarrow> 48 \<le> byte c \<and> byte c \<le> 57"

definition digit_val :: "char \<Rightarrow> nat" where
  "digit_val c = byte c - 48"

fun nat_digits :: "nat \<Rightarrow> string" where
  "nat_digits n = (if n < 10 then [digit_char n] else nat_digits (n div 10) @ [digit_char (n mod 10)])"

declare nat_digits.simps [simp del]

text \<open>\<^verbatim>\<open>strconv.Itoa\<close>.\<close>

definition itoa :: "int \<Rightarrow> string" where
  "itoa i = (if i < 0 then CHR ''-'' # nat_digits (nat (- i)) else nat_digits (nat i))"

definition digits_val :: "string \<Rightarrow> nat" where
  "digits_val s = foldl (\<lambda>acc c. 10 * acc + digit_val c) 0 s"

text \<open>\<^verbatim>\<open>strconv.Atoi\<close> on a 64-bit platform: an optional sign, at least one digit, in range.\<close>

definition atoi :: "string \<Rightarrow> int option" where
  "atoi s =
     (let (neg, ds) = (case s of
            [] \<Rightarrow> (False, [])
          | c # t \<Rightarrow> (if c = CHR ''-'' then (True, t)
                     else if c = CHR ''+'' then (False, t) else (False, s)))
      in if ds = [] \<or> \<not> list_all is_digit ds then None
         else (let v = (if neg then - int (digits_val ds) else int (digits_val ds))
               in if - (2 ^ 63) \<le> v \<and> v < 2 ^ 63 then Some v else None))"

lemma byte_digit_char: "d < 10 \<Longrightarrow> byte (digit_char d) = 48 + d"
  by (simp add: byte_def digit_char_def)

lemma digit_char_props [simp]:
  "d < 10 \<Longrightarrow> is_digit (digit_char d)"
  "d < 10 \<Longrightarrow> digit_val (digit_char d) = d"
  by (simp_all add: is_digit_def digit_val_def byte_digit_char)

lemma nat_digits_nonempty [simp]: "nat_digits n \<noteq> []"
  by (simp add: nat_digits.simps [of n])

lemma nat_digits_are_digits: "list_all is_digit (nat_digits n)"
proof (induction n rule: nat_digits.induct)
  case (1 n)
  then show ?case by (cases "n < 10") (simp_all add: nat_digits.simps [of n])
qed

lemma digits_val_snoc: "digits_val (s @ [c]) = 10 * digits_val s + digit_val c"
  by (simp add: digits_val_def)

lemma digits_val_nat_digits [simp]: "digits_val (nat_digits n) = n"
proof (induction n rule: nat_digits.induct)
  case (1 n)
  then show ?case
  proof (cases "n < 10")
    case True
    then show ?thesis by (simp add: nat_digits.simps [of n] digits_val_def)
  next
    case False
    with 1 show ?thesis by (simp add: nat_digits.simps [of n] digits_val_snoc)
  qed
qed

lemma nat_digits_inj: "nat_digits m = nat_digits n \<Longrightarrow> m = n"
  by (metis digits_val_nat_digits)

lemma is_digit_not_sign: "is_digit c \<Longrightarrow> c \<noteq> CHR ''-'' \<and> c \<noteq> CHR ''+''"
  by (auto simp: is_digit_def byte_def)

lemma atoi_nat_digits: "n < 2 ^ 63 \<Longrightarrow> atoi (nat_digits n) = Some (int n)"
proof -
  assume n: "n < 2 ^ 63"
  obtain c t where ct: "nat_digits n = c # t" by (cases "nat_digits n") auto
  with nat_digits_are_digits [of n] have "is_digit c" by simp
  then have c: "c \<noteq> CHR ''-''" "c \<noteq> CHR ''+''" using is_digit_not_sign by blast+
  have d: "list_all is_digit (c # t)" "digits_val (c # t) = n"
    using nat_digits_are_digits [of n] digits_val_nat_digits [of n] ct by simp_all
  from n have "int n < 2 ^ 63" by simp
  with c d show ?thesis by (simp add: atoi_def ct)
qed

section \<open>UTF-8 validity\<close>

definition cont_byte :: "char \<Rightarrow> bool" where
  "cont_byte c \<longleftrightarrow> 128 \<le> byte c \<and> byte c \<le> 191"

definition in_range :: "nat \<Rightarrow> nat \<Rightarrow> char \<Rightarrow> bool" where
  "in_range lo hi c \<longleftrightarrow> lo \<le> byte c \<and> byte c \<le> hi"

text \<open>
  \<^verbatim>\<open>utf8.Valid\<close>: one rune at a time, with the accept ranges of the second byte that exclude
  overlong forms, surrogates and code points above U+10FFFF.
\<close>

fun utf8_valid :: "string \<Rightarrow> bool" where
  "utf8_valid [] = True"
| "utf8_valid (a # s) =
     (if byte a < 128 then utf8_valid s
      else if in_range 194 223 a then (case s of b # t \<Rightarrow> cont_byte b \<and> utf8_valid t | [] \<Rightarrow> False)
      else if in_range 224 239 a then
        (case s of b # c # t \<Rightarrow>
            (if byte a = 224 then in_range 160 191 b else if byte a = 237 then in_range 128 159 b
             else cont_byte b) \<and> cont_byte c \<and> utf8_valid t
         | _ \<Rightarrow> False)
      else if in_range 240 244 a then
        (case s of b # c # d # t \<Rightarrow>
            (if byte a = 240 then in_range 144 191 b else if byte a = 244 then in_range 128 143 b
             else cont_byte b) \<and> cont_byte c \<and> cont_byte d \<and> utf8_valid t
         | _ \<Rightarrow> False)
      else False)"

lemma utf8_valid_ascii: "list_all (\<lambda>c. byte c < 128) s \<Longrightarrow> utf8_valid s"
  by (induction s) auto

section \<open>Error trees\<close>

datatype 'e goerr = Err (err_label: 'e) (err_causes: "'e goerr list")

fun first_some :: "'a option list \<Rightarrow> 'a option" where
  "first_some [] = None"
| "first_some (x # xs) = (case x of Some a \<Rightarrow> Some a | None \<Rightarrow> first_some xs)"

lemma first_some_None: "first_some xs = None \<longleftrightarrow> (\<forall>x \<in> set xs. x = None)"
  by (induction xs) (auto split: option.splits)

fun errors_as :: "('e \<Rightarrow> 'a option) \<Rightarrow> 'e goerr \<Rightarrow> 'a option" where
  "errors_as p (Err l cs) =
     (case p l of Some a \<Rightarrow> Some a | None \<Rightarrow> first_some (map (errors_as p) cs))"

definition errors_is :: "('e \<Rightarrow> bool) \<Rightarrow> 'e goerr \<Rightarrow> bool" where
  "errors_is p e \<longleftrightarrow> errors_as (\<lambda>l. if p l then Some () else None) e \<noteq> None"

lemma errors_as_None_iff: "errors_as p e = None \<longleftrightarrow> (\<forall>l \<in> set_goerr e. p l = None)"
  by (induction p e rule: errors_as.induct)
    (auto simp: first_some_None split: option.splits)

lemma first_some_Some: "first_some xs = Some a \<Longrightarrow> Some a \<in> set xs"
  by (induction xs) (auto split: option.splits)

lemma errors_as_Some: "errors_as p e = Some a \<Longrightarrow> \<exists>l \<in> set_goerr e. p l = Some a"
proof (induction p e rule: errors_as.induct)
  case (1 p l cs)
  show ?case
  proof (cases "p l")
    case None
    with "1.prems" have "first_some (map (errors_as p) cs) = Some a" by simp
    then have "Some a \<in> set (map (errors_as p) cs)" by (rule first_some_Some)
    then obtain c where "c \<in> set cs" "errors_as p c = Some a" by auto
    with None "1.IH" show ?thesis by fastforce
  next
    case (Some b)
    with "1.prems" show ?thesis by auto
  qed
qed

lemma errors_is_iff [go_errors]: "errors_is p e \<longleftrightarrow> (\<exists>l \<in> set_goerr e. p l)"
  by (auto simp: errors_is_def errors_as_None_iff split: if_splits)

lemma errors_as_leaf [simp]: "errors_as p (Err l []) = p l"
  by (simp split: option.splits)

lemma errors_as_hit [simp]: "p l = Some a \<Longrightarrow> errors_as p (Err l cs) = Some a"
  by simp

lemma errors_as_skip [simp]: "p l = None \<Longrightarrow> errors_as p (Err l [c]) = errors_as p c"
  by (simp split: option.splits)

section \<open>Connect codes\<close>

text \<open>\<^verbatim>\<open>connect.Code\<close>: the codes of the Connect protocol; a number outside them is \<open>CodeOther\<close>.\<close>

datatype connect_code =
    CodeCanceled | CodeUnknown | CodeInvalidArgument | CodeDeadlineExceeded | CodeNotFound
  | CodeAlreadyExists | CodePermissionDenied | CodeResourceExhausted | CodeFailedPrecondition
  | CodeAborted | CodeOutOfRange | CodeUnimplemented | CodeInternal | CodeUnavailable
  | CodeDataLoss | CodeUnauthenticated | CodeOther nat

end
