(* ===== verification/GoJSON.thy ===== *)
theory GoJSON
  imports Prelude
begin

text \<open>
  \<^verbatim>\<open>encoding/json.Valid\<close>, which \<^verbatim>\<open>objectJSON\<close> relies on: the scanner of Go's standard library,
  one byte at a time, with its stack of open objects and arrays and its nesting limit.
  \<open>json_valid_render\<close> shows that it accepts every compact JSON text up to that depth.
\<close>

section \<open>The scanner\<close>

datatype parse_state = ParseObjectKey | ParseObjectValue | ParseArrayValue

datatype scan_state =
    BeginValue | BeginValueOrEmpty | BeginStringOrEmpty | BeginString | EndValue | EndTop
  | InString | InStringEsc | InStringEscU | InStringEscU1 | InStringEscU12 | InStringEscU123
  | SNeg | S0 | S1 | SDot | SDot0 | SE | SESign | SE0
  | ST | STr | STru | SF | SFa | SFal | SFals | SN | SNu | SNul

definition max_nesting_depth :: nat where
  "max_nesting_depth = 10000"

definition json_space :: "char \<Rightarrow> bool" where
  "json_space c \<longleftrightarrow> c = CHR '' '' \<or> byte c = 9 \<or> byte c = 10 \<or> byte c = 13"

definition hex_digit :: "char \<Rightarrow> bool" where
  "hex_digit c \<longleftrightarrow> is_digit c \<or> in_range 97 102 c \<or> in_range 65 70 c"

definition push_state ::
  "scan_state \<Rightarrow> parse_state \<Rightarrow> parse_state list \<Rightarrow> (scan_state \<times> parse_state list) option" where
  "push_state s p ps = (if length (p # ps) \<le> max_nesting_depth then Some (s, p # ps) else None)"

fun pop_state :: "parse_state list \<Rightarrow> (scan_state \<times> parse_state list) option" where
  "pop_state [] = None"
| "pop_state [p] = Some (EndTop, [])"
| "pop_state (p # q # ps) = Some (EndValue, q # ps)"

fun end_value :: "parse_state list \<Rightarrow> char \<Rightarrow> (scan_state \<times> parse_state list) option" where
  "end_value [] c = (if json_space c then Some (EndTop, []) else None)"
| "end_value (p # ps) c =
     (if json_space c then Some (EndValue, p # ps)
      else (case p of
         ParseObjectKey \<Rightarrow>
           (if c = CHR '':'' then Some (BeginValue, ParseObjectValue # ps) else None)
       | ParseObjectValue \<Rightarrow>
           (if c = CHR '','' then Some (BeginString, ParseObjectKey # ps)
            else if c = CHR ''}'' then pop_state (p # ps) else None)
       | ParseArrayValue \<Rightarrow>
           (if c = CHR '','' then Some (BeginValue, p # ps)
            else if c = CHR '']'' then pop_state (p # ps) else None)))"

definition begin_value :: "parse_state list \<Rightarrow> char \<Rightarrow> (scan_state \<times> parse_state list) option" where
  "begin_value ps c =
     (if json_space c then Some (BeginValue, ps)
      else if c = CHR ''{'' then push_state BeginStringOrEmpty ParseObjectKey ps
      else if c = CHR ''['' then push_state BeginValueOrEmpty ParseArrayValue ps
      else if c = CHR 0x22 then Some (InString, ps)
      else if c = CHR ''-'' then Some (SNeg, ps)
      else if c = CHR ''0'' then Some (S0, ps)
      else if c = CHR ''t'' then Some (ST, ps)
      else if c = CHR ''f'' then Some (SF, ps)
      else if c = CHR ''n'' then Some (SN, ps)
      else if is_digit c then Some (S1, ps)
      else None)"

definition begin_string :: "parse_state list \<Rightarrow> char \<Rightarrow> (scan_state \<times> parse_state list) option" where
  "begin_string ps c =
     (if json_space c then Some (BeginString, ps)
      else if c = CHR 0x22 then Some (InString, ps) else None)"

definition expect ::
  "char \<Rightarrow> scan_state \<Rightarrow> parse_state list \<Rightarrow> char \<Rightarrow> (scan_state \<times> parse_state list) option" where
  "expect d s ps c = (if c = d then Some (s, ps) else None)"

definition expect_hex ::
  "scan_state \<Rightarrow> parse_state list \<Rightarrow> char \<Rightarrow> (scan_state \<times> parse_state list) option" where
  "expect_hex s ps c = (if hex_digit c then Some (s, ps) else None)"

definition state_0 :: "parse_state list \<Rightarrow> char \<Rightarrow> (scan_state \<times> parse_state list) option" where
  "state_0 ps c =
     (if c = CHR ''.'' then Some (SDot, ps)
      else if c = CHR ''e'' \<or> c = CHR ''E'' then Some (SE, ps)
      else end_value ps c)"

definition state_e_sign :: "parse_state list \<Rightarrow> char \<Rightarrow> (scan_state \<times> parse_state list) option" where
  "state_e_sign ps c = (if is_digit c then Some (SE0, ps) else None)"

fun scan_step :: "scan_state \<Rightarrow> parse_state list \<Rightarrow> char \<Rightarrow> (scan_state \<times> parse_state list) option" where
  "scan_step BeginValue ps c = begin_value ps c"
| "scan_step BeginValueOrEmpty ps c =
     (if json_space c then Some (BeginValueOrEmpty, ps)
      else if c = CHR '']'' then end_value ps c else begin_value ps c)"
| "scan_step BeginStringOrEmpty ps c =
     (if json_space c then Some (BeginStringOrEmpty, ps)
      else if c = CHR ''}'' then
        (case ps of [] \<Rightarrow> None | p # qs \<Rightarrow> end_value (ParseObjectValue # qs) c)
      else begin_string ps c)"
| "scan_step BeginString ps c = begin_string ps c"
| "scan_step EndValue ps c = end_value ps c"
| "scan_step EndTop ps c = (if json_space c then Some (EndTop, ps) else None)"
| "scan_step InString ps c =
     (if c = CHR 0x22 then Some (EndValue, ps)
      else if c = CHR 0x5C then Some (InStringEsc, ps)
      else if byte c < 32 then None else Some (InString, ps))"
| "scan_step InStringEsc ps c =
     (if c \<in> set (CHR 0x5C # CHR 0x22 # ''bfnrt/'') then Some (InString, ps)
      else if c = CHR ''u'' then Some (InStringEscU, ps) else None)"
| "scan_step InStringEscU ps c = expect_hex InStringEscU1 ps c"
| "scan_step InStringEscU1 ps c = expect_hex InStringEscU12 ps c"
| "scan_step InStringEscU12 ps c = expect_hex InStringEscU123 ps c"
| "scan_step InStringEscU123 ps c = expect_hex InString ps c"
| "scan_step SNeg ps c =
     (if c = CHR ''0'' then Some (S0, ps) else if is_digit c then Some (S1, ps) else None)"
| "scan_step S1 ps c = (if is_digit c then Some (S1, ps) else state_0 ps c)"
| "scan_step S0 ps c = state_0 ps c"
| "scan_step SDot ps c = (if is_digit c then Some (SDot0, ps) else None)"
| "scan_step SDot0 ps c =
     (if is_digit c then Some (SDot0, ps)
      else if c = CHR ''e'' \<or> c = CHR ''E'' then Some (SE, ps) else end_value ps c)"
| "scan_step SE ps c =
     (if c = CHR ''+'' \<or> c = CHR ''-'' then Some (SESign, ps) else state_e_sign ps c)"
| "scan_step SESign ps c = state_e_sign ps c"
| "scan_step SE0 ps c = (if is_digit c then Some (SE0, ps) else end_value ps c)"
| "scan_step ST ps c = expect (CHR ''r'') STr ps c"
| "scan_step STr ps c = expect (CHR ''u'') STru ps c"
| "scan_step STru ps c = expect (CHR ''e'') EndValue ps c"
| "scan_step SF ps c = expect (CHR ''a'') SFa ps c"
| "scan_step SFa ps c = expect (CHR ''l'') SFal ps c"
| "scan_step SFal ps c = expect (CHR ''s'') SFals ps c"
| "scan_step SFals ps c = expect (CHR ''e'') EndValue ps c"
| "scan_step SN ps c = expect (CHR ''u'') SNu ps c"
| "scan_step SNu ps c = expect (CHR ''l'') SNul ps c"
| "scan_step SNul ps c = expect (CHR ''l'') EndValue ps c"

fun scan_all :: "scan_state \<times> parse_state list \<Rightarrow> string \<Rightarrow> (scan_state \<times> parse_state list) option" where
  "scan_all s [] = Some s"
| "scan_all (s, ps) (c # cs) =
     (case scan_step s ps c of None \<Rightarrow> None | Some s' \<Rightarrow> scan_all s' cs)"

definition scan_eof :: "scan_state \<times> parse_state list \<Rightarrow> bool" where
  "scan_eof s = (fst s = EndTop \<or>
     (case scan_step (fst s) (snd s) (CHR '' '') of None \<Rightarrow> False | Some s' \<Rightarrow> fst s' = EndTop))"

definition json_valid :: "string \<Rightarrow> bool" where
  "json_valid data =
     (case scan_all (BeginValue, []) data of None \<Rightarrow> False | Some s \<Rightarrow> scan_eof s)"

lemma scan_all_append:
  "scan_all s (xs @ ys) = (case scan_all s xs of None \<Rightarrow> None | Some t \<Rightarrow> scan_all t ys)"
  by (induction s xs rule: scan_all.induct) (auto split: option.splits)

section \<open>Compact JSON texts\<close>

text \<open>
  A JSON value with its number and string spellings: the text of a number matches the grammar of
  RFC 8259, the body of a string is the sequence of its plain bytes and escapes.
\<close>

datatype str_item = Plain char | Esc char | EscU char char char char

datatype json =
    JNull | JTrue | JFalse
  | JNum string
  | JStr "str_item list"
  | JArr "json list"
  | JObj "(str_item list \<times> json) list"

fun item_ok :: "str_item \<Rightarrow> bool" where
  "item_ok (Plain c) \<longleftrightarrow> c \<noteq> CHR 0x22 \<and> c \<noteq> CHR 0x5C \<and> 32 \<le> byte c"
| "item_ok (Esc c) \<longleftrightarrow> c \<in> set (CHR 0x5C # CHR 0x22 # ''bfnrt/'')"
| "item_ok (EscU a b c d) \<longleftrightarrow> hex_digit a \<and> hex_digit b \<and> hex_digit c \<and> hex_digit d"

fun item_text :: "str_item \<Rightarrow> string" where
  "item_text (Plain c) = [c]"
| "item_text (Esc c) = [CHR 0x5C, c]"
| "item_text (EscU a b c d) = [CHR 0x5C, CHR ''u'', a, b, c, d]"

definition str_text :: "str_item list \<Rightarrow> string" where
  "str_text is = CHR 0x22 # concat (map item_text is) @ [CHR 0x22]"

definition number_ok :: "string \<Rightarrow> bool" where
  "number_ok n \<longleftrightarrow> n \<noteq> [] \<and> (case scan_all (BeginValue, []) n of
      Some (s, ps) \<Rightarrow> ps = [] \<and> s \<in> {S0, S1, SDot0, SE0} | None \<Rightarrow> False)
      \<and> (hd n = CHR ''-'' \<or> is_digit (hd n))"

fun render :: "json \<Rightarrow> string" where
  "render JNull = ''null''"
| "render JTrue = ''true''"
| "render JFalse = ''false''"
| "render (JNum n) = n"
| "render (JStr is) = str_text is"
| "render (JArr vs) = CHR ''['' # join_with (CHR '','') (map render vs) @ '']''"
| "render (JObj fs) =
     CHR ''{'' # join_with (CHR '','') (map (\<lambda>(k, v). str_text k @ CHR '':'' # render v) fs) @ ''}''"

fun json_ok :: "json \<Rightarrow> bool" where
  "json_ok (JNum n) \<longleftrightarrow> number_ok n"
| "json_ok (JStr is) \<longleftrightarrow> list_all item_ok is"
| "json_ok (JArr vs) \<longleftrightarrow> (\<forall>v \<in> set vs. json_ok v)"
| "json_ok (JObj fs) \<longleftrightarrow> (\<forall>(k, v) \<in> set fs. list_all item_ok k \<and> json_ok v)"
| "json_ok _ \<longleftrightarrow> True"

fun depth :: "json \<Rightarrow> nat" where
  "depth (JArr vs) = Suc (Max (insert 0 (depth ` set vs)))"
| "depth (JObj fs) = Suc (Max (insert 0 ((\<lambda>(k, v). depth v) ` set fs)))"
| "depth _ = 0"

section \<open>Every compact text is accepted\<close>

text \<open>
  After a value the scanner treats a delimiter as the end of that value: \<open>value_done ps t\<close>.
\<close>

definition delimiters :: "char set" where
  "delimiters = {CHR '','', CHR '']'', CHR ''}'', CHR '' ''}"

definition value_done :: "parse_state list \<Rightarrow> scan_state \<times> parse_state list \<Rightarrow> bool" where
  "value_done ps t \<longleftrightarrow> (\<forall>c \<in> delimiters. scan_step (fst t) (snd t) c = end_value ps c)"

definition number_states :: "scan_state set" where
  "number_states = {SNeg, S0, S1, SDot, SDot0, SE, SESign, SE0}"

lemma delimiter_bytes:
  "c \<in> delimiters \<Longrightarrow> \<not> is_digit c \<and> c \<noteq> CHR ''.'' \<and> c \<noteq> CHR ''e'' \<and> c \<noteq> CHR ''E''"
  by (auto simp: delimiters_def is_digit_def byte_def)

lemma value_done_number: "s \<in> {S0, S1, SDot0, SE0} \<Longrightarrow> value_done ps (s, ps)"
  by (auto simp: value_done_def state_0_def dest: delimiter_bytes)

lemma value_done_EndValue [simp]: "value_done ps (EndValue, ps)"
  by (simp add: value_done_def)

lemma value_done_EndTop [simp]: "value_done [] (EndTop, [])"
  by (simp add: value_done_def)

lemma number_step:
  assumes "s \<in> number_states" and "scan_step s [] c = Some (s', qs)"
  shows "(s' \<in> number_states \<and> qs = [] \<and> scan_step s ps c = Some (s', ps)) \<or> (s', qs) = (EndTop, [])"
  using assms
  by (auto simp: number_states_def state_0_def state_e_sign_def split: if_splits)

lemma EndTop_stays: "scan_all (EndTop, []) n = Some (s, qs) \<Longrightarrow> s = EndTop"
  by (induction n) (auto split: if_splits)

lemma number_scan:
  assumes "s \<in> number_states" and "scan_all (s, []) n = Some (s', [])" and "s' \<noteq> EndTop"
  shows "scan_all (s, ps) n = Some (s', ps)"
  using assms
proof (induction n arbitrary: s)
  case (Cons c n)
  from Cons.prems(2) obtain t qs where t: "scan_step s [] c = Some (t, qs)"
    and rest: "scan_all (t, qs) n = Some (s', [])"
    by (auto split: option.splits)
  from rest Cons.prems(3) have "(t, qs) \<noteq> (EndTop, [])" using EndTop_stays by blast
  with number_step [OF Cons.prems(1) t] have "t \<in> number_states" "qs = []"
    and "scan_step s ps c = Some (t, ps)" by auto
  with Cons.IH [of t] rest Cons.prems(3) show ?case by simp
qed simp

lemma number_head:
  assumes "c = CHR ''-'' \<or> is_digit c" and "begin_value [] c = Some (t, qs)"
  shows "t \<in> number_states \<and> qs = [] \<and> begin_value ps c = Some (t, ps)"
proof -
  have "\<not> json_space c" "c \<notin> {CHR ''{'', CHR ''['', CHR 0x22, CHR ''t'', CHR ''f'', CHR ''n''}"
    using assms(1) by (auto simp: json_space_def is_digit_def byte_def)
  with assms show ?thesis
    by (auto simp: begin_value_def number_states_def split: if_splits)
qed

lemma scan_number:
  assumes "number_ok n"
  shows "\<exists>t. scan_all (BeginValue, ps) n = Some t \<and> value_done ps t"
proof -
  from assms obtain c m where n: "n = c # m" by (cases n) (auto simp: number_ok_def)
  from assms obtain s where s: "scan_all (BeginValue, []) n = Some (s, [])"
    "s \<in> {S0, S1, SDot0, SE0}" and hd: "c = CHR ''-'' \<or> is_digit c"
    by (auto simp: number_ok_def n split: option.splits)
  then obtain t qs where t: "begin_value [] c = Some (t, qs)" "scan_all (t, qs) m = Some (s, [])"
    by (auto simp: n split: option.splits)
  from number_head [OF hd t(1)] have t': "t \<in> number_states" "qs = []" "begin_value ps c = Some (t, ps)"
    by auto
  have "scan_all (t, ps) m = Some (s, ps)"
    by (rule number_scan) (use t t' s in auto)
  with t' s(2) show ?thesis by (simp add: n value_done_number)
qed

lemma scan_item: "item_ok i \<Longrightarrow> scan_all (InString, ps) (item_text i @ r) = scan_all (InString, ps) r"
  by (cases i) (auto simp: expect_hex_def)

lemma scan_items:
  "list_all item_ok is \<Longrightarrow> scan_all (InString, ps) (concat (map item_text is) @ r) = scan_all (InString, ps) r"
  by (induction "is") (auto simp: scan_item)

lemma quote_not_space [simp]: "\<not> json_space (CHR 0x22)"
  by (simp add: json_space_def byte_def)

lemma scan_str_value:
  assumes "list_all item_ok is"
  shows "scan_all (BeginValue, ps) (str_text is @ r) = scan_all (EndValue, ps) r"
  using scan_items [OF assms, of ps "CHR 0x22 # r"]
  by (simp add: str_text_def begin_value_def)

lemma scan_str_key:
  assumes "list_all item_ok is" and "s = BeginString \<or> s = BeginStringOrEmpty"
  shows "scan_all (s, ps) (str_text is @ r) = scan_all (EndValue, ps) r"
  using scan_items [OF assms(1), of ps "CHR 0x22 # r"] assms(2)
  by (auto simp: str_text_def begin_string_def)

lemma value_doneD:
  assumes "value_done ps t" and "c \<in> delimiters"
  shows "scan_all t (c # r) = (case end_value ps c of None \<Rightarrow> None | Some u \<Rightarrow> scan_all u r)"
  using assms by (cases t) (simp add: value_done_def)

lemma delimiters_mem [simp]:
  "CHR '','' \<in> delimiters" "CHR '']'' \<in> delimiters" "CHR ''}'' \<in> delimiters" "CHR '' '' \<in> delimiters"
  by (simp_all add: delimiters_def)

lemma punct_not_space [simp]:
  "\<not> json_space (CHR '','')" "\<not> json_space (CHR '']'')" "\<not> json_space (CHR ''}'')"
  "\<not> json_space (CHR ''{'')" "\<not> json_space (CHR ''['')" "\<not> json_space (CHR '':'')"
  by (simp_all add: json_space_def byte_def)

lemma pop_done: "\<exists>t. pop_state (p # ps) = Some t \<and> value_done ps t"
  by (cases ps) auto

lemma render_head:
  "json_ok v \<Longrightarrow> \<exists>c r. render v = c # r \<and> \<not> json_space c \<and> c \<noteq> CHR '']''"
proof (cases v)
  case (JNum n)
  assume "json_ok v"
  then have "n \<noteq> []" "hd n = CHR ''-'' \<or> is_digit (hd n)" by (auto simp: JNum number_ok_def)
  then show ?thesis
    by (cases n) (auto simp: JNum json_space_def is_digit_def byte_def)
qed (auto simp: str_text_def json_space_def byte_def)

lemma scan_array_head:
  "json_ok v \<Longrightarrow> scan_all (BeginValueOrEmpty, ps) (render v @ r) = scan_all (BeginValue, ps) (render v @ r)"
  using render_head [of v] by auto

abbreviation value_scans :: "json \<Rightarrow> parse_state list \<Rightarrow> bool" where
  "value_scans v ps \<equiv> \<exists>t. scan_all (BeginValue, ps) (render v) = Some t \<and> value_done ps t"

lemma value_scans_then:
  assumes "value_scans v ps" and "c \<in> delimiters"
  shows "scan_all (BeginValue, ps) (render v @ c # r)
    = (case end_value ps c of None \<Rightarrow> None | Some u \<Rightarrow> scan_all u r)"
  using assms value_doneD by (fastforce simp: scan_all_append)

lemma scan_elements:
  assumes "vs \<noteq> []" and "\<forall>v \<in> set vs. value_scans v (ParseArrayValue # ps)"
  shows "\<exists>t. scan_all (BeginValue, ParseArrayValue # ps)
      (join_with (CHR '','') (map render vs) @ '']'') = Some t \<and> value_done ps t"
  using assms
proof (induction vs)
  case (Cons v vs)
  show ?case
  proof (cases "vs = []")
    case True
    with Cons.prems pop_done [of ParseArrayValue ps] show ?thesis
      by (auto simp: value_scans_then)
  next
    case False
    with Cons.prems Cons.IH show ?thesis by (simp add: value_scans_then)
  qed
qed simp

abbreviation member_text :: "str_item list \<times> json \<Rightarrow> string" where
  "member_text \<equiv> \<lambda>(k, v). str_text k @ CHR '':'' # render v"

lemma scan_member:
  assumes "list_all item_ok k" and "value_scans v (ParseObjectValue # ps)" and "c \<in> delimiters"
    and "s = BeginString \<or> s = BeginStringOrEmpty"
  shows "scan_all (s, ParseObjectKey # ps) (member_text (k, v) @ c # r)
    = (case end_value (ParseObjectValue # ps) c of None \<Rightarrow> None | Some u \<Rightarrow> scan_all u r)"
  using assms by (simp add: scan_str_key value_scans_then)

lemma scan_members:
  assumes "fs \<noteq> []"
    and "\<forall>(k, v) \<in> set fs. list_all item_ok k \<and> value_scans v (ParseObjectValue # ps)"
    and "s = BeginString \<or> s = BeginStringOrEmpty"
  shows "\<exists>t. scan_all (s, ParseObjectKey # ps)
      (join_with (CHR '','') (map member_text fs) @ ''}'') = Some t \<and> value_done ps t"
  using assms
proof (induction fs arbitrary: s)
  case (Cons f fs)
  obtain k v where f: "f = (k, v)" by (cases f)
  with Cons.prems have kv: "list_all item_ok k" "value_scans v (ParseObjectValue # ps)" by auto
  note step = scan_member [OF kv _ Cons.prems(3)]
  show ?case
  proof (cases "fs = []")
    case True
    with step [of "CHR ''}''" "[]"] pop_done [of ParseObjectValue ps] show ?thesis
      by (auto simp: f)
  next
    case False
    with step [of "CHR '',''"] Cons.prems Cons.IH [of BeginString] show ?thesis
      by (simp add: f)
  qed
qed simp

lemma depth_element: "v \<in> set vs \<Longrightarrow> Suc (depth v) \<le> depth (JArr vs)"
  by (simp add: Max_ge)

lemma depth_member: "(k, v) \<in> set fs \<Longrightarrow> Suc (depth v) \<le> depth (JObj fs)"
proof -
  assume "(k, v) \<in> set fs"
  then have "depth v \<in> insert 0 ((\<lambda>(k, v). depth v) ` set fs)" by force
  then show ?thesis by (simp add: Max_ge del: insert_iff)
qed

lemma scan_array:
  assumes "\<forall>v \<in> set vs. value_scans v (ParseArrayValue # ps)" and "list_all json_ok vs"
    and "length ps + 1 \<le> max_nesting_depth"
  shows "value_scans (JArr vs) ps"
proof (cases vs)
  case Nil
  with assms(3) pop_done [of ParseArrayValue ps] show ?thesis
    by (auto simp: begin_value_def push_state_def)
next
  case (Cons v us)
  have "\<exists>r. join_with (CHR '','') (map render vs) @ '']'' = render v @ r"
    unfolding Cons by (cases us) auto
  then have "scan_all (BeginValueOrEmpty, ParseArrayValue # ps)
      (join_with (CHR '','') (map render vs) @ '']'')
    = scan_all (BeginValue, ParseArrayValue # ps) (join_with (CHR '','') (map render vs) @ '']'')"
    using scan_array_head [of v] assms(2) Cons by (metis list.pred_inject(2))
  with scan_elements [OF _ assms(1)] Cons assms(3) show ?thesis
    by (simp add: begin_value_def push_state_def)
qed

lemma scan_object:
  assumes "\<forall>(k, v) \<in> set fs. list_all item_ok k \<and> value_scans v (ParseObjectValue # ps)"
    and "length ps + 1 \<le> max_nesting_depth"
  shows "value_scans (JObj fs) ps"
proof (cases "fs = []")
  case True
  with assms(2) pop_done [of ParseObjectValue ps] show ?thesis
    by (auto simp: begin_value_def push_state_def begin_string_def)
next
  case False
  with scan_members [OF False assms(1), of BeginStringOrEmpty] assms(2) show ?thesis
    by (simp add: begin_value_def push_state_def case_prod_beta')
qed

theorem scan_render:
  "json_ok v \<Longrightarrow> length ps + depth v \<le> max_nesting_depth \<Longrightarrow> value_scans v ps"
proof (induction v arbitrary: ps)
  case (JNum n)
  then show ?case using scan_number [of n ps] by simp
next
  case (JStr "is")
  then show ?case using scan_str_value [of "is" ps "[]"] by simp
next
  case (JArr vs)
  have "value_scans v (ParseArrayValue # ps)" if v: "v \<in> set vs" for v
  proof -
    have "length (ParseArrayValue # ps) + depth v \<le> max_nesting_depth"
      using JArr.prems(2) depth_element [OF v] by (simp del: depth.simps)
    moreover have "json_ok v" using JArr.prems(1) v by simp
    ultimately show ?thesis using JArr.IH [OF v] by blast
  qed
  with JArr.prems show ?case by (intro scan_array) (simp_all add: list_all_iff)
next
  case (JObj fs)
  have "list_all item_ok k \<and> value_scans v (ParseObjectValue # ps)" if kv: "(k, v) \<in> set fs" for k v
  proof -
    have "length (ParseObjectValue # ps) + depth v \<le> max_nesting_depth"
      using JObj.prems(2) depth_member [OF kv] by (simp del: depth.simps)
    with kv JObj.IH [of "(k, v)" v "ParseObjectValue # ps"] JObj.prems(1) show ?thesis by fastforce
  qed
  with JObj.prems(2) show ?case by (intro scan_object) auto
qed (auto simp: begin_value_def expect_def json_space_def byte_def)

theorem json_valid_render:
  assumes "json_ok v" and "depth v \<le> max_nesting_depth"
  shows "json_valid (render v)"
proof -
  obtain s ps where t: "scan_all (BeginValue, []) (render v) = Some (s, ps)" "value_done [] (s, ps)"
    using scan_render [of v "[]"] assms by auto
  then have "scan_step s ps (CHR '' '') = end_value [] (CHR '' '')"
    by (simp add: value_done_def)
  then show ?thesis using t by (simp add: json_valid_def scan_eof_def json_space_def)
qed

end
