(* ===== verification/GoQuote.thy ===== *)
theory GoQuote
  imports Prelude
begin

text \<open>
  \<^verbatim>\<open>strconv.Quote\<close>, which is also the \<^verbatim>\<open>%q\<close> verb on strings: the renderers of settings/catalog
  and \<^verbatim>\<open>parseHostTime\<close> use it. Which runes outside ASCII print as themselves is a Unicode table
  of the standard library; it is the parameter \<open>is_print\<close>, on the UTF-8 encoding of the rune.
\<close>

section \<open>Runes\<close>

text \<open>The number of bytes of the first rune, 0 where they are not valid UTF-8.\<close>

fun rune_width :: "string \<Rightarrow> nat" where
  "rune_width [] = 0"
| "rune_width (a # s) =
     (if byte a < 128 then 1
      else if in_range 194 223 a then (case s of b # t \<Rightarrow> if cont_byte b then 2 else 0 | [] \<Rightarrow> 0)
      else if in_range 224 239 a then
        (case s of b # c # t \<Rightarrow>
            (if (if byte a = 224 then in_range 160 191 b else if byte a = 237 then in_range 128 159 b
                 else cont_byte b) \<and> cont_byte c then 3 else 0)
         | _ \<Rightarrow> 0)
      else if in_range 240 244 a then
        (case s of b # c # d # t \<Rightarrow>
            (if (if byte a = 240 then in_range 144 191 b else if byte a = 244 then in_range 128 143 b
                 else cont_byte b) \<and> cont_byte c \<and> cont_byte d then 4 else 0)
         | _ \<Rightarrow> 0)
      else 0)"

fun rune_value :: "string \<Rightarrow> nat" where
  "rune_value [a] = byte a"
| "rune_value [a, b] = (byte a - 192) * 64 + (byte b - 128)"
| "rune_value [a, b, c] = (byte a - 224) * 4096 + (byte b - 128) * 64 + (byte c - 128)"
| "rune_value [a, b, c, d] =
     (byte a - 240) * 262144 + (byte b - 128) * 4096 + (byte c - 128) * 64 + (byte d - 128)"
| "rune_value _ = 65533"

definition hex_char :: "nat \<Rightarrow> char" where
  "hex_char d = (if d < 10 then char_of (48 + d) else char_of (87 + d))"

fun hex_digits :: "nat \<Rightarrow> nat \<Rightarrow> string" where
  "hex_digits 0 n = []"
| "hex_digits (Suc w) n = hex_digits w (n div 16) @ [hex_char (n mod 16)]"

section \<open>Quote\<close>

definition escape_rune :: "(string \<Rightarrow> bool) \<Rightarrow> string \<Rightarrow> string" where
  "escape_rune is_print r =
     (let v = rune_value r in
      if r = [CHR 0x22] \<or> r = [CHR 0x5C] then CHR 0x5C # r
      else if (if v < 128 then 32 \<le> v \<and> v < 127 else is_print r) then r
      else if v = 7 then CHR 0x5C # ''a''
      else if v = 8 then CHR 0x5C # ''b''
      else if v = 12 then CHR 0x5C # ''f''
      else if v = 10 then CHR 0x5C # ''n''
      else if v = 13 then CHR 0x5C # ''r''
      else if v = 9 then CHR 0x5C # ''t''
      else if v = 11 then CHR 0x5C # ''v''
      else if v < 32 \<or> v = 127 then CHR 0x5C # CHR ''x'' # hex_digits 2 v
      else if v < 65536 then CHR 0x5C # CHR ''u'' # hex_digits 4 v
      else CHR 0x5C # CHR ''U'' # hex_digits 8 v)"

function quote_body :: "(string \<Rightarrow> bool) \<Rightarrow> string \<Rightarrow> string" where
  "quote_body is_print [] = []"
| "quote_body is_print (c # s) =
     (let w = rune_width (c # s) in
      if w = 0 then CHR 0x5C # CHR ''x'' # hex_digits 2 (byte c) @ quote_body is_print s
      else escape_rune is_print (take w (c # s)) @ quote_body is_print (drop w (c # s)))"
  by pat_completeness auto
termination
  by (relation "measure (\<lambda>(p, s). length s)") auto

declare quote_body.simps(2) [simp del]

definition go_quote :: "(string \<Rightarrow> bool) \<Rightarrow> string \<Rightarrow> string" where
  "go_quote is_print s = CHR 0x22 # quote_body is_print s @ [CHR 0x22]"

text \<open>Printable ASCII without a quote or a backslash is quoted as itself.\<close>

definition plain_ascii :: "char \<Rightarrow> bool" where
  "plain_ascii c \<longleftrightarrow> 32 \<le> byte c \<and> byte c < 127 \<and> c \<noteq> CHR 0x22 \<and> c \<noteq> CHR 0x5C"

lemma quote_body_plain_Cons:
  "plain_ascii c \<Longrightarrow> quote_body is_print (c # s) = c # quote_body is_print s"
  by (simp add: quote_body.simps(2) plain_ascii_def escape_rune_def)

lemma quote_body_plain: "list_all plain_ascii s \<Longrightarrow> quote_body is_print s = s"
  by (induction s) (auto simp: quote_body_plain_Cons)

lemma go_quote_plain: "list_all plain_ascii s \<Longrightarrow> go_quote is_print s = CHR 0x22 # s @ [CHR 0x22]"
  by (simp add: go_quote_def quote_body_plain)

end
