(* ===== verification/DatasourceWire.thy ===== *)
theory DatasourceWire
  imports Prelude
begin

text \<open>
  The generated messages of gen/saas/accounts/v1/datasource.pb.go that package datasource sends
  and reads, each as a record of its fields, with the nil-safe getters the package calls: a
  message pointer is an \<^typ>\<open>'a option\<close>, and a getter on nil answers the field's zero value.
  \<^verbatim>\<open>structpb.Struct\<close> is the type parameter \<open>'st\<close>; the \<^verbatim>\<open>Datasource\<close> projection, which the
  package only hands through, is the parameter \<open>'d\<close>. Enums are their 32-bit numbers, since the
  wire may carry a number this code does not know.
\<close>

definition getter :: "('m \<Rightarrow> 'a) \<Rightarrow> 'a \<Rightarrow> 'm option \<Rightarrow> 'a" where
  "getter f zero x = (case x of Some m \<Rightarrow> f m | None \<Rightarrow> zero)"

lemma getter_simps [simp]: "getter f z (Some m) = f m" "getter f z None = z"
  by (simp_all add: getter_def)

section \<open>Operations and receipts\<close>

definition SourceOperation_EFFECT_UNSPECIFIED :: "32 word" where
  "SourceOperation_EFFECT_UNSPECIFIED = 0"

definition SourceOperation_EFFECT_READ_ONLY :: "32 word" where
  "SourceOperation_EFFECT_READ_ONLY = 1"

definition SourceOperation_EFFECT_MUTATION :: "32 word" where
  "SourceOperation_EFFECT_MUTATION = 2"

lemmas effect_numbers =
  SourceOperation_EFFECT_UNSPECIFIED_def SourceOperation_EFFECT_READ_ONLY_def
  SourceOperation_EFFECT_MUTATION_def

record 'st SourceOperation =
  so_Name :: string
  so_Description :: string
  so_Method :: string
  so_Path :: string
  so_Query :: "string list"
  so_InputSchema :: "'st option"
  so_OutputSchema :: "'st option"
  so_Effect :: "32 word"
  so_MaxOutputBytes :: "32 word"
  so_Digest :: string

definition SourceOperation_GetName :: "'st SourceOperation option \<Rightarrow> string" where
  "SourceOperation_GetName = getter so_Name ''''"

definition SourceOperation_GetDescription :: "'st SourceOperation option \<Rightarrow> string" where
  "SourceOperation_GetDescription = getter so_Description ''''"

definition SourceOperation_GetMethod :: "'st SourceOperation option \<Rightarrow> string" where
  "SourceOperation_GetMethod = getter so_Method ''''"

definition SourceOperation_GetPath :: "'st SourceOperation option \<Rightarrow> string" where
  "SourceOperation_GetPath = getter so_Path ''''"

definition SourceOperation_GetQuery :: "'st SourceOperation option \<Rightarrow> string list" where
  "SourceOperation_GetQuery = getter so_Query []"

definition SourceOperation_GetInputSchema :: "'st SourceOperation option \<Rightarrow> 'st option" where
  "SourceOperation_GetInputSchema = getter so_InputSchema None"

definition SourceOperation_GetOutputSchema :: "'st SourceOperation option \<Rightarrow> 'st option" where
  "SourceOperation_GetOutputSchema = getter so_OutputSchema None"

definition SourceOperation_GetEffect :: "'st SourceOperation option \<Rightarrow> 32 word" where
  "SourceOperation_GetEffect = getter so_Effect SourceOperation_EFFECT_UNSPECIFIED"

definition SourceOperation_GetMaxOutputBytes :: "'st SourceOperation option \<Rightarrow> 32 word" where
  "SourceOperation_GetMaxOutputBytes = getter so_MaxOutputBytes 0"

definition SourceOperation_GetDigest :: "'st SourceOperation option \<Rightarrow> string" where
  "SourceOperation_GetDigest = getter so_Digest ''''"

lemmas SourceOperation_getters [simp] =
  SourceOperation_GetName_def SourceOperation_GetDescription_def SourceOperation_GetMethod_def
  SourceOperation_GetPath_def SourceOperation_GetQuery_def SourceOperation_GetInputSchema_def
  SourceOperation_GetOutputSchema_def SourceOperation_GetEffect_def
  SourceOperation_GetMaxOutputBytes_def SourceOperation_GetDigest_def

record SourceOperationReceipt =
  sr_EffectId :: string
  sr_CommittedAt :: string
  sr_Status :: string
  sr_ProviderStatus :: "32 word"
  sr_OutputJson :: string

definition SourceOperationReceipt_GetEffectId :: "SourceOperationReceipt option \<Rightarrow> string" where
  "SourceOperationReceipt_GetEffectId = getter sr_EffectId ''''"

definition SourceOperationReceipt_GetCommittedAt :: "SourceOperationReceipt option \<Rightarrow> string" where
  "SourceOperationReceipt_GetCommittedAt = getter sr_CommittedAt ''''"

definition SourceOperationReceipt_GetStatus :: "SourceOperationReceipt option \<Rightarrow> string" where
  "SourceOperationReceipt_GetStatus = getter sr_Status ''''"

definition SourceOperationReceipt_GetProviderStatus :: "SourceOperationReceipt option \<Rightarrow> 32 word" where
  "SourceOperationReceipt_GetProviderStatus = getter sr_ProviderStatus 0"

definition SourceOperationReceipt_GetOutputJson :: "SourceOperationReceipt option \<Rightarrow> string" where
  "SourceOperationReceipt_GetOutputJson = getter sr_OutputJson ''''"

lemmas SourceOperationReceipt_getters [simp] =
  SourceOperationReceipt_GetEffectId_def SourceOperationReceipt_GetCommittedAt_def
  SourceOperationReceipt_GetStatus_def SourceOperationReceipt_GetProviderStatus_def
  SourceOperationReceipt_GetOutputJson_def

section \<open>Requests and responses\<close>

record InvokeSourceOperationRequest =
  iq_OrgId :: string
  iq_SourceId :: string
  iq_Operation :: string
  iq_InputJson :: string
  iq_EffectId :: string

record InvokeSourceOperationResponse =
  ir_OutputJson :: string
  ir_Receipt :: "SourceOperationReceipt option"

definition InvokeSourceOperationResponse_GetOutputJson ::
  "InvokeSourceOperationResponse option \<Rightarrow> string" where
  "InvokeSourceOperationResponse_GetOutputJson = getter ir_OutputJson ''''"

definition InvokeSourceOperationResponse_GetReceipt ::
  "InvokeSourceOperationResponse option \<Rightarrow> SourceOperationReceipt option" where
  "InvokeSourceOperationResponse_GetReceipt = getter ir_Receipt None"

lemmas InvokeSourceOperationResponse_getters [simp] =
  InvokeSourceOperationResponse_GetOutputJson_def InvokeSourceOperationResponse_GetReceipt_def

record LookupInvokeSourceOperationRequest =
  lq_EffectId :: string

record 'st DeclareSourceOperationsRequest =
  dq_OrgId :: string
  dq_SourceId :: string
  dq_Operations :: "'st SourceOperation option list"

record ListSourceOperationsRequest =
  loq_OrgId :: string
  loq_SourceId :: string

record 'st ListSourceOperationsResponse =
  lor_Operations :: "'st SourceOperation option list"

definition ListSourceOperationsResponse_GetOperations ::
  "'st ListSourceOperationsResponse option \<Rightarrow> 'st SourceOperation option list" where
  "ListSourceOperationsResponse_GetOperations = getter lor_Operations []"

section \<open>Source registration\<close>

text \<open>The oneof \<^verbatim>\<open>boundary\<close> of \<^verbatim>\<open>AddGitHubSourceRequest\<close>; an unset oneof is \<open>None\<close>.\<close>

datatype AddGitHubSourceRequest_Boundary =
    AddGitHubSourceRequest_BoundaryNodeId string
  | AddGitHubSourceRequest_CollectionLabel string

record AddGitHubSourceRequest =
  agq_OrgId :: string
  agq_Repo :: string
  agq_Paths :: "string list"
  agq_Branch :: string
  agq_Boundary :: "AddGitHubSourceRequest_Boundary option"
  agq_AccessToken :: string
  agq_WebhookSecret :: string
  agq_FileExtensions :: "string list"

record 'd AddGitHubSourceResponse =
  agr_Datasource :: "'d option"

definition AddGitHubSourceResponse_GetDatasource :: "'d AddGitHubSourceResponse option \<Rightarrow> 'd option" where
  "AddGitHubSourceResponse_GetDatasource = getter agr_Datasource None"

record ListSourcesRequest =
  lsq_OrgId :: string

record 'd ListSourcesResponse =
  lsr_Datasources :: "'d option list"

definition ListSourcesResponse_GetDatasources :: "'d ListSourcesResponse option \<Rightarrow> 'd option list" where
  "ListSourcesResponse_GetDatasources = getter lsr_Datasources []"

record SyncSourceRequest =
  ssq_OrgId :: string
  ssq_Id :: string
  ssq_AccessToken :: string
  ssq_Reconnect :: bool

record SyncSourceResponse =
  ssr_JobId :: string

definition SyncSourceResponse_GetJobId :: "SyncSourceResponse option \<Rightarrow> string" where
  "SyncSourceResponse_GetJobId = getter ssr_JobId ''''"

end
