(* ===== verification/DatasourceErrors.thy ===== *)
theory DatasourceErrors
  imports GoQuote DatasourceWire
begin

text \<open>
  datasource/errors.go and datasource/types.go: the receipt, the SDK's error types with their
  \<^verbatim>\<open>Error\<close>, \<^verbatim>\<open>Unwrap\<close> and \<^verbatim>\<open>Is\<close> methods, and \<^verbatim>\<open>mapHostError\<close>, the classification of everything
  a host call can fail with. The Connect library, protobuf's JSON decoding of timestamps and
  durations are not under src/: what the code asks of them is the record \<open>host_lib\<close>, and what an
  error of theirs shows to \<^verbatim>\<open>errors.As\<close> is the record \<open>ext_error\<close>.
\<close>

section \<open>Receipts\<close>

definition ReceiptStatusCommitted :: string where
  "ReceiptStatusCommitted = ''COMMITTED''"

definition ReceiptStatusUnknown :: string where
  "ReceiptStatusUnknown = ''UNKNOWN''"

definition ReceiptStatusNotAttempted :: string where
  "ReceiptStatusNotAttempted = ''NOT_ATTEMPTED''"

lemmas receipt_statuses =
  ReceiptStatusCommitted_def ReceiptStatusUnknown_def ReceiptStatusNotAttempted_def

lemma receipt_status_distinct [simp]:
  "ReceiptStatusCommitted \<noteq> ReceiptStatusUnknown" "ReceiptStatusUnknown \<noteq> ReceiptStatusCommitted"
  "ReceiptStatusNotAttempted \<noteq> ReceiptStatusUnknown" "ReceiptStatusNotAttempted \<noteq> ReceiptStatusCommitted"
  "ReceiptStatusUnknown \<noteq> ReceiptStatusNotAttempted" "ReceiptStatusCommitted \<noteq> ReceiptStatusNotAttempted"
  by (simp_all add: receipt_statuses)

record Receipt =
  EffectID :: string
  Status :: string
  CommittedAt :: gotime
  ProviderStatus :: int
  Output :: "string option"

definition zero_receipt :: Receipt where
  "zero_receipt = \<lparr>EffectID = '''', Status = '''', CommittedAt = zero_time,
     ProviderStatus = 0, Output = None\<rparr>"

section \<open>Errors of the host call\<close>


text \<open>
  The details of a Connect error as \<^verbatim>\<open>Details()\<close> and \<^verbatim>\<open>Value()\<close> answer them: a nil detail, one
  whose \<^verbatim>\<open>Value\<close> fails, or a decoded message. The metadata map is its entries.
\<close>

record error_info =
  ei_reason :: string
  ei_metadata :: "(string \<times> string) list"

record delay_view =
  dv_valid :: bool
  dv_as_duration :: gotime

datatype error_detail =
    DetailNil
  | DetailUndecodable
  | DetailErrorInfo error_info
  | DetailRetryInfo "delay_view option"
  | DetailBadRequest "string list"
  | DetailOther

record connect_error =
  ce_code :: connect_code
  ce_details :: "error_detail list"

record ext_error =
  ext_text :: string
  ext_connect :: "connect_error option"
  ext_encoding :: "string option"

datatype ctx_err = Canceled | DeadlineExceeded

section \<open>The SDK's errors\<close>

datatype sentinel =
    ErrNotPermitted | ErrUnknownOperation | ErrEffectNotFound | ErrEffectReused
  | ErrOperationDeclarationRemoved | ErrOutcomeUnknown | ErrInvalidBoundary

fun sentinel_text :: "sentinel \<Rightarrow> string" where
  "sentinel_text ErrNotPermitted = ''datasource: not permitted''"
| "sentinel_text ErrUnknownOperation = ''datasource: unknown operation''"
| "sentinel_text ErrEffectNotFound = ''datasource: effect not found''"
| "sentinel_text ErrEffectReused = ''datasource: effect ID reused''"
| "sentinel_text ErrOperationDeclarationRemoved =
     ''datasource: operation declaration removed; look up the original effect''"
| "sentinel_text ErrOutcomeUnknown = ''datasource: outcome unknown; look up the effect''"
| "sentinel_text ErrInvalidBoundary =
     ''datasource: exactly one collection label or boundary node ID is required''"

text \<open>
  A node of an error tree: the SDK's types with their exported fields, a package-level sentinel,
  a context error, an \<^verbatim>\<open>errors.New\<close> or \<^verbatim>\<open>fmt.Errorf\<close> value with its text, and anything else.
\<close>

datatype ds_label =
    LSentinel sentinel
  | LContext ctx_err
  | LText string
  | LExternal ext_error
  | LDatasourceError Receipt
  | LInputError string
  | LRateLimited gotime
  | LProviderRefused int
  | LOperationRefused string
  | LOperationDeclarationRemoved string Receipt
  | LHostError sentinel
  | LOutcomeUnknown Receipt

type_synonym ds_err = "ds_label goerr"

definition errors_new :: "string \<Rightarrow> ds_err" where
  "errors_new m = Err (LText m) []"

definition DatasourceError :: "Receipt \<Rightarrow> ds_err option \<Rightarrow> ds_err" where
  "DatasourceError r c = Err (LDatasourceError r) (case c of None \<Rightarrow> [] | Some e \<Rightarrow> [e])"

definition InputError :: "string \<Rightarrow> ds_err option \<Rightarrow> ds_err" where
  "InputError p c = Err (LInputError p) (case c of None \<Rightarrow> [] | Some e \<Rightarrow> [e])"

definition RateLimited :: "gotime \<Rightarrow> ds_err option \<Rightarrow> ds_err" where
  "RateLimited t c = Err (LRateLimited t) (case c of None \<Rightarrow> [] | Some e \<Rightarrow> [e])"

definition ProviderRefused :: "int \<Rightarrow> ds_err option \<Rightarrow> ds_err" where
  "ProviderRefused n c = Err (LProviderRefused n) (case c of None \<Rightarrow> [] | Some e \<Rightarrow> [e])"

definition OperationRefused :: "string \<Rightarrow> ds_err option \<Rightarrow> ds_err" where
  "OperationRefused r c = Err (LOperationRefused r) (case c of None \<Rightarrow> [] | Some e \<Rightarrow> [e])"

definition OperationDeclarationRemoved :: "string \<Rightarrow> Receipt \<Rightarrow> ds_err option \<Rightarrow> ds_err" where
  "OperationDeclarationRemoved s r c =
     Err (LOperationDeclarationRemoved s r) (case c of None \<Rightarrow> [] | Some e \<Rightarrow> [e])"

definition hostError :: "sentinel \<Rightarrow> ds_err \<Rightarrow> ds_err" where
  "hostError k c = Err (LHostError k) [c]"

definition OutcomeUnknown :: "Receipt \<Rightarrow> ds_err option \<Rightarrow> ds_err" where
  "OutcomeUnknown r c = Err (LOutcomeUnknown r) (case c of None \<Rightarrow> [] | Some e \<Rightarrow> [e])"

lemmas error_types =
  errors_new_def DatasourceError_def InputError_def RateLimited_def ProviderRefused_def
  OperationRefused_def OperationDeclarationRemoved_def hostError_def OutcomeUnknown_def

text \<open>
  The \<^verbatim>\<open>Error\<close> methods: a wrapper with a cause shows the cause's text, one without its own.
\<close>

fun label_text :: "ds_label \<Rightarrow> string" where
  "label_text (LSentinel s) = sentinel_text s"
| "label_text (LContext Canceled) = ''context canceled''"
| "label_text (LContext DeadlineExceeded) = ''context deadline exceeded''"
| "label_text (LText m) = m"
| "label_text (LExternal x) = ext_text x"
| "label_text (LDatasourceError r) = ''datasource: invalid host response''"
| "label_text (LInputError p) = ''datasource: invalid input at '' @ p"
| "label_text (LRateLimited t) = ''datasource: rate limited''"
| "label_text (LProviderRefused n) = ''datasource: provider refused''"
| "label_text (LOperationRefused r) = ''datasource: operation refused''"
| "label_text (LOperationDeclarationRemoved s r) = sentinel_text ErrOperationDeclarationRemoved"
| "label_text (LHostError k) = ''''"
| "label_text (LOutcomeUnknown r) = sentinel_text ErrOutcomeUnknown"

fun own_text :: "ds_label \<Rightarrow> bool" where
  "own_text (LSentinel s) = True"
| "own_text (LContext c) = True"
| "own_text (LText m) = True"
| "own_text (LExternal x) = True"
| "own_text _ = False"

fun error_text :: "ds_err \<Rightarrow> string" where
  "error_text (Err l cs) =
     (if own_text l then label_text l
      else (case cs of [] \<Rightarrow> label_text l | c # _ \<Rightarrow> error_text c))"

text \<open>\<^verbatim>\<open>fmt.Errorf("...: %w", err)\<close>: the text is fixed when the value is made.\<close>

definition errorf_wrap :: "string \<Rightarrow> ds_err \<Rightarrow> ds_err" where
  "errorf_wrap m c = Err (LText (m @ error_text c)) [c]"

text \<open>The \<^verbatim>\<open>Is\<close> methods and identity with a sentinel, which \<^verbatim>\<open>errors.Is\<close> tries at each node.\<close>

fun is_sentinel :: "sentinel \<Rightarrow> ds_label \<Rightarrow> bool" where
  "is_sentinel s (LSentinel t) \<longleftrightarrow> s = t"
| "is_sentinel s (LHostError k) \<longleftrightarrow> s = k"
| "is_sentinel s (LOperationDeclarationRemoved st r) \<longleftrightarrow> s = ErrOperationDeclarationRemoved"
| "is_sentinel s (LOutcomeUnknown r) \<longleftrightarrow> s = ErrOutcomeUnknown"
| "is_sentinel s _ \<longleftrightarrow> False"

abbreviation err_is :: "ds_err \<Rightarrow> sentinel \<Rightarrow> bool" where
  "err_is e s \<equiv> errors_is (is_sentinel s) e"

fun as_connect :: "ds_label \<Rightarrow> connect_error option" where
  "as_connect (LExternal x) = ext_connect x"
| "as_connect _ = None"

fun as_encoding :: "ds_label \<Rightarrow> string option" where
  "as_encoding (LExternal x) = ext_encoding x"
| "as_encoding _ = None"

fun as_unknown :: "ds_label \<Rightarrow> Receipt option" where
  "as_unknown (LOutcomeUnknown r) = Some r"
| "as_unknown _ = None"

fun as_removed :: "ds_label \<Rightarrow> (string \<times> Receipt) option" where
  "as_removed (LOperationDeclarationRemoved s r) = Some (s, r)"
| "as_removed _ = None"

text \<open>The nodes the SDK itself adds around a host's error.\<close>

fun sdk_label :: "ds_label \<Rightarrow> bool" where
  "sdk_label (LSentinel s) = True"
| "sdk_label (LContext c) = False"
| "sdk_label (LText m) = False"
| "sdk_label (LExternal x) = False"
| "sdk_label _ = True"

section \<open>Third-party operations\<close>

record host_lib =
  \<comment> \<open>\<^verbatim>\<open>connect.IsWireError\<close> and \<^verbatim>\<open>connect.CodeOf\<close>\<close>
  lib_is_wire :: "ds_err \<Rightarrow> bool"
  lib_code_of :: "ds_err \<Rightarrow> connect_code"
  \<comment> \<open>\<^verbatim>\<open>protojson.Unmarshal\<close> into a Timestamp and its \<^verbatim>\<open>AsTime\<close>; the error or the time\<close>
  lib_timestamp :: "string \<Rightarrow> ds_err + gotime"
  \<comment> \<open>the printable runes outside ASCII, for \<^verbatim>\<open>strconv.Quote\<close>\<close>
  lib_is_print :: "string \<Rightarrow> bool"

definition parseHostTime :: "host_lib \<Rightarrow> string \<Rightarrow> ds_err + gotime" where
  "parseHostTime lib value = lib_timestamp lib (go_quote (lib_is_print lib) value)"

section \<open>mapHostError\<close>

text \<open>The loop over the details: the last decoded message of each kind is kept.\<close>

record details =
  d_info :: "error_info option"
  d_retry :: "delay_view option option"
  d_bad :: "string list option"

fun detail_step :: "details \<Rightarrow> error_detail \<Rightarrow> details" where
  "detail_step d (DetailErrorInfo i) = d\<lparr>d_info := Some i\<rparr>"
| "detail_step d (DetailRetryInfo r) = d\<lparr>d_retry := Some r\<rparr>"
| "detail_step d (DetailBadRequest fs) = d\<lparr>d_bad := Some fs\<rparr>"
| "detail_step d DetailNil = d"
| "detail_step d DetailUndecodable = d"
| "detail_step d DetailOther = d"

definition read_details :: "error_detail list \<Rightarrow> details" where
  "read_details ds = foldl detail_step \<lparr>d_info = None, d_retry = None, d_bad = None\<rparr> ds"

definition info_reason :: "error_info option \<Rightarrow> string" where
  "info_reason = getter ei_reason ''''"

definition info_metadata :: "error_info option \<Rightarrow> string \<Rightarrow> string" where
  "info_metadata i k = (case i of None \<Rightarrow> ''''
     | Some m \<Rightarrow> (case map_of (ei_metadata m) k of None \<Rightarrow> '''' | Some v \<Rightarrow> v))"

definition input_pointer :: "details \<Rightarrow> string" where
  "input_pointer d = (case d_bad d of Some (f # _) \<Rightarrow> f | _ \<Rightarrow> '''')"

definition retry_reset :: "details \<Rightarrow> gotime \<Rightarrow> gotime" where
  "retry_reset d now = (case d_retry d of
       Some (Some v) \<Rightarrow> (if dv_valid v \<and> 0 \<le> dv_as_duration v then now + dv_as_duration v else zero_time)
     | _ \<Rightarrow> zero_time)"

definition rate_reset :: "host_lib \<Rightarrow> details \<Rightarrow> gotime \<Rightarrow> gotime" where
  "rate_reset lib d now =
     (case parseHostTime lib (info_metadata (d_info d) ''reset_at'') of
        Inr t \<Rightarrow> t | Inl _ \<Rightarrow> retry_reset d now)"

definition removed_status :: "details \<Rightarrow> string" where
  "removed_status d = (if info_metadata (d_info d) ''receipt_status'' = ''committed''
     then ReceiptStatusCommitted else ReceiptStatusUnknown)"

definition provider_status :: "string \<Rightarrow> int" where
  "provider_status encoded = (case atoi encoded of None \<Rightarrow> 0
     | Some s \<Rightarrow> (if s < 100 \<or> s > 599 \<or> itoa s \<noteq> encoded then 0 else s))"

definition map_precondition :: "details \<Rightarrow> bool \<Rightarrow> ds_err \<Rightarrow> ds_err" where
  "map_precondition d effectOutcome err =
     (let reason = info_reason (d_info d) in
      if reason = ''SOURCE_OPERATION_OUTCOME_UNKNOWN'' then
        (if \<not> effectOutcome then OperationRefused reason (Some err)
         else OutcomeUnknown zero_receipt (Some err))
      else if reason = ''SOURCE_OPERATION_DECLARATION_REMOVED'' then
        OperationDeclarationRemoved (removed_status d) (zero_receipt\<lparr>Status := removed_status d\<rparr>) (Some err)
      else if reason = ''SOURCE_PROVIDER_REFUSED'' then
        ProviderRefused (provider_status (info_metadata (d_info d) ''provider_status'')) (Some err)
      else if reason = ''SOURCE_EFFECT_REUSED'' then hostError ErrEffectReused err
      else OperationRefused reason (Some err))"

definition map_code ::
  "host_lib \<Rightarrow> connect_code \<Rightarrow> details \<Rightarrow> bool \<Rightarrow> gotime \<Rightarrow> ds_err \<Rightarrow> ds_err" where
  "map_code lib code d effectOutcome now err =
     (case code of
        CodePermissionDenied \<Rightarrow> hostError ErrNotPermitted err
      | CodeNotFound \<Rightarrow> hostError ErrUnknownOperation err
      | CodeInvalidArgument \<Rightarrow> InputError (input_pointer d) (Some err)
      | CodeResourceExhausted \<Rightarrow>
          (if info_reason (d_info d) \<noteq> ''DATASOURCE_RATE_LIMITED'' then err
           else RateLimited (rate_reset lib d now) (Some err))
      | CodeFailedPrecondition \<Rightarrow> map_precondition d effectOutcome err
      | CodeUnavailable \<Rightarrow> (if effectOutcome then OutcomeUnknown zero_receipt (Some err) else err)
      | CodeDeadlineExceeded \<Rightarrow> (if effectOutcome then OutcomeUnknown zero_receipt (Some err) else err)
      | CodeCanceled \<Rightarrow> (if effectOutcome then OutcomeUnknown zero_receipt (Some err) else err)
      | _ \<Rightarrow> err)"

definition map_host_error :: "host_lib \<Rightarrow> ds_err \<Rightarrow> bool \<Rightarrow> gotime \<Rightarrow> ds_err" where
  "map_host_error lib err effectOutcome now =
     (if effectOutcome \<and> \<not> lib_is_wire lib err then OutcomeUnknown zero_receipt (Some err)
      else if errors_as as_encoding err \<noteq> None then DatasourceError zero_receipt (Some err)
      else (case errors_as as_connect err of
          None \<Rightarrow> err
        | Some ce \<Rightarrow> map_code lib (ce_code ce) (read_details (ce_details ce)) effectOutcome now err))"

definition mapHostError :: "host_lib \<Rightarrow> ds_err option \<Rightarrow> bool \<Rightarrow> gotime \<Rightarrow> ds_err option" where
  "mapHostError lib err effectOutcome now =
     (case err of None \<Rightarrow> None | Some e \<Rightarrow> Some (map_host_error lib e effectOutcome now))"

section \<open>What the classification keeps and decides\<close>

lemma wrapper_simps [simp, go_errors]:
  "DatasourceError r (Some e) = Err (LDatasourceError r) [e]"
  "InputError p (Some e) = Err (LInputError p) [e]"
  "RateLimited t (Some e) = Err (LRateLimited t) [e]"
  "ProviderRefused n (Some e) = Err (LProviderRefused n) [e]"
  "OperationRefused m (Some e) = Err (LOperationRefused m) [e]"
  "OperationDeclarationRemoved m r (Some e) = Err (LOperationDeclarationRemoved m r) [e]"
  "OutcomeUnknown r (Some e) = Err (LOutcomeUnknown r) [e]"
  "OutcomeUnknown r None = Err (LOutcomeUnknown r) []"
  by (simp_all add: error_types)

text \<open>The result is the host's error itself or one SDK node around it.\<close>

inductive wraps :: "ds_err \<Rightarrow> ds_err \<Rightarrow> bool" where
  wraps_same: "wraps e e"
| wraps_node: "sdk_label l \<Longrightarrow> \<not> own_text l \<Longrightarrow> wraps (Err l [e]) e"

lemma map_precondition_wraps: "wraps (map_precondition d eo err) err"
  by (auto simp: map_precondition_def hostError_def Let_def intro!: wraps_node)

lemma map_code_wraps: "wraps (map_code lib c d eo now err) err"
  by (auto simp: map_code_def hostError_def map_precondition_wraps
      intro!: wraps_node intro: wraps_same split: connect_code.split)

lemma map_host_error_wraps: "wraps (map_host_error lib err eo now) err"
  by (auto simp: map_host_error_def map_code_wraps
      intro!: wraps_node intro: wraps_same split: option.split)

lemma wraps_errors_as:
  assumes "wraps e' e" and "\<And>l. sdk_label l \<Longrightarrow> p l = None"
  shows "errors_as p e' = errors_as p e"
  using assms by cases (auto split: option.split)

lemma wraps_text: "wraps e' e \<Longrightarrow> error_text e' = error_text e"
  by (auto elim!: wraps.cases)

lemma wraps_is: "wraps e' e \<Longrightarrow> err_is e s \<Longrightarrow> err_is e' s"
  by (auto elim!: wraps.cases simp: errors_is_iff)

text \<open>When the classification says the outcome is unknown.\<close>

definition foreign :: "ds_err \<Rightarrow> bool" where
  "foreign e \<longleftrightarrow> (\<forall>l \<in> set_goerr e. \<not> sdk_label l)"

lemma foreign_not_is: "foreign e \<Longrightarrow> \<not> err_is e s"
proof -
  have "is_sentinel s l \<Longrightarrow> sdk_label l" for l by (cases l) auto
  then show "foreign e \<Longrightarrow> \<not> err_is e s" by (auto simp: foreign_def errors_is_iff)
qed

lemma is_wrap [simp]: "err_is (Err l [e]) s \<longleftrightarrow> is_sentinel s l \<or> err_is e s"
  by (simp add: errors_is_iff)

lemma is_leaf [simp]: "err_is (Err l []) s \<longleftrightarrow> is_sentinel s l"
  by (simp add: errors_is_iff)

definition unknown_code :: "connect_code \<Rightarrow> details \<Rightarrow> bool" where
  "unknown_code c d \<longleftrightarrow> c \<in> {CodeUnavailable, CodeDeadlineExceeded, CodeCanceled} \<or>
     (c = CodeFailedPrecondition \<and> info_reason (d_info d) = ''SOURCE_OPERATION_OUTCOME_UNKNOWN'')"

lemma map_code_unknown:
  "foreign err \<Longrightarrow>
     err_is (map_code lib c d eo now err) ErrOutcomeUnknown \<longleftrightarrow> eo \<and> unknown_code c d"
  by (cases c) (auto simp: map_code_def map_precondition_def hostError_def unknown_code_def
      Let_def foreign_not_is)

lemma map_code_removed:
  "foreign err \<Longrightarrow> err_is (map_code lib c d eo now err) ErrOperationDeclarationRemoved \<longleftrightarrow>
     c = CodeFailedPrecondition \<and> info_reason (d_info d) = ''SOURCE_OPERATION_DECLARATION_REMOVED''"
  by (cases c) (auto simp: map_code_def map_precondition_def hostError_def Let_def foreign_not_is)

text \<open>\<^verbatim>\<open>provider_status\<close> metadata: a canonical three-digit status or nothing.\<close>

lemma provider_status_digits:
  assumes "100 \<le> n" and "n \<le> 599"
  shows "provider_status (nat_digits n) = int n"
proof -
  have "atoi (nat_digits n) = Some (int n)"
    by (rule atoi_nat_digits) (use assms(2) in simp)
  with assms show ?thesis by (simp add: provider_status_def itoa_def)
qed

lemma provider_status_nonzero:
  assumes "provider_status s \<noteq> 0"
  shows "\<exists>n. provider_status s = int n \<and> 100 \<le> n \<and> n \<le> 599 \<and> s = nat_digits n"
proof -
  from assms obtain v where v: "atoi s = Some v" "provider_status s = v" "100 \<le> v" "v \<le> 599" "itoa v = s"
    by (auto simp: provider_status_def split: option.splits if_splits)
  then have "s = nat_digits (nat v)" by (auto simp: itoa_def)
  with v show ?thesis by (intro exI [of _ "nat v"]) auto
qed

lemma nat_digits_three:
  assumes "100 \<le> n" and "n \<le> 599"
  shows "nat_digits n = [digit_char (n div 100), digit_char (n div 10 mod 10), digit_char (n mod 10)]"
proof -
  have "n div 10 div 10 = n div 100" by (simp add: div_mult2_eq [symmetric])
  moreover have "nat_digits (n div 100) = [digit_char (n div 100)]"
    using assms by (subst nat_digits.simps) simp
  ultimately have "nat_digits (n div 10) = [digit_char (n div 100), digit_char (n div 10 mod 10)]"
    using assms by (subst nat_digits.simps) simp
  then show ?thesis using assms by (subst nat_digits.simps) simp
qed

text \<open>
  every error of a host call keeps its host diagnostic: whatever \<^verbatim>\<open>errors.As\<close> finds in the
  host's error outside the SDK's own types it finds in the classified one, a sentinel that
  matched still matches, and the message is the host's, unchanged. No error becomes nil.
\<close>

theorem mapHostError_keeps_diagnostic:
  assumes "\<And>l. sdk_label l \<Longrightarrow> p l = None"
  shows "\<exists>m. mapHostError lib (Some err) eo now = Some m \<and> errors_as p m = errors_as p err
    \<and> error_text m = error_text err \<and> (err_is err s \<longrightarrow> err_is m s)"
  using map_host_error_wraps [of lib err eo now] wraps_errors_as [OF _ assms] wraps_text wraps_is
  by (auto simp: mapHostError_def)

text \<open>C27:
  exactly when a host call's failure is an unknown outcome. A read is never one; an effect
  call is one when its error was not decoded from the wire, or when it was and carries one of the
  codes Unavailable, DeadlineExceeded, Canceled or the host's own
  \<^verbatim>\<open>SOURCE_OPERATION_OUTCOME_UNKNOWN\<close> reason (unless its encoding could not be read).
\<close>

theorem mapHostError_unknown_iff:
  assumes "foreign err"
  shows "err_is (map_host_error lib err effectOutcome now) ErrOutcomeUnknown \<longleftrightarrow>
    effectOutcome \<and> (\<not> lib_is_wire lib err \<or>
      (errors_as as_encoding err = None \<and>
       (\<exists>ce. errors_as as_connect err = Some ce \<and> unknown_code (ce_code ce) (read_details (ce_details ce)))))"
  using assms
  by (auto simp: map_host_error_def map_code_unknown foreign_not_is split: option.split)

text \<open>A host for examples: errors decoded from the wire are those that hold a Connect error.\<close>

definition sample_lib :: host_lib where
  "sample_lib = \<lparr>lib_is_wire = (\<lambda>e. errors_as as_connect e \<noteq> None),
     lib_code_of = (\<lambda>e. case errors_as as_connect e of None \<Rightarrow> CodeUnknown | Some ce \<Rightarrow> ce_code ce),
     lib_timestamp = (\<lambda>s. if s = [] then Inl (errors_new ''syntax'') else Inr 1000),
     lib_is_print = (\<lambda>r. True)\<rparr>"

definition wire_error :: "connect_code \<Rightarrow> error_detail list \<Rightarrow> ds_err" where
  "wire_error c ds = Err (LExternal \<lparr>ext_text = ''host'',
     ext_connect = Some \<lparr>ce_code = c, ce_details = ds\<rparr>, ext_encoding = None\<rparr>) []"

definition reason_detail :: "string \<Rightarrow> (string \<times> string) list \<Rightarrow> error_detail" where
  "reason_detail r md = DetailErrorInfo \<lparr>ei_reason = r, ei_metadata = md\<rparr>"

lemma wire_error_foreign [simp]: "foreign (wire_error c ds)"
  by (simp add: foreign_def wire_error_def)

lemma wire_error_simps [simp]:
  "errors_as as_connect (wire_error c ds) = Some \<lparr>ce_code = c, ce_details = ds\<rparr>"
  "errors_as as_encoding (wire_error c ds) = None"
  "lib_is_wire sample_lib (wire_error c ds)" "lib_code_of sample_lib (wire_error c ds) = c"
  by (simp_all add: wire_error_def sample_lib_def)

theorem mapHostError_keeps_diagnostic_witness:
  "\<exists>m. mapHostError sample_lib (Some (wire_error CodeUnavailable [])) True 0 = Some m
    \<and> errors_as as_connect m = Some \<lparr>ce_code = CodeUnavailable, ce_details = []\<rparr>
    \<and> error_text m = ''host''"
proof -
  have "as_connect l = None" if "sdk_label l" for l using that by (cases l) auto
  from mapHostError_keeps_diagnostic [of as_connect sample_lib "wire_error CodeUnavailable []" True 0, OF this]
  show ?thesis by (simp add: wire_error_def)
qed

theorem mapHostError_unknown_iff_witness:
  "err_is (map_host_error sample_lib (wire_error CodeUnavailable []) True 0) ErrOutcomeUnknown"
  using mapHostError_unknown_iff [OF wire_error_foreign [of CodeUnavailable "[]"], of sample_lib True 0]
  by (simp add: unknown_code_def)

text \<open>
  \<^verbatim>\<open>ProviderRefused.Status\<close> is \<open>n \<noteq> 0\<close> exactly for the canonical three-digit spelling of a
  status from 100 to 599: signs, spaces, leading zeros, other lengths and overlong numbers are 0.
\<close>

theorem provider_status_iff:
  "(provider_status s = int n \<and> n \<noteq> 0) \<longleftrightarrow>
    (100 \<le> n \<and> n \<le> 599 \<and>
     s = [digit_char (n div 100), digit_char (n div 10 mod 10), digit_char (n mod 10)])"
proof
  assume l: "provider_status s = int n \<and> n \<noteq> 0"
  then obtain m where "provider_status s = int m" "100 \<le> m" "m \<le> 599" "s = nat_digits m"
    using provider_status_nonzero [of s] by auto
  with l show "100 \<le> n \<and> n \<le> 599 \<and>
     s = [digit_char (n div 100), digit_char (n div 10 mod 10), digit_char (n mod 10)]"
    using nat_digits_three by auto
next
  assume r: "100 \<le> n \<and> n \<le> 599 \<and>
     s = [digit_char (n div 100), digit_char (n div 10 mod 10), digit_char (n mod 10)]"
  then show "provider_status s = int n \<and> n \<noteq> 0"
    using provider_status_digits [of n] nat_digits_three [of n] by simp
qed

text \<open>Details that are nil, undecodable or of another type never change what is read.\<close>

fun skipped :: "error_detail \<Rightarrow> bool" where
  "skipped DetailNil = True"
| "skipped DetailUndecodable = True"
| "skipped DetailOther = True"
| "skipped _ = False"

lemma detail_step_skipped: "skipped x \<Longrightarrow> detail_step d x = d"
  by (cases x) auto

lemma fold_skips: "foldl detail_step d ds = foldl detail_step d (filter (\<lambda>x. \<not> skipped x) ds)"
  by (induction ds arbitrary: d) (auto simp: detail_step_skipped)

lemma read_details_filter: "read_details ds = read_details (filter (\<lambda>x. \<not> skipped x) ds)"
  unfolding read_details_def by (rule fold_skips)

end
