(* ===== verification/DatasourceOperations.thy ===== *)
theory DatasourceOperations
  imports GoJSON DatasourceErrors
begin

text \<open>
  datasource/json.go, datasource/invoke_options.go and datasource/operations.go: the effect-safe
  calls \<^verbatim>\<open>Invoke\<close> and \<^verbatim>\<open>Lookup\<close> and the declaration calls. The generated client is a function from
  the request to the host's answer; every request an operation sends is part of its result, so
  that theorems can count them. \<^verbatim>\<open>json.Marshal\<close> of an arbitrary Go value, the UUID minter and the
  protobuf \<^verbatim>\<open>Struct\<close> codec are parameters.
\<close>

section \<open>JSON payloads\<close>

text \<open>
  The \<^verbatim>\<open>any\<close> argument of \<^verbatim>\<open>Invoke\<close>: a byte slice, or any other value together with what
  \<^verbatim>\<open>json.Marshal\<close> answers for it.
\<close>

datatype invoke_input = InputBytes string | InputValue "ds_err + string"

definition objectJSON :: "string \<Rightarrow> ds_err + string" where
  "objectJSON value =
     (let trimmed = trim_space value in
      if trimmed = [] \<or> hd trimmed \<noteq> CHR ''{'' \<or> \<not> utf8_valid value \<or> \<not> json_valid value
      then Inl (errors_new ''datasource: expected exactly one JSON object'')
      else Inr value)"

definition inputJSON :: "invoke_input \<Rightarrow> ds_err + string" where
  "inputJSON input = (case input of
       InputBytes b \<Rightarrow> Inl (InputError '''' (Some (errors_new
         ''datasource: use json.RawMessage for an encoded JSON object, not []byte'')))
     | InputValue (Inl err) \<Rightarrow> Inl (InputError '''' (Some err))
     | InputValue (Inr data) \<Rightarrow> (case objectJSON data of
           Inl err \<Rightarrow> Inl (InputError '''' (Some err))
         | Inr _ \<Rightarrow> Inr data))"

text \<open>The \<^verbatim>\<open>structpb.Struct\<close> codec of protobuf: \<open>'st\<close> is the message.\<close>

record 'st struct_lib =
  struct_unmarshal :: "string \<Rightarrow> ds_err + 'st"
  struct_marshal :: "'st \<Rightarrow> ds_err + string"

definition schemaStruct :: "'st struct_lib \<Rightarrow> string \<Rightarrow> ds_err + 'st" where
  "schemaStruct sl data =
     (let trimmed = trim_space data in
      if trimmed = [] \<or> hd trimmed \<noteq> CHR ''{''
      then Inl (InputError '''' (Some (errors_new ''datasource: input must be a JSON object'')))
      else (case struct_unmarshal sl data of
          Inl err \<Rightarrow> Inl (InputError '''' (Some err))
        | Inr value \<Rightarrow> Inr value))"

definition schemaJSON :: "'st struct_lib \<Rightarrow> 'st option \<Rightarrow> ds_err + string" where
  "schemaJSON sl value = (case value of None \<Rightarrow> Inr ''{}'' | Some st \<Rightarrow> struct_marshal sl st)"

section \<open>Options and contexts\<close>

record invokeOptions =
  effectID :: string
  effectIDSet :: bool
  deadline :: gotime
  deadlineSet :: bool

definition no_options :: invokeOptions where
  "no_options = \<lparr>effectID = '''', effectIDSet = False, deadline = zero_time, deadlineSet = False\<rparr>"

definition WithEffectID :: "string \<Rightarrow> invokeOptions \<Rightarrow> invokeOptions" where
  "WithEffectID i o' = o'\<lparr>effectID := i, effectIDSet := True\<rparr>"

definition WithDeadline :: "gotime \<Rightarrow> invokeOptions \<Rightarrow> invokeOptions" where
  "WithDeadline d o' = o'\<lparr>deadline := d, deadlineSet := True\<rparr>"

definition apply_options :: "(invokeOptions \<Rightarrow> invokeOptions) list \<Rightarrow> invokeOptions" where
  "apply_options opts = foldl (\<lambda>o' f. f o') no_options opts"

text \<open>
  A context as \<^verbatim>\<open>Err\<close> and \<^verbatim>\<open>Deadline\<close> show it, and \<^verbatim>\<open>context.WithDeadline\<close> at time \<open>now\<close>: an earlier
  deadline of the parent wins, a done parent stays done, a deadline already past is done at once.
\<close>

record go_ctx =
  ctx_done :: "ctx_err option"
  ctx_deadline :: "gotime option"

definition context_with_deadline :: "gotime \<Rightarrow> go_ctx \<Rightarrow> gotime \<Rightarrow> go_ctx" where
  "context_with_deadline now ctx d =
     (if (case ctx_deadline ctx of Some cur \<Rightarrow> cur < d | None \<Rightarrow> False) then ctx
      else if d \<le> now \<and> ctx_done ctx = None
      then \<lparr>ctx_done = Some DeadlineExceeded, ctx_deadline = Some d\<rparr>
      else ctx\<lparr>ctx_deadline := Some d\<rparr>)"

definition is_deadline :: "ds_label \<Rightarrow> bool" where
  "is_deadline l \<longleftrightarrow> l = LContext DeadlineExceeded"

definition operationContextError :: "go_ctx \<Rightarrow> ds_err option" where
  "operationContextError ctx = (case ctx_done ctx of
       None \<Rightarrow> None
     | Some e \<Rightarrow>
        (let err = Err (LContext e) [] in
         if errors_is is_deadline err
         then Some (InputError '''' (Some (errorf_wrap ''datasource: deadline expired before dispatch: '' err)))
         else Some err))"

text \<open>The loop over the bytes stops at the first control byte, as its \<^verbatim>\<open>valid\<close> flag does.\<close>

fun no_control_bytes :: "string \<Rightarrow> bool" where
  "no_control_bytes [] = True"
| "no_control_bytes (c # s) = (if 32 \<le> byte c \<and> byte c \<noteq> 127 then no_control_bytes s else False)"

definition effect_id_message :: string where
  "effect_id_message = ''datasource: effect ID must be 1'' @ map char_of [226, 128, 147 :: nat] @
     ''128 UTF-8 bytes without control bytes or surrounding spaces''"

definition validateEffectID :: "string \<Rightarrow> ds_err option" where
  "validateEffectID i =
     (let valid = length i > 0 \<and> length i \<le> 128 \<and> utf8_valid i;
          valid = (if valid then hd i \<noteq> CHR '' '' \<and> last i \<noteq> CHR '' '' else valid);
          valid = (valid \<and> no_control_bytes i)
      in if valid then None else Some (InputError '''' (Some (errors_new effect_id_message))))"

section \<open>Receipts\<close>

definition operationReceipt ::
  "host_lib \<Rightarrow> SourceOperationReceipt option \<Rightarrow> string \<Rightarrow> ds_err + Receipt" where
  "operationReceipt lib value effect_id =
     (if value = None \<or> SourceOperationReceipt_GetEffectId value \<noteq> effect_id
      then Inl (errors_new ''datasource: host returned a missing or mismatched receipt'')
      else
        (let receipt = zero_receipt\<lparr>EffectID := effect_id,
               ProviderStatus := uint (SourceOperationReceipt_GetProviderStatus value)\<rparr>;
             status = SourceOperationReceipt_GetStatus value;
             committed = SourceOperationReceipt_GetCommittedAt value;
             finish = (\<lambda>r. if committed = '''' then Inr r
                else (case parseHostTime lib committed of
                    Inl err \<Rightarrow> Inl (errorf_wrap ''datasource: invalid receipt commit time: '' err)
                  | Inr t \<Rightarrow> Inr (r\<lparr>CommittedAt := t\<rparr>)))
         in if status = ''committed'' then finish (receipt\<lparr>Status := ReceiptStatusCommitted\<rparr>)
            else if status = ''unknown'' then finish (receipt\<lparr>Status := ReceiptStatusUnknown\<rparr>)
            else Inl (errors_new (''datasource: unsupported host receipt status '' @ status))))"

text \<open>The output, if any, the receipt with its own output set, and the error.\<close>

definition committedOutput ::
  "InvokeSourceOperationResponse option \<Rightarrow> Receipt \<Rightarrow> string option \<times> Receipt \<times> ds_err option" where
  "committedOutput value receipt =
     (case objectJSON (SourceOperationReceipt_GetOutputJson
            (InvokeSourceOperationResponse_GetReceipt value)) of
        Inl err \<Rightarrow> (let r = receipt\<lparr>Output := None\<rparr>
                   in (None, r, Some (DatasourceError r (Some err))))
      | Inr saved \<Rightarrow>
          (let r = receipt\<lparr>Output := Some saved\<rparr> in
           case objectJSON (InvokeSourceOperationResponse_GetOutputJson value) of
             Inl err \<Rightarrow> (None, r, Some (DatasourceError r (Some err)))
           | Inr output \<Rightarrow> (Some output, r, None)))"

section \<open>Invoke\<close>

record Result =
  r_Output :: "string option"
  r_Receipt :: Receipt

text \<open>A Connect request: the message and the headers set on it.\<close>

record 'm connect_request =
  msg :: 'm
  header :: "(string \<times> string) list"

record 'm run =
  sent :: "'m connect_request list"
  result :: "Result option"
  run_err :: "ds_err option"

definition stop :: "ds_err \<Rightarrow> 'm run" where
  "stop e = \<lparr>sent = [], result = None, run_err = Some e\<rparr>"

text \<open>
  \<^verbatim>\<open>errors.As\<close> hands out a pointer into the tree; assigning through it replaces the first node of
  that type.
\<close>

fun set_unknown_receipt :: "Receipt \<Rightarrow> ds_err \<Rightarrow> ds_err"
  and set_unknown_list :: "Receipt \<Rightarrow> ds_err list \<Rightarrow> ds_err list" where
  "set_unknown_receipt r (Err l cs) =
     (case as_unknown l of Some _ \<Rightarrow> Err (LOutcomeUnknown r) cs
      | None \<Rightarrow> Err l (set_unknown_list r cs))"
| "set_unknown_list r [] = []"
| "set_unknown_list r (c # cs) =
     (if errors_as as_unknown c \<noteq> None then set_unknown_receipt r c # cs
      else c # set_unknown_list r cs)"

fun set_removed_receipt :: "Receipt \<Rightarrow> ds_err \<Rightarrow> ds_err"
  and set_removed_list :: "Receipt \<Rightarrow> ds_err list \<Rightarrow> ds_err list" where
  "set_removed_receipt r (Err l cs) =
     (case as_removed l of Some (s, _) \<Rightarrow> Err (LOperationDeclarationRemoved s r) cs
      | None \<Rightarrow> Err l (set_removed_list r cs))"
| "set_removed_list r [] = []"
| "set_removed_list r (c # cs) =
     (if errors_as as_removed c \<noteq> None then set_removed_receipt r c # cs
      else c # set_removed_list r cs)"

definition invoke_failure :: "host_lib \<Rightarrow> gotime \<Rightarrow> Result \<Rightarrow> ds_err \<Rightarrow> Result \<times> ds_err" where
  "invoke_failure lib now res err =
     (let mapped = map_host_error lib err True now;
          mapped = (case errors_as as_unknown mapped of
              None \<Rightarrow> mapped | Some _ \<Rightarrow> set_unknown_receipt (r_Receipt res) mapped)
      in case errors_as as_removed mapped of
           None \<Rightarrow> (res, mapped)
         | Some (status, _) \<Rightarrow>
             (let receipt = (r_Receipt res)\<lparr>Status := status\<rparr>
              in (res\<lparr>r_Receipt := receipt\<rparr>, set_removed_receipt receipt mapped)))"

definition invoke_answer ::
  "host_lib \<Rightarrow> string \<Rightarrow> Result \<Rightarrow> InvokeSourceOperationResponse option \<Rightarrow> Result \<times> ds_err option" where
  "invoke_answer lib effect_id res response =
     (case operationReceipt lib (InvokeSourceOperationResponse_GetReceipt response) effect_id of
        Inl err \<Rightarrow> (res, Some (OutcomeUnknown (r_Receipt res) (Some err)))
      | Inr receipt \<Rightarrow>
          (if Status receipt = ReceiptStatusUnknown
           then (res\<lparr>r_Receipt := receipt\<rparr>, Some (OutcomeUnknown receipt None))
           else (let (output, receipt', err) = committedOutput response receipt
                 in (res\<lparr>r_Output := output, r_Receipt := receipt'\<rparr>, err))))"

text \<open>
  The clock readings of one call: \<open>dispatch_now\<close> when the deadline is set, \<open>error_now\<close> when an
  error is mapped. \<open>new_uuid\<close> is the UUIDv7 minter.
\<close>

definition Invoke ::
  "host_lib \<Rightarrow> (go_ctx \<Rightarrow> InvokeSourceOperationRequest connect_request
      \<Rightarrow> ds_err + InvokeSourceOperationResponse option)
    \<Rightarrow> ds_err + string \<Rightarrow> gotime \<Rightarrow> gotime \<Rightarrow> go_ctx \<Rightarrow> string \<Rightarrow> string \<Rightarrow> string \<Rightarrow> invoke_input
    \<Rightarrow> (invokeOptions \<Rightarrow> invokeOptions) list \<Rightarrow> InvokeSourceOperationRequest run" where
  "Invoke lib inner new_uuid dispatch_now error_now ctx orgID sourceID operation input opts =
     (case inputJSON input of
        Inl err \<Rightarrow> stop err
      | Inr value \<Rightarrow>
        (let options = apply_options opts in
         case (if effectIDSet options
               then (case validateEffectID (effectID options) of
                       Some err \<Rightarrow> Inl err | None \<Rightarrow> Inr (effectID options))
               else (case new_uuid of
                       Inl err \<Rightarrow> Inl (errorf_wrap ''datasource: mint effect ID: '' err)
                     | Inr i \<Rightarrow> Inr i)) of
           Inl err \<Rightarrow> stop err
         | Inr effect_id \<Rightarrow>
           (let ctx = (if deadlineSet options
                       then context_with_deadline dispatch_now ctx (deadline options) else ctx) in
            case operationContextError ctx of
              Some err \<Rightarrow> stop err
            | None \<Rightarrow>
              (let res = \<lparr>r_Output = None, r_Receipt =
                     zero_receipt\<lparr>EffectID := effect_id, Status := ReceiptStatusUnknown\<rparr>\<rparr>;
                   request = \<lparr>msg = \<lparr>iq_OrgId = orgID, iq_SourceId = sourceID,
                       iq_Operation = operation, iq_InputJson = value, iq_EffectId = effect_id\<rparr>,
                     header = [(''x-codefly-effect-id'', effect_id)]\<rparr>
               in case inner ctx request of
                    Inl err \<Rightarrow>
                      (let (res', mapped) = invoke_failure lib error_now res err
                       in \<lparr>sent = [request], result = Some res', run_err = Some mapped\<rparr>)
                  | Inr response \<Rightarrow>
                      (let (res', err) = invoke_answer lib effect_id res response
                       in \<lparr>sent = [request], result = Some res', run_err = err\<rparr>)))))"

section \<open>Lookup\<close>

record lookup_run =
  l_sent :: "LookupInvokeSourceOperationRequest connect_request list"
  l_receipt :: "Receipt option"
  l_err :: "ds_err option"

definition unknown_receipt :: "string \<Rightarrow> Receipt" where
  "unknown_receipt i = zero_receipt\<lparr>EffectID := i, Status := ReceiptStatusUnknown\<rparr>"

definition lookup_failure :: "host_lib \<Rightarrow> gotime \<Rightarrow> string \<Rightarrow> ds_err \<Rightarrow> Receipt option \<times> ds_err" where
  "lookup_failure lib now i err =
     (if \<not> lib_is_wire lib err
      then (Some (unknown_receipt i), OutcomeUnknown (unknown_receipt i) (Some err))
      else if lib_code_of lib err = CodeNotFound
      then (Some (zero_receipt\<lparr>EffectID := i, Status := ReceiptStatusNotAttempted\<rparr>),
            hostError ErrEffectNotFound err)
      else if lib_code_of lib err = CodeDeadlineExceeded \<or> lib_code_of lib err = CodeCanceled
      then (None, err)
      else
        (let mapped = map_host_error lib err True now in
         case errors_as as_unknown mapped of
           Some _ \<Rightarrow> (Some (unknown_receipt i), set_unknown_receipt (unknown_receipt i) mapped)
         | None \<Rightarrow> (case errors_as as_removed mapped of
               Some (_, r) \<Rightarrow> (Some (r\<lparr>EffectID := i\<rparr>), set_removed_receipt (r\<lparr>EffectID := i\<rparr>) mapped)
             | None \<Rightarrow> (None, mapped))))"

definition lookup_answer ::
  "host_lib \<Rightarrow> string \<Rightarrow> InvokeSourceOperationResponse option \<Rightarrow> Receipt \<times> ds_err option" where
  "lookup_answer lib i response =
     (case operationReceipt lib (InvokeSourceOperationResponse_GetReceipt response) i of
        Inl err \<Rightarrow> (unknown_receipt i, Some (OutcomeUnknown (unknown_receipt i) (Some err)))
      | Inr receipt \<Rightarrow>
          (if Status receipt = ReceiptStatusUnknown then (receipt, Some (OutcomeUnknown receipt None))
           else (let (_, receipt', err) = committedOutput response receipt in (receipt', err))))"

definition Lookup ::
  "host_lib \<Rightarrow> (go_ctx \<Rightarrow> LookupInvokeSourceOperationRequest connect_request
      \<Rightarrow> ds_err + InvokeSourceOperationResponse option)
    \<Rightarrow> gotime \<Rightarrow> go_ctx \<Rightarrow> string \<Rightarrow> string \<Rightarrow> string \<Rightarrow> lookup_run" where
  "Lookup lib inner now ctx orgID sourceID i =
     (case validateEffectID i of
        Some err \<Rightarrow> \<lparr>l_sent = [], l_receipt = None, l_err = Some err\<rparr>
      | None \<Rightarrow> (case operationContextError ctx of
          Some err \<Rightarrow> \<lparr>l_sent = [], l_receipt = None, l_err = Some err\<rparr>
        | None \<Rightarrow>
          (let request = \<lparr>msg = \<lparr>lq_EffectId = i\<rparr>, header = []\<rparr> in
           case inner ctx request of
             Inl err \<Rightarrow> (let (r, e) = lookup_failure lib now i err
                        in \<lparr>l_sent = [request], l_receipt = r, l_err = Some e\<rparr>)
           | Inr response \<Rightarrow> (let (r, e) = lookup_answer lib i response
                        in \<lparr>l_sent = [request], l_receipt = Some r, l_err = e\<rparr>))))"

section \<open>Payload checks\<close>

lemma objectJSON_Inr: "objectJSON v = Inr w \<Longrightarrow> w = v"
  by (auto simp: objectJSON_def Let_def split: if_splits)

lemma inputJSON_Inr: "inputJSON input = Inr w \<Longrightarrow> input = InputValue (Inr w) \<and> objectJSON w = Inr w"
  by (auto simp: inputJSON_def dest: objectJSON_Inr split: invoke_input.splits sum.splits)

lemma no_control_bytes_iff: "no_control_bytes s \<longleftrightarrow> (\<forall>c \<in> set s. 32 \<le> byte c \<and> byte c \<noteq> 127)"
  by (induction s) auto

lemma validateEffectID_None:
  "validateEffectID i = None \<longleftrightarrow>
     0 < length i \<and> length i \<le> 128 \<and> utf8_valid i \<and> hd i \<noteq> CHR '' '' \<and> last i \<noteq> CHR '' '' \<and>
     (\<forall>c \<in> set i. 32 \<le> byte c \<and> byte c \<noteq> 127)"
  by (auto simp: validateEffectID_def Let_def no_control_bytes_iff)

text \<open>
  What \<^verbatim>\<open>net/http\<close> sends of a header value: it trims leading and trailing spaces and tabs.
\<close>

definition header_space :: "char \<Rightarrow> bool" where
  "header_space c \<longleftrightarrow> c = CHR '' '' \<or> byte c = 9"

definition header_trim :: "string \<Rightarrow> string" where
  "header_trim s = rev (dropWhile header_space (rev (dropWhile header_space s)))"

lemma header_trim_id:
  assumes "s \<noteq> []" and "\<not> header_space (hd s)" and "\<not> header_space (last s)"
  shows "header_trim s = s"
proof -
  have "dropWhile header_space s = s" using assms by (cases s) auto
  moreover have "dropWhile header_space (rev s) = rev s"
    using assms by (cases "rev s") (auto simp: hd_rev [symmetric])
  ultimately show ?thesis by (simp add: header_trim_def)
qed

lemma header_trim_ends:
  assumes "header_trim s = s" and "s \<noteq> []"
  shows "\<not> header_space (hd s)" and "\<not> header_space (last s)"
proof -
  define t where "t = dropWhile header_space s"
  have s: "s = rev (dropWhile header_space (rev t))" using assms(1) by (simp add: header_trim_def t_def)
  then have "length t \<ge> length s" by (metis length_dropWhile_le length_rev)
  moreover have "takeWhile header_space s @ t = s" by (simp add: t_def)
  ultimately have t: "t = s" by (cases "takeWhile header_space s") (auto dest: arg_cong [of _ _ length])
  show "\<not> header_space (hd s)"
    using hd_dropWhile [of header_space s] t assms(2) unfolding t_def by auto
  have "rev s = dropWhile header_space (rev s)" using s t by (metis rev_rev_ident)
  then have "\<not> header_space (hd (rev s))" using hd_dropWhile [of header_space "rev s"] assms(2) by auto
  then show "\<not> header_space (last s)" by (simp add: hd_rev)
qed

section \<open>Errors that carry the receipt\<close>

lemma set_unknown_list_other:
  "\<forall>c \<in> set cs. errors_as as_unknown c = None \<Longrightarrow> set_unknown_list r cs = cs"
  by (induction cs) auto

lemma set_removed_list_other:
  "\<forall>c \<in> set cs. errors_as as_removed c = None \<Longrightarrow> set_removed_list r cs = cs"
  by (induction cs) auto

lemma as_unknown_set:
  fixes e :: ds_err and es :: "ds_err list"
  shows "errors_as as_unknown e \<noteq> None \<Longrightarrow> errors_as as_unknown (set_unknown_receipt r e) = Some r"
    and "first_some (map (errors_as as_unknown) es) \<noteq> None \<Longrightarrow>
      first_some (map (errors_as as_unknown) (set_unknown_list r es)) = Some r"
proof (induction r e and r es rule: set_unknown_receipt_set_unknown_list.induct)
  case (1 r l cs)
  then show ?case by (cases "as_unknown l") auto
next
  case (3 r c cs)
  then show ?case by (cases "errors_as as_unknown c") auto
qed simp_all

lemma as_unknown_label: "as_unknown l \<noteq> None \<Longrightarrow> sdk_label l \<and> is_sentinel ErrOutcomeUnknown l"
  by (cases l) auto

lemma as_removed_label: "as_removed l \<noteq> None \<Longrightarrow> sdk_label l"
  by (cases l) auto

lemma foreign_as_None:
  assumes "foreign e"
  shows "errors_as as_unknown e = None" and "errors_as as_removed e = None"
  using assms as_unknown_label as_removed_label
  unfolding foreign_def errors_as_None_iff by blast+

lemma as_unknown_is: "errors_as as_unknown e \<noteq> None \<Longrightarrow> err_is e ErrOutcomeUnknown"
  using as_unknown_label unfolding errors_is_iff errors_as_None_iff by blast

text \<open>
  The classification of a foreign error is the error itself or one node around it, so the two
  assignments through \<^verbatim>\<open>errors.As\<close> set the receipt of that node.
\<close>

lemma set_unknown_wrap:
  assumes "wraps m err" and "foreign err" and "errors_as as_unknown m \<noteq> None"
  shows "set_unknown_receipt r m = Err (LOutcomeUnknown r) [err]"
  using assms(1)
proof cases
  case wraps_same
  with assms(2,3) foreign_as_None [of err] show ?thesis by simp
next
  case (wraps_node l)
  with assms(2,3) foreign_as_None(1) [of err] have "as_unknown l \<noteq> None"
    by (cases "as_unknown l") auto
  with wraps_node show ?thesis by (cases l) auto
qed

lemma set_removed_wrap:
  assumes "wraps m err" and "foreign err" and "errors_as as_removed m = Some (s, r')"
  shows "m = Err (LOperationDeclarationRemoved s r') [err]
    \<and> set_removed_receipt r m = Err (LOperationDeclarationRemoved s r) [err]"
  using assms(1)
proof cases
  case wraps_same
  with assms(2,3) foreign_as_None [of err] show ?thesis by simp
next
  case (wraps_node l)
  with assms(2,3) foreign_as_None(2) [of err] have "as_removed l = Some (s, r')"
    by (cases "as_removed l") auto
  with wraps_node show ?thesis by (cases l) auto
qed

section \<open>Invoke, by cases\<close>

definition invoke_request ::
  "string \<Rightarrow> string \<Rightarrow> string \<Rightarrow> string \<Rightarrow> string \<Rightarrow> InvokeSourceOperationRequest connect_request" where
  "invoke_request orgID sourceID operation value i =
     \<lparr>msg = \<lparr>iq_OrgId = orgID, iq_SourceId = sourceID, iq_Operation = operation,
        iq_InputJson = value, iq_EffectId = i\<rparr>, header = [(''x-codefly-effect-id'', i)]\<rparr>"

definition start_result :: "string \<Rightarrow> Result" where
  "start_result i = \<lparr>r_Output = None, r_Receipt = unknown_receipt i\<rparr>"

definition effective_ctx :: "gotime \<Rightarrow> go_ctx \<Rightarrow> invokeOptions \<Rightarrow> go_ctx" where
  "effective_ctx now ctx options =
     (if deadlineSet options then context_with_deadline now ctx (deadline options) else ctx)"

lemma Invoke_cases:
  assumes "Invoke lib inner uuid dnow enow ctx orgID sourceID operation input opts = run"
  obtains (stopped) e where "run = stop e" and
      "inputJSON input = Inl e \<or> (\<exists>i. validateEffectID i = Some e) \<or>
       (\<exists>x. uuid = Inl x \<and> e = errorf_wrap ''datasource: mint effect ID: '' x) \<or>
       operationContextError (effective_ctx dnow ctx (apply_options opts)) = Some e"
  | (failed) v i err res m where
      "inputJSON input = Inr v" and "effectIDSet (apply_options opts) \<Longrightarrow> i = effectID (apply_options opts) \<and> validateEffectID i = None" and
      "\<not> effectIDSet (apply_options opts) \<Longrightarrow> uuid = Inr i" and
      "operationContextError (effective_ctx dnow ctx (apply_options opts)) = None" and
      "inner (effective_ctx dnow ctx (apply_options opts))
         (invoke_request orgID sourceID operation v i) = Inl err" and
      "invoke_failure lib enow (start_result i) err = (res, m)" and
      "run = \<lparr>sent = [invoke_request orgID sourceID operation v i], result = Some res, run_err = Some m\<rparr>"
  | (answered) v i response res e where
      "inputJSON input = Inr v" and "effectIDSet (apply_options opts) \<Longrightarrow> i = effectID (apply_options opts) \<and> validateEffectID i = None" and
      "\<not> effectIDSet (apply_options opts) \<Longrightarrow> uuid = Inr i" and
      "operationContextError (effective_ctx dnow ctx (apply_options opts)) = None" and
      "inner (effective_ctx dnow ctx (apply_options opts))
         (invoke_request orgID sourceID operation v i) = Inr response" and
      "invoke_answer lib i (start_result i) response = (res, e)" and
      "run = \<lparr>sent = [invoke_request orgID sourceID operation v i], result = Some res, run_err = e\<rparr>"
  using assms
  unfolding Invoke_def effective_ctx_def [symmetric] invoke_request_def [symmetric]
    unknown_receipt_def [symmetric] start_result_def [symmetric] Let_def
  by (auto split: sum.splits if_splits option.splits prod.splits)

end
