(* ===== verification/DatasourceEffects.thy ===== *)
theory DatasourceEffects
  imports DatasourceOperations
begin

text \<open>
  What \<^verbatim>\<open>Invoke\<close> and \<^verbatim>\<open>Lookup\<close> promise about an effect: the identity of the effect is never lost,
  a success is committed evidence, an outcome that the host did not establish is reported as
  unknown with the receipt to look it up, and nothing is sent before the checks pass.
\<close>

section \<open>Receipts of the host\<close>

lemma operationReceipt_Inr:
  assumes "operationReceipt lib sr i = Inr r"
  shows "\<exists>m. sr = Some m \<and> sr_EffectId m = i \<and> EffectID r = i \<and> Output r = None
    \<and> ProviderStatus r = uint (sr_ProviderStatus m)
    \<and> ((sr_Status m = ''committed'' \<and> Status r = ReceiptStatusCommitted) \<or>
       (sr_Status m = ''unknown'' \<and> Status r = ReceiptStatusUnknown))"
  using assms
  by (cases sr) (auto simp: operationReceipt_def Let_def zero_receipt_def split: if_splits sum.splits)

lemma committedOutput_props:
  assumes "committedOutput v r = (out, r', e)"
  shows "EffectID r' = EffectID r" and "Status r' = Status r"
    and "e = None \<Longrightarrow> \<exists>saved top.
      objectJSON (SourceOperationReceipt_GetOutputJson (InvokeSourceOperationResponse_GetReceipt v)) = Inr saved
      \<and> objectJSON (InvokeSourceOperationResponse_GetOutputJson v) = Inr top
      \<and> out = Some top \<and> Output r' = Some saved"
    and "e = Some x \<Longrightarrow> \<exists>c. x = DatasourceError r' (Some c) \<and> out = None"
    and "CommittedAt r' = CommittedAt r \<and> ProviderStatus r' = ProviderStatus r"
  using assms by (auto simp: committedOutput_def Let_def split: sum.splits)

lemma objectJSON_not_unknown: "objectJSON v = Inl e \<Longrightarrow> e = errors_new ''datasource: expected exactly one JSON object''"
  by (auto simp: objectJSON_def Let_def split: if_splits)

lemma committed_error_definite:
  assumes "committedOutput v r = (out, r', Some x)"
  shows "\<not> err_is x ErrOutcomeUnknown"
  using assms
  by (auto simp: committedOutput_def Let_def errors_new_def dest!: objectJSON_not_unknown split: sum.splits)

lemma committed_error_kind:
  assumes "committedOutput v r = (out, r', Some x)"
  shows "errors_as as_unknown x = None \<and> errors_as as_removed x = None"
  using assms
  by (auto simp: committedOutput_def Let_def errors_new_def dest!: objectJSON_not_unknown split: sum.splits)

lemma operationReceipt_error_known:
  assumes "operationReceipt lib sr i = Inl c" and "\<And>s e. lib_timestamp lib s = Inl e \<Longrightarrow> foreign e"
  shows "errors_as as_unknown c = None \<and> errors_as as_removed c = None"
proof -
  have "errors_as as_unknown e = None \<and> errors_as as_removed e = None" if "lib_timestamp lib s = Inl e" for s e
    using assms(2) [OF that] foreign_as_None by blast
  with assms(1) show ?thesis
    by (auto simp: operationReceipt_def parseHostTime_def errorf_wrap_def errors_new_def Let_def
        split: if_splits sum.splits)
qed

section \<open>The answered and the failed call\<close>

lemma invoke_answer_cases:
  assumes "invoke_answer lib i (start_result i) response = (res, e)"
  obtains (bad) c where "operationReceipt lib (InvokeSourceOperationResponse_GetReceipt response) i = Inl c"
      and "res = start_result i" and "e = Some (OutcomeUnknown (unknown_receipt i) (Some c))"
  | (unknown) r where "operationReceipt lib (InvokeSourceOperationResponse_GetReceipt response) i = Inr r"
      and "Status r = ReceiptStatusUnknown" and "res = (start_result i)\<lparr>r_Receipt := r\<rparr>"
      and "e = Some (OutcomeUnknown r None)"
  | (committed) r out r' where "operationReceipt lib (InvokeSourceOperationResponse_GetReceipt response) i = Inr r"
      and "Status r = ReceiptStatusCommitted" and "committedOutput response r = (out, r', e)"
      and "res = \<lparr>r_Output = out, r_Receipt = r'\<rparr>"
proof (cases "operationReceipt lib (InvokeSourceOperationResponse_GetReceipt response) i")
  case (Inl c)
  with assms show ?thesis by (intro bad [of c]) (auto simp: invoke_answer_def start_result_def)
next
  case (Inr r)
  show ?thesis
  proof (cases "Status r = ReceiptStatusUnknown")
    case True
    with assms Inr show ?thesis by (intro unknown [of r]) (auto simp: invoke_answer_def)
  next
    case False
    with operationReceipt_Inr [OF Inr] have "Status r = ReceiptStatusCommitted" by auto
    with assms Inr False show ?thesis
      by (cases "committedOutput response r")
        (auto simp: invoke_answer_def start_result_def intro!: committed)
  qed
qed

lemma start_result_simps [simp]:
  "r_Receipt (start_result i) = unknown_receipt i" "r_Output (start_result i) = None"
  by (simp_all add: start_result_def)

lemma unknown_receipt_simps [simp]:
  "EffectID (unknown_receipt i) = i" "Status (unknown_receipt i) = ReceiptStatusUnknown"
  "Output (unknown_receipt i) = None"
  by (simp_all add: unknown_receipt_def zero_receipt_def)

lemma operationReceipt_id: "operationReceipt lib sr i = Inr r \<Longrightarrow> EffectID r = i"
  using operationReceipt_Inr by blast

lemma invoke_answer_id:
  assumes "invoke_answer lib i (start_result i) response = (res, e)"
  shows "EffectID (r_Receipt res) = i"
  using assms
proof (cases rule: invoke_answer_cases)
  case (unknown r)
  from operationReceipt_id [OF unknown(1)] unknown(3) show ?thesis by simp
next
  case (committed r out r')
  from operationReceipt_id [OF committed(1)] committedOutput_props(1) [OF committed(3)] committed(4)
  show ?thesis by simp
qed simp

lemma invoke_failure_receipt:
  assumes "invoke_failure lib now (start_result i) err = (res, m)"
  shows "EffectID (r_Receipt res) = i" and "r_Output res = None" and "Output (r_Receipt res) = None"
  using assms by (auto simp: invoke_failure_def Let_def split: option.splits)

text \<open>Only an \<^verbatim>\<open>OutcomeUnknown\<close> node makes a classified host error an unknown outcome.\<close>

lemma map_precondition_unknown_node:
  "foreign err \<Longrightarrow> err_is (map_precondition d eo err) ErrOutcomeUnknown \<Longrightarrow>
     errors_as as_unknown (map_precondition d eo err) \<noteq> None"
  unfolding map_precondition_def Let_def hostError_def by (auto simp: foreign_not_is split: if_splits)

lemma map_code_unknown_node:
  assumes "foreign err" and "err_is (map_code lib c d eo now err) ErrOutcomeUnknown"
  shows "errors_as as_unknown (map_code lib c d eo now err) \<noteq> None"
  using assms map_precondition_unknown_node [of err d eo]
  by (cases c) (auto simp: map_code_def hostError_def foreign_not_is split: if_splits)

lemma host_error_unknown_node:
  assumes "foreign err" and "err_is (map_host_error lib err eo now) ErrOutcomeUnknown"
  shows "errors_as as_unknown (map_host_error lib err eo now) \<noteq> None"
proof (cases "eo \<and> \<not> lib_is_wire lib err")
  case True
  then show ?thesis by (simp add: map_host_error_def)
next
  case wire: False
  show ?thesis
  proof (cases "errors_as as_encoding err")
    case (Some x)
    then show ?thesis using assms wire by (simp add: map_host_error_def foreign_not_is if_not_P del: de_Morgan_conj)
  next
    case enc: None
    show ?thesis
    proof (cases "errors_as as_connect err")
      case None
      then show ?thesis using assms wire enc by (simp add: map_host_error_def foreign_not_is if_not_P del: de_Morgan_conj)
    next
      case (Some ce)
      then have "map_host_error lib err eo now
          = map_code lib (ce_code ce) (read_details (ce_details ce)) eo now err"
        using wire enc by (simp add: map_host_error_def if_not_P del: de_Morgan_conj)
      then show ?thesis using assms map_code_unknown_node [OF assms(1)] by metis
    qed
  qed
qed

text \<open>A removed declaration carries one of the two statuses the host can observe.\<close>

lemma removed_status_cases: "removed_status d = ReceiptStatusCommitted \<or> removed_status d = ReceiptStatusUnknown"
  by (simp add: removed_status_def)

lemma map_code_removed_status:
  assumes "foreign err" and "errors_as as_removed (map_code lib c d eo now err) = Some (st, r)"
  shows "(st = ReceiptStatusCommitted \<or> st = ReceiptStatusUnknown) \<and> r = zero_receipt\<lparr>Status := st\<rparr>"
  using assms foreign_as_None(2) [OF assms(1)] removed_status_cases [of d]
  by (cases c) (auto simp: map_code_def map_precondition_def hostError_def Let_def split: if_splits)

lemma host_error_removed_status:
  assumes "foreign err" and "errors_as as_removed (map_host_error lib err eo now) = Some (st, r)"
  shows "(st = ReceiptStatusCommitted \<or> st = ReceiptStatusUnknown) \<and> r = zero_receipt\<lparr>Status := st\<rparr>"
  using assms(2) map_code_removed_status [OF assms(1)] foreign_as_None(2) [OF assms(1)]
  by (auto simp: map_host_error_def split: if_splits option.splits)

text \<open>A failed call, by what the classification says of it.\<close>

lemma invoke_failure_cases:
  assumes fail: "invoke_failure lib now (start_result i) err = (res, m)" and foreign: "foreign err"
  obtains (unknown) "m = Err (LOutcomeUnknown (unknown_receipt i)) [err]" and "res = start_result i"
      and "err_is (map_host_error lib err True now) ErrOutcomeUnknown"
  | (removed) st where "m = Err (LOperationDeclarationRemoved st ((unknown_receipt i)\<lparr>Status := st\<rparr>)) [err]"
      and "res = (start_result i)\<lparr>r_Receipt := (unknown_receipt i)\<lparr>Status := st\<rparr>\<rparr>"
      and "\<not> err_is (map_host_error lib err True now) ErrOutcomeUnknown"
      and "st = ReceiptStatusCommitted \<or> st = ReceiptStatusUnknown"
  | (definite) "m = map_host_error lib err True now" and "res = start_result i"
      and "\<not> err_is m ErrOutcomeUnknown" and "errors_as as_removed m = None"
proof -
  define h where "h = map_host_error lib err True now"
  have w: "wraps h err" unfolding h_def by (rule map_host_error_wraps)
  show ?thesis
  proof (cases "errors_as as_unknown h")
    case (Some r)
    then have set: "set_unknown_receipt (unknown_receipt i) h = Err (LOutcomeUnknown (unknown_receipt i)) [err]"
      using set_unknown_wrap [OF w foreign] by simp
    have "err_is h ErrOutcomeUnknown" using Some as_unknown_is by simp
    then show ?thesis
      using fail Some set foreign_as_None(2) [OF foreign]
      by (intro unknown) (auto simp: invoke_failure_def h_def)
  next
    case None
    then have notis: "\<not> err_is h ErrOutcomeUnknown"
      using host_error_unknown_node [OF foreign] unfolding h_def by blast
    show ?thesis
    proof (cases "errors_as as_removed h")
      case removed_none: None
      with None fail notis show ?thesis
        by (intro definite) (auto simp: invoke_failure_def h_def)
    next
      case (Some sr)
      obtain st r where sr: "sr = (st, r)" by (cases sr)
      have "set_removed_receipt ((unknown_receipt i)\<lparr>Status := st\<rparr>) h
          = Err (LOperationDeclarationRemoved st ((unknown_receipt i)\<lparr>Status := st\<rparr>)) [err]"
        using set_removed_wrap [OF w foreign] Some sr by simp
      moreover have "st = ReceiptStatusCommitted \<or> st = ReceiptStatusUnknown"
        using host_error_removed_status [OF foreign] Some sr unfolding h_def by blast
      ultimately show ?thesis using None Some sr fail notis
        by (intro removed [of st]) (auto simp: invoke_failure_def h_def Let_def)
    qed
  qed
qed

section \<open>Invoke\<close>

text \<open>C1:
  one \<^verbatim>\<open>Invoke\<close> sends at most one request. It returns a \<^verbatim>\<open>Result\<close> exactly when it sent one,
  and the effect ID of that request, in the message and in the \<^verbatim>\<open>x-codefly-effect-id\<close> header, is the
  effect ID of the result's receipt, on every outcome; a call that sends nothing returns an error.
\<close>

theorem Invoke_sends_once:
  "(\<exists>e. Invoke lib inner uuid dnow enow ctx orgID sourceID operation input opts
      = \<lparr>sent = [], result = None, run_err = Some e\<rparr>)
   \<or> (\<exists>v res e. Invoke lib inner uuid dnow enow ctx orgID sourceID operation input opts
      = \<lparr>sent = [\<lparr>msg = \<lparr>iq_OrgId = orgID, iq_SourceId = sourceID, iq_Operation = operation,
            iq_InputJson = v, iq_EffectId = EffectID (r_Receipt res)\<rparr>,
           header = [(''x-codefly-effect-id'', EffectID (r_Receipt res))]\<rparr>],
         result = Some res, run_err = e\<rparr>
      \<and> inputJSON input = Inr v)"
proof -
  obtain run where run: "Invoke lib inner uuid dnow enow ctx orgID sourceID operation input opts = run"
    by blast
  then show ?thesis
  proof (cases rule: Invoke_cases)
  case (stopped e)
  with run show ?thesis by (simp add: stop_def)
next
  case (failed v i err res m)
  from invoke_failure_receipt(1) [OF failed(6)] failed(1,7) run show ?thesis
    unfolding invoke_request_def by blast
next
  case (answered v i response res e)
  from invoke_answer_id [OF answered(6)] answered(1,7) run show ?thesis
    unfolding invoke_request_def by blast
  qed
qed

text \<open>C14:
  \<^verbatim>\<open>Invoke\<close> reports success only on committed evidence: the host answered with a receipt for
  this very effect ID whose status is \<^verbatim>\<open>committed\<close>; the output of the result and the saved output of
  the receipt are the host's two texts, unchanged, and both are JSON objects.
\<close>

theorem Invoke_success_is_committed:
  assumes "Invoke lib inner uuid dnow enow ctx orgID sourceID operation input opts = run"
    and "run_err run = None"
  shows "\<exists>q response m res. sent run = [q] \<and> result run = Some res \<and> response = Some m
    \<and> inner (effective_ctx dnow ctx (apply_options opts)) q = Inr response
    \<and> (\<exists>sr. ir_Receipt m = Some sr \<and> sr_EffectId sr = iq_EffectId (msg q) \<and> sr_Status sr = ''committed''
        \<and> Status (r_Receipt res) = ReceiptStatusCommitted \<and> EffectID (r_Receipt res) = iq_EffectId (msg q)
        \<and> Output (r_Receipt res) = Some (sr_OutputJson sr) \<and> objectJSON (sr_OutputJson sr) = Inr (sr_OutputJson sr)
        \<and> r_Output res = Some (ir_OutputJson m) \<and> objectJSON (ir_OutputJson m) = Inr (ir_OutputJson m))"
  using assms(1)
proof (cases rule: Invoke_cases)
  case (stopped e)
  with assms(2) show ?thesis by (simp add: stop_def)
next
  case (failed v i err res m)
  with assms(2) show ?thesis by simp
next
  case (answered v i response res e)
  with assms(2) have "e = None" by simp
  from answered(6) show ?thesis
  proof (cases rule: invoke_answer_cases)
    case (committed r out r')
    from operationReceipt_Inr [OF committed(1)] committed(2) obtain sr where
      sr: "InvokeSourceOperationResponse_GetReceipt response = Some sr" "sr_EffectId sr = i"
        "EffectID r = i" "sr_Status sr = ''committed''" by auto
    then obtain m where m: "response = Some m" "ir_Receipt m = Some sr" by (cases response) auto
    from committedOutput_props(3) [OF committed(3) \<open>e = None\<close>] sr(1) m
    have out: "objectJSON (sr_OutputJson sr) = Inr (sr_OutputJson sr)" "Output r' = Some (sr_OutputJson sr)"
      "objectJSON (ir_OutputJson m) = Inr (ir_OutputJson m)" "out = Some (ir_OutputJson m)"
      by (auto dest: objectJSON_Inr)
    from committedOutput_props(1,2) [OF committed(3)] sr(3) committed(2)
    have "EffectID r' = i" "Status r' = ReceiptStatusCommitted" by simp_all
    with sr m out committed(4) answered(5,7) show ?thesis by (simp add: invoke_request_def)
  qed (use \<open>e = None\<close> in auto)
qed

text \<open>Where the errors of a call come from: the codecs, the UUID minter and the transport.\<close>

definition foreign_sources ::
  "host_lib \<Rightarrow> ('c \<Rightarrow> 'q \<Rightarrow> ds_err + 'r) \<Rightarrow> ds_err + string \<Rightarrow> invoke_input \<Rightarrow> bool" where
  "foreign_sources lib inner uuid input \<longleftrightarrow>
     (\<forall>c q e. inner c q = Inl e \<longrightarrow> foreign e) \<and> (\<forall>e. uuid = Inl e \<longrightarrow> foreign e) \<and>
     (\<forall>e. input = InputValue (Inl e) \<longrightarrow> foreign e) \<and>
     (\<forall>s e. lib_timestamp lib s = Inl e \<longrightarrow> foreign e)"

lemma foreign_node: "foreign e \<Longrightarrow> as_unknown l = None \<Longrightarrow> as_removed l = None \<Longrightarrow>
    errors_as as_unknown (Err l [e]) = None \<and> errors_as as_removed (Err l [e]) = None"
  using foreign_as_None by simp

text \<open>A call that stops before the dispatch never reports an effect.\<close>

lemma inputJSON_error_known:
  assumes "inputJSON input = Inl e" and "foreign_sources lib inner uuid input"
  shows "errors_as as_unknown e = None \<and> errors_as as_removed e = None"
  using assms foreign_as_None
  by (auto simp: inputJSON_def foreign_sources_def errors_new_def
      dest!: objectJSON_not_unknown split: invoke_input.splits sum.splits)

lemma operationContextError_known:
  "operationContextError ctx = Some e \<Longrightarrow> errors_as as_unknown e = None \<and> errors_as as_removed e = None"
  by (auto simp: operationContextError_def errorf_wrap_def Let_def split: option.splits if_splits)

lemma validateEffectID_error_known:
  "validateEffectID i = Some e \<Longrightarrow> errors_as as_unknown e = None \<and> errors_as as_removed e = None"
  by (auto simp: validateEffectID_def errors_new_def Let_def split: if_splits)

lemma minting_error_known:
  "foreign x \<Longrightarrow> errors_as as_unknown (errorf_wrap m x) = None \<and> errors_as as_removed (errorf_wrap m x) = None"
  using foreign_as_None [of x] by (simp add: errorf_wrap_def)

lemma stopped_error_known:
  assumes "inputJSON input = Inl e \<or> (\<exists>i. validateEffectID i = Some e) \<or>
       (\<exists>x. uuid = Inl x \<and> e = errorf_wrap m x) \<or> operationContextError c = Some e"
    and "foreign_sources lib inner uuid input"
  shows "errors_as as_unknown e = None \<and> errors_as as_removed e = None"
proof -
  have "uuid = Inl x \<Longrightarrow> foreign x" for x using assms(2) unfolding foreign_sources_def by blast
  with assms(1) show ?thesis
    using inputJSON_error_known [OF _ assms(2)] operationContextError_known
      validateEffectID_error_known minting_error_known by metis
qed

text \<open>C2:
  when \<^verbatim>\<open>Invoke\<close>'s error is, by \<^verbatim>\<open>errors.Is\<close>, not an unknown outcome and a request was sent, the
  host itself established the outcome: it answered with a committed receipt for this effect ID, or
  with an error decoded from the wire. Losing the answer is always reported as unknown.
\<close>

theorem Invoke_no_silent_loss:
  assumes "Invoke lib inner uuid dnow enow ctx orgID sourceID operation input opts
      = \<lparr>sent = [q], result = Some res, run_err = e\<rparr>"
    and "foreign_sources lib inner uuid input"
    and "case e of None \<Rightarrow> True | Some x \<Rightarrow> \<not> err_is x ErrOutcomeUnknown"
  shows "(\<exists>err. inner (effective_ctx dnow ctx (apply_options opts)) q = Inl err \<and> lib_is_wire lib err)
    \<or> (\<exists>response r. inner (effective_ctx dnow ctx (apply_options opts)) q = Inr response
        \<and> operationReceipt lib (InvokeSourceOperationResponse_GetReceipt response) (iq_EffectId (msg q)) = Inr r
        \<and> Status r = ReceiptStatusCommitted)"
  using assms(1)
proof (cases rule: Invoke_cases)
  case (stopped x)
  then show ?thesis by (simp add: stop_def)
next
  case (failed v i err res' m)
  then have q: "q = invoke_request orgID sourceID operation v i" and e: "e = Some m" by simp_all
  have "foreign err" using assms(2) failed(5) unfolding foreign_sources_def by blast
  with failed(6) have "lib_is_wire lib err"
    using assms(3) e by (cases rule: invoke_failure_cases) (auto simp: map_host_error_def split: if_splits)
  with failed(5) q show ?thesis by blast
next
  case (answered v i response res' e')
  then have q: "q = invoke_request orgID sourceID operation v i" and e: "e = e'" by simp_all
  from answered(6) show ?thesis
  proof (cases rule: invoke_answer_cases)
    case (committed r out r')
    with answered(5) q show ?thesis by (auto simp: invoke_request_def)
  qed (use assms(3) e in auto)
qed

text \<open>
  an unknown-outcome error carries the receipt of the result itself, with the effect ID that was
  sent, status UNKNOWN and no output, so the caller can look the effect up from either.
\<close>

theorem Invoke_unknown_receipt:
  assumes "Invoke lib inner uuid dnow enow ctx orgID sourceID operation input opts
      = \<lparr>sent = s, result = r, run_err = Some e\<rparr>"
    and "foreign_sources lib inner uuid input" and "errors_as as_unknown e = Some rec"
  shows "\<exists>q res. s = [q] \<and> r = Some res \<and> r_Receipt res = rec \<and> EffectID rec = iq_EffectId (msg q)
    \<and> Status rec = ReceiptStatusUnknown \<and> Output rec = None \<and> r_Output res = None"
  using assms(1)
proof (cases rule: Invoke_cases)
  case (stopped x)
  then have "x = e" by (simp add: stop_def)
  with stopped_error_known [OF stopped(2) assms(2)] assms(3) show ?thesis by simp
next
  case (failed v i err res m)
  have f: "foreign err" using assms(2) failed(5) unfolding foreign_sources_def by blast
  with failed(6) show ?thesis
  proof (cases rule: invoke_failure_cases)
    case definite
    with failed assms(3) as_unknown_is [of m] show ?thesis by auto
  qed (use failed assms(3) foreign_as_None(1) [OF f] in \<open>auto simp: invoke_request_def\<close>)
next
  case (answered v i response res e')
  from answered(6) show ?thesis
  proof (cases rule: invoke_answer_cases)
    case (unknown r')
    with operationReceipt_Inr [OF unknown(1)] answered assms(3) show ?thesis
      by (auto simp: invoke_request_def)
  next
    case (committed r' out r'')
    with answered have "committedOutput response r' = (out, r'', Some e)" by simp
    from committed_error_definite [OF this] as_unknown_is [of e] assms(3) show ?thesis by simp
  qed (use answered assms(3) in \<open>auto simp: invoke_request_def\<close>)
qed

text \<open>
  a removed declaration is reported with the receipt of the result, which keeps the effect ID
  that was sent and takes the host's observation of it, COMMITTED or UNKNOWN, and nothing else.
\<close>

theorem Invoke_removed_receipt:
  assumes "Invoke lib inner uuid dnow enow ctx orgID sourceID operation input opts
      = \<lparr>sent = s, result = r, run_err = Some e\<rparr>"
    and "foreign_sources lib inner uuid input" and "errors_as as_removed e = Some (st, rec)"
  shows "\<exists>q res. s = [q] \<and> r = Some res \<and> r_Receipt res = rec \<and> r_Output res = None
    \<and> rec = (unknown_receipt (iq_EffectId (msg q)))\<lparr>Status := st\<rparr>
    \<and> (st = ReceiptStatusCommitted \<or> st = ReceiptStatusUnknown)
    \<and> err_is e ErrOperationDeclarationRemoved \<and> \<not> err_is e ErrOutcomeUnknown"
  using assms(1)
proof (cases rule: Invoke_cases)
  case (stopped x)
  then have "x = e" by (simp add: stop_def)
  with stopped_error_known [OF stopped(2) assms(2)] assms(3) show ?thesis by simp
next
  case (failed v i err res m)
  have f: "foreign err" using assms(2) failed(5) unfolding foreign_sources_def by blast
  from failed(6) f show ?thesis
  proof (cases rule: invoke_failure_cases)
    case unknown
    then show ?thesis using failed assms(3) foreign_as_None(2) [OF f] by auto
  next
    case (removed st')
    with failed(7) assms(3) have "st' = st" and m: "e = m" by auto
    have "\<not> err_is m ErrOutcomeUnknown" using removed(1) foreign_not_is [OF f] by simp
    with removed failed(7) \<open>st' = st\<close> m assms(3) foreign_not_is [OF f] show ?thesis
      by (auto simp: invoke_request_def)
  next
    case definite
    with failed assms(3) show ?thesis by simp
  qed
next
  case (answered v i response res e')
  from answered(6) show ?thesis
  proof (cases rule: invoke_answer_cases)
    case (committed r' out r'')
    with answered have c: "committedOutput response r' = (out, r'', Some e)" by simp
    from committed_error_kind [OF this] assms(3) show ?thesis by auto
  next
    case (bad c)
    have "errors_as as_removed c = None"
      using operationReceipt_error_known [OF bad(1)] assms(2) unfolding foreign_sources_def by blast
    with bad answered assms(3) show ?thesis by simp
  qed (use answered assms(3) in auto)
qed

section \<open>Example calls\<close>

definition live_ctx :: go_ctx where
  "live_ctx = \<lparr>ctx_done = None, ctx_deadline = None\<rparr>"

definition sample_answer :: "string \<Rightarrow> string \<Rightarrow> string \<Rightarrow> InvokeSourceOperationResponse option" where
  "sample_answer i st out = Some \<lparr>ir_OutputJson = out, ir_Receipt = Some
     \<lparr>sr_EffectId = i, sr_CommittedAt = '''', sr_Status = st, sr_ProviderStatus = 0, sr_OutputJson = out\<rparr>\<rparr>"

definition sample_invoke :: "ds_err + InvokeSourceOperationResponse option \<Rightarrow> InvokeSourceOperationRequest run" where
  "sample_invoke answer = Invoke sample_lib (\<lambda>c q. answer) (Inr ''u'') 0 0 live_ctx ''o'' ''s'' ''op''
     (InputValue (Inr ''{}'')) [WithEffectID ''e1'']"

definition sample_request :: "InvokeSourceOperationRequest connect_request" where
  "sample_request = invoke_request ''o'' ''s'' ''op'' ''{}'' ''e1''"

lemma sample_checks: "objectJSON ''{}'' = Inr ''{}''" "validateEffectID ''e1'' = None"
  by (code_simp, simp add: validateEffectID_None byte_def)

lemma sample_committed:
  "sample_invoke (Inr (sample_answer ''e1'' ''committed'' ''{}'')) = \<lparr>sent = [sample_request],
     result = Some \<lparr>r_Output = Some ''{}'', r_Receipt = (unknown_receipt ''e1'')
       \<lparr>Status := ReceiptStatusCommitted, Output := Some ''{}''\<rparr>\<rparr>,
     run_err = None\<rparr>"
  by (simp add: sample_invoke_def Invoke_def inputJSON_def apply_options_def WithEffectID_def
      no_options_def live_ctx_def operationContextError_def sample_checks invoke_answer_def
      sample_answer_def operationReceipt_def committedOutput_def sample_request_def
      invoke_request_def unknown_receipt_def zero_receipt_def)

lemma sample_failed:
  "sample_invoke (Inl e) = (let (res, mapped) = invoke_failure sample_lib 0 (start_result ''e1'') e
     in \<lparr>sent = [sample_request], result = Some res, run_err = Some mapped\<rparr>)"
  by (simp add: sample_invoke_def Invoke_def inputJSON_def apply_options_def WithEffectID_def
      no_options_def live_ctx_def operationContextError_def sample_checks sample_request_def
      invoke_request_def start_result_def unknown_receipt_def)

lemma sample_removed:
  "sample_invoke (Inl (wire_error CodeFailedPrecondition
       [reason_detail ''SOURCE_OPERATION_DECLARATION_REMOVED'' [(''receipt_status'', ''committed'')]]))
   = \<lparr>sent = [sample_request],
     result = Some \<lparr>r_Output = None, r_Receipt = (unknown_receipt ''e1'')\<lparr>Status := ReceiptStatusCommitted\<rparr>\<rparr>,
     run_err = Some (Err (LOperationDeclarationRemoved ReceiptStatusCommitted
         ((unknown_receipt ''e1'')\<lparr>Status := ReceiptStatusCommitted\<rparr>))
       [wire_error CodeFailedPrecondition
         [reason_detail ''SOURCE_OPERATION_DECLARATION_REMOVED'' [(''receipt_status'', ''committed'')]]])\<rparr>"
  unfolding sample_failed by code_simp

lemma sample_unknown:
  "sample_invoke (Inl (wire_error CodeUnavailable [])) = \<lparr>sent = [sample_request],
     result = Some (start_result ''e1''),
     run_err = Some (Err (LOutcomeUnknown (unknown_receipt ''e1'')) [wire_error CodeUnavailable []])\<rparr>"
  unfolding sample_failed by code_simp

lemma sample_timestamp_foreign: "lib_timestamp sample_lib s = Inl e \<Longrightarrow> foreign e"
  by (cases "s = []") (auto simp: sample_lib_def errors_new_def foreign_def)

lemma sample_foreign:
  "foreign_sources sample_lib (\<lambda>c q. Inr a) (Inr ''u'') (InputValue (Inr ''{}''))"
  "foreign_sources sample_lib (\<lambda>c q. Inl (wire_error k ds)) (Inr ''u'') (InputValue (Inr ''{}''))"
  using sample_timestamp_foreign by (auto simp: foreign_sources_def)

theorem Invoke_success_is_committed_witness:
  "\<exists>res. result (sample_invoke (Inr (sample_answer ''e1'' ''committed'' ''{}''))) = Some res
     \<and> Status (r_Receipt res) = ReceiptStatusCommitted \<and> EffectID (r_Receipt res) = ''e1''"
proof -
  have "run_err (sample_invoke (Inr (sample_answer ''e1'' ''committed'' ''{}''))) = None"
    by (simp add: sample_committed)
  from Invoke_success_is_committed [OF sample_invoke_def [symmetric] this]
  obtain q res where "sent (sample_invoke (Inr (sample_answer ''e1'' ''committed'' ''{}''))) = [q]"
    and "result (sample_invoke (Inr (sample_answer ''e1'' ''committed'' ''{}''))) = Some res"
    and "Status (r_Receipt res) = ReceiptStatusCommitted" "EffectID (r_Receipt res) = iq_EffectId (msg q)"
    by blast
  then show ?thesis by (auto simp: sample_committed sample_request_def invoke_request_def)
qed

theorem Invoke_no_silent_loss_witness:
  "lib_is_wire sample_lib (wire_error CodeFailedPrecondition
     [reason_detail ''SOURCE_OPERATION_DECLARATION_REMOVED'' [(''receipt_status'', ''committed'')]])"
  using Invoke_no_silent_loss [OF sample_removed [unfolded sample_invoke_def] sample_foreign(2)]
  by (simp add: wire_error_def)

theorem Invoke_unknown_receipt_witness:
  "Status (unknown_receipt ''e1'') = ReceiptStatusUnknown \<and>
   EffectID (unknown_receipt ''e1'') = iq_EffectId (msg sample_request)"
  using Invoke_unknown_receipt [OF sample_unknown [unfolded sample_invoke_def] sample_foreign(2)]
  by simp

theorem Invoke_removed_receipt_witness:
  "(unknown_receipt ''e1'')\<lparr>Status := ReceiptStatusCommitted\<rparr>
     = (unknown_receipt (iq_EffectId (msg sample_request)))\<lparr>Status := ReceiptStatusCommitted\<rparr>"
  using Invoke_removed_receipt [OF sample_removed [unfolded sample_invoke_def] sample_foreign(2)]
  by simp

end
