(* ===== verification/DatasourceLookup.thy ===== *)
theory DatasourceLookup
  imports DatasourceEffects
begin

text \<open>
  The rest of datasource/operations.go's effect protocol: what \<^verbatim>\<open>Lookup\<close> promises, when an expired
  context stops a call, which effect IDs are admitted, and which payloads are.
\<close>

section \<open>Lookup, by cases\<close>

definition lookup_request :: "string \<Rightarrow> LookupInvokeSourceOperationRequest connect_request" where
  "lookup_request i = \<lparr>msg = \<lparr>lq_EffectId = i\<rparr>, header = []\<rparr>"

lemma Lookup_cases:
  assumes "Lookup lib inner now ctx orgID sourceID i = run"
  obtains (stopped) e where "run = \<lparr>l_sent = [], l_receipt = None, l_err = Some e\<rparr>"
      and "validateEffectID i = Some e \<or> operationContextError ctx = Some e"
  | (failed) err r e where "validateEffectID i = None" and "operationContextError ctx = None"
      and "inner ctx (lookup_request i) = Inl err" and "lookup_failure lib now i err = (r, e)"
      and "run = \<lparr>l_sent = [lookup_request i], l_receipt = r, l_err = Some e\<rparr>"
  | (answered) response r e where "validateEffectID i = None" and "operationContextError ctx = None"
      and "inner ctx (lookup_request i) = Inr response" and "lookup_answer lib i response = (r, e)"
      and "run = \<lparr>l_sent = [lookup_request i], l_receipt = Some r, l_err = e\<rparr>"
  using assms unfolding Lookup_def lookup_request_def [symmetric] Let_def
  by (auto split: sum.splits option.splits prod.splits)

text \<open>A failed lookup, by what the host's error was.\<close>

lemma lookup_failure_cases:
  assumes fail: "lookup_failure lib now i err = (r, e)" and f: "foreign err"
  obtains (lost) "\<not> lib_is_wire lib err" and "r = Some (unknown_receipt i)"
      and "e = Err (LOutcomeUnknown (unknown_receipt i)) [err]"
  | (not_found) "lib_is_wire lib err" and "lib_code_of lib err = CodeNotFound"
      and "r = Some ((unknown_receipt i)\<lparr>Status := ReceiptStatusNotAttempted\<rparr>)"
      and "e = hostError ErrEffectNotFound err"
  | (gave_up) "lib_is_wire lib err" and "lib_code_of lib err \<in> {CodeDeadlineExceeded, CodeCanceled}"
      and "r = None" and "e = err"
  | (unknown) "lib_is_wire lib err" and "lib_code_of lib err \<noteq> CodeNotFound"
      and "r = Some (unknown_receipt i)" and "e = Err (LOutcomeUnknown (unknown_receipt i)) [err]"
  | (removed) st where "lib_is_wire lib err" and "lib_code_of lib err \<noteq> CodeNotFound"
      and "st = ReceiptStatusCommitted \<or> st = ReceiptStatusUnknown"
      and "r = Some ((unknown_receipt i)\<lparr>Status := st\<rparr>)"
      and "e = Err (LOperationDeclarationRemoved st ((unknown_receipt i)\<lparr>Status := st\<rparr>)) [err]"
  | (other) "lib_is_wire lib err" and "lib_code_of lib err \<noteq> CodeNotFound"
      and "r = None" and "e = map_host_error lib err True now"
      and "errors_as as_unknown e = None" and "errors_as as_removed e = None"
proof -
  define m where "m = map_host_error lib err True now"
  have w: "wraps m err" unfolding m_def by (rule map_host_error_wraps)
  consider "\<not> lib_is_wire lib err" | "lib_is_wire lib err" "lib_code_of lib err = CodeNotFound"
    | "lib_is_wire lib err" "lib_code_of lib err = CodeDeadlineExceeded \<or> lib_code_of lib err = CodeCanceled"
    | (rest) "lib_is_wire lib err" "lib_code_of lib err \<noteq> CodeNotFound"
      "\<not> (lib_code_of lib err = CodeDeadlineExceeded \<or> lib_code_of lib err = CodeCanceled)"
    by blast
  then show ?thesis
  proof cases
    case rest
    then have m: "lookup_failure lib now i err = (case errors_as as_unknown m of
           Some _ \<Rightarrow> (Some (unknown_receipt i), set_unknown_receipt (unknown_receipt i) m)
         | None \<Rightarrow> (case errors_as as_removed m of
               Some (_, r) \<Rightarrow> (Some (r\<lparr>EffectID := i\<rparr>), set_removed_receipt (r\<lparr>EffectID := i\<rparr>) m)
             | None \<Rightarrow> (None, m)))"
      unfolding m_def by (simp add: lookup_failure_def Let_def)
    show ?thesis
    proof (cases "errors_as as_unknown m")
      case (Some r')
      with m fail set_unknown_wrap [OF w f] rest show ?thesis by (intro unknown) auto
    next
      case none: None
      show ?thesis
      proof (cases "errors_as as_removed m")
        case None
        with none m fail rest show ?thesis by (intro other) (auto simp: m_def)
      next
        case (Some sr)
        obtain st r' where sr: "sr = (st, r')" by (cases sr)
        have st: "st = ReceiptStatusCommitted \<or> st = ReceiptStatusUnknown" "r' = zero_receipt\<lparr>Status := st\<rparr>"
          using host_error_removed_status [OF f] Some sr unfolding m_def by blast+
        have "r'\<lparr>EffectID := i\<rparr> = (unknown_receipt i)\<lparr>Status := st\<rparr>"
          by (simp add: st(2) unknown_receipt_def zero_receipt_def)
        with none m fail set_removed_wrap [OF w f] Some sr st(1) rest show ?thesis
          by (intro removed [of st]) auto
      qed
    qed
  qed (use fail in \<open>auto simp: lookup_failure_def unknown_receipt_def intro: lost not_found gave_up\<close>)
qed

lemma lookup_answer_cases:
  assumes "lookup_answer lib i response = (r, e)"
  obtains (bad) c where "operationReceipt lib (InvokeSourceOperationResponse_GetReceipt response) i = Inl c"
      and "r = unknown_receipt i" and "e = Some (OutcomeUnknown (unknown_receipt i) (Some c))"
  | (unknown) "operationReceipt lib (InvokeSourceOperationResponse_GetReceipt response) i = Inr r"
      and "Status r = ReceiptStatusUnknown" and "e = Some (OutcomeUnknown r None)"
  | (committed) r0 out where "operationReceipt lib (InvokeSourceOperationResponse_GetReceipt response) i = Inr r0"
      and "Status r0 = ReceiptStatusCommitted" and "committedOutput response r0 = (out, r, e)"
proof (cases "operationReceipt lib (InvokeSourceOperationResponse_GetReceipt response) i")
  case (Inl c)
  with assms show ?thesis by (intro bad [of c]) (auto simp: lookup_answer_def)
next
  case (Inr r0)
  show ?thesis
  proof (cases "Status r0 = ReceiptStatusUnknown")
    case True
    with assms Inr show ?thesis by (intro unknown) (auto simp: lookup_answer_def)
  next
    case False
    with operationReceipt_Inr [OF Inr] have "Status r0 = ReceiptStatusCommitted" by auto
    with assms Inr False show ?thesis
      by (cases "committedOutput response r0") (auto simp: lookup_answer_def intro!: committed)
  qed
qed

lemma lookup_answer_id:
  assumes "lookup_answer lib i response = (r, e)"
  shows "EffectID r = i"
  using assms
proof (cases rule: lookup_answer_cases)
  case unknown
  then show ?thesis using operationReceipt_id by blast
next
  case (committed r0 out)
  from operationReceipt_id [OF committed(1)] committedOutput_props(1) [OF committed(3)] show ?thesis by simp
qed simp

section \<open>What Lookup promises\<close>

lemma lookup_failure_id:
  "lookup_failure lib now i err = (Some r, e) \<Longrightarrow> EffectID r = i"
  by (auto simp: lookup_failure_def Let_def split: if_splits option.splits)

text \<open>
  \<^verbatim>\<open>Lookup\<close> never invokes: the only request it can send is one receipt read of the effect ID
  alone, without organisation, source, operation or payload, and every receipt it returns carries
  that same effect ID.
\<close>

theorem Lookup_reads_only:
  "(\<exists>e. Lookup lib inner now ctx orgID sourceID i = \<lparr>l_sent = [], l_receipt = None, l_err = Some e\<rparr>)
   \<or> (\<exists>e. Lookup lib inner now ctx orgID sourceID i
        = \<lparr>l_sent = [\<lparr>msg = \<lparr>lq_EffectId = i\<rparr>, header = []\<rparr>], l_receipt = None, l_err = Some e\<rparr>)
   \<or> (\<exists>r e. Lookup lib inner now ctx orgID sourceID i
        = \<lparr>l_sent = [\<lparr>msg = \<lparr>lq_EffectId = i\<rparr>, header = []\<rparr>], l_receipt = Some r, l_err = e\<rparr>
      \<and> EffectID r = i)"
proof -
  obtain run where run: "Lookup lib inner now ctx orgID sourceID i = run" by blast
  then show ?thesis
  proof (cases rule: Lookup_cases)
    case (failed err r e)
    with run lookup_failure_id [of lib now i err _ e] show ?thesis
      by (cases r) (auto simp: lookup_request_def)
  next
    case (answered response r e)
    with run lookup_answer_id [OF answered(4)] show ?thesis by (auto simp: lookup_request_def)
  qed (use run in simp)
qed

text \<open>
  \<^verbatim>\<open>Lookup\<close> reports the effect as never attempted exactly when the host said so: a NotFound
  error decoded from the wire. A lost, refused or malformed answer never does.
\<close>

theorem Lookup_not_attempted_iff:
  assumes "\<And>e. inner ctx \<lparr>msg = \<lparr>lq_EffectId = i\<rparr>, header = []\<rparr> = Inl e \<Longrightarrow> foreign e"
  shows "(\<exists>r. l_receipt (Lookup lib inner now ctx orgID sourceID i) = Some r \<and> Status r = ReceiptStatusNotAttempted)
    \<longleftrightarrow> validateEffectID i = None \<and> operationContextError ctx = None \<and>
       (\<exists>err. inner ctx \<lparr>msg = \<lparr>lq_EffectId = i\<rparr>, header = []\<rparr> = Inl err \<and> lib_is_wire lib err
          \<and> lib_code_of lib err = CodeNotFound)"
proof -
  obtain run where run: "Lookup lib inner now ctx orgID sourceID i = run" by blast
  then show ?thesis
  proof (cases rule: Lookup_cases)
    case (stopped e)
    with run show ?thesis by auto
  next
    case (failed err r e)
    have "foreign err" using assms failed(3) by (simp add: lookup_request_def)
    from failed(4) this show ?thesis
      by (cases rule: lookup_failure_cases)
        (use run failed in \<open>auto simp: lookup_request_def\<close>)
  next
    case (answered response r e)
    have "Status r \<noteq> ReceiptStatusNotAttempted"
      using answered(4)
      by (cases rule: lookup_answer_cases) (auto dest: committedOutput_props(2))
    with run answered show ?thesis by (auto simp: lookup_request_def)
  qed
qed

text \<open>C15:
  \<^verbatim>\<open>Lookup\<close> succeeds only on committed evidence, a receipt for this ID whose saved output is
  the host's text unchanged and a JSON object; and when it neither succeeds nor reports an unknown
  outcome, the host answered it: with an error decoded from the wire or a committed receipt.
\<close>

theorem Lookup_evidence:
  assumes "Lookup lib inner now ctx orgID sourceID i = \<lparr>l_sent = [q], l_receipt = rcpt, l_err = e\<rparr>"
    and "\<And>x. inner ctx q = Inl x \<Longrightarrow> foreign x"
    and "case e of None \<Rightarrow> True | Some x \<Rightarrow> \<not> err_is x ErrOutcomeUnknown"
  shows "(\<exists>err. inner ctx q = Inl err \<and> lib_is_wire lib err \<and> e \<noteq> None)
    \<or> (\<exists>response r sr. inner ctx q = Inr response \<and> rcpt = Some r
        \<and> InvokeSourceOperationResponse_GetReceipt response = Some sr \<and> sr_EffectId sr = i
        \<and> sr_Status sr = ''committed'' \<and> Status r = ReceiptStatusCommitted \<and> EffectID r = i
        \<and> (e = None \<longrightarrow> Output r = Some (sr_OutputJson sr) \<and> objectJSON (sr_OutputJson sr) = Inr (sr_OutputJson sr)))"
  using assms(1)
proof (cases rule: Lookup_cases)
  case (stopped x)
  then show ?thesis by simp
next
  case (failed err r x)
  then have eq: "q = lookup_request i" "e = Some x" "rcpt = r" by simp_all
  have "foreign err" using assms(2) failed(3) eq by simp
  with failed(4) have "lib_is_wire lib err"
    using assms(3) eq by (cases rule: lookup_failure_cases) auto
  with failed(3) eq show ?thesis by blast
next
  case (answered response r x)
  then have eq: "q = lookup_request i" "e = x" "rcpt = Some r" by simp_all
  from answered(4) show ?thesis
  proof (cases rule: lookup_answer_cases)
    case (committed r0 out)
    from operationReceipt_Inr [OF committed(1)] committed(2) obtain sr where
      sr: "InvokeSourceOperationResponse_GetReceipt response = Some sr" "sr_EffectId sr = i"
        "EffectID r0 = i" "sr_Status sr = ''committed''" by auto
    have "x = None \<Longrightarrow> Output r = Some (sr_OutputJson sr) \<and> objectJSON (sr_OutputJson sr) = Inr (sr_OutputJson sr)"
      using committedOutput_props(3) [OF committed(3)] sr(1) by (auto dest: objectJSON_Inr)
    moreover have "EffectID r = i" "Status r = ReceiptStatusCommitted"
      using committedOutput_props(1,2) [OF committed(3)] sr(3) committed(2) by simp_all
    ultimately show ?thesis using answered(3) eq sr by blast
  qed (use assms(3) eq in auto)
qed

section \<open>Example lookups\<close>

definition sample_lookup :: "ds_err + InvokeSourceOperationResponse option \<Rightarrow> lookup_run" where
  "sample_lookup answer = Lookup sample_lib (\<lambda>c q. answer) 0 live_ctx ''o'' ''s'' ''e1''"

lemma sample_lookup_committed:
  "sample_lookup (Inr (sample_answer ''e1'' ''committed'' ''{}'')) = \<lparr>l_sent = [lookup_request ''e1''],
     l_receipt = Some ((unknown_receipt ''e1'')\<lparr>Status := ReceiptStatusCommitted, Output := Some ''{}''\<rparr>),
     l_err = None\<rparr>"
  by (simp add: sample_lookup_def Lookup_def live_ctx_def operationContextError_def sample_checks
      lookup_answer_def sample_answer_def operationReceipt_def committedOutput_def
      lookup_request_def unknown_receipt_def zero_receipt_def)

theorem Lookup_not_attempted_iff_witness:
  "\<exists>r. l_receipt (sample_lookup (Inl (wire_error CodeNotFound []))) = Some r
     \<and> Status r = ReceiptStatusNotAttempted"
  unfolding sample_lookup_def
  by (subst Lookup_not_attempted_iff)
    (simp_all add: sample_checks live_ctx_def operationContextError_def)

theorem Lookup_evidence_witness:
  "\<exists>sr. InvokeSourceOperationResponse_GetReceipt (sample_answer ''e1'' ''committed'' ''{}'') = Some sr
     \<and> sr_Status sr = ''committed''"
  using Lookup_evidence [OF sample_lookup_committed [unfolded sample_lookup_def]] by auto

section \<open>Before the dispatch\<close>

text \<open>A context whose own deadline has passed is done.\<close>

definition coherent :: "gotime \<Rightarrow> go_ctx \<Rightarrow> bool" where
  "coherent now ctx \<longleftrightarrow> (\<forall>c. ctx_deadline ctx = Some c \<longrightarrow> c \<le> now \<longrightarrow> ctx_done ctx \<noteq> None)"

lemma past_deadline_done:
  "coherent now ctx \<Longrightarrow> d \<le> now \<Longrightarrow> ctx_done (context_with_deadline now ctx d) \<noteq> None"
  by (auto simp: coherent_def context_with_deadline_def split: option.splits)

lemma done_is_error: "ctx_done ctx \<noteq> None \<Longrightarrow> \<exists>e. operationContextError ctx = Some e"
  by (auto simp: operationContextError_def Let_def)

text \<open>
  a deadline option that has already passed stops the call before anything is sent, whatever the
  input, the IDs and the host; on a live context with an admissible input and effect ID the error is
  an \<^verbatim>\<open>InputError\<close> that \<^verbatim>\<open>errors.Is\<close> recognises as \<^verbatim>\<open>context.DeadlineExceeded\<close>.
\<close>

theorem Invoke_expired_deadline:
  assumes "coherent dnow ctx" and "deadlineSet (apply_options opts)"
    and "deadline (apply_options opts) \<le> dnow"
  shows "sent (Invoke lib inner uuid dnow enow ctx orgID sourceID operation input opts) = []
    \<and> result (Invoke lib inner uuid dnow enow ctx orgID sourceID operation input opts) = None
    \<and> (inputJSON input = Inr v \<and> effectIDSet (apply_options opts)
        \<and> validateEffectID (effectID (apply_options opts)) = None \<and> ctx_done ctx = None \<longrightarrow>
       (\<exists>e c. run_err (Invoke lib inner uuid dnow enow ctx orgID sourceID operation input opts) = Some e
         \<and> e = Err (LInputError '''') [c] \<and> errors_is is_deadline e))"
proof -
  have dn: "ctx_done (effective_ctx dnow ctx (apply_options opts)) \<noteq> None"
    using past_deadline_done [OF assms(1,3)] assms(2) by (simp add: effective_ctx_def)
  have stops: "\<exists>e. Invoke lib inner uuid dnow enow ctx orgID sourceID operation input opts = stop e"
  proof -
    obtain run where run: "Invoke lib inner uuid dnow enow ctx orgID sourceID operation input opts = run" by blast
    then show ?thesis by (cases rule: Invoke_cases) (use run done_is_error [OF dn] in auto)
  qed
  have err: "\<exists>c. run_err (Invoke lib inner uuid dnow enow ctx orgID sourceID operation input opts)
      = Some (Err (LInputError '''') [c]) \<and> errors_is is_deadline (Err (LInputError '''') [c])"
    if ok: "inputJSON input = Inr v" "effectIDSet (apply_options opts)"
      "validateEffectID (effectID (apply_options opts)) = None" "ctx_done ctx = None"
  proof -
    have c: "ctx_done (context_with_deadline dnow ctx (deadline (apply_options opts))) = Some DeadlineExceeded"
      using assms(1,3) ok(4)
      by (auto simp: coherent_def context_with_deadline_def split: option.splits)
    show ?thesis
      using ok assms(2) c
      by (simp add: Invoke_def Let_def operationContextError_def stop_def errors_is_iff is_deadline_def
          errorf_wrap_def)
  qed
  show ?thesis using stops err by (auto simp: stop_def)
qed

theorem Invoke_expired_deadline_witness:
  "sent (Invoke sample_lib (\<lambda>c q. Inr (sample_answer ''e1'' ''committed'' ''{}'')) (Inr ''u'') 5 5 live_ctx
     ''o'' ''s'' ''op'' (InputValue (Inr ''{}'')) [WithEffectID ''e1'', WithDeadline 4]) = []"
  by (rule Invoke_expired_deadline [THEN conjunct1])
    (simp_all add: coherent_def live_ctx_def apply_options_def WithEffectID_def WithDeadline_def no_options_def)

section \<open>Effect IDs and payloads\<close>

text \<open>C40:
  an admitted effect ID is 1 to 128 bytes of valid UTF-8 without control bytes or surrounding
  spaces, every such ID is admitted, and it reaches the host unchanged as a header value: what
  \<^verbatim>\<open>net/http\<close> trims and what would split a header line cannot occur in it.
\<close>

theorem validateEffectID_iff:
  "validateEffectID i = None \<longleftrightarrow>
     length i \<in> {1..128} \<and> utf8_valid i \<and> header_trim i = i \<and> {c \<in> set i. byte c < 32 \<or> byte c = 127} = {}"
proof -
  have trim: "i \<noteq> [] \<and> hd i \<noteq> CHR '' '' \<and> last i \<noteq> CHR '' '' \<longleftrightarrow> i \<noteq> [] \<and> header_trim i = i"
    if "\<forall>c \<in> set i. 32 \<le> byte c"
  proof -
    have sp: "c \<in> set i \<Longrightarrow> header_space c \<longleftrightarrow> c = CHR '' ''" for c
      using that by (auto simp: header_space_def)
    show ?thesis
    proof (cases "i = []")
      case False
      then have "hd i \<in> set i" "last i \<in> set i" by simp_all
      then show ?thesis using False sp header_trim_id [of i] header_trim_ends [of i] by auto
    qed simp
  qed
  have "{c \<in> set i. byte c < 32 \<or> byte c = 127} = {} \<longleftrightarrow> (\<forall>c \<in> set i. 32 \<le> byte c \<and> byte c \<noteq> 127)"
    by (auto simp: not_less)
  then show ?thesis
    using trim by (auto simp: validateEffectID_None Suc_le_eq)
qed

lemma number_first: "number_ok n \<Longrightarrow> \<exists>c r. n = c # r \<and> solid c \<and> c \<noteq> CHR ''{''"
  by (cases n) (auto simp: number_ok_def is_digit_def solid_def byte_def)

lemma render_first:
  assumes "json_ok v"
  shows "\<exists>c r. render v = c # r \<and> solid c \<and> (c = CHR ''{'' \<longleftrightarrow> (\<exists>fs. v = JObj fs))"
  using assms number_first by (cases v) (fastforce simp: solid_def byte_def str_text_def)+

text \<open>
  of the JSON texts an encoder can produce (any tree, within the scanner's nesting bound and in
  UTF-8) \<^verbatim>\<open>objectJSON\<close> admits exactly the objects, and returns the very text it was given.
\<close>

theorem objectJSON_render_iff:
  assumes "json_ok v" and "depth v \<le> max_nesting_depth" and "utf8_valid (render v)"
  shows "objectJSON (render v) = Inr (render v) \<longleftrightarrow> (\<exists>fs. v = JObj fs)"
proof -
  from render_first [OF assms(1)] obtain c r where
    c: "render v = c # r" "solid c" "c = CHR ''{'' \<longleftrightarrow> (\<exists>fs. v = JObj fs)" by blast
  from trim_space_solid [OF c(2)] obtain t where "trim_space (render v) = c # t" using c(1) by auto
  with c(3) assms json_valid_render [OF assms(1,2)] show ?thesis
    by (auto simp: objectJSON_def Let_def)
qed

theorem objectJSON_render_iff_witness:
  "objectJSON ''{}'' = Inr ''{}'' \<and> objectJSON ''[null]'' \<noteq> Inr ''[null]''"
proof
  have "utf8_valid ''{}''" "utf8_valid ''[null]''" by code_simp+
  then show "objectJSON ''{}'' = Inr ''{}''" "objectJSON ''[null]'' \<noteq> Inr ''[null]''"
    using objectJSON_render_iff [of "JObj []"] objectJSON_render_iff [of "JArr [JNull]"]
    by (auto simp: max_nesting_depth_def)
qed

end
