(* ===== verification/DatasourceDeclarations.thy ===== *)
theory DatasourceDeclarations
  imports DatasourceLookup
begin

text \<open>
  datasource/operations.go's declaration calls, \<^verbatim>\<open>DeclareOperations\<close> and \<^verbatim>\<open>ListOperations\<close>, and the
  calls of datasource/client.go. Each result lists the requests that were sent. The stored
  datasource message passes through untouched and is a type parameter.
\<close>

section \<open>Declarations\<close>

definition EffectReadOnly :: string where "EffectReadOnly = ''READ_ONLY''"
definition EffectMutation :: string where "EffectMutation = ''MUTATION''"

lemma effect_distinct [simp]: "EffectReadOnly \<noteq> EffectMutation" "EffectMutation \<noteq> EffectReadOnly"
  by (simp_all add: EffectReadOnly_def EffectMutation_def)

record Operation =
  op_Name :: string
  op_Description :: string
  op_Method :: string
  op_Path :: string
  op_Query :: "string list"
  op_Input :: string
  op_Output :: string
  op_Effect :: string
  op_MaxOutputBytes :: "32 word"
  op_Digest :: string

definition declared_effect :: "host_lib \<Rightarrow> string \<Rightarrow> ds_err + 32 word" where
  "declared_effect lib e =
     (if e = EffectReadOnly then Inr SourceOperation_EFFECT_READ_ONLY
      else if e = EffectMutation then Inr SourceOperation_EFFECT_MUTATION
      else Inl (InputError '''' (Some (errors_new
        (''datasource: invalid operation effect '' @ go_quote (lib_is_print lib) e)))))"

definition declare_one ::
  "host_lib \<Rightarrow> 'st struct_lib \<Rightarrow> Operation \<Rightarrow> ds_err + 'st SourceOperation" where
  "declare_one lib sl operation =
     (case schemaStruct sl (op_Input operation) of Inl err \<Rightarrow> Inl err
      | Inr input \<Rightarrow> (case schemaStruct sl (op_Output operation) of Inl err \<Rightarrow> Inl err
      | Inr output \<Rightarrow> (case declared_effect lib (op_Effect operation) of Inl err \<Rightarrow> Inl err
      | Inr effect \<Rightarrow> Inr \<lparr>so_Name = op_Name operation, so_Description = op_Description operation,
          so_Method = op_Method operation, so_Path = op_Path operation, so_Query = op_Query operation,
          so_InputSchema = Some input, so_OutputSchema = Some output, so_Effect = effect,
          so_MaxOutputBytes = op_MaxOutputBytes operation, so_Digest = ''''\<rparr>)))"

text \<open>The loops append to a slice and return at the first error.\<close>

fun collect :: "('a \<Rightarrow> 'e + 'b) \<Rightarrow> 'a list \<Rightarrow> 'e + 'b list" where
  "collect f [] = Inr []"
| "collect f (x # xs) = (case f x of Inl e \<Rightarrow> Inl e
     | Inr y \<Rightarrow> (case collect f xs of Inl e \<Rightarrow> Inl e | Inr ys \<Rightarrow> Inr (y # ys)))"

lemma collect_Cons_iff:
  "collect f (x # xs) = Inr ys \<longleftrightarrow> (\<exists>y zs. ys = y # zs \<and> f x = Inr y \<and> collect f xs = Inr zs)"
  by (auto split: sum.splits)

lemma collect_Inr_iff: "collect f xs = Inr ys \<longleftrightarrow> list_all2 (\<lambda>x y. f x = Inr y) xs ys"
proof (induction xs arbitrary: ys)
  case (Cons x xs)
  show ?case unfolding collect_Cons_iff Cons.IH list_all2_Cons1 by blast
qed auto

lemma collect_Inl:
  "collect f xs = Inl e \<Longrightarrow> \<exists>us x vs. xs = us @ x # vs \<and> (\<exists>ys. collect f us = Inr ys) \<and> f x = Inl e"
proof (induction xs)
  case (Cons x xs)
  show ?case
  proof (cases "f x")
    case (Inl a)
    with Cons.prems show ?thesis by (intro exI [of _ "[]"]) auto
  next
    case (Inr y)
    with Cons.prems have "collect f xs = Inl e" by (auto split: sum.splits)
    with Cons.IH obtain us z vs ys where
      "xs = us @ z # vs" "collect f us = Inr ys" "f z = Inl e" by blast
    with Inr show ?thesis
      by (intro exI [of _ "x # us"] exI [of _ z] exI [of _ vs]) auto
  qed
qed simp

lemma collect_map:
  "(\<And>x. x \<in> set xs \<Longrightarrow> f x = Inr (g x)) \<Longrightarrow> collect f xs = Inr (map g xs)"
  by (induction xs) auto

record 'q sending =
  s_sent :: "'q connect_request list"
  s_err :: "ds_err option"

definition DeclareOperations ::
  "host_lib \<Rightarrow> 'st struct_lib
    \<Rightarrow> ('st DeclareSourceOperationsRequest connect_request \<Rightarrow> ds_err option)
    \<Rightarrow> gotime \<Rightarrow> string \<Rightarrow> string \<Rightarrow> Operation list
    \<Rightarrow> 'st DeclareSourceOperationsRequest sending" where
  "DeclareOperations lib sl inner now orgID sourceID operations =
     (case collect (declare_one lib sl) operations of
        Inl err \<Rightarrow> \<lparr>s_sent = [], s_err = Some err\<rparr>
      | Inr declared \<Rightarrow>
          (let request = \<lparr>msg = \<lparr>dq_OrgId = orgID, dq_SourceId = sourceID,
                 dq_Operations = map Some declared\<rparr>, header = []\<rparr>
           in \<lparr>s_sent = [request], s_err = mapHostError lib (inner request) False now\<rparr>))"

definition listed_effect :: "32 word \<Rightarrow> ds_err + string" where
  "listed_effect n =
     (if n = SourceOperation_EFFECT_READ_ONLY then Inr EffectReadOnly
      else if n = SourceOperation_EFFECT_MUTATION then Inr EffectMutation
      else if n = SourceOperation_EFFECT_UNSPECIFIED
      then Inl (InputError '''' (Some (errors_new ''host returned an unspecified effect'')))
      else Inl (DatasourceError zero_receipt (Some (errors_new
        (''datasource: unsupported host operation effect '' @ itoa (sint n))))))"

definition list_one :: "'st struct_lib \<Rightarrow> 'st SourceOperation option \<Rightarrow> ds_err + Operation" where
  "list_one sl value =
     (case schemaJSON sl (SourceOperation_GetInputSchema value) of Inl err \<Rightarrow> Inl err
      | Inr input \<Rightarrow> (case schemaJSON sl (SourceOperation_GetOutputSchema value) of Inl err \<Rightarrow> Inl err
      | Inr output \<Rightarrow> (case listed_effect (SourceOperation_GetEffect value) of Inl err \<Rightarrow> Inl err
      | Inr effect \<Rightarrow> Inr \<lparr>op_Name = SourceOperation_GetName value,
          op_Description = SourceOperation_GetDescription value,
          op_Method = SourceOperation_GetMethod value, op_Path = SourceOperation_GetPath value,
          op_Query = SourceOperation_GetQuery value, op_Input = input, op_Output = output,
          op_Effect = effect, op_MaxOutputBytes = SourceOperation_GetMaxOutputBytes value,
          op_Digest = SourceOperation_GetDigest value\<rparr>)))"

definition ListOperations ::
  "host_lib \<Rightarrow> 'st struct_lib
    \<Rightarrow> (ListSourceOperationsRequest connect_request \<Rightarrow> ds_err + 'st ListSourceOperationsResponse option)
    \<Rightarrow> gotime \<Rightarrow> string \<Rightarrow> string
    \<Rightarrow> ListSourceOperationsRequest connect_request list \<times> (ds_err + Operation list)" where
  "ListOperations lib sl inner now orgID sourceID =
     (let request = \<lparr>msg = \<lparr>loq_OrgId = orgID, loq_SourceId = sourceID\<rparr>, header = []\<rparr> in
      ([request],
       case inner request of
         Inl err \<Rightarrow> Inl (map_host_error lib err False now)
       | Inr response \<Rightarrow> collect (list_one sl) (ListSourceOperationsResponse_GetOperations response)))"

section \<open>What the declaration calls promise\<close>

text \<open>C29:
  \<^verbatim>\<open>DeclareOperations\<close> is all or nothing: it sends one request that declares every operation in
  order, each with both schemas, its effect and no digest, exactly when every operation is
  admissible; otherwise it sends nothing and returns the first operation's error.
\<close>

theorem DeclareOperations_all_or_nothing:
  "(\<exists>declared request. list_all2 (\<lambda>operation d. declare_one lib sl operation = Inr d) operations declared
      \<and> request = \<lparr>msg = \<lparr>dq_OrgId = orgID, dq_SourceId = sourceID,
           dq_Operations = map Some declared\<rparr>, header = []\<rparr>
      \<and> DeclareOperations lib sl inner now orgID sourceID operations
        = \<lparr>s_sent = [request], s_err = mapHostError lib (inner request) False now\<rparr>)
   \<or> (\<exists>before operation after e. operations = before @ operation # after
      \<and> (\<exists>ds. list_all2 (\<lambda>operation d. declare_one lib sl operation = Inr d) before ds)
      \<and> declare_one lib sl operation = Inl e
      \<and> DeclareOperations lib sl inner now orgID sourceID operations = \<lparr>s_sent = [], s_err = Some e\<rparr>)"
proof (cases "collect (declare_one lib sl) operations")
  case (Inl e)
  from collect_Inl [OF Inl] obtain us x vs ys where "operations = us @ x # vs"
    "collect (declare_one lib sl) us = Inr ys" "declare_one lib sl x = Inl e" by blast
  then have "operations = us @ x # vs"
      "list_all2 (\<lambda>operation d. declare_one lib sl operation = Inr d) us ys"
      "declare_one lib sl x = Inl e"
      "DeclareOperations lib sl inner now orgID sourceID operations = \<lparr>s_sent = [], s_err = Some e\<rparr>"
    using Inl unfolding collect_Inr_iff DeclareOperations_def by auto
  then show ?thesis by (intro disjI2 exI conjI)
next
  case (Inr declared)
  then have "list_all2 (\<lambda>operation d. declare_one lib sl operation = Inr d) operations declared"
    unfolding collect_Inr_iff .
  with Inr show ?thesis by (simp add: DeclareOperations_def Let_def)
qed

lemma declare_one_shape:
  "declare_one lib sl operation = Inr d \<Longrightarrow> so_Digest d = '''' \<and> so_InputSchema d \<noteq> None \<and> so_OutputSchema d \<noteq> None
     \<and> (so_Effect d = SourceOperation_EFFECT_READ_ONLY \<or> so_Effect d = SourceOperation_EFFECT_MUTATION)"
  by (auto simp: declare_one_def declared_effect_def split: sum.splits if_splits)

text \<open>
  \<^verbatim>\<open>ListOperations\<close> never returns a partial list: its operations are the host's, all of them and
  in the host's order, and one with an unspecified, an unknown effect or an unwritable schema fails
  the whole call.
\<close>

theorem ListOperations_complete:
  assumes "inner \<lparr>msg = \<lparr>loq_OrgId = orgID, loq_SourceId = sourceID\<rparr>, header = []\<rparr> = Inr response"
    and "hosted = ListSourceOperationsResponse_GetOperations response"
  shows "(\<exists>ops. snd (ListOperations lib sl inner now orgID sourceID) = Inr ops
      \<and> length ops = length hosted
      \<and> map op_Name ops = map SourceOperation_GetName hosted
      \<and> map op_Digest ops = map SourceOperation_GetDigest hosted
      \<and> list_all2 (\<lambda>h x. op_Effect x \<in> {EffectReadOnly, EffectMutation} \<and> list_one sl h = Inr x) hosted ops)
    \<or> (\<exists>before h after e. hosted = before @ h # after \<and> list_one sl h = Inl e
      \<and> snd (ListOperations lib sl inner now orgID sourceID) = Inl e)"
proof (cases "collect (list_one sl) hosted")
  case (Inl e)
  then show ?thesis using assms by (auto simp: ListOperations_def dest!: collect_Inl)
next
  case (Inr ops)
  have one: "list_one sl h = Inr x \<Longrightarrow> op_Effect x \<in> {EffectReadOnly, EffectMutation}
      \<and> op_Name x = SourceOperation_GetName h \<and> op_Digest x = SourceOperation_GetDigest h" for h x
    by (auto simp: list_one_def listed_effect_def split: sum.splits if_splits)
  from Inr have all: "list_all2 (\<lambda>h x. list_one sl h = Inr x) hosted ops"
    by (simp add: collect_Inr_iff)
  then have "list_all2 (\<lambda>h x. op_Effect x \<in> {EffectReadOnly, EffectMutation} \<and> list_one sl h = Inr x) hosted ops"
    by (rule list_all2_mono) (use one in blast)
  moreover from all have "map op_Name ops = map SourceOperation_GetName hosted"
    "map op_Digest ops = map SourceOperation_GetDigest hosted" "length ops = length hosted"
    using one by (induction) auto
  ultimately show ?thesis using assms Inr by (auto simp: ListOperations_def)
qed

text \<open>
  The struct codec's documented behaviour: what it writes it reads back, as an object's text, and it
  reads the empty object.
\<close>

definition codec_laws :: "'st struct_lib \<Rightarrow> 'st \<Rightarrow> bool" where
  "codec_laws sl empty_st \<longleftrightarrow>
     (\<forall>st s. struct_marshal sl st = Inr s \<longrightarrow> (\<exists>t. s = CHR ''{'' # t) \<and> struct_unmarshal sl s = Inr st) \<and>
     struct_unmarshal sl ''{}'' = Inr empty_st"

lemma schema_reads_back:
  assumes "codec_laws sl empty_st" and "schemaJSON sl v = Inr s"
  shows "schemaStruct sl s = Inr (case v of None \<Rightarrow> empty_st | Some st \<Rightarrow> st)"
proof -
  have br: "solid (CHR ''{'')" by (simp add: solid_def byte_def)
  have "\<exists>t. s = CHR ''{'' # t"
    using assms by (cases v) (auto simp: schemaJSON_def codec_laws_def)
  then obtain t where t: "s = CHR ''{'' # t" by blast
  from trim_space_solid [OF br, of t] obtain r where "trim_space s = CHR ''{'' # r" using t by auto
  with assms show ?thesis
    by (cases v) (auto simp: schemaStruct_def schemaJSON_def codec_laws_def Let_def)
qed

definition redeclared :: "'st \<Rightarrow> 'st SourceOperation \<Rightarrow> 'st SourceOperation" where
  "redeclared empty_st h = h\<lparr>so_Digest := '''',
     so_InputSchema := Some (case so_InputSchema h of None \<Rightarrow> empty_st | Some st \<Rightarrow> st),
     so_OutputSchema := Some (case so_OutputSchema h of None \<Rightarrow> empty_st | Some st \<Rightarrow> st)\<rparr>"

lemma declare_listed:
  assumes "codec_laws sl empty_st" and "list_one sl (Some h) = Inr x"
  shows "declare_one lib sl x = Inr (redeclared empty_st h)"
  using assms schema_reads_back [OF assms(1)]
  by (auto simp: list_one_def declare_one_def listed_effect_def declared_effect_def redeclared_def
      split: sum.splits if_splits)

text \<open>C28:
  declaring what \<^verbatim>\<open>ListOperations\<close> returned sends back the host's own declarations: same order,
  names, routes, effects, bounds and schemas (a missing schema as the empty object), digests left to
  the host.
\<close>

theorem Declare_List_roundtrip:
  assumes "codec_laws sl empty_st"
    and "inner \<lparr>msg = \<lparr>loq_OrgId = orgID, loq_SourceId = sourceID\<rparr>, header = []\<rparr>
        = Inr (Some \<lparr>lor_Operations = map Some hosted\<rparr>)"
    and "snd (ListOperations lib sl inner now orgID sourceID) = Inr ops"
  shows "s_sent (DeclareOperations lib sl put now orgID sourceID ops)
    = [\<lparr>msg = \<lparr>dq_OrgId = orgID, dq_SourceId = sourceID,
        dq_Operations = map (Some \<circ> redeclared empty_st) hosted\<rparr>, header = []\<rparr>]"
proof -
  from assms(2,3) have "list_all2 (\<lambda>h x. list_one sl (Some h) = Inr x) hosted ops"
    by (simp add: ListOperations_def collect_Inr_iff list_all2_map1 ListSourceOperationsResponse_GetOperations_def)
  then have "list_all2 (\<lambda>x d. declare_one lib sl x = Inr d) ops (map (redeclared empty_st) hosted)"
    by (induction) (auto simp: declare_listed [OF assms(1)])
  then have "collect (declare_one lib sl) ops = Inr (map (redeclared empty_st) hosted)"
    by (simp add: collect_Inr_iff)
  then show ?thesis by (simp add: DeclareOperations_def Let_def)
qed

section \<open>Source registration\<close>

record GitHubSource =
  OrgID :: string
  Repo :: string
  Paths :: "string list"
  Branch :: string
  Collection :: string
  BoundaryNodeID :: string
  FileExtensions :: "string list"
  AccessToken :: string
  WebhookSecret :: string

definition AddGitHubSource ::
  "(AddGitHubSourceRequest connect_request \<Rightarrow> ds_err + 'd AddGitHubSourceResponse option) \<Rightarrow> GitHubSource
    \<Rightarrow> AddGitHubSourceRequest connect_request list \<times> (ds_err + 'd option)" where
  "AddGitHubSource inner s =
     (if (Collection s = '''') = (BoundaryNodeID s = '''')
      then ([], Inl (Err (LSentinel ErrInvalidBoundary) []))
      else
        (let req = \<lparr>agq_OrgId = OrgID s, agq_Repo = Repo s, agq_Paths = Paths s, agq_Branch = Branch s,
               agq_Boundary = None, agq_AccessToken = AccessToken s, agq_WebhookSecret = WebhookSecret s,
               agq_FileExtensions = FileExtensions s\<rparr>;
             req = (if BoundaryNodeID s \<noteq> ''''
               then req\<lparr>agq_Boundary := Some (AddGitHubSourceRequest_BoundaryNodeId (BoundaryNodeID s))\<rparr>
               else req\<lparr>agq_Boundary := Some (AddGitHubSourceRequest_CollectionLabel (Collection s))\<rparr>);
             request = \<lparr>msg = req, header = []\<rparr>
         in ([request], case inner request of Inl err \<Rightarrow> Inl err
              | Inr resp \<Rightarrow> Inr (AddGitHubSourceResponse_GetDatasource resp))))"

definition ListSources ::
  "(ListSourcesRequest connect_request \<Rightarrow> ds_err + 'd ListSourcesResponse option) \<Rightarrow> string
    \<Rightarrow> ds_err + 'd option list" where
  "ListSources inner orgID =
     (case inner \<lparr>msg = \<lparr>lsq_OrgId = orgID\<rparr>, header = []\<rparr> of Inl err \<Rightarrow> Inl err
      | Inr resp \<Rightarrow> Inr (ListSourcesResponse_GetDatasources resp))"

definition Sync ::
  "(SyncSourceRequest connect_request \<Rightarrow> ds_err + SyncSourceResponse option) \<Rightarrow> string \<Rightarrow> string
    \<Rightarrow> ds_err + string" where
  "Sync inner orgID i =
     (case inner \<lparr>msg = \<lparr>ssq_OrgId = orgID, ssq_Id = i, ssq_AccessToken = '''', ssq_Reconnect = False\<rparr>,
         header = []\<rparr> of Inl err \<Rightarrow> Inl err
      | Inr resp \<Rightarrow> Inr (SyncSourceResponse_GetJobId resp))"

text \<open>
  \<^verbatim>\<open>AddGitHubSource\<close> sends exactly one request, with exactly one boundary, the one the caller
  set, when exactly one of the collection label and the boundary node is set; with neither or both it
  sends nothing and returns \<^verbatim>\<open>ErrInvalidBoundary\<close>. Secrets and filters are passed on as given.
\<close>

theorem AddGitHubSource_boundary:
  "(fst (AddGitHubSource inner s) = [] \<and> (Collection s = '''') = (BoundaryNodeID s = '''')
     \<and> (\<exists>e. snd (AddGitHubSource inner s) = Inl e \<and> err_is e ErrInvalidBoundary))
   \<or> (\<exists>q b. fst (AddGitHubSource inner s) = [\<lparr>msg = q, header = []\<rparr>] \<and> agq_Boundary q = Some b
     \<and> ((BoundaryNodeID s \<noteq> '''' \<and> Collection s = '''' \<and> b = AddGitHubSourceRequest_BoundaryNodeId (BoundaryNodeID s))
        \<or> (Collection s \<noteq> '''' \<and> BoundaryNodeID s = '''' \<and> b = AddGitHubSourceRequest_CollectionLabel (Collection s)))
     \<and> agq_OrgId q = OrgID s \<and> agq_Repo q = Repo s \<and> agq_Paths q = Paths s \<and> agq_Branch q = Branch s
     \<and> agq_AccessToken q = AccessToken s \<and> agq_WebhookSecret q = WebhookSecret s
     \<and> agq_FileExtensions q = FileExtensions s)"
  by (cases "Collection s = ''''"; cases "BoundaryNodeID s = ''''")
    (auto simp: AddGitHubSource_def Let_def)

section \<open>Example declarations\<close>

text \<open>A codec that keeps an object's text.\<close>

definition text_codec :: "string struct_lib" where
  "text_codec = \<lparr>struct_unmarshal = Inr,
     struct_marshal = (\<lambda>s. if has_prefix s ''{'' then Inr s else Inl (errors_new ''struct''))\<rparr>"

lemma text_codec_laws: "codec_laws text_codec ''{}''"
  by (auto simp: codec_laws_def text_codec_def has_prefix_iff split: if_splits)

definition sample_operation :: "string SourceOperation" where
  "sample_operation = \<lparr>so_Name = ''get'', so_Description = '''', so_Method = ''GET'', so_Path = ''/x'',
     so_Query = [], so_InputSchema = None, so_OutputSchema = Some ''{}'', so_Effect = 1,
     so_MaxOutputBytes = 0, so_Digest = ''d''\<rparr>"

definition sample_list where
  "sample_list = ListOperations sample_lib text_codec
     (\<lambda>q. Inr (Some \<lparr>lor_Operations = map Some [sample_operation]\<rparr>)) 0 ''o'' ''s''"

definition sample_listed :: Operation where
  "sample_listed = \<lparr>op_Name = ''get'', op_Description = '''', op_Method = ''GET'', op_Path = ''/x'',
     op_Query = [], op_Input = ''{}'', op_Output = ''{}'', op_Effect = EffectReadOnly,
     op_MaxOutputBytes = 0, op_Digest = ''d''\<rparr>"

lemma sample_list_one: "list_one text_codec (Some sample_operation) = Inr sample_listed"
  by (simp add: list_one_def sample_operation_def sample_listed_def schemaJSON_def text_codec_def
      listed_effect_def effect_numbers has_prefix_iff)

lemma sample_list_result: "snd sample_list = Inr [sample_listed]"
  by (simp add: sample_list_def ListOperations_def ListSourceOperationsResponse_GetOperations_def
      sample_list_one)

theorem ListOperations_complete_witness:
  "\<exists>ops. snd sample_list = Inr ops \<and> map op_Name ops = [''get'']"
  using ListOperations_complete [of "\<lambda>q. Inr (Some \<lparr>lor_Operations = map Some [sample_operation]\<rparr>)"
      "''o''" "''s''" "Some \<lparr>lor_Operations = map Some [sample_operation]\<rparr>" _ sample_lib text_codec 0,
      OF refl refl, folded sample_list_def]
  unfolding sample_list_result by (auto simp: sample_listed_def)

theorem Declare_List_roundtrip_witness:
  "s_sent (DeclareOperations sample_lib text_codec (\<lambda>q. None) 0 ''o'' ''s'' [sample_listed])
    = [\<lparr>msg = \<lparr>dq_OrgId = ''o'', dq_SourceId = ''s'',
        dq_Operations = [Some (redeclared ''{}'' sample_operation)]\<rparr>, header = []\<rparr>]"
  using Declare_List_roundtrip [OF text_codec_laws _ sample_list_result [unfolded sample_list_def],
      where put = "\<lambda>q. None" and hosted = "[sample_operation]"]
  by simp

end
