(* ===== verification/SettingsField.thy ===== *)
theory SettingsField
  imports GoQuote
begin

text \<open>
  settings/field.go: typed paths into a protobuf settings message. The protobuf runtime is not under
  src/; what the code asks of a message is the record \<open>proto_ops\<close> and of its descriptors
  \<open>schema_ops\<close>. The documented behaviour of the message operations is the locale
  \<open>proto_message\<close>, in which the lemmas about walking, writing and pruning a path are proved once.

  A message is a value, and a path walk keeps the parents it came through: writing through the
  reference that \<^verbatim>\<open>Mutable\<close> or \<^verbatim>\<open>Get(...).Message()\<close> hands out is storing the changed child into its
  parents again (\<open>rebuild\<close>).
\<close>

section \<open>The protobuf runtime\<close>

record ('m, 'f, 'v) proto_ops =
  \<comment> \<open>\<^verbatim>\<open>Descriptor().FullName()\<close>, \<^verbatim>\<open>Has\<close>, \<^verbatim>\<open>Get\<close>, \<^verbatim>\<open>Get(f).Message()\<close>\<close>
  po_name :: "'m \<Rightarrow> string"
  po_has :: "'m \<Rightarrow> 'f \<Rightarrow> bool"
  po_get :: "'m \<Rightarrow> 'f \<Rightarrow> 'v"
  po_child :: "'m \<Rightarrow> 'f \<Rightarrow> 'm"
  \<comment> \<open>\<^verbatim>\<open>Set\<close>, \<^verbatim>\<open>Clear\<close>, the message \<^verbatim>\<open>Mutable\<close> creates, a parent once its child has changed\<close>
  po_set :: "'m \<Rightarrow> 'f \<Rightarrow> 'v \<Rightarrow> 'm"
  po_clear :: "'m \<Rightarrow> 'f \<Rightarrow> 'm"
  po_fresh :: "'f \<Rightarrow> 'm"
  po_store :: "'m \<Rightarrow> 'f \<Rightarrow> 'm \<Rightarrow> 'm"
  \<comment> \<open>\<^verbatim>\<open>GetUnknown\<close>; whether \<^verbatim>\<open>Range\<close> calls back at least once\<close>
  po_unknown :: "'m \<Rightarrow> string"
  po_ranges :: "'m \<Rightarrow> bool"
  \<comment> \<open>the accessors and constructors of \<^verbatim>\<open>protoreflect.Value\<close>\<close>
  po_string :: "'v \<Rightarrow> string"
  po_of_string :: "string \<Rightarrow> 'v"
  po_bool :: "'v \<Rightarrow> bool"
  po_of_bool :: "bool \<Rightarrow> 'v"
  po_enum :: "'v \<Rightarrow> int"
  po_of_enum :: "int \<Rightarrow> 'v"
  \<comment> \<open>the printable runes outside ASCII, for the verb \<^verbatim>\<open>%q\<close>\<close>
  po_is_print :: "string \<Rightarrow> bool"

datatype kind = StringKind | BoolKind | EnumKind | OtherKind string

fun kind_text :: "kind \<Rightarrow> string" where
  "kind_text StringKind = ''string''"
| "kind_text BoolKind = ''bool''"
| "kind_text EnumKind = ''enum''"
| "kind_text (OtherKind k) = k"

record ('d, 'f) schema_ops =
  so_full_name :: "'d \<Rightarrow> string"
  so_by_name :: "'d \<Rightarrow> string \<Rightarrow> 'f option"
  so_is_list :: "'f \<Rightarrow> bool"
  so_is_map :: "'f \<Rightarrow> bool"
  so_message :: "'f \<Rightarrow> 'd option"
  so_kind :: "'f \<Rightarrow> kind"
  so_has_presence :: "'f \<Rightarrow> bool"
  so_field_name :: "'f \<Rightarrow> string"
  so_enum_defines :: "'f \<Rightarrow> int \<Rightarrow> bool"
  so_enum_name :: "'f \<Rightarrow> string"

section \<open>Errors and fields\<close>

datatype set_label = ErrNilMessage | SetText string | SetExternal string

type_synonym set_err = "set_label goerr"

definition set_errorf :: "string \<Rightarrow> set_err" where
  "set_errorf m = Err (SetText m) []"

definition set_wrapf :: "string \<Rightarrow> set_err \<Rightarrow> set_err" where
  "set_wrapf m e = Err (SetText m) [e]"

record ('m, 'f, 't) Field =
  fd_root :: string
  fd_path :: string
  fd_segments :: "'f list"
  fd_defaultValue :: 't
  fd_lookup :: "'m \<Rightarrow> 'f \<Rightarrow> set_err + 't"
  fd_assign :: "'m \<Rightarrow> 'f \<Rightarrow> 't \<Rightarrow> set_err + 'm"

definition Field_Path :: "('m, 'f, 't) Field \<Rightarrow> string" where
  "Field_Path field = fd_path field"

definition Field_Default :: "('m, 'f, 't) Field \<Rightarrow> 't" where
  "Field_Default field = fd_defaultValue field"

text \<open>A nil message is \<open>None\<close>.\<close>

definition rootMessage ::
  "('m, 'f, 'v) proto_ops \<Rightarrow> ('m, 'f, 't) Field \<Rightarrow> 'm option \<Rightarrow> set_err + 'm" where
  "rootMessage po field message =
     (case message of None \<Rightarrow> Inl (Err ErrNilMessage [])
      | Some root \<Rightarrow>
          (if po_name po root \<noteq> fd_root field
           then Inl (set_errorf (''settings field '' @ go_quote (po_is_print po) (fd_path field) @
                  '' belongs to '' @ fd_root field @ '', got '' @ po_name po root))
           else Inr root))"

definition messageEmpty :: "('m, 'f, 'v) proto_ops \<Rightarrow> 'm \<Rightarrow> bool" where
  "messageEmpty po m = (if po_unknown po m \<noteq> '''' then False else \<not> po_ranges po m)"

section \<open>Lookup, Get, Has\<close>

text \<open>The walk over the parents; \<open>None\<close> when one is absent.\<close>

fun walk :: "('m, 'f, 'v) proto_ops \<Rightarrow> 'f list \<Rightarrow> 'm \<Rightarrow> 'm option" where
  "walk po [] cur = Some cur"
| "walk po (s # ss) cur = (if \<not> po_has po cur s then None else walk po ss (po_child po cur s))"

definition Field_Lookup ::
  "('m, 'f, 'v) proto_ops \<Rightarrow> ('m, 'f, 't) Field \<Rightarrow> 'm option \<Rightarrow> set_err + 't option" where
  "Field_Lookup po field message =
     (case rootMessage po field message of Inl err \<Rightarrow> Inl err
      | Inr root \<Rightarrow>
        (case walk po (butlast (fd_segments field)) root of None \<Rightarrow> Inr None
         | Some current \<Rightarrow>
            (let leaf = last (fd_segments field) in
             if \<not> po_has po current leaf then Inr None
             else (case fd_lookup field current leaf of
                 Inl err \<Rightarrow> Inl (set_wrapf (''read settings field '' @
                     go_quote (po_is_print po) (fd_path field) @ '': '') err)
               | Inr v \<Rightarrow> Inr (Some v)))))"

definition Field_Get ::
  "('m, 'f, 'v) proto_ops \<Rightarrow> ('m, 'f, 't) Field \<Rightarrow> 'm option \<Rightarrow> set_err + 't" where
  "Field_Get po field message =
     (case Field_Lookup po field message of Inl err \<Rightarrow> Inl err
      | Inr None \<Rightarrow> Inr (fd_defaultValue field) | Inr (Some v) \<Rightarrow> Inr v)"

definition Field_Has ::
  "('m, 'f, 'v) proto_ops \<Rightarrow> ('m, 'f, 't) Field \<Rightarrow> 'm option \<Rightarrow> set_err + bool" where
  "Field_Has po field message =
     (case Field_Lookup po field message of Inl err \<Rightarrow> Inl err | Inr v \<Rightarrow> Inr (v \<noteq> None))"

section \<open>Set\<close>

text \<open>
  The parents, innermost first, each with the field walked through and whether \<^verbatim>\<open>Mutable\<close> created
  the child.
\<close>

type_synonym ('m, 'f) parents = "('m \<times> 'f \<times> bool) list"

fun descend :: "('m, 'f, 'v) proto_ops \<Rightarrow> 'f list \<Rightarrow> 'm \<Rightarrow> ('m, 'f) parents \<Rightarrow> 'm \<times> ('m, 'f) parents" where
  "descend po [] cur ps = (cur, ps)"
| "descend po (s # ss) cur ps =
     (let created = \<not> po_has po cur s;
          child = (if created then po_fresh po s else po_child po cur s)
      in descend po ss child ((cur, s, created) # ps))"

fun rebuild :: "('m, 'f, 'v) proto_ops \<Rightarrow> ('m, 'f) parents \<Rightarrow> 'm \<Rightarrow> 'm" where
  "rebuild po [] child = child"
| "rebuild po ((p, s, created) # ps) child = rebuild po ps (po_store po p s child)"

text \<open>The loop that undoes the created parents after a failed assignment.\<close>

fun rollback :: "('m, 'f, 'v) proto_ops \<Rightarrow> ('m, 'f) parents \<Rightarrow> 'm \<Rightarrow> 'm" where
  "rollback po [] child = child"
| "rollback po ((p, s, created) # ps) child =
     (if \<not> created then rebuild po ((p, s, created) # ps) child
      else if \<not> messageEmpty po child then rebuild po ((p, s, created) # ps) child
      else rollback po ps (po_clear po (po_store po p s child) s))"

text \<open>The message after the call and the error.\<close>

definition Field_Set ::
  "('m, 'f, 'v) proto_ops \<Rightarrow> ('m, 'f, 't) Field \<Rightarrow> 'm option \<Rightarrow> 't \<Rightarrow> 'm option \<times> set_err option" where
  "Field_Set po field message v =
     (case rootMessage po field message of Inl err \<Rightarrow> (message, Some err)
      | Inr root \<Rightarrow>
        (let (current, parents) = descend po (butlast (fd_segments field)) root [];
             leaf = last (fd_segments field)
         in case fd_assign field current leaf v of
              Inl err \<Rightarrow> (Some (rollback po parents current),
                Some (set_wrapf (''set settings field '' @
                  go_quote (po_is_print po) (fd_path field) @ '': '') err))
            | Inr current' \<Rightarrow> (Some (rebuild po parents current'), None)))"

section \<open>Clear, ApplyDefault\<close>

fun descend_present :: "('m, 'f, 'v) proto_ops \<Rightarrow> 'f list \<Rightarrow> 'm \<Rightarrow> ('m, 'f) parents
    \<Rightarrow> ('m \<times> ('m, 'f) parents) option" where
  "descend_present po [] cur ps = Some (cur, ps)"
| "descend_present po (s # ss) cur ps =
     (if \<not> po_has po cur s then None
      else descend_present po ss (po_child po cur s) ((cur, s, False) # ps))"

fun prune :: "('m, 'f, 'v) proto_ops \<Rightarrow> ('m, 'f) parents \<Rightarrow> 'm \<Rightarrow> 'm" where
  "prune po [] child = child"
| "prune po ((p, s, c) # ps) child =
     (if \<not> messageEmpty po child then rebuild po ((p, s, c) # ps) child
      else prune po ps (po_clear po (po_store po p s child) s))"

definition Field_Clear ::
  "('m, 'f, 'v) proto_ops \<Rightarrow> ('m, 'f, 't) Field \<Rightarrow> 'm option \<Rightarrow> 'm option \<times> set_err option" where
  "Field_Clear po field message =
     (case rootMessage po field message of Inl err \<Rightarrow> (message, Some err)
      | Inr root \<Rightarrow>
        (case descend_present po (butlast (fd_segments field)) root [] of None \<Rightarrow> (message, None)
         | Some (current, parents) \<Rightarrow>
             (Some (prune po parents (po_clear po current (last (fd_segments field)))), None)))"

definition Field_ApplyDefault ::
  "('m, 'f, 'v) proto_ops \<Rightarrow> ('m, 'f, 't) Field \<Rightarrow> 'm option \<Rightarrow> 'm option \<times> (set_err + bool)" where
  "Field_ApplyDefault po field message =
     (case Field_Lookup po field message of Inl err \<Rightarrow> (message, Inl err)
      | Inr (Some v) \<Rightarrow> (message, Inr False)
      | Inr None \<Rightarrow>
          (case Field_Set po field message (fd_defaultValue field) of
             (message', Some err) \<Rightarrow> (message', Inl err)
           | (message', None) \<Rightarrow> (message', Inr True)))"

section \<open>Defining a field\<close>

definition requirePresence :: "('d, 'f) schema_ops \<Rightarrow> 'f \<Rightarrow> set_err option" where
  "requirePresence sc f =
     (if \<not> so_has_presence sc f
      then Some (set_errorf (''field '' @ so_field_name sc f @ '' has no presence; declare settings scalars optional''))
      else None)"

text \<open>The loop over the names: the segments, or the error of the first name that does not resolve.\<close>

fun resolve :: "('d, 'f) schema_ops \<Rightarrow> (string \<Rightarrow> string) \<Rightarrow> string \<Rightarrow> 'd \<Rightarrow> string list \<Rightarrow> set_err + 'f list" where
  "resolve sc q path d [] = Inr []"
| "resolve sc q path d (name # rest) =
     (if name = '''' then Inl (set_errorf (''settings field path '' @ q path @ '' contains an empty segment''))
      else case so_by_name sc d name of
        None \<Rightarrow> Inl (set_errorf (''settings field path '' @ q path @ '': '' @ so_full_name sc d @
                  '' has no field '' @ q name))
      | Some f \<Rightarrow>
          (if rest = [] then Inr [f]
           else if so_is_list sc f \<or> so_is_map sc f \<or> so_message sc f = None
           then Inl (set_errorf (''settings field path '' @ q path @ '': parent '' @ q name @
                  '' is not a singular message''))
           else (case resolve sc q path (the (so_message sc f)) rest of
               Inl err \<Rightarrow> Inl err | Inr fs \<Rightarrow> Inr (f # fs))))"

text \<open>The prototype is its descriptor, or \<open>None\<close> when it is nil.\<close>

definition newField ::
  "('m, 'f, 'v) proto_ops \<Rightarrow> ('d, 'f) schema_ops \<Rightarrow> 'd option \<Rightarrow> string \<Rightarrow> 't
    \<Rightarrow> ('f \<Rightarrow> set_err option) \<Rightarrow> ('m \<Rightarrow> 'f \<Rightarrow> set_err + 't) \<Rightarrow> ('m \<Rightarrow> 'f \<Rightarrow> 't \<Rightarrow> set_err + 'm)
    \<Rightarrow> set_err + ('m, 'f, 't) Field" where
  "newField po sc prototype path defaultValue validate lookup assign =
     (case prototype of None \<Rightarrow> Inl (set_errorf ''settings field prototype is nil'')
      | Some d \<Rightarrow>
        (let path = trim_space path; q = go_quote (po_is_print po) in
         if path = '''' then Inl (set_errorf ''settings field path is empty'')
         else case resolve sc q path d (split_on (CHR ''.'') path) of
           Inl err \<Rightarrow> Inl err
         | Inr segments \<Rightarrow>
            (let leaf = last segments in
             if so_is_list sc leaf \<or> so_is_map sc leaf
             then Inl (set_errorf (''settings field path '' @ q path @ '': list and map leaves are not supported''))
             else case validate leaf of
               Some err \<Rightarrow> Inl (set_wrapf (''settings field path '' @ q path @ '': '') err)
             | None \<Rightarrow> Inr \<lparr>fd_root = so_full_name sc d, fd_path = path, fd_segments = segments,
                  fd_defaultValue = defaultValue, fd_lookup = lookup, fd_assign = assign\<rparr>)))"

text \<open>The \<^verbatim>\<open>Must\<close> constructors panic with the error, which is \<open>Inl\<close>.\<close>

definition mustScalarField ::
  "('m, 'f, 'v) proto_ops \<Rightarrow> ('d, 'f) schema_ops \<Rightarrow> 'd option \<Rightarrow> string \<Rightarrow> 't \<Rightarrow> kind
    \<Rightarrow> ('v \<Rightarrow> set_err + 't) \<Rightarrow> ('t \<Rightarrow> set_err + 'v) \<Rightarrow> set_err + ('m, 'f, 't) Field" where
  "mustScalarField po sc prototype path defaultValue k decode encode =
     newField po sc prototype path defaultValue
       (\<lambda>f. if so_kind sc f \<noteq> k
            then Some (set_errorf (''expected '' @ kind_text k @ '', got '' @ kind_text (so_kind sc f)))
            else requirePresence sc f)
       (\<lambda>m f. decode (po_get po m f))
       (\<lambda>m f v. case encode v of Inl err \<Rightarrow> Inl err | Inr encoded \<Rightarrow> Inr (po_set po m f encoded))"

definition MustString ::
  "('m, 'f, 'v) proto_ops \<Rightarrow> ('d, 'f) schema_ops \<Rightarrow> 'd option \<Rightarrow> string \<Rightarrow> string
    \<Rightarrow> set_err + ('m, 'f, string) Field" where
  "MustString po sc prototype path defaultValue =
     mustScalarField po sc prototype path defaultValue StringKind
       (\<lambda>v. Inr (po_string po v)) (\<lambda>v. Inr (po_of_string po v))"

definition MustBool ::
  "('m, 'f, 'v) proto_ops \<Rightarrow> ('d, 'f) schema_ops \<Rightarrow> 'd option \<Rightarrow> string \<Rightarrow> bool
    \<Rightarrow> set_err + ('m, 'f, bool) Field" where
  "MustBool po sc prototype path defaultValue =
     mustScalarField po sc prototype path defaultValue BoolKind
       (\<lambda>v. Inr (po_bool po v)) (\<lambda>v. Inr (po_of_bool po v))"

text \<open>Enum numbers are 32-bit, as the generated enum types are.\<close>

definition MustEnum ::
  "('m, 'f, 'v) proto_ops \<Rightarrow> ('d, 'f) schema_ops \<Rightarrow> 'd option \<Rightarrow> string \<Rightarrow> 32 word
    \<Rightarrow> set_err + ('m, 'f, 32 word) Field" where
  "MustEnum po sc prototype path defaultValue =
     newField po sc prototype path defaultValue
       (\<lambda>f. if so_kind sc f \<noteq> EnumKind
            then Some (set_errorf (''expected enum, got '' @ kind_text (so_kind sc f)))
            else (case requirePresence sc f of Some err \<Rightarrow> Some err
              | None \<Rightarrow> (if \<not> so_enum_defines sc f (sint defaultValue)
                  then Some (set_errorf (''default '' @ itoa (sint defaultValue) @ '' is not defined by '' @
                         so_enum_name sc f))
                  else None)))
       (\<lambda>m f. Inr (word_of_int (po_enum po (po_get po m f))))
       (\<lambda>m f v. if \<not> so_enum_defines sc f (sint v)
            then Inl (set_errorf (itoa (sint v) @ '' is not defined by '' @ so_enum_name sc f))
            else Inr (po_set po m f (po_of_enum po (sint v))))"

end
