(* ===== verification/SettingsLaws.thy ===== *)
theory SettingsLaws
  imports SettingsField
begin

text \<open>
  The contract of a protobuf message as a locale, and what typed fields do under it: the loops of
  \<^verbatim>\<open>Set\<close> and \<^verbatim>\<open>Clear\<close> are related to their structural meaning (\<open>put\<close> and \<open>clr\<close>) and the lemmas are
  proved on those.
\<close>

section \<open>The contract\<close>

text \<open>
  \<open>sib f g\<close>: \<open>f\<close> and \<open>g\<close> are different members of one oneof, of which at most one is set. The laws on
  a written scalar are for singular fields of a scalar kind with presence, the laws on a written child
  for singular message fields.
\<close>

definition leaf_field :: "('d, 'f) schema_ops \<Rightarrow> 'f \<Rightarrow> bool" where
  "leaf_field sc f \<longleftrightarrow> so_has_presence sc f \<and> so_kind sc f \<in> {StringKind, BoolKind, EnumKind}
     \<and> \<not> so_is_list sc f \<and> \<not> so_is_map sc f"

definition sub_field :: "('d, 'f) schema_ops \<Rightarrow> 'f \<Rightarrow> bool" where
  "sub_field sc f \<longleftrightarrow> so_message sc f \<noteq> None \<and> \<not> so_is_list sc f \<and> \<not> so_is_map sc f"

abbreviation sub_fields :: "('d, 'f) schema_ops \<Rightarrow> 'f list \<Rightarrow> bool" where
  "sub_fields sc ss \<equiv> list_all (sub_field sc) ss"

locale proto_message =
  fixes po :: "('m, 'f, 'v) proto_ops" and sc :: "('d, 'f) schema_ops" and sib :: "'f \<Rightarrow> 'f \<Rightarrow> bool"
  assumes sib_irrefl: "\<not> sib f f"
    and oneof: "po_has po m f \<Longrightarrow> sib f g \<Longrightarrow> \<not> po_has po m g"
    and has_fresh [simp]: "\<not> po_has po (po_fresh po s) f"
    and fresh_empty [simp]: "messageEmpty po (po_fresh po s)"
    and empty_has: "messageEmpty po m \<Longrightarrow> \<not> po_has po m f"
    and has_set: "leaf_field sc f \<Longrightarrow> po_has po (po_set po m f v) g \<longleftrightarrow> g = f \<or> (po_has po m g \<and> \<not> sib f g)"
    and get_set: "leaf_field sc f \<Longrightarrow> po_get po (po_set po m f v) f = v"
    and get_set_other: "leaf_field sc f \<Longrightarrow> g \<noteq> f \<Longrightarrow> \<not> sib f g \<Longrightarrow> po_get po (po_set po m f v) g = po_get po m g"
    and child_set_other: "leaf_field sc f \<Longrightarrow> g \<noteq> f \<Longrightarrow> \<not> sib f g \<Longrightarrow> po_child po (po_set po m f v) g = po_child po m g"
    and clear_set: "leaf_field sc f \<Longrightarrow> (\<And>g. sib f g \<Longrightarrow> \<not> po_has po m g) \<Longrightarrow>
      po_clear po (po_set po m f v) f = po_clear po m f"
    and has_store: "sub_field sc f \<Longrightarrow> po_has po (po_store po m f c) g \<longleftrightarrow> g = f \<or> (po_has po m g \<and> \<not> sib f g)"
    and child_store [simp]: "sub_field sc f \<Longrightarrow> po_child po (po_store po m f c) f = c"
    and child_store_other: "sub_field sc f \<Longrightarrow> g \<noteq> f \<Longrightarrow> \<not> sib f g \<Longrightarrow> po_child po (po_store po m f c) g = po_child po m g"
    and get_store_other: "sub_field sc f \<Longrightarrow> g \<noteq> f \<Longrightarrow> \<not> sib f g \<Longrightarrow> po_get po (po_store po m f c) g = po_get po m g"
    and store_child [simp]: "sub_field sc f \<Longrightarrow> po_has po m f \<Longrightarrow> po_store po m f (po_child po m f) = m"
    and store_store [simp]: "sub_field sc f \<Longrightarrow> po_store po (po_store po m f c) f d = po_store po m f d"
    and clear_store: "sub_field sc f \<Longrightarrow> (\<And>g. sib f g \<Longrightarrow> \<not> po_has po m g) \<Longrightarrow>
      po_clear po (po_store po m f c) f = po_clear po m f"
    and has_clear: "po_has po (po_clear po m f) g \<longleftrightarrow> g \<noteq> f \<and> po_has po m g"
    and child_clear_other: "g \<noteq> f \<Longrightarrow> po_child po (po_clear po m f) g = po_child po m g"
    and get_clear_other: "g \<noteq> f \<Longrightarrow> po_get po (po_clear po m f) g = po_get po m g"
    and clear_absent [simp]: "\<not> po_has po m f \<Longrightarrow> po_clear po m f = m"
    and name_set [simp]: "po_name po (po_set po m f v) = po_name po m"
    and name_store [simp]: "po_name po (po_store po m f c) = po_name po m"
    and name_clear [simp]: "po_name po (po_clear po m f) = po_name po m"
    and string_value [simp]: "po_string po (po_of_string po t) = t"
    and bool_value [simp]: "po_bool po (po_of_bool po b) = b"
    and enum_value [simp]: "po_enum po (po_of_enum po n) = n"

section \<open>What the loops mean\<close>

text \<open>\<open>put\<close> changes the message at a path, creating what is missing; \<open>clr\<close> clears and prunes.\<close>

fun step_into :: "('m, 'f, 'v) proto_ops \<Rightarrow> 'm \<Rightarrow> 'f \<Rightarrow> 'm" where
  "step_into po m s = (if po_has po m s then po_child po m s else po_fresh po s)"

fun target :: "('m, 'f, 'v) proto_ops \<Rightarrow> 'f list \<Rightarrow> 'm \<Rightarrow> 'm" where
  "target po [] m = m"
| "target po (s # ss) m = target po ss (step_into po m s)"

fun put :: "('m, 'f, 'v) proto_ops \<Rightarrow> 'f list \<Rightarrow> 'm \<Rightarrow> 'm \<Rightarrow> 'm" where
  "put po [] c m = c"
| "put po (s # ss) c m = po_store po m s (put po ss c (step_into po m s))"

fun clr :: "('m, 'f, 'v) proto_ops \<Rightarrow> 'f list \<Rightarrow> 'f \<Rightarrow> 'm \<Rightarrow> 'm" where
  "clr po [] leaf m = po_clear po m leaf"
| "clr po (s # ss) leaf m =
     (let c = clr po ss leaf (po_child po m s)
      in if messageEmpty po c then po_clear po m s else po_store po m s c)"

text \<open>What a path shows: the value there, if all of it is present.\<close>

fun peek :: "('m, 'f, 'v) proto_ops \<Rightarrow> 'f list \<Rightarrow> 'f \<Rightarrow> 'm \<Rightarrow> 'v option" where
  "peek po [] leaf m = (if po_has po m leaf then Some (po_get po m leaf) else None)"
| "peek po (s # ss) leaf m = (if po_has po m s then peek po ss leaf (po_child po m s) else None)"

text \<open>No member of a oneof on the path would be displaced.\<close>

fun undisplaced :: "('m, 'f, 'v) proto_ops \<Rightarrow> ('f \<Rightarrow> 'f \<Rightarrow> bool) \<Rightarrow> 'f list \<Rightarrow> 'm \<Rightarrow> bool" where
  "undisplaced po sib [] m \<longleftrightarrow> True"
| "undisplaced po sib (s # ss) m \<longleftrightarrow> (\<forall>g. sib s g \<longrightarrow> \<not> po_has po m g) \<and>
     undisplaced po sib ss (step_into po m s)"

text \<open>No present parent on the path is empty.\<close>

fun no_empty_parent :: "('m, 'f, 'v) proto_ops \<Rightarrow> 'f list \<Rightarrow> 'm \<Rightarrow> bool" where
  "no_empty_parent po [] m \<longleftrightarrow> True"
| "no_empty_parent po (s # ss) m \<longleftrightarrow>
     (po_has po m s \<longrightarrow> \<not> messageEmpty po (po_child po m s) \<and> no_empty_parent po ss (po_child po m s))"

text \<open>Two paths part at fields that are not members of one oneof.\<close>

fun apart :: "('f \<Rightarrow> 'f \<Rightarrow> bool) \<Rightarrow> 'f list \<Rightarrow> 'f list \<Rightarrow> bool" where
  "apart sib (f # p) (g # q) \<longleftrightarrow> (if f = g then apart sib p q else \<not> sib f g)"
| "apart sib _ _ \<longleftrightarrow> False"

lemma descend_target: "descend po ss m ps = (cur, qs) \<Longrightarrow> cur = target po ss m"
  by (induction ss arbitrary: m ps) (auto simp: Let_def split: if_splits)

lemma descend_rebuild:
  "descend po ss m ps = (cur, qs) \<Longrightarrow> rebuild po qs c = rebuild po ps (put po ss c m)"
  by (induction ss arbitrary: m ps) (auto simp: Let_def split: if_splits)

lemma walk_peek:
  "peek po ss leaf m = (case walk po ss m of None \<Rightarrow> None
     | Some c \<Rightarrow> if po_has po c leaf then Some (po_get po c leaf) else None)"
  by (induction ss arbitrary: m) auto

lemma descend_present_walk:
  "descend_present po ss m ps = None \<longleftrightarrow> walk po ss m = None"
  "descend_present po ss m ps = Some (cur, qs) \<Longrightarrow> walk po ss m = Some cur"
  by (induction ss arbitrary: m ps) (auto split: if_splits)

context proto_message
begin

lemma nonempty_has: "po_has po m f \<Longrightarrow> \<not> messageEmpty po m"
  using empty_has by blast

lemma nonempty_store [simp]: "sub_field sc f \<Longrightarrow> \<not> messageEmpty po (po_store po m f c)"
  by (rule nonempty_has [of _ f]) (simp add: has_store)

lemma store_nonempty_rollback: "\<not> messageEmpty po m \<Longrightarrow> rollback po ps m = rebuild po ps m"
  by (cases ps) auto

lemma store_nonempty_prune: "\<not> messageEmpty po m \<Longrightarrow> prune po ps m = rebuild po ps m"
  by (cases ps) auto

text \<open>A failed assignment: the loop restores the message, unless a oneof member was displaced.\<close>

lemma rollback_descend:
  "descend po ss m ps = (cur, qs) \<Longrightarrow> sub_fields sc ss \<Longrightarrow> undisplaced po sib ss m \<Longrightarrow>
     rollback po qs cur = rollback po ps m"
proof (induction ss arbitrary: m ps)
  case (Cons s ss)
  let ?child = "step_into po m s"
  from Cons.prems(1) have "descend po ss ?child ((m, s, \<not> po_has po m s) # ps) = (cur, qs)"
    by (simp add: Let_def split: if_splits)
  from Cons.IH [OF this] Cons.prems(2,3)
  have r: "rollback po qs cur = rollback po ((m, s, \<not> po_has po m s) # ps) ?child" by simp
  show ?case
  proof (cases "po_has po m s")
    case True
    then show ?thesis using r store_nonempty_rollback [OF nonempty_has [OF True]] Cons.prems(2) by simp
  next
    case False
    with Cons.prems(2,3) have "po_clear po (po_store po m s (po_fresh po s)) s = m"
      by (simp add: clear_store)
    with False r show ?thesis by simp
  qed
qed simp

lemma prune_clr:
  "descend_present po ss m ps = Some (cur, qs) \<Longrightarrow> sub_fields sc ss \<Longrightarrow>
     prune po qs (po_clear po cur leaf) = prune po ps (clr po ss leaf m)"
proof (induction ss arbitrary: m ps)
  case (Cons s ss)
  then have has: "po_has po m s"
    and rest: "descend_present po ss (po_child po m s) ((m, s, False) # ps) = Some (cur, qs)"
    by (auto split: if_splits)
  have "\<And>g. sib s g \<Longrightarrow> \<not> po_has po m g" using oneof [OF has] by blast
  then have "po_clear po (po_store po m s c) s = po_clear po m s" for c
    using Cons.prems(2) clear_store by simp
  with Cons.IH [OF rest] Cons.prems(2) store_nonempty_prune [of "po_store po m s c" ps for c]
  show ?case by (simp add: Let_def)
qed simp

lemma walk_put: "sub_fields sc ss \<Longrightarrow> walk po ss (put po ss c m) = Some c"
  by (induction ss arbitrary: m) (auto simp: has_store)

lemma peek_put:
  "sub_fields sc ss \<Longrightarrow> peek po ss leaf (put po ss c m) = (if po_has po c leaf then Some (po_get po c leaf) else None)"
  by (simp add: walk_peek walk_put)

lemma name_put: "ss \<noteq> [] \<Longrightarrow> po_name po (put po ss c m) = po_name po m"
  by (cases ss) auto

lemma name_put_set: "po_name po (put po ss (po_set po (target po ss m) f v) m) = po_name po m"
  by (cases ss) auto

lemma name_clr: "po_name po (clr po ss leaf m) = po_name po m"
  by (cases ss) (auto simp: Let_def)

lemma peek_fresh: "peek po ss leaf (po_fresh po s) = None"
  by (cases ss) auto

text \<open>The cleared path shows nothing.\<close>

lemma peek_clr: "walk po ss m \<noteq> None \<Longrightarrow> sub_fields sc ss \<Longrightarrow> peek po ss leaf (clr po ss leaf m) = None"
proof (induction ss arbitrary: m)
  case (Cons s ss)
  then show ?case by (auto simp: Let_def has_clear has_store split: if_splits)
qed (simp add: has_clear)

text \<open>Setting and clearing at one path leaves the others alone.\<close>

lemma peek_set_apart:
  assumes "leaf_field sc leaf" and "apart sib (ss @ [leaf]) (ts @ [leaf'])" and "sub_fields sc ss"
  shows "peek po ts leaf' (put po ss (po_set po (target po ss m) leaf v) m) = peek po ts leaf' m"
  using assms(2,3)
proof (induction ss arbitrary: ts m)
  case Nil
  then show ?case using assms(1)
    by (cases ts) (auto simp: has_set get_set_other child_set_other split: if_splits)
next
  case (Cons s ss)
  show ?case
  proof (cases ts)
    case Nil
    with Cons.prems have "leaf' \<noteq> s" "\<not> sib s leaf'" by (auto split: if_splits)
    with Nil Cons.prems(2) show ?thesis by (simp add: has_store get_store_other)
  next
    case ts: (Cons t ts')
    show ?thesis
    proof (cases "s = t")
      case True
      with Cons.prems ts have "apart sib (ss @ [leaf]) (ts' @ [leaf'])" by simp
      from Cons.IH [OF this, of "step_into po m s"] True ts Cons.prems(2) show ?thesis
        by (auto simp: has_store peek_fresh)
    next
      case False
      with Cons.prems ts have "\<not> sib s t" by simp
      with False ts Cons.prems(2) show ?thesis by (simp add: has_store child_store_other)
    qed
  qed
qed

lemma peek_clr_apart:
  assumes "apart sib (ss @ [leaf]) (ts @ [leaf'])" and "walk po ss m \<noteq> None" and "sub_fields sc ss"
  shows "peek po ts leaf' (clr po ss leaf m) = peek po ts leaf' m"
  using assms
proof (induction ss arbitrary: ts m)
  case Nil
  then show ?case
    by (cases ts) (auto simp: has_clear get_clear_other child_clear_other split: if_splits)
next
  case (Cons s ss)
  then have has: "po_has po m s" and w: "walk po ss (po_child po m s) \<noteq> None" by (auto split: if_splits)
  show ?case
  proof (cases ts)
    case Nil
    with Cons.prems have "leaf' \<noteq> s" "\<not> sib s leaf'" by (auto split: if_splits)
    with Nil Cons.prems(3) show ?thesis by (auto simp: Let_def has_store has_clear get_store_other get_clear_other)
  next
    case ts: (Cons t ts')
    show ?thesis
    proof (cases "s = t")
      case True
      with Cons.prems ts have "apart sib (ss @ [leaf]) (ts' @ [leaf'])" by simp
      from Cons.IH [OF this w] Cons.prems(3)
      have ih: "peek po ts' leaf' (clr po ss leaf (po_child po m s)) = peek po ts' leaf' (po_child po m s)" by simp
      have "messageEmpty po (clr po ss leaf (po_child po m s)) \<Longrightarrow>
          peek po ts' leaf' (clr po ss leaf (po_child po m s)) = None"
        using empty_has by (cases ts') auto
      with ih True ts has Cons.prems(3) show ?thesis by (auto simp: Let_def has_store has_clear)
    next
      case False
      with Cons.prems ts have "\<not> sib s t" by simp
      with False ts Cons.prems(3) show ?thesis
        by (auto simp: Let_def has_store has_clear child_store_other child_clear_other)
    qed
  qed
qed

text \<open>Clearing undoes a set on an absent path.\<close>

lemma clr_put:
  assumes "leaf_field sc leaf" and "peek po ss leaf m = None" and "no_empty_parent po ss m"
    and "undisplaced po sib (ss @ [leaf]) m" and "sub_fields sc ss"
  shows "clr po ss leaf (put po ss (po_set po (target po ss m) leaf v) m) = m"
  using assms(2-5)
proof (induction ss arbitrary: m)
  case Nil
  then show ?case using clear_set [OF assms(1), of m v] by (auto split: if_splits)
next
  case (Cons s ss)
  let ?k = "step_into po m s"
  have "peek po ss leaf ?k = None" using Cons.prems(1) peek_fresh by (auto split: if_splits)
  moreover have "no_empty_parent po ss ?k"
    using Cons.prems(2) by (cases ss) auto
  moreover have "undisplaced po sib (ss @ [leaf]) ?k" using Cons.prems(3) by simp
  ultimately have ih: "clr po ss leaf (put po ss (po_set po (target po ss ?k) leaf v) ?k) = ?k"
    using Cons.prems(4) by (intro Cons.IH) simp_all
  have none: "\<And>g. sib s g \<Longrightarrow> \<not> po_has po m g" using Cons.prems(3) by simp
  show ?case
    using ih Cons.prems(2,4) clear_store [OF _ none] by (auto simp: Let_def)
qed

end

section \<open>Fields under the contract\<close>

text \<open>
  A scalar field: a leaf with presence that is read by decoding what \<^verbatim>\<open>Get\<close> returns and written by
  setting an encoding of the value, which decodes to it.
\<close>

definition scalar_field ::
  "('m, 'f, 'v) proto_ops \<Rightarrow> ('d, 'f) schema_ops \<Rightarrow> ('m, 'f, 't) Field \<Rightarrow> ('v \<Rightarrow> 't)
    \<Rightarrow> ('t \<Rightarrow> set_err + 'v) \<Rightarrow> bool" where
  "scalar_field po sc field dec enc \<longleftrightarrow>
     fd_segments field \<noteq> [] \<and> sub_fields sc (butlast (fd_segments field)) \<and>
     leaf_field sc (last (fd_segments field)) \<and>
     (\<forall>m. fd_lookup field m (last (fd_segments field)) = Inr (dec (po_get po m (last (fd_segments field))))) \<and>
     (\<forall>m v. fd_assign field m (last (fd_segments field)) v = (case enc v of Inl e \<Rightarrow> Inl e
        | Inr w \<Rightarrow> Inr (po_set po m (last (fd_segments field)) w))) \<and>
     (\<forall>v w. enc v = Inr w \<longrightarrow> dec w = v)"

abbreviation field_at :: "('m, 'f, 'v) proto_ops \<Rightarrow> ('m, 'f, 't) Field \<Rightarrow> 'm \<Rightarrow> 'v option" where
  "field_at po field m \<equiv> peek po (butlast (fd_segments field)) (last (fd_segments field)) m"

lemma Lookup_peek:
  assumes "scalar_field po sc field dec enc" and "po_name po m = fd_root field"
  shows "Field_Lookup po field (Some m) = Inr (map_option dec (field_at po field m))"
  using assms
  by (auto simp: Field_Lookup_def rootMessage_def scalar_field_def walk_peek Let_def split: option.splits)

lemma Set_cases:
  assumes s: "scalar_field po sc field dec enc" and n: "po_name po m = fd_root field"
  obtains (written) w where "enc v = Inr w"
      and "Field_Set po field (Some m) v = (Some (put po (butlast (fd_segments field))
        (po_set po (target po (butlast (fd_segments field)) m) (last (fd_segments field)) w) m), None)"
  | (refused) e cur qs where "enc v = Inl e"
      and "descend po (butlast (fd_segments field)) m [] = (cur, qs)"
      and "Field_Set po field (Some m) v = (Some (rollback po qs cur), Some
        (set_wrapf (''set settings field '' @ go_quote (po_is_print po) (fd_path field) @ '': '') e))"
proof -
  obtain cur qs where d: "descend po (butlast (fd_segments field)) m [] = (cur, qs)" by fastforce
  show ?thesis
  proof (cases "enc v")
    case (Inl e)
    then show ?thesis using s n d
      by (intro refused [OF Inl d]) (simp add: Field_Set_def rootMessage_def scalar_field_def)
  next
    case (Inr w)
    then show ?thesis using s n d descend_rebuild [OF d] descend_target [OF d]
      by (intro written [OF Inr]) (simp add: Field_Set_def rootMessage_def scalar_field_def)
  qed
qed

lemma segments_split: "scalar_field po sc field dec enc \<Longrightarrow>
    butlast (fd_segments field) @ [last (fd_segments field)] = fd_segments field"
  by (simp add: scalar_field_def)

lemma Clear_cases:
  assumes n: "po_name po m = fd_root field"
  obtains (absent) "walk po (butlast (fd_segments field)) m = None" and "Field_Clear po field (Some m) = (Some m, None)"
  | (cleared) cur qs where "descend_present po (butlast (fd_segments field)) m [] = Some (cur, qs)"
      and "walk po (butlast (fd_segments field)) m \<noteq> None"
      and "Field_Clear po field (Some m) = (Some (prune po qs (po_clear po cur (last (fd_segments field)))), None)"
proof (cases "descend_present po (butlast (fd_segments field)) m []")
  case None
  moreover from None have "walk po (butlast (fd_segments field)) m = None" unfolding descend_present_walk(1) .
  ultimately show ?thesis using n by (intro absent) (simp_all add: Field_Clear_def rootMessage_def)
next
  case (Some r)
  then obtain cur qs where "descend_present po (butlast (fd_segments field)) m [] = Some (cur, qs)" by (cases r) auto
  with descend_present_walk(2) [OF this] n show ?thesis
    by (intro cleared) (auto simp: Field_Clear_def rootMessage_def)
qed

context proto_message
begin

lemma field_set_lookup:
  assumes "scalar_field po sc field dec enc" and "po_name po m = fd_root field"
    and "Field_Set po field (Some m) v = (m', None)"
  shows "Field_Lookup po field m' = Inr (Some v)"
  using assms(1,2)
proof (cases rule: Set_cases [where v = v])
  case (written w)
  let ?m = "put po (butlast (fd_segments field))
        (po_set po (target po (butlast (fd_segments field)) m) (last (fd_segments field)) w) m"
  have m': "m' = Some ?m" using written(2) assms(3) by simp
  have "po_name po ?m = fd_root field" using name_put_set assms(2) by simp
  from Lookup_peek [OF assms(1) this] m' written(1) assms(1) show ?thesis
    by (auto simp: peek_put has_set get_set scalar_field_def)
next
  case (refused e cur qs)
  with assms(3) show ?thesis by simp
qed

lemma field_set_frame:
  assumes "scalar_field po sc field dec enc" and "scalar_field po sc other dec' enc'"
    and "po_name po m = fd_root field" and "fd_root other = fd_root field"
    and "apart sib (fd_segments field) (fd_segments other)"
    and "Field_Set po field (Some m) v = (m', None)"
  shows "Field_Lookup po other m' = Field_Lookup po other (Some m)"
  using assms(1,3)
proof (cases rule: Set_cases [where v = v])
  case (written w)
  let ?m = "put po (butlast (fd_segments field))
        (po_set po (target po (butlast (fd_segments field)) m) (last (fd_segments field)) w) m"
  have m': "m' = Some ?m" using written(2) assms(6) by simp
  have n: "po_name po ?m = fd_root other" "po_name po m = fd_root other" using name_put_set assms(3,4) by simp_all
  have l: "leaf_field sc (last (fd_segments field))" "sub_fields sc (butlast (fd_segments field))"
    using assms(1) by (simp_all add: scalar_field_def)
  from peek_set_apart [OF l(1) _ l(2), where ts = "butlast (fd_segments other)"
      and leaf' = "last (fd_segments other)" and m = m and v = w] assms(5) segments_split [OF assms(1)] segments_split [OF assms(2)]
  have "field_at po other ?m = field_at po other m" by simp
  with Lookup_peek [OF assms(2) n(1)] Lookup_peek [OF assms(2) n(2)] m' show ?thesis by simp
next
  case (refused e cur qs)
  with assms(6) show ?thesis by simp
qed

lemma field_set_failed:
  assumes "scalar_field po sc field dec enc" and "po_name po m = fd_root field"
    and "undisplaced po sib (butlast (fd_segments field)) m"
    and "Field_Set po field (Some m) v = (m', Some e)"
  shows "m' = Some m"
  using assms(1,2)
proof (cases rule: Set_cases [where v = v])
  case (refused e' cur qs)
  from rollback_descend [OF refused(2) _ assms(3)] assms(1) refused(3) assms(4) show ?thesis by (simp add: scalar_field_def)
qed (use assms(4) in simp)

lemma field_clear_lookup:
  assumes sf: "scalar_field po sc field dec enc" and "po_name po m = fd_root field"
  shows "\<exists>m'. Field_Clear po field (Some m) = (Some m', None) \<and> Field_Lookup po field (Some m') = Inr None"
  using assms(2)
proof (cases rule: Clear_cases)
  case absent
  with Lookup_peek [OF assms] show ?thesis by (simp add: walk_peek)
next
  case (cleared cur qs)
  let ?m = "clr po (butlast (fd_segments field)) (last (fd_segments field)) m"
  have subs: "sub_fields sc (butlast (fd_segments field))" using sf by (simp add: scalar_field_def)
  have "Field_Clear po field (Some m) = (Some ?m, None)"
    using cleared(3) prune_clr [OF cleared(1) subs] by simp
  moreover have "po_name po ?m = fd_root field" using name_clr assms(2) by simp
  ultimately show ?thesis using Lookup_peek [OF assms(1)] peek_clr [OF cleared(2) subs] by simp
qed

lemma field_clear_frame:
  assumes "scalar_field po sc field dec enc" and "scalar_field po sc other dec' enc'"
    and "po_name po m = fd_root field" and "fd_root other = fd_root field"
    and "apart sib (fd_segments field) (fd_segments other)"
  shows "Field_Lookup po other (fst (Field_Clear po field (Some m))) = Field_Lookup po other (Some m)"
  using assms(3)
proof (cases rule: Clear_cases)
  case absent
  then show ?thesis by simp
next
  case (cleared cur qs)
  let ?m = "clr po (butlast (fd_segments field)) (last (fd_segments field)) m"
  have subs: "sub_fields sc (butlast (fd_segments field))" using assms(1) by (simp add: scalar_field_def)
  have n: "po_name po ?m = fd_root other" "po_name po m = fd_root other" using name_clr assms(3,4) by simp_all
  have "field_at po other ?m = field_at po other m"
    using peek_clr_apart [OF _ cleared(2) subs] assms(5) segments_split [OF assms(1)] segments_split [OF assms(2)] by simp
  with Lookup_peek [OF assms(2) n(1)] Lookup_peek [OF assms(2) n(2)] cleared(3) prune_clr [OF cleared(1) subs]
  show ?thesis by simp
qed

lemma field_clear_set:
  assumes "scalar_field po sc field dec enc" and "po_name po m = fd_root field"
    and "Field_Lookup po field (Some m) = Inr None"
    and "undisplaced po sib (fd_segments field) m"
    and "no_empty_parent po (butlast (fd_segments field)) m"
    and "Field_Set po field (Some m) v = (m', None)"
  shows "Field_Clear po field m' = (Some m, None)"
  using assms(1,2)
proof (cases rule: Set_cases [where v = v])
  case (written w)
  let ?ss = "butlast (fd_segments field)" and ?leaf = "last (fd_segments field)"
  let ?m = "put po ?ss (po_set po (target po ?ss m) ?leaf w) m"
  have m': "m' = Some ?m" using written(2) assms(6) by simp
  have n: "po_name po ?m = fd_root field" using name_put_set assms(2) by simp
  have none: "peek po ?ss ?leaf m = None" using Lookup_peek [OF assms(1,2)] assms(3) by simp
  have u: "undisplaced po sib (?ss @ [?leaf]) m" using assms(4) segments_split [OF assms(1)] by simp
  have l: "leaf_field sc ?leaf" "sub_fields sc ?ss" using assms(1) by (simp_all add: scalar_field_def)
  have restored: "clr po ?ss ?leaf ?m = m" by (rule clr_put [OF l(1) none assms(5) u l(2)])
  from n show ?thesis
  proof (cases rule: Clear_cases)
    case absent
    then show ?thesis using walk_put [OF l(2)] by simp
  next
    case (cleared cur qs)
    from cleared(3) prune_clr [OF cleared(1) l(2)] restored m' show ?thesis by simp
  qed
next
  case (refused e cur qs)
  with assms(6) show ?thesis by simp
qed

end

end
