(* ===== verification/SettingsDynamic.thy ===== *)
theory SettingsDynamic
  imports SettingsLaws "HOL-Library.Finite_Map"
begin

text \<open>
  Dynamic messages: fields in finite maps, oneofs that hold at most one member, unknown bytes. They
  satisfy the contract \<open>proto_message\<close>, so the facts about typed fields hold of them, and they are
  what the examples of the settings theories run on.
\<close>

section \<open>Descriptors and messages\<close>

record leaf_info =
  li_name :: string
  li_kind :: kind
  li_presence :: bool
  li_values :: "int list"

text \<open>A field is plain or a member of the named oneof; a message field carries its message type.\<close>

datatype dfield = Leaf leaf_info | LeafIn string leaf_info | Sub string ddesc | SubIn string string ddesc
  and ddesc = DDesc string "dfield list"

datatype dvalue = DString string | DBool bool | DEnum int

datatype dmessage = DMessage (dm_name: string) (dm_unknown: string)
  (dm_leaves: "(leaf_info, dvalue) fmap")
  (dm_subs: "(string \<times> ddesc, dmessage) fmap")
  (dm_ones: "(string, (leaf_info \<times> dvalue) + ((string \<times> ddesc) \<times> dmessage)) fmap")

fun dd_name :: "ddesc \<Rightarrow> string" where
  "dd_name (DDesc n fs) = n"

fun dd_fields :: "ddesc \<Rightarrow> dfield list" where
  "dd_fields (DDesc n fs) = fs"

fun df_name :: "dfield \<Rightarrow> string" where
  "df_name (Leaf i) = li_name i"
| "df_name (LeafIn k i) = li_name i"
| "df_name (Sub n d) = n"
| "df_name (SubIn k n d) = n"

fun df_info :: "dfield \<Rightarrow> leaf_info option" where
  "df_info (Leaf i) = Some i"
| "df_info (LeafIn k i) = Some i"
| "df_info _ = None"

fun df_message :: "dfield \<Rightarrow> ddesc option" where
  "df_message (Sub n d) = Some d"
| "df_message (SubIn k n d) = Some d"
| "df_message _ = None"

fun df_oneof :: "dfield \<Rightarrow> string option" where
  "df_oneof (LeafIn k i) = Some k"
| "df_oneof (SubIn k n d) = Some k"
| "df_oneof _ = None"

definition siblings :: "dfield \<Rightarrow> dfield \<Rightarrow> bool" where
  "siblings f g \<longleftrightarrow> f \<noteq> g \<and> df_oneof f \<noteq> None \<and> df_oneof f = df_oneof g"

definition dm_empty :: "string \<Rightarrow> dmessage" where
  "dm_empty n = DMessage n '''' fmempty fmempty fmempty"

section \<open>Operations\<close>

fun dm_has :: "dmessage \<Rightarrow> dfield \<Rightarrow> bool" where
  "dm_has m (Leaf i) \<longleftrightarrow> fmlookup (dm_leaves m) i \<noteq> None"
| "dm_has m (Sub n d) \<longleftrightarrow> fmlookup (dm_subs m) (n, d) \<noteq> None"
| "dm_has m (LeafIn k i) \<longleftrightarrow> (case fmlookup (dm_ones m) k of Some (Inl (j, v)) \<Rightarrow> j = i | _ \<Rightarrow> False)"
| "dm_has m (SubIn k n d) \<longleftrightarrow> (case fmlookup (dm_ones m) k of Some (Inr (j, c)) \<Rightarrow> j = (n, d) | _ \<Rightarrow> False)"

definition default_value :: "kind \<Rightarrow> dvalue" where
  "default_value k = (if k = StringKind then DString '''' else if k = BoolKind then DBool False else DEnum 0)"

fun dm_get :: "dmessage \<Rightarrow> dfield \<Rightarrow> dvalue" where
  "dm_get m (Leaf i) = (case fmlookup (dm_leaves m) i of Some v \<Rightarrow> v | None \<Rightarrow> default_value (li_kind i))"
| "dm_get m (LeafIn k i) = (case fmlookup (dm_ones m) k of
     Some (Inl (j, v)) \<Rightarrow> (if j = i then v else default_value (li_kind i)) | _ \<Rightarrow> default_value (li_kind i))"
| "dm_get m _ = DEnum 0"

fun dm_fresh :: "dfield \<Rightarrow> dmessage" where
  "dm_fresh (Sub n d) = dm_empty (dd_name d)"
| "dm_fresh (SubIn k n d) = dm_empty (dd_name d)"
| "dm_fresh _ = dm_empty ''''"

fun dm_child :: "dmessage \<Rightarrow> dfield \<Rightarrow> dmessage" where
  "dm_child m (Sub n d) = (case fmlookup (dm_subs m) (n, d) of Some c \<Rightarrow> c | None \<Rightarrow> dm_fresh (Sub n d))"
| "dm_child m (SubIn k n d) = (case fmlookup (dm_ones m) k of
     Some (Inr (j, c)) \<Rightarrow> (if j = (n, d) then c else dm_fresh (SubIn k n d)) | _ \<Rightarrow> dm_fresh (SubIn k n d))"
| "dm_child m f = dm_fresh f"

fun dm_clear :: "dmessage \<Rightarrow> dfield \<Rightarrow> dmessage" where
  "dm_clear (DMessage t u l s w) (Leaf i) = DMessage t u (fmdrop i l) s w"
| "dm_clear (DMessage t u l s w) (Sub n d) = DMessage t u l (fmdrop (n, d) s) w"
| "dm_clear (DMessage t u l s w) f =
     (if dm_has (DMessage t u l s w) f then DMessage t u l s (fmdrop (the (df_oneof f)) w)
      else DMessage t u l s w)"

text \<open>A scalar without presence is unset when it is given its default.\<close>

fun dm_set :: "dmessage \<Rightarrow> dfield \<Rightarrow> dvalue \<Rightarrow> dmessage" where
  "dm_set (DMessage t u l s w) (Leaf i) v =
     (if \<not> li_presence i \<and> v = default_value (li_kind i) then DMessage t u (fmdrop i l) s w
      else DMessage t u (fmupd i v l) s w)"
| "dm_set (DMessage t u l s w) (LeafIn k i) v = DMessage t u l s (fmupd k (Inl (i, v)) w)"
| "dm_set m _ v = m"

fun dm_store :: "dmessage \<Rightarrow> dfield \<Rightarrow> dmessage \<Rightarrow> dmessage" where
  "dm_store (DMessage t u l s w) (Sub n d) c = DMessage t u l (fmupd (n, d) c s) w"
| "dm_store (DMessage t u l s w) (SubIn k n d) c = DMessage t u l s (fmupd k (Inr ((n, d), c)) w)"
| "dm_store m _ c = m"

definition dm_ranges :: "dmessage \<Rightarrow> bool" where
  "dm_ranges m \<longleftrightarrow> dm_leaves m \<noteq> fmempty \<or> dm_subs m \<noteq> fmempty \<or> dm_ones m \<noteq> fmempty"

fun dv_string :: "dvalue \<Rightarrow> string" where
  "dv_string (DString s) = s" | "dv_string (DBool b) = ''<bool>''" | "dv_string (DEnum n) = ''<enum>''"

fun dv_bool :: "dvalue \<Rightarrow> bool" where
  "dv_bool (DBool b) = b" | "dv_bool _ = False"

fun dv_enum :: "dvalue \<Rightarrow> int" where
  "dv_enum (DEnum n) = n" | "dv_enum _ = 0"

definition dynamic :: "(dmessage, dfield, dvalue) proto_ops" where
  "dynamic = \<lparr>po_name = dm_name, po_has = dm_has, po_get = dm_get, po_child = dm_child,
     po_set = dm_set, po_clear = dm_clear, po_fresh = dm_fresh, po_store = dm_store,
     po_unknown = dm_unknown, po_ranges = dm_ranges,
     po_string = dv_string, po_of_string = DString, po_bool = dv_bool, po_of_bool = DBool,
     po_enum = dv_enum, po_of_enum = DEnum, po_is_print = (\<lambda>r. True)\<rparr>"

definition dynamic_schema :: "(ddesc, dfield) schema_ops" where
  "dynamic_schema = \<lparr>so_full_name = dd_name,
     so_by_name = (\<lambda>d n. find (\<lambda>f. df_name f = n) (dd_fields d)),
     so_is_list = (\<lambda>f. False), so_is_map = (\<lambda>f. False), so_message = df_message,
     so_kind = (\<lambda>f. case df_info f of Some i \<Rightarrow> li_kind i | None \<Rightarrow> OtherKind ''message''),
     so_has_presence = (\<lambda>f. df_oneof f \<noteq> None \<or> (case df_info f of Some i \<Rightarrow> li_presence i | None \<Rightarrow> True)),
     so_field_name = df_name,
     so_enum_defines = (\<lambda>f n. case df_info f of Some i \<Rightarrow> n \<in> set (li_values i) | None \<Rightarrow> False),
     so_enum_name = df_name\<rparr>"

lemmas dynamic_defs = dynamic_def dynamic_schema_def

section \<open>The contract holds\<close>

lemma dynamic_leaf: "leaf_field dynamic_schema f \<Longrightarrow> (\<exists>i. f = Leaf i \<and> li_presence i) \<or> (\<exists>k i. f = LeafIn k i)"
  by (cases f) (auto simp: leaf_field_def dynamic_schema_def)

lemma dynamic_sub: "sub_field dynamic_schema f \<Longrightarrow> (\<exists>n d. f = Sub n d) \<or> (\<exists>k n d. f = SubIn k n d)"
  by (cases f) (auto simp: sub_field_def dynamic_schema_def)

lemma dm_leaf_cases:
  assumes "leaf_field dynamic_schema f"
  obtains (plain) i where "f = Leaf i" and "li_presence i" | (member) k i where "f = LeafIn k i"
  using dynamic_leaf [OF assms] by blast

lemma dm_sub_cases:
  assumes "sub_field dynamic_schema f"
  obtains (plain) n d where "f = Sub n d" | (member) k n d where "f = SubIn k n d"
  using dynamic_sub [OF assms] by blast

lemma dm_has_set: "leaf_field dynamic_schema f \<Longrightarrow>
    dm_has (dm_set m f v) g \<longleftrightarrow> g = f \<or> (dm_has m g \<and> \<not> siblings f g)"
  by (cases m; erule dm_leaf_cases; cases g) (auto simp: siblings_def split: option.splits sum.splits)

lemma dm_get_set_other: "leaf_field dynamic_schema f \<Longrightarrow> g \<noteq> f \<Longrightarrow> \<not> siblings f g \<Longrightarrow>
    dm_get (dm_set m f v) g = dm_get m g"
  by (cases m; erule dm_leaf_cases; cases g) (auto simp: siblings_def split: option.splits sum.splits)

lemma dm_child_set_other: "leaf_field dynamic_schema f \<Longrightarrow> g \<noteq> f \<Longrightarrow> \<not> siblings f g \<Longrightarrow>
    dm_child (dm_set m f v) g = dm_child m g"
  by (cases m; erule dm_leaf_cases; cases g) (auto simp: siblings_def split: option.splits sum.splits)

lemma dm_has_store: "sub_field dynamic_schema f \<Longrightarrow>
    dm_has (dm_store m f c) g \<longleftrightarrow> g = f \<or> (dm_has m g \<and> \<not> siblings f g)"
  by (cases m; erule dm_sub_cases; cases g) (auto simp: siblings_def split: option.splits sum.splits)

lemma dm_get_store_other: "sub_field dynamic_schema f \<Longrightarrow> g \<noteq> f \<Longrightarrow> \<not> siblings f g \<Longrightarrow>
    dm_get (dm_store m f c) g = dm_get m g"
  by (cases m; erule dm_sub_cases; cases g) (auto simp: siblings_def split: option.splits sum.splits)

lemma dm_child_store_other: "sub_field dynamic_schema f \<Longrightarrow> g \<noteq> f \<Longrightarrow> \<not> siblings f g \<Longrightarrow>
    dm_child (dm_store m f c) g = dm_child m g"
  by (cases m; erule dm_sub_cases; cases g) (auto simp: siblings_def split: option.splits sum.splits)

lemma dm_has_clear: "dm_has (dm_clear m f) g \<longleftrightarrow> g \<noteq> f \<and> dm_has m g"
  by (cases m; cases f; cases g) (auto split: option.splits sum.splits)

lemma dm_get_clear_other: "g \<noteq> f \<Longrightarrow> dm_get (dm_clear m f) g = dm_get m g"
  by (cases m; cases f; cases g) (auto split: option.splits sum.splits)

lemma dm_child_clear_other: "g \<noteq> f \<Longrightarrow> dm_child (dm_clear m f) g = dm_child m g"
  by (cases m; cases f; cases g) (auto split: option.splits sum.splits)

lemma fmdrop_absent: "fmlookup m k = None \<Longrightarrow> fmdrop k m = m"
  by (rule fmap_ext) auto

lemma fmupd_present: "fmlookup m k = Some v \<Longrightarrow> fmupd k v m = m"
  by (rule fmap_ext) auto

lemma fmdrop_fmupd_same: "fmdrop k (fmupd k v m) = fmdrop k m"
  by (rule fmap_ext) auto

lemma fmupd_twice: "fmupd k v (fmupd k u m) = fmupd k v m"
  by (rule fmap_ext) auto

text \<open>A oneof slot with no visible member is empty.\<close>

lemma slot_empty:
  assumes "\<And>g. siblings f g \<Longrightarrow> \<not> dm_has m g" and "df_oneof f = Some k" and "\<not> dm_has m f"
  shows "fmlookup (dm_ones m) k = None"
proof (rule ccontr)
  assume "fmlookup (dm_ones m) k \<noteq> None"
  then obtain x where x: "fmlookup (dm_ones m) k = Some x" by blast
  define g where "g = (case x of Inl (i, v) \<Rightarrow> LeafIn k i | Inr ((n, d), c) \<Rightarrow> SubIn k n d)"
  have has: "dm_has m g" and k: "df_oneof g = Some k"
    using x by (auto simp: g_def split: sum.splits prod.splits)
  show False
  proof (cases "g = f")
    case True
    with has assms(3) show False by simp
  next
    case False
    with k assms(2) have "siblings f g" by (auto simp: siblings_def)
    with has assms(1) show False by blast
  qed
qed

lemma dm_clear_absent: "\<not> dm_has m f \<Longrightarrow> dm_clear m f = m"
  by (cases m; cases f) (auto simp: fmdrop_absent)

lemma dm_clear_set:
  assumes "leaf_field dynamic_schema f" and "\<And>g. siblings f g \<Longrightarrow> \<not> dm_has m g"
  shows "dm_clear (dm_set m f v) f = dm_clear m f"
  using assms(1)
proof (cases rule: dm_leaf_cases)
  case (plain i)
  then show ?thesis by (cases m) (simp add: fmdrop_fmupd_same)
next
  case (member k i)
  have "\<not> dm_has m f \<Longrightarrow> fmlookup (dm_ones m) k = None"
    using slot_empty [OF assms(2)] member by simp
  with member show ?thesis
    by (cases m; cases "dm_has m f") (auto simp: fmdrop_fmupd_same fmdrop_absent)
qed

lemma dm_clear_store:
  assumes "sub_field dynamic_schema f" and "\<And>g. siblings f g \<Longrightarrow> \<not> dm_has m g"
  shows "dm_clear (dm_store m f c) f = dm_clear m f"
  using assms(1)
proof (cases rule: dm_sub_cases)
  case (plain n d)
  then show ?thesis by (cases m) (simp add: fmdrop_fmupd_same)
next
  case (member k n d)
  have "\<not> dm_has m f \<Longrightarrow> fmlookup (dm_ones m) k = None"
    using slot_empty [OF assms(2)] member by simp
  with member show ?thesis
    by (cases m; cases "dm_has m f") (auto simp: fmdrop_fmupd_same fmdrop_absent)
qed

lemma dm_store_child: "sub_field dynamic_schema f \<Longrightarrow> dm_has m f \<Longrightarrow> dm_store m f (dm_child m f) = m"
  by (cases m; erule dm_sub_cases) (auto simp: fmupd_present split: option.splits sum.splits)

lemma dm_store_store: "sub_field dynamic_schema f \<Longrightarrow> dm_store (dm_store m f c) f d = dm_store m f d"
  by (cases m; erule dm_sub_cases) (auto simp: fmupd_twice)

lemma dm_child_store: "sub_field dynamic_schema f \<Longrightarrow> dm_child (dm_store m f c) f = c"
  by (cases m; erule dm_sub_cases) auto

lemma dm_get_set: "leaf_field dynamic_schema f \<Longrightarrow> dm_get (dm_set m f v) f = v"
  by (cases m; erule dm_leaf_cases) auto

lemma dm_oneof: "dm_has m f \<Longrightarrow> siblings f g \<Longrightarrow> \<not> dm_has m g"
  by (cases f; cases g) (auto simp: siblings_def split: option.splits sum.splits)

lemma dm_fresh_fields [simp]: "\<not> dm_has (dm_fresh s) f" "dm_unknown (dm_fresh s) = ''''" "\<not> dm_ranges (dm_fresh s)"
  by (cases s; cases f; simp add: dm_empty_def dm_ranges_def)+

lemma dm_ranges_has: "dm_has m f \<Longrightarrow> dm_ranges m"
  by (cases f) (auto simp: dm_ranges_def split: option.splits)

lemma dm_names: "dm_name (dm_set m f v) = dm_name m" "dm_name (dm_store m f c) = dm_name m"
    "dm_name (dm_clear m f) = dm_name m"
  by (cases m; cases f; simp)+

lemma siblings_irrefl: "\<not> siblings f f"
  by (simp add: siblings_def)

interpretation dyn: proto_message dynamic dynamic_schema siblings
proof unfold_locales
  fix m :: dmessage and f :: dfield
  show "messageEmpty dynamic m \<Longrightarrow> \<not> po_has dynamic m f"
    using dm_ranges_has [of m f] by (auto simp: messageEmpty_def dynamic_def split: if_splits)
qed (auto simp: dynamic_def messageEmpty_def siblings_irrefl dm_oneof dm_has_set dm_get_set
    dm_get_set_other dm_child_set_other dm_clear_set dm_has_store dm_child_store dm_child_store_other
    dm_get_store_other dm_store_child dm_store_store dm_clear_store dm_has_clear dm_child_clear_other
    dm_get_clear_other dm_clear_absent dm_names)

end
