(* ===== verification/SettingsFacts.thy ===== *)
theory SettingsFacts
  imports SettingsDynamic
begin

text \<open>
  What typed settings fields promise: which paths a field can be defined on, and how reading, writing,
  clearing and defaulting a field behave on any message that keeps the contract \<open>proto_message\<close>.
\<close>

section \<open>Defining fields\<close>

fun resolves :: "('d, 'f) schema_ops \<Rightarrow> 'd \<Rightarrow> string list \<Rightarrow> 'f list \<Rightarrow> bool" where
  "resolves sc d (n # ns) (f # fs) \<longleftrightarrow> n \<noteq> '''' \<and> so_by_name sc d n = Some f \<and>
     (if ns = [] then fs = [] else sub_field sc f \<and> resolves sc (the (so_message sc f)) ns fs)"
| "resolves sc d _ _ \<longleftrightarrow> False"

lemma resolve_iff: "ns \<noteq> [] \<Longrightarrow> resolve sc q path d ns = Inr fs \<longleftrightarrow> resolves sc d ns fs"
proof (induction sc q path d ns arbitrary: fs rule: resolve.induct)
  case (2 sc q path d name rest)
  show ?case
  proof (cases "so_by_name sc d name")
    case None
    then show ?thesis by (cases fs) auto
  next
    case (Some f)
    show ?thesis
    proof (cases "rest = []")
      case True
      with Some show ?thesis by (cases fs) auto
    next
      case rest: False
      show ?thesis
      proof (cases "name = '''' \<or> \<not> sub_field sc f")
        case True
        with Some rest show ?thesis by (cases fs) (auto simp: sub_field_def)
      next
        case False
        then have c: "name \<noteq> ''''" "\<not> (so_is_list sc f \<or> so_is_map sc f \<or> so_message sc f = None)"
          by (auto simp: sub_field_def)
        then obtain y where y: "so_message sc f = Some y" by auto
        have ih: "resolve sc q path y rest = Inr l \<longleftrightarrow> resolves sc y rest l" for l
          using "2.IH" [OF c(1) Some rest c(2) rest] y by simp
        from c rest Some False y show ?thesis
          by (cases fs; cases "resolve sc q path y rest") (auto simp: ih [symmetric])
      qed
    qed
  qed
qed simp

lemma resolves_shape:
  "resolves sc d ns fs \<Longrightarrow> fs \<noteq> [] \<and> length fs = length ns \<and> sub_fields sc (butlast fs)"
  by (induction sc d ns fs rule: resolves.induct) (auto split: if_splits)

text \<open>C32:
  a field can be defined exactly on a non-empty path whose every name resolves in turn from the
  prototype's descriptor, through singular message fields, to a leaf that is neither list nor map and
  passes the constructor's check; the field keeps the trimmed path, those descriptors and the default.
\<close>

theorem newField_iff:
  "newField po sc prototype path dv validate lookup assign = Inr field \<longleftrightarrow>
     (\<exists>d segments. prototype = Some d \<and> trim_space path \<noteq> ''''
       \<and> resolves sc d (split_on (CHR ''.'') (trim_space path)) segments
       \<and> \<not> so_is_list sc (last segments) \<and> \<not> so_is_map sc (last segments)
       \<and> validate (last segments) = None
       \<and> field = \<lparr>fd_root = so_full_name sc d, fd_path = trim_space path, fd_segments = segments,
           fd_defaultValue = dv, fd_lookup = lookup, fd_assign = assign\<rparr>)"
proof (cases prototype)
  case (Some d)
  show ?thesis
  proof (cases "resolve sc (go_quote (po_is_print po)) (trim_space path) d (split_on (CHR ''.'') (trim_space path))")
    case (Inl e)
    then have "\<not> resolves sc d (split_on (CHR ''.'') (trim_space path)) fs" for fs
      using resolve_iff [of "split_on (CHR ''.'') (trim_space path)" sc "go_quote (po_is_print po)"
          "trim_space path" d fs] by simp
    with Some Inl show ?thesis by (auto simp: newField_def Let_def)
  next
    case (Inr fs)
    then have r: "resolves sc d (split_on (CHR ''.'') (trim_space path)) gs \<longleftrightarrow> gs = fs" for gs
      using resolve_iff [of "split_on (CHR ''.'') (trim_space path)" sc "go_quote (po_is_print po)"
          "trim_space path" d gs] by auto
    with Some Inr show ?thesis by (auto simp: newField_def Let_def split: option.splits)
  qed
qed (simp add: newField_def)

lemma newField_segments:
  assumes "newField po sc prototype path dv validate lookup assign = Inr field"
  shows "fd_segments field \<noteq> []" and "sub_fields sc (butlast (fd_segments field))"
    and "validate (last (fd_segments field)) = None" and "fd_lookup field = lookup"
    and "fd_assign field = assign" and "\<not> so_is_list sc (last (fd_segments field))"
    and "\<not> so_is_map sc (last (fd_segments field))"
proof -
  from assms obtain d segments where "resolves sc d (split_on (CHR ''.'') (trim_space path)) segments"
    and f: "validate (last segments) = None" "\<not> so_is_list sc (last segments)" "\<not> so_is_map sc (last segments)"
      "field = \<lparr>fd_root = so_full_name sc d, fd_path = trim_space path, fd_segments = segments,
           fd_defaultValue = dv, fd_lookup = lookup, fd_assign = assign\<rparr>"
    using newField_iff [of po sc prototype path dv validate lookup assign field] by auto
  with resolves_shape [OF this(1)]
  show "fd_segments field \<noteq> []" "sub_fields sc (butlast (fd_segments field))"
    "validate (last (fd_segments field)) = None" "fd_lookup field = lookup" "fd_assign field = assign"
    "\<not> so_is_list sc (last (fd_segments field))" "\<not> so_is_map sc (last (fd_segments field))" by simp_all
qed

lemma requirePresence_None [simp]: "requirePresence sc f = None \<longleftrightarrow> so_has_presence sc f"
  by (simp add: requirePresence_def)

definition enum_enc :: "('m, 'f, 'v) proto_ops \<Rightarrow> ('d, 'f) schema_ops \<Rightarrow> 'f \<Rightarrow> 32 word \<Rightarrow> set_err + 'v" where
  "enum_enc po sc f v =
     (if \<not> so_enum_defines sc f (sint v)
      then Inl (set_errorf (itoa (sint v) @ '' is not defined by '' @ so_enum_name sc f))
      else Inr (po_of_enum po (sint v)))"

definition enum_dec :: "('m, 'f, 'v) proto_ops \<Rightarrow> 'v \<Rightarrow> 32 word" where
  "enum_dec po v = word_of_int (po_enum po v)"

context proto_message
begin

lemma string_field:
  "MustString po sc prototype path dv = Inr field \<Longrightarrow>
     scalar_field po sc field (po_string po) (\<lambda>v. Inr (po_of_string po v))"
  unfolding MustString_def mustScalarField_def
  by (frule newField_segments) (auto simp: scalar_field_def leaf_field_def newField_segments split: if_splits)

lemma bool_field:
  "MustBool po sc prototype path dv = Inr field \<Longrightarrow>
     scalar_field po sc field (po_bool po) (\<lambda>v. Inr (po_of_bool po v))"
  unfolding MustBool_def mustScalarField_def
  by (frule newField_segments) (auto simp: scalar_field_def leaf_field_def newField_segments split: if_splits)

lemma enum_field:
  assumes "MustEnum po sc prototype path dv = Inr field"
  shows "scalar_field po sc field (enum_dec po) (enum_enc po sc (last (fd_segments field)))"
  using newField_segments [OF assms [unfolded MustEnum_def]]
  by (auto simp: scalar_field_def leaf_field_def enum_enc_def enum_dec_def split: if_splits option.splits)

end

section \<open>Reading and writing\<close>

text \<open>C17:
  what \<^verbatim>\<open>Set\<close> wrote, \<^verbatim>\<open>Lookup\<close>, \<^verbatim>\<open>Get\<close> and \<^verbatim>\<open>Has\<close> read back, present and unchanged, also when
  the value is the zero value or equals the default, whatever parents had to be created.
\<close>

theorem Set_reads_back:
  assumes "proto_message po sc sib" and "scalar_field po sc field dec enc"
    and "po_name po m = fd_root field" and "Field_Set po field (Some m) v = (m', None)"
  shows "Field_Lookup po field m' = Inr (Some v) \<and> Field_Get po field m' = Inr v
    \<and> Field_Has po field m' = Inr True"
  using proto_message.field_set_lookup [OF assms] by (simp add: Field_Get_def Field_Has_def)

text \<open>C30:
  \<^verbatim>\<open>Set\<close> and \<^verbatim>\<open>Clear\<close> leave a field as it was whenever its path parts from theirs at two fields that
  are not members of one oneof, however many parents are created or pruned. A field that parts from
  them at a sibling in a oneof is not covered: writing one member of a oneof clears the others.
\<close>

theorem Set_Clear_frame:
  assumes "proto_message po sc sib" and "scalar_field po sc field dec enc"
    and "scalar_field po sc other dec' enc'" and "po_name po m = fd_root field"
    and "fd_root other = fd_root field" and "apart sib (fd_segments field) (fd_segments other)"
    and "Field_Set po field (Some m) v = (m', None)"
  shows "Field_Lookup po other m' = Field_Lookup po other (Some m)
    \<and> Field_Lookup po other (fst (Field_Clear po field (Some m))) = Field_Lookup po other (Some m)"
  using proto_message.field_set_frame [OF assms] proto_message.field_clear_frame [OF assms(1-6)] by simp

text \<open>C31:
  a refused \<^verbatim>\<open>Set\<close> leaves the message exactly as it was, with every parent it had materialised
  removed again, provided that no message member of a oneof on the path displaced another member.
\<close>

theorem Set_refused_unchanged:
  assumes "proto_message po sc sib" and "scalar_field po sc field dec enc"
    and "po_name po m = fd_root field" and "undisplaced po sib (butlast (fd_segments field)) m"
    and "Field_Set po field (Some m) v = (m', Some e)"
  shows "m' = Some m"
  by (rule proto_message.field_set_failed [OF assms])

text \<open>C18:
  \<^verbatim>\<open>Clear\<close> always removes the value; and it undoes a \<^verbatim>\<open>Set\<close> of an absent field, gives back the very
  message, when no parent on the path was present but empty (it would be pruned) and no oneof sibling
  of a field on the path was set (it would be displaced).
\<close>

theorem Clear_undoes_Set:
  assumes "proto_message po sc sib" and "scalar_field po sc field dec enc"
    and "po_name po m = fd_root field"
  shows "(\<exists>m'. Field_Clear po field (Some m) = (Some m', None) \<and> Field_Lookup po field (Some m') = Inr None)
    \<and> (Field_Lookup po field (Some m) = Inr None \<and> undisplaced po sib (fd_segments field) m
       \<and> no_empty_parent po (butlast (fd_segments field)) m \<and> Field_Set po field (Some m) v = (m', None)
       \<longrightarrow> Field_Clear po field m' = (Some m, None))"
  using proto_message.field_clear_set [OF assms] proto_message.field_clear_lookup [OF assms] by blast


text \<open>C33:
  \<^verbatim>\<open>ApplyDefault\<close>, of a field whose default is a value it accepts: it writes the default exactly when
  the field is absent, reports that it did, leaves a message with a present value as it is, and a
  second call changes nothing.
\<close>

theorem ApplyDefault_once:
  assumes "proto_message po sc sib" and "scalar_field po sc field dec enc"
    and "po_name po m = fd_root field" and "enc (fd_defaultValue field) = Inr w"
  shows "\<exists>m'. Field_ApplyDefault po field (Some m) = (Some m', Inr (Field_Lookup po field (Some m) = Inr None))
    \<and> Field_Lookup po field (Some m') = Inr (Some (case Field_Lookup po field (Some m) of
        Inr (Some v) \<Rightarrow> v | _ \<Rightarrow> fd_defaultValue field))
    \<and> (Field_Has po field (Some m) = Inr True \<longrightarrow> m' = m)
    \<and> Field_ApplyDefault po field (Some m') = (Some m', Inr False)"
proof -
  from Lookup_peek [OF assms(2,3)] obtain x where x: "Field_Lookup po field (Some m) = Inr x" by blast
  show ?thesis
  proof (cases x)
    case (Some v)
    with x show ?thesis by (simp add: Field_ApplyDefault_def Field_Has_def)
  next
    case None
    have "\<exists>m'. Field_Set po field (Some m) (fd_defaultValue field) = (Some m', None)"
      using assms(2,3)
      by (cases rule: Set_cases [where v = "fd_defaultValue field"]) (use assms(4) in auto)
    then obtain m' where m': "Field_Set po field (Some m) (fd_defaultValue field) = (Some m', None)" by blast
    from proto_message.field_set_lookup [OF assms(1-3) m'] x None m' show ?thesis
      by (simp add: Field_ApplyDefault_def Field_Has_def)
  qed
qed

text \<open>
  the constructors return fields that satisfy the contract \<open>scalar_field\<close>: string and bool fields
  accept every value, an enum field exactly the numbers its enum defines, its default among them.
\<close>

theorem Must_fields:
  assumes "proto_message po sc sib"
  shows "(MustString po sc prototype path ds = Inr fs \<longrightarrow>
       scalar_field po sc fs (po_string po) (\<lambda>v. Inr (po_of_string po v)))
    \<and> (MustBool po sc prototype path db = Inr fb \<longrightarrow>
       scalar_field po sc fb (po_bool po) (\<lambda>v. Inr (po_of_bool po v)))
    \<and> (MustEnum po sc prototype path de = Inr fe \<longrightarrow>
       scalar_field po sc fe (enum_dec po) (enum_enc po sc (last (fd_segments fe)))
       \<and> so_enum_defines sc (last (fd_segments fe)) (sint de)
       \<and> (po_name po m = fd_root fe \<longrightarrow>
           (snd (Field_Set po fe (Some m) v) = None \<longleftrightarrow> so_enum_defines sc (last (fd_segments fe)) (sint v))))"
proof -
  have "snd (Field_Set po fe (Some m) v) = None \<longleftrightarrow> so_enum_defines sc (last (fd_segments fe)) (sint v)"
    if "MustEnum po sc prototype path de = Inr fe" "po_name po m = fd_root fe"
    using proto_message.enum_field [OF assms that(1)] that(2)
    by (cases rule: Set_cases [where v = v]) (auto simp: enum_enc_def split: if_splits)
  moreover have "so_enum_defines sc (last (fd_segments fe)) (sint de)"
    if "MustEnum po sc prototype path de = Inr fe"
    using newField_segments(3) [OF that [unfolded MustEnum_def]] by (simp split: if_splits option.splits)
  ultimately show ?thesis
    using proto_message.string_field [OF assms] proto_message.bool_field [OF assms]
      proto_message.enum_field [OF assms] by blast
qed

section \<open>Example settings\<close>

definition theme_info :: leaf_info where
  "theme_info = \<lparr>li_name = ''theme'', li_kind = EnumKind, li_presence = True, li_values = [0, 1]\<rparr>"

definition note_info :: leaf_info where
  "note_info = \<lparr>li_name = ''note'', li_kind = StringKind, li_presence = True, li_values = []\<rparr>"

definition ui_desc :: ddesc where
  "ui_desc = DDesc ''Ui'' [Leaf theme_info]"

definition root_desc :: ddesc where
  "root_desc = DDesc ''Settings'' [Sub ''ui'' ui_desc, Leaf note_info, SubIn ''mode'' ''simple'' ui_desc, SubIn ''mode'' ''full'' ui_desc]"

definition enum_field_on :: "dfield list \<Rightarrow> string \<Rightarrow> (dmessage, dfield, 32 word) Field" where
  "enum_field_on segments path = \<lparr>fd_root = ''Settings'', fd_path = path, fd_segments = segments,
     fd_defaultValue = 1, fd_lookup = (\<lambda>m f. Inr (word_of_int (po_enum dynamic (po_get dynamic m f)))),
     fd_assign = (\<lambda>m f v. if \<not> so_enum_defines dynamic_schema f (sint v)
            then Inl (set_errorf (itoa (sint v) @ '' is not defined by '' @ so_enum_name dynamic_schema f))
            else Inr (po_set dynamic m f (po_of_enum dynamic (sint v))))\<rparr>"

definition theme_field where "theme_field = enum_field_on [Sub ''ui'' ui_desc, Leaf theme_info] ''ui.theme''"
definition mode_field where "mode_field = enum_field_on [SubIn ''mode'' ''simple'' ui_desc, Leaf theme_info] ''simple.theme''"

lemmas example_schema = dynamic_schema_def root_desc_def ui_desc_def theme_info_def note_info_def

lemma theme_must: "MustEnum dynamic dynamic_schema (Some root_desc) ''ui.theme'' 1 = Inr theme_field"
proof -
  have "trim_space ''ui.theme'' = ''ui.theme''" by code_simp
  then show ?thesis
    unfolding MustEnum_def newField_iff
    by (simp add: theme_field_def enum_field_on_def example_schema requirePresence_def sub_field_def)
qed

lemma mode_must: "MustEnum dynamic dynamic_schema (Some root_desc) ''simple.theme'' 1 = Inr mode_field"
proof -
  have "trim_space ''simple.theme'' = ''simple.theme''" by code_simp
  then show ?thesis
    unfolding MustEnum_def newField_iff
    by (simp add: mode_field_def enum_field_on_def example_schema requirePresence_def sub_field_def)
qed

lemmas theme_scalar = dyn.enum_field [OF theme_must]
lemmas mode_scalar = dyn.enum_field [OF mode_must]

definition no_settings :: dmessage where "no_settings = dm_empty ''Settings''"

definition ui_settings :: "int option \<Rightarrow> dmessage" where
  "ui_settings v = DMessage ''Settings'' '''' fmempty
     (fmupd (''ui'', ui_desc) (DMessage ''Ui'' ''''
        (case v of None \<Rightarrow> fmempty | Some n \<Rightarrow> fmupd theme_info (DEnum n) fmempty) fmempty fmempty) fmempty) fmempty"

definition full_settings :: dmessage where
  "full_settings = DMessage ''Settings'' '''' fmempty fmempty
     (fmupd ''mode'' (Inr ((''full'', ui_desc), dm_empty ''Ui'')) fmempty)"

lemmas example_defs = theme_field_def mode_field_def enum_field_on_def no_settings_def ui_settings_def
  full_settings_def dynamic_def dm_empty_def

lemma sample_name [simp]: "po_name dynamic no_settings = ''Settings''" "po_name dynamic (ui_settings v) = ''Settings''"
    "po_name dynamic full_settings = ''Settings''" "fd_root theme_field = ''Settings''" "fd_root mode_field = ''Settings''"
  by (simp_all add: example_defs)

lemma theme_values: "so_enum_defines dynamic_schema (Leaf theme_info) n \<longleftrightarrow> n \<in> {0, 1}"
  by (auto simp: dynamic_schema_def theme_info_def)

lemma sample_types [simp]: "dd_name ui_desc = ''Ui''" "li_presence theme_info" "li_kind theme_info = EnumKind"
  by (simp_all add: ui_desc_def theme_info_def)

lemma sample_set: "Field_Set dynamic theme_field (Some no_settings) 0 = (Some (ui_settings (Some 0)), None)"
  unfolding Field_Set_def rootMessage_def sample_name
  by (simp add: example_defs theme_values Let_def)

lemma sample_refused: "\<exists>e. Field_Set dynamic theme_field (Some no_settings) 5 = (Some no_settings, Some e)"
  unfolding Field_Set_def rootMessage_def sample_name
  by (simp add: example_defs theme_values messageEmpty_def dm_ranges_def fmdrop_fmupd_same Let_def)

theorem Set_reads_back_witness:
  "Field_Get dynamic theme_field (Some (ui_settings (Some 0))) = Inr 0 \<and> Field_Default theme_field = 1"
  using Set_reads_back [OF dyn.proto_message_axioms theme_scalar _ sample_set]
  by (simp add: Field_Default_def theme_field_def enum_field_on_def)

definition note_field :: "(dmessage, dfield, string) Field" where
  "note_field = \<lparr>fd_root = ''Settings'', fd_path = ''note'', fd_segments = [Leaf note_info],
     fd_defaultValue = ''n'', fd_lookup = (\<lambda>m f. Inr (po_string dynamic (po_get dynamic m f))),
     fd_assign = (\<lambda>m f v. Inr (po_set dynamic m f (po_of_string dynamic v)))\<rparr>"

lemma note_must: "MustString dynamic dynamic_schema (Some root_desc) ''note'' ''n'' = Inr note_field"
proof -
  have "trim_space ''note'' = ''note''" by code_simp
  then show ?thesis
    unfolding MustString_def mustScalarField_def newField_iff
    by (simp add: note_field_def example_schema requirePresence_def)
qed

theorem Set_Clear_frame_witness:
  "Field_Lookup dynamic note_field (Some (ui_settings (Some 0))) = Field_Lookup dynamic note_field (Some no_settings)"
  using Set_Clear_frame [OF dyn.proto_message_axioms theme_scalar dyn.string_field [OF note_must] _ _ _ sample_set]
  by (simp add: note_field_def theme_field_def enum_field_on_def siblings_def)

theorem Set_refused_unchanged_witness:
  "\<exists>e. Field_Set dynamic theme_field (Some no_settings) 5 = (Some no_settings, Some e)"
proof -
  obtain m' e where s: "Field_Set dynamic theme_field (Some no_settings) 5 = (m', Some e)"
    using sample_refused by blast
  have "undisplaced dynamic siblings (butlast (fd_segments theme_field)) no_settings"
    by (simp add: theme_field_def enum_field_on_def siblings_def)
  from Set_refused_unchanged [OF dyn.proto_message_axioms theme_scalar _ this s] s show ?thesis by simp
qed

theorem Clear_undoes_Set_witness:
  "Field_Clear dynamic theme_field (Some (ui_settings (Some 0))) = (Some no_settings, None) \<and>
   (\<exists>m'. Field_Clear dynamic theme_field (Some (ui_settings (Some 0))) = (Some m', None) \<and>
     Field_Lookup dynamic theme_field (Some m') = Inr None)"
proof -
  have "Field_Lookup dynamic theme_field (Some no_settings) = Inr None"
    by (simp add: Field_Lookup_def rootMessage_def theme_field_def enum_field_on_def dynamic_def
        no_settings_def dm_empty_def)
  moreover have "undisplaced dynamic siblings (fd_segments theme_field) no_settings"
    "no_empty_parent dynamic (butlast (fd_segments theme_field)) no_settings"
    by (simp_all add: theme_field_def enum_field_on_def siblings_def dynamic_def no_settings_def dm_empty_def)
  ultimately show ?thesis
    using Clear_undoes_Set [OF dyn.proto_message_axioms theme_scalar, of no_settings 0 "Some (ui_settings (Some 0))"]
      sample_set by simp
qed

theorem ApplyDefault_once_witness:
  "\<exists>m'. Field_ApplyDefault dynamic theme_field (Some (ui_settings (Some 0))) = (Some m', Inr False) \<and> m' = ui_settings (Some 0)"
proof -
  have "enum_enc dynamic dynamic_schema (last (fd_segments theme_field)) (fd_defaultValue theme_field) = Inr (DEnum 1)"
    by (simp add: enum_enc_def theme_field_def enum_field_on_def theme_values dynamic_def)
  moreover have "Field_Lookup dynamic theme_field (Some (ui_settings (Some 0))) = Inr (Some 0)"
    by (simp add: Field_Lookup_def rootMessage_def theme_field_def enum_field_on_def dynamic_def
        ui_settings_def)
  ultimately show ?thesis
    using ApplyDefault_once [OF dyn.proto_message_axioms theme_scalar, of "ui_settings (Some 0)" "DEnum 1"]
    by (auto simp: Field_Has_def)
qed

theorem Must_fields_witness:
  "snd (Field_Set dynamic theme_field (Some no_settings) 0) = None"
  using Must_fields [OF dyn.proto_message_axioms, of "Some root_desc" "''ui.theme''" "''''" undefined False undefined
      1 theme_field no_settings 0] theme_must
  by (simp add: theme_values theme_field_def enum_field_on_def)

section \<open>Where the code does more than it says\<close>

text \<open>
  a refused \<^verbatim>\<open>Set\<close> below an unset message member of a oneof discards the member that was set: the
  parent it materialised displaces it, and removing that parent again does not bring it back.
\<close>

theorem Set_refused_drops_oneof_sibling:
  "fst (Field_Set dynamic mode_field (Some full_settings) 5) = Some no_settings
    \<and> snd (Field_Set dynamic mode_field (Some full_settings) 5) \<noteq> None \<and> full_settings \<noteq> no_settings"
  unfolding Field_Set_def rootMessage_def sample_name
  by (simp add: example_defs theme_values messageEmpty_def dm_ranges_def fmdrop_fmupd_same Let_def)

text \<open>
  \<^verbatim>\<open>Clear\<close> of an absent field prunes a present but empty parent that no \<^verbatim>\<open>Set\<close> created for the
  cleared path.
\<close>

theorem Clear_prunes_existing_parent:
  "Field_Lookup dynamic theme_field (Some (ui_settings None)) = Inr None
    \<and> Field_Clear dynamic theme_field (Some (ui_settings None)) = (Some no_settings, None)
    \<and> ui_settings None \<noteq> no_settings"
  unfolding Field_Lookup_def Field_Clear_def rootMessage_def sample_name
  by (simp add: example_defs messageEmpty_def dm_ranges_def fmdrop_fmupd_same Let_def)

end
