(* ===== verification/SettingsCodec.thy ===== *)
theory SettingsCodec
  imports SettingsFacts
begin

text \<open>
  settings/json.go: the JSON boundary of settings messages. \<^verbatim>\<open>protojson\<close> is not under src/: its two
  calls are the record \<open>json_lib\<close>, and nothing is assumed of them: that reading gives back what was
  written is a property of \<^verbatim>\<open>protojson\<close> and of the message (unknown fields are dropped), not of this code.
\<close>

definition DefaultMaximumJSONBytes :: int where
  "DefaultMaximumJSONBytes = 128 * 1024"

record 'm json_lib =
  \<comment> \<open>\<^verbatim>\<open>MarshalOptions{UseProtoNames: true}.Marshal\<close>\<close>
  jl_marshal :: "'m \<Rightarrow> set_err + string"
  \<comment> \<open>\<^verbatim>\<open>UnmarshalOptions{DiscardUnknown: true}.Unmarshal\<close> into the given message\<close>
  jl_unmarshal :: "string \<Rightarrow> 'm \<Rightarrow> set_err + 'm"

text \<open>The codec: its factory, which may be nil or return nil, and its bound. A nil codec is \<open>None\<close>.\<close>

record 'm JSONCodec =
  newMessage :: "(unit \<Rightarrow> 'm option) option"
  maximum :: int

definition NewJSONCodec :: "(unit \<Rightarrow> 'm option) option \<Rightarrow> int \<Rightarrow> set_err + 'm JSONCodec" where
  "NewJSONCodec factory maximumBytes =
     (case factory of None \<Rightarrow> Inl (set_errorf ''settings message factory is required'')
      | Some mk \<Rightarrow>
        (let maximumBytes = (if maximumBytes \<le> 0 then DefaultMaximumJSONBytes else maximumBytes) in
         case mk () of None \<Rightarrow> Inl (set_errorf ''settings message factory returned nil'')
         | Some m \<Rightarrow> Inr \<lparr>newMessage = factory, maximum = maximumBytes\<rparr>))"

text \<open>\<^verbatim>\<open>MustJSONCodec\<close> panics with the error, which is \<open>Inl\<close>.\<close>

definition MustJSONCodec :: "(unit \<Rightarrow> 'm option) option \<Rightarrow> int \<Rightarrow> set_err + 'm JSONCodec" where
  "MustJSONCodec factory maximumBytes = NewJSONCodec factory maximumBytes"

definition size_error :: "nat \<Rightarrow> int \<Rightarrow> set_err" where
  "size_error n limit = set_errorf (''protobuf settings JSON is '' @ itoa (int n) @
     '' bytes; maximum is '' @ itoa limit)"

definition Codec_Marshal ::
  "'m json_lib \<Rightarrow> 'm JSONCodec option \<Rightarrow> 'm option \<Rightarrow> set_err + string" where
  "Codec_Marshal jl codec message =
     (case codec of None \<Rightarrow> Inl (set_errorf ''settings JSON codec is not configured'')
      | Some c \<Rightarrow>
        (if newMessage c = None then Inl (set_errorf ''settings JSON codec is not configured'')
         else case message of None \<Rightarrow> Inl (Err ErrNilMessage [])
         | Some m \<Rightarrow> (case jl_marshal jl m of
             Inl err \<Rightarrow> Inl (set_wrapf ''marshal protobuf settings as JSON: '' err)
           | Inr encoded \<Rightarrow>
               (if int (length encoded) > maximum c then Inl (size_error (length encoded) (maximum c))
                else Inr encoded))))"

definition Codec_Unmarshal ::
  "'m json_lib \<Rightarrow> 'm JSONCodec option \<Rightarrow> string \<Rightarrow> set_err + 'm" where
  "Codec_Unmarshal jl codec encoded =
     (case codec of None \<Rightarrow> Inl (set_errorf ''settings JSON codec is not configured'')
      | Some c \<Rightarrow> (case newMessage c of None \<Rightarrow> Inl (set_errorf ''settings JSON codec is not configured'')
        | Some mk \<Rightarrow>
          (if int (length encoded) > maximum c then Inl (size_error (length encoded) (maximum c))
           else case mk () of None \<Rightarrow> Inl (set_errorf ''settings message factory returned nil'')
           | Some m \<Rightarrow>
              (let encoded = (if length encoded = 0 then ''{}'' else encoded) in
               case jl_unmarshal jl encoded m of
                 Inl err \<Rightarrow> Inl (set_wrapf ''unmarshal protobuf settings JSON: '' err)
               | Inr message \<Rightarrow> Inr message))))"

lemma NewJSONCodec_Inr:
  "NewJSONCodec factory limit = Inr c \<Longrightarrow> \<exists>mk m. factory = Some mk \<and> mk () = Some m
     \<and> newMessage c = factory \<and> 0 < maximum c \<and> (0 < limit \<longrightarrow> maximum c = limit)"
  by (auto simp: NewJSONCodec_def DefaultMaximumJSONBytes_def split: option.splits if_splits)

text \<open>
  The codec adds a bound to the library and nothing else. What one codec marshals, any codec of the same
  factory and no smaller bound hands to the library unchanged, into a fresh message, and returns what the
  library reads; whether that is the message marshalled is the library's affair. Beyond its bound a
  codec refuses, whatever the library would answer.
\<close>

lemma Codec_transparent:
  assumes "NewJSONCodec (Some mk) limit = Inr c" and "mk () = Some fresh" and "maximum d \<le> maximum c"
    and "Codec_Marshal jl (Some d) (Some m) = Inr s" and "s \<noteq> ''''"
  shows "Codec_Unmarshal jl (Some c) s = (case jl_unmarshal jl s fresh of
     Inl err \<Rightarrow> Inl (set_wrapf ''unmarshal protobuf settings JSON: '' err) | Inr x \<Rightarrow> Inr x)"
proof -
  from assms(4) have "int (length s) \<le> maximum d"
    by (auto simp: Codec_Marshal_def split: if_splits sum.splits option.splits)
  with assms NewJSONCodec_Inr [OF assms(1)] show ?thesis by (simp add: Codec_Unmarshal_def)
qed

lemma Codec_bounded:
  "Codec_Marshal jl (Some c) x = Inr s \<Longrightarrow> int (length s) \<le> maximum c"
  "Codec_Unmarshal jl (Some c) s = Inr m \<Longrightarrow> int (length s) \<le> maximum c"
  by (auto simp: Codec_Marshal_def Codec_Unmarshal_def split: if_splits sum.splits option.splits)

end
