(* ===== verification/GoRegex.thy ===== *)
theory GoRegex
  imports Prelude
begin

text \<open>
  Regular expressions, for the patterns the source compiles with \<^verbatim>\<open>regexp.MustCompile\<close>. All of
  them are anchored (\<^verbatim>\<open>^...$\<close>, no multi-line flag) and built from ASCII classes, so \<^verbatim>\<open>MatchString\<close>
  is membership of the whole string in the expression's language. The matcher takes derivatives
  and simplifies as it goes; \<open>match_string_iff\<close> is its correctness against the language.
\<close>

section \<open>Expressions and their language\<close>

text \<open>\<open>Cls rs\<close> is a character class: a list of inclusive byte ranges.\<close>

datatype regex =
    RZero
  | REps
  | RCls "(nat \<times> nat) list"
  | RSeq regex regex
  | RAlt regex regex
  | RStar regex

definition in_class :: "(nat \<times> nat) list \<Rightarrow> char \<Rightarrow> bool" where
  "in_class rs c \<longleftrightarrow> list_ex (\<lambda>(lo, hi). lo \<le> byte c \<and> byte c \<le> hi) rs"

definition conc :: "string set \<Rightarrow> string set \<Rightarrow> string set" where
  "conc A B = {xs @ ys | xs ys. xs \<in> A \<and> ys \<in> B}"

inductive_set kstar :: "string set \<Rightarrow> string set" for A where
  kstar_Nil: "[] \<in> kstar A"
| kstar_step: "xs \<in> A \<Longrightarrow> ys \<in> kstar A \<Longrightarrow> xs @ ys \<in> kstar A"

fun lang :: "regex \<Rightarrow> string set" where
  "lang RZero = {}"
| "lang REps = {[]}"
| "lang (RCls rs) = {[c] | c. in_class rs c}"
| "lang (RSeq r s) = conc (lang r) (lang s)"
| "lang (RAlt r s) = lang r \<union> lang s"
| "lang (RStar r) = kstar (lang r)"

section \<open>Derivatives\<close>

fun nullable :: "regex \<Rightarrow> bool" where
  "nullable RZero = False"
| "nullable REps = True"
| "nullable (RCls rs) = False"
| "nullable (RSeq r s) = (nullable r \<and> nullable s)"
| "nullable (RAlt r s) = (nullable r \<or> nullable s)"
| "nullable (RStar r) = True"

definition mk_seq :: "regex \<Rightarrow> regex \<Rightarrow> regex" where
  "mk_seq r s = (if r = RZero then RZero else if r = REps then s else RSeq r s)"

definition mk_alt :: "regex \<Rightarrow> regex \<Rightarrow> regex" where
  "mk_alt r s = (if r = RZero then s else if s = RZero then r else if r = s then r else RAlt r s)"

fun deriv :: "char \<Rightarrow> regex \<Rightarrow> regex" where
  "deriv c RZero = RZero"
| "deriv c REps = RZero"
| "deriv c (RCls rs) = (if in_class rs c then REps else RZero)"
| "deriv c (RSeq r s) =
     (if nullable r then mk_alt (mk_seq (deriv c r) s) (deriv c s) else mk_seq (deriv c r) s)"
| "deriv c (RAlt r s) = mk_alt (deriv c r) (deriv c s)"
| "deriv c (RStar r) = mk_seq (deriv c r) (RStar r)"

fun match_string :: "regex \<Rightarrow> string \<Rightarrow> bool" where
  "match_string r [] = nullable r"
| "match_string r (c # s) = match_string (deriv c r) s"

lemma nullable_iff: "nullable r \<longleftrightarrow> [] \<in> lang r"
  by (induction r) (auto simp: conc_def intro: kstar_Nil)

lemma lang_mk_seq [simp]: "lang (mk_seq r s) = conc (lang r) (lang s)"
  by (auto simp: mk_seq_def conc_def)

lemma lang_mk_alt [simp]: "lang (mk_alt r s) = lang r \<union> lang s"
  by (auto simp: mk_alt_def)

lemma kstar_Cons: "c # s \<in> kstar A \<longleftrightarrow> (\<exists>xs ys. s = xs @ ys \<and> c # xs \<in> A \<and> ys \<in> kstar A)"
proof
  assume "c # s \<in> kstar A"
  then show "\<exists>xs ys. s = xs @ ys \<and> c # xs \<in> A \<and> ys \<in> kstar A"
  proof (induction "c # s" arbitrary: s rule: kstar.induct)
    case (kstar_step xs ys)
    then show ?case by (cases xs) auto
  qed
next
  assume "\<exists>xs ys. s = xs @ ys \<and> c # xs \<in> A \<and> ys \<in> kstar A"
  then show "c # s \<in> kstar A" using kstar.kstar_step by (metis append_Cons)
qed

lemma conc_Cons:
  "c # s \<in> conc A B \<longleftrightarrow>
     (\<exists>xs ys. s = xs @ ys \<and> c # xs \<in> A \<and> ys \<in> B) \<or> ([] \<in> A \<and> c # s \<in> B)"
  unfolding conc_def by (auto simp: append_eq_Cons_conv Cons_eq_append_conv)

lemma lang_deriv: "s \<in> lang (deriv c r) \<longleftrightarrow> c # s \<in> lang r"
proof (induction r arbitrary: s)
  case (RSeq r1 r2)
  have "s \<in> conc (lang (deriv c r1)) (lang r2) \<longleftrightarrow>
      (\<exists>xs ys. s = xs @ ys \<and> c # xs \<in> lang r1 \<and> ys \<in> lang r2)"
    using RSeq.IH(1) by (auto simp: conc_def)
  then show ?case using RSeq.IH(2) by (auto simp: conc_Cons nullable_iff)
next
  case (RStar r)
  then show ?case by (auto simp: kstar_Cons conc_def)
qed auto

theorem match_string_iff: "match_string r s \<longleftrightarrow> s \<in> lang r"
  by (induction s arbitrary: r) (simp_all add: nullable_iff lang_deriv)

section \<open>Derived forms and fixed-length patterns\<close>

definition RPlus :: "regex \<Rightarrow> regex" where
  "RPlus r = RSeq r (RStar r)"

fun RRep :: "nat \<Rightarrow> regex \<Rightarrow> regex" where
  "RRep 0 r = REps"
| "RRep (Suc n) r = RSeq r (RRep n r)"

definition RChar :: "char \<Rightarrow> regex" where
  "RChar c = RCls [(byte c, byte c)]"

fun RLit :: "string \<Rightarrow> regex" where
  "RLit [] = REps"
| "RLit (c # s) = RSeq (RChar c) (RLit s)"

lemma byte_inj: "byte a = byte b \<longleftrightarrow> a = b"
  by (simp add: byte_def)

lemma in_class_single: "in_class [(byte c, byte c)] d \<longleftrightarrow> d = c"
  by (auto simp: in_class_def byte_inj [symmetric])

lemma lang_RChar [simp]: "lang (RChar c) = {[c]}"
  by (simp add: RChar_def in_class_single)

lemma lang_RLit [simp]: "lang (RLit s) = {s}"
  by (induction s) (auto simp: conc_def)

lemma Cons_conc_class: "c # s \<in> conc {[c] | c. P c} B \<longleftrightarrow> P c \<and> s \<in> B"
  by (simp add: conc_Cons)

lemma Nil_conc_class: "[] \<notin> conc {[c] | c. P c} B"
  by (auto simp: conc_def)

lemma lang_RRep_RCls:
  "lang (RRep n (RCls rs)) = {s. length s = n \<and> list_all (in_class rs) s}"
proof (induction n)
  case (Suc n)
  show ?case
  proof (rule set_eqI)
    fix s
    show "s \<in> lang (RRep (Suc n) (RCls rs)) \<longleftrightarrow>
        s \<in> {s. length s = Suc n \<and> list_all (in_class rs) s}"
      by (cases s) (auto simp: Suc Cons_conc_class Nil_conc_class)
  qed
qed auto

lemma lang_star_RCls: "kstar {[c] | c. in_class rs c} = {s. list_all (in_class rs) s}"
proof (rule set_eqI)
  fix s
  have "s \<in> kstar {[c] | c. in_class rs c} \<longleftrightarrow> list_all (in_class rs) s"
  proof (induction s)
    case (Cons c s)
    have "c # s \<in> kstar {[c] | c. in_class rs c} \<longleftrightarrow>
        in_class rs c \<and> s \<in> kstar {[c] | c. in_class rs c}"
      by (simp add: kstar_Cons)
    with Cons.IH show ?case by simp
  qed (simp add: kstar_Nil)
  then show "s \<in> kstar {[c] | c. in_class rs c} \<longleftrightarrow> s \<in> {s. list_all (in_class rs) s}"
    by simp
qed

lemma conc_single: "conc {s} B = {s @ t | t. t \<in> B}"
  by (auto simp: conc_def)

lemma conc_length:
  "(s \<in> conc {t. length t = n \<and> P t} B) \<longleftrightarrow> n \<le> length s \<and> P (take n s) \<and> drop n s \<in> B"
  unfolding conc_def
  by (auto simp: min_def) (metis append_take_drop_id length_take min.absorb2)

lemma conc_length_class:
  "s \<in> conc (lang (RRep n (RCls rs))) B \<longleftrightarrow>
     n \<le> length s \<and> list_all (in_class rs) (take n s) \<and> drop n s \<in> B"
  by (simp add: lang_RRep_RCls conc_length)

text \<open>Every match of an expression over ASCII classes is an ASCII string.\<close>

fun ascii_regex :: "regex \<Rightarrow> bool" where
  "ascii_regex (RCls rs) \<longleftrightarrow> list_all (\<lambda>(lo, hi). hi < 128) rs"
| "ascii_regex (RSeq r s) \<longleftrightarrow> ascii_regex r \<and> ascii_regex s"
| "ascii_regex (RAlt r s) \<longleftrightarrow> ascii_regex r \<and> ascii_regex s"
| "ascii_regex (RStar r) \<longleftrightarrow> ascii_regex r"
| "ascii_regex r \<longleftrightarrow> True"

lemma kstar_list_all: "s \<in> kstar A \<Longrightarrow> (\<And>t. t \<in> A \<Longrightarrow> list_all P t) \<Longrightarrow> list_all P s"
  by (induction rule: kstar.induct) auto

lemma ascii_regex_lang: "ascii_regex r \<Longrightarrow> s \<in> lang r \<Longrightarrow> list_all (\<lambda>c. byte c < 128) s"
proof (induction r arbitrary: s)
  case (RCls rs)
  then show ?case by (fastforce simp: in_class_def list_all_iff list_ex_iff)
next
  case (RStar r)
  then show ?case by (auto intro: kstar_list_all)
qed (auto simp: conc_def)

end
