(* ===== verification/Catalog.thy ===== *)
theory Catalog
  imports GoRegex GoQuote
begin

text \<open>
  settings/catalog: \<^verbatim>\<open>validate.go\<close>, which admits a settings contribution, and \<^verbatim>\<open>render.go\<close>, which
  renders the admitted ones as proto, Go and TypeScript source. The patterns are expressions of
  \<open>GoRegex\<close>; \<^verbatim>\<open>path.Clean\<close> and \<^verbatim>\<open>path.Ext\<close> are modelled here.
\<close>

section \<open>The path package\<close>

text \<open>
  \<^verbatim>\<open>path.Clean\<close> by elements: empty and dot elements are dropped, a dot-dot removes the element before
  it, and is kept at the front of a relative path. \<open>acc\<close> holds the kept elements, last first.
\<close>

fun clean_elems :: "bool \<Rightarrow> string list \<Rightarrow> string list \<Rightarrow> string list" where
  "clean_elems rooted acc [] = rev acc"
| "clean_elems rooted acc (e # es) =
     (if e = '''' \<or> e = ''.'' then clean_elems rooted acc es
      else if e = ''..'' then
        (case acc of
           a # as \<Rightarrow> (if a \<noteq> ''..'' then clean_elems rooted as es else clean_elems rooted (e # acc) es)
         | [] \<Rightarrow> (if rooted then clean_elems rooted [] es else clean_elems rooted [e] es))
      else clean_elems rooted (e # acc) es)"

definition path_Clean :: "string \<Rightarrow> string" where
  "path_Clean p =
     (if p = '''' then ''.''
      else
        (let rooted = (hd p = CHR ''/'');
             es = clean_elems rooted [] (split_on (CHR ''/'') (if rooted then tl p else p));
             s = join_with (CHR ''/'') es
         in if rooted then CHR ''/'' # s else if es = [] then ''.'' else s))"

fun ext_scan :: "string \<Rightarrow> string \<Rightarrow> string" where
  "ext_scan [] acc = ''''"
| "ext_scan (c # r) acc =
     (if c = CHR ''/'' then '''' else if c = CHR ''.'' then c # acc else ext_scan r (c # acc))"

definition path_Ext :: "string \<Rightarrow> string" where
  "path_Ext p = ext_scan (rev p) []"

section \<open>Validation\<close>

record Contribution =
  Namespace :: string
  ProtoImport :: string
  Message :: string
  FieldName :: string
  FieldNumber :: int

definition minFieldNumber :: int where "minFieldNumber = 1"
definition maxFieldNumber :: int where "maxFieldNumber = 536870911"
definition reservedFieldNumMin :: int where "reservedFieldNumMin = 19000"
definition reservedFieldNumMax :: int where "reservedFieldNumMax = 19999"

lemmas field_number_bounds =
  minFieldNumber_def maxFieldNumber_def reservedFieldNumMin_def reservedFieldNumMax_def

abbreviation lower_class :: "(nat \<times> nat) list" where "lower_class \<equiv> [(97, 122)]"
abbreviation lower_digit :: "(nat \<times> nat) list" where "lower_digit \<equiv> [(97, 122), (48, 57)]"
abbreviation alpha_class :: "(nat \<times> nat) list" where "alpha_class \<equiv> [(65, 90), (97, 122)]"
abbreviation alnum_class :: "(nat \<times> nat) list" where "alnum_class \<equiv> [(65, 90), (97, 122), (48, 57)]"

definition namespacePattern :: regex where
  "namespacePattern = RSeq (RCls lower_class) (RSeq (RStar (RCls lower_digit))
     (RStar (RSeq (RCls [(46, 46), (95, 95), (45, 45)]) (RPlus (RCls lower_digit)))))"

definition messagePattern :: regex where
  "messagePattern = RSeq (RCls alpha_class) (RSeq (RStar (RCls alnum_class))
     (RPlus (RSeq (RChar (CHR ''.'')) (RSeq (RCls alpha_class) (RStar (RCls (alnum_class @ [(95, 95)])))))))"

definition fieldNamePattern :: regex where
  "fieldNamePattern = RSeq (RCls lower_class) (RStar (RCls (lower_digit @ [(95, 95)])))"

definition safeRelativeImport :: "string \<Rightarrow> bool" where
  "safeRelativeImport p =
     (if p = '''' \<or> has_prefix p ''/'' \<or> CHR 0x5C \<in> set p then False
      else if path_Clean p \<noteq> p \<or> p = ''.'' \<or> p = ''..'' \<or> has_prefix p ''../'' then False
      else path_Ext p = ''.proto'')"

text \<open>The error is its text; \<open>q\<close> is the verb \<^verbatim>\<open>%q\<close>.\<close>

definition Contribution_Validate :: "(string \<Rightarrow> bool) \<Rightarrow> Contribution \<Rightarrow> string option" where
  "Contribution_Validate is_print c =
     (let q = go_quote is_print in
      if \<not> match_string namespacePattern (Namespace c) then
        Some (''settings contribution namespace '' @ q (Namespace c) @ '' is not a valid lower-case identifier'')
      else if \<not> match_string messagePattern (Message c) then
        Some (''settings contribution '' @ q (Namespace c) @ '' message '' @ q (Message c) @
          '' is not a fully qualified proto message name'')
      else if \<not> safeRelativeImport (ProtoImport c) then
        Some (''settings contribution '' @ q (Namespace c) @ '' proto import '' @ q (ProtoImport c) @
          '' must be a relative .proto path'')
      else if \<not> match_string fieldNamePattern (FieldName c) then
        Some (''settings contribution '' @ q (Namespace c) @ '' field name '' @ q (FieldName c) @
          '' is not a valid lower-case proto field name'')
      else if FieldNumber c < minFieldNumber \<or> FieldNumber c > maxFieldNumber \<or>
          (FieldNumber c \<ge> reservedFieldNumMin \<and> FieldNumber c \<le> reservedFieldNumMax) then
        Some (''settings contribution '' @ q (Namespace c) @ '' field number '' @ itoa (FieldNumber c) @
          '' is not a valid proto field number'')
      else None)"

fun Validate :: "(string \<Rightarrow> bool) \<Rightarrow> Contribution list \<Rightarrow> string option" where
  "Validate is_print [] = None"
| "Validate is_print (c # cs) =
     (case Contribution_Validate is_print c of Some err \<Rightarrow> Some err | None \<Rightarrow> Validate is_print cs)"

section \<open>Rendering\<close>

definition newline :: char where "newline = char_of (10 :: nat)"
definition tab :: char where "tab = char_of (9 :: nat)"

definition line :: "string \<Rightarrow> string" where "line s = s @ [newline]"

definition ComposedProtoPackage :: string where
  "ComposedProtoPackage = ''saas.composed.settings.v1''"

definition GoCatalogPackage :: string where
  "GoCatalogPackage = ''settingscatalog''"

definition generated_header :: string where
  "generated_header = ''// Code generated by module-compose. DO NOT EDIT.''"

definition RenderProto :: "(string \<Rightarrow> bool) \<Rightarrow> Contribution list \<Rightarrow> string" where
  \<open>RenderProto is_print contributions =
     line generated_header @ line ''syntax = "proto3";'' @ line '''' @
     line (''package '' @ ComposedProtoPackage @ '';'') @ line '''' @
     concat (map (\<lambda>c. line (''import '' @ go_quote is_print (ProtoImport c) @ '';'')) contributions) @
     line '''' @ line ''message Settings {'' @
     concat (map (\<lambda>c. line (''  '' @ Message c @ '' '' @ FieldName c @ '' = '' @ itoa (FieldNumber c) @ '';''))
       contributions) @
     line ''}''\<close>

definition RenderGo :: "(string \<Rightarrow> bool) \<Rightarrow> Contribution list \<Rightarrow> string" where
  "RenderGo is_print contributions =
     line generated_header @ line (''package '' @ GoCatalogPackage) @ line '''' @
     line ''type Field struct {'' @ line (tab # ''Namespace string'') @ line (tab # ''Name string'') @
     line (tab # ''Number int'') @ line (tab # ''Message string'') @ line ''}'' @ line '''' @
     line ''var fields = [...]Field{'' @
     concat (map (\<lambda>c. line (tab # ''{Namespace: '' @ go_quote is_print (Namespace c) @ '', Name: '' @
       go_quote is_print (FieldName c) @ '', Number: '' @ itoa (FieldNumber c) @ '', Message: '' @
       go_quote is_print (Message c) @ ''},'')) contributions) @
     line ''}'' @ line '''' @ line ''func Fields() []Field {'' @
     line (tab # ''return append([]Field(nil), fields[:]...)'') @ line ''}''"

definition RenderTypeScript :: "(string \<Rightarrow> bool) \<Rightarrow> Contribution list \<Rightarrow> string" where
  "RenderTypeScript is_print contributions =
     line generated_header @ line ''export const SETTINGS_FIELDS = Object.freeze(['' @
     concat (map (\<lambda>c. line (tab # ''{ namespace: '' @ go_quote is_print (Namespace c) @ '', name: '' @
       go_quote is_print (FieldName c) @ '', number: '' @ itoa (FieldNumber c) @ '', message: '' @
       go_quote is_print (Message c) @ '' },'')) contributions) @
     line ''] as const);''"

section \<open>Safe imports\<close>

lemma clean_elems_append:
  assumes "\<forall>e \<in> set es. e \<noteq> '''' \<and> e \<noteq> ''.'' \<and> e \<noteq> ''..''"
  shows "clean_elems rooted acc es = rev acc @ es"
  using assms by (induction es arbitrary: acc) auto

text \<open>What \<^verbatim>\<open>Clean\<close> keeps: no empty or dot elements, and dot-dots only in front.\<close>

fun dotdot_front :: "string list \<Rightarrow> bool" where
  "dotdot_front [] = True"
| "dotdot_front (e # es) = (if e = ''..'' then dotdot_front es else ''..'' \<notin> set es)"

lemma dotdot_front_snoc:
  "dotdot_front (es @ [e]) \<longleftrightarrow> dotdot_front es \<and> (e = ''..'' \<longrightarrow> (\<forall>x \<in> set es. x = ''..''))"
  by (induction es) auto

definition kept :: "string list \<Rightarrow> bool" where
  "kept acc \<longleftrightarrow> '''' \<notin> set acc \<and> ''.'' \<notin> set acc \<and> dotdot_front (rev acc)"

lemma kept_Cons:
  "kept (e # acc) \<longleftrightarrow> kept acc \<and> e \<noteq> '''' \<and> e \<noteq> ''.'' \<and> (e = ''..'' \<longrightarrow> (\<forall>x \<in> set acc. x = ''..''))"
  by (auto simp: kept_def dotdot_front_snoc)

lemma kept_head_dotdot: "kept (''..'' # acc) \<Longrightarrow> \<forall>x \<in> set acc. x = ''..''"
  by (simp add: kept_Cons)

lemma clean_elems_kept: "kept acc \<Longrightarrow> kept (rev (clean_elems rooted acc es))"
proof (induction rooted acc es rule: clean_elems.induct)
  case (2 rooted acc e es)
  then show ?case
    by (cases acc) (auto simp: kept_Cons split: if_splits)
qed simp

lemma kept_relative:
  assumes "kept (rev es)" and "es \<noteq> []" and "hd es \<noteq> ''..''"
  shows "\<forall>e \<in> set es. e \<noteq> '''' \<and> e \<noteq> ''.'' \<and> e \<noteq> ''..''"
  using assms by (cases es) (auto simp: kept_def)

definition ext_char :: "char \<Rightarrow> bool" where
  "ext_char c \<longleftrightarrow> c \<noteq> CHR ''.'' \<and> c \<noteq> CHR ''/''"

lemma ext_scan_split:
  "ext_scan r acc = (case dropWhile ext_char r of
     [] \<Rightarrow> [] | c # t \<Rightarrow> (if c = CHR ''.'' then CHR ''.'' # rev (takeWhile ext_char r) @ acc else []))"
proof (induction r arbitrary: acc)
  case (Cons c r)
  show ?case
  proof (cases "ext_char c")
    case True
    then have "c \<noteq> CHR ''.''" "c \<noteq> CHR ''/''" by (simp_all add: ext_char_def)
    with True Cons.IH show ?thesis
      by (cases "dropWhile ext_char r") (simp_all del: dropWhile_eq_Nil_conv)
  next
    case False
    then show ?thesis by (auto simp: ext_char_def)
  qed
qed simp

lemma path_Ext_iff: "path_Ext p = ''.proto'' \<longleftrightarrow> has_suffix p ''.proto''"
proof
  assume l: "path_Ext p = ''.proto''"
  then obtain t where d: "dropWhile ext_char (rev p) = CHR ''.'' # t"
    and b: "rev (takeWhile ext_char (rev p)) = ''proto''"
    by (auto simp: path_Ext_def ext_scan_split split: list.splits if_splits)
  have "takeWhile ext_char (rev p) = rev ''proto''" using b by (metis rev_rev_ident)
  with d have "rev p = rev ''proto'' @ CHR ''.'' # t" by (metis takeWhile_dropWhile_id)
  then have "p = rev (rev ''proto'' @ CHR ''.'' # t)" by (metis rev_rev_ident)
  then show "has_suffix p ''.proto''" by (auto simp: has_suffix_iff)
next
  assume "has_suffix p ''.proto''"
  then obtain t where "p = t @ ''.proto''" by (auto simp: has_suffix_iff)
  then show "path_Ext p = ''.proto''" by (simp add: path_Ext_def ext_scan_split ext_char_def)
qed

lemma clean_relative:
  assumes "p \<noteq> ''''" and "hd p \<noteq> CHR ''/''"
  shows "path_Clean p = (if clean_elems False [] (split_on (CHR ''/'') p) = [] then ''.''
     else join_with (CHR ''/'') (clean_elems False [] (split_on (CHR ''/'') p)))"
  using assms by (simp add: path_Clean_def)

lemma clean_elems_subset: "set (clean_elems rooted acc es) \<subseteq> set acc \<union> set es"
  by (induction rooted acc es rule: clean_elems.induct) (auto split: list.splits if_splits)

lemma safe_import_names:
  assumes "safeRelativeImport p"
  shows "\<exists>es. p = join_with (CHR ''/'') es \<and> es \<noteq> [] \<and> has_suffix p ''.proto'' \<and> CHR 0x5C \<notin> set p \<and>
       set es \<inter> {'''', ''.'', ''..''} = {} \<and> {e \<in> set es. CHR ''/'' \<in> set e} = {}"
proof -
  from assms have p: "p \<noteq> ''''" "\<not> has_prefix p ''/''" "CHR 0x5C \<notin> set p" "path_Clean p = p" "p \<noteq> ''.''" "p \<noteq> ''..''"
      "\<not> has_prefix p ''../''" "has_suffix p ''.proto''"
    by (auto simp: safeRelativeImport_def path_Ext_iff split: if_splits)
  define es where "es = clean_elems False [] (split_on (CHR ''/'') p)"
  have h: "hd p \<noteq> CHR ''/''" using p(1,2) by (cases p) (auto simp: has_prefix_def)
  have es: "es \<noteq> []" "p = join_with (CHR ''/'') es"
    using clean_relative [OF p(1) h] p(4,5) by (auto simp: es_def split: if_splits)
  have free: "CHR ''/'' \<notin> set e" if "e \<in> set es" for e
    using that clean_elems_subset [of False "[]" "split_on (CHR ''/'') p"] split_on_delim_free
    unfolding es_def by auto
  have "kept (rev es)" unfolding es_def by (rule clean_elems_kept) (simp add: kept_def)
  moreover have "hd es \<noteq> ''..''"
  proof
    assume d: "hd es = ''..''"
    show False
    proof (cases "tl es")
      case Nil
      with es d p(6) show False by (cases es) auto
    next
      case (Cons a r)
      with es d have "p = ''..'' @ CHR ''/'' # join_with (CHR ''/'') (tl es)" by (cases es) auto
      with p(7) show False by (auto simp: has_prefix_def)
    qed
  qed
  ultimately have "\<forall>e \<in> set es. e \<noteq> '''' \<and> e \<noteq> ''.'' \<and> e \<noteq> ''..''" using es(1) by (intro kept_relative)
  with es free p(3,8) show ?thesis
    by (intro exI [of _ es]) auto
qed

lemma names_safe_import:
  assumes "\<exists>es. p = join_with (CHR ''/'') es \<and> es \<noteq> [] \<and> has_suffix p ''.proto'' \<and> CHR 0x5C \<notin> set p \<and>
       set es \<inter> {'''', ''.'', ''..''} = {} \<and> {e \<in> set es. CHR ''/'' \<in> set e} = {}"
  shows "safeRelativeImport p"
proof -
  from assms obtain es where es: "p = join_with (CHR ''/'') es" "es \<noteq> []" "has_suffix p ''.proto''" "CHR 0x5C \<notin> set p"
    and good: "\<forall>e \<in> set es. e \<noteq> '''' \<and> e \<noteq> ''.'' \<and> e \<noteq> ''..''" and free: "\<forall>e \<in> set es. CHR ''/'' \<notin> set e"
    by auto
  have sp: "split_on (CHR ''/'') p = es" unfolding es(1) by (rule split_join [OF es(2) free])
  obtain c e' r where e: "es = (c # e') # r" "c \<noteq> CHR ''/''" using es(2) good free by (cases es; cases "hd es") auto
  have hd: "p \<noteq> ''''" "hd p = c" using e es(1) by (cases r; simp)+
  have "path_Clean p = p"
    using clean_relative [of p] hd e(2) sp clean_elems_append [OF good, of False "[]"] es(1,2) by simp
  moreover have "\<not> has_prefix p ''/''" using hd e(2) by (cases p) (auto simp: has_prefix_def)
  moreover have "\<not> has_prefix p ''../''"
  proof
    assume "has_prefix p ''../''"
    then obtain t where t: "p = ''..'' @ CHR ''/'' # t" by (auto simp: has_prefix_iff)
    have "split_on (CHR ''/'') p = ''..'' # split_on (CHR ''/'') t"
      unfolding t by (rule split_on_append) simp
    with sp have "''..'' \<in> set es" by (metis list.set_intros(1))
    with good show False by blast
  qed
  moreover have "length ''.proto'' \<le> length p" using es(3) by (auto simp: has_suffix_iff)
  then have "p \<noteq> ''.''" "p \<noteq> ''..''" by auto
  ultimately show "safeRelativeImport p"
    using es(3,4) hd by (simp add: safeRelativeImport_def path_Ext_iff)
qed

text \<open>
  an import is admitted exactly when it is a slash-separated list of names, none empty, a dot or
  a dot-dot, without a backslash, and ends in \<^verbatim>\<open>.proto\<close>: it can neither be absolute nor leave the root,
  and it is its own cleaned form.
\<close>

theorem safeRelativeImport_iff:
  "safeRelativeImport p \<longleftrightarrow>
     (\<exists>es. p = join_with (CHR ''/'') es \<and> es \<noteq> [] \<and> has_suffix p ''.proto'' \<and> CHR 0x5C \<notin> set p \<and>
       set es \<inter> {'''', ''.'', ''..''} = {} \<and> {e \<in> set es. CHR ''/'' \<in> set e} = {})"
  by (rule iffI, erule safe_import_names, erule names_safe_import)

section \<open>What validation admits\<close>

text \<open>Every match of an expression whose classes keep a property is a string of such characters.\<close>

fun regex_bytes :: "(nat \<Rightarrow> bool) \<Rightarrow> regex \<Rightarrow> bool" where
  "regex_bytes P (RCls rs) \<longleftrightarrow> (\<forall>(lo, hi) \<in> set rs. \<forall>b. lo \<le> b \<and> b \<le> hi \<longrightarrow> P b)"
| "regex_bytes P (RSeq r s) \<longleftrightarrow> regex_bytes P r \<and> regex_bytes P s"
| "regex_bytes P (RAlt r s) \<longleftrightarrow> regex_bytes P r \<and> regex_bytes P s"
| "regex_bytes P (RStar r) \<longleftrightarrow> regex_bytes P r"
| "regex_bytes P r \<longleftrightarrow> True"

lemma regex_bytes_lang: "regex_bytes P r \<Longrightarrow> s \<in> lang r \<Longrightarrow> list_all (\<lambda>c. P (byte c)) s"
proof (induction r arbitrary: s)
  case (RCls rs)
  then show ?case by (fastforce simp: in_class_def list_ex_iff)
next
  case (RStar r)
  then show ?case by (auto intro: kstar_list_all)
qed (auto simp: conc_def)

text \<open>No quote, backslash, space or control byte, and nothing outside ASCII.\<close>

definition word_byte :: "nat \<Rightarrow> bool" where
  "word_byte b \<longleftrightarrow> 33 \<le> b \<and> b < 127 \<and> b \<noteq> 34 \<and> b \<noteq> 92"

definition word_text :: "string \<Rightarrow> bool" where
  "word_text s \<longleftrightarrow> list_all (\<lambda>c. word_byte (byte c)) s"

lemma patterns_words:
  "regex_bytes word_byte namespacePattern" "regex_bytes word_byte messagePattern"
  "regex_bytes word_byte fieldNamePattern"
  by (auto simp: namespacePattern_def messagePattern_def fieldNamePattern_def RPlus_def RChar_def
      word_byte_def byte_def)

lemma match_word: "regex_bytes word_byte r \<Longrightarrow> match_string r s \<Longrightarrow> word_text s"
  unfolding word_text_def match_string_iff by (rule regex_bytes_lang)

definition field_number_ok :: "int \<Rightarrow> bool" where
  "field_number_ok n \<longleftrightarrow> 1 \<le> n \<and> n < 2 ^ 29 \<and> \<not> (19000 \<le> n \<and> n < 20000)"

text \<open>C34:
  \<^verbatim>\<open>Validate\<close> admits a list exactly when every contribution's namespace, message and field name
  match their patterns, its import is safe and its number is one protobuf allows: from 1 to
  \<open>2 ^ 29 - 1\<close> and outside the reserved 19000 to 19999.
\<close>

theorem Validate_iff:
  "Validate is_print cs = None \<longleftrightarrow> list_all (\<lambda>c. Namespace c \<in> lang namespacePattern
     \<and> Message c \<in> lang messagePattern \<and> safeRelativeImport (ProtoImport c)
     \<and> FieldName c \<in> lang fieldNamePattern \<and> field_number_ok (FieldNumber c)) cs"
proof (induction cs)
  case (Cons c cs)
  have "Contribution_Validate is_print c = None \<longleftrightarrow> Namespace c \<in> lang namespacePattern
     \<and> Message c \<in> lang messagePattern \<and> safeRelativeImport (ProtoImport c)
     \<and> FieldName c \<in> lang fieldNamePattern \<and> field_number_ok (FieldNumber c)"
    by (auto simp: Contribution_Validate_def match_string_iff field_number_bounds field_number_ok_def Let_def)
  with Cons.IH show ?case by (auto split: option.splits)
qed simp

definition words :: "Contribution \<Rightarrow> bool" where
  "words c \<longleftrightarrow> word_text (Namespace c) \<and> word_text (Message c) \<and> word_text (FieldName c)"

lemma valid_words: "Contribution_Validate is_print c = None \<Longrightarrow> words c"
  using match_word patterns_words
  by (auto simp: Contribution_Validate_def words_def Let_def split: if_splits)

lemma Validate_words: "Validate is_print cs = None \<Longrightarrow> c \<in> set cs \<Longrightarrow> words c"
  by (induction cs) (auto dest: valid_words split: option.splits)

lemma word_quote: "word_text s \<Longrightarrow> go_quote is_print s = CHR 0x22 # s @ [CHR 0x22]"
proof -
  assume "word_text s"
  then have "list_all plain_ascii s"
    by (auto simp: word_text_def list_all_iff word_byte_def plain_ascii_def byte_def)
  then show ?thesis by (rule go_quote_plain)
qed

section \<open>One line for each contribution\<close>

definition lined :: "string \<Rightarrow> bool" where
  "lined s \<longleftrightarrow> newline \<notin> set s"

lemma lined_append [simp]: "lined (s @ t) \<longleftrightarrow> lined s \<and> lined t"
  by (auto simp: lined_def)

lemma byte_newline [simp]: "byte newline = 10"
  by (simp add: newline_def byte_def)

lemma lined_Cons [simp]: "lined (c # s) \<longleftrightarrow> byte c \<noteq> 10 \<and> lined s"
  using byte_inj [of newline c] by (auto simp: lined_def)

lemma lined_Nil [simp]: "lined []"
  by (simp add: lined_def)

lemma lined_word: "word_text s \<Longrightarrow> lined s"
  by (induction s) (auto simp: word_text_def word_byte_def)

lemma lined_digits: "lined (nat_digits n)"
  using nat_digits_are_digits [of n] by (auto simp: lined_def newline_def list_all_iff is_digit_def byte_def)

lemma lined_itoa [simp]: "lined (itoa n)"
  by (simp add: itoa_def lined_digits byte_def)

lemma hex_digits_lined: "lined (hex_digits w n)"
proof (induction w arbitrary: n)
  case (Suc w)
  have "n mod 16 < 16" by simp
  then have "byte (hex_char (n mod 16)) \<noteq> 10" by (auto simp: hex_char_def byte_def)
  with Suc show ?case by simp
qed simp

lemma rune_bytes: "1 < rune_width s \<Longrightarrow> c \<in> set (take (rune_width s) s) \<Longrightarrow> 128 \<le> byte c"
  by (induction s rule: rune_width.induct)
    (auto simp: in_range_def cont_byte_def split: if_splits list.splits)

lemma wide_lined: "1 < rune_width s \<Longrightarrow> lined (take (rune_width s) s)"
proof -
  assume "1 < rune_width s"
  then have "128 \<le> byte newline" if "newline \<in> set (take (rune_width s) s)"
    using that rune_bytes by blast
  then show ?thesis by (auto simp: lined_def)
qed

lemma rune_width_pos_one: "rune_width (c # s) = 1 \<Longrightarrow> byte c < 128"
  by (auto split: if_splits list.splits)

lemma escape_lined:
  assumes "rune_width (c # s) \<noteq> 0"
  shows "lined (escape_rune is_print (take (rune_width (c # s)) (c # s)))"
proof (cases "rune_width (c # s) = 1")
  case True
  with rune_width_pos_one [OF True] show ?thesis
    by (auto simp: escape_rune_def hex_digits_lined Let_def byte_def simp del: rune_width.simps hex_digits.simps)
next
  case False
  with assms have "lined (take (rune_width (c # s)) (c # s))" by (intro wide_lined) auto
  then show ?thesis
    by (auto simp: escape_rune_def hex_digits_lined Let_def byte_def simp del: rune_width.simps hex_digits.simps)
qed

lemma quote_body_lined: "lined (quote_body is_print s)"
proof (induction is_print s rule: quote_body.induct)
  case (2 is_print c s)
  show ?case
  proof (cases "rune_width (c # s) = 0")
    case True
    with 2(1) [OF refl] show ?thesis
      by (simp add: quote_body.simps(2) hex_digits_lined byte_def del: rune_width.simps hex_digits.simps)
  next
    case False
    with 2(2) [OF refl] escape_lined [OF False] show ?thesis
      by (simp add: quote_body.simps(2) Let_def del: rune_width.simps)
  qed
qed simp

lemma quote_lined [simp]: "lined (go_quote is_print s)"
  by (simp add: go_quote_def quote_body_lined byte_def)

lemma split_lines: "\<forall>l \<in> set ls. lined l \<Longrightarrow>
    split_on newline (concat (map line ls) @ s) = ls @ split_on newline s"
  by (induction ls) (auto simp: line_def lined_def split_on_append)

definition proto_import :: "(string \<Rightarrow> bool) \<Rightarrow> Contribution \<Rightarrow> string" where
  "proto_import is_print c = ''import '' @ go_quote is_print (ProtoImport c) @ '';''"

definition proto_field :: "Contribution \<Rightarrow> string" where
  "proto_field c = ''  '' @ Message c @ '' '' @ FieldName c @ '' = '' @ itoa (FieldNumber c) @ '';''"

definition proto_head :: "string list" where
  \<open>proto_head = [generated_header, ''syntax = "proto3";'', '''', ''package saas.composed.settings.v1;'', '''']\<close>

lemma proto_lines:
  "RenderProto is_print cs = concat (map line (proto_head @ map (proto_import is_print) cs @
     ['''', ''message Settings {''] @ map proto_field cs @ [''}'']))"
  by (simp add: RenderProto_def proto_head_def proto_import_def proto_field_def ComposedProtoPackage_def comp_def)

text \<open>
  the proto rendered for admitted contributions has exactly one import line and one field line for
  each, in order, between fixed lines: no name or path can add, split or swallow a line.
\<close>

theorem RenderProto_lines:
  assumes "Validate is_print cs = None"
  shows "split_on newline (RenderProto is_print cs) = proto_head @ map (proto_import is_print) cs @
     ['''', ''message Settings {''] @ map proto_field cs @ [''}'', '''']"
proof -
  have "lined (proto_field c)" if "c \<in> set cs" for c
    using Validate_words [OF assms that] lined_word
    by (simp add: proto_field_def words_def byte_def)
  then have "\<forall>l \<in> set (proto_head @ map (proto_import is_print) cs @
     ['''', ''message Settings {''] @ map proto_field cs @ [''}'']). lined l"
    by (auto simp: proto_head_def proto_import_def generated_header_def byte_def)
  from split_lines [OF this, of "[]"] show ?thesis
    by (simp only: proto_lines append_Nil2 split_on.simps append_assoc append_Cons append_Nil)
qed

text \<open>The rows of the Go and TypeScript catalogs, with plain quotes.\<close>

definition quoted :: "string \<Rightarrow> string" where
  "quoted s = CHR 0x22 # s @ [CHR 0x22]"

definition go_row :: "Contribution \<Rightarrow> string" where
  "go_row c = tab # ''{Namespace: '' @ quoted (Namespace c) @ '', Name: '' @ quoted (FieldName c) @
     '', Number: '' @ itoa (FieldNumber c) @ '', Message: '' @ quoted (Message c) @ ''},''"

definition ts_row :: "Contribution \<Rightarrow> string" where
  "ts_row c = tab # ''{ namespace: '' @ quoted (Namespace c) @ '', name: '' @ quoted (FieldName c) @
     '', number: '' @ itoa (FieldNumber c) @ '', message: '' @ quoted (Message c) @ '' },''"

definition go_head :: "string list" where
  "go_head = [generated_header, ''package settingscatalog'', '''', ''type Field struct {'',
     tab # ''Namespace string'', tab # ''Name string'', tab # ''Number int'', tab # ''Message string'', ''}'', '''',
     ''var fields = [...]Field{'']"

definition go_tail :: "string list" where
  "go_tail = [''}'', '''', ''func Fields() []Field {'', tab # ''return append([]Field(nil), fields[:]...)'', ''}'']"

lemma quoted_words:
  "words c \<Longrightarrow> go_quote is_print (Namespace c) = quoted (Namespace c)
     \<and> go_quote is_print (FieldName c) = quoted (FieldName c)
     \<and> go_quote is_print (Message c) = quoted (Message c)"
  by (simp add: words_def quoted_def word_quote)

lemma byte_tab [simp]: "byte tab = 9" "(of_char tab :: nat) = 9"
  by (simp_all add: tab_def byte_def)

lemma lined_quoted: "word_text s \<Longrightarrow> lined (quoted s)"
  by (simp add: quoted_def lined_word byte_def)

lemma lined_rows: "words c \<Longrightarrow> lined (go_row c) \<and> lined (ts_row c)"
  by (simp add: go_row_def ts_row_def words_def lined_quoted byte_def)

text \<open>
  for admitted contributions the Go and TypeScript catalogs are fixed lines around one row per
  contribution, in order, in which the Go-quoted names are the names between plain quotes: the quoting
  needs no escape, so it reads the same in TypeScript.
\<close>

theorem Render_rows:
  assumes "Validate is_print cs = None"
  shows "split_on newline (RenderGo is_print cs) = go_head @ map go_row cs @ go_tail @ ['''']
    \<and> split_on newline (RenderTypeScript is_print cs) =
      [generated_header, ''export const SETTINGS_FIELDS = Object.freeze(['']
      @ map ts_row cs @ [''] as const);'', '''']"
proof -
  have w: "words c" if "c \<in> set cs" for c by (rule Validate_words [OF assms that])
  have go: "RenderGo is_print cs = concat (map line (go_head @ map go_row cs @ go_tail))"
    using quoted_words [OF w] unfolding RenderGo_def go_head_def go_tail_def GoCatalogPackage_def
    by (simp add: go_row_def comp_def cong: map_cong)
  have ts: "RenderTypeScript is_print cs = concat (map line
      ([generated_header, ''export const SETTINGS_FIELDS = Object.freeze([''] @ map ts_row cs @ [''] as const);'']))"
    using quoted_words [OF w] unfolding RenderTypeScript_def
    by (simp add: ts_row_def comp_def cong: map_cong)
  have "\<forall>l \<in> set (go_head @ map go_row cs @ go_tail). lined l"
    using lined_rows [OF w] by (auto simp: go_head_def go_tail_def generated_header_def byte_def)
  from split_lines [OF this, of "[]"]
  have a: "split_on newline (RenderGo is_print cs) = go_head @ map go_row cs @ go_tail @ ['''']"
    by (simp add: go)
  have "\<forall>l \<in> set ([generated_header, ''export const SETTINGS_FIELDS = Object.freeze([''] @ map ts_row cs @
      [''] as const);'']). lined l"
    using lined_rows [OF w] by (auto simp: generated_header_def byte_def)
  from split_lines [OF this, of "[]"]
  have b: "split_on newline (RenderTypeScript is_print cs) =
      [generated_header, ''export const SETTINGS_FIELDS = Object.freeze(['']
      @ map ts_row cs @ [''] as const);'', '''']"
    by (simp add: ts)
  from a b show ?thesis ..
qed

section \<open>The catalogs determine the contributions\<close>

lemma itoa_inj: "itoa m = itoa n \<Longrightarrow> 0 \<le> m \<Longrightarrow> 0 \<le> n \<Longrightarrow> m = n"
  by (auto simp: itoa_def dest: nat_digits_inj)

lemma word_no_quote: "word_text s \<Longrightarrow> CHR 0x22 \<notin> set s"
  by (induction s) (auto simp: word_text_def word_byte_def byte_def)

lemma itoa_no_quote: "0 \<le> n \<Longrightarrow> CHR 0x22 \<notin> set (itoa n)"
  using nat_digits_are_digits [of "nat n"]
  by (auto simp: itoa_def list_all_iff is_digit_def byte_def)

lemma split_quoted:
  "CHR 0x22 \<notin> set a \<Longrightarrow> CHR 0x22 \<notin> set s \<Longrightarrow>
     split_on (CHR 0x22) (a @ quoted s @ r) = a # s # split_on (CHR 0x22) r"
  by (simp add: quoted_def split_on_append)

lemma split_go_row:
  assumes "words c" and "0 \<le> FieldNumber c"
  shows "split_on (CHR 0x22) (go_row c) = [tab # ''{Namespace: '', Namespace c, '', Name: '', FieldName c,
     '', Number: '' @ itoa (FieldNumber c) @ '', Message: '', Message c, ''},'']"
proof -
  have t: "CHR 0x22 \<noteq> tab" by (simp add: byte_inj [symmetric] byte_def)
  have q: "CHR 0x22 \<notin> set (Namespace c)" "CHR 0x22 \<notin> set (FieldName c)" "CHR 0x22 \<notin> set (Message c)"
    using assms(1) word_no_quote by (auto simp: words_def)
  have n: "CHR 0x22 \<notin> set (tab # ''{Namespace: '')" "CHR 0x22 \<notin> set '', Name: ''"
      "CHR 0x22 \<notin> set ('', Number: '' @ itoa (FieldNumber c) @ '', Message: '')"
    using t itoa_no_quote [OF assms(2)] by auto
  have "split_on (CHR 0x22) (go_row c) = split_on (CHR 0x22) ((tab # ''{Namespace: '') @ quoted (Namespace c) @
     '', Name: '' @ quoted (FieldName c) @ ('', Number: '' @ itoa (FieldNumber c) @ '', Message: '') @
     quoted (Message c) @ ''},'')"
    by (simp add: go_row_def)
  also have "\<dots> = [tab # ''{Namespace: '', Namespace c, '', Name: '', FieldName c,
     '', Number: '' @ itoa (FieldNumber c) @ '', Message: '', Message c, ''},'']"
    by (subst split_quoted [OF n(1) q(1)], subst split_quoted [OF n(2) q(2)],
        subst split_quoted [OF n(3) q(3)]) simp
  finally show ?thesis .
qed

lemma go_row_inj:
  assumes "words c" and "words d" and "0 \<le> FieldNumber c" and "0 \<le> FieldNumber d" and "go_row c = go_row d"
  shows "Namespace c = Namespace d \<and> FieldName c = FieldName d \<and> FieldNumber c = FieldNumber d
    \<and> Message c = Message d"
proof -
  have "split_on (CHR 0x22) (go_row c) = split_on (CHR 0x22) (go_row d)" using assms(5) by simp
  then show ?thesis
    unfolding split_go_row [OF assms(1,3)] split_go_row [OF assms(2,4)]
    using itoa_inj assms(3,4) by auto
qed

lemma Validate_number: "Validate is_print cs = None \<Longrightarrow> c \<in> set cs \<Longrightarrow> 0 \<le> FieldNumber c"
  by (induction cs) (auto simp: Contribution_Validate_def minFieldNumber_def Let_def split: option.splits if_splits)

lemma rows_inj:
  assumes "map go_row cs = map go_row ds"
    and "\<forall>c \<in> set cs \<union> set ds. words c \<and> 0 \<le> FieldNumber c"
  shows "map (\<lambda>c. (Namespace c, FieldName c, FieldNumber c, Message c)) cs
    = map (\<lambda>c. (Namespace c, FieldName c, FieldNumber c, Message c)) ds"
  using assms
proof (induction cs arbitrary: ds)
  case (Cons c cs)
  then obtain d es where ds: "ds = d # es" "go_row c = go_row d" "map go_row cs = map go_row es" by auto
  with Cons.prems(2) have "Namespace c = Namespace d \<and> FieldName c = FieldName d \<and> FieldNumber c = FieldNumber d
    \<and> Message c = Message d" by (intro go_row_inj) auto
  moreover have "map (\<lambda>c. (Namespace c, FieldName c, FieldNumber c, Message c)) cs
    = map (\<lambda>c. (Namespace c, FieldName c, FieldNumber c, Message c)) es"
    using Cons.IH [OF ds(3)] Cons.prems(2) ds(1) by auto
  ultimately show ?case using ds(1) by simp
qed simp

text \<open>C35:
  the Go catalog loses nothing: two admitted lists that render the same Go source have the same
  namespaces, names, numbers and messages, in the same order.
\<close>

theorem RenderGo_injective:
  assumes "Validate is_print cs = None" and "Validate is_print ds = None"
    and "RenderGo is_print cs = RenderGo is_print ds"
  shows "map (\<lambda>c. (Namespace c, FieldName c, FieldNumber c, Message c)) cs
    = map (\<lambda>c. (Namespace c, FieldName c, FieldNumber c, Message c)) ds"
proof -
  have w: "words c" if "c \<in> set cs \<union> set ds" for c
    using that Validate_words [OF assms(1)] Validate_words [OF assms(2)] by blast
  have rows: "RenderGo is_print es = concat (map line (go_head @ map go_row es @ go_tail))"
    if "set es \<subseteq> set cs \<union> set ds" for es
    using that quoted_words [OF w] unfolding RenderGo_def go_head_def go_tail_def GoCatalogPackage_def
    by (simp add: go_row_def comp_def subset_iff cong: map_cong)
  have fine: "\<forall>l \<in> set (go_head @ map go_row es @ go_tail). lined l" if "set es \<subseteq> set cs \<union> set ds" for es
    using that lined_rows [OF w] by (auto simp: go_head_def go_tail_def generated_header_def byte_def)
  have split: "split_on newline (RenderGo is_print es) = go_head @ map go_row es @ go_tail @ ['''']"
    if "set es \<subseteq> set cs \<union> set ds" for es
    using split_lines [OF fine [OF that], of "[]"] by (simp add: rows [OF that])
  from split [of cs] split [of ds] assms(3) have "map go_row cs = map go_row ds" by simp
  then show ?thesis
    by (rule rows_inj) (use w Validate_number [OF assms(1)] Validate_number [OF assms(2)] in auto)
qed

section \<open>An example contribution\<close>

definition sample_contribution :: Contribution where
  "sample_contribution = \<lparr>Namespace = ''a-b'', ProtoImport = ''a/b.proto'', Message = ''a.B'',
     FieldName = ''a_b'', FieldNumber = 7\<rparr>"

lemma sample_valid: "Validate (\<lambda>r. True) [sample_contribution] = None"
  by code_simp

theorem RenderProto_lines_witness:
  "length (split_on newline (RenderProto (\<lambda>r. True) [sample_contribution])) = 11"
  unfolding RenderProto_lines [OF sample_valid] by (simp add: proto_head_def)

theorem Render_rows_witness:
  "go_row sample_contribution \<in> set (split_on newline (RenderGo (\<lambda>r. True) [sample_contribution]))"
  using Render_rows [OF sample_valid] by simp

theorem RenderGo_injective_witness:
  "map FieldNumber [sample_contribution] = [7]
   \<and> map (\<lambda>c. (Namespace c, FieldName c, FieldNumber c, Message c)) [sample_contribution]
     = map (\<lambda>c. (Namespace c, FieldName c, FieldNumber c, Message c)) [sample_contribution]"
  using RenderGo_injective [OF sample_valid sample_valid refl] by (simp add: sample_contribution_def)

end
