(* ===== verification/GoUrl.thy ===== *)
theory GoUrl
  imports Prelude
begin

text \<open>
  What the source uses of \<^verbatim>\<open>net/url\<close> and \<^verbatim>\<open>net\<close>: \<^verbatim>\<open>url.Parse\<close>, \<^verbatim>\<open>URL.Hostname\<close> and \<^verbatim>\<open>URL.String\<close>,
  \<^verbatim>\<open>net.SplitHostPort\<close>, \<^verbatim>\<open>net.JoinHostPort\<close>, and \<^verbatim>\<open>net.ParseIP\<close> with \<^verbatim>\<open>IP.IsLoopback\<close>. The rules are
  those of the Go release go.mod names (strict colons in a host, bracketed hosts are IPv6).
\<close>

section \<open>Finding bytes\<close>

fun index_of :: "char \<Rightarrow> string \<Rightarrow> nat option" where
  "index_of d [] = None"
| "index_of d (c # s) = (if c = d then Some 0 else map_option Suc (index_of d s))"

definition last_index :: "char \<Rightarrow> string \<Rightarrow> nat option" where
  "last_index d s = map_option (\<lambda>i. length s - 1 - i) (index_of d (rev s))"

text \<open>\<^verbatim>\<open>strings.Cut\<close> at a byte: what is before it, what is after it, and whether it occurs.\<close>

definition cut :: "char \<Rightarrow> string \<Rightarrow> string \<times> string \<times> bool" where
  "cut d s = (case index_of d s of None \<Rightarrow> (s, [], False) | Some i \<Rightarrow> (take i s, drop (Suc i) s, True))"

fun index_of_sub :: "string \<Rightarrow> string \<Rightarrow> nat option" where
  "index_of_sub p [] = (if p = [] then Some 0 else None)"
| "index_of_sub p (c # s) =
     (if has_prefix (c # s) p then Some 0 else map_option Suc (index_of_sub p s))"

lemma index_of_None: "index_of d s = None \<longleftrightarrow> d \<notin> set s"
  by (induction s) auto

lemma index_of_Some: "index_of d s = Some i \<Longrightarrow> i < length s \<and> s ! i = d \<and> d \<notin> set (take i s)"
  by (induction s arbitrary: i) (auto split: if_splits)

lemma index_of_append: "d \<notin> set s \<Longrightarrow> index_of d (s @ d # t) = Some (length s)"
  by (induction s) auto

lemma index_of_append_in: "d \<in> set s \<Longrightarrow> index_of d (s @ t) = index_of d s"
  by (induction s) auto

lemma index_of_append_notin:
  "d \<notin> set s \<Longrightarrow> index_of d (s @ t) = map_option (\<lambda>i. length s + i) (index_of d t)"
  by (induction s) (cases "index_of d t"; auto)+

lemma last_index_None: "last_index d s = None \<longleftrightarrow> d \<notin> set s"
  by (simp add: last_index_def index_of_None)

lemma last_index_append: "d \<notin> set t \<Longrightarrow> last_index d (s @ d # t) = Some (length s)"
  using index_of_append [of d "rev t" "rev s"] by (simp add: last_index_def)

lemma last_index_split:
  assumes "last_index d s = Some i"
  shows "s = take i s @ d # drop (Suc i) s \<and> d \<notin> set (drop (Suc i) s) \<and> i < length s"
proof -
  from assms obtain j where j: "index_of d (rev s) = Some j" "i = length s - 1 - j"
    by (auto simp: last_index_def)
  from index_of_Some [OF j(1)] have *: "j < length s" "rev s ! j = d" "d \<notin> set (take j (rev s))"
    by auto
  with j have i: "i < length s" "s ! i = d" by (auto simp: rev_nth)
  from i id_take_nth_drop [of i s] have "s = take i s @ d # drop (Suc i) s" by simp
  moreover from * j i have "rev (take j (rev s)) = drop (Suc i) s"
    by (simp add: rev_take Suc_diff_Suc)
  with *(3) have "d \<notin> set (drop (Suc i) s)" by (metis set_rev)
  ultimately show ?thesis using i by simp
qed

lemma cut_notin: "d \<notin> set s \<Longrightarrow> cut d s = (s, [], False)"
  by (simp add: cut_def index_of_None [THEN iffD2])

lemma cut_append: "d \<notin> set s \<Longrightarrow> cut d (s @ d # t) = (s, t, True)"
  by (simp add: cut_def index_of_append)

section \<open>Percent-encoding\<close>

definition hex_val :: "char \<Rightarrow> nat option" where
  "hex_val c = (if 48 \<le> byte c \<and> byte c \<le> 57 then Some (byte c - 48)
     else if 97 \<le> byte c \<and> byte c \<le> 102 then Some (byte c - 87)
     else if 65 \<le> byte c \<and> byte c \<le> 70 then Some (byte c - 55) else None)"

definition alpha :: "char \<Rightarrow> bool" where
  "alpha c \<longleftrightarrow> (97 \<le> byte c \<and> byte c \<le> 122) \<or> (65 \<le> byte c \<and> byte c \<le> 90)"

datatype url_mode = encodePath | encodeHost | encodeZone | encodeUserPassword | encodeFragment

definition should_escape :: "char \<Rightarrow> url_mode \<Rightarrow> bool" where
  "should_escape c m =
     (if alpha c \<or> is_digit c then False
      else if m \<in> {encodeHost, encodeZone} \<and> c \<in> set ''!$&()*+,;=:[]<>'' \<union> {CHR 0x27, CHR 0x22}
      then False
      else if c \<in> set ''-_.~'' then False
      else if c \<in> set ''$&+,/:;=?@'' then
        (case m of encodePath \<Rightarrow> c = CHR ''?'' | encodeUserPassword \<Rightarrow> c \<in> set ''@/?:''
         | encodeFragment \<Rightarrow> False | _ \<Rightarrow> True)
      else if m = encodeFragment \<and> c \<in> set ''!()*'' then False
      else True)"

text \<open>\<^verbatim>\<open>unescape\<close>; None is its error.\<close>

fun url_unescape :: "url_mode \<Rightarrow> string \<Rightarrow> string option" where
  "url_unescape m [] = Some []"
| "url_unescape m (c # s) =
     (if c = CHR ''%'' then
        (case s of
           a # b # t \<Rightarrow>
             (case (hex_val a, hex_val b) of
                (Some x, Some y) \<Rightarrow>
                  (if m = encodeHost \<and> x < 8 \<and> \<not> (a = CHR ''2'' \<and> b = CHR ''5'') then None
                   else if m = encodeZone \<and> \<not> (a = CHR ''2'' \<and> b = CHR ''5'') \<and>
                           x * 16 + y \<noteq> 32 \<and> should_escape (char_of (x * 16 + y)) encodeHost
                   then None
                   else map_option (Cons (char_of (x * 16 + y))) (url_unescape m t))
              | _ \<Rightarrow> None)
         | _ \<Rightarrow> None)
      else if m \<in> {encodeHost, encodeZone} \<and> byte c < 128 \<and> should_escape c m then None
      else map_option (Cons c) (url_unescape m s))"

definition upper_hex :: "nat \<Rightarrow> char" where
  "upper_hex d = (if d < 10 then char_of (48 + d) else char_of (55 + d))"

fun url_escape :: "url_mode \<Rightarrow> string \<Rightarrow> string" where
  "url_escape m [] = []"
| "url_escape m (c # s) =
     (if should_escape c m
      then CHR ''%'' # upper_hex (byte c div 16) # upper_hex (byte c mod 16) # url_escape m s
      else c # url_escape m s)"

definition valid_encoded_path :: "string \<Rightarrow> bool" where
  "valid_encoded_path s \<longleftrightarrow>
     list_all (\<lambda>c. c \<in> set ''!$&()*+,;=:@[]%'' \<or> c = CHR 0x27 \<or> \<not> should_escape c encodePath) s"

section \<open>IP addresses\<close>

definition parse_ipv4_field :: "string \<Rightarrow> nat option" where
  "parse_ipv4_field f =
     (if f = [] \<or> \<not> list_all is_digit f \<or> (length f > 1 \<and> hd f = CHR ''0'') \<or> digits_val f > 255
      then None else Some (digits_val f))"

definition parse_ipv4 :: "string \<Rightarrow> nat list option" where
  "parse_ipv4 s =
     (let fs = map parse_ipv4_field (split_on (CHR ''.'') s)
      in if length fs = 4 \<and> list_all (\<lambda>x. x \<noteq> None) fs then Some (map the fs) else None)"

fun hex_run :: "string \<Rightarrow> string" where
  "hex_run [] = []"
| "hex_run (c # s) = (if hex_val c = None then [] else c # hex_run s)"

definition hex_group :: "string \<Rightarrow> nat" where
  "hex_group s = foldl (\<lambda>acc c. 16 * acc + the (hex_val c)) 0 s"

text \<open>
  The loop of \<^verbatim>\<open>netip.parseIPv6\<close>: \<open>acc\<close> are the bytes read so far and \<open>ell\<close> is the position of the
  \<open>::\<close>. The result carries the bytes, the position and what is left of the input.
\<close>

function ipv6_loop ::
  "string \<Rightarrow> nat list \<Rightarrow> nat option \<Rightarrow> (nat list \<times> nat option \<times> string) option" where
  "ipv6_loop s acc ell =
     (if 16 \<le> length acc then Some (acc, ell, s)
      else let h = hex_run s; r = drop (length h) s in
        if h = [] \<or> length h > 4 then None
        else if r \<noteq> [] \<and> hd r = CHR ''.'' then
          (if (ell = None \<and> length acc \<noteq> 12) \<or> length acc + 4 > 16 then None
           else case parse_ipv4 s of None \<Rightarrow> None | Some bs \<Rightarrow> Some (acc @ bs, ell, []))
        else let acc' = acc @ [hex_group h div 256, hex_group h mod 256] in
          if r = [] then Some (acc', ell, [])
          else if hd r \<noteq> CHR '':'' \<or> tl r = [] then None
          else if hd (tl r) = CHR '':'' then
            (if ell \<noteq> None then None
             else if tl (tl r) = [] then Some (acc', Some (length acc'), [])
             else ipv6_loop (tl (tl r)) acc' (Some (length acc')))
          else ipv6_loop (tl r) acc' ell)"
  by pat_completeness auto
termination
  by (relation "measure (\<lambda>(s, acc, ell). length s)") (auto simp: neq_Nil_conv)

declare ipv6_loop.simps [simp del]

definition parse_ipv6 :: "string \<Rightarrow> nat list option" where
  "parse_ipv6 s =
     (let (ell, s) = (if has_prefix s ''::'' then (Some 0, drop 2 s) else (None, s))
      in if ell = Some 0 \<and> s = [] then Some (replicate 16 0)
         else case ipv6_loop s [] ell of
           None \<Rightarrow> None
         | Some (bs, ell, rest) \<Rightarrow>
             (if rest \<noteq> [] then None
              else if length bs < 16 then
                (case ell of None \<Rightarrow> None
                 | Some k \<Rightarrow> Some (take k bs @ replicate (16 - length bs) 0 @ drop k bs))
              else if ell \<noteq> None then None else Some bs))"

text \<open>\<^verbatim>\<open>net.ParseIP\<close>: the first of \<open>.\<close>, \<open>:\<close> and \<open>%\<close> decides; a zone is refused.\<close>

datatype ip = IP4 "nat list" | IP6 "nat list"

definition ParseIP :: "string \<Rightarrow> ip option" where
  "ParseIP s = (case dropWhile (\<lambda>c. c \<notin> set ''.:%'') s of
       [] \<Rightarrow> None
     | c # _ \<Rightarrow>
       (if c = CHR ''.'' then map_option IP4 (parse_ipv4 s)
        else if c = CHR '':'' \<and> CHR ''%'' \<notin> set s then map_option IP6 (parse_ipv6 s)
        else None))"

definition v4_in_v6 :: "nat list \<Rightarrow> bool" where
  "v4_in_v6 bs \<longleftrightarrow> take 12 bs = replicate 10 0 @ [255, 255]"

fun IsLoopback :: "ip \<Rightarrow> bool" where
  "IsLoopback (IP4 bs) \<longleftrightarrow> hd bs = 127"
| "IsLoopback (IP6 bs) \<longleftrightarrow>
     (if v4_in_v6 bs then bs ! 12 = 127 else bs = replicate 15 0 @ [1])"

section \<open>Host and port\<close>

definition SplitHostPort :: "string \<Rightarrow> (string \<times> string) option" where
  "SplitHostPort s = (case last_index (CHR '':'') s of
       None \<Rightarrow> None
     | Some i \<Rightarrow>
       (if hd s = CHR ''['' then
          (case index_of (CHR '']'') s of
             None \<Rightarrow> None
           | Some e \<Rightarrow>
             (if Suc e \<noteq> i \<or> CHR ''['' \<in> set (drop 1 s) \<or> CHR '']'' \<in> set (drop (Suc e) s) then None
              else Some (take (e - 1) (drop 1 s), drop (Suc i) s)))
        else if CHR '':'' \<in> set (take i s) \<or> CHR ''['' \<in> set s \<or> CHR '']'' \<in> set s then None
        else Some (take i s, drop (Suc i) s)))"

definition JoinHostPort :: "string \<Rightarrow> string \<Rightarrow> string" where
  "JoinHostPort h p =
     (if CHR '':'' \<in> set h then CHR ''['' # h @ '']:'' @ p else h @ CHR '':'' # p)"

section \<open>url.Parse\<close>

record url =
  u_Scheme :: string
  u_Opaque :: string
  u_User :: "(string \<times> string option) option"
  u_Host :: string
  u_Path :: string
  u_RawPath :: string
  u_ForceQuery :: bool
  u_RawQuery :: string
  u_Fragment :: string

definition empty_url :: url where
  "empty_url = \<lparr>u_Scheme = [], u_Opaque = [], u_User = None, u_Host = [], u_Path = [],
     u_RawPath = [], u_ForceQuery = False, u_RawQuery = [], u_Fragment = []\<rparr>"

definition valid_optional_port :: "string \<Rightarrow> bool" where
  "valid_optional_port p \<longleftrightarrow> (case p of [] \<Rightarrow> True | c # ds \<Rightarrow> c = CHR '':'' \<and> list_all is_digit ds)"

fun scheme_end :: "string \<Rightarrow> nat option" where
  "scheme_end [] = None"
| "scheme_end (c # s) =
     (if c = CHR '':'' then Some 0
      else if alpha c \<or> is_digit c \<or> c \<in> set ''+-.'' then map_option Suc (scheme_end s) else None)"

definition get_scheme :: "string \<Rightarrow> (string \<times> string) option" where
  "get_scheme s = (case s of
       [] \<Rightarrow> Some ([], s)
     | c # _ \<Rightarrow>
       (if c = CHR '':'' then None
        else if \<not> alpha c then Some ([], s)
        else case scheme_end s of None \<Rightarrow> Some ([], s) | Some i \<Rightarrow> Some (take i s, drop (Suc i) s)))"

definition parse_host :: "string \<Rightarrow> string \<Rightarrow> string option" where
  "parse_host scheme host = (case last_index (CHR ''['') host of
       Some (Suc _) \<Rightarrow> None
     | Some 0 \<Rightarrow>
       (case last_index (CHR '']'') host of
          None \<Rightarrow> None
        | Some e \<Rightarrow>
          (let port = drop (Suc e) host; name = take (e - 1) (drop 1 host) in
           if \<not> valid_optional_port port then None
           else case (case index_of_sub ''%25'' name of
                   None \<Rightarrow> url_unescape encodeHost name
                 | Some z \<Rightarrow>
                   (case (url_unescape encodeHost (take z name), url_unescape encodeZone (drop z name)) of
                      (Some a, Some b) \<Rightarrow> Some (a @ b) | _ \<Rightarrow> None)) of
             None \<Rightarrow> None
           | Some n \<Rightarrow>
             (case cut (CHR ''%'') n of (addr, zone, zoned) \<Rightarrow>
              if CHR '':'' \<notin> set addr \<or> parse_ipv6 addr = None \<or> (zoned \<and> zone = []) then None
              else Some (CHR ''['' # n @ CHR '']'' # port))))
     | None \<Rightarrow>
       (case (if scheme \<in> {''postgres'', ''postgresql''} then last_index (CHR '':'') host
              else index_of (CHR '':'') host) of
          None \<Rightarrow> url_unescape encodeHost host
        | Some i \<Rightarrow>
          (if valid_optional_port (drop i host) then url_unescape encodeHost host else None)))"

definition valid_userinfo :: "string \<Rightarrow> bool" where
  "valid_userinfo s \<longleftrightarrow>
     list_all (\<lambda>c. alpha c \<or> is_digit c \<or> c \<in> set ''-._:~!$&()*+,;=%@'' \<or> c = CHR 0x27) s"

definition parse_userinfo :: "string \<Rightarrow> (string \<times> string option) option" where
  "parse_userinfo s =
     (if \<not> valid_userinfo s then None
      else case cut (CHR '':'') s of
        (u, p, has) \<Rightarrow>
          (case (url_unescape encodeUserPassword u, url_unescape encodeUserPassword p) of
             (Some u, Some p) \<Rightarrow> Some (u, if has then Some p else None)
           | _ \<Rightarrow> None))"

definition parse_authority ::
  "string \<Rightarrow> string \<Rightarrow> ((string \<times> string option) option \<times> string) option" where
  "parse_authority scheme a = (case last_index (CHR ''@'') a of
       None \<Rightarrow> map_option (Pair None) (parse_host scheme a)
     | Some i \<Rightarrow>
       (case (parse_host scheme (drop (Suc i) a), parse_userinfo (take i a)) of
          (Some h, Some u) \<Rightarrow> Some (Some u, h)
        | _ \<Rightarrow> None))"

definition set_path :: "string \<Rightarrow> url \<Rightarrow> url option" where
  "set_path p u = (case url_unescape encodePath p of
       None \<Rightarrow> None
     | Some path \<Rightarrow>
         Some (u\<lparr>u_Path := path, u_RawPath := (if p = url_escape encodePath path then [] else p)\<rparr>))"

definition cut_query :: "string \<Rightarrow> string \<times> string \<times> bool" where
  "cut_query rest =
     (if rest \<noteq> [] \<and> last rest = CHR ''?'' \<and> CHR ''?'' \<notin> set (butlast rest)
      then (butlast rest, [], True)
      else case cut (CHR ''?'') rest of (p, q, _) \<Rightarrow> (p, q, False))"

definition parse_hier :: "string \<Rightarrow> string \<Rightarrow> url \<Rightarrow> url option" where
  "parse_hier scheme rest u =
     (if \<not> has_prefix rest ''/'' \<and> scheme \<noteq> [] then Some (u\<lparr>u_Opaque := rest\<rparr>)
      else if \<not> has_prefix rest ''/'' \<and> CHR '':'' \<in> set (fst (cut (CHR ''/'') rest)) then None
      else if (scheme \<noteq> [] \<or> \<not> has_prefix rest ''///'') \<and> has_prefix rest ''//'' then
        (let (a, p) = (case index_of (CHR ''/'') (drop 2 rest) of
               None \<Rightarrow> (drop 2 rest, [])
             | Some i \<Rightarrow> (take i (drop 2 rest), drop i (drop 2 rest)))
         in case parse_authority scheme a of
              None \<Rightarrow> None
            | Some (user, host) \<Rightarrow> set_path p (u\<lparr>u_User := user, u_Host := host\<rparr>))
      else set_path rest u)"

definition url_parse_nofrag :: "string \<Rightarrow> url option" where
  "url_parse_nofrag s =
     (if list_ex (\<lambda>c. byte c < 32 \<or> byte c = 127) s then None
      else if s = ''*'' then Some (empty_url\<lparr>u_Path := ''*''\<rparr>)
      else case get_scheme s of
        None \<Rightarrow> None
      | Some (scheme, rest) \<Rightarrow>
        (case cut_query rest of
           (p, q, force) \<Rightarrow>
             parse_hier (to_lower scheme) p
               (empty_url\<lparr>u_Scheme := to_lower scheme, u_RawQuery := q, u_ForceQuery := force\<rparr>)))"

definition url_Parse :: "string \<Rightarrow> url option" where
  "url_Parse s = (case cut (CHR ''#'') s of
       (u, frag, _) \<Rightarrow>
         (case url_parse_nofrag u of
            None \<Rightarrow> None
          | Some r \<Rightarrow>
            (if frag = [] then Some r
             else map_option (\<lambda>f. r\<lparr>u_Fragment := f\<rparr>) (url_unescape encodeFragment frag))))"

section \<open>URL methods\<close>

definition Hostname :: "url \<Rightarrow> string" where
  "Hostname u =
     (let h = (case last_index (CHR '':'') (u_Host u) of
            Some i \<Rightarrow> (if valid_optional_port (drop i (u_Host u)) then take i (u_Host u) else u_Host u)
          | None \<Rightarrow> u_Host u)
      in if has_prefix h ''['' \<and> has_suffix h '']'' then butlast (drop 1 h) else h)"

definition EscapedPath :: "url \<Rightarrow> string" where
  "EscapedPath u =
     (if u_RawPath u \<noteq> [] \<and> valid_encoded_path (u_RawPath u) \<and>
         url_unescape encodePath (u_RawPath u) = Some (u_Path u)
      then u_RawPath u
      else if u_Path u = ''*'' then ''*'' else url_escape encodePath (u_Path u))"

text \<open>
  \<^verbatim>\<open>URL.String\<close> of a URL with a scheme and a host and without userinfo or fragment: the source
  prints no other.
\<close>

definition url_String :: "url \<Rightarrow> string" where
  "url_String u =
     u_Scheme u @ ''://'' @ url_escape encodeHost (u_Host u) @
     (let p = EscapedPath u in if p \<noteq> [] \<and> hd p \<noteq> CHR ''/'' then CHR ''/'' # p else p) @
     (if u_ForceQuery u \<or> u_RawQuery u \<noteq> [] then CHR ''?'' # u_RawQuery u else [])"

lemma last_index_colon_free: "CHR '':'' \<notin> set s \<Longrightarrow> last_index (CHR '':'') s = None"
  by (simp add: last_index_None)

section \<open>Escaping and parsing back\<close>

lemma byte_less [simp]: "byte c < 256"
  by (simp add: byte_def)

lemma byte_upper_hex: "d < 16 \<Longrightarrow> byte (upper_hex d) = (if d < 10 then 48 + d else 55 + d)"
  by (simp add: upper_hex_def byte_def)

lemma hex_val_upper_hex [simp]: "d < 16 \<Longrightarrow> hex_val (upper_hex d) = Some d"
  by (simp add: hex_val_def byte_upper_hex)

lemma upper_hex_alnum: "d < 16 \<Longrightarrow> is_digit (upper_hex d) \<or> alpha (upper_hex d)"
  by (simp add: is_digit_def alpha_def byte_upper_hex)

lemma byte_div_mod: "byte c div 16 < 16" "byte c mod 16 < 16"
  using byte_less [of c] by (simp_all del: byte_less)

lemma char_of_byte [simp]: "char_of (byte c) = c"
  by (simp add: byte_def)

lemma percent_byte [simp]: "char_of (37::nat) = CHR ''%''"
  by code_simp

lemma percent_escaped [simp]: "should_escape (CHR ''%'') m"
  by (cases m) (simp_all add: should_escape_def alpha_def is_digit_def byte_def)

text \<open>In a path every byte comes back.\<close>

lemma unescape_escape_path [simp]: "url_unescape encodePath (url_escape encodePath s) = Some s"
proof (induction s)
  case (Cons c s)
  then show ?case
    by (cases "should_escape c encodePath") (auto simp: byte_div_mod)
qed simp

text \<open>The bytes a parsed host can hold, and that they come back too.\<close>

definition host_byte :: "char \<Rightarrow> bool" where
  "host_byte c \<longleftrightarrow> 128 \<le> byte c \<or> c = CHR ''%'' \<or> \<not> should_escape c encodeHost"

lemma hex_pair_byte: "x < 16 \<Longrightarrow> y < 16 \<Longrightarrow> byte (char_of (x * 16 + y)) = x * 16 + y"
  for x y :: nat by (simp add: byte_def)

lemma hex_val_lt: "hex_val a = Some x \<Longrightarrow> x < 16"
  by (auto simp: hex_val_def split: if_splits)

lemma unescape_host_byte:
  assumes "hex_val a = Some x" and "hex_val b = Some y" and
    "\<not> (x < 8 \<and> \<not> (a = CHR ''2'' \<and> b = CHR ''5''))"
  shows "char_of (x * 16 + y) = CHR ''%'' \<or> 128 \<le> byte (char_of (x * 16 + y))"
proof (cases "x < 8")
  case True
  with assms have "a = CHR ''2''" "b = CHR ''5''" by auto
  with assms(1,2) have "x = 2" "y = 5" by (simp_all add: hex_val_def byte_def)
  then show ?thesis by simp
next
  case False
  with hex_pair_byte [OF hex_val_lt hex_val_lt, OF assms(1,2)] show ?thesis by simp
qed

lemma unescape_step:
  assumes "url_unescape m (c # s) = Some h"
  obtains (percent) a b t x y h' where "c = CHR ''%''" "s = a # b # t" "hex_val a = Some x"
      "hex_val b = Some y" "url_unescape m t = Some h'" "h = char_of (x * 16 + y) # h'"
      "m = encodeHost \<Longrightarrow> \<not> (x < 8 \<and> \<not> (a = CHR ''2'' \<and> b = CHR ''5''))"
  | (plain) h' where "c \<noteq> CHR ''%''" "url_unescape m s = Some h'" "h = c # h'"
      "m = encodeHost \<Longrightarrow> 128 \<le> byte c \<or> \<not> should_escape c encodeHost"
proof (cases "c = CHR ''%''")
  case True
  with assms obtain a b t where s: "s = a # b # t"
    by (auto split: list.splits)
  from assms True s obtain x y where "hex_val a = Some x" "hex_val b = Some y"
    by (auto split: option.splits)
  moreover from this assms True s obtain h' where "url_unescape m t = Some h'"
      "h = char_of (x * 16 + y) # h'"
    by (auto split: if_splits)
  moreover from calculation assms True s
  have "m = encodeHost \<Longrightarrow> \<not> (x < 8 \<and> \<not> (a = CHR ''2'' \<and> b = CHR ''5''))"
    by (auto split: if_splits)
  ultimately show thesis using True s percent by blast
next
  case False
  with assms obtain h' where "url_unescape m s = Some h'" "h = c # h'"
    by (auto split: if_splits)
  moreover have "m = encodeHost \<Longrightarrow> 128 \<le> byte c \<or> \<not> should_escape c encodeHost"
    using False assms by (auto split: if_splits)
  ultimately show thesis using False plain by blast
qed

lemma unescape_host_bytes:
  "url_unescape encodeHost s = Some h \<Longrightarrow> list_all host_byte h"
proof (induction "length s" arbitrary: s h rule: less_induct)
  case less
  show ?case
  proof (cases s)
    case (Cons c t)
    from less.prems [unfolded Cons] show ?thesis
    proof (cases rule: unescape_step)
      case (percent a b t' x y h')
      then show ?thesis
        using less.hyps [of t' h'] unescape_host_byte [of a x b y] Cons
        by (auto simp: host_byte_def)
    next
      case (plain h')
      then show ?thesis using less.hyps [of t h'] Cons by (auto simp: host_byte_def)
    qed
  qed (use less.prems in simp)
qed

lemma unescape_escape_host:
  "list_all host_byte h \<Longrightarrow> url_unescape encodeHost (url_escape encodeHost h) = Some h"
proof (induction h)
  case (Cons c h)
  show ?case
  proof (cases "should_escape c encodeHost")
    case True
    with Cons.prems have "128 \<le> byte c \<or> c = CHR ''%''" by (auto simp: host_byte_def)
    moreover have "upper_hex 2 = CHR ''2''" "upper_hex 5 = CHR ''5''" "byte (CHR ''%'') = 37"
      by code_simp+
    ultimately show ?thesis using True Cons by (auto simp: byte_div_mod)
  next
    case False
    then have "c \<noteq> CHR ''%''" by auto
    with False Cons show ?thesis by simp
  qed
qed simp

lemma escape_bytes:
  "c \<in> set (url_escape m s) \<Longrightarrow>
     c = CHR ''%'' \<or> (is_digit c \<or> alpha c) \<or> (c \<in> set s \<and> \<not> should_escape c m)"
proof (induction s)
  case (Cons a s)
  have "is_digit (upper_hex (byte a div 16)) \<or> alpha (upper_hex (byte a div 16))"
    "is_digit (upper_hex (byte a mod 16)) \<or> alpha (upper_hex (byte a mod 16))"
    using upper_hex_alnum byte_div_mod by blast+
  with Cons show ?case by (auto split: if_splits)
qed simp

section \<open>Printing a URL and parsing it back\<close>

definition host_extra :: string where
  "host_extra = CHR 0x27 # CHR 0x22 # ''!$&()*+,;=:[]<>''"

lemma unescaped_cases:
  assumes "\<not> should_escape c m"
  shows "alpha c \<or> is_digit c \<or> (m \<in> {encodeHost, encodeZone} \<and> c \<in> set host_extra) \<or>
    c \<in> set ''-_.~'' \<or>
    (m \<in> {encodePath, encodeUserPassword, encodeFragment} \<and> c \<in> set ''$&+,/:;=?@'' \<and>
     (m = encodePath \<longrightarrow> c \<noteq> CHR ''?'')) \<or>
    (m = encodeFragment \<and> c \<in> set ''!()*'')"
proof -
  have extra: "set host_extra = set ''!$&()*+,;=:[]<>'' \<union> {CHR 0x27, CHR 0x22}"
    by (auto simp: host_extra_def)
  show ?thesis
  proof (cases "alpha c \<or> is_digit c \<or> (m \<in> {encodeHost, encodeZone} \<and> c \<in> set host_extra) \<or>
      c \<in> set ''-_.~''")
    case False
    with assms have "if c \<in> set ''$&+,/:;=?@'' then
        \<not> (case m of encodePath \<Rightarrow> c = CHR ''?'' | encodeUserPassword \<Rightarrow> c \<in> set ''@/?:''
         | encodeFragment \<Rightarrow> False | _ \<Rightarrow> True)
      else m = encodeFragment \<and> c \<in> set ''!()*''"
      unfolding should_escape_def extra by argo
    then show ?thesis by (cases m) (simp_all only: url_mode.case split: if_splits, blast+)
  qed blast
qed

lemma alnum_range: "alpha c \<or> is_digit c \<Longrightarrow> 33 \<le> byte c \<and> byte c \<le> 126"
  by (auto simp: alpha_def is_digit_def)

lemma alnum_not: "alpha c \<or> is_digit c \<Longrightarrow> c \<notin> set ''/@:[]%?#''"
  by (auto simp: alpha_def is_digit_def byte_def)

lemma extra_range:
  "c \<in> set host_extra \<Longrightarrow> 33 \<le> byte c \<and> byte c \<le> 126 \<and> c \<notin> set ''/?@%#''"
  by (auto simp: host_extra_def byte_def)

lemma mark_range: "c \<in> set ''-_.~'' \<Longrightarrow> 33 \<le> byte c \<and> byte c \<le> 126 \<and> c \<notin> set ''/?@%#''"
  by (auto simp: byte_def)

lemma sub_range: "c \<in> set ''$&+,/:;=?@'' \<Longrightarrow> 33 \<le> byte c \<and> byte c \<le> 126 \<and> c \<notin> set ''%#''"
  by (auto simp: byte_def)

lemma frag_range: "c \<in> set ''!()*'' \<Longrightarrow> 33 \<le> byte c \<and> byte c \<le> 126 \<and> c \<notin> set ''/?@%#''"
  by (auto simp: byte_def)

lemmas byte_ranges = alnum_range extra_range mark_range sub_range frag_range

lemma hash_in: "c \<notin> set ''/@:[]%?#'' \<Longrightarrow> c \<notin> set ''/?@%#''" "c \<notin> set ''/?@%#'' \<Longrightarrow> c \<noteq> CHR ''#''"
  "c \<notin> set ''%#'' \<Longrightarrow> c \<noteq> CHR ''#''" "c \<notin> set ''/?@%#'' \<Longrightarrow> c \<noteq> CHR ''?''"
  by auto

lemma unescaped_range: "\<not> should_escape c m \<Longrightarrow> 33 \<le> byte c \<and> byte c \<le> 126 \<and> c \<noteq> CHR ''#''"
  using unescaped_cases [of c m] byte_ranges [of c] alnum_not [of c] hash_in by metis

lemma unescaped_host:
  assumes "\<not> should_escape c encodeHost"
  shows "c \<notin> set ''/?@%#''"
  using unescaped_cases [OF assms] byte_ranges [of c] alnum_not [of c] hash_in(1)
    url_mode.distinct by blast

lemma unescaped_path:
  assumes "\<not> should_escape c encodePath"
  shows "c \<noteq> CHR ''?''"
  using unescaped_cases [OF assms] byte_ranges [of c] alnum_not [of c] hash_in
    url_mode.distinct by blast

text \<open>Bytes that split no URL and are no control bytes.\<close>

definition calm :: "char \<Rightarrow> bool" where
  "calm c \<longleftrightarrow> 33 \<le> byte c \<and> byte c \<noteq> 127 \<and> c \<notin> set ''?#''"

lemma alnum_calm: "is_digit c \<or> alpha c \<Longrightarrow> calm c \<and> c \<notin> set ''/@:[]%?#''"
  by (auto simp: calm_def is_digit_def alpha_def byte_def)

lemma calm_percent [simp]: "calm (CHR ''%'')"
  by (simp add: calm_def byte_def)

lemma unescaped_calm: "\<not> should_escape c m \<Longrightarrow> c \<noteq> CHR ''?'' \<Longrightarrow> calm c"
  using unescaped_range [of c m] by (auto simp: calm_def)

lemma escaped_host_bytes:
  "c \<in> set (url_escape encodeHost h) \<Longrightarrow> calm c \<and> c \<notin> set ''/@''"
  using escape_bytes [of c encodeHost h] alnum_calm [of c] unescaped_host [of c]
    unescaped_calm [of c encodeHost]
  by auto

lemma escaped_path_calm: "c \<in> set (url_escape encodePath p) \<Longrightarrow> calm c"
  using escape_bytes [of c encodePath p] alnum_calm [of c] unescaped_path [of c]
    unescaped_calm [of c encodePath]
  by auto

lemma EscapedPath_calm: "c \<in> set (EscapedPath u) \<Longrightarrow> calm c"
proof -
  have lit: "c \<in> set ''!$&()*+,;=:@[]%'' \<or> c = CHR 0x27 \<Longrightarrow> calm c"
    by (auto simp: calm_def byte_def)
  have "valid_encoded_path s \<Longrightarrow> c \<in> set s \<Longrightarrow> calm c" for s
    using unescaped_path [of c] unescaped_calm [of c encodePath] lit
    unfolding valid_encoded_path_def list_all_iff by blast
  moreover have "calm (CHR ''*'')" by (simp add: calm_def byte_def)
  ultimately show "c \<in> set (EscapedPath u) \<Longrightarrow> calm c"
    using escaped_path_calm by (auto simp: EscapedPath_def split: if_splits)
qed

lemma unescape_EscapedPath: "\<exists>q. url_unescape encodePath (EscapedPath u) = Some q"
  by (auto simp: EscapedPath_def)

lemma unescape_path_append:
  "url_unescape encodePath a = Some q \<Longrightarrow> CHR ''%'' \<notin> set b \<Longrightarrow>
     url_unescape encodePath (a @ b) = Some (q @ b)"
proof (induction "length a" arbitrary: a q rule: less_induct)
  case less
  have free: "CHR ''%'' \<notin> set b \<Longrightarrow> url_unescape encodePath b = Some b" for b
    by (induction b) auto
  show ?case
  proof (cases a)
    case Nil
    with less.prems free show ?thesis by simp
  next
    case (Cons c s)
    from less.prems(1) [unfolded Cons] show ?thesis
    proof (cases rule: unescape_step)
      case (percent x y t vx vy h')
      with less.hyps [of t h'] less.prems(2) Cons show ?thesis by simp
    next
      case (plain h')
      with less.hyps [of s h'] less.prems(2) Cons show ?thesis by simp
    qed
  qed
qed

lemma unescape_path_prefix:
  "url_unescape encodePath (a @ CHR ''/'' # b) = Some q \<Longrightarrow>
     \<exists>r. url_unescape encodePath a = Some r"
proof (induction "length a" arbitrary: a q rule: less_induct)
  case less
  show ?case
  proof (cases a)
    case (Cons c s)
    from less.prems [unfolded Cons append_Cons] show ?thesis
    proof (cases rule: unescape_step)
      case (percent x y t vx vy h')
      have no: "hex_val (CHR ''/'') = None" by (simp add: hex_val_def byte_def)
      obtain t' where t': "s = x # y # t'" "t = t' @ CHR ''/'' # b"
      proof (cases s)
        case Nil
        with percent no show thesis by auto
      next
        case (Cons x' s')
        with percent no that show thesis by (cases s') auto
      qed
      with less.hyps [of t' h'] percent Cons obtain r where
        "url_unescape encodePath t' = Some r" by auto
      with t' percent Cons show ?thesis by simp
    next
      case (plain h')
      with less.hyps [of s h'] Cons obtain r where "url_unescape encodePath s = Some r" by auto
      with plain Cons show ?thesis by simp
    qed
  qed simp
qed

text \<open>What follows the first colon of a host are digits, before and after decoding.\<close>

fun port_ok :: "string \<Rightarrow> bool" where
  "port_ok [] = True"
| "port_ok (c # s) = (if c = CHR '':'' then list_all is_digit s else port_ok s)"

lemma port_ok_iff:
  "port_ok s \<longleftrightarrow> (case index_of (CHR '':'') s of None \<Rightarrow> True
     | Some i \<Rightarrow> valid_optional_port (drop i s))"
  by (induction s) (auto simp: valid_optional_port_def split: option.splits)

lemma digit_unescaped: "is_digit c \<Longrightarrow> \<not> should_escape c m"
  by (simp add: should_escape_def)

lemma digits_unescape: "list_all is_digit s \<Longrightarrow> url_unescape m s = Some s"
proof (induction s)
  case (Cons c s)
  then have "c \<noteq> CHR ''%''" by (auto simp: is_digit_def byte_def)
  with Cons show ?case by (auto simp: digit_unescaped)
qed simp

lemma digits_escape: "list_all is_digit s \<Longrightarrow> url_escape m s = s"
  by (induction s) (auto simp: digit_unescaped)

lemma hex_not_colon: "hex_val a = Some x \<Longrightarrow> a \<noteq> CHR '':''"
  by (auto simp: hex_val_def byte_def)

lemma port_ok_unescape:
  "url_unescape encodeHost s = Some h \<Longrightarrow> port_ok s \<Longrightarrow> port_ok h"
proof (induction "length s" arbitrary: s h rule: less_induct)
  case less
  show ?case
  proof (cases s)
    case (Cons c t)
    from less.prems(1) [unfolded Cons] show ?thesis
    proof (cases rule: unescape_step)
      case (percent a b t' x y h')
      then have "char_of (x * 16 + y) = CHR ''%'' \<or> 128 \<le> byte (char_of (x * 16 + y))"
        using unescape_host_byte [of a x b y] by auto
      moreover have "byte (CHR '':'') = 58" by (simp add: byte_def)
      ultimately have "char_of (x * 16 + y) \<noteq> CHR '':''" by auto
      moreover have "port_ok t'"
        using less.prems(2) percent Cons hex_not_colon [of a] hex_not_colon [of b] by auto
      with percent less.hyps [of t' h'] Cons have "port_ok h'" by simp
      ultimately show ?thesis using percent by simp
    next
      case (plain h')
      with less.hyps [of t h'] less.prems(2) Cons digits_unescape [of t] show ?thesis
        by (auto split: if_splits)
    qed
  qed (use less.prems in simp)
qed

lemma port_ok_escape: "port_ok h \<Longrightarrow> port_ok (url_escape encodeHost h)"
proof (induction h)
  case (Cons c h)
  have colon: "\<not> should_escape (CHR '':'') encodeHost"
    by (simp add: should_escape_def alpha_def is_digit_def byte_def)
  have "d < 16 \<Longrightarrow> upper_hex d \<noteq> CHR '':''" for d
    using byte_upper_hex [of d] by (auto simp: byte_def split: if_splits)
  then have "upper_hex (byte c div 16) \<noteq> CHR '':''" "upper_hex (byte c mod 16) \<noteq> CHR '':''"
    using byte_div_mod by blast+
  with Cons colon show ?case by (auto simp: digits_escape)
qed simp

end
