(* ===== verification/MaErrors.thy ===== *)
theory MaErrors
  imports Prelude
begin

text \<open>
  moduleauthority/broker_errors.go and the package's sentinels: the errors of the module
  authority, with their texts and their \<^verbatim>\<open>Unwrap\<close> trees, and the classification of broker statuses
  and transport failures. An error of another package shows to \<^verbatim>\<open>errors.Is\<close> and \<^verbatim>\<open>errors.As\<close> what
  the record \<open>ext_err\<close> lists.
\<close>

section \<open>Sentinels\<close>

datatype ma_sentinel =
    ErrInvalidCredentials | ErrExecutionUnestablished | ErrInvalidExchange | ErrInvalidCapability
  | ErrNoHostStateToMintFor | ErrPermissionDenied | ErrInvalidSeams | ErrNoAuthority
  | ErrDelegationMissing | ErrDelegationRevoked | ErrDelegationInvalid
  | ErrInvalidAuthorityQuestion | ErrUnreadableAuthorityAnswer | ErrNoApprovalGrant
  | ErrInvalidArtifact | ErrInvalidNotice | ErrInvalidAuditEvent | ErrInvalidInstallation

fun ma_sentinel_text :: "ma_sentinel \<Rightarrow> string" where
  "ma_sentinel_text ErrInvalidCredentials = ''module authority: invalid module credentials''"
| "ma_sentinel_text ErrExecutionUnestablished =
     ''module authority: the host could not establish this pod's execution''"
| "ma_sentinel_text ErrInvalidExchange = ''module authority: invalid operation exchange''"
| "ma_sentinel_text ErrInvalidCapability =
     ''module authority: SaaS returned an invalid Work Context''"
| "ma_sentinel_text ErrNoHostStateToMintFor =
     ''module authority: the host holds no state to mint this module a capability against''"
| "ma_sentinel_text ErrPermissionDenied = ''module authority: permission denied''"
| "ma_sentinel_text ErrInvalidSeams = ''module authority: invalid seams''"
| "ma_sentinel_text ErrNoAuthority =
     ''module authority: this client has no authority endpoint''"
| "ma_sentinel_text ErrDelegationMissing =
     ''module authority: the source has no active delegation to this module''"
| "ma_sentinel_text ErrDelegationRevoked =
     ''module authority: the source's delegation was revoked''"
| "ma_sentinel_text ErrDelegationInvalid =
     ''module authority: the delegation is not one this module may use''"
| "ma_sentinel_text ErrInvalidAuthorityQuestion =
     ''module authority: invalid live-authority question''"
| "ma_sentinel_text ErrUnreadableAuthorityAnswer =
     ''module authority: unreadable live-authority answer''"
| "ma_sentinel_text ErrNoApprovalGrant =
     ''module authority: the issuer records no such approval grant''"
| "ma_sentinel_text ErrInvalidArtifact =
     ''module authority: invalid executable artifact request or receipt''"
| "ma_sentinel_text ErrInvalidNotice = ''module authority: invalid notice''"
| "ma_sentinel_text ErrInvalidAuditEvent =
     ''module authority: incomplete or invalid audit event''"
| "ma_sentinel_text ErrInvalidInstallation =
     ''module authority: invalid current installation request or response''"

section \<open>Errors of other packages\<close>

datatype sys_target = IsDeadlineExceeded | IsConnRefused | IsConnReset

datatype tls_type =
    CertificateVerificationError | RecordHeaderError | AlertError | UnknownAuthorityError
  | HostnameError | CertificateInvalidError | SystemRootsError

datatype core_sentinel = ErrNoSeal | ErrNoBinding

text \<open>
  \<open>x_timeout\<close> is \<^verbatim>\<open>Timeout()\<close> of a value that implements \<^verbatim>\<open>net.Error\<close>; \<open>x_is\<close> and \<open>x_tls\<close> are the
  targets and types it answers to; \<open>x_connect\<close> is the code of a \<^verbatim>\<open>connect.Error\<close>; \<open>x_core\<close> says
  which sentinel of core it is.
\<close>

record ext_err =
  x_text :: string
  x_timeout :: "bool option"
  x_is :: "sys_target list"
  x_tls :: "tls_type option"
  x_connect :: "connect_code option"
  x_core :: "core_sentinel option"

definition plain_ext :: "string \<Rightarrow> ext_err" where
  "plain_ext t = \<lparr>x_text = t, x_timeout = None, x_is = [], x_tls = None, x_connect = None,
     x_core = None\<rparr>"

section \<open>Broker errors\<close>

datatype BrokerErrorClass = BrokerErrorOther | BrokerErrorRefused | BrokerErrorNotEstablished

datatype BrokerTransportCategory =
    BrokerTransportOther | BrokerTransportTimeout | BrokerTransportConnectionRefused
  | BrokerTransportTLS | BrokerTransportConnectionReset

record BrokerError =
  StatusCode :: int
  Classification :: BrokerErrorClass

text \<open>A node: a sentinel, a formatted text, the two broker types, or another package's error.\<close>

datatype ma_label =
    MSentinel ma_sentinel
  | MText string
  | MBroker BrokerError
  | MTransport BrokerTransportCategory
  | MExternal ext_err

type_synonym ma_err = "ma_label goerr"

definition BrokerError_Error :: "BrokerError \<Rightarrow> string" where
  "BrokerError_Error e =
     ''module broker: HTTP '' @ itoa (StatusCode e) @ '': '' @
     (case Classification e of
        BrokerErrorRefused \<Rightarrow> ''request refused''
      | BrokerErrorNotEstablished \<Rightarrow> ''execution not established''
      | BrokerErrorOther \<Rightarrow> ''request failed'')"

definition newBrokerError :: "int \<Rightarrow> BrokerError" where
  "newBrokerError status = \<lparr>StatusCode = status, Classification =
     (if status = 401 \<or> status = 403 then BrokerErrorRefused
      else if status = 503 then BrokerErrorNotEstablished
      else BrokerErrorOther)\<rparr>"

fun BrokerTransportError_Error :: "BrokerTransportCategory \<Rightarrow> string" where
  "BrokerTransportError_Error BrokerTransportTimeout =
     ''module broker: transport or response read timed out''"
| "BrokerTransportError_Error BrokerTransportConnectionRefused =
     ''module broker: connection refused''"
| "BrokerTransportError_Error BrokerTransportTLS = ''module broker: TLS failure''"
| "BrokerTransportError_Error BrokerTransportConnectionReset =
     ''module broker: connection reset''"
| "BrokerTransportError_Error BrokerTransportOther =
     ''module broker: transport or response read failed''"

fun ma_label_text :: "ma_label \<Rightarrow> string" where
  "ma_label_text (MSentinel s) = ma_sentinel_text s"
| "ma_label_text (MText t) = t"
| "ma_label_text (MBroker b) = BrokerError_Error b"
| "ma_label_text (MTransport c) = BrokerTransportError_Error c"
| "ma_label_text (MExternal x) = x_text x"

definition ma_error_text :: "ma_err \<Rightarrow> string" where
  "ma_error_text e = ma_label_text (err_label e)"

definition fail_sentinel :: "ma_sentinel \<Rightarrow> ma_err" where
  "fail_sentinel s = Err (MSentinel s) []"

text \<open>\<^verbatim>\<open>fmt.Errorf("%w: ...", sentinel)\<close>, \<^verbatim>\<open>fmt.Errorf("...: %w", err)\<close>, \<^verbatim>\<open>fmt.Errorf("%w: %w", a, b)\<close>.\<close>

definition detailf :: "ma_sentinel \<Rightarrow> string \<Rightarrow> ma_err" where
  "detailf s t = Err (MText (ma_sentinel_text s @ '': '' @ t)) [fail_sentinel s]"

definition contextf :: "string \<Rightarrow> ma_err \<Rightarrow> ma_err" where
  "contextf t e = Err (MText (t @ '': '' @ ma_error_text e)) [e]"

definition joinf :: "ma_sentinel \<Rightarrow> ma_err \<Rightarrow> ma_err" where
  "joinf s e = Err (MText (ma_sentinel_text s @ '': '' @ ma_error_text e)) [fail_sentinel s, e]"

section \<open>Reading errors\<close>

definition is_ma :: "ma_sentinel \<Rightarrow> ma_err \<Rightarrow> bool" where
  "is_ma s e = errors_is (\<lambda>l. l = MSentinel s) e"

fun as_broker_label :: "ma_label \<Rightarrow> BrokerError option" where
  "as_broker_label (MBroker b) = Some b"
| "as_broker_label _ = None"

definition as_broker :: "ma_err \<Rightarrow> BrokerError option" where
  "as_broker e = errors_as as_broker_label e"

fun net_error :: "ma_label \<Rightarrow> bool option" where
  "net_error (MExternal x) = x_timeout x"
| "net_error _ = None"

fun sys_is :: "sys_target \<Rightarrow> ma_label \<Rightarrow> bool" where
  "sys_is t (MExternal x) \<longleftrightarrow> t \<in> set (x_is x)"
| "sys_is t _ \<longleftrightarrow> False"

fun tls_as :: "tls_type \<Rightarrow> ma_label \<Rightarrow> bool" where
  "tls_as t (MExternal x) \<longleftrightarrow> x_tls x = Some t"
| "tls_as t _ \<longleftrightarrow> False"

fun connect_as :: "ma_label \<Rightarrow> connect_code option" where
  "connect_as (MExternal x) = x_connect x"
| "connect_as _ = None"

text \<open>\<^verbatim>\<open>connect.CodeOf\<close>: the code of the first \<^verbatim>\<open>connect.Error\<close> in the tree, \<open>CodeUnknown\<close> without one.\<close>

definition CodeOf :: "ma_err \<Rightarrow> connect_code" where
  "CodeOf e = (case errors_as connect_as e of Some c \<Rightarrow> c | None \<Rightarrow> CodeUnknown)"

fun brokerTimeout :: "ma_err \<Rightarrow> bool" where
  "brokerTimeout (Err l cs) =
     (case errors_as net_error (Err l cs) of
        None \<Rightarrow> False
      | Some timeout \<Rightarrow> timeout \<or> list_ex id (map brokerTimeout cs))"

definition brokerTransportError :: "ma_err \<Rightarrow> BrokerTransportCategory" where
  "brokerTransportError e =
     (if errors_is (sys_is IsDeadlineExceeded) e \<or> brokerTimeout e then BrokerTransportTimeout
      else if errors_is (sys_is IsConnRefused) e then BrokerTransportConnectionRefused
      else if errors_is (tls_as CertificateVerificationError) e \<or>
              errors_is (tls_as RecordHeaderError) e \<or> errors_is (tls_as AlertError) e \<or>
              errors_is (tls_as UnknownAuthorityError) e \<or> errors_is (tls_as HostnameError) e \<or>
              errors_is (tls_as CertificateInvalidError) e \<or> errors_is (tls_as SystemRootsError) e
           then BrokerTransportTLS
      else if errors_is (sys_is IsConnReset) e then BrokerTransportConnectionReset
      else BrokerTransportOther)"

section \<open>Facts\<close>

lemma is_ma_simps [go_errors, simp]:
  "is_ma s (fail_sentinel t) \<longleftrightarrow> s = t"
  "is_ma s (detailf t d) \<longleftrightarrow> s = t"
  "is_ma s (contextf d e) \<longleftrightarrow> is_ma s e"
  "is_ma s (joinf t e) \<longleftrightarrow> s = t \<or> is_ma s e"
  "is_ma s (Err (MBroker b) []) \<longleftrightarrow> False"
  "is_ma s (Err (MTransport c) []) \<longleftrightarrow> False"
  by (auto simp: is_ma_def errors_is_iff fail_sentinel_def detailf_def contextf_def joinf_def)

lemma as_broker_simps [go_errors, simp]:
  "as_broker (fail_sentinel s) = None"
  "as_broker (detailf s d) = None"
  "as_broker (contextf d e) = as_broker e"
  "as_broker (joinf s e) = as_broker e"
  "as_broker (Err (MBroker b) []) = Some b"
  "as_broker (Err (MTransport c) []) = None"
  by (auto simp: as_broker_def fail_sentinel_def detailf_def contextf_def joinf_def
      split: option.splits)

lemma newBrokerError_status [simp]: "StatusCode (newBrokerError s) = s"
  by (simp add: newBrokerError_def)

text \<open>An error tree with no node of another package: everything it can print is in this file.\<close>

definition own_errors :: "ma_err \<Rightarrow> bool" where
  "own_errors e \<longleftrightarrow> (\<forall>x. MExternal x \<notin> set_goerr e)"

lemma own_errors_simps [go_errors, simp]:
  "own_errors (fail_sentinel s)"
  "own_errors (detailf s d)"
  "own_errors (contextf d e) = own_errors e"
  "own_errors (joinf s e) = own_errors e"
  "own_errors (Err (MBroker b) [])"
  "own_errors (Err (MTransport c) [])"
  "own_errors (Err (MText t) [])"
  by (auto simp: own_errors_def fail_sentinel_def detailf_def contextf_def joinf_def)

lemma errors_as_Some_ex:
  "errors_as p e \<noteq> None \<longleftrightarrow> (\<exists>l \<in> set_goerr e. p l \<noteq> None)"
  using errors_as_None_iff [of p e] by auto

lemma brokerTimeout_node: "brokerTimeout e \<longleftrightarrow> (\<exists>l \<in> set_goerr e. net_error l = Some True)"
proof (induction e)
  case (Err l cs)
  have *: "list_ex id (map brokerTimeout cs) \<longleftrightarrow>
      (\<exists>c \<in> set cs. \<exists>l \<in> set_goerr c. net_error l = Some True)"
    using Err.IH by (auto simp: list_ex_iff)
  show ?case
  proof (cases "errors_as net_error (Err l cs)")
    case None
    then have "\<forall>k \<in> set_goerr (Err l cs). net_error k = None"
      by (simp only: errors_as_None_iff)
    with None show ?thesis by (auto simp del: errors_as.simps)
  next
    case (Some t)
    then have "brokerTimeout (Err l cs) \<longleftrightarrow> t \<or> list_ex id (map brokerTimeout cs)"
      by (simp del: errors_as.simps)
    moreover have "t \<Longrightarrow> \<exists>k \<in> set_goerr (Err l cs). net_error k = Some True"
      using errors_as_Some [OF Some] by (cases t) simp_all
    moreover have "net_error l = Some True \<Longrightarrow> t" using Some by simp
    ultimately show ?thesis using * by auto
  qed
qed

text \<open>C37:
  What the broker's transport classification means, on every error tree: a failure is a timeout
  exactly when some node of the tree is the deadline error or a \<^verbatim>\<open>net.Error\<close> that reports
  \<^verbatim>\<open>Timeout\<close>, however deep it is and whatever outer \<^verbatim>\<open>net.Error\<close> denies it; a refused connection
  comes next, then the TLS types, then a reset. The classes are exclusive and in that order.
\<close>

theorem brokerTransportError_iff:
  "brokerTransportError e =
     (if \<exists>l \<in> set_goerr e. sys_is IsDeadlineExceeded l \<or> net_error l = Some True
      then BrokerTransportTimeout
      else if \<exists>l \<in> set_goerr e. sys_is IsConnRefused l then BrokerTransportConnectionRefused
      else if \<exists>l \<in> set_goerr e. \<exists>t. tls_as t l then BrokerTransportTLS
      else if \<exists>l \<in> set_goerr e. sys_is IsConnReset l then BrokerTransportConnectionReset
      else BrokerTransportOther)"
proof -
  have tls: "(\<exists>l \<in> set_goerr e. \<exists>t. tls_as t l) \<longleftrightarrow> (\<exists>t. errors_is (tls_as t) e)"
    by (auto simp: errors_is_iff)
  have all: "(\<exists>t. errors_is (tls_as t) e) \<longleftrightarrow>
      errors_is (tls_as CertificateVerificationError) e \<or>
      errors_is (tls_as RecordHeaderError) e \<or> errors_is (tls_as AlertError) e \<or>
      errors_is (tls_as UnknownAuthorityError) e \<or> errors_is (tls_as HostnameError) e \<or>
      errors_is (tls_as CertificateInvalidError) e \<or> errors_is (tls_as SystemRootsError) e"
    by (metis tls_type.exhaust)
  have time: "errors_is (sys_is IsDeadlineExceeded) e \<or> brokerTimeout e \<longleftrightarrow>
      (\<exists>l \<in> set_goerr e. sys_is IsDeadlineExceeded l \<or> net_error l = Some True)"
    by (auto simp: errors_is_iff brokerTimeout_node)
  show ?thesis
    unfolding brokerTransportError_def tls all time [symmetric]
    by (simp add: errors_is_iff)
qed

end
