(* ===== verification/MaTransport.thy ===== *)
theory MaTransport
  imports GoUrl GoQuote MaErrors
begin

text \<open>
  moduleauthority/transport.go: the rule that the internal token and the projected token travel
  over TLS, or in plaintext to a loopback address, or in plaintext anywhere the consumer asserted
  protected. The refusal texts quote the address, with the parameter \<open>is_print\<close> of theory GoQuote;
  \<open>gateway_request_url\<close> parses what the client later sends its requests to.
\<close>

section \<open>The code\<close>

text \<open>A TLS configuration is an opaque handle: the rule asks only whether there is one.\<close>

record Authority =
  Address :: string
  TLS :: "nat option"

definition zero_authority :: Authority where
  "zero_authority = \<lparr>Address = [], TLS = None\<rparr>"

definition isLoopback :: "string \<Rightarrow> bool" where
  "isLoopback host \<longleftrightarrow> (if host = ''localhost'' then True
     else case ParseIP host of None \<Rightarrow> False | Some ip \<Rightarrow> IsLoopback ip)"

definition gatewayBaseURL :: "(string \<Rightarrow> bool) \<Rightarrow> string \<Rightarrow> bool \<Rightarrow> ma_err + string" where
  "gatewayBaseURL is_print raw allowInsecureHTTP =
     (let seam_err = (\<lambda>a b. Inl (detailf ErrInvalidSeams (a @ go_quote is_print raw @ b))) in
      if raw = [] then Inl (detailf ErrInvalidSeams ''the gateway base URL is required'')
      else case url_Parse raw of
        None \<Rightarrow> seam_err ''the gateway base URL '' '' is not an absolute URL''
      | Some parsed \<Rightarrow>
        (if u_Host parsed = [] \<or> Hostname parsed = []
         then seam_err ''the gateway base URL '' '' is not an absolute URL''
         else if u_User parsed \<noteq> None \<or> u_RawQuery parsed \<noteq> [] \<or> u_Fragment parsed \<noteq> []
         then seam_err ''the gateway base URL '' '' carries userinfo, a query or a fragment''
         else if u_Scheme parsed = ''https''
         then Inr (trim_right_char (CHR ''/'') (url_String parsed))
         else if u_Scheme parsed = ''http'' then
           (if \<not> isLoopback (Hostname parsed) \<and> \<not> allowInsecureHTTP
            then seam_err ''the gateway base URL '' '' is plaintext to a non-loopback host; the broker is sent the internal token and the projected token, so use https, or assert the hop is mesh-protected with AllowInsecureHTTP''
            else Inr (trim_right_char (CHR ''/'') (url_String parsed)))
         else seam_err ''the gateway base URL '' '' must be http or https''))"

definition authorityBaseURL :: "(string \<Rightarrow> bool) \<Rightarrow> Authority \<Rightarrow> bool \<Rightarrow> ma_err + string" where
  "authorityBaseURL is_print authority allowInsecureHTTP =
     (let addr = Address authority;
          seam_err = (\<lambda>a b. Inl (detailf ErrInvalidSeams (a @ go_quote is_print addr @ b))) in
      if addr = [] then Inl (detailf ErrInvalidSeams ''the authority endpoint address is required'')
      else case SplitHostPort addr of
        None \<Rightarrow> seam_err ''the authority endpoint address '' '' must be host:port, with no scheme''
      | Some (host, port) \<Rightarrow>
        (if host = [] \<or> port = [] \<or> CHR ''/'' \<in> set addr
         then seam_err ''the authority endpoint address '' '' must be host:port, with no scheme''
         else let hostPort = JoinHostPort host port in
           if TLS authority \<noteq> None then Inr (''https://'' @ hostPort)
           else if \<not> isLoopback host \<and> \<not> allowInsecureHTTP
           then seam_err ''the authority endpoint '' '' is plaintext (no TLS configuration) to a non-loopback host; it is sent the internal token, so dial it with TLS, or assert the hop is mesh-protected with AllowInsecureHTTP''
           else Inr (''http://'' @ hostPort)))"

section \<open>What an accepted base is\<close>

lemma gatewayBaseURL_Inr:
  assumes "gatewayBaseURL is_print raw allow = Inr base"
  obtains u where "url_Parse raw = Some u" and "u_Host u \<noteq> []" and "Hostname u \<noteq> []" and
    "u_User u = None" and "u_RawQuery u = []" and "u_Fragment u = []" and
    "u_Scheme u = ''https'' \<or> u_Scheme u = ''http'' \<and> (isLoopback (Hostname u) \<or> allow)" and
    "base = trim_right_char (CHR ''/'') (url_String u)"
proof -
  from assms have "url_Parse raw \<noteq> None"
    by (auto simp: gatewayBaseURL_def Let_def split: if_splits option.splits)
  then obtain u where u: "url_Parse raw = Some u" by blast
  show thesis
    using assms u by (intro that [of u])
      (auto simp: gatewayBaseURL_def Let_def simp del: not_None_eq not_Some_eq split: if_splits)
qed

lemma gatewayBaseURL_Inl: "gatewayBaseURL is_print raw allow = Inl e \<Longrightarrow> is_ma ErrInvalidSeams e"
  by (auto simp: gatewayBaseURL_def Let_def split: if_splits option.splits)

lemma authorityBaseURL_Inl: "authorityBaseURL is_print a allow = Inl e \<Longrightarrow> is_ma ErrInvalidSeams e"
  by (auto simp: authorityBaseURL_def Let_def split: if_splits option.splits)

section \<open>Where requests go\<close>

text \<open>
  The URL a request is made for: the base of an accepted gateway with a path appended. An
  unbracketed host prints and parses back to itself.
\<close>

lemma host_parses_back:
  assumes "parse_host scheme a = Some h" and "CHR ''['' \<notin> set h" and
    "scheme \<in> {''http'', ''https''}"
  shows "list_all host_byte h" and "port_ok h"
proof -
  have *: "last_index (CHR ''['') a = None"
  proof (cases "last_index (CHR ''['') a")
    case (Some i)
    with assms(1) have "i = 0" by (cases i) (auto simp: parse_host_def)
    with Some assms(1,2) show ?thesis
      by (auto simp: parse_host_def Let_def split: option.splits if_splits prod.splits)
  qed
  with assms(1,3) have u: "url_unescape encodeHost a = Some h"
    by (auto simp: parse_host_def split: option.splits if_splits)
  then show "list_all host_byte h" by (rule unescape_host_bytes)
  from * assms(1,3) have "port_ok a"
    by (auto simp: parse_host_def port_ok_iff split: option.splits if_splits)
  with u show "port_ok h" by (rule port_ok_unescape)
qed

lemma parse_escaped_host:
  assumes "list_all host_byte h" and "port_ok h" and "CHR ''['' \<notin> set h" and
    "scheme \<in> {''http'', ''https''}"
  shows "parse_host scheme (url_escape encodeHost h) = Some h"
proof -
  let ?e = "url_escape encodeHost h"
  have "CHR ''['' \<notin> set ?e"
    using escape_bytes [of "CHR ''[''" encodeHost h] assms(3)
    by (auto simp: alpha_def is_digit_def byte_def)
  then have "last_index (CHR ''['') ?e = None" by (simp add: last_index_None)
  moreover have "port_ok ?e" using assms(2) by (rule port_ok_escape)
  ultimately show ?thesis
    using unescape_escape_host [OF assms(1)] assms(4)
    by (auto simp: parse_host_def port_ok_iff split: option.splits)
qed

lemma set_path_keeps:
  "set_path p u = Some r \<Longrightarrow> u_Host r = u_Host u \<and> u_Scheme r = u_Scheme u \<and> u_User r = u_User u
     \<and> u_RawQuery r = u_RawQuery u \<and> u_Fragment r = u_Fragment u"
  by (auto simp: set_path_def split: option.splits)

lemma parse_hier_host:
  assumes "parse_hier scheme rest v = Some r" and "u_Host v = []" and "u_Host r \<noteq> []"
  shows "u_Scheme r = u_Scheme v \<and> (\<exists>a. parse_host scheme a = Some (u_Host r))"
proof -
  have "u_Host w = [] \<Longrightarrow> set_path p w \<noteq> Some r" for p w
    using set_path_keeps [of p w r] assms(3) by auto
  with assms obtain a p user host where
    *: "parse_authority scheme a = Some (user, host)"
      "set_path p (v\<lparr>u_User := user, u_Host := host\<rparr>) = Some r"
    by (auto simp: parse_hier_def Let_def split: if_splits option.splits prod.splits)
  from * have "parse_host scheme a = Some host \<or>
      (\<exists>b. parse_host scheme b = Some host)"
    by (auto simp: parse_authority_def split: option.splits)
  with set_path_keeps [OF *(2)] show ?thesis by auto
qed

lemma url_Parse_host:
  assumes "url_Parse s = Some u" and "u_Host u \<noteq> []"
  shows "\<exists>a. parse_host (u_Scheme u) a = Some (u_Host u)"
proof -
  from assms(1) obtain t r where r: "url_parse_nofrag t = Some r"
    "u_Host r = u_Host u" "u_Scheme r = u_Scheme u"
    by (auto simp: url_Parse_def split: prod.splits option.splits if_splits)
  with assms(2) have "t \<noteq> ''*''" by (auto simp: url_parse_nofrag_def empty_url_def byte_def)
  with r(1) obtain sch p q force where
    "parse_hier sch p (empty_url\<lparr>u_Scheme := sch, u_RawQuery := q, u_ForceQuery := force\<rparr>) = Some r"
    by (auto simp: url_parse_nofrag_def split: if_splits option.splits prod.splits)
  from parse_hier_host [OF this] assms(2) r show ?thesis
    by (auto simp: empty_url_def)
qed

lemma trim_right_char_append:
  "s \<noteq> [] \<Longrightarrow> last s \<noteq> d \<Longrightarrow> trim_right_char d (s @ p) = s @ trim_right_char d p"
proof (induction p rule: rev_induct)
  case Nil
  then show ?case by (cases s rule: rev_cases) auto
qed auto

lemma trim_right_char_split: "\<exists>n. p = trim_right_char d p @ replicate n d"
proof (induction p rule: rev_induct)
  case (snoc c p)
  then obtain n where n: "p = trim_right_char d p @ replicate n d" by blast
  show ?case
  proof (cases "c = d")
    case True
    then have "trim_right_char d (p @ [c]) = trim_right_char d p" by simp
    moreover have "p @ [c] = trim_right_char d p @ (replicate n d @ [d])"
      using n True by (metis append.assoc)
    ultimately show ?thesis by (metis replicate_append_same replicate_Suc)
  qed (auto intro: exI [of _ 0])
qed simp

lemma unescape_trim:
  assumes "url_unescape encodePath p = Some q"
  shows "\<exists>r. url_unescape encodePath (trim_right_char (CHR ''/'') p) = Some r"
proof -
  obtain n where n: "p = trim_right_char (CHR ''/'') p @ replicate n (CHR ''/'')"
    using trim_right_char_split by blast
  show ?thesis
  proof (cases n)
    case 0
    with n assms show ?thesis by (metis append_Nil2 replicate_0)
  next
    case (Suc k)
    with n assms show ?thesis by (metis replicate_Suc unescape_path_prefix)
  qed
qed

text \<open>The path of a printed base: empty or beginning with a slash, and free of \<^verbatim>\<open>?\<close> and \<^verbatim>\<open>#\<close>.\<close>

definition slashed_path :: "url \<Rightarrow> string" where
  "slashed_path u = (let p = EscapedPath u in if p \<noteq> [] \<and> hd p \<noteq> CHR ''/'' then CHR ''/'' # p else p)"

definition base_path :: "url \<Rightarrow> string" where
  "base_path u = trim_right_char (CHR ''/'') (slashed_path u)"

lemma slashed_start: "slashed_path u = [] \<or> hd (slashed_path u) = CHR ''/''"
  by (auto simp: slashed_path_def Let_def)

lemma slashed_bytes: "c \<in> set (slashed_path u) \<Longrightarrow> calm c"
proof -
  have "calm (CHR ''/'')" by (simp add: calm_def byte_def)
  then show "c \<in> set (slashed_path u) \<Longrightarrow> calm c"
    using EscapedPath_calm by (auto simp: slashed_path_def Let_def split: if_splits)
qed

lemma slashed_unescapes: "\<exists>q. url_unescape encodePath (slashed_path u) = Some q"
  using unescape_EscapedPath [of u] by (auto simp: slashed_path_def Let_def)

lemma base_path_prefix: "\<exists>n. slashed_path u = base_path u @ replicate n (CHR ''/'')"
  unfolding base_path_def by (rule trim_right_char_split)

lemma base_path_start: "base_path u = [] \<or> (\<exists>t. base_path u = CHR ''/'' # t)"
  using base_path_prefix [of u] slashed_start [of u] by (cases "base_path u") auto

lemma base_path_calm: "c \<in> set (base_path u) \<Longrightarrow> calm c"
  using base_path_prefix [of u] slashed_bytes [of c u] by (metis Un_iff set_append)

lemma base_path_unescapes: "\<exists>q. url_unescape encodePath (base_path u) = Some q"
  using slashed_unescapes [of u] unescape_trim unfolding base_path_def by blast

lemma escape_nonempty: "h \<noteq> [] \<Longrightarrow> url_escape m h \<noteq> []"
  by (cases h) auto

lemma trimmed_base:
  assumes "u_Host u \<noteq> []" and "u_RawQuery u = []" and "\<not> u_ForceQuery u"
  shows "trim_right_char (CHR ''/'') (url_String u) =
    u_Scheme u @ ''://'' @ url_escape encodeHost (u_Host u) @ base_path u"
proof -
  let ?s = "u_Scheme u @ ''://'' @ url_escape encodeHost (u_Host u)"
  have "last ?s \<in> set (url_escape encodeHost (u_Host u))"
    using escape_nonempty [OF assms(1)] by (metis append_is_Nil_conv last_appendR last_in_set)
  then have "last ?s \<noteq> CHR ''/''" using escaped_host_bytes by fastforce
  with trim_right_char_append [of ?s "CHR ''/''"] assms show ?thesis
    by (simp add: url_String_def base_path_def slashed_path_def Let_def
        del: trim_right_char.simps)
qed

definition gateway_request_url :: "string \<Rightarrow> string \<Rightarrow> url option" where
  "gateway_request_url base path = url_Parse (base @ path)"

definition plain_path :: "string \<Rightarrow> bool" where
  "plain_path p \<longleftrightarrow> has_prefix p ''/'' \<and> list_all (\<lambda>c. solid c \<and> c \<notin> set ''%?#'') p"

lemma plain_path_props:
  assumes "plain_path p"
  obtains t where "p = CHR ''/'' # t" and "CHR ''%'' \<notin> set p" and "\<forall>c \<in> set p. calm c"
proof -
  from assms obtain t where "p = CHR ''/'' # t"
    by (cases p) (auto simp: plain_path_def has_prefix_def)
  moreover from assms have "CHR ''%'' \<notin> set p" by (auto simp: plain_path_def list_all_iff)
  moreover have "solid c \<and> c \<notin> set ''%?#'' \<Longrightarrow> calm c" for c
    by (simp add: calm_def solid_def)
  with assms have "\<forall>c \<in> set p. calm c" unfolding plain_path_def list_all_iff by blast
  ultimately show thesis by (rule that)
qed

lemma calm_bytes: "calm c \<Longrightarrow> \<not> (byte c < 32 \<or> byte c = 127)"
  by (simp add: calm_def)

lemma cut_query_calm: "\<forall>c \<in> set s. calm c \<Longrightarrow> cut_query s = (s, [], False)"
proof -
  assume "\<forall>c \<in> set s. calm c"
  then have "CHR ''?'' \<notin> set s" by (auto simp: calm_def)
  then have "s \<noteq> [] \<Longrightarrow> last s \<noteq> CHR ''?''" using last_in_set [of s] by metis
  with \<open>CHR ''?'' \<notin> set s\<close> show ?thesis by (auto simp: cut_query_def cut_notin)
qed

lemma parse_hier_printed:
  assumes "parse_host scheme e = Some h" and "\<forall>c \<in> set e. c \<notin> set ''/@''" and "scheme \<noteq> []"
    and "url_unescape encodePath (CHR ''/'' # t) = Some q"
  shows "\<exists>v. parse_hier scheme (''//'' @ e @ CHR ''/'' # t) u = Some v \<and> u_Scheme v = u_Scheme u \<and>
    u_Host v = h \<and> u_User v = None \<and> u_RawQuery v = u_RawQuery u \<and> u_Fragment v = u_Fragment u \<and>
    u_Path v = q"
proof -
  from assms(2) have "CHR ''/'' \<notin> set e" "last_index (CHR ''@'') e = None"
    by (auto simp: last_index_None)
  then show ?thesis
    using assms index_of_append [of "CHR ''/''" e t]
    by (simp add: parse_hier_def has_prefix_def parse_authority_def set_path_def
        del: url_unescape.simps)
qed

lemma parse_printed:
  assumes "scheme \<in> {''http'', ''https''}" and "parse_host scheme e = Some h" and
    "\<forall>c \<in> set e. calm c \<and> c \<notin> set ''/@''" and "\<forall>c \<in> set t. calm c" and
    "url_unescape encodePath (CHR ''/'' # t) = Some q"
  shows "\<exists>v. url_Parse (scheme @ ''://'' @ e @ CHR ''/'' # t) = Some v \<and> u_Scheme v = scheme \<and>
    u_Host v = h \<and> u_User v = None \<and> u_RawQuery v = [] \<and> u_Fragment v = [] \<and> u_Path v = q"
proof -
  let ?r = "''//'' @ e @ CHR ''/'' # t"
  have slash: "calm (CHR ''/'')" "calm (CHR '':'')" by (simp_all add: calm_def byte_def)
  with assms(3,4) have r: "\<forall>c \<in> set ?r. calm c" by auto
  have sch: "\<forall>c \<in> set scheme. calm c" using assms(1) by (auto simp: calm_def byte_def)
  with r slash have all: "\<forall>c \<in> set (scheme @ CHR '':'' # ?r). calm c" by auto
  then have "CHR ''#'' \<notin> set (scheme @ CHR '':'' # ?r)" by (auto simp: calm_def)
  then have cutf: "cut (CHR ''#'') (scheme @ CHR '':'' # ?r) = (scheme @ CHR '':'' # ?r, [], False)"
    by (rule cut_notin)
  have ctl: "\<not> list_ex (\<lambda>c. byte c < 32 \<or> byte c = 127) (scheme @ CHR '':'' # ?r)"
    using all calm_bytes unfolding list_ex_iff by blast
  have scheme: "get_scheme (scheme @ CHR '':'' # ?r) = Some (scheme, ?r)"
    "scheme @ CHR '':'' # ?r \<noteq> ''*''" "to_lower scheme = scheme" "scheme \<noteq> []"
    using assms(1) by (auto simp: get_scheme_def alpha_def to_lower_def lower_char_def byte_def)
  from parse_hier_printed [OF assms(2) _ scheme(4) assms(5),
      of "empty_url\<lparr>u_Scheme := scheme, u_RawQuery := [], u_ForceQuery := False\<rparr>"] assms(3)
  obtain v where v: "parse_hier scheme ?r
      (empty_url\<lparr>u_Scheme := scheme, u_RawQuery := [], u_ForceQuery := False\<rparr>) = Some v"
    "u_Scheme v = scheme" "u_Host v = h" "u_User v = None" "u_RawQuery v = []" "u_Fragment v = []"
    "u_Path v = q"
    by (auto simp: empty_url_def)
  have "url_parse_nofrag (scheme @ CHR '':'' # ?r) = Some v"
    unfolding url_parse_nofrag_def
    using ctl scheme cut_query_calm [OF r] v(1) by (simp del: append.simps append_Cons)
  then have "url_Parse (scheme @ CHR '':'' # ?r) = Some v"
    unfolding url_Parse_def cutf by simp
  with v show ?thesis by auto
qed

text \<open>C36:
  The transport rule reaches the wire. When a gateway base is accepted, its host has no bracket
  and it does not end in a question mark, then the URL a request to any fixed path is made for
  parses, has the scheme and the host that were judged, no userinfo, no query and no fragment,
  ends in that path, and is https, or names a loopback host, or the consumer asserted the hop
  protected.
\<close>

theorem gateway_requests_stay:
  assumes "gatewayBaseURL is_print raw allow = Inr base" and "url_Parse raw = Some u" and
    "CHR ''['' \<notin> set (u_Host u)" and "\<not> u_ForceQuery u" and "plain_path path"
  shows "\<exists>v. gateway_request_url base path = Some v \<and> u_Scheme v = u_Scheme u \<and>
    u_Host v = u_Host u \<and> u_User v = None \<and> u_RawQuery v = [] \<and> u_Fragment v = [] \<and>
    has_suffix (u_Path v) path \<and> (u_Scheme v = ''https'' \<or> isLoopback (Hostname v) \<or> allow)"
proof -
  from gatewayBaseURL_Inr [OF assms(1)] assms(2) have u:
    "u_Host u \<noteq> []" "u_RawQuery u = []"
    "u_Scheme u = ''https'' \<or> u_Scheme u = ''http'' \<and> (isLoopback (Hostname u) \<or> allow)"
    "base = trim_right_char (CHR ''/'') (url_String u)"
    by (metis option.inject)+
  let ?e = "url_escape encodeHost (u_Host u)"
  from u have base: "base = u_Scheme u @ ''://'' @ ?e @ base_path u"
    using trimmed_base assms(4) by simp
  from u have sch: "u_Scheme u \<in> {''http'', ''https''}" by auto
  obtain a where "parse_host (u_Scheme u) a = Some (u_Host u)"
    using url_Parse_host [OF assms(2) u(1)] by blast
  from host_parses_back [OF this assms(3) sch]
  have host: "parse_host (u_Scheme u) ?e = Some (u_Host u)"
    using parse_escaped_host assms(3) sch by blast
  from assms(5) obtain t' where p: "path = CHR ''/'' # t'" "CHR ''%'' \<notin> set path"
    "\<forall>c \<in> set path. calm c" by (rule plain_path_props)
  obtain t where t: "base_path u @ path = CHR ''/'' # t"
    using base_path_start [of u] p(1) by auto
  obtain q where "url_unescape encodePath (base_path u) = Some q" using base_path_unescapes by blast
  from unescape_path_append [OF this p(2)] t
  have q: "url_unescape encodePath (CHR ''/'' # t) = Some (q @ path)" by simp
  have "set t \<subseteq> set (base_path u @ path)" using t by auto
  then have calm_t: "\<forall>c \<in> set t. calm c" using base_path_calm p(3) by auto
  from parse_printed [OF sch host _ calm_t q] escaped_host_bytes
  obtain v where v: "url_Parse (u_Scheme u @ ''://'' @ ?e @ CHR ''/'' # t) = Some v"
    "u_Scheme v = u_Scheme u" "u_Host v = u_Host u" "u_User v = None" "u_RawQuery v = []"
    "u_Fragment v = []" "u_Path v = q @ path"
    by blast
  have "Hostname v = Hostname u" unfolding Hostname_def v(3) ..
  moreover have "base @ path = u_Scheme u @ ''://'' @ ?e @ CHR ''/'' # t" by (simp add: base t)
  moreover have "has_suffix (u_Path v) path" using v(7) by (auto simp: has_suffix_iff)
  ultimately show ?thesis using v u(3) unfolding gateway_request_url_def by auto
qed

theorem gateway_requests_stay_witness:
  "\<exists>v. gateway_request_url ''http://127.0.0.1:8080/edge'' ''/modules/_work-context'' = Some v \<and>
     u_Host v = ''127.0.0.1:8080'' \<and> has_suffix (u_Path v) ''/modules/_work-context''"
proof -
  let ?raw = "''http://127.0.0.1:8080/edge/''"
  have p: "map_option (\<lambda>u. (u_Host u, Hostname u, u_User u, u_RawQuery u, u_Fragment u, u_Scheme u,
      trim_right_char (CHR ''/'') (url_String u), u_ForceQuery u)) (url_Parse ?raw)
    = Some (''127.0.0.1:8080'', ''127.0.0.1'', None, [], [], ''http'',
        ''http://127.0.0.1:8080/edge'', False)"
    by code_simp
  then obtain u where u: "url_Parse ?raw = Some u" "u_Host u = ''127.0.0.1:8080''"
    "Hostname u = ''127.0.0.1''" "u_User u = None" "u_RawQuery u = []" "u_Fragment u = []"
    "u_Scheme u = ''http''" "trim_right_char (CHR ''/'') (url_String u) = ''http://127.0.0.1:8080/edge''"
    "\<not> u_ForceQuery u"
    by auto
  have "isLoopback ''127.0.0.1''" by code_simp
  with u have base: "gatewayBaseURL (\<lambda>_. True) ?raw False = Inr ''http://127.0.0.1:8080/edge''"
    by (simp add: gatewayBaseURL_def)
  have "plain_path ''/modules/_work-context''" by code_simp
  with gateway_requests_stay [OF base u(1)] u(2,9) show ?thesis by auto
qed

text \<open>
  A port is never looked at, so an \<^verbatim>\<open>@\<close> in it turns what was judged a loopback host into
  userinfo: the plaintext base below is for another host than the one the rule admitted.
\<close>

theorem authorityBaseURL_port_escapes_rule:
  "authorityBaseURL is_print \<lparr>Address = ''127.0.0.1:80@evil.example'', TLS = None\<rparr> False
     = Inr ''http://127.0.0.1:80@evil.example'' \<and>
   map_option u_Host (url_Parse ''http://127.0.0.1:80@evil.example'') = Some ''evil.example'' \<and>
   \<not> isLoopback ''evil.example''"
proof (intro conjI)
  have "SplitHostPort ''127.0.0.1:80@evil.example'' = Some (''127.0.0.1'', ''80@evil.example'')"
    by code_simp
  moreover have "JoinHostPort ''127.0.0.1'' ''80@evil.example'' = ''127.0.0.1:80@evil.example''"
    by code_simp
  moreover have "isLoopback ''127.0.0.1''" by code_simp
  ultimately show "authorityBaseURL is_print
      \<lparr>Address = ''127.0.0.1:80@evil.example'', TLS = None\<rparr> False
      = Inr ''http://127.0.0.1:80@evil.example''"
    by (simp add: authorityBaseURL_def)
qed code_simp+

text \<open>
  A trailing question mark is an empty query: the base keeps it, and every path appended to the
  base is then read as the query of the gateway's root.
\<close>

theorem gatewayBaseURL_keeps_question_mark:
  "gatewayBaseURL is_print ''https://gw.example/?'' False = Inr ''https://gw.example/?'' \<and>
   map_option (\<lambda>u. (u_Path u, u_RawQuery u))
     (url_Parse (''https://gw.example/?'' @ ''/modules/_work-context''))
     = Some (''/'', ''/modules/_work-context'')"
proof
  obtain u where u: "url_Parse ''https://gw.example/?'' = Some u"
    and p: "u_Host u = ''gw.example''" "Hostname u = ''gw.example''" "u_User u = None"
      "u_RawQuery u = []" "u_Fragment u = []" "u_Scheme u = ''https''"
      "trim_right_char (CHR ''/'') (url_String u) = ''https://gw.example/?''"
  proof -
    have "map_option (\<lambda>u. (u_Host u, Hostname u, u_User u, u_RawQuery u, u_Fragment u, u_Scheme u,
        trim_right_char (CHR ''/'') (url_String u))) (url_Parse ''https://gw.example/?'')
      = Some (''gw.example'', ''gw.example'', None, [], [], ''https'', ''https://gw.example/?'')"
      by code_simp
    with that show thesis by auto
  qed
  from u p show "gatewayBaseURL is_print ''https://gw.example/?'' False
      = Inr ''https://gw.example/?''"
    by (simp add: gatewayBaseURL_def)
qed code_simp

end
