(* ===== verification/MaWire.thy ===== *)
theory MaWire
  imports MaErrors
begin

text \<open>
  The messages of ModuleCapabilitiesService that moduleauthority sends and reads
  (gen/saas/accounts/v1/module_capabilities.pb.go, and \<open>IssuedWorkContext\<close> of
  work_contexts.pb.go): records of the fields the package touches, oneofs as datatypes, a nil
  message as \<open>None\<close>. \<^verbatim>\<open>uint64\<close> and \<^verbatim>\<open>int64\<close> fields are 64-bit words, enums are their numbers.
\<close>

section \<open>Requests and responses\<close>

record ModuleExchangeDelegatedOperationAudienceRequest =
  xq_BindingId :: string
  xq_ParentWorkContextToken :: string
  xq_Lookup :: bool
  xq_DelegationId :: string

record IssuedWorkContext =
  iw_Token :: string

record ModuleNotifyUserRequest =
  nu_Tenant :: string
  nu_UserId :: string
  nu_Title :: string
  nu_Body :: string
  nu_Type :: string
  nu_ActionUrl :: string
  nu_Category :: string
  nu_IdempotencyKey :: string

record ModuleNotifyUserResponse =
  nu_Delivered :: bool

record ModuleNotifyOrgAdminsRequest =
  no_Tenant :: string
  no_Title :: string
  no_Body :: string
  no_Type :: string
  no_ActionUrl :: string
  no_Category :: string
  no_IdempotencyKey :: string

record ModuleNotifyOrgAdminsResponse =
  no_Delivered :: bool

text \<open>A \<^verbatim>\<open>structpb.Struct\<close> is protobuf's own message; here it is its members with their JSON text.\<close>

type_synonym pb_struct = "(string \<times> string) list"

record ModuleEmitAuditEventRequest =
  ea_Tenant :: string
  ea_EventType :: string
  ea_Actor :: string
  ea_Solution :: string
  ea_EntryId :: string
  ea_Fields :: pb_struct
  ea_IdempotencyKey :: string

record ModuleAuditFieldDeclaration =
  fd_Name :: string
  fd_Kind :: int
  fd_Values :: "string list"
  fd_Pii :: bool

record ModuleAuditEventTypeDeclaration =
  td_Type :: string
  td_Description :: string
  td_Fields :: "ModuleAuditFieldDeclaration option list"
  td_Visibility :: int

record ModuleDeclareAuditEventTypesRequest =
  da_Prefix :: string
  da_Types :: "ModuleAuditEventTypeDeclaration option list"

record ExecutableArtifactContract =
  ac_Kind :: string
  ac_Name :: string
  ac_Digest :: string

record ExecutableArtifactIdentity =
  ai_Schema :: string
  ai_Source :: string
  ai_Subject :: string
  ai_Contracts :: "ExecutableArtifactContract list"
  ai_ExpectedRevision :: "64 word"

record ModuleExecutableArtifactRequest =
  aq_ParentWorkContextToken :: string
  aq_InstallationId :: string
  aq_PolicyId :: string
  aq_Identity :: ExecutableArtifactIdentity

record ModuleRevokeExecutableArtifactRequest =
  rv_ParentWorkContextToken :: string
  rv_InstallationId :: string
  rv_ApprovalId :: string

record ModuleExecutableArtifactResponse =
  ap_SchemaVersion :: string
  ap_QualifiedName :: string
  ap_Digest :: string
  ap_ExpectedRevision :: "64 word"

record ModuleCurrentInstallationRequest =
  iq_ParentWorkContextToken :: string
  iq_InstallationId :: string

record ModuleCurrentInstallationResponse =
  ir_InstallationId :: string
  ir_TenantId :: string
  ir_TargetId :: string
  ir_BindingId :: string

section \<open>Live authority\<close>

datatype WorkContextQuestion =
    QuestionSeal string string
  | QuestionPrincipalEpoch string
  | QuestionApprovedBuild string
  | QuestionOperationBinding string
  | QuestionAuthorizationRevision string
  | QuestionApprovalGrant string

record ModuleResolveWorkContextAuthorityRequest =
  rq_WorkContext :: string
  rq_Question :: "WorkContextQuestion option"

record WorkContextSealAnswer =
  sa_State :: int
  sa_InstallationId :: string
  sa_InstallationRevision :: "64 word"

record WorkContextPrincipalEpochAnswer =
  pe_State :: int
  pe_PrincipalId :: string
  pe_Epoch :: "64 word"

record WorkContextOperationBindingAnswer =
  ob_State :: int
  ob_BindingId :: string
  ob_PrincipalId :: string
  ob_InstallationId :: string
  ob_Revision :: "64 word"
  ob_Incarnation :: "64 word"
  ob_Revoked :: bool

record WorkContextAuthorizationRevisionAnswer =
  av_OwnerPrincipalId :: string
  av_Revision :: "64 word"

record WorkContextApprovalGrantAnswer =
  ag_State :: int
  ag_GrantId :: string

text \<open>The answer oneof; each arm may carry a nil message.\<close>

datatype WorkContextAnswer =
    AnswerSeal "WorkContextSealAnswer option"
  | AnswerPrincipalEpoch "WorkContextPrincipalEpochAnswer option"
  | AnswerApprovedBuild
  | AnswerOperationBinding "WorkContextOperationBindingAnswer option"
  | AnswerAuthorizationRevision "WorkContextAuthorizationRevisionAnswer option"
  | AnswerApprovalGrant "WorkContextApprovalGrantAnswer option"

record ModuleResolveWorkContextAuthorityResponse =
  rs_Answer :: "WorkContextAnswer option"

definition SEAL_STATE_HELD :: int where "SEAL_STATE_HELD = 1"
definition SEAL_STATE_UNHELD :: int where "SEAL_STATE_UNHELD = 2"
definition PRINCIPAL_STATE_KNOWN :: int where "PRINCIPAL_STATE_KNOWN = 1"
definition PRINCIPAL_STATE_UNKNOWN :: int where "PRINCIPAL_STATE_UNKNOWN = 2"
definition BINDING_STATE_RESOLVED :: int where "BINDING_STATE_RESOLVED = 1"
definition BINDING_STATE_ABSENT :: int where "BINDING_STATE_ABSENT = 2"
definition GRANT_STATE_NOT_RECORDED :: int where "GRANT_STATE_NOT_RECORDED = 1"

lemmas state_numbers [simp] =
  SEAL_STATE_HELD_def SEAL_STATE_UNHELD_def PRINCIPAL_STATE_KNOWN_def PRINCIPAL_STATE_UNKNOWN_def
  BINDING_STATE_RESOLVED_def BINDING_STATE_ABSENT_def GRANT_STATE_NOT_RECORDED_def

text \<open>The getters of the answer: an unset answer and another arm read as nil.\<close>

fun GetSeal :: "ModuleResolveWorkContextAuthorityResponse \<Rightarrow> WorkContextSealAnswer option" where
  "GetSeal r = (case rs_Answer r of Some (AnswerSeal a) \<Rightarrow> a | _ \<Rightarrow> None)"

fun GetPrincipalEpoch ::
  "ModuleResolveWorkContextAuthorityResponse \<Rightarrow> WorkContextPrincipalEpochAnswer option" where
  "GetPrincipalEpoch r = (case rs_Answer r of Some (AnswerPrincipalEpoch a) \<Rightarrow> a | _ \<Rightarrow> None)"

fun GetOperationBinding ::
  "ModuleResolveWorkContextAuthorityResponse \<Rightarrow> WorkContextOperationBindingAnswer option" where
  "GetOperationBinding r = (case rs_Answer r of Some (AnswerOperationBinding a) \<Rightarrow> a | _ \<Rightarrow> None)"

fun GetAuthorizationRevision ::
  "ModuleResolveWorkContextAuthorityResponse \<Rightarrow> WorkContextAuthorizationRevisionAnswer option" where
  "GetAuthorizationRevision r =
     (case rs_Answer r of Some (AnswerAuthorizationRevision a) \<Rightarrow> a | _ \<Rightarrow> None)"

fun GetApprovalGrant ::
  "ModuleResolveWorkContextAuthorityResponse \<Rightarrow> WorkContextApprovalGrantAnswer option" where
  "GetApprovalGrant r = (case rs_Answer r of Some (AnswerApprovalGrant a) \<Rightarrow> a | _ \<Rightarrow> None)"

fun GetToken :: "IssuedWorkContext option \<Rightarrow> string" where
  "GetToken None = ''''"
| "GetToken (Some w) = iw_Token w"

fun NotifyUser_GetDelivered :: "ModuleNotifyUserResponse option \<Rightarrow> bool" where
  "NotifyUser_GetDelivered None = False"
| "NotifyUser_GetDelivered (Some r) = nu_Delivered r"

fun NotifyOrgAdmins_GetDelivered :: "ModuleNotifyOrgAdminsResponse option \<Rightarrow> bool" where
  "NotifyOrgAdmins_GetDelivered None = False"
| "NotifyOrgAdmins_GetDelivered (Some r) = no_Delivered r"

text \<open>Any request of the service, for the log of what was sent.\<close>

datatype authority_msg =
    MsgExchange ModuleExchangeDelegatedOperationAudienceRequest
  | MsgResolve ModuleResolveWorkContextAuthorityRequest
  | MsgApprove ModuleExecutableArtifactRequest
  | MsgAuthorize ModuleExecutableArtifactRequest
  | MsgRevoke ModuleRevokeExecutableArtifactRequest
  | MsgNotifyUser ModuleNotifyUserRequest
  | MsgNotifyOrgAdmins ModuleNotifyOrgAdminsRequest
  | MsgEmitAuditEvent ModuleEmitAuditEventRequest
  | MsgDeclareAuditEventTypes ModuleDeclareAuditEventTypesRequest
  | MsgGetCurrentInstallation ModuleCurrentInstallationRequest

end
