(* ===== verification/GoConnect.thy ===== *)
theory GoConnect
  imports GoUrl
begin

text \<open>
  What the generated Connect files (gen/saas/accounts/v1/accountsv1connect) have in common. Such
  a file names the procedures of a service, builds a client that sends each method to the base
  URL with its procedure appended, builds a handler that switches on the request path, and
  implements every method with \<^verbatim>\<open>CodeUnimplemented\<close>. \<open>connect.NewClient\<close> and
  \<open>connect.NewUnaryHandler\<close> are library code: an \<open>endpoint\<close> and a \<open>route\<close> hold their arguments.
  The locale states what makes such a table a service; each theory of a service interprets it.
\<close>

datatype call_kind = CallUnary | CallServerStream

record endpoint =
  ep_url :: string
  ep_schema :: string

record 'f route =
  rt_procedure :: string
  rt_kind :: call_kind
  rt_impl :: 'f
  rt_schema :: string

record connect_failure =
  cf_code :: connect_code
  cf_text :: string

text \<open>A Go \<^verbatim>\<open>switch\<close> on strings: the first equal case; \<open>None\<close> is the default, \<^verbatim>\<open>http.NotFound\<close>.\<close>

definition switch_on :: "('m \<Rightarrow> string) \<Rightarrow> 'm list \<Rightarrow> string \<Rightarrow> 'm option" where
  "switch_on proc ms path = map_of (map (\<lambda>m. (proc m, m)) ms) path"

lemma switch_on_Some: "switch_on proc ms path = Some m \<Longrightarrow> path = proc m \<and> m \<in> set ms"
  by (auto simp: switch_on_def dest: map_of_SomeD)

text \<open>A mount path of the generated code: a service name between slashes.\<close>

definition mount_path :: "string \<Rightarrow> bool" where
  "mount_path p \<longleftrightarrow> (\<exists>s. p = CHR ''/'' # s @ ''/'' \<and> CHR ''/'' \<notin> set s)"

locale connect_service =
  fixes service :: string
    and mname :: "'m \<Rightarrow> string"
    and proc :: "'m \<Rightarrow> string"
    and methods :: "'m list"
  assumes procedure: "proc m = CHR ''/'' # service @ CHR ''/'' # mname m"
    and all_methods: "m \<in> set methods"
    and names_distinct: "distinct (map mname methods)"
    and names_slash: "CHR ''/'' \<notin> set service \<and> list_all (\<lambda>m. CHR ''/'' \<notin> set (mname m)) methods"
begin

lemma mname_inj: "mname m = mname n \<longleftrightarrow> m = n"
  using names_distinct all_methods by (auto simp: distinct_map dest: inj_onD)

lemma proc_inj: "proc m = proc n \<longleftrightarrow> m = n"
  by (simp add: procedure mname_inj)

lemma switch_procedure: "switch_on proc methods (proc m) = Some m"
proof -
  have "map_of (map (\<lambda>m. (proc m, m)) ms) (proc m) = (if m \<in> set ms then Some m else None)" for ms
    by (induction ms) (auto simp: proc_inj)
  with all_methods show ?thesis by (simp add: switch_on_def)
qed

lemma switch_iff: "switch_on proc methods path = Some m \<longleftrightarrow> path = proc m"
  using switch_procedure switch_on_Some by (metis option.inject)

lemma proc_mount: "has_prefix (proc m) (CHR ''/'' # service @ ''/'')"
  by (auto simp: has_prefix_iff procedure)

lemma proc_service: "split_on (CHR ''/'') (proc m) = [[], service, mname m]"
proof -
  have "CHR ''/'' \<notin> set (mname m)"
    using names_slash all_methods [of m] by (simp add: list_all_iff)
  then show ?thesis
    using names_slash by (simp add: procedure split_on_append split_on_free)
qed

text \<open>The handler of the service on its mount path, with any route made of each method.\<close>

lemma mount_law:
  "mount_path (CHR ''/'' # service @ ''/'') \<and>
   (has_prefix path (CHR ''/'' # service @ ''/'') \<and>
      map_option route (switch_on proc methods path) = Some rt \<longleftrightarrow>
    (\<exists>m. path = proc m \<and> rt = route m))"
  using names_slash proc_mount by (auto simp: mount_path_def switch_iff)

end

end
