(* ===== verification/ConnectModule.thy ===== *)
theory ConnectModule
  imports GoConnect
begin

text \<open>
  The generated Connect code of module_capabilities: the procedures, client, handler and
  unimplemented handler of each service, and each as an instance of the locale of theory GoConnect.
\<close>

section \<open>ModuleCapabilitiesService\<close>

definition ModuleCapabilitiesServiceName :: string where
  "ModuleCapabilitiesServiceName = ''saas.accounts.v1.ModuleCapabilitiesService''"

text \<open>The methods of the client interface.\<close>

datatype ModuleCapabilitiesServiceMethod =
    ModuleCapabilities_GetCurrentInstallation
  | ModuleCapabilities_ApproveExecutableArtifact
  | ModuleCapabilities_AuthorizeExecutableArtifact
  | ModuleCapabilities_RevokeExecutableArtifact
  | ModuleCapabilities_ExchangeDelegatedReadAudience
  | ModuleCapabilities_ExchangeDelegatedOperationAudience
  | ModuleCapabilities_CheckWorkContextRecordAccess
  | ModuleCapabilities_ListReadableSourceCollections
  | ModuleCapabilities_PlaceRecord
  | ModuleCapabilities_EnqueueJob
  | ModuleCapabilities_ClaimJobs
  | ModuleCapabilities_HeartbeatJob
  | ModuleCapabilities_AckJob
  | ModuleCapabilities_NackJob
  | ModuleCapabilities_NotifyUser
  | ModuleCapabilities_NotifyOrgAdmins
  | ModuleCapabilities_RequestApproval
  | ModuleCapabilities_GetApproval
  | ModuleCapabilities_CancelApproval
  | ModuleCapabilities_EmitAuditEvent
  | ModuleCapabilities_DeclareAuditEventTypes
  | ModuleCapabilities_ListSubjectVisibility
  | ModuleCapabilities_FetchDatasourceBlob
  | ModuleCapabilities_FetchDatasourceFiles
  | ModuleCapabilities_MintModuleWorkContext
  | ModuleCapabilities_MintModuleOperationContext
  | ModuleCapabilities_MintSourceOperationContext
  | ModuleCapabilities_PublishEvent
  | ModuleCapabilities_Subscribe
  | ModuleCapabilities_Unsubscribe
  | ModuleCapabilities_ListSubscriptions
  | ModuleCapabilities_ReplayEvents
  | ModuleCapabilities_ResolveWorkContextAuthority

primrec ModuleCapabilitiesService_method :: "ModuleCapabilitiesServiceMethod \<Rightarrow> string" where
  "ModuleCapabilitiesService_method ModuleCapabilities_GetCurrentInstallation = ''GetCurrentInstallation''"
| "ModuleCapabilitiesService_method ModuleCapabilities_ApproveExecutableArtifact = ''ApproveExecutableArtifact''"
| "ModuleCapabilitiesService_method ModuleCapabilities_AuthorizeExecutableArtifact = ''AuthorizeExecutableArtifact''"
| "ModuleCapabilitiesService_method ModuleCapabilities_RevokeExecutableArtifact = ''RevokeExecutableArtifact''"
| "ModuleCapabilitiesService_method ModuleCapabilities_ExchangeDelegatedReadAudience = ''ExchangeDelegatedReadAudience''"
| "ModuleCapabilitiesService_method ModuleCapabilities_ExchangeDelegatedOperationAudience = ''ExchangeDelegatedOperationAudience''"
| "ModuleCapabilitiesService_method ModuleCapabilities_CheckWorkContextRecordAccess = ''CheckWorkContextRecordAccess''"
| "ModuleCapabilitiesService_method ModuleCapabilities_ListReadableSourceCollections = ''ListReadableSourceCollections''"
| "ModuleCapabilitiesService_method ModuleCapabilities_PlaceRecord = ''PlaceRecord''"
| "ModuleCapabilitiesService_method ModuleCapabilities_EnqueueJob = ''EnqueueJob''"
| "ModuleCapabilitiesService_method ModuleCapabilities_ClaimJobs = ''ClaimJobs''"
| "ModuleCapabilitiesService_method ModuleCapabilities_HeartbeatJob = ''HeartbeatJob''"
| "ModuleCapabilitiesService_method ModuleCapabilities_AckJob = ''AckJob''"
| "ModuleCapabilitiesService_method ModuleCapabilities_NackJob = ''NackJob''"
| "ModuleCapabilitiesService_method ModuleCapabilities_NotifyUser = ''NotifyUser''"
| "ModuleCapabilitiesService_method ModuleCapabilities_NotifyOrgAdmins = ''NotifyOrgAdmins''"
| "ModuleCapabilitiesService_method ModuleCapabilities_RequestApproval = ''RequestApproval''"
| "ModuleCapabilitiesService_method ModuleCapabilities_GetApproval = ''GetApproval''"
| "ModuleCapabilitiesService_method ModuleCapabilities_CancelApproval = ''CancelApproval''"
| "ModuleCapabilitiesService_method ModuleCapabilities_EmitAuditEvent = ''EmitAuditEvent''"
| "ModuleCapabilitiesService_method ModuleCapabilities_DeclareAuditEventTypes = ''DeclareAuditEventTypes''"
| "ModuleCapabilitiesService_method ModuleCapabilities_ListSubjectVisibility = ''ListSubjectVisibility''"
| "ModuleCapabilitiesService_method ModuleCapabilities_FetchDatasourceBlob = ''FetchDatasourceBlob''"
| "ModuleCapabilitiesService_method ModuleCapabilities_FetchDatasourceFiles = ''FetchDatasourceFiles''"
| "ModuleCapabilitiesService_method ModuleCapabilities_MintModuleWorkContext = ''MintModuleWorkContext''"
| "ModuleCapabilitiesService_method ModuleCapabilities_MintModuleOperationContext = ''MintModuleOperationContext''"
| "ModuleCapabilitiesService_method ModuleCapabilities_MintSourceOperationContext = ''MintSourceOperationContext''"
| "ModuleCapabilitiesService_method ModuleCapabilities_PublishEvent = ''PublishEvent''"
| "ModuleCapabilitiesService_method ModuleCapabilities_Subscribe = ''Subscribe''"
| "ModuleCapabilitiesService_method ModuleCapabilities_Unsubscribe = ''Unsubscribe''"
| "ModuleCapabilitiesService_method ModuleCapabilities_ListSubscriptions = ''ListSubscriptions''"
| "ModuleCapabilitiesService_method ModuleCapabilities_ReplayEvents = ''ReplayEvents''"
| "ModuleCapabilitiesService_method ModuleCapabilities_ResolveWorkContextAuthority = ''ResolveWorkContextAuthority''"

primrec ModuleCapabilitiesServiceProcedure :: "ModuleCapabilitiesServiceMethod \<Rightarrow> string" where
  "ModuleCapabilitiesServiceProcedure ModuleCapabilities_GetCurrentInstallation =
     ''/saas.accounts.v1.ModuleCapabilitiesService/GetCurrentInstallation''"
| "ModuleCapabilitiesServiceProcedure ModuleCapabilities_ApproveExecutableArtifact =
     ''/saas.accounts.v1.ModuleCapabilitiesService/ApproveExecutableArtifact''"
| "ModuleCapabilitiesServiceProcedure ModuleCapabilities_AuthorizeExecutableArtifact =
     ''/saas.accounts.v1.ModuleCapabilitiesService/AuthorizeExecutableArtifact''"
| "ModuleCapabilitiesServiceProcedure ModuleCapabilities_RevokeExecutableArtifact =
     ''/saas.accounts.v1.ModuleCapabilitiesService/RevokeExecutableArtifact''"
| "ModuleCapabilitiesServiceProcedure ModuleCapabilities_ExchangeDelegatedReadAudience =
     ''/saas.accounts.v1.ModuleCapabilitiesService/ExchangeDelegatedReadAudience''"
| "ModuleCapabilitiesServiceProcedure ModuleCapabilities_ExchangeDelegatedOperationAudience =
     ''/saas.accounts.v1.ModuleCapabilitiesService/ExchangeDelegatedOperationAudience''"
| "ModuleCapabilitiesServiceProcedure ModuleCapabilities_CheckWorkContextRecordAccess =
     ''/saas.accounts.v1.ModuleCapabilitiesService/CheckWorkContextRecordAccess''"
| "ModuleCapabilitiesServiceProcedure ModuleCapabilities_ListReadableSourceCollections =
     ''/saas.accounts.v1.ModuleCapabilitiesService/ListReadableSourceCollections''"
| "ModuleCapabilitiesServiceProcedure ModuleCapabilities_PlaceRecord =
     ''/saas.accounts.v1.ModuleCapabilitiesService/PlaceRecord''"
| "ModuleCapabilitiesServiceProcedure ModuleCapabilities_EnqueueJob =
     ''/saas.accounts.v1.ModuleCapabilitiesService/EnqueueJob''"
| "ModuleCapabilitiesServiceProcedure ModuleCapabilities_ClaimJobs =
     ''/saas.accounts.v1.ModuleCapabilitiesService/ClaimJobs''"
| "ModuleCapabilitiesServiceProcedure ModuleCapabilities_HeartbeatJob =
     ''/saas.accounts.v1.ModuleCapabilitiesService/HeartbeatJob''"
| "ModuleCapabilitiesServiceProcedure ModuleCapabilities_AckJob =
     ''/saas.accounts.v1.ModuleCapabilitiesService/AckJob''"
| "ModuleCapabilitiesServiceProcedure ModuleCapabilities_NackJob =
     ''/saas.accounts.v1.ModuleCapabilitiesService/NackJob''"
| "ModuleCapabilitiesServiceProcedure ModuleCapabilities_NotifyUser =
     ''/saas.accounts.v1.ModuleCapabilitiesService/NotifyUser''"
| "ModuleCapabilitiesServiceProcedure ModuleCapabilities_NotifyOrgAdmins =
     ''/saas.accounts.v1.ModuleCapabilitiesService/NotifyOrgAdmins''"
| "ModuleCapabilitiesServiceProcedure ModuleCapabilities_RequestApproval =
     ''/saas.accounts.v1.ModuleCapabilitiesService/RequestApproval''"
| "ModuleCapabilitiesServiceProcedure ModuleCapabilities_GetApproval =
     ''/saas.accounts.v1.ModuleCapabilitiesService/GetApproval''"
| "ModuleCapabilitiesServiceProcedure ModuleCapabilities_CancelApproval =
     ''/saas.accounts.v1.ModuleCapabilitiesService/CancelApproval''"
| "ModuleCapabilitiesServiceProcedure ModuleCapabilities_EmitAuditEvent =
     ''/saas.accounts.v1.ModuleCapabilitiesService/EmitAuditEvent''"
| "ModuleCapabilitiesServiceProcedure ModuleCapabilities_DeclareAuditEventTypes =
     ''/saas.accounts.v1.ModuleCapabilitiesService/DeclareAuditEventTypes''"
| "ModuleCapabilitiesServiceProcedure ModuleCapabilities_ListSubjectVisibility =
     ''/saas.accounts.v1.ModuleCapabilitiesService/ListSubjectVisibility''"
| "ModuleCapabilitiesServiceProcedure ModuleCapabilities_FetchDatasourceBlob =
     ''/saas.accounts.v1.ModuleCapabilitiesService/FetchDatasourceBlob''"
| "ModuleCapabilitiesServiceProcedure ModuleCapabilities_FetchDatasourceFiles =
     ''/saas.accounts.v1.ModuleCapabilitiesService/FetchDatasourceFiles''"
| "ModuleCapabilitiesServiceProcedure ModuleCapabilities_MintModuleWorkContext =
     ''/saas.accounts.v1.ModuleCapabilitiesService/MintModuleWorkContext''"
| "ModuleCapabilitiesServiceProcedure ModuleCapabilities_MintModuleOperationContext =
     ''/saas.accounts.v1.ModuleCapabilitiesService/MintModuleOperationContext''"
| "ModuleCapabilitiesServiceProcedure ModuleCapabilities_MintSourceOperationContext =
     ''/saas.accounts.v1.ModuleCapabilitiesService/MintSourceOperationContext''"
| "ModuleCapabilitiesServiceProcedure ModuleCapabilities_PublishEvent =
     ''/saas.accounts.v1.ModuleCapabilitiesService/PublishEvent''"
| "ModuleCapabilitiesServiceProcedure ModuleCapabilities_Subscribe =
     ''/saas.accounts.v1.ModuleCapabilitiesService/Subscribe''"
| "ModuleCapabilitiesServiceProcedure ModuleCapabilities_Unsubscribe =
     ''/saas.accounts.v1.ModuleCapabilitiesService/Unsubscribe''"
| "ModuleCapabilitiesServiceProcedure ModuleCapabilities_ListSubscriptions =
     ''/saas.accounts.v1.ModuleCapabilitiesService/ListSubscriptions''"
| "ModuleCapabilitiesServiceProcedure ModuleCapabilities_ReplayEvents =
     ''/saas.accounts.v1.ModuleCapabilitiesService/ReplayEvents''"
| "ModuleCapabilitiesServiceProcedure ModuleCapabilities_ResolveWorkContextAuthority =
     ''/saas.accounts.v1.ModuleCapabilitiesService/ResolveWorkContextAuthority''"

definition moduleCapabilitiesServiceClient :: "ModuleCapabilitiesServiceMethod list" where
  "moduleCapabilitiesServiceClient =
     [ModuleCapabilities_GetCurrentInstallation,
      ModuleCapabilities_ApproveExecutableArtifact,
      ModuleCapabilities_AuthorizeExecutableArtifact,
      ModuleCapabilities_RevokeExecutableArtifact,
      ModuleCapabilities_ExchangeDelegatedReadAudience,
      ModuleCapabilities_ExchangeDelegatedOperationAudience,
      ModuleCapabilities_CheckWorkContextRecordAccess,
      ModuleCapabilities_ListReadableSourceCollections,
      ModuleCapabilities_PlaceRecord,
      ModuleCapabilities_EnqueueJob,
      ModuleCapabilities_ClaimJobs,
      ModuleCapabilities_HeartbeatJob,
      ModuleCapabilities_AckJob,
      ModuleCapabilities_NackJob,
      ModuleCapabilities_NotifyUser,
      ModuleCapabilities_NotifyOrgAdmins,
      ModuleCapabilities_RequestApproval,
      ModuleCapabilities_GetApproval,
      ModuleCapabilities_CancelApproval,
      ModuleCapabilities_EmitAuditEvent,
      ModuleCapabilities_DeclareAuditEventTypes,
      ModuleCapabilities_ListSubjectVisibility,
      ModuleCapabilities_FetchDatasourceBlob,
      ModuleCapabilities_FetchDatasourceFiles,
      ModuleCapabilities_MintModuleWorkContext,
      ModuleCapabilities_MintModuleOperationContext,
      ModuleCapabilities_MintSourceOperationContext,
      ModuleCapabilities_PublishEvent,
      ModuleCapabilities_Subscribe,
      ModuleCapabilities_Unsubscribe,
      ModuleCapabilities_ListSubscriptions,
      ModuleCapabilities_ReplayEvents,
      ModuleCapabilities_ResolveWorkContextAuthority]"

definition NewModuleCapabilitiesServiceClient :: "string \<Rightarrow> ModuleCapabilitiesServiceMethod \<Rightarrow> endpoint" where
  "NewModuleCapabilitiesServiceClient baseURL m =
     \<lparr>ep_url = trim_right_char (CHR ''/'') baseURL @ ModuleCapabilitiesServiceProcedure m, ep_schema = ModuleCapabilitiesService_method m\<rparr>"

definition moduleCapabilitiesServiceClient_call :: "(ModuleCapabilitiesServiceMethod \<Rightarrow> endpoint) \<Rightarrow> ModuleCapabilitiesServiceMethod \<Rightarrow> call_kind \<times> endpoint" where
  "moduleCapabilitiesServiceClient_call c m = ((if m \<in> {ModuleCapabilities_FetchDatasourceBlob, ModuleCapabilities_FetchDatasourceFiles} then CallServerStream else CallUnary), c m)"

definition moduleCapabilitiesServiceHandler_routes :: "(ModuleCapabilitiesServiceMethod \<Rightarrow> 'f) \<Rightarrow> ModuleCapabilitiesServiceMethod \<Rightarrow> 'f route" where
  "moduleCapabilitiesServiceHandler_routes svc m =
     \<lparr>rt_procedure = ModuleCapabilitiesServiceProcedure m, rt_kind = (if m \<in> {ModuleCapabilities_FetchDatasourceBlob, ModuleCapabilities_FetchDatasourceFiles} then CallServerStream else CallUnary),
      rt_impl = svc m, rt_schema = ModuleCapabilitiesService_method m\<rparr>"

definition NewModuleCapabilitiesServiceHandler ::
  "(ModuleCapabilitiesServiceMethod \<Rightarrow> 'f) \<Rightarrow> string \<times> (string \<Rightarrow> 'f route option)" where
  "NewModuleCapabilitiesServiceHandler svc =
     (''/saas.accounts.v1.ModuleCapabilitiesService/'', \<lambda>path. map_option (moduleCapabilitiesServiceHandler_routes svc)
        (switch_on ModuleCapabilitiesServiceProcedure moduleCapabilitiesServiceClient path))"

definition UnimplementedModuleCapabilitiesServiceHandler :: "ModuleCapabilitiesServiceMethod \<Rightarrow> connect_failure" where
  "UnimplementedModuleCapabilitiesServiceHandler m =
     \<lparr>cf_code = CodeUnimplemented, cf_text = ''saas.accounts.v1.ModuleCapabilitiesService.'' @ ModuleCapabilitiesService_method m @ '' is not implemented''\<rparr>"

interpretation moduleCapabilitiesService: connect_service ModuleCapabilitiesServiceName ModuleCapabilitiesService_method ModuleCapabilitiesServiceProcedure moduleCapabilitiesServiceClient
proof
  show "ModuleCapabilitiesServiceProcedure m = CHR ''/'' # ModuleCapabilitiesServiceName @ CHR ''/'' # ModuleCapabilitiesService_method m" for m
    by (cases m) (simp_all add: ModuleCapabilitiesServiceName_def)
  show "m \<in> set moduleCapabilitiesServiceClient" for m by (cases m) (simp_all add: moduleCapabilitiesServiceClient_def)
  show "distinct (map ModuleCapabilitiesService_method moduleCapabilitiesServiceClient)" by code_simp
  show "CHR ''/'' \<notin> set ModuleCapabilitiesServiceName \<and>
      list_all (\<lambda>m. CHR ''/'' \<notin> set (ModuleCapabilitiesService_method m)) moduleCapabilitiesServiceClient"
    by code_simp
qed

end
