(* ===== verification/MaBroker.thy ===== *)
theory MaBroker
  imports MaTransport MaWire ConnectModule
begin

text \<open>
  moduleauthority/broker.go and token.go: what the module asks of the gateway's broker, over a
  world that answers every request as it likes.

  \<^item> Every interaction with the outside is an \<open>event\<close>, appended to the log of the state: a read of
    the projected token, a read of the clock, a broker request, an authority call. What the world
    answers is a function of the log so far, so it can depend on everything that happened before,
    and the requests sent can be counted and read back.
  \<^item> \<open>core_lib\<close> is code that is not under src/: core's structural reader of Work Contexts with its
    sentinels, \<^verbatim>\<open>uuid.Parse\<close> (as what the identifier prints as) and the name of wool's Work Context
    header; and of the standard library, as parameters, \<^verbatim>\<open>time.Parse\<close> of
    RFC 3339, \<^verbatim>\<open>json.Unmarshal\<close> into a struct of string fields (the field with its JSON name, the
    empty string where it is absent) and the printable runes of \<^verbatim>\<open>%q\<close>.
  \<^item> A request body is the JSON object of its members; \<^verbatim>\<open>json.Marshal\<close> of strings cannot fail.
\<close>

section \<open>The world\<close>

record core_lib =
  core_Decode :: "string \<Rightarrow> string option"
  core_ErrNoSeal :: ma_err
  core_ErrNoBinding :: ma_err
  uuid_Parse :: "string \<Rightarrow> string option"
  time_Parse :: "string \<Rightarrow> gotime option"
  json_Unmarshal :: "string \<Rightarrow> (string \<Rightarrow> string) option"
  rune_print :: "string \<Rightarrow> bool"
  WorkContextHeader :: string

text \<open>A reader: the bytes it delivers and the error it then ends with, if any.\<close>

record stream =
  st_data :: string
  st_error :: "ma_err option"

record http_request =
  hq_method :: string
  hq_url :: string
  hq_header :: "(string \<times> string) list"
  hq_body :: "(string \<times> string) list"
  hq_follow_redirects :: bool

record http_response =
  hr_status :: int
  hr_body :: stream

record authority_request =
  au_url :: string
  au_header :: "(string \<times> string) list"
  au_msg :: authority_msg

datatype event =
    EvToken
  | EvNow
  | EvPost http_request
  | EvCall authority_request

text \<open>The generated client, one answer per procedure the package calls.\<close>

type_synonym 'r answers = "event list \<Rightarrow> authority_request \<Rightarrow> ma_err + 'r option"

record service =
  sv_exchange :: "IssuedWorkContext answers"
  sv_resolve :: "ModuleResolveWorkContextAuthorityResponse answers"
  sv_approve :: "ModuleExecutableArtifactResponse answers"
  sv_authorize :: "ModuleExecutableArtifactResponse answers"
  sv_revoke :: "ModuleExecutableArtifactResponse answers"
  sv_notify_user :: "ModuleNotifyUserResponse answers"
  sv_notify_org_admins :: "ModuleNotifyOrgAdminsResponse answers"
  sv_emit :: "unit answers"
  sv_declare :: "unit answers"
  sv_installation :: "ModuleCurrentInstallationResponse answers"

record world =
  w_now :: "event list \<Rightarrow> gotime"
  w_token :: "event list \<Rightarrow> ma_err + string"
  w_open :: "event list \<Rightarrow> string \<Rightarrow> ma_err + stream"
  w_http :: "event list \<Rightarrow> http_request \<Rightarrow> ma_err + http_response"
  w_service :: service

text \<open>What changes while a client runs: the log, and the client's cached module Work Context.\<close>

record state =
  log :: "event list"
  c_module :: string
  c_expiresAt :: gotime

section \<open>Sequencing\<close>

type_synonym 'a op = "state \<Rightarrow> (ma_err + 'a) \<times> state"

definition give :: "'a \<Rightarrow> 'a op" where
  "give a = (\<lambda>s. (Inr a, s))"

definition throw :: "ma_err \<Rightarrow> 'a op" where
  "throw e = (\<lambda>s. (Inl e, s))"

text \<open>\<open>attempt m f\<close>: run \<open>m\<close>, return its error, or go on with its result.\<close>

definition attempt :: "'a op \<Rightarrow> ('a \<Rightarrow> 'b op) \<Rightarrow> 'b op" where
  "attempt m f = (\<lambda>s. case m s of (Inl e, s') \<Rightarrow> (Inl e, s') | (Inr a, s') \<Rightarrow> f a s')"

text \<open>\<open>on_error m g\<close>: as \<open>m\<close>, with its error wrapped.\<close>

definition on_error :: "'a op \<Rightarrow> (ma_err \<Rightarrow> ma_err) \<Rightarrow> 'a op" where
  "on_error m g = (\<lambda>s. case m s of (Inl e, s') \<Rightarrow> (Inl (g e), s') | (Inr a, s') \<Rightarrow> (Inr a, s'))"

definition happens :: "event \<Rightarrow> (event list \<Rightarrow> ma_err + 'a) \<Rightarrow> 'a op" where
  "happens ev answer = (\<lambda>s. (answer (log s), s\<lparr>log := log s @ [ev]\<rparr>))"

definition clock :: "world \<Rightarrow> gotime op" where
  "clock W = happens EvNow (\<lambda>l. Inr (w_now W l))"

lemmas op_defs = give_def throw_def attempt_def on_error_def happens_def clock_def

section \<open>Constants and requests\<close>

definition workContextPath :: string where "workContextPath = ''/modules/_work-context''"
definition operationContextPath :: string where
  "operationContextPath = ''/modules/_operation-context''"
definition sourceOperationContextPath :: string where
  "sourceOperationContextPath = ''/modules/_source-operation-context''"
definition internalTokenHeader :: string where
  "internalTokenHeader = ''X-Codefly-Internal-Token''"
definition bearerScheme :: string where "bearerScheme = ''Bearer ''"
definition maxBrokerResponse :: nat where "maxBrokerResponse = 65536"

text \<open>The request structs with their JSON tags; \<open>omitempty\<close> drops an empty organization.\<close>

definition workContextRequest :: "string \<Rightarrow> string \<Rightarrow> (string \<times> string) list" where
  "workContextRequest prefix organizationID =
     (''prefix'', prefix) #
     (if organizationID = [] then [] else [(''organization_id'', organizationID)])"

definition operationContextRequest ::
  "string \<Rightarrow> string \<Rightarrow> string \<Rightarrow> (string \<times> string) list" where
  "operationContextRequest prefix binding organizationID =
     (''prefix'', prefix) # (''binding'', binding) #
     (if organizationID = [] then [] else [(''organization_id'', organizationID)])"

definition sourceOperationContextRequest :: "string \<Rightarrow> string \<Rightarrow> (string \<times> string) list" where
  "sourceOperationContextRequest prefix sourceID =
     [(''prefix'', prefix), (''source_id'', sourceID)]"

section \<open>The broker\<close>

text \<open>An \<^verbatim>\<open>http.Client\<close>: what matters is whether it follows a redirect.\<close>

record http_client =
  follows_redirects :: bool

record gateway =
  gw_BaseURL :: string
  gw_HTTPClient :: "http_client option"

record Seams =
  Gateway :: "gateway option"
  seam_Authority :: Authority
  InternalToken :: string
  AllowInsecureHTTP :: bool

record broker =
  br_baseURL :: string
  br_client :: http_client
  br_token :: string

definition newBroker :: "core_lib \<Rightarrow> Seams \<Rightarrow> ma_err + broker" where
  "newBroker L seams = (case Gateway seams of
       None \<Rightarrow> Inl (detailf ErrInvalidSeams ''the gateway is required'')
     | Some gw \<Rightarrow>
       (case gatewayBaseURL (rune_print L) (gw_BaseURL gw) (AllowInsecureHTTP seams) of
          Inl e \<Rightarrow> Inl e
        | Inr base \<Rightarrow>
          (case gw_HTTPClient gw of
             None \<Rightarrow> Inl (detailf ErrInvalidSeams ''the gateway HTTP client is required'')
           | Some c \<Rightarrow> Inr \<lparr>br_baseURL = base, br_client = c\<lparr>follows_redirects := False\<rparr>,
                             br_token = InternalToken seams\<rparr>)))"

text \<open>
  \<^verbatim>\<open>io.ReadAll(io.LimitReader(body, n))\<close>: at most \<open>n\<close> bytes; the error of the body is seen only
  when it ends before the limit. A body returns an error in a read of its own, after its bytes.
\<close>

definition read_limited :: "nat \<Rightarrow> stream \<Rightarrow> ma_err + string" where
  "read_limited n r =
     (if n \<le> length (st_data r) then Inr (take n (st_data r))
      else case st_error r of Some e \<Rightarrow> Inl e | None \<Rightarrow> Inr (st_data r))"

text \<open>The error of \<^verbatim>\<open>http.NewRequest\<close> on a URL that does not parse: a \<^verbatim>\<open>url.Error\<close>, no timeout.\<close>

definition url_error :: ma_err where
  "url_error = Err (MExternal (plain_ext ''parse URL''\<lparr>x_timeout := Some False\<rparr>)) []"

definition transport_failure :: "ma_err \<Rightarrow> ma_err" where
  "transport_failure e = Err (MTransport (brokerTransportError e)) []"

definition broker_request ::
  "broker \<Rightarrow> string \<Rightarrow> string \<Rightarrow> (string \<times> string) list \<Rightarrow> http_request" where
  "broker_request b path projectedToken body =
     \<lparr>hq_method = ''POST'', hq_url = br_baseURL b @ path,
      hq_header = [(''Content-Type'', ''application/json''), (''Accept'', ''application/json''),
        (internalTokenHeader, br_token b), (''Authorization'', bearerScheme @ projectedToken)],
      hq_body = body, hq_follow_redirects = follows_redirects (br_client b)\<rparr>"

definition read_answer :: "core_lib \<Rightarrow> string \<Rightarrow> http_response \<Rightarrow> ma_err + (string \<Rightarrow> string)" where
  "read_answer L path r =
     (if hr_status r \<noteq> 200 then Inl (Err (MBroker (newBrokerError (hr_status r))) [])
      else case read_limited (maxBrokerResponse + 1) (hr_body r) of
        Inl e \<Rightarrow> Inl (transport_failure e)
      | Inr raw \<Rightarrow>
        (if length raw > maxBrokerResponse
         then Inl (Err (MText (''module broker '' @ path @ '': response exceeds 65536 bytes'')) [])
         else case json_Unmarshal L raw of
           None \<Rightarrow> Inl (detailf ErrInvalidCapability ''undecodable broker answer'')
         | Some out \<Rightarrow> Inr out))"

definition post ::
  "core_lib \<Rightarrow> world \<Rightarrow> broker \<Rightarrow> string \<Rightarrow> string \<Rightarrow> (string \<times> string) list \<Rightarrow> (string \<Rightarrow> string) op" where
  "post L W b path projectedToken body =
     (let req = broker_request b path projectedToken body in
      if url_Parse (hq_url req) = None then throw (transport_failure url_error)
      else attempt
        (happens (EvPost req) (\<lambda>l. case w_http W l req of
           Inl e \<Rightarrow> Inl (transport_failure e) | Inr r \<Rightarrow> Inr r))
        (\<lambda>r. case read_answer L path r of Inl e \<Rightarrow> throw e | Inr out \<Rightarrow> give out))"

definition brokerRefusal :: "ma_err \<Rightarrow> ma_err" where
  "brokerRefusal err = (case as_broker err of
       None \<Rightarrow> err
     | Some be \<Rightarrow>
       (if StatusCode be = 401 then joinf ErrInvalidCredentials err
        else if StatusCode be = 403 then joinf ErrPermissionDenied err
        else if StatusCode be = 412 then joinf ErrNoHostStateToMintFor err
        else if StatusCode be = 503 then joinf ErrExecutionUnestablished err
        else err))"

section \<open>Answers\<close>

definition sealed :: "core_lib \<Rightarrow> string \<Rightarrow> bool" where
  "sealed L encoded \<longleftrightarrow> (if encoded = [] then False else core_Decode L encoded \<noteq> None)"

definition parseExpiry :: "core_lib \<Rightarrow> string \<Rightarrow> gotime \<Rightarrow> ma_err + gotime" where
  "parseExpiry L raw now =
     (if raw = [] then Inl (detailf ErrInvalidCapability ''missing expiry'')
      else case time_Parse L raw of
        None \<Rightarrow> Inl (detailf ErrInvalidCapability ''malformed expiry'')
      | Some expires \<Rightarrow>
        (if \<not> now < expires then Inl (detailf ErrInvalidCapability ''capability is already expired'')
         else Inr expires))"

record workContextResponse =
  wr_Token :: string
  wr_ExpiresAt :: string
  wr_PrincipalID :: string
  wr_Tenant :: string

definition workContextResponse_of :: "(string \<Rightarrow> string) \<Rightarrow> workContextResponse" where
  "workContextResponse_of f = \<lparr>wr_Token = f ''token'', wr_ExpiresAt = f ''expiresAt'',
     wr_PrincipalID = f ''principalId'', wr_Tenant = f ''tenant''\<rparr>"

record operationContextResponse =
  or_WorkContext :: string
  or_ExpiresAt :: string
  or_PrincipalID :: string
  or_Tenant :: string
  or_Audience :: string
  or_Binding :: string

definition operationContextResponse_of :: "(string \<Rightarrow> string) \<Rightarrow> operationContextResponse" where
  "operationContextResponse_of f = \<lparr>or_WorkContext = f ''work_context'',
     or_ExpiresAt = f ''expires_at'', or_PrincipalID = f ''principal_id'',
     or_Tenant = f ''tenant'', or_Audience = f ''audience'', or_Binding = f ''binding''\<rparr>"

record OperationContext =
  Token :: string
  ExpiresAt :: gotime
  PrincipalID :: string
  Tenant :: string
  Audience :: string
  BindingID :: string

definition operationContext ::
  "core_lib \<Rightarrow> operationContextResponse \<Rightarrow> gotime \<Rightarrow> ma_err + OperationContext" where
  "operationContext L r now = (case parseExpiry L (or_ExpiresAt r) now of
       Inl e \<Rightarrow> Inl e
     | Inr expires \<Rightarrow>
       (if \<not> sealed L (or_WorkContext r)
        then Inl (detailf ErrInvalidCapability ''malformed operation token'')
        else Inr \<lparr>Token = or_WorkContext r, ExpiresAt = expires, PrincipalID = or_PrincipalID r,
               Tenant = or_Tenant r, Audience = or_Audience r, BindingID = or_Binding r\<rparr>))"

end
