(* ===== verification/MaClient.thy ===== *)
theory MaClient
  imports MaBroker
begin

text \<open>
  moduleauthority/client.go, authority.go and gateway.go: the client of the module authority.
  Its configuration is the record \<open>Client\<close>, what it changes is the record \<open>state\<close> of theory
  MaBroker: the cached module Work Context and the log of everything it asked of the world.
  \<^verbatim>\<open>context.Context\<close> only reaches library calls, so its effect is part of what the world answers.
  Each operation holds the client's mutex around the cache, so one operation at a time reads and
  writes it; here operations are sequential, and theories
  MaConcurrent and MaLocked let them interleave.
\<close>

section \<open>Credentials\<close>

datatype token_source = ProjectedTokenFile string | OtherTokenSource

record Credentials =
  Prefix :: string
  cred_Token :: "token_source option"
  OrganizationID :: string

definition WorkloadTokenFileVariable :: string where
  "WorkloadTokenFileVariable = ''CODEFLY__WORKLOAD_TOKEN_FILE''"

definition PodWorkloadTokenFile :: string where
  "PodWorkloadTokenFile = ''/var/run/secrets/codefly/token''"

definition maxProjectedToken :: nat where
  "maxProjectedToken = 65536"

text \<open>\<open>getenv\<close> is \<^verbatim>\<open>os.Getenv\<close>: the empty string for a variable that is not set.\<close>

definition WorkloadTokenFile :: "(string \<Rightarrow> string) \<Rightarrow> string" where
  "WorkloadTokenFile getenv =
     (let path = trim_space (getenv WorkloadTokenFileVariable) in
      if path \<noteq> [] then path else PodWorkloadTokenFile)"

definition plain_error :: "string \<Rightarrow> ma_err" where
  "plain_error t = Err (MText t) []"

definition ProjectedTokenFile_ProjectedToken :: "world \<Rightarrow> string \<Rightarrow> event list \<Rightarrow> ma_err + string" where
  "ProjectedTokenFile_ProjectedToken W path l =
     (if trim_space path = [] then Inl (detailf ErrInvalidCredentials ''no projected token path'')
      else case w_open W l path of
        Inl e \<Rightarrow> Inl (contextf ''module authority: open projected token'' e)
      | Inr file \<Rightarrow>
        (case read_limited (maxProjectedToken + 1) file of
           Inl e \<Rightarrow> Inl (contextf ''module authority: read projected token'' e)
         | Inr raw \<Rightarrow>
           (if length raw > maxProjectedToken
            then Inl (plain_error ''module authority: projected token exceeds 65536 bytes'')
            else let token = trim_space raw in
              if token = [] then Inl (plain_error ''module authority: projected token is empty'')
              else Inr token)))"

text \<open>The interface call: one event, whichever source the consumer chose.\<close>

definition ProjectedToken :: "world \<Rightarrow> token_source \<Rightarrow> string op" where
  "ProjectedToken W src = happens EvToken (\<lambda>l. case src of
       ProjectedTokenFile path \<Rightarrow> ProjectedTokenFile_ProjectedToken W path l
     | OtherTokenSource \<Rightarrow> w_token W l)"

definition projectedToken :: "world \<Rightarrow> Credentials \<Rightarrow> string op" where
  "projectedToken W c =
     (case cred_Token c of
        None \<Rightarrow> throw (fail_sentinel ErrInvalidCredentials)
      | Some src \<Rightarrow>
        (if Prefix c = [] then throw (fail_sentinel ErrInvalidCredentials)
         else attempt (on_error (ProjectedToken W src) (joinf ErrInvalidCredentials))
           (\<lambda>t. let token = trim_space t in
              if token = []
              then throw (detailf ErrInvalidCredentials ''projected token is empty'')
              else if length token > maxProjectedToken
              then throw (detailf ErrInvalidCredentials ''projected token exceeds 65536 bytes'')
              else give token)))"

section \<open>The authority endpoint\<close>

definition second :: gotime where
  "second = 1000000000"

text \<open>The \<^verbatim>\<open>http.Transport\<close> built for the endpoint; its proxy is nil.\<close>

record authority_transport =
  tr_DialTimeout :: gotime
  tr_KeepAlive :: gotime
  tr_TLSHandshakeTimeout :: gotime
  tr_IdleConnTimeout :: gotime
  tr_TLS :: "nat option"
  tr_HTTP2 :: bool
  tr_UnencryptedHTTP2 :: bool

datatype protocol = GRPC | ConnectBinary nat

record authorityEndpoint =
  ae_capabilities :: "(ModuleCapabilitiesServiceMethod \<Rightarrow> endpoint) option"
  ae_protocol :: protocol
  ae_client :: http_client
  ae_transport :: "authority_transport option"
  ae_token :: string

definition no_endpoint :: authorityEndpoint where
  "no_endpoint = \<lparr>ae_capabilities = None, ae_protocol = GRPC,
     ae_client = \<lparr>follows_redirects = False\<rparr>, ae_transport = None, ae_token = []\<rparr>"

definition newAuthorityEndpoint :: "core_lib \<Rightarrow> Seams \<Rightarrow> ma_err + authorityEndpoint" where
  "newAuthorityEndpoint L seams =
     (case authorityBaseURL (rune_print L) (seam_Authority seams) (AllowInsecureHTTP seams) of
        Inl e \<Rightarrow> Inl e
      | Inr base \<Rightarrow>
        (let transport = \<lparr>tr_DialTimeout = 10 * second, tr_KeepAlive = 30 * second,
               tr_TLSHandshakeTimeout = 10 * second, tr_IdleConnTimeout = 90 * second,
               tr_TLS = TLS (seam_Authority seams), tr_HTTP2 = (TLS (seam_Authority seams) \<noteq> None),
               tr_UnencryptedHTTP2 = (TLS (seam_Authority seams) = None)\<rparr>
         in Inr \<lparr>ae_capabilities = Some (NewModuleCapabilitiesServiceClient base),
              ae_protocol = GRPC, ae_client = \<lparr>follows_redirects = False\<rparr>,
              ae_transport = Some transport, ae_token = InternalToken seams\<rparr>))"

definition present :: "authorityEndpoint \<Rightarrow> bool" where
  "present a \<longleftrightarrow> ae_capabilities a \<noteq> None"

section \<open>The client\<close>

definition defaultRefreshSkew :: gotime where
  "defaultRefreshSkew = 30 * second"

record Client =
  c_broker :: broker
  c_authority :: authorityEndpoint
  c_credentials :: Credentials
  c_refreshSkew :: gotime

definition initial_state :: state where
  "initial_state = \<lparr>log = [], c_module = [], c_expiresAt = zero_time\<rparr>"

definition New :: "core_lib \<Rightarrow> Seams \<Rightarrow> Credentials \<Rightarrow> ma_err + Client" where
  "New L seams credentials =
     (if Prefix credentials = [] \<or> cred_Token credentials = None
      then Inl (fail_sentinel ErrInvalidCredentials)
      else if OrganizationID credentials \<noteq> [] \<and>
              uuid_Parse L (OrganizationID credentials) \<noteq> Some (OrganizationID credentials)
      then Inl (detailf ErrInvalidCredentials ''the organization ID must be a canonical UUID'')
      else if InternalToken seams = []
      then Inl (detailf ErrInvalidSeams ''the internal token is required'')
      else case newBroker L seams of
        Inl e \<Rightarrow> Inl e
      | Inr gateway \<Rightarrow>
        (case (if seam_Authority seams \<noteq> zero_authority then newAuthorityEndpoint L seams
               else Inr no_endpoint) of
           Inl e \<Rightarrow> Inl e
         | Inr authority \<Rightarrow>
             Inr \<lparr>c_broker = gateway, c_authority = authority, c_credentials = credentials,
                  c_refreshSkew = defaultRefreshSkew\<rparr>))"

definition NewGatewayAuthority :: "core_lib \<Rightarrow> Seams \<Rightarrow> Credentials \<Rightarrow> ma_err + Client" where
  "NewGatewayAuthority L seams credentials =
     (if seam_Authority seams \<noteq> zero_authority
      then Inl (detailf ErrInvalidSeams ''gateway authority must not also select a direct endpoint'')
      else case New L seams credentials of
        Inl e \<Rightarrow> Inl e
      | Inr c \<Rightarrow> Inr (c\<lparr>c_authority :=
          \<lparr>ae_capabilities = Some (NewModuleCapabilitiesServiceClient
               (br_baseURL (c_broker c) @ ''/modules/_authority'')),
           ae_protocol = ConnectBinary maxBrokerResponse, ae_client = br_client (c_broker c),
           ae_transport = None, ae_token = InternalToken seams\<rparr>\<rparr>))"

record ModuleContext =
  mc_Token :: string
  mc_ExpiresAt :: gotime

definition MintModuleWorkContext :: "core_lib \<Rightarrow> world \<Rightarrow> Client \<Rightarrow> ModuleContext op" where
  "MintModuleWorkContext L W c =
     attempt (projectedToken W (c_credentials c)) (\<lambda>projected.
     attempt (on_error
        (post L W (c_broker c) workContextPath projected
           (workContextRequest (Prefix (c_credentials c)) (OrganizationID (c_credentials c))))
        (\<lambda>e. contextf ''module authority: mint module Work Context'' (brokerRefusal e))) (\<lambda>out.
     let issued = workContextResponse_of out in
     attempt (clock W) (\<lambda>now.
     case parseExpiry L (wr_ExpiresAt issued) now of
       Inl e \<Rightarrow> throw e
     | Inr expires \<Rightarrow>
       (if \<not> sealed L (wr_Token issued) then throw (detailf ErrInvalidCapability ''malformed token'')
        else give \<lparr>mc_Token = wr_Token issued, mc_ExpiresAt = expires\<rparr>))))"

definition refreshModule :: "core_lib \<Rightarrow> world \<Rightarrow> Client \<Rightarrow> string op" where
  "refreshModule L W c =
     attempt (MintModuleWorkContext L W c) (\<lambda>issued s.
       (Inr (mc_Token issued), s\<lparr>c_module := mc_Token issued, c_expiresAt := mc_ExpiresAt issued\<rparr>))"

definition moduleWorkContextLocked :: "core_lib \<Rightarrow> world \<Rightarrow> Client \<Rightarrow> string op" where
  "moduleWorkContextLocked L W c = (\<lambda>s.
     if c_module s \<noteq> []
     then attempt (clock W) (\<lambda>now s.
       if now + c_refreshSkew c < c_expiresAt s then (Inr (c_module s), s) else refreshModule L W c s) s
     else refreshModule L W c s)"

definition ModuleWorkContext :: "core_lib \<Rightarrow> world \<Rightarrow> Client \<Rightarrow> string op" where
  "ModuleWorkContext L W c = moduleWorkContextLocked L W c"

definition forgetModuleWorkContext :: "string \<Rightarrow> unit op" where
  "forgetModuleWorkContext rejected = (\<lambda>s.
     (Inr (), if c_module s = rejected then s\<lparr>c_module := [], c_expiresAt := zero_time\<rparr> else s))"

section \<open>Calls on the authority endpoint\<close>

text \<open>A method expression of the generated client: its route, its message and its answers.\<close>

record ('req, 'res) procedure =
  pr_method :: ModuleCapabilitiesServiceMethod
  pr_msg :: "'req \<Rightarrow> authority_msg"
  pr_answers :: "service \<Rightarrow> 'res answers"

definition authorityRequest ::
  "core_lib \<Rightarrow> authorityEndpoint \<Rightarrow> endpoint \<Rightarrow> string \<Rightarrow> authority_msg \<Rightarrow> authority_request" where
  "authorityRequest L a ep module msg =
     \<lparr>au_url = ep_url ep,
      au_header = [(internalTokenHeader, ae_token a), (WorkContextHeader L, module)],
      au_msg = msg\<rparr>"

definition callAsModule ::
  "core_lib \<Rightarrow> world \<Rightarrow> Client \<Rightarrow> ('req, 'res) procedure \<Rightarrow> 'req \<Rightarrow> 'res option op" where
  "callAsModule L W c p msg = (case ae_capabilities (c_authority c) of
       None \<Rightarrow> throw (fail_sentinel ErrNoAuthority)
     | Some capabilities \<Rightarrow>
       (let call = (\<lambda>module. let req = authorityRequest L (c_authority c)
              (snd (moduleCapabilitiesServiceClient_call capabilities (pr_method p))) module (pr_msg p msg)
            in happens (EvCall req) (\<lambda>l. pr_answers p (w_service W) l req)) in
        attempt (ModuleWorkContext L W c) (\<lambda>module s.
          case call module s of
            (Inr res, s) \<Rightarrow> (Inr res, s)
          | (Inl err, s) \<Rightarrow>
            (if CodeOf err \<noteq> CodeUnauthenticated then (Inl err, s)
             else attempt (forgetModuleWorkContext module) (\<lambda>_.
                  attempt (moduleWorkContextLocked L W c) call) s))))"

definition Exchange_procedure ::
  "(ModuleExchangeDelegatedOperationAudienceRequest, IssuedWorkContext) procedure" where
  "Exchange_procedure =
     \<lparr>pr_method = ModuleCapabilities_ExchangeDelegatedOperationAudience,
      pr_msg = MsgExchange, pr_answers = sv_exchange\<rparr>"

section \<open>Exchange and operation mint\<close>

record ExchangeRequest =
  ex_BindingID :: string
  ex_Parent :: string
  ex_Lookup :: bool
  ex_DelegationID :: string

definition ExchangeOperation :: "core_lib \<Rightarrow> world \<Rightarrow> Client \<Rightarrow> ExchangeRequest \<Rightarrow> string op" where
  "ExchangeOperation L W c exchange =
     (let parent = ex_Parent exchange in
      if ex_BindingID exchange = [] \<or> (parent = []) = (ex_DelegationID exchange = []) \<or>
         (parent \<noteq> [] \<and> \<not> sealed L parent)
      then throw (fail_sentinel ErrInvalidExchange)
      else attempt (on_error
        (callAsModule L W c Exchange_procedure
           \<lparr>xq_BindingId = ex_BindingID exchange, xq_ParentWorkContextToken = parent,
            xq_Lookup = ex_Lookup exchange, xq_DelegationId = ex_DelegationID exchange\<rparr>)
        (contextf ''module authority: exchange operation audience''))
        (\<lambda>issued. if \<not> sealed L (GetToken issued)
           then throw (detailf ErrInvalidCapability ''malformed exchanged token'')
           else give (GetToken issued)))"

definition MintModuleOperationContext ::
  "core_lib \<Rightarrow> world \<Rightarrow> Client \<Rightarrow> string \<Rightarrow> OperationContext op" where
  "MintModuleOperationContext L W c bindingID =
     (if bindingID = [] then throw (fail_sentinel ErrInvalidExchange)
      else attempt (projectedToken W (c_credentials c)) (\<lambda>projected.
      attempt (on_error
        (post L W (c_broker c) operationContextPath projected
           (operationContextRequest (Prefix (c_credentials c)) bindingID
              (OrganizationID (c_credentials c))))
        (\<lambda>e. contextf ''module authority: mint operation context'' (brokerRefusal e))) (\<lambda>out.
      attempt (clock W) (\<lambda>now.
      case operationContext L (operationContextResponse_of out) now of
        Inl e \<Rightarrow> throw e
      | Inr op \<Rightarrow>
        (if BindingID op \<noteq> bindingID
         then throw (detailf ErrInvalidCapability ''issued for another binding'')
         else give op)))))"

end
