(* ===== verification/MaSamples.thy ===== *)
theory MaSamples
  imports MaClient
begin

text \<open>
  A concrete library, host and client, on which the properties of the module authority are
  exercised: a Work Context is sealed when it starts with \<open>wc-\<close>, the gateway answers every mint, and
  the host rejects the module Work Context \<open>wc-old\<close>.
\<close>

definition sample_owner :: "string \<Rightarrow> string option" where
  "sample_owner t = (if has_prefix t ''wc-'' then Some ''owner'' else None)"

definition sample_fields :: "string \<Rightarrow> string \<Rightarrow> string" where
  "sample_fields raw f =
     (if f \<in> {''token'', ''work_context''} then ''wc-'' @ raw
      else if f \<in> {''expiresAt'', ''expires_at''} then ''soon''
      else if f = ''binding'' then ''b'' else if f = ''source_id'' then ''src''
      else f)"

definition sample_lib :: core_lib where
  "sample_lib = \<lparr>core_Decode = sample_owner,
     core_ErrNoSeal = Err (MExternal (plain_ext ''no seal''\<lparr>x_core := Some ErrNoSeal\<rparr>)) [],
     core_ErrNoBinding = Err (MExternal (plain_ext ''no binding''\<lparr>x_core := Some ErrNoBinding\<rparr>)) [],
     uuid_Parse = Some, time_Parse = (\<lambda>s. if s = ''soon'' then Some 900000000000 else None),
     json_Unmarshal = (\<lambda>raw. Some (sample_fields raw)), rune_print = (\<lambda>_. True),
     WorkContextHeader = ''X-Codefly-Work-Context''\<rparr>"

definition unauthenticated :: ma_err where
  "unauthenticated = Err (MExternal (plain_ext ''u''\<lparr>x_connect := Some CodeUnauthenticated\<rparr>)) []"

definition sample_gate :: "'r \<Rightarrow> 'r answers" where
  "sample_gate r = (\<lambda>l q. if (''X-Codefly-Work-Context'', ''wc-old'') \<in> set (au_header q)
     then Inl unauthenticated else Inr (Some r))"

definition sample_uuid :: string where
  "sample_uuid = ''0a1b2c3d-0000-4000-8000-00000000000f''"

definition sample_digest :: string where
  "sample_digest = ''sha256:'' @ replicate 64 (CHR ''0'')"

definition sample_receipt :: ModuleExecutableArtifactResponse where
  "sample_receipt = \<lparr>ap_SchemaVersion = ''host.executable-artifact/v1'',
     ap_QualifiedName = ''host/approved-artifacts/'' @ sample_uuid, ap_Digest = sample_digest,
     ap_ExpectedRevision = 3\<rparr>"

definition sample_installation :: ModuleCurrentInstallationResponse where
  "sample_installation = \<lparr>ir_InstallationId = sample_uuid, ir_TenantId = sample_uuid,
     ir_TargetId = sample_uuid, ir_BindingId = ''b''\<rparr>"

definition sample_service :: "ModuleResolveWorkContextAuthorityResponse answers \<Rightarrow> service" where
  "sample_service resolve = \<lparr>sv_exchange = sample_gate \<lparr>iw_Token = ''wc-child''\<rparr>,
     sv_resolve = resolve, sv_approve = sample_gate sample_receipt,
     sv_authorize = sample_gate sample_receipt, sv_revoke = sample_gate sample_receipt,
     sv_notify_user = sample_gate \<lparr>nu_Delivered = True\<rparr>,
     sv_notify_org_admins = sample_gate \<lparr>no_Delivered = True\<rparr>,
     sv_emit = sample_gate (), sv_declare = sample_gate (),
     sv_installation = sample_gate sample_installation\<rparr>"

definition sample_world :: "int \<Rightarrow> ModuleResolveWorkContextAuthorityResponse answers \<Rightarrow> world" where
  "sample_world status resolve = \<lparr>w_now = (\<lambda>l. int (length l)), w_token = (\<lambda>l. Inr '' tok ''),
     w_open = (\<lambda>l p. Inr \<lparr>st_data = ''tok'', st_error = None\<rparr>),
     w_http = (\<lambda>l q. Inr \<lparr>hr_status = status, hr_body = \<lparr>st_data = ''new'', st_error = None\<rparr>\<rparr>),
     w_service = sample_service resolve\<rparr>"

definition sample_client :: Client where
  "sample_client = \<lparr>c_broker = \<lparr>br_baseURL = ''https://gw'', br_client = \<lparr>follows_redirects = False\<rparr>,
       br_token = ''internal''\<rparr>,
     c_authority = \<lparr>ae_capabilities = Some (NewModuleCapabilitiesServiceClient ''https://authority''),
       ae_protocol = GRPC, ae_client = \<lparr>follows_redirects = False\<rparr>, ae_transport = None,
       ae_token = ''internal''\<rparr>,
     c_credentials = \<lparr>Prefix = ''mod'', cred_Token = Some OtherTokenSource, OrganizationID = []\<rparr>,
     c_refreshSkew = defaultRefreshSkew\<rparr>"

text \<open>A client whose cached Work Context the host no longer accepts.\<close>

definition stale_state :: state where
  "stale_state = \<lparr>log = [], c_module = ''wc-old'', c_expiresAt = 800000000000\<rparr>"

definition no_answer :: "ModuleResolveWorkContextAuthorityResponse answers" where
  "no_answer = (\<lambda>l q. Inr None)"

section \<open>What the sample host answers\<close>

lemma sample_token [simp]:
  "ProjectedToken (sample_world st rs) OtherTokenSource s
     = (Inr '' tok '', s\<lparr>log := log s @ [EvToken]\<rparr>)"
  by (simp add: ProjectedToken_def happens_def sample_world_def)

lemma trim_tok: "trim_space '' tok '' = ''tok''"
  by code_simp

lemma sample_projected [simp]:
  "projectedToken (sample_world st rs) (c_credentials sample_client) s
     = (Inr ''tok'', s\<lparr>log := log s @ [EvToken]\<rparr>)"
  by (simp add: projectedToken_def sample_client_def attempt_def on_error_def trim_tok
      maxProjectedToken_def give_def)

lemma sample_urls:
  "url_Parse (''https://gw'' @ workContextPath) \<noteq> None"
  "url_Parse (''https://gw'' @ operationContextPath) \<noteq> None"
  "url_Parse (''https://gw'' @ sourceOperationContextPath) \<noteq> None"
  by code_simp+

lemma sample_url_ok:
  assumes "path \<in> {workContextPath, operationContextPath, sourceOperationContextPath}"
  shows "url_Parse (hq_url (broker_request (c_broker sample_client) path t body)) \<noteq> None"
  using assms sample_urls by (auto simp: broker_request_def sample_client_def)

lemma sample_read [simp]:
  "read_answer sample_lib path \<lparr>hr_status = 200, hr_body = \<lparr>st_data = ''new'', st_error = None\<rparr>\<rparr>
     = Inr (sample_fields ''new'')"
  by (simp add: read_answer_def read_limited_def maxBrokerResponse_def sample_lib_def)

lemma sample_post:
  assumes "path \<in> {workContextPath, operationContextPath, sourceOperationContextPath}"
  shows "post sample_lib (sample_world 200 rs) (c_broker sample_client) path t body s =
     (Inr (sample_fields ''new''),
      s\<lparr>log := log s @ [EvPost (broker_request (c_broker sample_client) path t body)]\<rparr>)"
  using sample_url_ok [OF assms, of t body]
  by (simp add: post_def Let_def attempt_def happens_def give_def sample_world_def del: not_None_eq)

lemma sample_post_refused:
  assumes "path \<in> {workContextPath, operationContextPath, sourceOperationContextPath}" "st \<noteq> 200"
  shows "post sample_lib (sample_world st rs) (c_broker sample_client) path t body s =
     (Inl (Err (MBroker (newBrokerError st)) []),
      s\<lparr>log := log s @ [EvPost (broker_request (c_broker sample_client) path t body)]\<rparr>)"
  using sample_url_ok [OF assms(1), of t body] assms(2)
  by (simp add: post_def Let_def attempt_def happens_def throw_def sample_world_def read_answer_def
      del: not_None_eq)

lemma sample_clock [simp]:
  "clock (sample_world st rs) s = (Inr (int (length (log s))), s\<lparr>log := log s @ [EvNow]\<rparr>)"
  by (simp add: clock_def happens_def sample_world_def)

lemma sample_expiry [simp]:
  "parseExpiry sample_lib ''soon'' t =
     (if t < 900000000000 then Inr 900000000000
      else Inl (detailf ErrInvalidCapability ''capability is already expired''))"
  by (simp add: parseExpiry_def sample_lib_def)

lemma has_prefix_wc: "has_prefix (''wc-'' @ t) ''wc-''"
  by (simp add: has_prefix_def)

lemma sample_sealed [simp]: "sealed sample_lib (CHR ''w'' # CHR ''c'' # CHR ''-'' # t)"
  using has_prefix_wc [of t] by (simp add: sealed_def sample_lib_def sample_owner_def)

lemma sample_new:
  "sample_fields ''new'' ''token'' = ''wc-new''" "sample_fields ''new'' ''expiresAt'' = ''soon''"
  "sample_fields ''new'' ''work_context'' = ''wc-new''" "sample_fields ''new'' ''expires_at'' = ''soon''"
  "sample_fields ''new'' ''binding'' = ''b''" "sample_fields ''new'' ''source_id'' = ''src''"
  by (simp_all add: sample_fields_def)

lemma sample_mint:
  assumes "length (log s) < 1000"
  shows "MintModuleWorkContext sample_lib (sample_world 200 rs) sample_client s =
     (Inr \<lparr>mc_Token = ''wc-new'', mc_ExpiresAt = 900000000000\<rparr>,
      s\<lparr>log := log s @ [EvToken, EvPost (broker_request (c_broker sample_client) workContextPath ''tok''
         (workContextRequest ''mod'' [])), EvNow]\<rparr>)"
  using assms
  by (simp add: MintModuleWorkContext_def attempt_def on_error_def sample_post Let_def
      workContextResponse_of_def sample_new give_def) (simp add: sample_client_def)

lemma sample_locked_empty:
  assumes "c_module s = []" "length (log s) < 1000"
  shows "moduleWorkContextLocked sample_lib (sample_world 200 rs) sample_client s =
     (Inr ''wc-new'',
      s\<lparr>log := log s @ [EvToken, EvPost (broker_request (c_broker sample_client) workContextPath ''tok''
         (workContextRequest ''mod'' [])), EvNow], c_module := ''wc-new'', c_expiresAt := 900000000000\<rparr>)"
  using assms by (simp add: moduleWorkContextLocked_def refreshModule_def attempt_def sample_mint)

lemma sample_skew [simp]: "c_refreshSkew sample_client = 30000000000"
  by (simp add: sample_client_def defaultRefreshSkew_def second_def)

lemma sample_locked_stale:
  "moduleWorkContextLocked sample_lib (sample_world 200 rs) sample_client stale_state =
     (Inr ''wc-old'', stale_state\<lparr>log := [EvNow]\<rparr>)"
  by (simp add: moduleWorkContextLocked_def attempt_def stale_state_def)

text \<open>A call the host rejects with the stale Work Context and answers with the fresh one.\<close>

definition sample_events :: "('req, 'res) procedure \<Rightarrow> 'req \<Rightarrow> event list" where
  "sample_events p msg = (let call = (\<lambda>m. EvCall (authorityRequest sample_lib (c_authority sample_client)
       (the (ae_capabilities (c_authority sample_client)) (pr_method p)) m (pr_msg p msg)))
     in [EvNow, call ''wc-old'',
         EvToken, EvPost (broker_request (c_broker sample_client) workContextPath ''tok''
           (workContextRequest ''mod'' [])), EvNow, call ''wc-new''])"

lemma sample_call:
  assumes "pr_answers p (w_service (sample_world 200 rs)) = sample_gate x"
  shows "callAsModule sample_lib (sample_world 200 rs) sample_client p msg stale_state =
     (Inr (Some x), \<lparr>log = sample_events p msg, c_module = ''wc-new'', c_expiresAt = 900000000000\<rparr>)"
proof -
  obtain caps where caps: "ae_capabilities (c_authority sample_client) = Some caps"
    by (simp add: sample_client_def)
  have gate: "sample_gate x l (authorityRequest sample_lib a ep m wire) =
      (if m = ''wc-old'' then Inl unauthenticated else Inr (Some x))" for l a ep m wire
    by (auto simp: sample_gate_def authorityRequest_def sample_lib_def internalTokenHeader_def)
  have code: "CodeOf unauthenticated = CodeUnauthenticated"
    by code_simp
  show ?thesis
    by (simp add: callAsModule_def caps Let_def attempt_def ModuleWorkContext_def sample_locked_stale
        happens_def assms gate code forgetModuleWorkContext_def sample_locked_empty
        moduleCapabilitiesServiceClient_call_def sample_events_def) (simp add: stale_state_def)
qed

lemma sample_answers [simp]:
  "sv_exchange (w_service (sample_world st rs)) = sample_gate \<lparr>iw_Token = ''wc-child''\<rparr>"
  "sv_approve (w_service (sample_world st rs)) = sample_gate sample_receipt"
  "sv_authorize (w_service (sample_world st rs)) = sample_gate sample_receipt"
  "sv_revoke (w_service (sample_world st rs)) = sample_gate sample_receipt"
  "sv_notify_user (w_service (sample_world st rs)) = sample_gate \<lparr>nu_Delivered = True\<rparr>"
  "sv_emit (w_service (sample_world st rs)) = sample_gate ()"
  "sv_installation (w_service (sample_world st rs)) = sample_gate sample_installation"
  by (simp_all add: sample_world_def sample_service_def)

lemma sample_exchange:
  "callAsModule sample_lib (sample_world 200 rs) sample_client Exchange_procedure msg stale_state =
     (Inr (Some \<lparr>iw_Token = ''wc-child''\<rparr>), \<lparr>log = sample_events Exchange_procedure msg,
       c_module = ''wc-new'', c_expiresAt = 900000000000\<rparr>)"
  by (rule sample_call) (simp add: Exchange_procedure_def)

lemma sample_operation:
  assumes "length (log s) < 1000"
  shows "MintModuleOperationContext sample_lib (sample_world 200 rs) sample_client ''b'' s =
     (Inr \<lparr>Token = ''wc-new'', ExpiresAt = 900000000000, PrincipalID = ''principal_id'',
        Tenant = ''tenant'', Audience = ''audience'', BindingID = ''b''\<rparr>,
      s\<lparr>log := log s @ [EvToken, EvPost (broker_request (c_broker sample_client)
         operationContextPath ''tok'' (operationContextRequest ''mod'' ''b'' [])), EvNow]\<rparr>)"
  using assms
  by (simp add: MintModuleOperationContext_def attempt_def on_error_def sample_post Let_def
      operationContextResponse_of_def sample_fields_def give_def operationContext_def)
    (simp add: sample_client_def)

lemma sample_operation_refused:
  assumes "st \<noteq> 200"
  shows "MintModuleOperationContext sample_lib (sample_world st rs) sample_client ''b'' s =
     (Inl (contextf ''module authority: mint operation context''
        (brokerRefusal (Err (MBroker (newBrokerError st)) []))),
      s\<lparr>log := log s @ [EvToken, EvPost (broker_request (c_broker sample_client)
         operationContextPath ''tok'' (operationContextRequest (Prefix (c_credentials sample_client))
           ''b'' (OrganizationID (c_credentials sample_client))))]\<rparr>)"
  using assms
  by (simp add: MintModuleOperationContext_def attempt_def on_error_def sample_post_refused)

end
