(* ===== verification/MaClientFacts.thy ===== *)
theory MaClientFacts
  imports MaSamples
begin

text \<open>
  What the operations of theory MaClient do: one case rule per operation, which says what was
  asked of the world and what became of the state, and the properties of the client that follow
  from them. \<open>posts\<close> and \<open>calls\<close> read the broker requests and the authority calls off a log.
\<close>

section \<open>Reading a log\<close>

fun posts :: "event list \<Rightarrow> http_request list" where
  "posts [] = []"
| "posts (EvPost q # l) = q # posts l"
| "posts (_ # l) = posts l"

fun calls :: "event list \<Rightarrow> authority_request list" where
  "calls [] = []"
| "calls (EvCall q # l) = q # calls l"
| "calls (_ # l) = calls l"

lemma posts_append [simp]: "posts (l @ k) = posts l @ posts k"
  by (induction l rule: posts.induct) auto

lemma calls_append [simp]: "calls (l @ k) = calls l @ calls k"
  by (induction l rule: calls.induct) auto

section \<open>The broker\<close>

lemma brokerRefusal_own [simp]: "own_errors (brokerRefusal e) = own_errors e"
  by (simp add: brokerRefusal_def split: option.splits)

lemma transport_failure_own [simp]: "own_errors (transport_failure e)"
  by (simp add: transport_failure_def)

lemma read_answer_own: "read_answer L path r = Inl e \<Longrightarrow> own_errors e"
  by (auto simp: read_answer_def split: if_splits sum.splits option.splits)

lemma parseExpiry_Inr:
  "parseExpiry L raw t = Inr x \<longleftrightarrow> raw \<noteq> [] \<and> time_Parse L raw = Some x \<and> t < x"
  by (auto simp: parseExpiry_def split: option.splits)

lemma parseExpiry_Inl:
  "parseExpiry L raw t = Inl e \<Longrightarrow> own_errors e \<and> is_ma ErrInvalidCapability e"
  by (auto simp: parseExpiry_def split: option.splits if_splits)

text \<open>A usable projected token: trimmed, not empty, at most 64 KiB.\<close>

definition usable_token :: "string \<Rightarrow> bool" where
  "usable_token t \<longleftrightarrow> trim_space t = t \<and> t \<noteq> [] \<and> length t \<le> maxProjectedToken"

lemma projectedToken_result:
  assumes "projectedToken W c s = (r, s')"
  obtains (unasked) "r = Inl (fail_sentinel ErrInvalidCredentials)" "s' = s"
      "cred_Token c = None \<or> Prefix c = []"
  | (refused) e where "r = Inl e" "is_ma ErrInvalidCredentials e"
      "s' = s\<lparr>log := log s @ [EvToken]\<rparr>"
  | (token) t where "r = Inr t" "usable_token t" "s' = s\<lparr>log := log s @ [EvToken]\<rparr>"
proof (cases "cred_Token c = None \<or> Prefix c = []")
  case True
  with assms show thesis
    by (intro unasked) (auto simp: projectedToken_def op_defs split: option.splits)
next
  case False
  then obtain src where src: "cred_Token c = Some src" "Prefix c \<noteq> []" by auto
  obtain x s1 where x: "ProjectedToken W src s = (x, s1)" by fastforce
  then have s1: "s1 = s\<lparr>log := log s @ [EvToken]\<rparr>" by (auto simp: ProjectedToken_def op_defs)
  show thesis
  proof (cases x)
    case (Inl e)
    with assms src x s1 show thesis
      by (intro refused [of "joinf ErrInvalidCredentials e"]) (auto simp: projectedToken_def op_defs)
  next
    case (Inr t)
    with assms src x s1 have
      "(r, s') = ((if trim_space t = [] then Inl (detailf ErrInvalidCredentials ''projected token is empty'')
        else if length (trim_space t) > maxProjectedToken
        then Inl (detailf ErrInvalidCredentials ''projected token exceeds 65536 bytes'')
        else Inr (trim_space t)), s1)"
      by (auto simp: projectedToken_def op_defs Let_def)
    then show thesis
      by (cases "trim_space t = [] \<or> length (trim_space t) > maxProjectedToken")
        (use s1 refused token [of "trim_space t"] in \<open>auto simp: usable_token_def split: if_splits\<close>)
  qed
qed

lemma post_result:
  fixes b path t body
  defines "q \<equiv> broker_request b path t body"
  assumes "post L W b path t body s = (r, s')"
  obtains (unsent) "r = Inl (transport_failure url_error)" "s' = s" "url_Parse (hq_url q) = None"
  | (failed) e where "r = Inl (transport_failure e)" "s' = s\<lparr>log := log s @ [EvPost q]\<rparr>"
      "w_http W (log s) q = Inl e"
  | (refused) a e where "r = Inl e" "s' = s\<lparr>log := log s @ [EvPost q]\<rparr>"
      "w_http W (log s) q = Inr a" "read_answer L path a = Inl e"
  | (answered) a out where "r = Inr out" "s' = s\<lparr>log := log s @ [EvPost q]\<rparr>"
      "w_http W (log s) q = Inr a" "read_answer L path a = Inr out"
proof (cases "url_Parse (hq_url q)")
  case None
  with assms show thesis by (intro unsent) (auto simp: post_def op_defs Let_def)
next
  case (Some u)
  show thesis
  proof (cases "w_http W (log s) q")
    case (Inl e)
    with Some assms show thesis by (intro failed) (auto simp: post_def op_defs Let_def)
  next
    case (Inr a)
    show thesis
    proof (cases "read_answer L path a")
      case (Inl e)
      with Some Inr assms show thesis
        by (intro refused [of e a]) (auto simp: post_def op_defs Let_def)
    next
      case (Inr out)
      with Some \<open>w_http W (log s) q = Inr a\<close> assms show thesis
        by (intro answered [of out a]) (auto simp: post_def op_defs Let_def)
    qed
  qed
qed

section \<open>A mint\<close>

text \<open>The shape the three mints share.\<close>

definition mint_op ::
  "world \<Rightarrow> Credentials \<Rightarrow> (string \<Rightarrow> 'b op) \<Rightarrow> (ma_err \<Rightarrow> ma_err) \<Rightarrow> ('b \<Rightarrow> gotime \<Rightarrow> ma_err + 'a) \<Rightarrow> 'a op"
where
  "mint_op W cr P g fin = attempt (projectedToken W cr) (\<lambda>t. attempt (on_error (P t) g)
     (\<lambda>out. attempt (clock W) (\<lambda>now. case fin out now of Inl e \<Rightarrow> throw e | Inr x \<Rightarrow> give x)))"

lemma mint_op_result:
  fixes b path body
  assumes "mint_op W cr (\<lambda>t. post L W b path t body) g fin s = (r, s')"
  obtains (no_token) e new where "r = Inl e" "is_ma ErrInvalidCredentials e"
      "s' = s\<lparr>log := log s @ new\<rparr>" "new \<in> {[], [EvToken]}"
  | (unsent) t where "r = Inl (g (transport_failure url_error))" "usable_token t"
      "s' = s\<lparr>log := log s @ [EvToken]\<rparr>" "url_Parse (br_baseURL b @ path) = None"
  | (failed) t e where "r = Inl (g (transport_failure e))" "usable_token t"
      "w_http W (log s @ [EvToken]) (broker_request b path t body) = Inl e"
      "s' = s\<lparr>log := log s @ [EvToken, EvPost (broker_request b path t body)]\<rparr>"
  | (refused) t a e where "r = Inl (g e)" "usable_token t"
      "w_http W (log s @ [EvToken]) (broker_request b path t body) = Inr a"
      "read_answer L path a = Inl e"
      "s' = s\<lparr>log := log s @ [EvToken, EvPost (broker_request b path t body)]\<rparr>"
  | (answered) t a out where "usable_token t"
      "w_http W (log s @ [EvToken]) (broker_request b path t body) = Inr a"
      "read_answer L path a = Inr out"
      "r = fin out (w_now W (log s @ [EvToken, EvPost (broker_request b path t body)]))"
      "s' = s\<lparr>log := log s @ [EvToken, EvPost (broker_request b path t body), EvNow]\<rparr>"
proof -
  obtain x s1 where x: "projectedToken W cr s = (x, s1)" by fastforce
  from x show thesis
  proof (cases rule: projectedToken_result)
    case unasked
    with assms x no_token [of _ "[]"] show thesis by (auto simp: mint_op_def attempt_def)
  next
    case (refused e)
    with assms x no_token [of e "[EvToken]"] show thesis by (auto simp: mint_op_def attempt_def)
  next
    case (token t)
    obtain y s2 where y: "post L W b path t body s1 = (y, s2)" by fastforce
    note run = assms [unfolded mint_op_def attempt_def on_error_def, simplified x token(1) y]
    from y show thesis
    proof (cases rule: post_result)
      case unsent
      with run token x y that(2) [of t] show thesis by (auto simp: broker_request_def)
    next
      case (failed e)
      with run token x y that(3) [of e t] show thesis by auto
    next
      case (refused a e)
      with run token x y that(4) [of e t a] show thesis by auto
    next
      case (answered a out)
      with run token x y that(5) [of t a out] show thesis
        by (auto simp: clock_def happens_def throw_def give_def split: sum.splits)
    qed
  qed
qed

section \<open>Minting the module Work Context\<close>

definition mint_request :: "Client \<Rightarrow> string \<Rightarrow> http_request" where
  "mint_request c t = broker_request (c_broker c) workContextPath t
     (workContextRequest (Prefix (c_credentials c)) (OrganizationID (c_credentials c)))"

text \<open>
  \<open>minted L W c l t m\<close>: with the log \<open>l\<close> behind it, the token read gave \<open>t\<close>, the broker answered
  the mint request with the token and expiry of \<open>m\<close>, and the clock then was before that expiry.
\<close>

definition minted :: "core_lib \<Rightarrow> world \<Rightarrow> Client \<Rightarrow> event list \<Rightarrow> string \<Rightarrow> ModuleContext \<Rightarrow> bool" where
  "minted L W c l t m \<longleftrightarrow> usable_token t \<and> sealed L (mc_Token m) \<and>
     (\<exists>a out. w_http W (l @ [EvToken]) (mint_request c t) = Inr a \<and>
        read_answer L workContextPath a = Inr out \<and> out ''token'' = mc_Token m \<and>
        time_Parse L (out ''expiresAt'') = Some (mc_ExpiresAt m)) \<and>
     w_now W (l @ [EvToken, EvPost (mint_request c t)]) < mc_ExpiresAt m"

definition mint_events :: "Client \<Rightarrow> string \<Rightarrow> event list" where
  "mint_events c t = [EvToken, EvPost (mint_request c t), EvNow]"

lemma mint_events_simps [simp]:
  "posts (mint_events c t) = [mint_request c t]" "calls (mint_events c t) = []"
  by (simp_all add: mint_events_def)

text \<open>The events of a mint that failed: no call, at most one broker request, and that one is this.\<close>

definition failed_mint :: "Client \<Rightarrow> event list \<Rightarrow> bool" where
  "failed_mint c l \<longleftrightarrow> calls l = [] \<and>
     (posts l = [] \<or> (\<exists>t. usable_token t \<and> posts l = [mint_request c t]))"

definition module_capability :: "core_lib \<Rightarrow> (string \<Rightarrow> string) \<Rightarrow> gotime \<Rightarrow> ma_err + ModuleContext" where
  "module_capability L out now = (case parseExpiry L (out ''expiresAt'') now of
       Inl e \<Rightarrow> Inl e
     | Inr expires \<Rightarrow> (if \<not> sealed L (out ''token'') then Inl (detailf ErrInvalidCapability ''malformed token'')
         else Inr \<lparr>mc_Token = out ''token'', mc_ExpiresAt = expires\<rparr>))"

lemma MintModuleWorkContext_mint_op:
  "MintModuleWorkContext L W c = mint_op W (c_credentials c)
     (\<lambda>t. post L W (c_broker c) workContextPath t
        (workContextRequest (Prefix (c_credentials c)) (OrganizationID (c_credentials c))))
     (\<lambda>e. contextf ''module authority: mint module Work Context'' (brokerRefusal e)) (module_capability L)"
  unfolding MintModuleWorkContext_def mint_op_def module_capability_def
  by (simp add: workContextResponse_of_def Let_def, intro arg_cong2 [where f = attempt] refl ext)
    (auto simp: attempt_def split: sum.splits prod.splits)

lemma module_capability_Inr:
  "module_capability L out now = Inr m \<Longrightarrow> sealed L (mc_Token m) \<and> out ''token'' = mc_Token m \<and>
     time_Parse L (out ''expiresAt'') = Some (mc_ExpiresAt m) \<and> now < mc_ExpiresAt m"
  by (auto simp: module_capability_def parseExpiry_Inr split: sum.splits if_splits)

lemma module_capability_own: "module_capability L out now = Inl e \<Longrightarrow> own_errors e"
  by (auto simp: module_capability_def dest: parseExpiry_Inl split: sum.splits if_splits)

lemma MintModuleWorkContext_result:
  assumes "MintModuleWorkContext L W c s = (r, s')"
  obtains (failed) e new where "r = Inl e" "s' = s\<lparr>log := log s @ new\<rparr>" "failed_mint c new"
      "own_errors e \<or> is_ma ErrInvalidCredentials e \<and> posts new = []"
  | (minted) t m where "r = Inr m" "s' = s\<lparr>log := log s @ mint_events c t\<rparr>" "minted L W c (log s) t m"
  using assms unfolding MintModuleWorkContext_mint_op
proof (cases rule: mint_op_result)
  case (no_token e new)
  with that(1) [of e new] show thesis by (auto simp: failed_mint_def)
next
  case (unsent t)
  with that(1) [OF _ unsent(3)] show thesis by (auto simp: failed_mint_def)
next
  case (failed t e)
  with that(1) [OF _ failed(4)] show thesis by (auto simp: failed_mint_def mint_request_def)
next
  case (refused t a e)
  with that(1) [OF _ refused(5)] read_answer_own show thesis by (auto simp: failed_mint_def mint_request_def)
next
  case (answered t a out)
  then have s': "s' = s\<lparr>log := log s @ mint_events c t\<rparr>" by (simp add: mint_events_def mint_request_def)
  show thesis
  proof (cases r)
    case (Inl e)
    with answered module_capability_own have "own_errors e" by metis
    with Inl that(1) [OF _ s'] answered(1) show thesis by (auto simp: failed_mint_def)
  next
    case (Inr m)
    note m = module_capability_Inr [OF answered(4) [symmetric, unfolded Inr]]
    have "minted L W c (log s) t m"
      unfolding minted_def mint_request_def
      by (intro conjI exI [of _ a] exI [of _ out] answered(1-3)) (use m in simp_all)
    with that(2) [OF Inr s'] show thesis .
  qed
qed

lemma refreshModule_result:
  assumes "refreshModule L W c s = (r, s')"
  obtains (failed) e new where "r = Inl e" "s' = s\<lparr>log := log s @ new\<rparr>" "failed_mint c new"
  | (fresh) t m where "r = Inr (mc_Token m)" "minted L W c (log s) t m"
      "s' = s\<lparr>log := log s @ mint_events c t, c_module := mc_Token m, c_expiresAt := mc_ExpiresAt m\<rparr>"
proof -
  obtain x s1 where x: "MintModuleWorkContext L W c s = (x, s1)" by fastforce
  from x show thesis
  proof (cases rule: MintModuleWorkContext_result)
    case (failed e new)
    with assms x that(1) show thesis by (auto simp: refreshModule_def attempt_def)
  next
    case (minted t m)
    with assms x that(2) show thesis by (auto simp: refreshModule_def attempt_def)
  qed
qed

lemma moduleWorkContextLocked_result:
  assumes "moduleWorkContextLocked L W c s = (r, s')"
  obtains (cached) "r = Inr (c_module s)" "s' = s\<lparr>log := log s @ [EvNow]\<rparr>" "c_module s \<noteq> []"
      "w_now W (log s) + c_refreshSkew c < c_expiresAt s"
  | (failed) e pre new where "r = Inl e" "s' = s\<lparr>log := log s @ pre @ new\<rparr>" "failed_mint c new"
      "pre \<in> {[], [EvNow]}"
  | (fresh) pre t m where "r = Inr (mc_Token m)" "pre \<in> {[], [EvNow]}"
      "minted L W c (log s @ pre) t m"
      "s' = s\<lparr>log := log s @ pre @ mint_events c t, c_module := mc_Token m, c_expiresAt := mc_ExpiresAt m\<rparr>"
proof (cases "c_module s \<noteq> [] \<and> w_now W (log s) + c_refreshSkew c < c_expiresAt s")
  case True
  with assms show thesis by (intro cached) (auto simp: moduleWorkContextLocked_def op_defs)
next
  case False
  define pre where "pre = (if c_module s = [] then [] else [EvNow])"
  have run: "refreshModule L W c (s\<lparr>log := log s @ pre\<rparr>) = (r, s')"
    using assms False by (auto simp: moduleWorkContextLocked_def op_defs pre_def split: if_splits)
  have pre: "pre \<in> {[], [EvNow]}" by (simp add: pre_def)
  from run show thesis
  proof (cases rule: refreshModule_result)
    case (failed e new)
    with pre that(2) [of e pre new] show thesis by simp
  next
    case (fresh t m)
    with pre that(3) [of m pre t] show thesis by simp
  qed
qed

section \<open>Calling as the module\<close>

definition call_request ::
  "core_lib \<Rightarrow> Client \<Rightarrow> ('req, 'res) procedure \<Rightarrow> 'req \<Rightarrow> string \<Rightarrow> authority_request" where
  "call_request L c p msg module = authorityRequest L (c_authority c)
     (the (ae_capabilities (c_authority c)) (pr_method p)) module (pr_msg p msg)"

definition rejected :: "ma_err + 'a \<Rightarrow> bool" where
  "rejected r \<longleftrightarrow> (\<exists>e. r = Inl e \<and> CodeOf e = CodeUnauthenticated)"

definition host_answer ::
  "world \<Rightarrow> ('req, 'res) procedure \<Rightarrow> event list \<Rightarrow> authority_request \<Rightarrow> ma_err + 'res option" where
  "host_answer W p l q = pr_answers p (w_service W) l q"

definition forgotten :: "string \<Rightarrow> state \<Rightarrow> state" where
  "forgotten module s = (if c_module s = module then s\<lparr>c_module := [], c_expiresAt := zero_time\<rparr> else s)"

lemma forgotten_log [simp]: "log (forgotten m s) = log s"
  by (simp add: forgotten_def)

lemma callAsModule_result:
  fixes L c p msg
  defines "Q \<equiv> call_request L c p msg"
  assumes "callAsModule L W c p msg s = (r, s')"
  obtains (no_endpoint) "r = Inl (fail_sentinel ErrNoAuthority)" "s' = s" "\<not> present (c_authority c)"
  | (no_module) e where "moduleWorkContextLocked L W c s = (Inl e, s')" "r = Inl e"
      "present (c_authority c)"
  | (first) m s1 where "moduleWorkContextLocked L W c s = (Inr m, s1)" "r = host_answer W p (log s1) (Q m)"
      "s' = s1\<lparr>log := log s1 @ [EvCall (Q m)]\<rparr>" "\<not> rejected r"
  | (no_retry) m s1 e where "moduleWorkContextLocked L W c s = (Inr m, s1)"
      "rejected (host_answer W p (log s1) (Q m))" "r = Inl e"
      "moduleWorkContextLocked L W c (forgotten m (s1\<lparr>log := log s1 @ [EvCall (Q m)]\<rparr>)) = (Inl e, s')"
  | (retried) m s1 m' s2 where "moduleWorkContextLocked L W c s = (Inr m, s1)"
      "rejected (host_answer W p (log s1) (Q m))"
      "moduleWorkContextLocked L W c (forgotten m (s1\<lparr>log := log s1 @ [EvCall (Q m)]\<rparr>)) = (Inr m', s2)"
      "r = host_answer W p (log s2) (Q m')" "s' = s2\<lparr>log := log s2 @ [EvCall (Q m')]\<rparr>"
proof (cases "ae_capabilities (c_authority c)")
  case None
  with assms no_endpoint show thesis by (simp add: callAsModule_def throw_def present_def)
next
  case (Some caps)
  let ?call = "\<lambda>m. happens (EvCall (Q m)) (\<lambda>l. host_answer W p l (Q m))"
  have Q: "authorityRequest L (c_authority c) (caps (pr_method p)) m (pr_msg p msg) = Q m" for m
    by (simp add: Q_def call_request_def Some)
  have run: "(r, s') = attempt (moduleWorkContextLocked L W c) (\<lambda>m s. case ?call m s of
      (Inr res, s) \<Rightarrow> (Inr res, s)
    | (Inl err, s) \<Rightarrow> (if CodeOf err \<noteq> CodeUnauthenticated then (Inl err, s)
        else attempt (forgetModuleWorkContext m) (\<lambda>_.
             attempt (moduleWorkContextLocked L W c) ?call) s)) s"
    using assms(2) unfolding callAsModule_def Some option.case Let_def ModuleWorkContext_def
      moduleCapabilitiesServiceClient_call_def snd_conv Q host_answer_def by simp
  obtain x s1 where x: "moduleWorkContextLocked L W c s = (x, s1)" by fastforce
  show thesis
  proof (cases x)
    case (Inl e)
    with run x no_module Some show thesis by (auto simp: attempt_def present_def)
  next
    case (Inr m)
    let ?s = "s1\<lparr>log := log s1 @ [EvCall (Q m)]\<rparr>"
    show thesis
    proof (cases "rejected (host_answer W p (log s1) (Q m))")
      case False
      with run x Inr show thesis
        by (intro first) (auto simp: attempt_def happens_def rejected_def split: sum.splits)
    next
      case True
      then obtain err where "host_answer W p (log s1) (Q m) = Inl err" "CodeOf err = CodeUnauthenticated"
        by (auto simp: rejected_def)
      then have run: "(r, s') = attempt (moduleWorkContextLocked L W c) ?call (forgotten m ?s)"
        using run x Inr
        by (simp add: attempt_def happens_def forgetModuleWorkContext_def forgotten_def)
      obtain y s2 where y: "moduleWorkContextLocked L W c (forgotten m ?s) = (y, s2)" by fastforce
      show thesis
      proof (cases y)
        case (Inl e)
        with run y x Inr True no_retry show thesis by (simp add: attempt_def)
      next
        case (Inr m')
        with run y x \<open>x = Inr m\<close> True retried show thesis by (simp add: attempt_def happens_def)
      qed
    qed
  qed
qed

lemma locked_calls:
  assumes "moduleWorkContextLocked L W c s = (r, s')"
  shows "\<exists>new. log s' = log s @ new \<and> calls new = [] \<and> length (posts new) \<le> 1 \<and>
    (\<forall>q \<in> set (posts new). \<exists>t. usable_token t \<and> q = mint_request c t)"
  using assms
proof (cases rule: moduleWorkContextLocked_result)
  case (failed e pre new)
  then show ?thesis by (intro exI [of _ "pre @ new"]) (auto simp: failed_mint_def)
next
  case (fresh pre t m)
  then show ?thesis
    by (intro exI [of _ "pre @ mint_events c t"]) (auto simp: minted_def)
qed (auto intro: exI [of _ "[EvNow]"])

text \<open>The token handed out is the one the cache then holds.\<close>

lemma locked_caches:
  assumes "moduleWorkContextLocked L W c s = (Inr m, s')"
  shows "c_module s' = m"
  using assms by (cases rule: moduleWorkContextLocked_result) auto

lemma locked_empty_mints:
  assumes "moduleWorkContextLocked L W c s = (Inr m', s')" and "c_module s = []"
  shows "\<exists>t k. minted L W c (log s) t k \<and> mc_Token k = m' \<and> log s' = log s @ mint_events c t"
proof -
  have "refreshModule L W c s = (Inr m', s')"
    using assms by (simp add: moduleWorkContextLocked_def)
  then show ?thesis by (cases rule: refreshModule_result) auto
qed

lemma callAsModule_calls:
  assumes "callAsModule L W c p msg s = (r, s')"
  shows "\<exists>new. log s' = log s @ new \<and> length (calls new) \<le> 2 \<and> length (posts new) \<le> 2 \<and>
    (\<forall>q \<in> set (calls new). \<exists>m. q = call_request L c p msg m \<and> present (c_authority c)) \<and>
    (\<forall>q \<in> set (posts new). \<exists>t. usable_token t \<and> q = mint_request c t) \<and>
    (\<not> isl r \<longrightarrow> calls new \<noteq> [])"
proof (cases "present (c_authority c)")
  case False
  with assms show ?thesis by (auto simp: callAsModule_def present_def throw_def)
next
  case True
  note has = this
  from assms show ?thesis
  proof (cases rule: callAsModule_result)
    case (no_module e)
    with locked_calls [OF no_module(1)] show ?thesis by fastforce
  next
    case (first m s1)
    from locked_calls [OF first(1)] obtain pre where "log s1 = log s @ pre" "calls pre = []"
      "length (posts pre) \<le> 1" "\<forall>q \<in> set (posts pre). \<exists>t. usable_token t \<and> q = mint_request c t" by auto
    with first has show ?thesis by (intro exI [of _ "pre @ [EvCall _]"]) auto
  next
    case (no_retry m s1 e)
    from locked_calls [OF no_retry(1)] obtain pre where "log s1 = log s @ pre" "calls pre = []"
      "length (posts pre) \<le> 1" "\<forall>q \<in> set (posts pre). \<exists>t. usable_token t \<and> q = mint_request c t" by auto
    moreover from locked_calls [OF no_retry(4)] obtain post where
      "log s' = log s1 @ [EvCall (call_request L c p msg m)] @ post" "calls post = []"
      "length (posts post) \<le> 1" "\<forall>q \<in> set (posts post). \<exists>t. usable_token t \<and> q = mint_request c t" by auto
    ultimately show ?thesis using no_retry has
      by (intro exI [of _ "pre @ [EvCall _] @ post"]) auto
  next
    case (retried m s1 m' s2)
    from locked_calls [OF retried(1)] obtain pre where "log s1 = log s @ pre" "calls pre = []"
      "length (posts pre) \<le> 1" "\<forall>q \<in> set (posts pre). \<exists>t. usable_token t \<and> q = mint_request c t" by auto
    moreover from locked_calls [OF retried(3)] obtain post where
      "log s2 = log s1 @ [EvCall (call_request L c p msg m)] @ post" "calls post = []"
      "length (posts post) \<le> 1" "\<forall>q \<in> set (posts post). \<exists>t. usable_token t \<and> q = mint_request c t" by auto
    ultimately show ?thesis using retried has
      by (intro exI [of _ "pre @ [EvCall _] @ post @ [EvCall _]"]) auto
  qed auto
qed

lemma callAsModule_Inr:
  assumes "callAsModule L W c p msg s = (Inr a, s')"
  shows "\<exists>l m. log s' = l @ [EvCall (call_request L c p msg m)] \<and>
    host_answer W p l (call_request L c p msg m) = Inr a"
  using assms by (cases rule: callAsModule_result) (auto dest: sym)

text \<open>C4:
  The refresh-once rule, exactly. A call as the module sends nothing when it has no endpoint or no
  module Work Context; otherwise it sends the request once with the Work Context it got, and its
  answer is the result unless the host rejected that Work Context (Unauthenticated). Only then
  it mints a new one at the broker, with that rejected call behind it, and sends the same message
  once more with the new token; the second answer is the result, whatever it is. When the mint
  fails nothing more is sent and the call fails.
\<close>

theorem callAsModule_retries_once:
  fixes L c p msg
  defines "Q \<equiv> call_request L c p msg"
  assumes "callAsModule L W c p msg s = (r, s')"
  shows "\<exists>new. log s' = log s @ new \<and>
    ((calls new = [] \<and> isl r) \<or>
     (\<exists>m pre. calls pre = [] \<and> new = pre @ [EvCall (Q m)] \<and>
        r = host_answer W p (log s @ pre) (Q m) \<and> \<not> rejected r) \<or>
     (\<exists>m pre post. calls pre = [] \<and> calls post = [] \<and> new = pre @ [EvCall (Q m)] @ post \<and>
        rejected (host_answer W p (log s @ pre) (Q m)) \<and> isl r) \<or>
     (\<exists>m pre t k. calls pre = [] \<and>
        new = pre @ [EvCall (Q m)] @ mint_events c t @ [EvCall (Q (mc_Token k))] \<and>
        rejected (host_answer W p (log s @ pre) (Q m)) \<and>
        minted L W c (log s @ pre @ [EvCall (Q m)]) t k \<and>
        r = host_answer W p (log s @ pre @ [EvCall (Q m)] @ mint_events c t) (Q (mc_Token k))))"
  using assms(2)
proof (cases rule: callAsModule_result)
  case (no_module e)
  with locked_calls [OF no_module(1)] show ?thesis by auto
next
  case (first m s1)
  from locked_calls [OF first(1)] obtain pre where "log s1 = log s @ pre" "calls pre = []" by auto
  with first show ?thesis unfolding Q_def by (intro exI [of _ "pre @ [EvCall _]"]) auto
next
  case (no_retry m s1 e)
  from locked_calls [OF no_retry(1)] obtain pre where "log s1 = log s @ pre" "calls pre = []" by auto
  moreover from locked_calls [OF no_retry(4)] obtain post where
    "log s' = log s1 @ [EvCall (Q m)] @ post" "calls post = []" unfolding Q_def by auto
  ultimately show ?thesis using no_retry unfolding Q_def
    by (intro exI [of _ "pre @ [EvCall _] @ post"]) auto
next
  case (retried m s1 m' s2)
  from locked_calls [OF retried(1)] obtain pre where pre: "log s1 = log s @ pre" "calls pre = []" by auto
  have "c_module (forgotten m (s1\<lparr>log := log s1 @ [EvCall (Q m)]\<rparr>)) = []"
    using locked_caches [OF retried(1)] by (simp add: forgotten_def)
  from locked_empty_mints [OF retried(3) [folded Q_def] this] pre obtain t k where
    "minted L W c (log s @ pre @ [EvCall (Q m)]) t k" "mc_Token k = m'"
    "log s2 = log s @ pre @ [EvCall (Q m)] @ mint_events c t" by auto
  note step = this
  let ?new = "pre @ [EvCall (Q m)] @ mint_events c t @ [EvCall (Q (mc_Token k))]"
  have "log s' = log s @ ?new" using retried(5) step by (simp add: Q_def)
  moreover have "calls pre = [] \<and> ?new = ?new \<and> rejected (host_answer W p (log s @ pre) (Q m)) \<and>
      minted L W c (log s @ pre @ [EvCall (Q m)]) t k \<and>
      r = host_answer W p (log s @ pre @ [EvCall (Q m)] @ mint_events c t) (Q (mc_Token k))"
    using pre retried(2,4) step by (simp add: Q_def)
  ultimately show ?thesis by blast
qed auto

theorem callAsModule_retries_once_witness:
  "(\<exists>r s' new. callAsModule sample_lib (sample_world 200 no_answer) sample_client Exchange_procedure
       \<lparr>xq_BindingId = ''b'', xq_ParentWorkContextToken = ''wc-p'', xq_Lookup = False,
        xq_DelegationId = []\<rparr> stale_state = (r, s') \<and> log s' = log stale_state @ new \<and>
     (isl r \<or> calls new \<noteq> [])) \<and>
   length (calls (log (snd (callAsModule sample_lib (sample_world 200 no_answer) sample_client
       Exchange_procedure \<lparr>xq_BindingId = ''b'', xq_ParentWorkContextToken = ''wc-p'',
         xq_Lookup = False, xq_DelegationId = []\<rparr> stale_state)))) = 2"
proof
  let ?msg = "\<lparr>xq_BindingId = ''b'', xq_ParentWorkContextToken = ''wc-p'', xq_Lookup = False,
    xq_DelegationId = []\<rparr>"
  obtain r s' where run: "callAsModule sample_lib (sample_world 200 no_answer) sample_client
      Exchange_procedure ?msg stale_state = (r, s')" by fastforce
  from callAsModule_retries_once [OF run] run
  show "\<exists>r s' new. callAsModule sample_lib (sample_world 200 no_answer) sample_client
      Exchange_procedure ?msg stale_state = (r, s') \<and> log s' = log stale_state @ new \<and>
      (isl r \<or> calls new \<noteq> [])"
    by fastforce
next
  show "length (calls (log (snd (callAsModule sample_lib (sample_world 200 no_answer) sample_client
       Exchange_procedure \<lparr>xq_BindingId = ''b'', xq_ParentWorkContextToken = ''wc-p'',
         xq_Lookup = False, xq_DelegationId = []\<rparr> stale_state)))) = 2"
    by (simp add: sample_exchange sample_events_def Let_def)
qed


section \<open>The cache\<close>

text \<open>
  What the cached module Work Context is: nothing, or a token the broker minted for this client,
  with the expiry it reported, in a mint that is part of the log.
\<close>

definition cache_inv :: "core_lib \<Rightarrow> world \<Rightarrow> Client \<Rightarrow> state \<Rightarrow> bool" where
  "cache_inv L W c s \<longleftrightarrow> c_module s = [] \<or>
     (\<exists>l t k rest. minted L W c l t k \<and> log s = l @ mint_events c t @ rest \<and>
        c_module s = mc_Token k \<and> c_expiresAt s = mc_ExpiresAt k)"

lemma cache_inv_log: "cache_inv L W c s \<Longrightarrow> cache_inv L W c (s\<lparr>log := log s @ new\<rparr>)"
proof (cases "c_module s = []")
  case False
  assume "cache_inv L W c s"
  with False obtain l t k rest where "minted L W c l t k" "log s = l @ mint_events c t @ rest"
    "c_module s = mc_Token k" "c_expiresAt s = mc_ExpiresAt k"
    unfolding cache_inv_def by blast
  then show ?thesis unfolding cache_inv_def
    by (intro disjI2 exI [of _ l] exI [of _ t] exI [of _ k] exI [of _ "rest @ new"]) simp
qed (simp add: cache_inv_def)

lemma cache_inv_forgotten: "cache_inv L W c s \<Longrightarrow> cache_inv L W c (forgotten m s)"
  by (auto simp: cache_inv_def forgotten_def)

lemma cache_inv_minted:
  "minted L W c (log s @ pre) t m \<Longrightarrow>
     cache_inv L W c (s\<lparr>log := log s @ pre @ mint_events c t, c_module := mc_Token m,
       c_expiresAt := mc_ExpiresAt m\<rparr>)"
  unfolding cache_inv_def
  by (intro disjI2 exI [of _ "log s @ pre"] exI [of _ t] exI [of _ m] exI [of _ "[]"]) simp

section \<open>The operation mints\<close>

text \<open>A status that is not 200 is read as that status, whatever the body holds.\<close>

lemma read_answer_status:
  "hr_status a \<noteq> 200 \<Longrightarrow> read_answer L path a = Inl (Err (MBroker (newBrokerError (hr_status a))) [])"
  by (simp add: read_answer_def)

lemma MintModuleOperationContext_mint_op:
  "bindingID \<noteq> [] \<Longrightarrow> MintModuleOperationContext L W c bindingID =
     mint_op W (c_credentials c) (\<lambda>t. post L W (c_broker c) operationContextPath t
         (operationContextRequest (Prefix (c_credentials c)) bindingID (OrganizationID (c_credentials c))))
       (\<lambda>e. contextf ''module authority: mint operation context'' (brokerRefusal e))
       (\<lambda>out now. case operationContext L (operationContextResponse_of out) now of
          Inl e \<Rightarrow> Inl e
        | Inr op \<Rightarrow> (if BindingID op \<noteq> bindingID
            then Inl (detailf ErrInvalidCapability ''issued for another binding'') else Inr op))"
  unfolding MintModuleOperationContext_def mint_op_def
  by (simp, intro arg_cong2 [where f = attempt] refl ext)
    (auto simp: attempt_def split: sum.splits prod.splits)

definition operation_request :: "Client \<Rightarrow> string \<Rightarrow> string \<Rightarrow> http_request" where
  "operation_request c bindingID t = broker_request (c_broker c) operationContextPath t
     (operationContextRequest (Prefix (c_credentials c)) bindingID (OrganizationID (c_credentials c)))"

lemma operationContext_Inr:
  assumes "operationContext L r t = Inr op"
  shows "sealed L (Token op) \<and> t < ExpiresAt op \<and> Token op = or_WorkContext r \<and>
    BindingID op = or_Binding r \<and> Tenant op = or_Tenant r"
  using assms by (auto simp: operationContext_def parseExpiry_Inr split: sum.splits if_splits)

lemma operationContext_own: "operationContext L r t = Inl e \<Longrightarrow> own_errors e"
  by (auto simp: operationContext_def dest: parseExpiry_Inl split: sum.splits if_splits)

text \<open>C23:
  What an operation mint gives. When it succeeds it read the projected token, sent exactly one
  broker request and read the clock, in this order; the capability is sealed, is for the binding
  that was asked, and was not expired by that clock; and the client's cached module Work Context
  is neither read nor changed.
\<close>

theorem MintModuleOperationContext_ok:
  assumes "MintModuleOperationContext L W c bindingID s = (Inr op, s')"
  shows "bindingID \<noteq> [] \<and> BindingID op = bindingID \<and> sealed L (Token op) \<and>
    (\<exists>t. usable_token t \<and>
       s' = s\<lparr>log := log s @ [EvToken, EvPost (operation_request c bindingID t), EvNow]\<rparr> \<and>
       w_now W (log s @ [EvToken, EvPost (operation_request c bindingID t)]) < ExpiresAt op)"
proof -
  from assms have b: "bindingID \<noteq> []"
    by (auto simp: MintModuleOperationContext_def throw_def)
  from assms [unfolded MintModuleOperationContext_mint_op [OF b]] show ?thesis
  proof (cases rule: mint_op_result)
    case (answered t a out)
    from answered(4) have "operationContext L (operationContextResponse_of out)
        (w_now W (log s @ [EvToken, EvPost (operation_request c bindingID t)])) = Inr op"
      "BindingID op = bindingID"
      by (auto simp: operation_request_def split: sum.splits if_splits)
    with operationContext_Inr [OF this(1)] answered b show ?thesis
      by (auto simp: operation_request_def)
  qed auto
qed

theorem MintModuleOperationContext_ok_witness:
  "\<exists>op s'. MintModuleOperationContext sample_lib (sample_world 200 no_answer) sample_client ''b''
     initial_state = (Inr op, s') \<and> BindingID op = ''b'' \<and> sealed sample_lib (Token op)"
proof -
  obtain r s' where run: "MintModuleOperationContext sample_lib (sample_world 200 no_answer)
      sample_client ''b'' initial_state = (r, s')" by fastforce
  have "map_sum id Token (fst (MintModuleOperationContext sample_lib (sample_world 200 no_answer)
      sample_client ''b'' initial_state)) = Inr ''wc-new''"
    by (simp add: sample_operation initial_state_def)
  with run obtain op where "r = Inr op" by (cases r) auto
  with run MintModuleOperationContext_ok [of sample_lib "sample_world 200 no_answer" sample_client]
  show ?thesis by blast
qed


text \<open>The sentinel a shared mint refusal carries, per status.\<close>

definition mint_sentinel :: "int \<Rightarrow> ma_sentinel option" where
  "mint_sentinel st = (if st = 401 then Some ErrInvalidCredentials
     else if st = 403 then Some ErrPermissionDenied
     else if st = 412 then Some ErrNoHostStateToMintFor
     else if st = 503 then Some ErrExecutionUnestablished else None)"

lemma brokerRefusal_status:
  "is_ma x (brokerRefusal (Err (MBroker (newBrokerError st)) [])) \<longleftrightarrow> mint_sentinel st = Some x"
  "as_broker (brokerRefusal (Err (MBroker (newBrokerError st)) [])) = Some (newBrokerError st)"
  by (auto simp: brokerRefusal_def mint_sentinel_def)

text \<open>
  A refused operation mint is typed by its status alone. When the broker answers the request with
  a status other than 200, the mint fails with an error that still shows that status to
  \<^verbatim>\<open>errors.As\<close>, is the sentinel of the status and no other sentinel of the package, and holds no
  error of another package, whatever the response's body was.
\<close>

theorem MintModuleOperationContext_refused:
  assumes "MintModuleOperationContext L W c bindingID s = (r, s')" and
    "posts (log s') = posts (log s) @ [q]" and
    "w_http W (log s @ [EvToken]) q = Inr a" and "hr_status a \<noteq> 200"
  shows "\<exists>e. r = Inl e \<and> own_errors e \<and> as_broker e = Some (newBrokerError (hr_status a)) \<and>
    (\<forall>x. is_ma x e \<longleftrightarrow> mint_sentinel (hr_status a) = Some x)"
proof -
  from assms(1,2) have b: "bindingID \<noteq> []"
    by (auto simp: MintModuleOperationContext_def throw_def)
  from assms(1) [unfolded MintModuleOperationContext_mint_op [OF b]] show ?thesis
  proof (cases rule: mint_op_result)
    case (refused t a' e)
    with assms(2,3) have "a' = a" by simp
    with refused(4) assms(4) have "e = Err (MBroker (newBrokerError (hr_status a))) []"
      by (simp add: read_answer_status)
    with refused(1) show ?thesis by (simp add: brokerRefusal_status)
  next
    case (answered t a' out)
    with assms(2-4) show ?thesis by (simp add: read_answer_status)
  next
    case (failed t e)
    with assms(2,3) show ?thesis by simp
  qed (use assms(2) in auto)
qed

theorem MintModuleOperationContext_refused_witness:
  "\<exists>e s'. MintModuleOperationContext sample_lib (sample_world 403 no_answer) sample_client ''b''
     initial_state = (Inl e, s') \<and> own_errors e \<and> is_ma ErrPermissionDenied e \<and>
     \<not> is_ma ErrInvalidCredentials e"
proof -
  let ?W = "sample_world 403 no_answer"
  let ?q = "operation_request sample_client ''b'' ''tok''"
  obtain r s' where run: "MintModuleOperationContext sample_lib ?W sample_client ''b'' initial_state
      = (r, s')" by fastforce
  have "posts (log (snd (MintModuleOperationContext sample_lib ?W sample_client ''b'' initial_state)))
      = posts (log initial_state) @ [?q]"
    by (simp add: sample_operation_refused operation_request_def)
  with run have "posts (log s') = posts (log initial_state) @ [?q]" by simp
  from MintModuleOperationContext_refused [OF run this] show ?thesis
    using run by (auto simp: sample_world_def mint_sentinel_def)
qed


section \<open>The exchange\<close>

definition exchange_message :: "ExchangeRequest \<Rightarrow> ModuleExchangeDelegatedOperationAudienceRequest" where
  "exchange_message x = \<lparr>xq_BindingId = ex_BindingID x, xq_ParentWorkContextToken = ex_Parent x,
     xq_Lookup = ex_Lookup x, xq_DelegationId = ex_DelegationID x\<rparr>"

text \<open>Exactly one arm: a sealed parent and no delegation, or a delegation and no parent.\<close>

definition one_arm :: "core_lib \<Rightarrow> ExchangeRequest \<Rightarrow> bool" where
  "one_arm L x \<longleftrightarrow> ex_BindingID x \<noteq> [] \<and>
     ((sealed L (ex_Parent x) \<and> ex_DelegationID x = []) \<or> (ex_Parent x = [] \<and> ex_DelegationID x \<noteq> []))"

lemma sealed_nonempty: "sealed L t \<Longrightarrow> t \<noteq> []"
  by (auto simp: sealed_def)

lemma ExchangeOperation_cases:
  "ExchangeOperation L W c x =
     (if one_arm L x
      then attempt (on_error (callAsModule L W c Exchange_procedure (exchange_message x))
           (contextf ''module authority: exchange operation audience''))
         (\<lambda>issued. if \<not> sealed L (GetToken issued)
            then throw (detailf ErrInvalidCapability ''malformed exchanged token'')
            else give (GetToken issued))
      else throw (fail_sentinel ErrInvalidExchange))"
  using sealed_nonempty
  by (auto simp: ExchangeOperation_def Let_def one_arm_def exchange_message_def)

text \<open>C22:
  The exchange. A request that does not present exactly one authority is refused before anything
  is asked of the world. Otherwise every authority call it makes is for the exchange procedure
  and carries that request unchanged; a token it returns is sealed; and a successful exchange made
  at least one call and at most two.
\<close>

theorem ExchangeOperation_one_arm:
  "(\<not> one_arm L x \<longrightarrow> ExchangeOperation L W c x s = (Inl (fail_sentinel ErrInvalidExchange), s)) \<and>
   (\<exists>new. log (snd (ExchangeOperation L W c x s)) = log s @ new \<and> length (calls new) \<le> 2 \<and>
      (\<forall>q \<in> set (calls new). au_msg q = MsgExchange (exchange_message x)) \<and>
      (\<forall>t. fst (ExchangeOperation L W c x s) = Inr t \<longrightarrow> sealed L t \<and> calls new \<noteq> []))"
proof (cases "one_arm L x")
  case False
  then show ?thesis by (simp add: ExchangeOperation_cases throw_def)
next
  case True
  obtain r s' where run: "callAsModule L W c Exchange_procedure (exchange_message x) s = (r, s')"
    by fastforce
  have msg: "au_msg (call_request L c Exchange_procedure (exchange_message x) m)
      = MsgExchange (exchange_message x)" for m
    by (simp add: call_request_def authorityRequest_def Exchange_procedure_def)
  from callAsModule_calls [OF run] obtain new where new: "log s' = log s @ new"
    "length (calls new) \<le> 2" "\<forall>q \<in> set (calls new). au_msg q = MsgExchange (exchange_message x)"
    "\<not> isl r \<longrightarrow> calls new \<noteq> []"
    using msg by metis
  have res: "snd (ExchangeOperation L W c x s) = s'" "fst (ExchangeOperation L W c x s) = Inr t \<Longrightarrow>
      sealed L t \<and> \<not> isl r" for t
    using True run by (auto simp: ExchangeOperation_cases attempt_def on_error_def throw_def give_def
        split: sum.splits if_splits)
  show ?thesis using True new res by auto
qed

theorem ExchangeOperation_one_arm_witness:
  "ExchangeOperation sample_lib (sample_world 200 no_answer) sample_client
     \<lparr>ex_BindingID = ''b'', ex_Parent = ''wc-p'', ex_Lookup = False, ex_DelegationID = ''d''\<rparr>
     stale_state = (Inl (fail_sentinel ErrInvalidExchange), stale_state) \<and>
   fst (ExchangeOperation sample_lib (sample_world 200 no_answer) sample_client
     \<lparr>ex_BindingID = ''b'', ex_Parent = ''wc-p'', ex_Lookup = False, ex_DelegationID = []\<rparr>
     stale_state) = Inr ''wc-child''"
proof
  have "\<not> one_arm sample_lib
      \<lparr>ex_BindingID = ''b'', ex_Parent = ''wc-p'', ex_Lookup = False, ex_DelegationID = ''d''\<rparr>"
    by (simp add: one_arm_def)
  with ExchangeOperation_one_arm show "ExchangeOperation sample_lib (sample_world 200 no_answer)
      sample_client
      \<lparr>ex_BindingID = ''b'', ex_Parent = ''wc-p'', ex_Lookup = False, ex_DelegationID = ''d''\<rparr>
      stale_state = (Inl (fail_sentinel ErrInvalidExchange), stale_state)"
    by blast
next
  show "fst (ExchangeOperation sample_lib (sample_world 200 no_answer) sample_client
     \<lparr>ex_BindingID = ''b'', ex_Parent = ''wc-p'', ex_Lookup = False, ex_DelegationID = []\<rparr>
     stale_state) = Inr ''wc-child''"
    by (simp add: ExchangeOperation_def Let_def attempt_def on_error_def sample_exchange throw_def give_def)
qed


end
