(* ===== verification/MaFacade.thy ===== *)
theory MaFacade
  imports MaClientFacts GoRegex
begin

text \<open>
  The operations of moduleauthority's client beside the exchange: source_context.go, artifact.go,
  installation.go, notify.go, audit.go and audit_declarations.go. Each checks its request, makes
  one broker mint or one call as the module, and checks the answer before it hands it out.
\<close>

section \<open>Closing (client.go, authority.go)\<close>

text \<open>
  The transport whose idle connections are released, if any: that of a direct endpoint. The
  gateway's client is the consumer's and is left alone; nothing else of the client changes.
\<close>

definition authorityEndpoint_close :: "authorityEndpoint \<Rightarrow> authority_transport option" where
  "authorityEndpoint_close a = ae_transport a"

definition Client_Close :: "Client \<Rightarrow> authority_transport option \<times> ma_err option" where
  "Client_Close c = (authorityEndpoint_close (c_authority c), None)"

section \<open>Source operation contexts (source_context.go)\<close>

record SourceOperationContext =
  so_OperationContext :: OperationContext
  so_OwnerPrincipalID :: string
  so_DelegationID :: string
  so_SourceID :: string

record sourceOperationContextResponse =
  sr_operationContextResponse :: operationContextResponse
  sr_OwnerPrincipalID :: string
  sr_DelegationID :: string
  sr_SourceID :: string

definition sourceOperationContextResponse_of :: "(string \<Rightarrow> string) \<Rightarrow> sourceOperationContextResponse" where
  "sourceOperationContextResponse_of f =
     \<lparr>sr_operationContextResponse = operationContextResponse_of f,
      sr_OwnerPrincipalID = f ''owner_principal_id'', sr_DelegationID = f ''delegation_id'',
      sr_SourceID = f ''source_id''\<rparr>"

definition delegationRefusal :: "ma_err \<Rightarrow> ma_sentinel option" where
  "delegationRefusal err = (case as_broker err of
       None \<Rightarrow> None
     | Some be \<Rightarrow>
       (if StatusCode be = 401 then Some ErrInvalidCredentials
        else if StatusCode be = 503 then Some ErrExecutionUnestablished
        else if StatusCode be = 403 then Some ErrDelegationInvalid
        else if StatusCode be = 412 then Some ErrDelegationMissing
        else None))"

definition source_failure :: "ma_err \<Rightarrow> ma_err" where
  "source_failure err = (case delegationRefusal err of
       Some refusal \<Rightarrow> joinf refusal err
     | None \<Rightarrow> contextf ''module authority: mint source operation context'' err)"

definition MintSourceOperationContext ::
  "core_lib \<Rightarrow> world \<Rightarrow> Client \<Rightarrow> string \<Rightarrow> SourceOperationContext op" where
  "MintSourceOperationContext L W c sourceID =
     (if sourceID = [] then throw (fail_sentinel ErrInvalidExchange)
      else attempt (projectedToken W (c_credentials c)) (\<lambda>projected.
      attempt (on_error
        (post L W (c_broker c) sourceOperationContextPath projected
           (sourceOperationContextRequest (Prefix (c_credentials c)) sourceID))
        source_failure) (\<lambda>out.
      let issued = sourceOperationContextResponse_of out in
      attempt (clock W) (\<lambda>now.
      case operationContext L (sr_operationContextResponse issued) now of
        Inl e \<Rightarrow> throw e
      | Inr op \<Rightarrow>
        (if sr_SourceID issued \<noteq> sourceID
         then throw (detailf ErrInvalidCapability ''issued for another source'')
         else if Tenant op = [] \<or> sr_OwnerPrincipalID issued = [] \<or> sr_DelegationID issued = []
         then throw (detailf ErrInvalidCapability ''missing tenant, owner or delegation'')
         else give \<lparr>so_OperationContext = op, so_OwnerPrincipalID = sr_OwnerPrincipalID issued,
                so_DelegationID = sr_DelegationID issued, so_SourceID = sr_SourceID issued\<rparr>)))))"

section \<open>Executable artifacts (artifact.go)\<close>

definition hex_class :: "(nat \<times> nat) list" where
  "hex_class = [(48, 57), (97, 102)]"

definition artifactDigest :: regex where
  "artifactDigest = RSeq (RLit ''sha256:'') (RRep 64 (RCls hex_class))"

definition artifactUUID :: regex where
  "artifactUUID =
     RSeq (RRep 8 (RCls hex_class)) (RSeq (RLit ''-'')
     (RSeq (RRep 4 (RCls hex_class)) (RSeq (RLit ''-'')
     (RSeq (RRep 4 (RCls hex_class)) (RSeq (RLit ''-'')
     (RSeq (RRep 4 (RCls hex_class)) (RSeq (RLit ''-'') (RRep 12 (RCls hex_class)))))))))"

record ArtifactContract =
  ct_Kind :: string
  ct_Name :: string
  ct_Digest :: string

record ArtifactIdentity =
  id_Schema :: string
  id_Source :: string
  id_Subject :: string
  id_Contracts :: "ArtifactContract list"
  id_ExpectedRevision :: "64 word"

record ArtifactRequest =
  ar_Parent :: string
  ar_InstallationID :: string
  ar_PolicyID :: string
  ar_Identity :: ArtifactIdentity

record ArtifactAuthorization =
  aa_QualifiedName :: string
  aa_Digest :: string
  aa_ExpectedRevision :: "64 word"

record ArtifactRevocation =
  re_Parent :: string
  re_InstallationID :: string
  re_ApprovalID :: string

fun artifact_contracts :: "ArtifactContract list \<Rightarrow> ma_err + ExecutableArtifactContract list" where
  "artifact_contracts [] = Inr []"
| "artifact_contracts (c # cs) =
     (if ct_Kind c = [] \<or> length (ct_Kind c) > 64 \<or> ct_Name c = [] \<or> length (ct_Name c) > 512 \<or>
         \<not> match_string artifactDigest (ct_Digest c)
      then Inl (fail_sentinel ErrInvalidArtifact)
      else case artifact_contracts cs of
        Inl e \<Rightarrow> Inl e
      | Inr r \<Rightarrow> Inr (\<lparr>ac_Kind = ct_Kind c, ac_Name = ct_Name c, ac_Digest = ct_Digest c\<rparr> # r))"

definition artifactRequest :: "core_lib \<Rightarrow> ArtifactRequest \<Rightarrow> ma_err + ModuleExecutableArtifactRequest" where
  "artifactRequest L req =
     (let i = ar_Identity req in
      if \<not> sealed L (ar_Parent req) \<or> \<not> match_string artifactUUID (ar_InstallationID req) \<or>
         ar_PolicyID req = [] \<or> length (ar_PolicyID req) > 128 \<or>
         id_Schema i = [] \<or> length (id_Schema i) > 128 \<or>
         id_Source i = [] \<or> length (id_Source i) > 512 \<or> sint (id_ExpectedRevision i) < 0 \<or>
         length (id_Subject i) = 0 \<or> length (id_Subject i) > 65536 \<or> length (id_Contracts i) > 256
      then Inl (fail_sentinel ErrInvalidArtifact)
      else case artifact_contracts (id_Contracts i) of
        Inl e \<Rightarrow> Inl e
      | Inr contracts \<Rightarrow>
          Inr \<lparr>aq_ParentWorkContextToken = ar_Parent req, aq_InstallationId = ar_InstallationID req,
            aq_PolicyId = ar_PolicyID req,
            aq_Identity = \<lparr>ai_Schema = id_Schema i, ai_Source = id_Source i,
              ai_Subject = id_Subject i, ai_Contracts = contracts,
              ai_ExpectedRevision = id_ExpectedRevision i\<rparr>\<rparr>)"

definition artifact_prefix :: string where
  "artifact_prefix = ''host/approved-artifacts/''"

definition artifactReceipt ::
  "ModuleExecutableArtifactResponse option \<Rightarrow> 64 word option \<Rightarrow> ma_err + ArtifactAuthorization" where
  "artifactReceipt out expected = (case out of
       None \<Rightarrow> Inl (fail_sentinel ErrInvalidArtifact)
     | Some r \<Rightarrow>
       (let n = length artifact_prefix; name = ap_QualifiedName r in
        if ap_SchemaVersion r \<noteq> ''host.executable-artifact/v1'' \<or> length name \<le> n \<or>
           take n name \<noteq> artifact_prefix \<or> \<not> match_string artifactUUID (drop n name) \<or>
           \<not> match_string artifactDigest (ap_Digest r) \<or> sint (ap_ExpectedRevision r) < 0 \<or>
           (case expected of None \<Rightarrow> False | Some e \<Rightarrow> ap_ExpectedRevision r \<noteq> e)
        then Inl (fail_sentinel ErrInvalidArtifact)
        else Inr \<lparr>aa_QualifiedName = name, aa_Digest = ap_Digest r,
               aa_ExpectedRevision = ap_ExpectedRevision r\<rparr>))"

definition Approve_procedure where
  "Approve_procedure = \<lparr>pr_method = ModuleCapabilities_ApproveExecutableArtifact,
     pr_msg = MsgApprove, pr_answers = sv_approve\<rparr>"

definition Authorize_procedure where
  "Authorize_procedure = \<lparr>pr_method = ModuleCapabilities_AuthorizeExecutableArtifact,
     pr_msg = MsgAuthorize, pr_answers = sv_authorize\<rparr>"

definition Revoke_procedure where
  "Revoke_procedure = \<lparr>pr_method = ModuleCapabilities_RevokeExecutableArtifact,
     pr_msg = MsgRevoke, pr_answers = sv_revoke\<rparr>"

definition lift_result :: "ma_err + 'a \<Rightarrow> 'a op" where
  "lift_result r = (\<lambda>s. (r, s))"

definition ApproveExecutableArtifact ::
  "core_lib \<Rightarrow> world \<Rightarrow> Client \<Rightarrow> ArtifactRequest \<Rightarrow> ArtifactAuthorization op" where
  "ApproveExecutableArtifact L W c req = (case artifactRequest L req of
       Inl e \<Rightarrow> throw e
     | Inr wire \<Rightarrow>
       attempt (on_error (callAsModule L W c Approve_procedure wire)
           (contextf ''module authority: approve executable artifact''))
         (\<lambda>out. lift_result (artifactReceipt out (Some (id_ExpectedRevision (ar_Identity req))))))"

definition AuthorizeExecutableArtifact ::
  "core_lib \<Rightarrow> world \<Rightarrow> Client \<Rightarrow> ArtifactRequest \<Rightarrow> ArtifactAuthorization op" where
  "AuthorizeExecutableArtifact L W c req = (case artifactRequest L req of
       Inl e \<Rightarrow> throw e
     | Inr wire \<Rightarrow>
       attempt (on_error (callAsModule L W c Authorize_procedure wire)
           (contextf ''module authority: authorize executable artifact''))
         (\<lambda>out. lift_result (artifactReceipt out (Some (id_ExpectedRevision (ar_Identity req))))))"

definition RevokeExecutableArtifact ::
  "core_lib \<Rightarrow> world \<Rightarrow> Client \<Rightarrow> ArtifactRevocation \<Rightarrow> ArtifactAuthorization op" where
  "RevokeExecutableArtifact L W c req =
     (if \<not> sealed L (re_Parent req) \<or> \<not> match_string artifactUUID (re_InstallationID req) \<or>
         \<not> match_string artifactUUID (re_ApprovalID req)
      then throw (fail_sentinel ErrInvalidArtifact)
      else attempt (on_error (callAsModule L W c Revoke_procedure
           \<lparr>rv_ParentWorkContextToken = re_Parent req, rv_InstallationId = re_InstallationID req,
            rv_ApprovalId = re_ApprovalID req\<rparr>)
           (contextf ''module authority: revoke executable artifact''))
         (\<lambda>out. case artifactReceipt out None of
            Inl e \<Rightarrow> throw e
          | Inr receipt \<Rightarrow>
            (if aa_QualifiedName receipt \<noteq> artifact_prefix @ re_ApprovalID req
             then throw (fail_sentinel ErrInvalidArtifact) else give receipt)))"

section \<open>The current installation (installation.go)\<close>

record CurrentInstallationRequest =
  ci_Parent :: string
  ci_InstallationID :: string

record CurrentInstallation =
  cu_InstallationID :: string
  cu_TenantID :: string
  cu_TargetID :: string
  cu_BindingID :: string

definition Installation_procedure where
  "Installation_procedure = \<lparr>pr_method = ModuleCapabilities_GetCurrentInstallation,
     pr_msg = MsgGetCurrentInstallation, pr_answers = sv_installation\<rparr>"

definition GetCurrentInstallation ::
  "core_lib \<Rightarrow> world \<Rightarrow> Client \<Rightarrow> CurrentInstallationRequest \<Rightarrow> CurrentInstallation op" where
  "GetCurrentInstallation L W c req =
     (if \<not> sealed L (ci_Parent req) \<or> \<not> match_string artifactUUID (ci_InstallationID req)
      then throw (fail_sentinel ErrInvalidInstallation)
      else attempt (on_error (callAsModule L W c Installation_procedure
           \<lparr>iq_ParentWorkContextToken = ci_Parent req, iq_InstallationId = ci_InstallationID req\<rparr>)
           (contextf ''module authority: current installation''))
         (\<lambda>out. case out of
            None \<Rightarrow> throw (fail_sentinel ErrInvalidInstallation)
          | Some r \<Rightarrow>
            (if ir_InstallationId r \<noteq> ci_InstallationID req \<or>
                \<not> match_string artifactUUID (ir_TenantId r) \<or>
                \<not> match_string artifactUUID (ir_TargetId r) \<or>
                trim_space (ir_BindingId r) = [] \<or> \<not> utf8_valid (ir_BindingId r)
             then throw (fail_sentinel ErrInvalidInstallation)
             else give \<lparr>cu_InstallationID = ir_InstallationId r, cu_TenantID = ir_TenantId r,
                    cu_TargetID = ir_TargetId r, cu_BindingID = ir_BindingId r\<rparr>)))"

section \<open>Notices (notify.go)\<close>

record OrgAdminsNotice =
  on_Tenant :: string
  on_Title :: string
  on_Body :: string
  on_Type :: string
  on_ActionURL :: string
  on_Category :: string
  on_IdempotencyKey :: string

record UserNotice =
  un_Tenant :: string
  un_UserID :: string
  un_Title :: string
  un_Body :: string
  un_Type :: string
  un_ActionURL :: string
  un_Category :: string
  un_IdempotencyKey :: string

definition NotifyOrgAdmins_procedure where
  "NotifyOrgAdmins_procedure = \<lparr>pr_method = ModuleCapabilities_NotifyOrgAdmins,
     pr_msg = MsgNotifyOrgAdmins, pr_answers = sv_notify_org_admins\<rparr>"

definition NotifyUser_procedure where
  "NotifyUser_procedure = \<lparr>pr_method = ModuleCapabilities_NotifyUser,
     pr_msg = MsgNotifyUser, pr_answers = sv_notify_user\<rparr>"

definition NotifyOrgAdmins :: "core_lib \<Rightarrow> world \<Rightarrow> Client \<Rightarrow> OrgAdminsNotice \<Rightarrow> bool op" where
  "NotifyOrgAdmins L W c notice =
     (if on_Tenant notice = [] \<or> on_Title notice = [] \<or> on_Category notice = []
      then throw (fail_sentinel ErrInvalidNotice)
      else attempt (on_error (callAsModule L W c NotifyOrgAdmins_procedure
           \<lparr>no_Tenant = on_Tenant notice, no_Title = on_Title notice, no_Body = on_Body notice,
            no_Type = on_Type notice, no_ActionUrl = on_ActionURL notice,
            no_Category = on_Category notice, no_IdempotencyKey = on_IdempotencyKey notice\<rparr>)
           (contextf ''module authority: notify org admins''))
         (\<lambda>res. give (NotifyOrgAdmins_GetDelivered res)))"

definition NotifyUser :: "core_lib \<Rightarrow> world \<Rightarrow> Client \<Rightarrow> UserNotice \<Rightarrow> bool op" where
  "NotifyUser L W c notice =
     (if un_Tenant notice = [] \<or> un_UserID notice = [] \<or> un_Title notice = [] \<or>
         un_Category notice = []
      then throw (fail_sentinel ErrInvalidNotice)
      else attempt (on_error (callAsModule L W c NotifyUser_procedure
           \<lparr>nu_Tenant = un_Tenant notice, nu_UserId = un_UserID notice, nu_Title = un_Title notice,
            nu_Body = un_Body notice, nu_Type = un_Type notice, nu_ActionUrl = un_ActionURL notice,
            nu_Category = un_Category notice, nu_IdempotencyKey = un_IdempotencyKey notice\<rparr>)
           (contextf ''module authority: notify user''))
         (\<lambda>res. give (NotifyUser_GetDelivered res)))"

section \<open>Audit events (audit.go, audit_declarations.go)\<close>

text \<open>
  \<^verbatim>\<open>Fields\<close> is a map of Go values; \<^verbatim>\<open>structpb.NewStruct\<close> is protobuf's, so the event carries what
  it makes of them, \<open>None\<close> for a value it does not support.
\<close>

record AuditEvent =
  ev_Tenant :: string
  ev_EventType :: string
  ev_Actor :: string
  ev_Solution :: string
  ev_EntryID :: string
  ev_Fields :: "pb_struct option"
  ev_IdempotencyKey :: string

definition auditRequest :: "AuditEvent \<Rightarrow> ma_err + ModuleEmitAuditEventRequest" where
  "auditRequest event =
     (if ev_EventType event = [] \<or> ev_Actor event = [] \<or> ev_Solution event = []
      then Inl (fail_sentinel ErrInvalidAuditEvent)
      else case ev_Fields event of
        None \<Rightarrow> Inl (detailf ErrInvalidAuditEvent ''unsupported field value'')
      | Some fs \<Rightarrow>
          Inr \<lparr>ea_Tenant = ev_Tenant event, ea_EventType = ev_EventType event,
            ea_Actor = ev_Actor event, ea_Solution = ev_Solution event,
            ea_EntryId = ev_EntryID event, ea_Fields = fs,
            ea_IdempotencyKey = ev_IdempotencyKey event\<rparr>)"

definition Emit_procedure where
  "Emit_procedure = \<lparr>pr_method = ModuleCapabilities_EmitAuditEvent,
     pr_msg = MsgEmitAuditEvent, pr_answers = sv_emit\<rparr>"

definition Declare_procedure where
  "Declare_procedure = \<lparr>pr_method = ModuleCapabilities_DeclareAuditEventTypes,
     pr_msg = MsgDeclareAuditEventTypes, pr_answers = sv_declare\<rparr>"

definition EmitAuditEvent :: "core_lib \<Rightarrow> world \<Rightarrow> Client \<Rightarrow> AuditEvent \<Rightarrow> unit op" where
  "EmitAuditEvent L W c event = (case auditRequest event of
       Inl e \<Rightarrow> throw e
     | Inr request \<Rightarrow>
       attempt (on_error (callAsModule L W c Emit_procedure request)
           (contextf ''module authority: emit audit event'')) (\<lambda>_. give ()))"

definition DeclareAuditEventTypes ::
  "core_lib \<Rightarrow> world \<Rightarrow> Client \<Rightarrow> ModuleAuditEventTypeDeclaration option list \<Rightarrow> unit op" where
  "DeclareAuditEventTypes L W c types =
     attempt (on_error (callAsModule L W c Declare_procedure
         \<lparr>da_Prefix = Prefix (c_credentials c), da_Types = types\<rparr>)
       (contextf ''module authority: declare audit event types'')) (\<lambda>_. give ())"

end
