(* ===== verification/MaFacadeFacts.thy ===== *)
theory MaFacadeFacts
  imports MaFacade
begin

text \<open>
  What the operations of theory MaFacade promise: the source mint and its refusals, and for every
  operation that calls as the module, what it admits, what it sends, and what it accepts of the
  host's answer. The patterns of artifact.go are related to what they spell out.
\<close>

section \<open>The source mint\<close>

definition source_request :: "Client \<Rightarrow> string \<Rightarrow> string \<Rightarrow> http_request" where
  "source_request c sourceID t = broker_request (c_broker c) sourceOperationContextPath t
     (sourceOperationContextRequest (Prefix (c_credentials c)) sourceID)"

lemma MintSourceOperationContext_mint_op:
  "sourceID \<noteq> [] \<Longrightarrow> MintSourceOperationContext L W c sourceID =
     mint_op W (c_credentials c) (\<lambda>t. post L W (c_broker c) sourceOperationContextPath t
         (sourceOperationContextRequest (Prefix (c_credentials c)) sourceID))
       source_failure
       (\<lambda>out now. let issued = sourceOperationContextResponse_of out in
          case operationContext L (sr_operationContextResponse issued) now of
            Inl e \<Rightarrow> Inl e
          | Inr op \<Rightarrow> (if sr_SourceID issued \<noteq> sourceID
              then Inl (detailf ErrInvalidCapability ''issued for another source'')
              else if Tenant op = [] \<or> sr_OwnerPrincipalID issued = [] \<or> sr_DelegationID issued = []
              then Inl (detailf ErrInvalidCapability ''missing tenant, owner or delegation'')
              else Inr \<lparr>so_OperationContext = op, so_OwnerPrincipalID = sr_OwnerPrincipalID issued,
                     so_DelegationID = sr_DelegationID issued, so_SourceID = sr_SourceID issued\<rparr>))"
  unfolding MintSourceOperationContext_def mint_op_def Let_def
  by (simp, intro arg_cong2 [where f = attempt] refl ext)
    (auto simp: attempt_def split: sum.splits prod.splits)

text \<open>The sentinel of a refused source mint, per status.\<close>

definition delegation_sentinel :: "int \<Rightarrow> ma_sentinel option" where
  "delegation_sentinel st = (if st = 401 then Some ErrInvalidCredentials
     else if st = 403 then Some ErrDelegationInvalid
     else if st = 412 then Some ErrDelegationMissing
     else if st = 503 then Some ErrExecutionUnestablished else None)"

lemma source_failure_status:
  "is_ma x (source_failure (Err (MBroker (newBrokerError st)) [])) \<longleftrightarrow> delegation_sentinel st = Some x"
  "as_broker (source_failure (Err (MBroker (newBrokerError st)) [])) = Some (newBrokerError st)"
  "own_errors (source_failure (Err (MBroker (newBrokerError st)) []))"
  by (auto simp: source_failure_def delegationRefusal_def delegation_sentinel_def)

text \<open>
  A source mint that succeeds. It sent one broker request for the asked source, carrying neither a
  delegation nor an organization; the capability is sealed, was not expired by the clock read after
  the answer, is for that source and names its tenant, owner and delegation; the cached module Work
  Context is untouched.
\<close>

theorem MintSourceOperationContext_ok:
  assumes "MintSourceOperationContext L W c sourceID s = (Inr x, s')"
  shows "sourceID \<noteq> [] \<and> so_SourceID x = sourceID \<and> sealed L (Token (so_OperationContext x)) \<and>
    Tenant (so_OperationContext x) \<noteq> [] \<and> so_OwnerPrincipalID x \<noteq> [] \<and> so_DelegationID x \<noteq> [] \<and>
    (\<exists>t. usable_token t \<and>
       hq_body (source_request c sourceID t) =
         [(''prefix'', Prefix (c_credentials c)), (''source_id'', sourceID)] \<and>
       s' = s\<lparr>log := log s @ [EvToken, EvPost (source_request c sourceID t), EvNow]\<rparr> \<and>
       w_now W (log s @ [EvToken, EvPost (source_request c sourceID t)])
         < ExpiresAt (so_OperationContext x))"
proof -
  from assms have b: "sourceID \<noteq> []"
    by (auto simp: MintSourceOperationContext_def throw_def)
  from assms [unfolded MintSourceOperationContext_mint_op [OF b]] show ?thesis
  proof (cases rule: mint_op_result)
    case (answered t a out)
    define now where "now = w_now W (log s @ [EvToken, EvPost (source_request c sourceID t)])"
    from answered(4) obtain op where op: "operationContext L (operationContextResponse_of out) now = Inr op"
      and x: "so_OperationContext x = op" "so_SourceID x = sourceID" "Tenant op \<noteq> []"
        "so_OwnerPrincipalID x \<noteq> []" "so_DelegationID x \<noteq> []"
      by (auto simp: source_request_def now_def sourceOperationContextResponse_of_def Let_def
          split: sum.splits if_splits)
    from operationContext_Inr [OF op] x answered b show ?thesis
      by (auto simp: source_request_def now_def broker_request_def sourceOperationContextRequest_def)
  qed auto
qed

text \<open>C24:
  A refused source mint. When the broker answers the request with a status other than 200, the
  error shows that status to \<^verbatim>\<open>errors.As\<close>, is the sentinel of the status and no other (403 is an
  unusable delegation and 412 a missing one, which the other mints read differently), and holds no
  error of another package.
\<close>

theorem MintSourceOperationContext_refused:
  assumes "MintSourceOperationContext L W c sourceID s = (r, s')" and
    "posts (log s') = posts (log s) @ [q]" and
    "w_http W (log s @ [EvToken]) q = Inr a" and "hr_status a \<noteq> 200"
  shows "\<exists>e. r = Inl e \<and> own_errors e \<and> as_broker e = Some (newBrokerError (hr_status a)) \<and>
    (\<forall>x. is_ma x e \<longleftrightarrow> delegation_sentinel (hr_status a) = Some x)"
proof -
  from assms(1,2) have b: "sourceID \<noteq> []"
    by (auto simp: MintSourceOperationContext_def throw_def)
  from assms(1) [unfolded MintSourceOperationContext_mint_op [OF b]] show ?thesis
  proof (cases rule: mint_op_result)
    case (refused t a' e)
    with assms(2,3) have "a' = a" by simp
    with refused(4) assms(4) have "e = Err (MBroker (newBrokerError (hr_status a))) []"
      by (simp add: read_answer_status)
    with refused(1) show ?thesis by (simp add: source_failure_status)
  next
    case (answered t a' out)
    with assms(2-4) show ?thesis by (simp add: read_answer_status)
  next
    case (failed t e)
    with assms(2,3) show ?thesis by simp
  qed (use assms(2) in auto)
qed

lemma sample_source_mint:
  assumes "length (log s) < 1000"
  shows "MintSourceOperationContext sample_lib (sample_world 200 rs) sample_client ''src'' s =
     (Inr \<lparr>so_OperationContext = \<lparr>Token = ''wc-new'', ExpiresAt = 900000000000,
          PrincipalID = ''principal_id'', Tenant = ''tenant'', Audience = ''audience'', BindingID = ''b''\<rparr>,
        so_OwnerPrincipalID = ''owner_principal_id'', so_DelegationID = ''delegation_id'',
        so_SourceID = ''src''\<rparr>,
      s\<lparr>log := log s @ [EvToken, EvPost (source_request sample_client ''src'' ''tok''), EvNow]\<rparr>)"
  using assms
  by (simp add: MintSourceOperationContext_def attempt_def on_error_def sample_post Let_def
      sourceOperationContextResponse_of_def operationContextResponse_of_def sample_fields_def give_def
      operationContext_def source_request_def)

lemma sample_source_refused:
  assumes "st \<noteq> 200"
  shows "MintSourceOperationContext sample_lib (sample_world st rs) sample_client ''src'' s =
     (Inl (source_failure (Err (MBroker (newBrokerError st)) [])),
      s\<lparr>log := log s @ [EvToken, EvPost (source_request sample_client ''src'' ''tok'')]\<rparr>)"
  using assms
  by (simp add: MintSourceOperationContext_def attempt_def on_error_def sample_post_refused source_request_def)

theorem MintSourceOperationContext_ok_witness:
  "\<exists>x s'. MintSourceOperationContext sample_lib (sample_world 200 no_answer) sample_client ''src''
     initial_state = (Inr x, s') \<and> so_SourceID x = ''src'' \<and> so_DelegationID x \<noteq> []"
proof -
  have "length (log initial_state) < 1000" by (simp add: initial_state_def)
  from sample_source_mint [OF this] show ?thesis
    using MintSourceOperationContext_ok [of sample_lib "sample_world 200 no_answer" sample_client "''src''"]
    by blast
qed

theorem MintSourceOperationContext_refused_witness:
  "\<exists>e s'. MintSourceOperationContext sample_lib (sample_world 412 no_answer) sample_client ''src''
     initial_state = (Inl e, s') \<and> is_ma ErrDelegationMissing e \<and> \<not> is_ma ErrNoHostStateToMintFor e"
proof -
  note run = sample_source_refused [of 412 no_answer initial_state, simplified]
  have "w_http (sample_world 412 no_answer) l q =
      Inr \<lparr>hr_status = 412, hr_body = \<lparr>st_data = ''new'', st_error = None\<rparr>\<rparr>" for l q
    by (simp add: sample_world_def)
  from MintSourceOperationContext_refused [OF run _ this] show ?thesis
    using run by (auto simp: delegation_sentinel_def)
qed

section \<open>The patterns of the artifact operations\<close>

definition lower_hex :: "char \<Rightarrow> bool" where
  "lower_hex c \<longleftrightarrow> (48 \<le> byte c \<and> byte c \<le> 57) \<or> (97 \<le> byte c \<and> byte c \<le> 102)"

text \<open>Five groups of lower-case hexadecimal digits between hyphens; \<^verbatim>\<open>sha256:\<close> and 64 digits.\<close>

definition uuid_text :: "string \<Rightarrow> bool" where
  "uuid_text s \<longleftrightarrow> (\<exists>a b c d e. s = a @ ''-'' @ b @ ''-'' @ c @ ''-'' @ d @ ''-'' @ e \<and>
     map length [a, b, c, d, e] = [8, 4, 4, 4, 12] \<and> list_all lower_hex (a @ b @ c @ d @ e))"

definition digest_text :: "string \<Rightarrow> bool" where
  "digest_text s \<longleftrightarrow> (\<exists>h. s = ''sha256:'' @ h \<and> length h = 64 \<and> list_all lower_hex h)"

lemma hex_class_iff: "in_class hex_class = lower_hex"
  by (simp add: in_class_def hex_class_def lower_hex_def fun_eq_iff)

lemma lang_hex: "lang (RRep n (RCls hex_class)) = {s. length s = n \<and> list_all lower_hex s}"
  by (simp only: lang_RRep_RCls hex_class_iff)

lemma match_artifactDigest [simp]: "match_string artifactDigest s \<longleftrightarrow> digest_text s"
  by (simp add: match_string_iff artifactDigest_def lang_hex conc_single digest_text_def del: RRep.simps)

lemma match_artifactUUID [simp]: "match_string artifactUUID s \<longleftrightarrow> uuid_text s"
proof
  assume "match_string artifactUUID s"
  then have "s \<in> lang artifactUUID" by (simp add: match_string_iff)
  then show "uuid_text s"
    unfolding artifactUUID_def lang.simps lang_hex lang_RLit conc_def uuid_text_def by fastforce
next
  assume "uuid_text s"
  then obtain a b c d e where s: "s = a @ ''-'' @ b @ ''-'' @ c @ ''-'' @ d @ ''-'' @ e"
    and l: "length a = 8" "length b = 4" "length c = 4" "length d = 4" "length e = 12"
    and h: "list_all lower_hex a" "list_all lower_hex b" "list_all lower_hex c" "list_all lower_hex d"
      "list_all lower_hex e"
    by (auto simp: uuid_text_def)
  have conc_I: "x \<in> A \<Longrightarrow> y \<in> B \<Longrightarrow> x @ y \<in> conc A B" for x y A B by (auto simp: conc_def)
  have "s \<in> lang artifactUUID"
    unfolding artifactUUID_def lang.simps lang_hex lang_RLit s using l h by (intro conc_I) simp_all
  then show "match_string artifactUUID s" by (simp add: match_string_iff)
qed

section \<open>Calls as the module\<close>

text \<open>What an operation sent: at most two calls, both the procedure's own with this very message.\<close>

definition sends_only ::
  "core_lib \<Rightarrow> Client \<Rightarrow> ('req, 'res) procedure \<Rightarrow> 'req \<Rightarrow> state \<Rightarrow> state \<Rightarrow> bool" where
  "sends_only L c p msg s s' \<longleftrightarrow> (\<exists>new. log s' = log s @ new \<and> length (calls new) \<le> 2 \<and>
     (\<forall>q \<in> set (calls new). \<exists>m. q = call_request L c p msg m))"

text \<open>The host answered \<open>out\<close> to the last thing asked, which is this call.\<close>

definition host_said ::
  "core_lib \<Rightarrow> world \<Rightarrow> Client \<Rightarrow> ('req, 'res) procedure \<Rightarrow> 'req \<Rightarrow> state \<Rightarrow> 'res option \<Rightarrow> bool" where
  "host_said L W c p msg s' out \<longleftrightarrow> (\<exists>l m. log s' = l @ [EvCall (call_request L c p msg m)] \<and>
     host_answer W p l (call_request L c p msg m) = Inr out)"

lemma facade_result:
  assumes "attempt (on_error (callAsModule L W c p msg) g) f s = (r, s')" and "\<And>a t. snd (f a t) = t"
  shows "sends_only L c p msg s s'"
    and "r = Inr x \<Longrightarrow> \<exists>out. host_said L W c p msg s' out \<and> fst (f out s') = Inr x"
proof -
  obtain y t where run: "callAsModule L W c p msg s = (y, t)" by fastforce
  have s': "s' = t"
    using assms(1) run assms(2) by (cases y) (auto simp: attempt_def on_error_def, metis snd_conv)
  from callAsModule_calls [OF run] show "sends_only L c p msg s s'"
    unfolding s' sends_only_def by blast
  assume "r = Inr x"
  with assms(1) run s' obtain out where "y = Inr out" "f out t = (Inr x, t)"
    by (cases y) (auto simp: attempt_def on_error_def)
  with callAsModule_Inr run s' show "\<exists>out. host_said L W c p msg s' out \<and> fst (f out s') = Inr x"
    unfolding host_said_def by (metis fst_conv)
qed

lemma lift_result_state [simp]: "snd (lift_result r t) = t" "fst (lift_result r t) = r"
  by (simp_all add: lift_result_def)

lemma give_state: "snd (give a t) = t" "fst (give a t) = Inr a"
  by (simp_all add: give_def)

lemma throw_state: "snd (throw e s) = s"
  by (simp add: throw_def)

lemma lift_result_cases:
  "lift_result (Inr a) = give a" "lift_result (Inl e) = throw e"
  by (simp_all add: lift_result_def give_def throw_def)

text \<open>
  What the operations that call as the module have in common: a request is admitted, as a message,
  or refused; the message is sent by \<open>callAsModule\<close>, its error wrapped; and the answer is accepted,
  as a result, or refused.
\<close>

locale module_operation =
  fixes L :: core_lib and W :: world and c :: Client and run :: "'x \<Rightarrow> 'a op"
    and p :: "('req, 'res) procedure" and admit :: "'x \<Rightarrow> ma_err + 'req"
    and wrap :: "ma_err \<Rightarrow> ma_err" and accept :: "'x \<Rightarrow> 'res option \<Rightarrow> ma_err + 'a"
  assumes code: "run x = (case admit x of Inl e \<Rightarrow> throw e
    | Inr msg \<Rightarrow> attempt (on_error (callAsModule L W c p msg) wrap) (\<lambda>out. lift_result (accept x out)))"
begin

lemma refuses: "admit x = Inl e \<Longrightarrow> run x s = (Inl e, s)"
  by (simp add: code throw_def)

lemma sends:
  assumes "admit x = Inr msg" and "run x s = (r, s')"
  shows "sends_only L c p msg s s'"
  using facade_result(1) [of L W c p msg wrap "\<lambda>out. lift_result (accept x out)" s r s'] assms
  by (simp add: code)

lemma vouched:
  assumes "run x s = (Inr a, s')"
  obtains msg out where "admit x = Inr msg" "host_said L W c p msg s' out" "accept x out = Inr a"
proof (cases "admit x")
  case (Inl e)
  with assms show thesis by (simp add: code throw_def)
next
  case (Inr msg)
  with assms facade_result(2) [of L W c p msg wrap "\<lambda>out. lift_result (accept x out)" s "Inr a" s' a] that
  show thesis by (auto simp: code)
qed

end

section \<open>Executable artifacts\<close>

definition contract_ok :: "ArtifactContract \<Rightarrow> bool" where
  "contract_ok c \<longleftrightarrow> length (ct_Kind c) \<in> {1..64} \<and> length (ct_Name c) \<in> {1..512} \<and> digest_text (ct_Digest c)"

definition request_ok :: "core_lib \<Rightarrow> ArtifactRequest \<Rightarrow> bool" where
  "request_ok L req \<longleftrightarrow> sealed L (ar_Parent req) \<and> uuid_text (ar_InstallationID req) \<and>
     length (ar_PolicyID req) \<in> {1..128} \<and> length (id_Schema (ar_Identity req)) \<in> {1..128} \<and>
     length (id_Source (ar_Identity req)) \<in> {1..512} \<and>
     length (id_Subject (ar_Identity req)) \<in> {1..65536} \<and>
     0 \<le> sint (id_ExpectedRevision (ar_Identity req)) \<and>
     length (id_Contracts (ar_Identity req)) \<le> 256 \<and> list_all contract_ok (id_Contracts (ar_Identity req))"

definition wire_contract :: "ArtifactContract \<Rightarrow> ExecutableArtifactContract" where
  "wire_contract c = \<lparr>ac_Kind = ct_Kind c, ac_Name = ct_Name c, ac_Digest = ct_Digest c\<rparr>"

definition wire_request :: "ArtifactRequest \<Rightarrow> ModuleExecutableArtifactRequest" where
  "wire_request req = \<lparr>aq_ParentWorkContextToken = ar_Parent req,
     aq_InstallationId = ar_InstallationID req, aq_PolicyId = ar_PolicyID req,
     aq_Identity = \<lparr>ai_Schema = id_Schema (ar_Identity req), ai_Source = id_Source (ar_Identity req),
       ai_Subject = id_Subject (ar_Identity req),
       ai_Contracts = map wire_contract (id_Contracts (ar_Identity req)),
       ai_ExpectedRevision = id_ExpectedRevision (ar_Identity req)\<rparr>\<rparr>"

lemma length_range: "length s \<in> {1..n} \<longleftrightarrow> \<not> (s = [] \<or> n < length s)"
  by (cases s) auto

lemma contract_ok_iff:
  "contract_ok c \<longleftrightarrow> \<not> (ct_Kind c = [] \<or> length (ct_Kind c) > 64 \<or> ct_Name c = [] \<or>
     length (ct_Name c) > 512 \<or> \<not> digest_text (ct_Digest c))"
  unfolding contract_ok_def length_range by blast

lemma request_ok_iff:
  "request_ok L req \<longleftrightarrow> list_all contract_ok (id_Contracts (ar_Identity req)) \<and>
     \<not> (\<not> sealed L (ar_Parent req) \<or> \<not> uuid_text (ar_InstallationID req) \<or>
       ar_PolicyID req = [] \<or> length (ar_PolicyID req) > 128 \<or>
       id_Schema (ar_Identity req) = [] \<or> length (id_Schema (ar_Identity req)) > 128 \<or>
       id_Source (ar_Identity req) = [] \<or> length (id_Source (ar_Identity req)) > 512 \<or>
       sint (id_ExpectedRevision (ar_Identity req)) < 0 \<or>
       id_Subject (ar_Identity req) = [] \<or> length (id_Subject (ar_Identity req)) > 65536 \<or>
       length (id_Contracts (ar_Identity req)) > 256)"
  unfolding request_ok_def length_range not_less [symmetric] by blast

lemma artifact_contracts_eq:
  "artifact_contracts cs = (if list_all contract_ok cs then Inr (map wire_contract cs)
     else Inl (fail_sentinel ErrInvalidArtifact))"
  by (induction cs) (simp_all add: contract_ok_iff wire_contract_def)

lemma artifactRequest_eq:
  "artifactRequest L req = (if request_ok L req then Inr (wire_request req)
     else Inl (fail_sentinel ErrInvalidArtifact))"
  unfolding request_ok_iff
  by (simp add: artifactRequest_def Let_def artifact_contracts_eq wire_request_def
      wire_contract_def [abs_def])

lemma uuid_text_nonempty: "uuid_text s \<Longrightarrow> s \<noteq> []"
  by (auto simp: uuid_text_def)

lemma artifactReceipt_Inr:
  "artifactReceipt out expected = Inr a \<longleftrightarrow> (\<exists>r u. out = Some r \<and>
     ap_SchemaVersion r = ''host.executable-artifact/v1'' \<and> ap_QualifiedName r = artifact_prefix @ u \<and>
     uuid_text u \<and> digest_text (ap_Digest r) \<and> 0 \<le> sint (ap_ExpectedRevision r) \<and>
     (expected = None \<or> expected = Some (ap_ExpectedRevision r)) \<and>
     a = \<lparr>aa_QualifiedName = ap_QualifiedName r, aa_Digest = ap_Digest r,
          aa_ExpectedRevision = ap_ExpectedRevision r\<rparr>)"
proof (cases out)
  case (Some r)
  have pre: "length artifact_prefix < length name \<and> take (length artifact_prefix) name = artifact_prefix \<and>
      uuid_text (drop (length artifact_prefix) name) \<longleftrightarrow> (\<exists>u. name = artifact_prefix @ u \<and> uuid_text u)"
    for name :: string
    using uuid_text_nonempty by (auto intro: exI [of _ "drop (length artifact_prefix) name"])
      (metis append_take_drop_id)
  show ?thesis
    using pre [of "ap_QualifiedName r"] Some
    by (auto simp: artifactReceipt_def Let_def not_le split: option.splits)
qed (simp add: artifactReceipt_def)

text \<open>
  Which executable-artifact requests are sent, and as what. Exactly those with a sealed parent, an
  installation that is a lower-case UUID, a policy of 1 to 128 bytes, a schema of 1 to 128, a source
  of 1 to 512 and a subject of 1 to 65536 bytes, a revision that is not negative and at most 256
  contracts, each with a kind of 1 to 64 bytes, a name of 1 to 512 and a SHA-256 digest; the message
  repeats every field unchanged, the contracts in order. Every other request is refused.
\<close>

theorem artifactRequest_iff:
  "artifactRequest L req =
     (if sealed L (ar_Parent req) \<and> uuid_text (ar_InstallationID req) \<and>
         length (ar_PolicyID req) \<in> {1..128} \<and> length (id_Schema (ar_Identity req)) \<in> {1..128} \<and>
         length (id_Source (ar_Identity req)) \<in> {1..512} \<and>
         length (id_Subject (ar_Identity req)) \<in> {1..65536} \<and>
         0 \<le> sint (id_ExpectedRevision (ar_Identity req)) \<and>
         length (id_Contracts (ar_Identity req)) \<le> 256 \<and>
         list_all (\<lambda>c. length (ct_Kind c) \<in> {1..64} \<and> length (ct_Name c) \<in> {1..512} \<and>
           digest_text (ct_Digest c)) (id_Contracts (ar_Identity req))
      then Inr (wire_request req) else Inl (fail_sentinel ErrInvalidArtifact))"
  using artifactRequest_eq [of L req] unfolding request_ok_def contract_ok_def [abs_def] by simp

interpretation approve: module_operation L W c "ApproveExecutableArtifact L W c" Approve_procedure
    "artifactRequest L" "contextf ''module authority: approve executable artifact''"
    "\<lambda>req out. artifactReceipt out (Some (id_ExpectedRevision (ar_Identity req)))"
  by unfold_locales (simp add: ApproveExecutableArtifact_def)

interpretation authorize: module_operation L W c "AuthorizeExecutableArtifact L W c" Authorize_procedure
    "artifactRequest L" "contextf ''module authority: authorize executable artifact''"
    "\<lambda>req out. artifactReceipt out (Some (id_ExpectedRevision (ar_Identity req)))"
  by unfold_locales (simp add: AuthorizeExecutableArtifact_def)

text \<open>C25:
  Approving and authorizing. A request that is not admitted is refused before anything is asked of
  the world. Otherwise at most two calls are made, each to the operation's own procedure with the
  request's message; and an authorization that is returned is what the host answered to the last of
  them: it names an approved artifact by UUID, carries a SHA-256 digest, and its revision is
  the one the caller expected.
\<close>

theorem artifact_consent:
  assumes "(run, p) \<in> {(ApproveExecutableArtifact, Approve_procedure),
      (AuthorizeExecutableArtifact, Authorize_procedure)}" and "run L W c req s = (r, s')"
  shows "(if request_ok L req then sends_only L c p (wire_request req) s s'
      else r = Inl (fail_sentinel ErrInvalidArtifact) \<and> s' = s) \<and>
    (\<forall>a. r = Inr a \<longrightarrow> aa_ExpectedRevision a = id_ExpectedRevision (ar_Identity req) \<and>
       digest_text (aa_Digest a) \<and> (\<exists>u. uuid_text u \<and> aa_QualifiedName a = artifact_prefix @ u) \<and>
       (\<exists>out. host_said L W c p (wire_request req) s' (Some out) \<and>
          ap_QualifiedName out = aa_QualifiedName a \<and> ap_Digest out = aa_Digest a \<and>
          ap_ExpectedRevision out = aa_ExpectedRevision a))"
proof (intro conjI allI impI)
  show "if request_ok L req then sends_only L c p (wire_request req) s s'
      else r = Inl (fail_sentinel ErrInvalidArtifact) \<and> s' = s"
  proof (cases "request_ok L req")
    case True
    then have "artifactRequest L req = Inr (wire_request req)" by (simp add: artifactRequest_eq)
    from True assms approve.sends [OF this] authorize.sends [OF this] show ?thesis by auto
  next
    case False
    then have "artifactRequest L req = Inl (fail_sentinel ErrInvalidArtifact)" by (simp add: artifactRequest_eq)
    from False assms approve.refuses [OF this] authorize.refuses [OF this] show ?thesis by auto
  qed
next
  fix a
  assume "r = Inr a"
  with assms obtain out where "host_said L W c p (wire_request req) s' out"
    "artifactReceipt out (Some (id_ExpectedRevision (ar_Identity req))) = Inr a"
    by (auto simp: artifactRequest_eq elim!: approve.vouched authorize.vouched split: if_splits)
  then show "aa_ExpectedRevision a = id_ExpectedRevision (ar_Identity req)" "digest_text (aa_Digest a)"
    "\<exists>u. uuid_text u \<and> aa_QualifiedName a = artifact_prefix @ u"
    "\<exists>out. host_said L W c p (wire_request req) s' (Some out) \<and> ap_QualifiedName out = aa_QualifiedName a \<and>
      ap_Digest out = aa_Digest a \<and> ap_ExpectedRevision out = aa_ExpectedRevision a"
    by (auto simp: artifactReceipt_Inr)
qed

text \<open>The sample request, approved by the sample host.\<close>

definition sample_artifact :: ArtifactRequest where
  "sample_artifact = \<lparr>ar_Parent = ''wc-p'', ar_InstallationID = sample_uuid, ar_PolicyID = ''pol'',
     ar_Identity = \<lparr>id_Schema = ''v1'', id_Source = ''src'', id_Subject = ''x'',
       id_Contracts = [\<lparr>ct_Kind = ''api'', ct_Name = ''n'', ct_Digest = sample_digest\<rparr>],
       id_ExpectedRevision = 3\<rparr>\<rparr>"

lemma sample_texts: "uuid_text sample_uuid" "digest_text sample_digest"
proof -
  have "sample_uuid = ''0a1b2c3d'' @ ''-'' @ ''0000'' @ ''-'' @ ''4000'' @ ''-'' @ ''8000'' @ ''-'' @ ''00000000000f''"
    by (simp add: sample_uuid_def)
  then show "uuid_text sample_uuid"
    unfolding uuid_text_def by (intro exI conjI) (assumption, simp_all add: lower_hex_def byte_def)
  have "list_all lower_hex (replicate n (CHR ''0''))" for n
    by (induction n) (simp_all add: lower_hex_def byte_def)
  then show "digest_text sample_digest" by (simp add: digest_text_def sample_digest_def)
qed

lemma sample_artifact_ok: "request_ok sample_lib sample_artifact"
  by (simp add: request_ok_def sample_artifact_def contract_ok_def sample_texts)

lemma sample_receipt_read:
  "artifactReceipt (Some sample_receipt) expected = (if expected = None \<or> expected = Some 3
     then Inr \<lparr>aa_QualifiedName = artifact_prefix @ sample_uuid, aa_Digest = sample_digest,
       aa_ExpectedRevision = 3\<rparr> else Inl (fail_sentinel ErrInvalidArtifact))"
  by (auto simp: artifactReceipt_def sample_receipt_def artifact_prefix_def Let_def sample_texts
      split: option.splits) (auto simp: sample_uuid_def)

lemma sample_approve:
  "fst (ApproveExecutableArtifact sample_lib (sample_world 200 rs) sample_client sample_artifact stale_state)
     = Inr \<lparr>aa_QualifiedName = artifact_prefix @ sample_uuid, aa_Digest = sample_digest,
         aa_ExpectedRevision = 3\<rparr>"
proof -
  have "pr_answers Approve_procedure (w_service (sample_world 200 rs)) = sample_gate sample_receipt"
    by (simp add: Approve_procedure_def)
  from sample_call [OF this] show ?thesis
    by (simp add: ApproveExecutableArtifact_def artifactRequest_eq sample_artifact_ok attempt_def
        on_error_def sample_receipt_read) (simp add: sample_artifact_def)
qed

theorem artifact_consent_witness:
  "\<exists>s' a. ApproveExecutableArtifact sample_lib (sample_world 200 no_answer) sample_client sample_artifact
       stale_state = (Inr a, s') \<and> aa_ExpectedRevision a = 3 \<and>
     (\<exists>u. uuid_text u \<and> aa_QualifiedName a = artifact_prefix @ u)"
proof -
  obtain r s' where run: "ApproveExecutableArtifact sample_lib (sample_world 200 no_answer) sample_client
      sample_artifact stale_state = (r, s')" by fastforce
  with sample_approve [of no_answer] have r: "r = Inr \<lparr>aa_QualifiedName = artifact_prefix @ sample_uuid,
      aa_Digest = sample_digest, aa_ExpectedRevision = 3\<rparr>" by simp
  have "(ApproveExecutableArtifact, Approve_procedure) \<in> {(ApproveExecutableArtifact, Approve_procedure),
      (AuthorizeExecutableArtifact, Authorize_procedure)}" by simp
  from artifact_consent [OF this run] r run show ?thesis by fastforce
qed

definition revocation_request :: "core_lib \<Rightarrow> ArtifactRevocation \<Rightarrow> ma_err + ModuleRevokeExecutableArtifactRequest" where
  "revocation_request L req =
     (if sealed L (re_Parent req) \<and> uuid_text (re_InstallationID req) \<and> uuid_text (re_ApprovalID req)
      then Inr \<lparr>rv_ParentWorkContextToken = re_Parent req, rv_InstallationId = re_InstallationID req,
        rv_ApprovalId = re_ApprovalID req\<rparr>
      else Inl (fail_sentinel ErrInvalidArtifact))"

definition revocation_receipt ::
  "ArtifactRevocation \<Rightarrow> ModuleExecutableArtifactResponse option \<Rightarrow> ma_err + ArtifactAuthorization" where
  "revocation_receipt req out = (case artifactReceipt out None of Inl e \<Rightarrow> Inl e
     | Inr receipt \<Rightarrow> (if aa_QualifiedName receipt = artifact_prefix @ re_ApprovalID req
         then Inr receipt else Inl (fail_sentinel ErrInvalidArtifact)))"

interpretation revoke: module_operation L W c "RevokeExecutableArtifact L W c" Revoke_procedure
    "revocation_request L" "contextf ''module authority: revoke executable artifact''" revocation_receipt
proof unfold_locales
  have "lift_result (revocation_receipt x out) = (case artifactReceipt out None of Inl e \<Rightarrow> throw e
      | Inr receipt \<Rightarrow> (if aa_QualifiedName receipt \<noteq> artifact_prefix @ re_ApprovalID x
          then throw (fail_sentinel ErrInvalidArtifact) else give receipt))" for x out
    by (simp add: revocation_receipt_def lift_result_cases split: sum.splits)
  then show "RevokeExecutableArtifact L W c x = (case revocation_request L x of Inl e \<Rightarrow> throw e
      | Inr msg \<Rightarrow> attempt (on_error (callAsModule L W c Revoke_procedure msg)
          (contextf ''module authority: revoke executable artifact''))
          (\<lambda>out. lift_result (revocation_receipt x out)))" for x
    by (simp add: RevokeExecutableArtifact_def revocation_request_def)
qed

text \<open>
  Revoking. The parent must be sealed and both identifiers lower-case UUIDs, or nothing is asked of
  the world; and a revocation that is reported is the host's answer about exactly the approval
  that was named.
\<close>

theorem artifact_revocation:
  assumes "RevokeExecutableArtifact L W c req s = (r, s')"
  shows "(\<not> (sealed L (re_Parent req) \<and> uuid_text (re_InstallationID req) \<and> uuid_text (re_ApprovalID req)) \<longrightarrow>
      r = Inl (fail_sentinel ErrInvalidArtifact) \<and> s' = s) \<and>
    (\<forall>a. r = Inr a \<longrightarrow> aa_QualifiedName a = artifact_prefix @ re_ApprovalID req \<and>
       (\<exists>out msg. host_said L W c Revoke_procedure msg s' (Some out) \<and>
          rv_ApprovalId msg = re_ApprovalID req \<and> rv_InstallationId msg = re_InstallationID req \<and>
          ap_QualifiedName out = aa_QualifiedName a))"
proof (intro conjI allI impI)
  assume "\<not> (sealed L (re_Parent req) \<and> uuid_text (re_InstallationID req) \<and> uuid_text (re_ApprovalID req))"
  then have "revocation_request L req = Inl (fail_sentinel ErrInvalidArtifact)"
    by (simp add: revocation_request_def)
  from revoke.refuses [OF this] assms
  show "r = Inl (fail_sentinel ErrInvalidArtifact)" "s' = s" by simp_all
next
  fix a
  assume "r = Inr a"
  with assms have "RevokeExecutableArtifact L W c req s = (Inr a, s')" by simp
  then show "aa_QualifiedName a = artifact_prefix @ re_ApprovalID req"
    "\<exists>out msg. host_said L W c Revoke_procedure msg s' (Some out) \<and>
      rv_ApprovalId msg = re_ApprovalID req \<and> rv_InstallationId msg = re_InstallationID req \<and>
      ap_QualifiedName out = aa_QualifiedName a"
    by (auto elim!: revoke.vouched simp: revocation_request_def revocation_receipt_def artifactReceipt_Inr
        split: sum.splits if_splits) fastforce
qed

lemma sample_revoke:
  "fst (RevokeExecutableArtifact sample_lib (sample_world 200 rs) sample_client
     \<lparr>re_Parent = ''wc-p'', re_InstallationID = sample_uuid, re_ApprovalID = sample_uuid\<rparr> stale_state)
     = Inr \<lparr>aa_QualifiedName = artifact_prefix @ sample_uuid, aa_Digest = sample_digest,
         aa_ExpectedRevision = 3\<rparr>"
proof -
  have "pr_answers Revoke_procedure (w_service (sample_world 200 rs)) = sample_gate sample_receipt"
    by (simp add: Revoke_procedure_def)
  from sample_call [OF this] show ?thesis
    by (simp add: RevokeExecutableArtifact_def sample_texts attempt_def on_error_def sample_receipt_read
        give_def)
qed

theorem artifact_revocation_witness:
  "\<exists>s' a. RevokeExecutableArtifact sample_lib (sample_world 200 no_answer) sample_client
       \<lparr>re_Parent = ''wc-p'', re_InstallationID = sample_uuid, re_ApprovalID = sample_uuid\<rparr> stale_state
       = (Inr a, s') \<and> aa_QualifiedName a = artifact_prefix @ sample_uuid"
proof -
  obtain r s' where run: "RevokeExecutableArtifact sample_lib (sample_world 200 no_answer) sample_client
      \<lparr>re_Parent = ''wc-p'', re_InstallationID = sample_uuid, re_ApprovalID = sample_uuid\<rparr> stale_state
      = (r, s')" by fastforce
  with sample_revoke [of no_answer] obtain a where "r = Inr a" by simp
  with artifact_revocation [OF run] run show ?thesis by fastforce
qed

section \<open>The current installation\<close>

definition installation_request :: "core_lib \<Rightarrow> CurrentInstallationRequest \<Rightarrow> ma_err + ModuleCurrentInstallationRequest" where
  "installation_request L req = (if sealed L (ci_Parent req) \<and> uuid_text (ci_InstallationID req)
     then Inr \<lparr>iq_ParentWorkContextToken = ci_Parent req, iq_InstallationId = ci_InstallationID req\<rparr>
     else Inl (fail_sentinel ErrInvalidInstallation))"

definition installation_answer ::
  "CurrentInstallationRequest \<Rightarrow> ModuleCurrentInstallationResponse option \<Rightarrow> ma_err + CurrentInstallation" where
  "installation_answer req out = (case out of None \<Rightarrow> Inl (fail_sentinel ErrInvalidInstallation)
     | Some r \<Rightarrow> (if ir_InstallationId r = ci_InstallationID req \<and> uuid_text (ir_TenantId r) \<and>
           uuid_text (ir_TargetId r) \<and> trim_space (ir_BindingId r) \<noteq> [] \<and> utf8_valid (ir_BindingId r)
         then Inr \<lparr>cu_InstallationID = ir_InstallationId r, cu_TenantID = ir_TenantId r,
           cu_TargetID = ir_TargetId r, cu_BindingID = ir_BindingId r\<rparr>
         else Inl (fail_sentinel ErrInvalidInstallation)))"

interpretation installation: module_operation L W c "GetCurrentInstallation L W c" Installation_procedure
    "installation_request L" "contextf ''module authority: current installation''" installation_answer
proof unfold_locales
  have answer: "lift_result (installation_answer x out) = (case out of None \<Rightarrow> throw (fail_sentinel ErrInvalidInstallation)
      | Some r \<Rightarrow> (if ir_InstallationId r \<noteq> ci_InstallationID x \<or> \<not> uuid_text (ir_TenantId r) \<or>
            \<not> uuid_text (ir_TargetId r) \<or> trim_space (ir_BindingId r) = [] \<or> \<not> utf8_valid (ir_BindingId r)
          then throw (fail_sentinel ErrInvalidInstallation)
          else give \<lparr>cu_InstallationID = ir_InstallationId r, cu_TenantID = ir_TenantId r,
                 cu_TargetID = ir_TargetId r, cu_BindingID = ir_BindingId r\<rparr>))" for x out
    by (cases out) (simp_all add: installation_answer_def lift_result_cases)
  show "GetCurrentInstallation L W c x = (case installation_request L x of Inl e \<Rightarrow> throw e
      | Inr msg \<Rightarrow> attempt (on_error (callAsModule L W c Installation_procedure msg)
          (contextf ''module authority: current installation''))
          (\<lambda>out. lift_result (installation_answer x out)))" for x
    unfolding GetCurrentInstallation_def match_artifactUUID answer installation_request_def
    by (cases "sealed L (ci_Parent x) \<and> uuid_text (ci_InstallationID x)") auto
qed

text \<open>C26:
  The current installation. A request without a sealed parent and a lower-case UUID is refused
  before anything is asked of the world; and an installation that is returned is the host's
  answer to the last call made, about the very installation that was asked, with a tenant and a
  target that are lower-case UUIDs and a binding that is UTF-8 and not blank.
\<close>

theorem GetCurrentInstallation_exact:
  assumes "GetCurrentInstallation L W c req s = (r, s')"
  shows "(\<not> (sealed L (ci_Parent req) \<and> uuid_text (ci_InstallationID req)) \<longrightarrow>
      r = Inl (fail_sentinel ErrInvalidInstallation) \<and> s' = s) \<and>
    (\<forall>i. r = Inr i \<longrightarrow> cu_InstallationID i = ci_InstallationID req \<and> uuid_text (cu_TenantID i) \<and>
       uuid_text (cu_TargetID i) \<and> trim_space (cu_BindingID i) \<noteq> [] \<and> utf8_valid (cu_BindingID i) \<and>
       (\<exists>out. host_said L W c Installation_procedure \<lparr>iq_ParentWorkContextToken = ci_Parent req,
            iq_InstallationId = ci_InstallationID req\<rparr> s' (Some out) \<and>
          ir_InstallationId out = cu_InstallationID i \<and> ir_TenantId out = cu_TenantID i \<and>
          ir_TargetId out = cu_TargetID i \<and> ir_BindingId out = cu_BindingID i))"
proof (intro conjI allI impI)
  assume "\<not> (sealed L (ci_Parent req) \<and> uuid_text (ci_InstallationID req))"
  then have "installation_request L req = Inl (fail_sentinel ErrInvalidInstallation)"
    by (simp add: installation_request_def)
  from installation.refuses [OF this] assms
  show "r = Inl (fail_sentinel ErrInvalidInstallation)" "s' = s" by simp_all
next
  fix i
  assume "r = Inr i"
  with assms have "GetCurrentInstallation L W c req s = (Inr i, s')" by simp
  then obtain out where said: "host_said L W c Installation_procedure
      \<lparr>iq_ParentWorkContextToken = ci_Parent req, iq_InstallationId = ci_InstallationID req\<rparr> s' out"
    and i: "installation_answer req out = Inr i"
    by (rule installation.vouched) (auto simp: installation_request_def split: if_splits)
  then show "cu_InstallationID i = ci_InstallationID req" "uuid_text (cu_TenantID i)"
    "uuid_text (cu_TargetID i)" "trim_space (cu_BindingID i) \<noteq> []" "utf8_valid (cu_BindingID i)"
    "\<exists>out. host_said L W c Installation_procedure \<lparr>iq_ParentWorkContextToken = ci_Parent req,
        iq_InstallationId = ci_InstallationID req\<rparr> s' (Some out) \<and>
      ir_InstallationId out = cu_InstallationID i \<and> ir_TenantId out = cu_TenantID i \<and>
      ir_TargetId out = cu_TargetID i \<and> ir_BindingId out = cu_BindingID i"
    by (auto simp: installation_answer_def split: option.splits if_splits)
qed

lemma sample_current:
  "fst (GetCurrentInstallation sample_lib (sample_world 200 rs) sample_client
     \<lparr>ci_Parent = ''wc-p'', ci_InstallationID = sample_uuid\<rparr> stale_state)
     = Inr \<lparr>cu_InstallationID = sample_uuid, cu_TenantID = sample_uuid, cu_TargetID = sample_uuid,
         cu_BindingID = ''b''\<rparr>"
proof -
  have "pr_answers Installation_procedure (w_service (sample_world 200 rs)) = sample_gate sample_installation"
    by (simp add: Installation_procedure_def)
  note run = sample_call [OF this]
  have "trim_space ''b'' \<noteq> []" by code_simp
  moreover have "utf8_valid ''b''" by (simp add: byte_def)
  ultimately show ?thesis
    by (simp add: GetCurrentInstallation_def sample_texts attempt_def on_error_def run give_def
        sample_installation_def del: utf8_valid.simps)
qed

theorem GetCurrentInstallation_exact_witness:
  "\<exists>s' i. GetCurrentInstallation sample_lib (sample_world 200 no_answer) sample_client
       \<lparr>ci_Parent = ''wc-p'', ci_InstallationID = sample_uuid\<rparr> stale_state = (Inr i, s') \<and>
     cu_InstallationID i = sample_uuid \<and> uuid_text (cu_TenantID i)"
proof -
  obtain r s' where run: "GetCurrentInstallation sample_lib (sample_world 200 no_answer) sample_client
      \<lparr>ci_Parent = ''wc-p'', ci_InstallationID = sample_uuid\<rparr> stale_state = (r, s')" by fastforce
  with sample_current [of no_answer] obtain i where "r = Inr i" by simp
  with GetCurrentInstallation_exact [OF run] run show ?thesis by fastforce
qed

section \<open>Notices and audit events\<close>

definition org_message :: "OrgAdminsNotice \<Rightarrow> ModuleNotifyOrgAdminsRequest" where
  "org_message n = \<lparr>no_Tenant = on_Tenant n, no_Title = on_Title n, no_Body = on_Body n,
     no_Type = on_Type n, no_ActionUrl = on_ActionURL n, no_Category = on_Category n,
     no_IdempotencyKey = on_IdempotencyKey n\<rparr>"

definition user_message :: "UserNotice \<Rightarrow> ModuleNotifyUserRequest" where
  "user_message n = \<lparr>nu_Tenant = un_Tenant n, nu_UserId = un_UserID n, nu_Title = un_Title n,
     nu_Body = un_Body n, nu_Type = un_Type n, nu_ActionUrl = un_ActionURL n,
     nu_Category = un_Category n, nu_IdempotencyKey = un_IdempotencyKey n\<rparr>"

definition org_request :: "OrgAdminsNotice \<Rightarrow> ma_err + ModuleNotifyOrgAdminsRequest" where
  "org_request n = (if on_Tenant n = [] \<or> on_Title n = [] \<or> on_Category n = []
     then Inl (fail_sentinel ErrInvalidNotice) else Inr (org_message n))"

definition user_request :: "UserNotice \<Rightarrow> ma_err + ModuleNotifyUserRequest" where
  "user_request u = (if un_Tenant u = [] \<or> un_UserID u = [] \<or> un_Title u = [] \<or> un_Category u = []
     then Inl (fail_sentinel ErrInvalidNotice) else Inr (user_message u))"

interpretation org_admins: module_operation L W c "NotifyOrgAdmins L W c" NotifyOrgAdmins_procedure
    org_request "contextf ''module authority: notify org admins''"
    "\<lambda>n out. Inr (NotifyOrgAdmins_GetDelivered out)"
  by unfold_locales (simp add: NotifyOrgAdmins_def org_request_def org_message_def lift_result_cases)

interpretation user: module_operation L W c "NotifyUser L W c" NotifyUser_procedure
    user_request "contextf ''module authority: notify user''" "\<lambda>u out. Inr (NotifyUser_GetDelivered out)"
  by unfold_locales (simp add: NotifyUser_def user_request_def user_message_def lift_result_cases)

interpretation emit: module_operation L W c "EmitAuditEvent L W c" Emit_procedure auditRequest
    "contextf ''module authority: emit audit event''" "\<lambda>e out. Inr ()"
  by unfold_locales (simp add: EmitAuditEvent_def lift_result_cases split: sum.splits)

interpretation declare_types: module_operation L W c "DeclareAuditEventTypes L W c" Declare_procedure
    "\<lambda>ts. Inr \<lparr>da_Prefix = Prefix (c_credentials c), da_Types = ts\<rparr>"
    "contextf ''module authority: declare audit event types''" "\<lambda>ts out. Inr ()"
  by unfold_locales (simp add: DeclareAuditEventTypes_def lift_result_cases)

interpretation exchange: module_operation L W c "ExchangeOperation L W c" Exchange_procedure
    "\<lambda>x. if one_arm L x then Inr (exchange_message x) else Inl (fail_sentinel ErrInvalidExchange)"
    "contextf ''module authority: exchange operation audience''"
    "\<lambda>x out. if sealed L (GetToken out) then Inr (GetToken out)
       else Inl (detailf ErrInvalidCapability ''malformed exchanged token'')"
  by unfold_locales (auto simp: ExchangeOperation_cases lift_result_cases intro!: arg_cong2 [where f = attempt])

lemma NotifyOrgAdmins_sent:
  "if on_Tenant n = [] \<or> on_Title n = [] \<or> on_Category n = []
   then NotifyOrgAdmins L W c n s = (Inl (fail_sentinel ErrInvalidNotice), s)
   else sends_only L c NotifyOrgAdmins_procedure (org_message n) s (snd (NotifyOrgAdmins L W c n s)) \<and>
     (\<forall>d. fst (NotifyOrgAdmins L W c n s) = Inr d \<longrightarrow> (\<exists>out. NotifyOrgAdmins_GetDelivered out = d \<and>
        host_said L W c NotifyOrgAdmins_procedure (org_message n) (snd (NotifyOrgAdmins L W c n s)) out))"
proof (cases "org_request n")
  case (Inl e)
  then have "on_Tenant n = [] \<or> on_Title n = [] \<or> on_Category n = []" "e = fail_sentinel ErrInvalidNotice"
    by (auto simp: org_request_def split: if_splits)
  with org_admins.refuses [OF Inl] show ?thesis by auto
next
  case (Inr msg)
  then have msg: "\<not> (on_Tenant n = [] \<or> on_Title n = [] \<or> on_Category n = [])" "msg = org_message n"
    by (auto simp: org_request_def split: if_splits)
  obtain r s' where run: "NotifyOrgAdmins L W c n s = (r, s')" by fastforce
  from org_admins.sends [OF Inr run] msg(2) Inr
  have "sends_only L c NotifyOrgAdmins_procedure (org_message n) s s'" by simp
  moreover have "\<exists>out. NotifyOrgAdmins_GetDelivered out = d \<and>
      host_said L W c NotifyOrgAdmins_procedure (org_message n) s' out" if "r = Inr d" for d
    using run that Inr msg(2) by (auto elim!: org_admins.vouched)
  ultimately show ?thesis using msg(1) run by simp
qed

lemma NotifyUser_sent:
  "if un_Tenant u = [] \<or> un_UserID u = [] \<or> un_Title u = [] \<or> un_Category u = []
   then NotifyUser L W c u s = (Inl (fail_sentinel ErrInvalidNotice), s)
   else sends_only L c NotifyUser_procedure (user_message u) s (snd (NotifyUser L W c u s)) \<and>
     (\<forall>d. fst (NotifyUser L W c u s) = Inr d \<longrightarrow> (\<exists>out. NotifyUser_GetDelivered out = d \<and>
        host_said L W c NotifyUser_procedure (user_message u) (snd (NotifyUser L W c u s)) out))"
proof (cases "user_request u")
  case (Inl e)
  then have "un_Tenant u = [] \<or> un_UserID u = [] \<or> un_Title u = [] \<or> un_Category u = []"
    "e = fail_sentinel ErrInvalidNotice"
    by (auto simp: user_request_def split: if_splits)
  with user.refuses [OF Inl] show ?thesis by auto
next
  case (Inr msg)
  then have msg: "\<not> (un_Tenant u = [] \<or> un_UserID u = [] \<or> un_Title u = [] \<or> un_Category u = [])"
    "msg = user_message u"
    by (auto simp: user_request_def split: if_splits)
  obtain r s' where run: "NotifyUser L W c u s = (r, s')" by fastforce
  from user.sends [OF Inr run] msg(2) Inr
  have "sends_only L c NotifyUser_procedure (user_message u) s s'" by simp
  moreover have "\<exists>out. NotifyUser_GetDelivered out = d \<and>
      host_said L W c NotifyUser_procedure (user_message u) s' out" if "r = Inr d" for d
    using run that Inr msg(2) by (auto elim!: user.vouched)
  ultimately show ?thesis using msg(1) run by simp
qed

lemma EmitAuditEvent_sent:
  "if ev_EventType e = [] \<or> ev_Actor e = [] \<or> ev_Solution e = [] \<or> ev_Fields e = None
   then \<exists>err. EmitAuditEvent L W c e s = (Inl err, s) \<and> is_ma ErrInvalidAuditEvent err
   else \<exists>msg. ea_EventType msg = ev_EventType e \<and> ea_Tenant msg = ev_Tenant e \<and>
     ea_IdempotencyKey msg = ev_IdempotencyKey e \<and>
     sends_only L c Emit_procedure msg s (snd (EmitAuditEvent L W c e s)) \<and>
     (fst (EmitAuditEvent L W c e s) = Inr () \<longrightarrow>
        (\<exists>out. host_said L W c Emit_procedure msg (snd (EmitAuditEvent L W c e s)) out))"
proof (cases "auditRequest e")
  case (Inl err)
  then have "is_ma ErrInvalidAuditEvent err"
    "ev_EventType e = [] \<or> ev_Actor e = [] \<or> ev_Solution e = [] \<or> ev_Fields e = None"
    by (auto simp: auditRequest_def split: if_splits option.splits)
  with emit.refuses [OF Inl] show ?thesis by auto
next
  case (Inr msg)
  then have "\<not> (ev_EventType e = [] \<or> ev_Actor e = [] \<or> ev_Solution e = [] \<or> ev_Fields e = None)"
    "ea_EventType msg = ev_EventType e" "ea_Tenant msg = ev_Tenant e"
    "ea_IdempotencyKey msg = ev_IdempotencyKey e"
    by (auto simp: auditRequest_def split: if_splits option.splits)
  moreover obtain r s' where run: "EmitAuditEvent L W c e s = (r, s')" by fastforce
  moreover from run Inr have "r = Inr () \<Longrightarrow> \<exists>out. host_said L W c Emit_procedure msg s' out"
    by (auto elim!: emit.vouched)
  ultimately show ?thesis using emit.sends [OF Inr run] by auto
qed

text \<open>
  Notices and audit events. A notice without its tenant, title, category or user, and an audit event
  without its type, actor or solution or with a field protobuf cannot hold, is refused before anything
  is asked of the world. Otherwise at most two calls are made, each with the very message; and
  success is the host's own answer to the last of them, with the delivery it reports.
\<close>

theorem notices_and_events:
  "(if on_Tenant n = [] \<or> on_Title n = [] \<or> on_Category n = []
    then NotifyOrgAdmins L W c n s = (Inl (fail_sentinel ErrInvalidNotice), s)
    else sends_only L c NotifyOrgAdmins_procedure (org_message n) s (snd (NotifyOrgAdmins L W c n s)) \<and>
      (\<forall>d. fst (NotifyOrgAdmins L W c n s) = Inr d \<longrightarrow> (\<exists>out. NotifyOrgAdmins_GetDelivered out = d \<and>
         host_said L W c NotifyOrgAdmins_procedure (org_message n) (snd (NotifyOrgAdmins L W c n s)) out))) \<and>
   (if un_Tenant u = [] \<or> un_UserID u = [] \<or> un_Title u = [] \<or> un_Category u = []
    then NotifyUser L W c u s = (Inl (fail_sentinel ErrInvalidNotice), s)
    else sends_only L c NotifyUser_procedure (user_message u) s (snd (NotifyUser L W c u s)) \<and>
      (\<forall>d. fst (NotifyUser L W c u s) = Inr d \<longrightarrow> (\<exists>out. NotifyUser_GetDelivered out = d \<and>
         host_said L W c NotifyUser_procedure (user_message u) (snd (NotifyUser L W c u s)) out))) \<and>
   (if ev_EventType e = [] \<or> ev_Actor e = [] \<or> ev_Solution e = [] \<or> ev_Fields e = None
    then \<exists>err. EmitAuditEvent L W c e s = (Inl err, s) \<and> is_ma ErrInvalidAuditEvent err
    else \<exists>msg. ea_EventType msg = ev_EventType e \<and> ea_Tenant msg = ev_Tenant e \<and>
      ea_IdempotencyKey msg = ev_IdempotencyKey e \<and>
      sends_only L c Emit_procedure msg s (snd (EmitAuditEvent L W c e s)) \<and>
      (fst (EmitAuditEvent L W c e s) = Inr () \<longrightarrow>
         (\<exists>out. host_said L W c Emit_procedure msg (snd (EmitAuditEvent L W c e s)) out)))"
  by (intro conjI NotifyOrgAdmins_sent NotifyUser_sent EmitAuditEvent_sent)

definition sample_notice :: UserNotice where
  "sample_notice = \<lparr>un_Tenant = ''t'', un_UserID = ''u'', un_Title = ''hi'', un_Body = [], un_Type = [],
     un_ActionURL = [], un_Category = ''news'', un_IdempotencyKey = []\<rparr>"

lemma sample_notify:
  "fst (NotifyUser sample_lib (sample_world 200 rs) sample_client sample_notice stale_state) = Inr True"
proof -
  have "pr_answers NotifyUser_procedure (w_service (sample_world 200 rs)) = sample_gate \<lparr>nu_Delivered = True\<rparr>"
    by (simp add: NotifyUser_procedure_def)
  from sample_call [OF this] show ?thesis
    by (simp add: NotifyUser_def attempt_def on_error_def give_def sample_notice_def)
qed

theorem notices_and_events_witness:
  "\<exists>out. NotifyUser_GetDelivered out = True \<and>
     host_said sample_lib (sample_world 200 no_answer) sample_client NotifyUser_procedure
       (user_message sample_notice)
       (snd (NotifyUser sample_lib (sample_world 200 no_answer) sample_client sample_notice stale_state)) out"
proof -
  have "\<not> (un_Tenant sample_notice = [] \<or> un_UserID sample_notice = [] \<or> un_Title sample_notice = [] \<or>
      un_Category sample_notice = [])"
    by (simp add: sample_notice_def)
  with notices_and_events [where u = sample_notice and L = sample_lib and W = "sample_world 200 no_answer"
      and c = sample_client and s = stale_state] sample_notify
  show ?thesis by (simp only: if_False)
qed

end
