(* ===== verification/MaSources.thy ===== *)
theory MaSources
  imports MaClientFacts
begin

text \<open>
  moduleauthority/verifier_sources.go: the client of the live authority behind one presented
  capability. Each question is one call as the module, and its answer may be served again from a
  bounded cache for at most the cache bound. The cache is a map from the question's key; the state
  of a source is the client's state with that map, \<^verbatim>\<open>nil\<close> and the empty map being the same to
  every operation.
\<close>

section \<open>Settings and construction\<close>

definition AuthorityCacheBound :: gotime where
  "AuthorityCacheBound = 2 * second"

definition defaultAuthorityCacheEntries :: int where
  "defaultAuthorityCacheEntries = 2048"

text \<open>\<open>ws_Now\<close> is the clock of the settings, on the log; nil means the world's clock.\<close>

record WorkContextSourceSettings =
  ws_Capability :: string
  ws_CacheBound :: gotime
  ws_CacheEntries :: int
  ws_Now :: "(event list \<Rightarrow> gotime) option"

record WorkContextSources =
  ss_client :: Client
  ss_settings :: WorkContextSourceSettings
  ss_owner :: string

record cachedAuthorityAnswer =
  ca_answer :: ModuleResolveWorkContextAuthorityResponse
  ca_until :: gotime

type_synonym answer_cache = "(string, cachedAuthorityAnswer) map"

record source_state = state +
  ss_cached :: answer_cache

type_synonym 'a source_op = "source_state \<Rightarrow> (ma_err + 'a) \<times> source_state"

text \<open>\<open>show_duration\<close> is \<^verbatim>\<open>time.Duration.String\<close>, used in one refusal's text.\<close>

definition Client_WorkContextSources ::
  "core_lib \<Rightarrow> (gotime \<Rightarrow> string) \<Rightarrow> Client option \<Rightarrow> WorkContextSourceSettings \<Rightarrow>
     ma_err + WorkContextSources" where
  "Client_WorkContextSources L show_duration client settings = (case client of
       None \<Rightarrow> Inl (fail_sentinel ErrInvalidAuthorityQuestion)
     | Some c \<Rightarrow>
       (if \<not> sealed L (ws_Capability settings)
        then Inl (detailf ErrInvalidAuthorityQuestion
          ''the capability is not structurally a sealed Work Context in core's encoding'')
        else case core_Decode L (ws_Capability settings) of
          None \<Rightarrow> Inl (detailf ErrInvalidAuthorityQuestion ''the capability could not be read'')
        | Some owner \<Rightarrow>
          (if owner = []
           then Inl (detailf ErrInvalidAuthorityQuestion ''the capability names no owner'')
           else if ws_CacheBound settings > AuthorityCacheBound
           then Inl (detailf ErrInvalidAuthorityQuestion
             (''a cache bound of '' @ show_duration (ws_CacheBound settings) @
              '' delays a revocation by that long; the ceiling is '' @
              show_duration AuthorityCacheBound))
           else
             (let settings = (if ws_CacheBound settings = 0
                    then settings\<lparr>ws_CacheBound := AuthorityCacheBound\<rparr> else settings);
                  settings = (if ws_CacheEntries settings = 0
                    then settings\<lparr>ws_CacheEntries := defaultAuthorityCacheEntries\<rparr> else settings)
              in Inr \<lparr>ss_client = c, ss_settings = settings, ss_owner = owner\<rparr>))))"

definition sources_now :: "world \<Rightarrow> WorkContextSources \<Rightarrow> event list \<Rightarrow> gotime" where
  "sources_now W x l = (case ws_Now (ss_settings x) of None \<Rightarrow> w_now W l | Some f \<Rightarrow> f l)"

section \<open>The cache\<close>

text \<open>
  \<open>load\<close> and \<open>store\<close> with the time their clock reads. A map's size is counted on its domain,
  which \<open>store\<close> keeps finite.
\<close>

definition cache_load ::
  "int \<Rightarrow> gotime \<Rightarrow> string \<Rightarrow> answer_cache \<Rightarrow>
     ModuleResolveWorkContextAuthorityResponse option \<times> answer_cache" where
  "cache_load entries now key cached =
     (if entries < 0 then (None, cached)
      else case cached key of
        None \<Rightarrow> (None, cached(key := None))
      | Some entry \<Rightarrow>
        (if \<not> now < ca_until entry then (None, cached(key := None))
         else (Some (ca_answer entry), cached)))"

definition cache_store ::
  "int \<Rightarrow> gotime \<Rightarrow> gotime \<Rightarrow> string \<Rightarrow> ModuleResolveWorkContextAuthorityResponse \<Rightarrow>
     answer_cache \<Rightarrow> answer_cache" where
  "cache_store entries bound now key answer cached =
     (if entries < 0 then cached
      else let cached = (if int (card (dom cached)) \<ge> entries then Map.empty else cached)
        in cached(key \<mapsto> \<lparr>ca_answer = answer, ca_until = now + bound\<rparr>))"

text \<open>
  The clock is read in \<open>load\<close> only when the key is held, and in \<open>store\<close> always; a reading is an
  event like any other.
\<close>

definition load ::
  "world \<Rightarrow> WorkContextSources \<Rightarrow> string \<Rightarrow> source_state \<Rightarrow>
     ModuleResolveWorkContextAuthorityResponse option \<times> source_state" where
  "load W x key s =
     (if ws_CacheEntries (ss_settings x) < 0 then (None, s)
      else let (r, cached) = cache_load (ws_CacheEntries (ss_settings x)) (sources_now W x (log s))
             key (ss_cached s)
        in (r, s\<lparr>ss_cached := cached,
              log := (if ss_cached s key = None then log s else log s @ [EvNow])\<rparr>))"

definition store ::
  "world \<Rightarrow> WorkContextSources \<Rightarrow> string \<Rightarrow> ModuleResolveWorkContextAuthorityResponse \<Rightarrow>
     source_state \<Rightarrow> source_state" where
  "store W x key answer s =
     (if ws_CacheEntries (ss_settings x) < 0 then s
      else s\<lparr>ss_cached := cache_store (ws_CacheEntries (ss_settings x)) (ws_CacheBound (ss_settings x))
               (sources_now W x (log s)) key answer (ss_cached s),
             log := log s @ [EvNow]\<rparr>)"

section \<open>Asking\<close>

definition Resolve_procedure where
  "Resolve_procedure = \<lparr>pr_method = ModuleCapabilities_ResolveWorkContextAuthority,
     pr_msg = MsgResolve, pr_answers = sv_resolve\<rparr>"

text \<open>The client's operations run on the client's part of the state.\<close>

definition client_part :: "source_state \<Rightarrow> state" where
  "client_part s = \<lparr>log = log s, c_module = c_module s, c_expiresAt = c_expiresAt s\<rparr>"

definition with_client :: "source_state \<Rightarrow> state \<Rightarrow> source_state" where
  "with_client s t = s\<lparr>log := log t, c_module := c_module t, c_expiresAt := c_expiresAt t\<rparr>"

definition ask ::
  "core_lib \<Rightarrow> world \<Rightarrow> WorkContextSources \<Rightarrow> string \<Rightarrow> WorkContextQuestion \<Rightarrow>
     ModuleResolveWorkContextAuthorityResponse source_op" where
  "ask L W x key question s = (case load W x key s of
       (Some cached, s) \<Rightarrow> (Inr cached, s)
     | (None, s) \<Rightarrow>
       (let request = \<lparr>rq_WorkContext = ws_Capability (ss_settings x), rq_Question = Some question\<rparr>
        in case callAsModule L W (ss_client x) Resolve_procedure request (client_part s) of
          (Inl e, t) \<Rightarrow> (Inl e, with_client s t)
        | (Inr None, t) \<Rightarrow> (Inl (fail_sentinel ErrUnreadableAuthorityAnswer), with_client s t)
        | (Inr (Some answer), t) \<Rightarrow> (Inr answer, store W x key answer (with_client s t))))"

definition nul :: string where
  "nul = [CHR 0x00]"

record core_Seal =
  cs_InstallationID :: string
  cs_InstallationRevision :: "64 word"

text \<open>Reading an answer: what each source does with it once \<open>ask\<close> gave it.\<close>

definition read_seal ::
  "core_lib \<Rightarrow> string \<Rightarrow> ModuleResolveWorkContextAuthorityResponse \<Rightarrow> ma_err + core_Seal" where
  "read_seal L installationID answer = (case GetSeal answer of
       None \<Rightarrow> Inl (detailf ErrUnreadableAuthorityAnswer ''seal'')
     | Some seal \<Rightarrow>
       (if sa_InstallationId seal \<noteq> installationID
        then Inl (detailf ErrUnreadableAuthorityAnswer ''seal'')
        else if sa_State seal = SEAL_STATE_HELD
        then Inr \<lparr>cs_InstallationID = sa_InstallationId seal,
               cs_InstallationRevision = sa_InstallationRevision seal\<rparr>
        else if sa_State seal = SEAL_STATE_UNHELD then Inl (core_ErrNoSeal L)
        else Inl (detailf ErrUnreadableAuthorityAnswer ''seal state'')))"

definition then_read :: "(ma_err + 'a) \<times> 's \<Rightarrow> ('a \<Rightarrow> ma_err + 'b) \<Rightarrow> (ma_err + 'b) \<times> 's" where
  "then_read p f = (case p of (Inl e, s) \<Rightarrow> (Inl e, s) | (Inr a, s) \<Rightarrow> (f a, s))"

definition seal_key :: "string \<Rightarrow> string \<Rightarrow> string" where
  "seal_key principalID installationID = ''seal'' @ nul @ principalID @ nul @ installationID"

definition Seal ::
  "core_lib \<Rightarrow> world \<Rightarrow> WorkContextSources \<Rightarrow> string \<Rightarrow> string \<Rightarrow> core_Seal source_op" where
  "Seal L W x principalID installationID s =
     (if principalID = [] \<or> installationID = []
      then (Inl (detailf ErrInvalidAuthorityQuestion ''seal''), s)
      else then_read
        (ask L W x (seal_key principalID installationID) (QuestionSeal principalID installationID) s)
        (read_seal L installationID))"

definition read_epoch ::
  "core_lib \<Rightarrow> string \<Rightarrow> ModuleResolveWorkContextAuthorityResponse \<Rightarrow> ma_err + 64 word" where
  "read_epoch L principalID answer = (case GetPrincipalEpoch answer of
       None \<Rightarrow> Inl (detailf ErrUnreadableAuthorityAnswer ''principal epoch'')
     | Some epoch \<Rightarrow>
       (if pe_PrincipalId epoch \<noteq> principalID
        then Inl (detailf ErrUnreadableAuthorityAnswer ''principal epoch'')
        else if pe_State epoch = PRINCIPAL_STATE_KNOWN then Inr (pe_Epoch epoch)
        else if pe_State epoch = PRINCIPAL_STATE_UNKNOWN then Inl (core_ErrNoSeal L)
        else Inl (detailf ErrUnreadableAuthorityAnswer ''principal state'')))"

definition PrincipalEpoch ::
  "core_lib \<Rightarrow> world \<Rightarrow> WorkContextSources \<Rightarrow> string \<Rightarrow> 64 word source_op" where
  "PrincipalEpoch L W x principalID s =
     (if principalID = []
      then (Inl (detailf ErrInvalidAuthorityQuestion ''principal epoch''), s)
      else then_read
        (ask L W x (''epoch'' @ nul @ principalID) (QuestionPrincipalEpoch principalID) s)
        (read_epoch L principalID))"

record core_OperationBinding =
  cb_ID :: string
  cb_PrincipalID :: string
  cb_InstallationID :: string
  cb_Revision :: "64 word"
  cb_Incarnation :: "64 word"
  cb_Revoked :: bool

definition read_binding ::
  "core_lib \<Rightarrow> string \<Rightarrow> ModuleResolveWorkContextAuthorityResponse \<Rightarrow> ma_err + core_OperationBinding" where
  "read_binding L bindingID answer = (case GetOperationBinding answer of
       None \<Rightarrow> Inl (detailf ErrUnreadableAuthorityAnswer ''operation binding'')
     | Some b \<Rightarrow>
       (if ob_BindingId b \<noteq> bindingID
        then Inl (detailf ErrUnreadableAuthorityAnswer ''operation binding'')
        else if ob_State b = BINDING_STATE_RESOLVED
        then Inr \<lparr>cb_ID = ob_BindingId b, cb_PrincipalID = ob_PrincipalId b,
               cb_InstallationID = ob_InstallationId b, cb_Revision = ob_Revision b,
               cb_Incarnation = ob_Incarnation b, cb_Revoked = ob_Revoked b\<rparr>
        else if ob_State b = BINDING_STATE_ABSENT then Inl (core_ErrNoBinding L)
        else Inl (detailf ErrUnreadableAuthorityAnswer ''binding state'')))"

definition OperationBinding ::
  "core_lib \<Rightarrow> world \<Rightarrow> WorkContextSources \<Rightarrow> string \<Rightarrow> core_OperationBinding source_op" where
  "OperationBinding L W x bindingID s =
     (if bindingID = []
      then (Inl (detailf ErrInvalidAuthorityQuestion ''operation binding''), s)
      else then_read
        (ask L W x (''binding'' @ nul @ bindingID) (QuestionOperationBinding bindingID) s)
        (read_binding L bindingID))"

definition read_revision ::
  "string \<Rightarrow> ModuleResolveWorkContextAuthorityResponse \<Rightarrow> ma_err + 64 word" where
  "read_revision owner answer = (case GetAuthorizationRevision answer of
       None \<Rightarrow> Inl (detailf ErrUnreadableAuthorityAnswer ''authorization revision'')
     | Some revision \<Rightarrow>
       (if av_OwnerPrincipalId revision \<noteq> owner
        then Inl (detailf ErrUnreadableAuthorityAnswer ''authorization revision'')
        else Inr (av_Revision revision)))"

definition AuthorizationRevision ::
  "core_lib \<Rightarrow> world \<Rightarrow> WorkContextSources \<Rightarrow> string \<Rightarrow> 64 word source_op" where
  "AuthorizationRevision L W x tenant s =
     then_read
       (ask L W x (''revision'' @ nul @ ss_owner x) (QuestionAuthorizationRevision (ss_owner x)) s)
       (read_revision (ss_owner x))"

text \<open>The code returns no grant on any path; \<open>unit\<close> stands for the type it never builds.\<close>

definition read_grant ::
  "core_lib \<Rightarrow> string \<Rightarrow> ModuleResolveWorkContextAuthorityResponse \<Rightarrow> ma_err + unit" where
  "read_grant L grantID answer = (case GetApprovalGrant answer of
       None \<Rightarrow> Inl (detailf ErrUnreadableAuthorityAnswer ''approval grant'')
     | Some grant \<Rightarrow>
       (if ag_GrantId grant \<noteq> grantID
        then Inl (detailf ErrUnreadableAuthorityAnswer ''approval grant'')
        else if ag_State grant = GRANT_STATE_NOT_RECORDED
        then Inl (detailf ErrNoApprovalGrant (go_quote (rune_print L) grantID))
        else Inl (detailf ErrUnreadableAuthorityAnswer ''approval-grant state'')))"

definition Grant :: "core_lib \<Rightarrow> world \<Rightarrow> WorkContextSources \<Rightarrow> string \<Rightarrow> unit source_op" where
  "Grant L W x grantID s =
     (if grantID = []
      then (Inl (detailf ErrInvalidAuthorityQuestion ''approval grant''), s)
      else then_read
        (ask L W x (''grant'' @ nul @ grantID) (QuestionApprovalGrant grantID) s)
        (read_grant L grantID))"

end
