(* ===== verification/MaSourcesFacts.thy ===== *)
theory MaSourcesFacts
  imports MaSources
begin

text \<open>
  What the live-authority sources promise. The locale \<open>answer_cache\<close> is the contract of their cache
  and its lemma is about any history of loads and stores; it is interpreted on \<open>cache_load\<close> and
  \<open>cache_store\<close>. Above it, an invariant ties every cached answer to the host's answer it came from,
  and the properties say what a verifier is handed.
\<close>

section \<open>The cache as an interface\<close>

datatype ('k, 'a) cache_op = Load gotime 'k | Store gotime 'k 'a

locale answer_cache =
  fixes load :: "gotime \<Rightarrow> 'k \<Rightarrow> 'c \<Rightarrow> 'a option \<times> 'c"
    and store :: "gotime \<Rightarrow> 'k \<Rightarrow> 'a \<Rightarrow> 'c \<Rightarrow> 'c"
    and fresh :: 'c
    and view :: "'c \<Rightarrow> 'k \<Rightarrow> ('a \<times> gotime) option"
    and held :: "'c \<Rightarrow> nat"
    and capacity :: nat
    and bound :: gotime
    and ok :: "'c \<Rightarrow> bool"
  assumes ok_fresh: "ok fresh" and view_fresh: "view fresh k = None"
    and ok_load: "ok c \<Longrightarrow> ok (snd (load t k c))"
    and ok_store: "ok c \<Longrightarrow> ok (store t k a c)"
    and ok_held: "ok c \<Longrightarrow> held c \<le> capacity"
    and load_hit: "fst (load t k c) = Some a \<Longrightarrow> \<exists>u. view c k = Some (a, u) \<and> t < u"
    and load_view: "view (snd (load t k c)) j = Some e \<Longrightarrow> view c j = Some e"
    and store_view: "ok c \<Longrightarrow> view (store t k a c) j = Some e \<Longrightarrow>
      (if j = k then e = (a, t + bound) else view c j = Some e)"
begin

fun step :: "'c \<Rightarrow> ('k, 'a) cache_op \<Rightarrow> 'c" where
  "step c (Load t k) = snd (load t k c)"
| "step c (Store t k a) = store t k a c"

definition run :: "('k, 'a) cache_op list \<Rightarrow> 'c" where
  "run = foldl step fresh"

lemma run_ok: "ok (run ops)"
  unfolding run_def
proof (induction ops rule: rev_induct)
  case (snoc x xs)
  then show ?case by (cases x) (simp_all add: ok_load ok_store)
qed (simp add: ok_fresh)

lemma run_bounded: "held (run ops) \<le> capacity"
  by (rule ok_held [OF run_ok])

text \<open>What is held under a key is the last answer stored under it, with its own deadline.\<close>

lemma run_view:
  "view (run ops) k = Some (a, u) \<Longrightarrow>
     \<exists>pre t post. ops = pre @ Store t k a # post \<and> u = t + bound \<and>
       (\<forall>s b. Store s k b \<notin> set post)"
  unfolding run_def
proof (induction ops rule: rev_induct)
  case (snoc x xs)
  have ok: "ok (foldl step fresh xs)" using run_ok by (simp add: run_def)
  show ?case
  proof (cases x)
    case (Load t j)
    with snoc.prems have "view (foldl step fresh xs) k = Some (a, u)"
      by (auto dest: load_view)
    then obtain pre s post where "xs = pre @ Store s k a # post" "u = s + bound"
      "\<forall>s b. Store s k b \<notin> set post" using snoc.IH by blast
    with Load show ?thesis
      by (intro exI [of _ pre] exI [of _ s] exI [of _ "post @ [x]"]) auto
  next
    case (Store t j b)
    show ?thesis
    proof (cases "j = k")
      case True
      with snoc.prems Store store_view [OF ok, of t j b k "(a, u)"] have
        "b = a" "u = t + bound" by auto
      with Store True show ?thesis
        by (intro exI [of _ xs] exI [of _ t] exI [of _ "[]"]) auto
    next
      case False
      with snoc.prems Store store_view [OF ok, of t j b k "(a, u)"] have
        "view (foldl step fresh xs) k = Some (a, u)" by auto
      then obtain pre s post where "xs = pre @ Store s k a # post" "u = s + bound"
        "\<forall>s b. Store s k b \<notin> set post" using snoc.IH by blast
      with Store False show ?thesis
        by (intro exI [of _ pre] exI [of _ s] exI [of _ "post @ [x]"]) auto
    qed
  qed
qed (simp add: view_fresh)

lemma hit_is_recent:
  assumes "fst (load t k (run ops)) = Some a"
  shows "\<exists>pre s post. ops = pre @ Store s k a # post \<and> t < s + bound \<and>
    (\<forall>r b. Store r k b \<notin> set post)"
  using load_hit [OF assms] run_view by metis

end

definition cache_view :: "answer_cache \<Rightarrow> string \<Rightarrow> (ModuleResolveWorkContextAuthorityResponse \<times> gotime) option"
where
  "cache_view c k = map_option (\<lambda>e. (ca_answer e, ca_until e)) (c k)"

definition cache_within :: "int \<Rightarrow> answer_cache \<Rightarrow> bool" where
  "cache_within entries c \<longleftrightarrow> finite (dom c) \<and> card (dom c) \<le> nat (max 1 entries) \<and>
     (entries < 0 \<longrightarrow> c = Map.empty)"

lemma cache_within_store:
  assumes "cache_within entries c"
  shows "cache_within entries (cache_store entries bound t k a c)"
proof (cases "entries < 0 \<or> int (card (dom c)) \<ge> entries")
  case False
  have "card (insert k (dom c)) \<le> Suc (card (dom c))" by (rule card_insert_le_m1 [OF _ _]) auto
  with False assms show ?thesis
    by (auto simp: cache_store_def cache_within_def Let_def)
qed (use assms in \<open>auto simp: cache_store_def cache_within_def Let_def\<close>)

interpretation authority_cache: answer_cache "cache_load entries" "cache_store entries bound"
  Map.empty cache_view "\<lambda>c. card (dom c)" "nat (max 1 entries)" bound "cache_within entries"
  for entries bound
proof
  show "cache_within entries Map.empty" by (simp add: cache_within_def)
  show "cache_view Map.empty k = None" for k by (simp add: cache_view_def)
  show "cache_within entries (cache_store entries bound t k a c)" if "cache_within entries c" for t k a c
    using that by (rule cache_within_store)
  show "card (dom c) \<le> nat (max 1 entries)" if "cache_within entries c" for c
    using that by (simp add: cache_within_def)
  show "cache_within entries (snd (cache_load entries t k c))" if "cache_within entries c" for t k c
    using that by (auto simp: cache_load_def cache_within_def split: option.splits
        intro: order.trans [OF card_Diff1_le])
  show "\<exists>u. cache_view c k = Some (a, u) \<and> t < u" if "fst (cache_load entries t k c) = Some a" for t k c a
    using that by (auto simp: cache_load_def cache_view_def split: if_splits option.splits)
  show "cache_view c j = Some e" if "cache_view (snd (cache_load entries t k c)) j = Some e" for t k c j e
    using that by (auto simp: cache_load_def cache_view_def split: if_splits option.splits)
  show "if j = k then e = (a, t + bound) else cache_view c j = Some e"
    if "cache_within entries c" and "cache_view (cache_store entries bound t k a c) j = Some e"
    for t k a c j e
    using that
    by (auto simp: cache_within_def cache_store_def cache_view_def Let_def split: if_splits)
qed

text \<open>
  A history of the cache of one source, and what it stands for: an unbounded memory that keeps, under
  every key, the last answer stored with its deadline, and forgets nothing.
\<close>

definition cache_after ::
  "int \<Rightarrow> gotime \<Rightarrow> (string, ModuleResolveWorkContextAuthorityResponse) cache_op list \<Rightarrow> answer_cache" where
  "cache_after entries bound = foldl (\<lambda>c op. case op of
       Load t k \<Rightarrow> snd (cache_load entries t k c)
     | Store t k a \<Rightarrow> cache_store entries bound t k a c) Map.empty"

fun memory_after :: "gotime \<Rightarrow> ('k, 'a) cache_op list \<Rightarrow> 'k \<Rightarrow> ('a \<times> gotime) option" where
  "memory_after bound [] j = None"
| "memory_after bound (Load t k # ops) j = memory_after bound ops j"
| "memory_after bound (Store t k a # ops) j =
     (case memory_after bound ops j of Some e \<Rightarrow> Some e
      | None \<Rightarrow> (if j = k then Some (a, t + bound) else None))"

definition memory_load :: "gotime \<Rightarrow> ('a \<times> gotime) option \<Rightarrow> 'a option" where
  "memory_load t e = (case e of None \<Rightarrow> None | Some (a, u) \<Rightarrow> if t < u then Some a else None)"

lemma cache_after_run:
  "cache_after entries bound = answer_cache.run (cache_load entries) (cache_store entries bound) Map.empty"
proof -
  have "(\<lambda>c op. case op of Load t k \<Rightarrow> snd (cache_load entries t k c)
      | Store t k a \<Rightarrow> cache_store entries bound t k a c)
    = answer_cache.step (cache_load entries) (cache_store entries bound)"
    by (intro ext) (simp add: authority_cache.step.simps split: cache_op.splits)
  then show ?thesis unfolding cache_after_def authority_cache.run_def by simp
qed

lemma memory_free: "\<forall>r b. Store r k b \<notin> set ops \<Longrightarrow> memory_after bound ops k = None"
proof (induction ops)
  case (Cons op ops)
  then show ?case by (cases op) auto
qed simp

lemma memory_last: "\<forall>r b. Store r k b \<notin> set later \<Longrightarrow>
    memory_after bound (pre @ Store s k a # later) k = Some (a, s + bound)"
proof (induction pre)
  case (Cons op pre)
  then show ?case by (cases op) auto
qed (simp add: memory_free)

text \<open>C13:
  The bounded cache refines the unbounded memory, for any history of loads and stores, any clock
  readings and any settings: a load finds nothing or exactly what the memory holds before its
  deadline, never another key's answer, an older one or an expired one; and unless caching is
  disabled the answer just stored is found until its deadline.
\<close>

theorem cache_refines_memory:
  "fst (cache_load entries t k (cache_after entries bound ops))
       \<in> {None, memory_load t (memory_after bound ops k)} \<and>
   (0 \<le> entries \<and> t < s + bound \<longrightarrow>
      fst (cache_load entries t k (cache_after entries bound (ops @ [Store s k a]))) = Some a)"
proof
  show "fst (cache_load entries t k (cache_after entries bound ops))
       \<in> {None, memory_load t (memory_after bound ops k)}"
  proof (cases "fst (cache_load entries t k (cache_after entries bound ops))")
    case (Some b)
    from authority_cache.hit_is_recent [OF Some [unfolded cache_after_run]] obtain pre r post where
      "ops = pre @ Store r k b # post" "t < r + bound" "\<forall>r b. Store r k b \<notin> set post" by blast
    with Some show ?thesis by (simp add: memory_last memory_load_def)
  qed simp
  show "0 \<le> entries \<and> t < s + bound \<longrightarrow>
      fst (cache_load entries t k (cache_after entries bound (ops @ [Store s k a]))) = Some a"
    by (simp add: cache_after_def cache_load_def cache_store_def Let_def)
qed

theorem cache_refines_memory_witness:
  "fst (cache_load 2048 1 ''k'' (cache_after 2048 2 ([Load 0 ''k''] @ [Store 0 ''k'' \<lparr>rs_Answer = None\<rparr>])))
     = Some \<lparr>rs_Answer = None\<rparr>"
  using cache_refines_memory [of 2048 1 "''k''" 2 "[Load 0 ''k'']" 0 "\<lparr>rs_Answer = None\<rparr>"] by simp

section \<open>Where a cached answer comes from\<close>

definition resolve_message :: "WorkContextSources \<Rightarrow> WorkContextQuestion \<Rightarrow> ModuleResolveWorkContextAuthorityRequest"
where
  "resolve_message x q = \<lparr>rq_WorkContext = ws_Capability (ss_settings x), rq_Question = Some q\<rparr>"

definition resolve_request ::
  "core_lib \<Rightarrow> WorkContextSources \<Rightarrow> WorkContextQuestion \<Rightarrow> string \<Rightarrow> authority_request" where
  "resolve_request L x q m = call_request L (ss_client x) Resolve_procedure (resolve_message x q) m"

text \<open>\<open>answered L W x q a l m\<close>: with the log \<open>l\<close> behind it the host answered the question with \<open>a\<close>.\<close>

definition answered ::
  "core_lib \<Rightarrow> world \<Rightarrow> WorkContextSources \<Rightarrow> WorkContextQuestion \<Rightarrow>
     ModuleResolveWorkContextAuthorityResponse \<Rightarrow> event list \<Rightarrow> string \<Rightarrow> bool" where
  "answered L W x q a l m \<longleftrightarrow>
     host_answer W Resolve_procedure l (resolve_request L x q m) = Inr (Some a)"

text \<open>The key a source asks a question under.\<close>

fun asked_as :: "WorkContextQuestion \<Rightarrow> string \<Rightarrow> bool" where
  "asked_as (QuestionSeal p i) k \<longleftrightarrow> k = seal_key p i"
| "asked_as (QuestionPrincipalEpoch p) k \<longleftrightarrow> k = ''epoch'' @ nul @ p"
| "asked_as (QuestionOperationBinding b) k \<longleftrightarrow> k = ''binding'' @ nul @ b"
| "asked_as (QuestionAuthorizationRevision o') k \<longleftrightarrow> k = ''revision'' @ nul @ o'"
| "asked_as (QuestionApprovalGrant g) k \<longleftrightarrow> k = ''grant'' @ nul @ g"
| "asked_as (QuestionApprovedBuild p) k \<longleftrightarrow> False"

definition cached_from ::
  "core_lib \<Rightarrow> world \<Rightarrow> WorkContextSources \<Rightarrow> event list \<Rightarrow> string \<Rightarrow> cachedAuthorityAnswer \<Rightarrow> bool" where
  "cached_from L W x lg k e \<longleftrightarrow> (\<exists>q l m rest. asked_as q k \<and> answered L W x q (ca_answer e) l m \<and>
     lg = l @ EvCall (resolve_request L x q m) # rest \<and>
     ca_until e = sources_now W x (l @ [EvCall (resolve_request L x q m)]) +
       ws_CacheBound (ss_settings x))"

lemma cached_from_log: "cached_from L W x lg k e \<Longrightarrow> cached_from L W x (lg @ new) k e"
proof -
  assume "cached_from L W x lg k e"
  then obtain q l m rest where "asked_as q k" "answered L W x q (ca_answer e) l m"
    "lg = l @ EvCall (resolve_request L x q m) # rest"
    "ca_until e = sources_now W x (l @ [EvCall (resolve_request L x q m)]) +
       ws_CacheBound (ss_settings x)"
    unfolding cached_from_def by blast
  then show ?thesis unfolding cached_from_def
    by (intro exI [of _ q] exI [of _ l] exI [of _ m] exI [of _ "rest @ new"]) simp
qed

definition source_inv :: "core_lib \<Rightarrow> world \<Rightarrow> WorkContextSources \<Rightarrow> source_state \<Rightarrow> bool" where
  "source_inv L W x s \<longleftrightarrow> cache_within (ws_CacheEntries (ss_settings x)) (ss_cached s) \<and>
     (\<forall>k e. ss_cached s k = Some e \<longrightarrow> cached_from L W x (log s) k e)"

lemma callAsModule_extends: "\<exists>new. log (snd (callAsModule L W c p msg s)) = log s @ new"
  using callAsModule_calls by (metis prod.collapse)

lemma client_part_log [simp]: "log (client_part s) = log s"
  by (simp add: client_part_def)

lemma with_client_simps [simp]:
  "log (with_client s t) = log t" "ss_cached (with_client s t) = ss_cached s"
  by (simp_all add: with_client_def)

lemma source_inv_grow:
  assumes "source_inv L W x s" and "log s' = log s @ new" and "ss_cached s' = ss_cached s"
  shows "source_inv L W x s'"
  using assms cached_from_log by (auto simp: source_inv_def)

lemma load_result:
  assumes "load W x k s = (r, s')" and "source_inv L W x s"
  obtains (hit) e where "r = Some (ca_answer e)" "ss_cached s k = Some e"
      "s' = s\<lparr>log := log s @ [EvNow]\<rparr>" "sources_now W x (log s) < ca_until e" "source_inv L W x s'"
  | (miss) new where "r = None" "log s' = log s @ new" "calls new = []" "source_inv L W x s'"
proof (cases "ws_CacheEntries (ss_settings x) < 0")
  case True
  with assms miss [of "[]"] show thesis by (simp add: load_def)
next
  case False
  note no = this
  show thesis
  proof (cases "ss_cached s k")
    case None
    then have "(ss_cached s)(k := None) = ss_cached s" by auto
    with None assms no miss [of "[]"] show thesis by (auto simp: load_def cache_load_def)
  next
    case (Some e)
    show thesis
    proof (cases "sources_now W x (log s) < ca_until e")
      case True
      with Some assms no have "s' = s\<lparr>log := log s @ [EvNow]\<rparr>" "r = Some (ca_answer e)"
        by (auto simp: load_def cache_load_def)
      with True Some hit [of e] source_inv_grow [OF assms(2), of s' "[EvNow]"] show thesis by auto
    next
      case False
      with Some assms no have s': "s' = s\<lparr>ss_cached := (ss_cached s)(k := None), log := log s @ [EvNow]\<rparr>"
        "r = None"
        by (auto simp: load_def cache_load_def)
      have "cache_within (ws_CacheEntries (ss_settings x)) ((ss_cached s)(k := None))"
        using assms(2) no
        by (auto simp: source_inv_def cache_within_def intro: order.trans [OF card_Diff1_le])
      then have "source_inv L W x s'"
        using assms(2) s'(1) cached_from_log by (auto simp: source_inv_def)
      with s' miss [of "[EvNow]"] show thesis by simp
    qed
  qed
qed

lemma store_inv:
  assumes "source_inv L W x s" and "log s = l @ [EvCall (resolve_request L x q m)]"
    and "answered L W x q a l m" and "asked_as q k"
  shows "source_inv L W x (store W x k a s)"
    and "\<exists>new. log (store W x k a s) = log s @ new \<and> calls new = []"
proof -
  show "\<exists>new. log (store W x k a s) = log s @ new \<and> calls new = []"
    by (auto simp: store_def)
  show "source_inv L W x (store W x k a s)"
  proof (cases "ws_CacheEntries (ss_settings x) < 0")
    case False
    let ?e = "\<lparr>ca_answer = a, ca_until = sources_now W x (log s) + ws_CacheBound (ss_settings x)\<rparr>"
    have new: "cached_from L W x (log s @ [EvNow]) k ?e"
      unfolding cached_from_def using assms
      by (intro exI [of _ q] exI [of _ l] exI [of _ m] exI [of _ "[EvNow]"]) simp
    have "ss_cached (store W x k a s) j = Some e \<Longrightarrow> (j = k \<and> e = ?e) \<or> ss_cached s j = Some e" for j e
      using False by (auto simp: store_def cache_store_def Let_def split: if_splits)
    then show ?thesis
      using False assms(1) new cached_from_log cache_within_store
      by (fastforce simp: source_inv_def store_def)
  qed (use assms(1) in \<open>simp add: store_def\<close>)
qed

lemma ask_result:
  assumes "ask L W x k q s = (r, s')" and "source_inv L W x s" and "asked_as q k"
  obtains (served) e where "r = Inr (ca_answer e)" "log s' = log s @ [EvNow]"
      "cached_from L W x (log s) k e" "sources_now W x (log s) < ca_until e" "source_inv L W x s'"
  | (failed) e where "r = Inl e" "source_inv L W x s'"
  | (asked) a l m rest where "r = Inr a" "answered L W x q a l m"
      "log s' = l @ EvCall (resolve_request L x q m) # rest" "calls rest = []" "source_inv L W x s'"
proof -
  obtain v s1 where load: "load W x k s = (v, s1)" by fastforce
  from load assms(2) show thesis
  proof (cases rule: load_result)
    case (hit e)
    with assms load have "r = Inr (ca_answer e)" "s' = s1" by (auto simp: ask_def)
    with hit served [of e] assms(2) show thesis by (auto simp: source_inv_def)
  next
    case (miss new)
    let ?run = "callAsModule L W (ss_client x) Resolve_procedure (resolve_message x q) (client_part s1)"
    obtain y t where y: "?run = (y, t)" by fastforce
    obtain more where "log t = log s1 @ more" using y callAsModule_extends [of L W] by (metis client_part_log snd_conv)
    then have inv: "source_inv L W x (with_client s1 t)"
      by (intro source_inv_grow [OF miss(4), of _ more]) auto
    show thesis
    proof (cases "\<exists>a. y = Inr (Some a)")
      case True
      then obtain a where a: "y = Inr (Some a)" by blast
      with callAsModule_Inr y obtain l m where l: "log t = l @ [EvCall (resolve_request L x q m)]"
        "answered L W x q a l m"
        unfolding answered_def resolve_request_def by metis
      have rs: "r = Inr a" "s' = store W x k a (with_client s1 t)"
        using assms(1) load miss(1) y a by (auto simp: ask_def resolve_message_def)
      from store_inv [OF inv _ l(2) assms(3)] l(1) obtain rest where
        "source_inv L W x s'" "log s' = l @ EvCall (resolve_request L x q m) # rest" "calls rest = []"
        unfolding rs by auto
      with rs l asked show thesis by blast
    next
      case False
      with assms(1) load miss(1) y have "\<exists>e. r = Inl e" "s' = with_client s1 t"
        by (auto simp: ask_def resolve_message_def split: sum.splits option.splits)
      with inv failed show thesis by blast
    qed
  qed
qed

section \<open>A source on the sample host\<close>

definition sample_source :: WorkContextSources where
  "sample_source = \<lparr>ss_client = sample_client,
     ss_settings = \<lparr>ws_Capability = ''wc-cap'', ws_CacheBound = 2000000000, ws_CacheEntries = 2048,
       ws_Now = None\<rparr>, ss_owner = ''owner''\<rparr>"

definition sample_start :: source_state where
  "sample_start = \<lparr>log = [], c_module = ''wc-ok'', c_expiresAt = 800000000000, ss_cached = Map.empty\<rparr>"

definition answering :: "ModuleResolveWorkContextAuthorityResponse \<Rightarrow> world" where
  "answering a = sample_world 200 (\<lambda>l q. Inr (Some a))"

lemma sample_start_inv: "source_inv L W x sample_start"
  by (simp add: source_inv_def sample_start_def cache_within_def)

lemma sample_now [simp]: "sources_now (answering a) sample_source l = int (length l)"
  by (simp add: sources_now_def sample_source_def answering_def sample_world_def)

text \<open>The first question is one call, and its answer is held for two seconds.\<close>

definition after_ask ::
  "string \<Rightarrow> WorkContextQuestion \<Rightarrow> ModuleResolveWorkContextAuthorityResponse \<Rightarrow> source_state" where
  "after_ask k q a = \<lparr>log = [EvNow, EvCall (resolve_request sample_lib sample_source q ''wc-ok''), EvNow],
     c_module = ''wc-ok'', c_expiresAt = 800000000000,
     ss_cached = [k \<mapsto> \<lparr>ca_answer = a, ca_until = 2000000002\<rparr>]\<rparr>"

lemma sample_ask:
  "ask sample_lib (answering a) sample_source k q sample_start = (Inr a, after_ask k q a)"
proof -
  obtain caps where caps: "ae_capabilities (c_authority sample_client) = Some caps"
    by (simp add: sample_client_def)
  have now: "sources_now (answering a) sample_source l = int (length l)" for l by simp
  have wnow: "w_now (answering a) l = int (length l)" for l
    by (simp add: answering_def sample_world_def)
  have settings: "ss_client sample_source = sample_client"
    "ws_CacheEntries (ss_settings sample_source) = 2048"
    "ws_CacheBound (ss_settings sample_source) = 2000000000"
    by (simp_all add: sample_source_def)
  have resolve: "sv_resolve (w_service (answering a)) l r = Inr (Some a)" for l r
    by (simp add: answering_def sample_world_def sample_service_def)
  have load: "load (answering a) sample_source k sample_start = (None, sample_start)"
    by (simp add: load_def cache_load_def settings sample_start_def fun_eq_iff)
  have module: "moduleWorkContextLocked sample_lib (answering a) sample_client (client_part sample_start)
      = (Inr ''wc-ok'', \<lparr>log = [EvNow], c_module = ''wc-ok'', c_expiresAt = 800000000000\<rparr>)"
    by (simp add: moduleWorkContextLocked_def attempt_def client_part_def sample_start_def
        clock_def happens_def wnow)
  have call: "callAsModule sample_lib (answering a) sample_client Resolve_procedure
      (resolve_message sample_source q) (client_part sample_start)
      = (Inr (Some a), \<lparr>log = [EvNow, EvCall (resolve_request sample_lib sample_source q ''wc-ok'')],
          c_module = ''wc-ok'', c_expiresAt = 800000000000\<rparr>)"
    by (simp add: callAsModule_def caps Let_def attempt_def ModuleWorkContext_def module happens_def
        Resolve_procedure_def resolve resolve_request_def call_request_def settings
        moduleCapabilitiesServiceClient_call_def)
  show ?thesis
    by (simp add: ask_def load settings call store_def cache_store_def with_client_def
        resolve_message_def [symmetric]) (simp add: sample_start_def after_ask_def)
qed

lemma sample_seal:
  assumes "p \<noteq> []" "i \<noteq> []"
  shows "Seal sample_lib (answering a) sample_source p i sample_start
    = (read_seal sample_lib i a, after_ask (seal_key p i) (QuestionSeal p i) a)"
  using assms by (simp add: Seal_def sample_ask then_read_def)

lemma sample_epoch:
  "PrincipalEpoch sample_lib (answering a) sample_source ''p'' sample_start
    = (read_epoch sample_lib ''p'' a, after_ask (''epoch'' @ nul @ ''p'') (QuestionPrincipalEpoch ''p'') a)"
  by (simp add: PrincipalEpoch_def sample_ask then_read_def)

section \<open>What a verifier is handed\<close>

text \<open>
  \<open>vouched L W x s s' q a\<close>: the host answered exactly the question \<open>q\<close> with \<open>a\<close>, in a call that is on
  the log; nothing was asked after it, or it is served from memory and the clock, read in this
  operation, is inside the cache bound counted from the clock's reading after that answer.
\<close>

definition vouched ::
  "core_lib \<Rightarrow> world \<Rightarrow> WorkContextSources \<Rightarrow> source_state \<Rightarrow> source_state \<Rightarrow> WorkContextQuestion \<Rightarrow>
     ModuleResolveWorkContextAuthorityResponse \<Rightarrow> bool" where
  "vouched L W x s s' q a \<longleftrightarrow> (\<exists>l m rest. answered L W x q a l m \<and>
     log s' = l @ EvCall (resolve_request L x q m) # rest \<and>
     (calls rest = [] \<or> log s' = log s @ [EvNow] \<and>
        sources_now W x (log s) < sources_now W x (l @ [EvCall (resolve_request L x q m)]) +
          ws_CacheBound (ss_settings x)))"

lemma ask_vouched:
  assumes "ask L W x k q s = (Inr a, s')" and "source_inv L W x s" and "asked_as q k"
  shows "\<exists>q'. asked_as q' k \<and> vouched L W x s s' q' a"
  using assms
proof (cases rule: ask_result)
  case (served e)
  then obtain q' l m rest where "asked_as q' k" "answered L W x q' (ca_answer e) l m"
    "log s = l @ EvCall (resolve_request L x q' m) # rest"
    "ca_until e = sources_now W x (l @ [EvCall (resolve_request L x q' m)]) +
       ws_CacheBound (ss_settings x)"
    unfolding cached_from_def by blast
  with served show ?thesis unfolding vouched_def
    by (intro exI [of _ q'] conjI exI [of _ l] exI [of _ m] exI [of _ "rest @ [EvNow]"]) auto
next
  case (asked b l m rest)
  with assms(3) show ?thesis unfolding vouched_def by blast
qed simp

lemma keys_apart:
  "''epoch'' @ nul @ p \<noteq> seal_key a b" "''binding'' @ nul @ p \<noteq> seal_key a b"
  by (simp_all add: seal_key_def)

lemma epoch_key: "asked_as q (''epoch'' @ nul @ p) \<Longrightarrow> q = QuestionPrincipalEpoch p"
  by (cases q) (auto simp: seal_key_def)

lemma binding_key: "asked_as q (''binding'' @ nul @ p) \<Longrightarrow> q = QuestionOperationBinding p"
  by (cases q) (auto simp: seal_key_def)

lemma revision_key: "asked_as q (''revision'' @ nul @ p) \<Longrightarrow> q = QuestionAuthorizationRevision p"
  by (cases q) (auto simp: seal_key_def)

lemma seal_key_unique:
  assumes "asked_as q (seal_key p i)" and "CHR 0x00 \<notin> set p" and "CHR 0x00 \<notin> set i"
  shows "q = QuestionSeal p i"
proof (cases q)
  case (QuestionSeal p' i')
  with assms(1) have eq: "p @ CHR 0x00 # i = p' @ CHR 0x00 # i'"
    by (simp add: seal_key_def nul_def)
  from assms(2,3) have "split_on (CHR 0x00) (p @ CHR 0x00 # i) = [p, i]"
    by (simp add: split_on_append split_on_free)
  with eq have s: "split_on (CHR 0x00) (p' @ CHR 0x00 # i') = [p, i]" by simp
  have "join_with (CHR 0x00) [p', i'] = p' @ CHR 0x00 # i'" by simp
  have "count_list (p' @ CHR 0x00 # i') (CHR 0x00) = Suc 0"
    using eq [symmetric] assms(2,3) by (simp add: count_list_0_iff)
  then have "CHR 0x00 \<notin> set p'" "CHR 0x00 \<notin> set i'"
    by (simp_all add: count_list_0_iff)
  then have "split_on (CHR 0x00) (p' @ CHR 0x00 # i') = [p', i']"
    by (simp add: split_on_append split_on_free)
  with s QuestionSeal show ?thesis by simp
qed (use assms in \<open>auto simp: seal_key_def\<close>)

text \<open>C16:
  A seal that is returned was answered by the host for exactly this principal and installation:
  the answer is on the seal arm, says the installation is held, names the asked installation and
  carries the revision returned; and it is the answer to the last call made, or it is served from
  memory inside the cache bound. It holds for identifiers without a NUL byte, which is what
  separates the two parts of the cache key.
\<close>

theorem Seal_vouched:
  assumes "Seal L W x p i s = (Inr seal, s')" and "source_inv L W x s" and
    "CHR 0x00 \<notin> set p" and "CHR 0x00 \<notin> set i"
  shows "\<exists>a ans. vouched L W x s s' (QuestionSeal p i) a \<and> GetSeal a = Some ans \<and>
    sa_State ans = SEAL_STATE_HELD \<and> sa_InstallationId ans = i \<and>
    seal = \<lparr>cs_InstallationID = i, cs_InstallationRevision = sa_InstallationRevision ans\<rparr>"
proof -
  from assms(1) obtain a where a: "ask L W x (seal_key p i) (QuestionSeal p i) s = (Inr a, s')"
    "read_seal L i a = Inr seal"
    by (auto simp: Seal_def then_read_def split: if_splits prod.splits sum.splits)
  from ask_vouched [OF a(1) assms(2)] seal_key_unique assms(3,4)
  have "vouched L W x s s' (QuestionSeal p i) a" by fastforce
  moreover from a(2) obtain ans where "GetSeal a = Some ans" "sa_State ans = SEAL_STATE_HELD"
    "sa_InstallationId ans = i"
    "seal = \<lparr>cs_InstallationID = i, cs_InstallationRevision = sa_InstallationRevision ans\<rparr>"
    by (auto simp: read_seal_def simp del: GetSeal.simps state_numbers split: option.splits if_splits)
  ultimately show ?thesis by blast
qed

theorem Seal_vouched_witness:
  "\<exists>a ans. vouched sample_lib (answering \<lparr>rs_Answer = Some (AnswerSeal (Some
       \<lparr>sa_State = 1, sa_InstallationId = ''i'', sa_InstallationRevision = 7\<rparr>))\<rparr>) sample_source
       sample_start (after_ask (seal_key ''p'' ''i'') (QuestionSeal ''p'' ''i'') \<lparr>rs_Answer =
         Some (AnswerSeal (Some \<lparr>sa_State = 1, sa_InstallationId = ''i'', sa_InstallationRevision = 7\<rparr>))\<rparr>)
       (QuestionSeal ''p'' ''i'') a \<and> GetSeal a = Some ans \<and> sa_State ans = SEAL_STATE_HELD \<and>
     sa_InstallationRevision ans = 7"
proof -
  let ?a = "\<lparr>rs_Answer = Some (AnswerSeal (Some
    \<lparr>sa_State = 1, sa_InstallationId = ''i'', sa_InstallationRevision = 7\<rparr>))\<rparr>"
  have run: "Seal sample_lib (answering ?a) sample_source ''p'' ''i'' sample_start
      = (Inr \<lparr>cs_InstallationID = ''i'', cs_InstallationRevision = 7\<rparr>,
         after_ask (seal_key ''p'' ''i'') (QuestionSeal ''p'' ''i'') ?a)"
    by (simp add: sample_seal read_seal_def)
  from Seal_vouched [OF run sample_start_inv] show ?thesis by (auto simp del: GetSeal.simps)
qed

text \<open>
  The other answers, for every identifier: an epoch, a binding or a revision that is returned is
  what the host answered to exactly that question, on its own arm, about the very identifier
  asked (the epoch of a known principal, a resolved binding), in the last call made or inside the
  cache bound.
\<close>

theorem answers_vouched:
  assumes "source_inv L W x s"
  shows "(PrincipalEpoch L W x p s = (Inr n, s1) \<longrightarrow>
      (\<exists>a ans. vouched L W x s s1 (QuestionPrincipalEpoch p) a \<and> GetPrincipalEpoch a = Some ans \<and>
         pe_PrincipalId ans = p \<and> pe_State ans = PRINCIPAL_STATE_KNOWN \<and> n = pe_Epoch ans)) \<and>
    (OperationBinding L W x b s = (Inr r, s2) \<longrightarrow>
      (\<exists>a ans. vouched L W x s s2 (QuestionOperationBinding b) a \<and> GetOperationBinding a = Some ans \<and>
         ob_State ans = BINDING_STATE_RESOLVED \<and> cb_ID r = b \<and> ob_BindingId ans = b \<and>
         cb_Revision r = ob_Revision ans \<and> cb_Revoked r = ob_Revoked ans)) \<and>
    (AuthorizationRevision L W x tenant s = (Inr v, s3) \<longrightarrow>
      (\<exists>a ans. vouched L W x s s3 (QuestionAuthorizationRevision (ss_owner x)) a \<and>
         GetAuthorizationRevision a = Some ans \<and> av_OwnerPrincipalId ans = ss_owner x \<and>
         v = av_Revision ans))"
proof (intro conjI impI)
  assume "PrincipalEpoch L W x p s = (Inr n, s1)"
  then obtain a where a: "ask L W x (''epoch'' @ nul @ p) (QuestionPrincipalEpoch p) s = (Inr a, s1)"
    "read_epoch L p a = Inr n"
    by (auto simp: PrincipalEpoch_def then_read_def split: if_splits prod.splits sum.splits)
  from ask_vouched [OF a(1) assms] epoch_key
  have "vouched L W x s s1 (QuestionPrincipalEpoch p) a" by fastforce
  with a(2) show "\<exists>a ans. vouched L W x s s1 (QuestionPrincipalEpoch p) a \<and>
      GetPrincipalEpoch a = Some ans \<and> pe_PrincipalId ans = p \<and>
      pe_State ans = PRINCIPAL_STATE_KNOWN \<and> n = pe_Epoch ans"
    by (auto simp: read_epoch_def simp del: GetPrincipalEpoch.simps state_numbers
        split: option.splits if_splits)
next
  assume "OperationBinding L W x b s = (Inr r, s2)"
  then obtain a where a: "ask L W x (''binding'' @ nul @ b) (QuestionOperationBinding b) s = (Inr a, s2)"
    "read_binding L b a = Inr r"
    by (auto simp: OperationBinding_def then_read_def split: if_splits prod.splits sum.splits)
  from ask_vouched [OF a(1) assms] binding_key
  have "vouched L W x s s2 (QuestionOperationBinding b) a" by fastforce
  with a(2) show "\<exists>a ans. vouched L W x s s2 (QuestionOperationBinding b) a \<and>
      GetOperationBinding a = Some ans \<and> ob_State ans = BINDING_STATE_RESOLVED \<and> cb_ID r = b \<and>
      ob_BindingId ans = b \<and> cb_Revision r = ob_Revision ans \<and> cb_Revoked r = ob_Revoked ans"
    by (auto simp: read_binding_def simp del: GetOperationBinding.simps state_numbers
        split: option.splits if_splits)
next
  assume "AuthorizationRevision L W x tenant s = (Inr v, s3)"
  then obtain a where a: "ask L W x (''revision'' @ nul @ ss_owner x)
      (QuestionAuthorizationRevision (ss_owner x)) s = (Inr a, s3)"
    "read_revision (ss_owner x) a = Inr v"
    by (auto simp: AuthorizationRevision_def then_read_def split: if_splits prod.splits sum.splits)
  from ask_vouched [OF a(1) assms] revision_key
  have "vouched L W x s s3 (QuestionAuthorizationRevision (ss_owner x)) a" by fastforce
  with a(2) show "\<exists>a ans. vouched L W x s s3 (QuestionAuthorizationRevision (ss_owner x)) a \<and>
      GetAuthorizationRevision a = Some ans \<and> av_OwnerPrincipalId ans = ss_owner x \<and>
      v = av_Revision ans"
    by (auto simp: read_revision_def simp del: GetAuthorizationRevision.simps
        split: option.splits if_splits)
qed

theorem answers_vouched_witness:
  "\<exists>a ans. vouched sample_lib (answering \<lparr>rs_Answer = Some (AnswerPrincipalEpoch (Some
       \<lparr>pe_State = 1, pe_PrincipalId = ''p'', pe_Epoch = 3\<rparr>))\<rparr>) sample_source
       sample_start (after_ask (''epoch'' @ nul @ ''p'') (QuestionPrincipalEpoch ''p'') \<lparr>rs_Answer =
         Some (AnswerPrincipalEpoch (Some \<lparr>pe_State = 1, pe_PrincipalId = ''p'', pe_Epoch = 3\<rparr>))\<rparr>)
       (QuestionPrincipalEpoch ''p'') a \<and> GetPrincipalEpoch a = Some ans \<and> pe_Epoch ans = 3"
proof -
  let ?a = "\<lparr>rs_Answer = Some (AnswerPrincipalEpoch (Some
    \<lparr>pe_State = 1, pe_PrincipalId = ''p'', pe_Epoch = 3\<rparr>))\<rparr>"
  have run: "PrincipalEpoch sample_lib (answering ?a) sample_source ''p'' sample_start
      = (Inr 3, after_ask (''epoch'' @ nul @ ''p'') (QuestionPrincipalEpoch ''p'') ?a)"
    unfolding sample_epoch by (simp add: read_epoch_def)
  show ?thesis
    using answers_vouched [OF sample_start_inv, of sample_lib "answering ?a" sample_source "''p''" 3]
      run
    by (metis (no_types, lifting))
qed

section \<open>Reachable states of a source\<close>

text \<open>
  A source starts with an empty cache over any state of its client; its questions and the client's
  other operations, which only extend the log and change the client's own cache, come in any order.
\<close>

inductive source_reach :: "core_lib \<Rightarrow> world \<Rightarrow> WorkContextSources \<Rightarrow> source_state \<Rightarrow> bool" for L W x where
  start: "ss_cached s = Map.empty \<Longrightarrow> source_reach L W x s"
| client: "source_reach L W x s \<Longrightarrow> log t = log s @ new \<Longrightarrow> source_reach L W x (with_client s t)"
| seal: "source_reach L W x s \<Longrightarrow> source_reach L W x (snd (Seal L W x p i s))"
| epoch: "source_reach L W x s \<Longrightarrow> source_reach L W x (snd (PrincipalEpoch L W x p s))"
| bind: "source_reach L W x s \<Longrightarrow> source_reach L W x (snd (OperationBinding L W x b s))"
| revision: "source_reach L W x s \<Longrightarrow> source_reach L W x (snd (AuthorizationRevision L W x tenant s))"
| grant: "source_reach L W x s \<Longrightarrow> source_reach L W x (snd (Grant L W x g s))"

lemma ask_keeps_inv:
  assumes "source_inv L W x s" and "asked_as q k"
  shows "source_inv L W x (snd (then_read (ask L W x k q s) f))"
proof -
  obtain r s' where run: "ask L W x k q s = (r, s')" by fastforce
  from run assms have "source_inv L W x s'" by (cases rule: ask_result) auto
  with run show ?thesis by (cases r) (simp_all add: then_read_def)
qed

lemma source_reach_inv: "source_reach L W x s \<Longrightarrow> source_inv L W x s"
proof (induction rule: source_reach.induct)
  case (start s)
  then show ?case by (simp add: source_inv_def cache_within_def)
next
  case (client s t new)
  then show ?case by (intro source_inv_grow [OF client.IH, of _ new]) simp_all
qed (auto simp: Seal_def PrincipalEpoch_def OperationBinding_def AuthorizationRevision_def Grant_def
    intro!: ask_keeps_inv)

text \<open>
  The cache of a source in every reachable state: it holds at most the configured number of
  answers (none when caching is disabled), and every answer in it is what the host answered to a
  question asked under that key, in a call on the log, with a deadline exactly the cache bound
  after the clock's reading once that answer was there.
\<close>

theorem source_cache_bounded:
  assumes "source_reach L W x s" and "ws_CacheEntries (ss_settings x) \<noteq> 0"
  shows "finite (dom (ss_cached s)) \<and>
    int (card (dom (ss_cached s))) \<le> max 0 (ws_CacheEntries (ss_settings x)) \<and>
    (\<forall>k e. ss_cached s k = Some e \<longrightarrow> cached_from L W x (log s) k e)"
  using source_reach_inv [OF assms(1)] assms(2)
  by (auto simp: source_inv_def cache_within_def max_def split: if_splits)

theorem source_cache_bounded_witness:
  "int (card (dom (ss_cached (snd (Seal sample_lib (answering \<lparr>rs_Answer = None\<rparr>) sample_source
     ''p'' ''i'' sample_start))))) \<le> 2048 \<and>
   ss_cached (snd (Seal sample_lib (answering \<lparr>rs_Answer = None\<rparr>) sample_source
     ''p'' ''i'' sample_start)) (seal_key ''p'' ''i'') \<noteq> None"
proof
  have "source_reach sample_lib (answering \<lparr>rs_Answer = None\<rparr>) sample_source (snd (Seal sample_lib
      (answering \<lparr>rs_Answer = None\<rparr>) sample_source ''p'' ''i'' sample_start))"
    by (intro source_reach.intros) (simp add: sample_start_def)
  from source_cache_bounded [OF this] show "int (card (dom (ss_cached (snd (Seal sample_lib
      (answering \<lparr>rs_Answer = None\<rparr>) sample_source ''p'' ''i'' sample_start))))) \<le> 2048"
    by (simp add: sample_source_def)
qed (simp add: sample_seal after_ask_def)

text \<open>
  The settings a source runs with. Construction succeeds only on a sealed capability that names an
  owner and a cache bound at most the ceiling; the source then keeps that owner, a bound that is
  at most two seconds, and a number of entries that is not zero (2048 by default).
\<close>

theorem WorkContextSources_settings:
  "Client_WorkContextSources L show client settings = Inr x \<longleftrightarrow>
     (\<exists>c. client = Some c \<and> ss_client x = c) \<and> sealed L (ws_Capability settings) \<and>
     core_Decode L (ws_Capability settings) = Some (ss_owner x) \<and> ss_owner x \<noteq> [] \<and>
     ws_CacheBound settings \<le> 2000000000 \<and>
     ss_settings x = settings\<lparr>
       ws_CacheBound := (if ws_CacheBound settings = 0 then 2000000000 else ws_CacheBound settings),
       ws_CacheEntries := (if ws_CacheEntries settings = 0 then 2048 else ws_CacheEntries settings)\<rparr>"
proof -
  have "settings\<lparr>ws_CacheBound := ws_CacheBound settings, ws_CacheEntries := ws_CacheEntries settings\<rparr>
      = settings"
    by simp
  then show ?thesis
    by (cases x; cases settings)
      (auto simp: Client_WorkContextSources_def AuthorityCacheBound_def second_def Let_def
        defaultAuthorityCacheEntries_def split: option.splits if_splits)
qed

text \<open>
  No answer of the host makes \<open>Grant\<close> succeed: an approval is refused when the host records none,
  when it answers another arm, another grant or a state the client does not know.
\<close>

theorem Grant_never_succeeds: "\<exists>e. fst (Grant L W x g s) = Inl e"
  by (auto simp: Grant_def then_read_def read_grant_def split: prod.splits sum.splits option.splits)

section \<open>Two statements of the source's documentation that its code does not keep\<close>

text \<open>
  "Only positive answers are cached. A refusal is never cached": an answer that refuses (here:
  the installation is not held) is served again from memory, without asking the host.
\<close>

theorem refusal_is_cached:
  "\<exists>a s1. Seal sample_lib (answering a) sample_source ''p'' ''i'' sample_start
       = (Inl (core_ErrNoSeal sample_lib), s1) \<and>
     (\<exists>s2. Seal sample_lib (answering a) sample_source ''p'' ''i'' s1
       = (Inl (core_ErrNoSeal sample_lib), s2) \<and> calls (log s2) = calls (log s1))"
proof -
  let ?a = "\<lparr>rs_Answer = Some (AnswerSeal (Some
    \<lparr>sa_State = 2, sa_InstallationId = ''i'', sa_InstallationRevision = 7\<rparr>))\<rparr>"
  let ?s = "after_ask (seal_key ''p'' ''i'') (QuestionSeal ''p'' ''i'') ?a"
  have first: "Seal sample_lib (answering ?a) sample_source ''p'' ''i'' sample_start
      = (Inl (core_ErrNoSeal sample_lib), ?s)"
    by (simp add: sample_seal read_seal_def)
  have "load (answering ?a) sample_source (seal_key ''p'' ''i'') ?s = (Some ?a, ?s\<lparr>log := log ?s @ [EvNow]\<rparr>)"
    unfolding load_def by (simp add: cache_load_def after_ask_def) (simp add: sample_source_def)
  then have "Seal sample_lib (answering ?a) sample_source ''p'' ''i'' ?s
      = (Inl (core_ErrNoSeal sample_lib), ?s\<lparr>log := log ?s @ [EvNow]\<rparr>)"
    by (simp add: Seal_def ask_def then_read_def read_seal_def)
  with first show ?thesis by fastforce
qed

text \<open>
  "A cache keyed on anything less specific than the whole question would answer one question with
  another's answer": two seal questions share a key when an identifier holds a NUL byte.
\<close>

theorem seal_key_shared:
  "seal_key (''a'' @ nul @ ''b'') ''c'' = seal_key ''a'' (''b'' @ nul @ ''c'') \<and>
   (''a'' @ nul @ ''b'', ''c'') \<noteq> (''a'', ''b'' @ nul @ ''c'')"
  by (simp add: seal_key_def nul_def)

end
