(* ===== verification/MaReach.thy ===== *)
theory MaReach
  imports MaFacadeFacts MaSourcesFacts
begin

text \<open>
  Every state a client reaches by any sequence of its operations, the questions that live authority
  sources ask through it among them. Two invariants hold throughout:
  every Work Context it presents on a call was minted for it by the broker, in a mint that is on the
  log before that call; and every request to the broker goes to one of the three mint paths with the
  two credentials and nothing followed.
\<close>

section \<open>Reachable states\<close>

inductive client_reach :: "core_lib \<Rightarrow> world \<Rightarrow> Client \<Rightarrow> state \<Rightarrow> bool" for L W c where
  start: "client_reach L W c initial_state"
| current: "client_reach L W c s \<Longrightarrow> client_reach L W c (snd (ModuleWorkContext L W c s))"
| mint: "client_reach L W c s \<Longrightarrow> client_reach L W c (snd (MintModuleWorkContext L W c s))"
| operation: "client_reach L W c s \<Longrightarrow> client_reach L W c (snd (MintModuleOperationContext L W c b s))"
| source: "client_reach L W c s \<Longrightarrow> client_reach L W c (snd (MintSourceOperationContext L W c i s))"
| exchange: "client_reach L W c s \<Longrightarrow> client_reach L W c (snd (ExchangeOperation L W c x s))"
| approve: "client_reach L W c s \<Longrightarrow> client_reach L W c (snd (ApproveExecutableArtifact L W c r s))"
| authorize: "client_reach L W c s \<Longrightarrow> client_reach L W c (snd (AuthorizeExecutableArtifact L W c r s))"
| revoke: "client_reach L W c s \<Longrightarrow> client_reach L W c (snd (RevokeExecutableArtifact L W c v s))"
| installation: "client_reach L W c s \<Longrightarrow> client_reach L W c (snd (GetCurrentInstallation L W c q s))"
| admins: "client_reach L W c s \<Longrightarrow> client_reach L W c (snd (NotifyOrgAdmins L W c n s))"
| user: "client_reach L W c s \<Longrightarrow> client_reach L W c (snd (NotifyUser L W c u s))"
| emit: "client_reach L W c s \<Longrightarrow> client_reach L W c (snd (EmitAuditEvent L W c e s))"
| declare_types: "client_reach L W c s \<Longrightarrow> client_reach L W c (snd (DeclareAuditEventTypes L W c ts s))"
| question: "client_reach L W c (client_part s) \<Longrightarrow> ss_client x = c \<Longrightarrow>
    client_reach L W c (client_part (snd (ask L W x key q s)))"

section \<open>The invariant\<close>

text \<open>The broker's mint paths, and a request this client may send there.\<close>

definition mint_paths :: "string set" where
  "mint_paths = {workContextPath, operationContextPath, sourceOperationContextPath}"

definition broker_ok :: "Client \<Rightarrow> http_request \<Rightarrow> bool" where
  "broker_ok c q \<longleftrightarrow> (\<exists>path \<in> mint_paths. \<exists>t body. usable_token t \<and> q = broker_request (c_broker c) path t body)"

text \<open>The Work Context \<open>m\<close> came out of a mint that is part of the log \<open>l\<close>.\<close>

definition minted_in :: "core_lib \<Rightarrow> world \<Rightarrow> Client \<Rightarrow> event list \<Rightarrow> string \<Rightarrow> bool" where
  "minted_in L W c l m \<longleftrightarrow> (\<exists>pre t k rest. minted L W c pre t k \<and> l = pre @ mint_events c t @ rest \<and>
     mc_Token k = m)"

definition presented :: "core_lib \<Rightarrow> world \<Rightarrow> Client \<Rightarrow> event list \<Rightarrow> authority_request \<Rightarrow> bool" where
  "presented L W c l q \<longleftrightarrow> (\<exists>m. au_header q =
     [(internalTokenHeader, ae_token (c_authority c)), (WorkContextHeader L, m)] \<and> minted_in L W c l m)"

definition calls_ok :: "core_lib \<Rightarrow> world \<Rightarrow> Client \<Rightarrow> event list \<Rightarrow> bool" where
  "calls_ok L W c lg \<longleftrightarrow> (\<forall>l q rest. lg = l @ EvCall q # rest \<longrightarrow> presented L W c l q)"

definition client_inv :: "core_lib \<Rightarrow> world \<Rightarrow> Client \<Rightarrow> state \<Rightarrow> bool" where
  "client_inv L W c s \<longleftrightarrow> cache_inv L W c s \<and> calls_ok L W c (log s) \<and>
     (\<forall>q \<in> set (posts (log s)). broker_ok c q)"

lemma calls_Cons_iff: "EvCall q \<in> set l \<longleftrightarrow> q \<in> set (calls l)"
  by (induction l rule: calls.induct) auto

lemma posts_mem: "EvPost q \<in> set l \<longleftrightarrow> q \<in> set (posts l)"
  by (induction l rule: posts.induct) auto

lemma calls_ok_quiet:
  assumes "calls_ok L W c lg" and "calls new = []"
  shows "calls_ok L W c (lg @ new)"
  unfolding calls_ok_def
proof (intro allI impI)
  fix l q rest
  assume eq: "lg @ new = l @ EvCall q # rest"
  have "EvCall q \<notin> set new"
    using assms(2) by (simp add: calls_Cons_iff)
  with eq consider u where "lg = l @ EvCall q # u" | u where "new = u @ EvCall q # rest"
    by (auto simp: append_eq_append_conv2 append_eq_Cons_conv)
  then show "presented L W c l q"
  proof cases
    case 1
    with assms(1) show ?thesis by (auto simp: calls_ok_def)
  next
    case 2
    with assms(2) show ?thesis by simp
  qed
qed

lemma calls_ok_call:
  assumes "calls_ok L W c lg" and "presented L W c lg q"
  shows "calls_ok L W c (lg @ [EvCall q])"
  unfolding calls_ok_def
proof (intro allI impI)
  fix l q' rest
  assume "lg @ [EvCall q] = l @ EvCall q' # rest"
  then consider u where "lg = l @ EvCall q' # u" | "l = lg" "q' = q"
    by (cases rest rule: rev_cases) auto
  then show "presented L W c l q'"
    using assms by cases (auto simp: calls_ok_def)
qed

lemma mint_request_ok: "usable_token t \<Longrightarrow> broker_ok c (mint_request c t)"
  by (auto simp: broker_ok_def mint_request_def mint_paths_def)

lemma call_request_presented:
  "minted_in L W c l m \<Longrightarrow> presented L W c l (call_request L c p msg m)"
  by (auto simp: presented_def call_request_def authorityRequest_def)

lemma cached_minted_in:
  assumes "cache_inv L W c s" and "c_module s \<noteq> []"
  shows "minted_in L W c (log s) (c_module s)"
  using assms unfolding cache_inv_def minted_in_def by metis

lemma minted_in_append: "minted_in L W c l m \<Longrightarrow> minted_in L W c (l @ k) m"
  unfolding minted_in_def by (metis append.assoc)

text \<open>\<open>load\<close> and \<open>store\<close> of a source leave the client alone but for a clock reading on the log.\<close>

lemma client_part_simps [simp]:
  "c_module (client_part s) = c_module s" "c_expiresAt (client_part s) = c_expiresAt s"
  by (simp_all add: client_part_def)

lemma with_client_part [simp]:
  "client_part (with_client s t) = t" "with_client (with_client s t) u = with_client s u"
  by (simp_all add: client_part_def with_client_def)

lemma load_client:
  "load W x key s = (r, s') \<Longrightarrow>
     \<exists>new \<in> {[], [EvNow]}. client_part s' = (client_part s)\<lparr>log := log (client_part s) @ new\<rparr>"
  by (auto simp: load_def client_part_def split: prod.splits if_splits)

lemma store_client:
  "\<exists>new \<in> {[], [EvNow]}. client_part (store W x key a s) = (client_part s)\<lparr>log := log (client_part s) @ new\<rparr>"
  by (simp add: store_def client_part_def)

section \<open>Invariants of the client\<close>

text \<open>
  What an invariant of the client has to withstand: the few ways an operation changes the state. A
  stretch of the log without calls whose posts are well addressed; a mint that fills the cache; a
  call with a Work Context that was minted; and forgetting the cached one.
\<close>

locale client_invariant =
  fixes L :: core_lib and W :: world and c :: Client and I :: "state \<Rightarrow> bool"
  assumes starts: "I initial_state"
    and cache_ok: "I s \<Longrightarrow> cache_inv L W c s"
    and quiet: "I s \<Longrightarrow> calls new = [] \<Longrightarrow> (\<And>q. q \<in> set (posts new) \<Longrightarrow> broker_ok c q) \<Longrightarrow>
      I (s\<lparr>log := log s @ new\<rparr>)"
    and filled: "I s \<Longrightarrow> minted L W c (log s) t k \<Longrightarrow>
      I (s\<lparr>log := log s @ mint_events c t, c_module := mc_Token k, c_expiresAt := mc_ExpiresAt k\<rparr>)"
    and called: "I s \<Longrightarrow> presented L W c (log s) q \<Longrightarrow> I (s\<lparr>log := log s @ [EvCall q]\<rparr>)"
    and forgets: "I s \<Longrightarrow> I (forgotten m s)"
begin

lemma locked_keeps:
  assumes "moduleWorkContextLocked L W c s = (r, s')" and "I s"
  shows "I s' \<and> (\<forall>m. r = Inr m \<longrightarrow> minted_in L W c (log s') m)"
  using assms(1)
proof (cases rule: moduleWorkContextLocked_result)
  case cached
  with cached_minted_in [OF cache_ok [OF assms(2)]] minted_in_append quiet [OF assms(2), of "[EvNow]"]
  show ?thesis by auto
next
  case (failed e pre new)
  with quiet [OF assms(2), of "pre @ new"] mint_request_ok show ?thesis by (auto simp: failed_mint_def)
next
  case (fresh pre t k)
  from fresh(2) have "I (s\<lparr>log := log s @ pre\<rparr>)" by (intro quiet [OF assms(2)]) auto
  from filled [OF this, of t k] fresh have "I s'" by simp
  moreover have "minted_in L W c (log s') (mc_Token k)"
    unfolding minted_in_def using fresh
    by (intro exI [of _ "log s @ pre"] exI [of _ t] exI [of _ k] exI [of _ "[]"]) simp
  ultimately show ?thesis using fresh(1) by simp
qed

lemma asked_keeps:
  assumes "moduleWorkContextLocked L W c s = (Inr m, s1)" and "I s"
  shows "I (s1\<lparr>log := log s1 @ [EvCall (call_request L c p msg m)]\<rparr>)"
  using locked_keeps [OF assms] by (intro called call_request_presented) simp_all

lemma callAsModule_keeps:
  assumes "callAsModule L W c p msg s = (r, s')" and "I s"
  shows "I s'"
  using assms(1)
proof (cases rule: callAsModule_result)
  case no_endpoint
  with assms(2) show ?thesis by simp
next
  case (no_module e)
  from locked_keeps [OF no_module(1) assms(2)] show ?thesis by (rule conjunct1)
next
  case (first m s1)
  from asked_keeps [OF first(1) assms(2)] show ?thesis by (simp only: first(3))
next
  case (no_retry m s1 e)
  from locked_keeps [OF no_retry(4) forgets [OF asked_keeps [OF no_retry(1) assms(2)]]]
  show ?thesis by (rule conjunct1)
next
  case (retried m s1 m' s2)
  from asked_keeps [OF retried(3) forgets [OF asked_keeps [OF retried(1) assms(2)]]]
  show ?thesis by (simp only: retried(5))
qed

lemma facade_keeps:
  assumes "I s" and "\<And>a t. snd (f a t) = t"
  shows "I (snd (attempt (on_error (callAsModule L W c p msg) g) f s))"
proof -
  obtain r t where run: "callAsModule L W c p msg s = (r, t)" by fastforce
  have "snd (attempt (on_error (callAsModule L W c p msg) g) f s) = t"
    using run assms(2) by (cases r) (auto simp: attempt_def on_error_def)
  with callAsModule_keeps [OF run assms(1)] show ?thesis by simp
qed

lemma operation_keeps:
  assumes "module_operation L W c run p admit wrap accept" and "I s"
  shows "I (snd (run x s))"
  using assms(2) facade_keeps [of s "\<lambda>out. lift_result (accept x out)"]
  by (cases "admit x") (simp_all add: module_operation.code [OF assms(1)] throw_state)

lemma mint_op_keeps:
  assumes "I s" and "path \<in> mint_paths"
  shows "I (snd (mint_op W cr (\<lambda>t. post L W (c_broker c) path t body) g fin s))"
proof -
  obtain r s' where run: "mint_op W cr (\<lambda>t. post L W (c_broker c) path t body) g fin s = (r, s')"
    by fastforce
  have ok: "usable_token t \<Longrightarrow> broker_ok c (broker_request (c_broker c) path t body)" for t
    using assms(2) by (auto simp: broker_ok_def)
  from run have "\<exists>new. s' = s\<lparr>log := log s @ new\<rparr> \<and> calls new = [] \<and> (\<forall>q \<in> set (posts new). broker_ok c q)"
  proof (cases rule: mint_op_result)
    case (no_token e new)
    then show ?thesis by (intro exI [of _ new]) auto
  next
    case (unsent t)
    then show ?thesis by (intro exI [of _ "[EvToken]"]) auto
  qed (use ok in fastforce)+
  with quiet [OF assms(1)] run show ?thesis by fastforce
qed

lemma mint_keeps:
  assumes "I s"
  shows "I (snd (MintModuleWorkContext L W c s))"
proof -
  obtain r s' where run: "MintModuleWorkContext L W c s = (r, s')" by fastforce
  from run have "I s'"
  proof (cases rule: MintModuleWorkContext_result)
    case (failed e new)
    then show ?thesis
      unfolding failed(2) using mint_request_ok by (intro quiet [OF assms]) (auto simp: failed_mint_def)
  next
    case (minted t m)
    then show ?thesis
      unfolding minted(2) using mint_request_ok by (intro quiet [OF assms]) (auto simp: minted_def)
  qed
  with run show ?thesis by simp
qed

lemma ask_keeps:
  assumes "I (client_part s)" and "ss_client x = c"
  shows "I (client_part (snd (ask L W x key q s)))"
proof -
  have clock: "I (t\<lparr>log := log t @ new\<rparr>)" if "I t" "new \<in> {[], [EvNow]}" for t new
    using that(2) by (intro quiet [OF that(1)]) auto
  obtain hit s1 where load: "load W x key s = (hit, s1)" by fastforce
  from load_client [OF load] have s1: "I (client_part s1)" using clock [OF assms(1)] by metis
  show ?thesis
  proof (cases hit)
    case (Some a)
    with load s1 show ?thesis by (simp add: ask_def)
  next
    case None
    let ?msg = "\<lparr>rq_WorkContext = ws_Capability (ss_settings x), rq_Question = Some q\<rparr>"
    obtain y t where call: "callAsModule L W c Resolve_procedure ?msg (client_part s1) = (y, t)" by fastforce
    from callAsModule_keeps [OF call s1] have t: "I t" .
    have "I (client_part (store W x key a (with_client s1 t)))" for a
      using store_client [of W x key a "with_client s1 t"] clock [OF t] unfolding with_client_part by metis
    with t None load call assms(2) show ?thesis
      by (cases y; cases "projr y") (auto simp: ask_def)
  qed
qed

lemma reachable: "client_reach L W c s \<Longrightarrow> I s"
proof (induction rule: client_reach.induct)
  case start
  show ?case by (rule starts)
next
  case (current s)
  then show ?case using locked_keeps [of s] unfolding ModuleWorkContext_def
    by (metis prod.collapse)
next
  case (mint s)
  then show ?case by (intro mint_keeps)
next
  case (operation s b)
  then show ?case
    by (cases "b = []") (simp_all add: MintModuleOperationContext_mint_op mint_op_keeps mint_paths_def,
      simp add: MintModuleOperationContext_def throw_state)
next
  case (source s i)
  then show ?case
    by (cases "i = []") (simp_all add: MintSourceOperationContext_mint_op mint_op_keeps mint_paths_def,
      simp add: MintSourceOperationContext_def throw_state)
next
  case (question s x key q)
  then show ?case by (intro ask_keeps)
qed (simp_all add: operation_keeps [OF exchange.module_operation_axioms]
    operation_keeps [OF approve.module_operation_axioms] operation_keeps [OF authorize.module_operation_axioms]
    operation_keeps [OF revoke.module_operation_axioms] operation_keeps [OF installation.module_operation_axioms]
    operation_keeps [OF org_admins.module_operation_axioms] operation_keeps [OF user.module_operation_axioms]
    operation_keeps [OF emit.module_operation_axioms] operation_keeps [OF declare_types.module_operation_axioms])

end

text \<open>Two invariants: of the cache, and of all that was sent.\<close>

interpretation cache: client_invariant L W c "cache_inv L W c"
proof unfold_locales
  show "cache_inv L W c initial_state"
    by (simp add: cache_inv_def initial_state_def)
  show "cache_inv L W c s \<Longrightarrow> minted L W c (log s) t k \<Longrightarrow> cache_inv L W c (s\<lparr>log := log s @ mint_events c t,
      c_module := mc_Token k, c_expiresAt := mc_ExpiresAt k\<rparr>)" for s t k
    using cache_inv_minted [of L W c s "[]" t k] by simp
qed (simp_all add: cache_inv_log cache_inv_forgotten)

interpretation sent: client_invariant L W c "client_inv L W c"
proof unfold_locales
  show "client_inv L W c initial_state"
    by (simp add: client_inv_def cache.starts calls_ok_def) (simp add: initial_state_def)
  show "client_inv L W c s \<Longrightarrow> minted L W c (log s) t k \<Longrightarrow> client_inv L W c (s\<lparr>log := log s @ mint_events c t,
      c_module := mc_Token k, c_expiresAt := mc_ExpiresAt k\<rparr>)" for s t k
    using cache.filled calls_ok_quiet mint_request_ok by (auto simp: client_inv_def minted_def)
  show "client_inv L W c s \<Longrightarrow> calls new = [] \<Longrightarrow> (\<And>q. q \<in> set (posts new) \<Longrightarrow> broker_ok c q) \<Longrightarrow>
      client_inv L W c (s\<lparr>log := log s @ new\<rparr>)" for s new
    using cache_inv_log calls_ok_quiet by (auto simp: client_inv_def)
qed (simp_all add: client_inv_def cache_inv_log cache_inv_forgotten calls_ok_call)

section \<open>What it means for the host and the broker\<close>

lemma New_broker:
  assumes "New L seams credentials = Inr c \<or> NewGatewayAuthority L seams credentials = Inr c"
  obtains gw where "Gateway seams = Some gw" and
    "gatewayBaseURL (rune_print L) (gw_BaseURL gw) (AllowInsecureHTTP seams) = Inr (br_baseURL (c_broker c))" and
    "br_token (c_broker c) = InternalToken seams" and "InternalToken seams \<noteq> []" and
    "\<not> follows_redirects (br_client (c_broker c))"
proof -
  have "New L seams credentials = Inr d \<Longrightarrow> newBroker L seams = Inr (c_broker d) \<and> InternalToken seams \<noteq> []" for d
    by (auto simp: New_def split: if_splits sum.splits)
  with assms have "newBroker L seams = Inr (c_broker c)" "InternalToken seams \<noteq> []"
    by (auto simp: NewGatewayAuthority_def split: if_splits sum.splits)
  then show thesis
    by (cases "Gateway seams")
      (use that in \<open>auto simp: newBroker_def split: option.splits sum.splits dest!: sym [of _ "c_broker c"]\<close>)
qed

text \<open>A first call of the sample client, which has nothing cached.\<close>

lemma sample_first_call:
  assumes "pr_answers p (w_service (sample_world 200 rs)) = sample_gate x"
  shows "snd (callAsModule sample_lib (sample_world 200 rs) sample_client p msg initial_state) =
     \<lparr>log = [EvToken, EvPost (broker_request (c_broker sample_client) workContextPath ''tok''
         (workContextRequest ''mod'' [])), EvNow, EvCall (call_request sample_lib sample_client p msg ''wc-new'')],
      c_module = ''wc-new'', c_expiresAt = 900000000000\<rparr>"
proof -
  obtain caps where caps: "ae_capabilities (c_authority sample_client) = Some caps"
    by (simp add: sample_client_def)
  have gate: "sample_gate x l (authorityRequest sample_lib a ep ''wc-new'' wire) = Inr (Some x)" for l a ep wire
    by (auto simp: sample_gate_def authorityRequest_def sample_lib_def internalTokenHeader_def)
  show ?thesis
    by (simp add: callAsModule_def caps Let_def attempt_def ModuleWorkContext_def sample_locked_empty
        initial_state_def happens_def assms gate moduleCapabilitiesServiceClient_call_def call_request_def)
qed

text \<open>C21:
  What \<open>ModuleWorkContext\<close> hands out in any state the client reaches. Every token it returns is sealed
  and was minted by the broker for this client, in a mint on the log; either that mint is the last thing that happened, or the
  token was cached and the clock, read in this very call, is still more than the refresh skew
  before the expiry the broker reported.
\<close>

theorem ModuleWorkContext_current:
  assumes "ModuleWorkContext L W c s = (Inr m, s')" and "client_reach L W c s"
  shows "\<exists>l t k rest. minted L W c l t k \<and> mc_Token k = m \<and> sealed L m \<and>
    log s' = l @ mint_events c t @ rest \<and>
    (rest = [] \<or> (log s' = log s @ [EvNow] \<and> w_now W (log s) + c_refreshSkew c < mc_ExpiresAt k))"
  using assms(1) unfolding ModuleWorkContext_def
proof (cases rule: moduleWorkContextLocked_result)
  case cached
  with cache.reachable [OF assms(2)] obtain l t k rest where k: "minted L W c l t k"
    "log s = l @ mint_events c t @ rest" "c_module s = mc_Token k" "c_expiresAt s = mc_ExpiresAt k"
    unfolding cache_inv_def by blast
  moreover from k(1) have "sealed L (mc_Token k)" by (simp add: minted_def)
  ultimately show ?thesis using cached
    by (intro exI [of _ l] exI [of _ t] exI [of _ k] exI [of _ "rest @ [EvNow]"]) auto
next
  case (fresh pre t k)
  then have "sealed L (mc_Token k)" by (simp add: minted_def)
  with fresh show ?thesis
    by (intro exI [of _ "log s @ pre"] exI [of _ t] exI [of _ k] exI [of _ "[]"]) auto
qed simp

theorem ModuleWorkContext_current_witness:
  "fst (ModuleWorkContext sample_lib (sample_world 200 no_answer) sample_client initial_state)
     = Inr ''wc-new'' \<and> (\<exists>l t k. minted sample_lib (sample_world 200 no_answer) sample_client l t k \<and>
     mc_Token k = ''wc-new'')"
proof -
  obtain r s' where run: "ModuleWorkContext sample_lib (sample_world 200 no_answer) sample_client
      initial_state = (r, s')" by fastforce
  have r: "fst (ModuleWorkContext sample_lib (sample_world 200 no_answer) sample_client initial_state)
      = Inr ''wc-new''"
    by (simp add: ModuleWorkContext_def sample_locked_empty initial_state_def)
  have "client_reach sample_lib (sample_world 200 no_answer) sample_client initial_state"
    by (rule client_reach.start)
  with ModuleWorkContext_current run r show ?thesis by fastforce
qed

text \<open>C3:
  The authority endpoint only ever sees Work Contexts the broker minted. In every state a client
  reaches, whatever it did and whatever sources asked through it in whatever order, each call it has
  made carries the internal token and a sealed Work Context that the broker returned for this client's
  own credentials, unexpired by the clock of the mint, in a mint that lies on the log before the call.
\<close>

theorem Client_presents_only_minted:
  assumes "client_reach L W c s" and "log s = l @ EvCall q # rest"
  shows "\<exists>m pre t k mid. au_header q =
      [(internalTokenHeader, ae_token (c_authority c)), (WorkContextHeader L, m)] \<and> sealed L m \<and>
    l = pre @ mint_events c t @ mid \<and> minted L W c pre t k \<and> mc_Token k = m"
proof -
  from sent.reachable [OF assms(1)] assms(2) have "presented L W c l q"
    by (auto simp: client_inv_def calls_ok_def)
  then show ?thesis
    unfolding presented_def minted_in_def by (auto simp: minted_def) blast
qed

theorem Client_presents_only_minted_witness:
  "\<exists>s l q m. client_reach sample_lib (sample_world 200 no_answer) sample_client s \<and>
     log s = l @ [EvCall q] \<and> au_header q = [(''X-Codefly-Internal-Token'', ''internal''),
       (''X-Codefly-Work-Context'', m)] \<and> sealed sample_lib m"
proof -
  let ?x = "\<lparr>ex_BindingID = ''b'', ex_Parent = [], ex_Lookup = False, ex_DelegationID = ''d''\<rparr>"
  let ?s = "snd (ExchangeOperation sample_lib (sample_world 200 no_answer) sample_client ?x initial_state)"
  have reach: "client_reach sample_lib (sample_world 200 no_answer) sample_client ?s"
    by (intro client_reach.intros)
  have state: "snd (callAsModule sample_lib (sample_world 200 no_answer) sample_client Exchange_procedure
      (exchange_message ?x) initial_state) = ?s"
    by (auto simp: ExchangeOperation_cases one_arm_def attempt_def on_error_def throw_def give_def
        split: prod.splits sum.splits)
  obtain l q where "log ?s = l @ [EvCall q]"
    unfolding state [symmetric] by (subst (asm) sample_first_call) (auto simp: Exchange_procedure_def)
  with Client_presents_only_minted [OF reach this] reach show ?thesis
    by (intro exI [of _ ?s] exI [of _ l] exI [of _ q])
      (auto simp: sample_lib_def internalTokenHeader_def sample_client_def)
qed

text \<open>C12:
  The broker's credentials go nowhere else. For a client either constructor built, every request it
  has ever posted is addressed to the checked gateway base with one of the three mint paths
  appended, carries the internal token and one trimmed projected token of at most 64 KiB, and is
  sent by a client that follows no redirect.
\<close>

theorem Client_posts_only_broker:
  assumes "New L seams credentials = Inr c \<or> NewGatewayAuthority L seams credentials = Inr c"
    and "client_reach L W c s" and "EvPost q \<in> set (log s)"
  shows "\<exists>gw base path t. Gateway seams = Some gw \<and>
    gatewayBaseURL (rune_print L) (gw_BaseURL gw) (AllowInsecureHTTP seams) = Inr base \<and>
    hq_url q = base @ path \<and> path \<in> {workContextPath, operationContextPath, sourceOperationContextPath} \<and>
    hq_method q = ''POST'' \<and> \<not> hq_follow_redirects q \<and> usable_token t \<and> InternalToken seams \<noteq> [] \<and>
    hq_header q = [(''Content-Type'', ''application/json''), (''Accept'', ''application/json''),
      (internalTokenHeader, InternalToken seams), (''Authorization'', bearerScheme @ t)]"
proof -
  have "q \<in> set (posts (log s))"
    using assms(3) by (simp add: posts_mem)
  with sent.reachable [OF assms(2)] obtain path t body where q: "path \<in> mint_paths" "usable_token t"
    "q = broker_request (c_broker c) path t body"
    by (auto simp: client_inv_def broker_ok_def)
  from assms(1) show ?thesis
    by (rule New_broker) (use q in \<open>auto simp: broker_request_def mint_paths_def\<close>)
qed

definition sample_seams :: Seams where
  "sample_seams = \<lparr>Gateway = Some \<lparr>gw_BaseURL = ''https://gw/'', gw_HTTPClient = Some \<lparr>follows_redirects = True\<rparr>\<rparr>,
     seam_Authority = zero_authority, InternalToken = ''internal'', AllowInsecureHTTP = False\<rparr>"

lemma sample_gateway: "gatewayBaseURL (rune_print sample_lib) ''https://gw/'' False = Inr ''https://gw''"
proof -
  have "gatewayBaseURL (\<lambda>_. True) ''https://gw/'' False = Inr ''https://gw''" by code_simp
  then show ?thesis by (simp add: sample_lib_def)
qed

theorem Client_posts_only_broker_witness:
  "\<exists>c s q. NewGatewayAuthority sample_lib sample_seams (c_credentials sample_client) = Inr c \<and>
     client_reach sample_lib (sample_world 200 no_answer) c s \<and> EvPost q \<in> set (log s) \<and>
     hq_method q = ''POST'' \<and> \<not> hq_follow_redirects q \<and>
     hq_url q \<in> {''https://gw'' @ workContextPath, ''https://gw'' @ operationContextPath,
       ''https://gw'' @ sourceOperationContextPath}"
proof -
  let ?W = "sample_world 200 no_answer"
  obtain c where new: "NewGatewayAuthority sample_lib sample_seams (c_credentials sample_client) = Inr c"
    and parts: "c_broker c = c_broker sample_client" "c_credentials c = c_credentials sample_client"
  proof
    have gate: "newBroker sample_lib sample_seams = Inr (c_broker sample_client)"
      by (simp add: newBroker_def sample_seams_def sample_gateway sample_client_def)
    have "Prefix (c_credentials sample_client) \<noteq> []" "cred_Token (c_credentials sample_client) \<noteq> None"
      "OrganizationID (c_credentials sample_client) = []"
      by (simp_all add: sample_client_def)
    then show "NewGatewayAuthority sample_lib sample_seams (c_credentials sample_client) = Inr
        \<lparr>c_broker = c_broker sample_client, c_authority = \<lparr>ae_capabilities = Some
           (NewModuleCapabilitiesServiceClient (br_baseURL (c_broker sample_client) @ ''/modules/_authority'')),
           ae_protocol = ConnectBinary maxBrokerResponse, ae_client = br_client (c_broker sample_client),
           ae_transport = None, ae_token = ''internal''\<rparr>,
         c_credentials = c_credentials sample_client, c_refreshSkew = defaultRefreshSkew\<rparr>"
      by (simp add: NewGatewayAuthority_def New_def gate) (simp add: sample_seams_def)
  qed simp_all
  let ?s = "snd (MintModuleWorkContext sample_lib ?W c initial_state)"
  have "MintModuleWorkContext sample_lib ?W c = MintModuleWorkContext sample_lib ?W sample_client"
    by (simp add: MintModuleWorkContext_def parts)
  then obtain q where q: "EvPost q \<in> set (log ?s)"
    by (simp add: sample_mint initial_state_def)
  have reach: "client_reach sample_lib ?W c ?s"
    by (intro client_reach.intros)
  from Client_posts_only_broker [OF disjI2 [OF new] reach q] new reach q show ?thesis
    by (intro exI [of _ c] exI [of _ ?s] exI [of _ q]) (auto simp: sample_seams_def sample_gateway)
qed

end
