(* ===== verification/MaConcurrent.thy ===== *)
theory MaConcurrent
  imports MaReach
begin

text \<open>
  \<open>callAsModule\<close> by many goroutines at once. The client's mutex is held while the module Work Context
  is read or refreshed, and released while the host is asked, so the calls of different goroutines
  interleave between these regions: a Work Context can be refreshed by one of them while another
  still waits for its answer. A goroutine advances in four turns, and a schedule is any list of turns.
  A region under the mutex is one turn; calls of others that overlap it are ordered before or after it.
\<close>

section \<open>Goroutines\<close>

text \<open>
  A call to make: its endpoint and message, and the error the host answers it with, if any, on a log
  and with a Work Context.
\<close>

record job =
  jb_endpoint :: endpoint
  jb_msg :: authority_msg
  jb_error :: "event list \<Rightarrow> string \<Rightarrow> ma_err option"

definition job_of :: "core_lib \<Rightarrow> world \<Rightarrow> Client \<Rightarrow> ('req, 'res) procedure \<Rightarrow> 'req \<Rightarrow> job" where
  "job_of L W c p msg = \<lparr>jb_endpoint = the (ae_capabilities (c_authority c)) (pr_method p),
     jb_msg = pr_msg p msg,
     jb_error = (\<lambda>l m. case pr_answers p (w_service W) l (call_request L c p msg m) of
        Inl e \<Rightarrow> Some e | Inr _ \<Rightarrow> None)\<rparr>"

text \<open>
  Where a goroutine is: about to ask for the module Work Context, holding one, holding one the host
  rejected, holding the refreshed one with the rejected one, or done with an error or without.
\<close>

datatype phase = Starting | Holding string | Rejected string | Retrying string string
  | Done "ma_err option"

definition job_request :: "core_lib \<Rightarrow> Client \<Rightarrow> job \<Rightarrow> string \<Rightarrow> authority_request" where
  "job_request L c j m = authorityRequest L (c_authority c) (jb_endpoint j) m (jb_msg j)"

fun advance :: "core_lib \<Rightarrow> world \<Rightarrow> Client \<Rightarrow> job \<Rightarrow> phase \<Rightarrow> state \<Rightarrow> phase \<times> state" where
  "advance L W c j Starting s =
     (if \<not> present (c_authority c) then (Done (Some (fail_sentinel ErrNoAuthority)), s)
      else case ModuleWorkContext L W c s of
        (Inl e, s) \<Rightarrow> (Done (Some e), s) | (Inr m, s) \<Rightarrow> (Holding m, s))"
| "advance L W c j (Holding m) s =
     (case jb_error j (log s) m of
        None \<Rightarrow> Done None
      | Some e \<Rightarrow> if CodeOf e \<noteq> CodeUnauthenticated then Done (Some e) else Rejected m,
      s\<lparr>log := log s @ [EvCall (job_request L c j m)]\<rparr>)"
| "advance L W c j (Rejected m) s =
     (case attempt (forgetModuleWorkContext m) (\<lambda>_. moduleWorkContextLocked L W c) s of
        (Inl e, s) \<Rightarrow> (Done (Some e), s) | (Inr m', s) \<Rightarrow> (Retrying m m', s))"
| "advance L W c j (Retrying m m') s =
     (Done (jb_error j (log s) m'), s\<lparr>log := log s @ [EvCall (job_request L c j m')]\<rparr>)"
| "advance L W c j (Done r) s = (Done r, s)"

text \<open>The goroutines over the client they share, with what each has presented to the host.\<close>

record callers =
  shared :: state
  phase_of :: "nat \<Rightarrow> phase"
  shown :: "nat \<Rightarrow> string list"

fun presents :: "phase \<Rightarrow> string list" where
  "presents (Holding m) = [m]"
| "presents (Retrying m m') = [m']"
| "presents _ = []"

text \<open>A turn: of a goroutine that calls, or of one that only reads or mints the Work Context.\<close>

datatype turn = Caller nat | Reader | Minter

fun take_turn :: "core_lib \<Rightarrow> world \<Rightarrow> Client \<Rightarrow> (nat \<Rightarrow> job) \<Rightarrow> turn \<Rightarrow> callers \<Rightarrow> callers" where
  "take_turn L W c jobs (Caller i) g =
     (let (ph, s) = advance L W c (jobs i) (phase_of g i) (shared g)
      in \<lparr>shared = s, phase_of = (phase_of g)(i := ph),
          shown = (shown g)(i := shown g i @ presents (phase_of g i))\<rparr>)"
| "take_turn L W c jobs Reader g = g\<lparr>shared := snd (ModuleWorkContext L W c (shared g))\<rparr>"
| "take_turn L W c jobs Minter g = g\<lparr>shared := snd (MintModuleWorkContext L W c (shared g))\<rparr>"

definition run_turns ::
  "core_lib \<Rightarrow> world \<Rightarrow> Client \<Rightarrow> (nat \<Rightarrow> job) \<Rightarrow> turn list \<Rightarrow> callers \<Rightarrow> callers" where
  "run_turns L W c jobs ts g = fold (take_turn L W c jobs) ts g"

definition callers_on :: "state \<Rightarrow> callers" where
  "callers_on s = \<lparr>shared = s, phase_of = (\<lambda>_. Starting), shown = (\<lambda>_. [])\<rparr>"

section \<open>One goroutine alone\<close>

lemma forget_attempt:
  "attempt (forgetModuleWorkContext m) (\<lambda>_. moduleWorkContextLocked L W c) s
     = moduleWorkContextLocked L W c (forgotten m s)"
  by (simp add: attempt_def forgetModuleWorkContext_def forgotten_def)

lemma job_of_request: "present (c_authority c) \<Longrightarrow> job_request L c (job_of L W c p msg) = call_request L c p msg"
  by (rule ext) (simp add: job_request_def job_of_def call_request_def)

lemma job_of_error:
  "jb_error (job_of L W c p msg) l m =
     (case host_answer W p l (call_request L c p msg m) of Inl e \<Rightarrow> Some e | Inr _ \<Rightarrow> None)"
  by (simp add: job_of_def host_answer_def)

definition failure :: "ma_err + 'a \<Rightarrow> ma_err option" where
  "failure r = (case r of Inl e \<Rightarrow> Some e | Inr _ \<Rightarrow> None)"

text \<open>
  A goroutine that is not interrupted is the sequential call: four turns of it, from its start on any
  shared state, leave that state as \<open>callAsModule\<close> leaves it and the goroutine done with the error
  \<open>callAsModule\<close> returns, or none; no other goroutine has moved.
\<close>

theorem callAsModule_alone:
  assumes "jobs i = job_of L W c p msg" and "phase_of g i = Starting"
  shows "shared (run_turns L W c jobs (replicate 4 (Caller i)) g) = snd (callAsModule L W c p msg (shared g)) \<and>
    phase_of (run_turns L W c jobs (replicate 4 (Caller i)) g) =
      (phase_of g)(i := Done (failure (fst (callAsModule L W c p msg (shared g)))))"
proof -
  obtain r s' where run: "callAsModule L W c p msg (shared g) = (r, s')" by fastforce
  have four: "replicate 4 (Caller i) = [Caller i, Caller i, Caller i, Caller i]"
    by (simp add: numeral_eq_Suc)
  note model = four run_turns_def assms run ModuleWorkContext_def forget_attempt job_of_error
    job_of_request failure_def
  show ?thesis
  proof (cases "present (c_authority c)")
    case False
    with run have "r = Inl (fail_sentinel ErrNoAuthority)" "s' = shared g"
      by (auto simp: callAsModule_def present_def throw_def)
    with False show ?thesis by (simp add: model)
  next
    case True
    from run show ?thesis
      by (cases rule: callAsModule_result) (use True in \<open>auto simp: model rejected_def split: sum.splits\<close>)
  qed
qed

theorem callAsModule_alone_witness:
  "phase_of (run_turns sample_lib (sample_world 200 no_answer) sample_client
     (\<lambda>_. job_of sample_lib (sample_world 200 no_answer) sample_client Exchange_procedure
        \<lparr>xq_BindingId = ''b'', xq_ParentWorkContextToken = ''wc-p'', xq_Lookup = False, xq_DelegationId = []\<rparr>)
     (replicate 4 (Caller 7)) (callers_on stale_state)) 7 = Done None"
proof -
  let ?msg = "\<lparr>xq_BindingId = ''b'', xq_ParentWorkContextToken = ''wc-p'', xq_Lookup = False, xq_DelegationId = []\<rparr>"
  have "phase_of (callers_on stale_state) 7 = Starting" "shared (callers_on stale_state) = stale_state"
    by (simp_all add: callers_on_def)
  with callAsModule_alone [where jobs = "\<lambda>_. job_of sample_lib (sample_world 200 no_answer) sample_client
      Exchange_procedure ?msg", OF refl this(1)] sample_exchange [of no_answer ?msg]
  show ?thesis by (simp add: failure_def)
qed

section \<open>Any schedule\<close>

text \<open>The log holds a call of this job with \<open>m\<close> that the host rejected; what came after it.\<close>

definition refused_at :: "core_lib \<Rightarrow> Client \<Rightarrow> job \<Rightarrow> event list \<Rightarrow> string \<Rightarrow> event list \<Rightarrow> event list \<Rightarrow> bool" where
  "refused_at L c j lg m l rest \<longleftrightarrow> lg = l @ EvCall (job_request L c j m) # rest \<and>
     (\<exists>e. jb_error j l m = Some e \<and> CodeOf e = CodeUnauthenticated)"

text \<open>\<open>m'\<close> is a Work Context to retry with: another one than \<open>m\<close>, or minted after \<open>m\<close> was rejected.\<close>

definition renewed ::
  "core_lib \<Rightarrow> world \<Rightarrow> Client \<Rightarrow> job \<Rightarrow> event list \<Rightarrow> string \<Rightarrow> string \<Rightarrow> bool" where
  "renewed L W c j lg m m' \<longleftrightarrow> (\<exists>l rest. refused_at L c j lg m l rest \<and> (m' \<noteq> m \<or>
     (\<exists>pre t k post. rest = pre @ mint_events c t @ post \<and> mc_Token k = m' \<and>
        minted L W c (l @ EvCall (job_request L c j m) # pre) t k)))"

definition caller_ok ::
  "core_lib \<Rightarrow> world \<Rightarrow> Client \<Rightarrow> job \<Rightarrow> event list \<Rightarrow> phase \<Rightarrow> string list \<Rightarrow> bool" where
  "caller_ok L W c j lg ph sh = (case ph of
       Starting \<Rightarrow> sh = []
     | Holding m \<Rightarrow> sh = [] \<and> minted_in L W c lg m
     | Rejected m \<Rightarrow> sh = [m] \<and> (\<exists>l rest. refused_at L c j lg m l rest)
     | Retrying m m' \<Rightarrow> sh = [m] \<and> minted_in L W c lg m' \<and> renewed L W c j lg m m'
     | Done r \<Rightarrow> length sh \<le> 1 \<or> (\<exists>m m'. sh = [m, m'] \<and> renewed L W c j lg m m'))"

lemma refused_at_append:
  "refused_at L c j lg m l rest \<Longrightarrow> refused_at L c j (lg @ new) m l (rest @ new)"
  by (simp add: refused_at_def)

lemma renewed_append: "renewed L W c j lg m m' \<Longrightarrow> renewed L W c j (lg @ new) m m'"
  unfolding renewed_def using refused_at_append by fastforce

lemma caller_ok_append: "caller_ok L W c j lg ph sh \<Longrightarrow> caller_ok L W c j (lg @ new) ph sh"
  using refused_at_append renewed_append minted_in_append
  by (cases ph) (fastforce simp: caller_ok_def)+

text \<open>A refresh after a rejection.\<close>

lemma refresh_renews:
  assumes "moduleWorkContextLocked L W c (forgotten m s) = (Inr m', s')"
    and "refused_at L c j (log s) m l rest"
  shows "renewed L W c j (log s') m m'"
  using assms(1)
proof (cases rule: moduleWorkContextLocked_result)
  case cached
  then have "m' \<noteq> m" "log s' = log s @ [EvNow]" by (auto simp: forgotten_def split: if_splits)
  with refused_at_append [OF assms(2)] show ?thesis unfolding renewed_def by auto
next
  case (fresh pre t k)
  with assms(2) have "log s' = log s @ pre @ mint_events c t" "mc_Token k = m'"
    "minted L W c (l @ EvCall (job_request L c j m) # rest @ pre) t k"
    by (auto simp: refused_at_def)
  with refused_at_append [OF assms(2), of "pre @ mint_events c t"] show ?thesis
    unfolding renewed_def
    by (intro exI [of _ l] exI [of _ "rest @ pre @ mint_events c t"] conjI disjI2 exI [of _ "rest @ pre"]
        exI [of _ t] exI [of _ k] exI [of _ "[]"]) simp_all
qed simp

lemma locked_extends: "moduleWorkContextLocked L W c s = (r, s') \<Longrightarrow> \<exists>new. log s' = log s @ new"
  using locked_calls by blast

lemma job_request_presented:
  "minted_in L W c l m \<Longrightarrow> presented L W c l (job_request L c j m)"
  by (auto simp: presented_def job_request_def authorityRequest_def)

lemma refused_at_now:
  "jb_error j lg m = Some e \<Longrightarrow> CodeOf e = CodeUnauthenticated \<Longrightarrow>
     refused_at L c j (lg @ [EvCall (job_request L c j m)]) m lg []"
  by (simp add: refused_at_def)

text \<open>One turn of a goroutine: what it keeps, phase by phase.\<close>

definition keeps_turn ::
  "core_lib \<Rightarrow> world \<Rightarrow> Client \<Rightarrow> job \<Rightarrow> state \<Rightarrow> phase \<Rightarrow> state \<Rightarrow> string list \<Rightarrow> bool" where
  "keeps_turn L W c j s ph' s' sh \<longleftrightarrow> client_inv L W c s' \<and> (\<exists>new. log s' = log s @ new) \<and>
     caller_ok L W c j (log s') ph' sh"

lemma advance_Starting:
  assumes "advance L W c j Starting s = (ph', s')" and "client_inv L W c s"
  shows "keeps_turn L W c j s ph' s' []"
proof (cases "present (c_authority c)")
  case True
  obtain r t where run: "moduleWorkContextLocked L W c s = (r, t)" by fastforce
  from sent.locked_keeps [OF this assms(2)] locked_extends [OF run] show ?thesis
    using assms(1) run True by (cases r) (auto simp: keeps_turn_def caller_ok_def ModuleWorkContext_def)
qed (use assms in \<open>auto simp: keeps_turn_def caller_ok_def\<close>)

lemma advance_Holding:
  assumes "advance L W c j (Holding m) s = (ph', s')" and "client_inv L W c s" and "minted_in L W c (log s) m"
  shows "keeps_turn L W c j s ph' s' [m]"
proof -
  from assms(1) have s': "s' = s\<lparr>log := log s @ [EvCall (job_request L c j m)]\<rparr>" by auto
  have "client_inv L W c s'"
    unfolding s' by (rule sent.called [OF assms(2) job_request_presented [OF assms(3)]])
  moreover have "caller_ok L W c j (log s') ph' [m]"
  proof (cases "\<exists>e. jb_error j (log s) m = Some e \<and> CodeOf e = CodeUnauthenticated")
    case True
    with refused_at_now assms(1) show ?thesis
      unfolding s' by (fastforce simp: caller_ok_def)
  next
    case False
    with assms(1) show ?thesis by (auto simp: caller_ok_def split: option.splits if_splits)
  qed
  ultimately show ?thesis using s' by (simp add: keeps_turn_def)
qed

lemma advance_Rejected:
  assumes "advance L W c j (Rejected m) s = (ph', s')" and "client_inv L W c s"
    and "refused_at L c j (log s) m l rest"
  shows "keeps_turn L W c j s ph' s' [m]"
proof -
  obtain r t where run: "moduleWorkContextLocked L W c (forgotten m s) = (r, t)" by fastforce
  from sent.locked_keeps [OF run sent.forgets [OF assms(2)]] have t: "client_inv L W c t"
    "\<And>m'. r = Inr m' \<Longrightarrow> minted_in L W c (log t) m'" by simp_all
  from locked_extends [OF run] obtain new where "log t = log s @ new" by auto
  with t refresh_renews [of L W c m s _ t j l rest] run assms(1,3) show ?thesis
    by (cases r) (auto simp: keeps_turn_def forget_attempt caller_ok_def)
qed

lemma advance_Retrying:
  assumes "advance L W c j (Retrying m m') s = (ph', s')" and "client_inv L W c s"
    and "minted_in L W c (log s) m'" and "renewed L W c j (log s) m m'"
  shows "keeps_turn L W c j s ph' s' [m, m']"
proof -
  from assms(1) have s': "s' = s\<lparr>log := log s @ [EvCall (job_request L c j m')]\<rparr>"
    "ph' = Done (jb_error j (log s) m')" by auto
  have "client_inv L W c s'"
    unfolding s' by (rule sent.called [OF assms(2) job_request_presented [OF assms(3)]])
  with renewed_append [OF assms(4)] s' show ?thesis by (auto simp: keeps_turn_def caller_ok_def)
qed

lemma advance_ok:
  assumes "advance L W c j ph s = (ph', s')" and "client_inv L W c s" and "caller_ok L W c j (log s) ph sh"
  shows "keeps_turn L W c j s ph' s' (sh @ presents ph)"
proof (cases ph)
  case (Done r)
  with assms show ?thesis by (auto simp: keeps_turn_def)
qed (use assms advance_Starting advance_Holding advance_Rejected advance_Retrying in
    \<open>auto simp: caller_ok_def simp del: advance.simps\<close>)

definition callers_ok :: "core_lib \<Rightarrow> world \<Rightarrow> Client \<Rightarrow> (nat \<Rightarrow> job) \<Rightarrow> callers \<Rightarrow> bool" where
  "callers_ok L W c jobs g \<longleftrightarrow> client_inv L W c (shared g) \<and>
     (\<forall>i. caller_ok L W c (jobs i) (log (shared g)) (phase_of g i) (shown g i))"

lemma mint_extends: "\<exists>new. log (snd (MintModuleWorkContext L W c s)) = log s @ new"
proof -
  obtain r s' where run: "MintModuleWorkContext L W c s = (r, s')" by fastforce
  then show ?thesis by (cases rule: MintModuleWorkContext_result) (use run in auto)
qed

lemma take_turn_ok: "callers_ok L W c jobs g \<Longrightarrow> callers_ok L W c jobs (take_turn L W c jobs t g)"
proof (cases t)
  case (Caller i)
  assume ok: "callers_ok L W c jobs g"
  obtain ph s where a: "advance L W c (jobs i) (phase_of g i) (shared g) = (ph, s)" by fastforce
  from advance_ok [OF a] ok obtain new where s: "client_inv L W c s" "log s = log (shared g) @ new"
    "caller_ok L W c (jobs i) (log s) ph (shown g i @ presents (phase_of g i))"
    unfolding callers_ok_def keeps_turn_def by blast
  with ok Caller a show ?thesis
    by (auto simp: callers_ok_def Let_def intro: caller_ok_append)
next
  case Reader
  assume ok: "callers_ok L W c jobs g"
  obtain r s where run: "moduleWorkContextLocked L W c (shared g) = (r, s)" by fastforce
  from locked_extends [OF this] obtain new where "log s = log (shared g) @ new" by blast
  with sent.locked_keeps [OF run] ok Reader run show ?thesis
    by (auto simp: callers_ok_def ModuleWorkContext_def intro: caller_ok_append)
next
  case Minter
  assume ok: "callers_ok L W c jobs g"
  from mint_extends obtain new where "log (snd (MintModuleWorkContext L W c (shared g))) = log (shared g) @ new"
    by blast
  with sent.mint_keeps ok Minter show ?thesis by (auto simp: callers_ok_def intro: caller_ok_append)
qed

lemma run_turns_ok: "callers_ok L W c jobs g \<Longrightarrow> callers_ok L W c jobs (run_turns L W c jobs ts g)"
  unfolding run_turns_def by (induction ts arbitrary: g) (simp_all add: take_turn_ok)

lemma callers_on_ok: "client_reach L W c s \<Longrightarrow> callers_ok L W c jobs (callers_on s)"
  by (simp add: callers_ok_def callers_on_def caller_ok_def sent.reachable)

text \<open>
  Concurrent calls. From any state the client has reached, and for any schedule of any number of
  goroutines, every call on the log carries a sealed Work Context that was minted for this client
  earlier on the log. A goroutine presents at most two; and when it presents a second one, the host
  had rejected its first, and the second is another one or was minted after that rejection, also when
  the refresh was made by another goroutine in between.
\<close>

theorem concurrent_calls:
  assumes "client_reach L W c s" and "run_turns L W c jobs ts (callers_on s) = g"
  shows "(\<forall>l q rest. log (shared g) = l @ EvCall q # rest \<longrightarrow> presented L W c l q) \<and>
    length (shown g i) \<le> 2 \<and>
    (\<forall>m m'. shown g i = [m, m'] \<longrightarrow> renewed L W c (jobs i) (log (shared g)) m m')"
proof -
  from run_turns_ok [OF callers_on_ok [OF assms(1)]] assms(2) have "callers_ok L W c jobs g" by metis
  then have "calls_ok L W c (log (shared g))" "caller_ok L W c (jobs i) (log (shared g)) (phase_of g i) (shown g i)"
    by (simp_all add: callers_ok_def client_inv_def)
  then show ?thesis by (cases "phase_of g i") (auto simp: caller_ok_def calls_ok_def)
qed

section \<open>One refresh for all\<close>

text \<open>Every mint succeeds, with a token other than \<open>old\<close> that no clock reading makes stale.\<close>

definition mints_lasting :: "core_lib \<Rightarrow> world \<Rightarrow> Client \<Rightarrow> string \<Rightarrow> bool" where
  "mints_lasting L W c old \<longleftrightarrow> (\<forall>s. \<exists>t k. MintModuleWorkContext L W c s =
       (Inr k, s\<lparr>log := log s @ mint_events c t\<rparr>) \<and> mc_Token k \<notin> {old, []} \<and>
       (\<forall>l. w_now W l + c_refreshSkew c < mc_ExpiresAt k))"

definition steady :: "world \<Rightarrow> Client \<Rightarrow> state \<Rightarrow> bool" where
  "steady W c s \<longleftrightarrow> c_module s \<noteq> [] \<and> (\<forall>l. w_now W l + c_refreshSkew c < c_expiresAt s)"

lemma steady_log [simp]: "steady W c (s\<lparr>log := l\<rparr>) = steady W c s"
  by (simp add: steady_def)

lemma locked_steady:
  "steady W c s \<Longrightarrow> moduleWorkContextLocked L W c s = (Inr (c_module s), s\<lparr>log := log s @ [EvNow]\<rparr>)"
  by (simp add: moduleWorkContextLocked_def steady_def attempt_def clock_def happens_def)

text \<open>The broker has been asked once exactly when the old Work Context is gone.\<close>

definition one_refresh :: "world \<Rightarrow> Client \<Rightarrow> nat \<Rightarrow> string \<Rightarrow> callers \<Rightarrow> bool" where
  "one_refresh W c n old g \<longleftrightarrow> steady W c (shared g) \<and>
     length (posts (log (shared g))) = (if c_module (shared g) = old then n else n + 1) \<and>
     (\<forall>i m. phase_of g i = Rejected m \<longrightarrow> m = old)"

lemma refresh_once:
  assumes "mints_lasting L W c old" and "steady W c s"
  shows "\<exists>m s'. moduleWorkContextLocked L W c (forgotten old s) = (Inr m, s') \<and> steady W c s' \<and>
    c_module s' \<noteq> old \<and>
    length (posts (log s')) = length (posts (log s)) + (if c_module s = old then 1 else 0)"
proof (cases "c_module s = old")
  case True
  from assms(1) obtain t k where mint: "MintModuleWorkContext L W c (forgotten old s) =
      (Inr k, (forgotten old s)\<lparr>log := log (forgotten old s) @ mint_events c t\<rparr>)"
    "mc_Token k \<notin> {old, []}" "\<forall>l. w_now W l + c_refreshSkew c < mc_ExpiresAt k"
    unfolding mints_lasting_def by blast
  from True mint show ?thesis
    by (simp add: moduleWorkContextLocked_def refreshModule_def attempt_def steady_def forgotten_def)
next
  case False
  then have "forgotten old s = s" by (simp add: forgotten_def)
  with False assms(2) locked_steady [OF assms(2)] show ?thesis by auto
qed

lemma take_turn_one_refresh:
  assumes "mints_lasting L W c old" and "\<And>l m e. jb_error (jobs i) l m = Some e \<Longrightarrow>
      CodeOf e = CodeUnauthenticated \<Longrightarrow> m = old" and "one_refresh W c n old g"
  shows "one_refresh W c n old (take_turn L W c jobs (Caller i) g)"
proof (cases "phase_of g i")
  case Starting
  with assms(3) locked_steady [of W c "shared g" L] show ?thesis
    by (auto simp: one_refresh_def ModuleWorkContext_def)
next
  case (Holding m)
  with assms(2,3) show ?thesis by (auto simp: one_refresh_def split: option.splits)
next
  case (Rejected m)
  with assms(3) have m: "m = old" "steady W c (shared g)" by (auto simp: one_refresh_def)
  from refresh_once [OF assms(1) m(2)] obtain m' s' where run:
    "moduleWorkContextLocked L W c (forgotten old (shared g)) = (Inr m', s')" and s': "steady W c s'"
    "c_module s' \<noteq> old" "length (posts (log s')) =
      length (posts (log (shared g))) + (if c_module (shared g) = old then 1 else 0)" by blast
  have "take_turn L W c jobs (Caller i) g = \<lparr>shared = s', phase_of = (phase_of g)(i := Retrying old m'),
      shown = (shown g)(i := shown g i)\<rparr>"
    by (simp add: Rejected m(1) forget_attempt run)
  with s' assms(3) show ?thesis by (simp add: one_refresh_def)
next
  case (Retrying m m')
  with assms(3) show ?thesis by (auto simp: one_refresh_def)
next
  case (Done r)
  with assms(3) show ?thesis by (auto simp: one_refresh_def)
qed

lemma run_one_refresh:
  assumes "mints_lasting L W c old" and "\<And>i l m e. jb_error (jobs i) l m = Some e \<Longrightarrow>
      CodeOf e = CodeUnauthenticated \<Longrightarrow> m = old" and "one_refresh W c n old g"
  shows "one_refresh W c n old (run_turns L W c jobs (map Caller is) g)"
  using assms(3) unfolding run_turns_def
proof (induction "is" arbitrary: g)
  case (Cons i js)
  from take_turn_one_refresh [where g = g and i = i, OF assms(1,2) Cons.prems] Cons.IH
  show ?case by (simp del: take_turn.simps)
qed simp

text \<open>
  Concurrent callers share one refresh. When the host rejects only the Work Context that is cached,
  and the broker's mints succeed with lasting ones, then however many goroutines call, and whatever
  the order of their turns, the broker is asked at most once: exactly once when the cached Work
  Context has changed, and not at all while it has not.
\<close>

theorem one_refresh_for_all:
  assumes "mints_lasting L W c (c_module s)" and "steady W c s"
    and "\<And>i l m e. jb_error (jobs i) l m = Some e \<Longrightarrow> CodeOf e = CodeUnauthenticated \<Longrightarrow> m = c_module s"
    and "run_turns L W c jobs (map Caller is) (callers_on s) = g"
  shows "length (posts (log (shared g))) =
    length (posts (log s)) + (if c_module (shared g) = c_module s then 0 else 1)"
proof -
  have "one_refresh W c (length (posts (log s))) (c_module s) (callers_on s)"
    using assms(2) by (simp add: one_refresh_def callers_on_def)
  from run_one_refresh [OF assms(1,3) this] assms(4) show ?thesis by (auto simp: one_refresh_def)
qed

section \<open>A sample schedule\<close>

text \<open>The sample host with a clock that stands still, and callers of its exchange.\<close>

definition still_world :: world where
  "still_world = (sample_world 200 no_answer)\<lparr>w_now := \<lambda>_. 0\<rparr>"

definition exchange_job :: job where
  "exchange_job = job_of sample_lib still_world sample_client Exchange_procedure
     \<lparr>xq_BindingId = ''b'', xq_ParentWorkContextToken = [], xq_Lookup = False, xq_DelegationId = ''d''\<rparr>"

lemma still_parts:
  "projectedToken still_world cr = projectedToken (sample_world 200 no_answer) cr"
  "post L still_world b path t body = post L (sample_world 200 no_answer) b path t body"
  "clock still_world s = (Inr 0, s\<lparr>log := log s @ [EvNow]\<rparr>)"
proof -
  have tokens: "ProjectedToken still_world = ProjectedToken (sample_world 200 no_answer)"
    by (intro ext) (simp add: still_world_def ProjectedToken_def ProjectedTokenFile_ProjectedToken_def
        cong: token_source.case_cong if_cong)
  show "projectedToken still_world cr = projectedToken (sample_world 200 no_answer) cr"
    unfolding projectedToken_def tokens ..
next
  have http: "w_http still_world = w_http (sample_world 200 no_answer)"
    by (simp add: still_world_def)
  show "post L still_world b path t body = post L (sample_world 200 no_answer) b path t body"
    unfolding post_def http ..
qed (simp add: still_world_def clock_def happens_def)

lemma still_mint:
  "MintModuleWorkContext sample_lib still_world sample_client s =
     (Inr \<lparr>mc_Token = ''wc-new'', mc_ExpiresAt = 900000000000\<rparr>,
      s\<lparr>log := log s @ mint_events sample_client ''tok''\<rparr>)"
  by (simp add: MintModuleWorkContext_def still_parts attempt_def on_error_def sample_post Let_def
      workContextResponse_of_def sample_new give_def)
    (simp add: sample_client_def mint_events_def mint_request_def)

lemma still_lasting: "mints_lasting sample_lib still_world sample_client ''wc-old''"
  unfolding mints_lasting_def
  by (intro allI exI conjI, rule still_mint) (simp_all add: still_world_def)

lemma still_steady: "steady still_world sample_client stale_state"
  by (simp add: steady_def stale_state_def still_world_def)

lemma gate_opens:
  "m \<noteq> ''wc-old'' \<Longrightarrow> sample_gate x l (authorityRequest sample_lib a ep m wire) = Inr (Some x)"
  by (auto simp: sample_gate_def authorityRequest_def sample_lib_def internalTokenHeader_def)

lemma exchange_rejected:
  assumes "jb_error exchange_job l m = Some e"
  shows "m = ''wc-old''"
proof (rule ccontr)
  assume "m \<noteq> ''wc-old''"
  with assms show False
    by (simp add: gate_opens exchange_job_def job_of_error host_answer_def still_world_def Exchange_procedure_def
        call_request_def sample_world_def sample_service_def)
qed

theorem one_refresh_for_all_witness:
  "length (posts (log (shared (run_turns sample_lib still_world sample_client (\<lambda>_. exchange_job)
     (map Caller [0, 1, 1, 0, 0, 1, 2, 1, 0]) (callers_on stale_state))))) \<le> 1"
proof -
  have old: "c_module stale_state = ''wc-old''" "posts (log stale_state) = []"
    by (simp_all add: stale_state_def)
  from one_refresh_for_all [OF still_lasting [folded old(1)] still_steady _ refl,
      of "\<lambda>_. exchange_job" "[0, 1, 1, 0, 0, 1, 2, 1, 0]"] exchange_rejected old
  show ?thesis by fastforce
qed

lemma still_locked_empty:
  assumes "c_module s = []"
  shows "moduleWorkContextLocked sample_lib still_world sample_client s = (Inr ''wc-new'',
     s\<lparr>log := log s @ mint_events sample_client ''tok'', c_module := ''wc-new'', c_expiresAt := 900000000000\<rparr>)"
  using assms by (simp add: moduleWorkContextLocked_def refreshModule_def attempt_def still_mint)

text \<open>A host that rejects every call until six events have passed.\<close>

definition early_job :: job where
  "early_job = exchange_job\<lparr>jb_error := \<lambda>l _. if length l < 6 then Some unauthenticated else None\<rparr>"

lemma sample_present: "present (c_authority sample_client)"
  by (simp add: present_def sample_client_def)

theorem concurrent_calls_witness:
  "\<exists>g. run_turns sample_lib still_world sample_client (\<lambda>_. early_job)
       (map Caller [0, 1, 0, 1, 0, 1, 0, 1]) (callers_on initial_state) = g \<and>
     shown g 0 = [''wc-new'', ''wc-new''] \<and>
     renewed sample_lib still_world sample_client early_job (log (shared g)) ''wc-new'' ''wc-new''"
proof -
  let ?g = "run_turns sample_lib still_world sample_client (\<lambda>_. early_job)
       (map Caller [0, 1, 0, 1, 0, 1, 0, 1]) (callers_on initial_state)"
  have "CodeOf unauthenticated = CodeUnauthenticated" by code_simp
  then have "shown ?g 0 = [''wc-new'', ''wc-new'']"
    by (simp add: run_turns_def callers_on_def sample_present ModuleWorkContext_def still_locked_empty
        initial_state_def locked_steady steady_def still_world_def [THEN arg_cong, of w_now] early_job_def
        forget_attempt forgotten_def mint_events_def)
  with concurrent_calls [OF client_reach.start refl, of sample_lib still_world sample_client "\<lambda>_. early_job"
      "map Caller [0, 1, 0, 1, 0, 1, 0, 1]" 0]
  show ?thesis by blast
qed

end
