(* ===== verification/MaLocked.thy ===== *)
theory MaLocked
  imports MaConcurrent
begin

text \<open>
  The client's mutex step by step. Theory MaConcurrent takes a region under the mutex as one turn;
  here every statement of it is a turn of its own: waiting for the mutex, forgetting the rejected Work
  Context, the two reads of the cache, the token read, the broker request, the clock read, the two
  writes of the cache and the release. Between any two of them any other goroutine may move: one that
  calls, one that reads the module Work Context, or one that mints without the mutex. \<open>holder\<close> is who
  has the mutex; taking it when it is held is a turn that changes nothing, which is how waiting is
  modelled.
\<close>

section \<open>Goroutines\<close>

text \<open>A mint, one interaction with the world at a time: the token, the broker request, the clock.\<close>

datatype mint_stage = AtToken | AtPost string | AtExpiry "string \<Rightarrow> string"

fun mint_step ::
  "world \<Rightarrow> Credentials \<Rightarrow> (string \<Rightarrow> (string \<Rightarrow> string) op) \<Rightarrow> (ma_err \<Rightarrow> ma_err) \<Rightarrow>
     ((string \<Rightarrow> string) \<Rightarrow> gotime \<Rightarrow> ma_err + 'a) \<Rightarrow> mint_stage \<Rightarrow> state \<Rightarrow>
     (mint_stage + (ma_err + 'a)) \<times> state" where
  "mint_step W cr P wrap fin AtToken s = (case projectedToken W cr s of
       (Inl e, s) \<Rightarrow> (Inr (Inl e), s) | (Inr t, s) \<Rightarrow> (Inl (AtPost t), s))"
| "mint_step W cr P wrap fin (AtPost t) s = (case P t s of
       (Inl e, s) \<Rightarrow> (Inr (Inl (wrap e)), s) | (Inr out, s) \<Rightarrow> (Inl (AtExpiry out), s))"
| "mint_step W cr P wrap fin (AtExpiry out) s =
     (Inr (fin out (w_now W (log s))), s\<lparr>log := log s @ [EvNow]\<rparr>)"

definition module_mint_step ::
  "core_lib \<Rightarrow> world \<Rightarrow> Client \<Rightarrow> mint_stage \<Rightarrow> state \<Rightarrow> (mint_stage + (ma_err + ModuleContext)) \<times> state"
where
  "module_mint_step L W c = mint_step W (c_credentials c)
     (\<lambda>t. post L W (c_broker c) workContextPath t
        (workContextRequest (Prefix (c_credentials c)) (OrganizationID (c_credentials c))))
     (\<lambda>e. contextf ''module authority: mint module Work Context'' (brokerRefusal e)) (module_capability L)"

text \<open>Where a goroutine is while it holds the mutex.\<close>

datatype region = Forgetting | Looking | Timing | Minting mint_stage
  | SetToken ModuleContext | SetExpiry ModuleContext | Unlocking "ma_err + string"

text \<open>One statement of the region; the rejected Work Context is there on the retry only.\<close>

fun region_step ::
  "core_lib \<Rightarrow> world \<Rightarrow> Client \<Rightarrow> string option \<Rightarrow> region \<Rightarrow> state \<Rightarrow> (region + (ma_err + string)) \<times> state"
where
  "region_step L W c rej Forgetting s =
     (Inl Looking, case rej of None \<Rightarrow> s | Some m \<Rightarrow> snd (forgetModuleWorkContext m s))"
| "region_step L W c rej Looking s = (Inl (if c_module s \<noteq> [] then Timing else Minting AtToken), s)"
| "region_step L W c rej Timing s =
     (Inl (if w_now W (log s) + c_refreshSkew c < c_expiresAt s then Unlocking (Inr (c_module s))
           else Minting AtToken), s\<lparr>log := log s @ [EvNow]\<rparr>)"
| "region_step L W c rej (Minting st) s = (case module_mint_step L W c st s of
       (Inl st', s) \<Rightarrow> (Inl (Minting st'), s)
     | (Inr (Inl e), s) \<Rightarrow> (Inl (Unlocking (Inl e)), s)
     | (Inr (Inr k), s) \<Rightarrow> (Inl (SetToken k), s))"
| "region_step L W c rej (SetToken k) s = (Inl (SetExpiry k), s\<lparr>c_module := mc_Token k\<rparr>)"
| "region_step L W c rej (SetExpiry k) s =
     (Inl (Unlocking (Inr (mc_Token k))), s\<lparr>c_expiresAt := mc_ExpiresAt k\<rparr>)"
| "region_step L W c rej (Unlocking res) s = (Inr res, s)"

text \<open>
  What a goroutine has to do: a call of the authority endpoint, \<open>ModuleWorkContext\<close>, or a mint, which
  takes no mutex. A call's answer is the host's, on a log and with a Work Context.
\<close>

record 'r call_task =
  ct_endpoint :: endpoint
  ct_msg :: authority_msg
  ct_answer :: "event list \<Rightarrow> string \<Rightarrow> ma_err + 'r"

record 'r mint_task =
  mt_refusal :: "ma_err option"
  mt_path :: string
  mt_body :: "(string \<times> string) list"
  mt_wrap :: "ma_err \<Rightarrow> ma_err"
  mt_check :: "(string \<Rightarrow> string) \<Rightarrow> gotime \<Rightarrow> ma_err + 'r"

datatype 'r task = Calls "'r call_task" | Reads "string \<Rightarrow> 'r" | Mints "'r mint_task"

definition task_request :: "core_lib \<Rightarrow> Client \<Rightarrow> 'r call_task \<Rightarrow> string \<Rightarrow> authority_request" where
  "task_request L c j m = authorityRequest L (c_authority c) (ct_endpoint j) m (ct_msg j)"

datatype 'r place = Entering | Locking "string option" | Inside "string option" region
  | Calling "string option" string | Unlocked mint_stage | Finished "ma_err + 'r"

definition leave :: "'r task \<Rightarrow> string option \<Rightarrow> ma_err + string \<Rightarrow> 'r place" where
  "leave k rej res = (case res of Inl e \<Rightarrow> Finished (Inl e)
     | Inr m \<Rightarrow> (case k of Reads f \<Rightarrow> Finished (Inr (f m)) | _ \<Rightarrow> Calling rej m))"

fun micro ::
  "core_lib \<Rightarrow> world \<Rightarrow> Client \<Rightarrow> nat \<Rightarrow> 'r task \<Rightarrow> 'r place \<Rightarrow> nat option \<Rightarrow> state \<Rightarrow>
     'r place \<times> nat option \<times> state" where
  "micro L W c i k Entering h s = (case k of
       Calls j \<Rightarrow> (if present (c_authority c) then Locking None
          else Finished (Inl (fail_sentinel ErrNoAuthority)))
     | Reads f \<Rightarrow> Locking None
     | Mints q \<Rightarrow> (case mt_refusal q of Some e \<Rightarrow> Finished (Inl e) | None \<Rightarrow> Unlocked AtToken), h, s)"
| "micro L W c i k (Locking rej) h s =
     (if h = None then (Inside rej Forgetting, Some i, s) else (Locking rej, h, s))"
| "micro L W c i k (Inside rej st) h s = (case region_step L W c rej st s of
       (Inl st', s) \<Rightarrow> (Inside rej st', h, s)
     | (Inr res, s) \<Rightarrow> (leave k rej res, None, s))"
| "micro L W c i k (Calling rej m) h s = (case k of
       Calls j \<Rightarrow> (case ct_answer j (log s) m of
            Inr x \<Rightarrow> Finished (Inr x)
          | Inl e \<Rightarrow> (if rej = None \<and> CodeOf e = CodeUnauthenticated then Locking (Some m)
              else Finished (Inl e)), h, s\<lparr>log := log s @ [EvCall (task_request L c j m)]\<rparr>)
     | _ \<Rightarrow> (Calling rej m, h, s))"
| "micro L W c i k (Unlocked st) h s = (case k of
       Mints q \<Rightarrow> (case mint_step W (c_credentials c)
            (\<lambda>t. post L W (c_broker c) (mt_path q) t (mt_body q)) (mt_wrap q) (mt_check q) st s of
          (Inl st', s) \<Rightarrow> (Unlocked st', h, s) | (Inr r, s) \<Rightarrow> (Finished r, h, s))
     | _ \<Rightarrow> (Unlocked st, h, s))"
| "micro L W c i k (Finished r) h s = (Finished r, h, s)"

text \<open>
  The goroutines over the client they share; \<open>offered\<close> is the Work Contexts each has presented to the
  host. A schedule is any list of goroutines, one turn each.
\<close>

record 'r system =
  cell :: state
  holder :: "nat option"
  place_of :: "nat \<Rightarrow> 'r place"
  offered :: "nat \<Rightarrow> string list"

fun carries :: "'r place \<Rightarrow> string list" where
  "carries (Calling rej m) = [m]"
| "carries _ = []"

definition micro_turn ::
  "core_lib \<Rightarrow> world \<Rightarrow> Client \<Rightarrow> (nat \<Rightarrow> 'r task) \<Rightarrow> nat \<Rightarrow> 'r system \<Rightarrow> 'r system" where
  "micro_turn L W c tasks i g =
     (let (p, h, s) = micro L W c i (tasks i) (place_of g i) (holder g) (cell g)
      in \<lparr>cell = s, holder = h, place_of = (place_of g)(i := p),
          offered = (offered g)(i := offered g i @ carries (place_of g i))\<rparr>)"

definition interleave ::
  "core_lib \<Rightarrow> world \<Rightarrow> Client \<Rightarrow> (nat \<Rightarrow> 'r task) \<Rightarrow> nat list \<Rightarrow> 'r system \<Rightarrow> 'r system" where
  "interleave L W c tasks is g = fold (micro_turn L W c tasks) is g"

definition system_on :: "state \<Rightarrow> 'r system" where
  "system_on s = \<lparr>cell = s, holder = None, place_of = (\<lambda>_. Entering), offered = (\<lambda>_. [])\<rparr>"

text \<open>The tasks of the code: a procedure of the endpoint, and the three mints.\<close>

definition call_of ::
  "core_lib \<Rightarrow> world \<Rightarrow> Client \<Rightarrow> ('req, 'res) procedure \<Rightarrow> 'req \<Rightarrow> ('res option \<Rightarrow> 'r) \<Rightarrow> 'r call_task" where
  "call_of L W c p msg f = \<lparr>ct_endpoint = the (ae_capabilities (c_authority c)) (pr_method p),
     ct_msg = pr_msg p msg,
     ct_answer = (\<lambda>l m. map_sum id f (pr_answers p (w_service W) l (call_request L c p msg m)))\<rparr>"

definition module_mint :: "core_lib \<Rightarrow> Client \<Rightarrow> (ModuleContext \<Rightarrow> 'r) \<Rightarrow> 'r mint_task" where
  "module_mint L c f = \<lparr>mt_refusal = None, mt_path = workContextPath,
     mt_body = workContextRequest (Prefix (c_credentials c)) (OrganizationID (c_credentials c)),
     mt_wrap = (\<lambda>e. contextf ''module authority: mint module Work Context'' (brokerRefusal e)),
     mt_check = (\<lambda>out now. map_sum id f (module_capability L out now))\<rparr>"

definition operation_check ::
  "core_lib \<Rightarrow> string \<Rightarrow> (string \<Rightarrow> string) \<Rightarrow> gotime \<Rightarrow> ma_err + OperationContext" where
  "operation_check L bindingID out now = (case operationContext L (operationContextResponse_of out) now of
       Inl e \<Rightarrow> Inl e
     | Inr op \<Rightarrow> (if BindingID op \<noteq> bindingID
         then Inl (detailf ErrInvalidCapability ''issued for another binding'') else Inr op))"

definition operation_mint :: "core_lib \<Rightarrow> Client \<Rightarrow> string \<Rightarrow> (OperationContext \<Rightarrow> 'r) \<Rightarrow> 'r mint_task" where
  "operation_mint L c bindingID f =
     \<lparr>mt_refusal = (if bindingID = [] then Some (fail_sentinel ErrInvalidExchange) else None),
     mt_path = operationContextPath,
     mt_body = operationContextRequest (Prefix (c_credentials c)) bindingID
       (OrganizationID (c_credentials c)),
     mt_wrap = (\<lambda>e. contextf ''module authority: mint operation context'' (brokerRefusal e)),
     mt_check = (\<lambda>out now. map_sum id f (operation_check L bindingID out now))\<rparr>"

definition source_check ::
  "core_lib \<Rightarrow> string \<Rightarrow> (string \<Rightarrow> string) \<Rightarrow> gotime \<Rightarrow> ma_err + SourceOperationContext" where
  "source_check L sourceID out now = (let issued = sourceOperationContextResponse_of out in
     case operationContext L (sr_operationContextResponse issued) now of
       Inl e \<Rightarrow> Inl e
     | Inr op \<Rightarrow> (if sr_SourceID issued \<noteq> sourceID
         then Inl (detailf ErrInvalidCapability ''issued for another source'')
         else if Tenant op = [] \<or> sr_OwnerPrincipalID issued = [] \<or> sr_DelegationID issued = []
         then Inl (detailf ErrInvalidCapability ''missing tenant, owner or delegation'')
         else Inr \<lparr>so_OperationContext = op, so_OwnerPrincipalID = sr_OwnerPrincipalID issued,
                so_DelegationID = sr_DelegationID issued, so_SourceID = sr_SourceID issued\<rparr>))"

definition source_mint :: "core_lib \<Rightarrow> Client \<Rightarrow> string \<Rightarrow> (SourceOperationContext \<Rightarrow> 'r) \<Rightarrow> 'r mint_task" where
  "source_mint L c sourceID f =
     \<lparr>mt_refusal = (if sourceID = [] then Some (fail_sentinel ErrInvalidExchange) else None),
     mt_path = sourceOperationContextPath,
     mt_body = sourceOperationContextRequest (Prefix (c_credentials c)) sourceID,
     mt_wrap = source_failure,
     mt_check = (\<lambda>out now. map_sum id f (source_check L sourceID out now))\<rparr>"

section \<open>One goroutine alone\<close>

text \<open>Turns of one goroutine, on its place, the mutex and the state.\<close>

definition solo ::
  "core_lib \<Rightarrow> world \<Rightarrow> Client \<Rightarrow> nat \<Rightarrow> 'r task \<Rightarrow> 'r place \<times> nat option \<times> state \<Rightarrow>
     'r place \<times> nat option \<times> state" where
  "solo L W c i k = (\<lambda>(p, h, s). micro L W c i k p h s)"

definition reaches ::
  "core_lib \<Rightarrow> world \<Rightarrow> Client \<Rightarrow> nat \<Rightarrow> 'r task \<Rightarrow> nat \<Rightarrow> 'r place \<times> nat option \<times> state \<Rightarrow>
     'r place \<times> nat option \<times> state \<Rightarrow> bool" where
  "reaches L W c i k b x y \<longleftrightarrow> (\<exists>n\<le>b. (solo L W c i k ^^ n) x = y)"

lemma reaches_0: "reaches L W c i k 0 x y \<longleftrightarrow> x = y"
  by (auto simp: reaches_def)

lemma reaches_Suc: "reaches L W c i k (Suc b) x y \<longleftrightarrow> x = y \<or> reaches L W c i k b (solo L W c i k x) y"
proof
  assume "reaches L W c i k (Suc b) x y"
  then obtain n where n: "n \<le> Suc b" "(solo L W c i k ^^ n) x = y" by (auto simp: reaches_def)
  then show "x = y \<or> reaches L W c i k b (solo L W c i k x) y"
    by (cases n) (auto simp: reaches_def funpow_swap1)
next
  assume "x = y \<or> reaches L W c i k b (solo L W c i k x) y"
  then show "reaches L W c i k (Suc b) x y"
  proof
    assume "reaches L W c i k b (solo L W c i k x) y"
    then obtain n where "n \<le> b" "(solo L W c i k ^^ n) (solo L W c i k x) = y" by (auto simp: reaches_def)
    then show ?thesis unfolding reaches_def by (intro exI [of _ "Suc n"]) (simp add: funpow_swap1)
  qed (auto simp: reaches_def intro: exI [of _ 0])
qed

lemmas reaches_run = reaches_0 reaches_Suc eval_nat_numeral

lemma reaches_trans:
  "reaches L W c i k b x y \<Longrightarrow> reaches L W c i k d y z \<Longrightarrow> reaches L W c i k (b + d) x z"
proof -
  assume "reaches L W c i k b x y" and "reaches L W c i k d y z"
  then obtain n m where "n \<le> b" "m \<le> d" "(solo L W c i k ^^ (m + n)) x = z"
    by (auto simp: reaches_def funpow_add)
  then show ?thesis unfolding reaches_def by (intro exI [of _ "m + n"]) simp
qed

lemma reaches_more:
  assumes "reaches L W c i k b x y" and "b \<le> d"
  shows "reaches L W c i k d x y"
proof -
  from assms(1) obtain n where "n \<le> b" "(solo L W c i k ^^ n) x = y" unfolding reaches_def by blast
  with assms(2) show ?thesis unfolding reaches_def by (intro exI [of _ n]) simp
qed

lemma solo_simps [simp]: "solo L W c i k (p, h, s) = micro L W c i k p h s"
  by (simp add: solo_def)

lemma solo_stays: "(solo L W c i k ^^ n) (Finished r, h, s) = (Finished r, h, s)"
  by (induction n) simp_all

lemma reaches_finished:
  assumes "reaches L W c i k b x (Finished r, h, s)"
  shows "(solo L W c i k ^^ b) x = (Finished r, h, s)"
proof -
  from assms obtain n where n: "n \<le> b" "(solo L W c i k ^^ n) x = (Finished r, h, s)"
    by (auto simp: reaches_def)
  then have "(solo L W c i k ^^ (b - n + n)) x = (Finished r, h, s)"
    by (simp only: funpow_add comp_apply solo_stays)
  with n(1) show ?thesis by simp
qed

text \<open>A mint by its steps is the mint in one go.\<close>

lemma mint_op_steps:
  assumes "mint_op W cr P wrap fin s = (r, s')"
  obtains "mint_step W cr P wrap fin AtToken s = (Inr r, s')"
  | t s1 where "mint_step W cr P wrap fin AtToken s = (Inl (AtPost t), s1)"
      "mint_step W cr P wrap fin (AtPost t) s1 = (Inr r, s')"
  | t s1 out s2 where "mint_step W cr P wrap fin AtToken s = (Inl (AtPost t), s1)"
      "mint_step W cr P wrap fin (AtPost t) s1 = (Inl (AtExpiry out), s2)"
      "mint_step W cr P wrap fin (AtExpiry out) s2 = (Inr r, s')"
proof (cases "fst (projectedToken W cr s)")
  case (Inl e)
  with assms that(1) show thesis by (auto simp: mint_op_def op_defs split: prod.splits)
next
  case (Inr t)
  then obtain s1 where tok: "projectedToken W cr s = (Inr t, s1)" by (metis prod.collapse)
  obtain y s2 where y: "P t s1 = (y, s2)" by fastforce
  show thesis
  proof (cases y)
    case (Inl e)
    with assms tok y that(2) [of t s1] show thesis by (auto simp: mint_op_def op_defs)
  next
    case (Inr out)
    with assms tok y that(3) [of t s1 out s2] show thesis
      by (cases "fin out (w_now W (log s2))") (auto simp: mint_op_def op_defs)
  qed
qed

lemma free_mint_reaches:
  assumes "mint_op W (c_credentials c) (\<lambda>t. post L W (c_broker c) (mt_path q) t (mt_body q))
      (mt_wrap q) (mt_check q) s = (r, s')"
  shows "reaches L W c i (Mints q) 3 (Unlocked AtToken, h, s) (Finished r, h, s')"
  using assms by (cases rule: mint_op_steps) (simp_all add: reaches_run del: mint_step.simps)

lemma region_mint_reaches:
  assumes "MintModuleWorkContext L W c s = (r, s')"
  shows "reaches L W c i k 3 (Inside rej (Minting AtToken), h, s)
    (Inside rej (case r of Inl e \<Rightarrow> Unlocking (Inl e) | Inr m \<Rightarrow> SetToken m), h, s')"
  using assms unfolding MintModuleWorkContext_mint_op
  by (cases rule: mint_op_steps)
    (cases r; simp add: reaches_run module_mint_step_def [symmetric] del: mint_step.simps)+

lemma refresh_reaches:
  assumes "refreshModule L W c s = (r, s')"
  shows "reaches L W c i k 6 (Inside rej (Minting AtToken), h, s) (leave k rej r, None, s')"
proof -
  obtain x s1 where x: "MintModuleWorkContext L W c s = (x, s1)" by fastforce
  have "reaches L W c i k 3 (Inside rej (case x of Inl e \<Rightarrow> Unlocking (Inl e) | Inr m \<Rightarrow> SetToken m), h, s1)
      (leave k rej r, None, s')"
    using assms x by (cases x) (auto simp: refreshModule_def attempt_def reaches_run)
  from reaches_trans [OF region_mint_reaches [OF x] this] show ?thesis by simp
qed

text \<open>A region under the mutex, left alone, is \<open>moduleWorkContextLocked\<close> in one go.\<close>

definition dropped :: "string option \<Rightarrow> state \<Rightarrow> state" where
  "dropped rej s = (case rej of None \<Rightarrow> s | Some m \<Rightarrow> forgotten m s)"

lemma region_forgets: "region_step L W c rej Forgetting s = (Inl Looking, dropped rej s)"
  by (simp add: dropped_def forgotten_def forgetModuleWorkContext_def split: option.splits)

lemma looking_reaches:
  assumes "moduleWorkContextLocked L W c s = (r, s')"
  shows "reaches L W c i k 8 (Inside rej Looking, h, s) (leave k rej r, None, s')"
proof -
  consider "c_module s = []" "refreshModule L W c s = (r, s')"
    | "c_module s \<noteq> []" "w_now W (log s) + c_refreshSkew c < c_expiresAt s" "r = Inr (c_module s)"
      "s' = s\<lparr>log := log s @ [EvNow]\<rparr>"
    | "c_module s \<noteq> []" "\<not> w_now W (log s) + c_refreshSkew c < c_expiresAt s"
      "refreshModule L W c (s\<lparr>log := log s @ [EvNow]\<rparr>) = (r, s')"
    using assms by (auto simp: moduleWorkContextLocked_def op_defs split: if_splits)
  then show ?thesis
  proof cases
    case 1
    from refresh_reaches [OF 1(2)] have "reaches L W c i k 7 (Inside rej (Minting AtToken), h, s) (leave k rej r, None, s')"
      by (rule reaches_more) simp
    with 1(1) reaches_Suc [of L W c i k 7 "(Inside rej Looking, h, s)"] show ?thesis by simp
  next
    case 2
    then show ?thesis by (simp add: reaches_run)
  next
    case 3
    from refresh_reaches [OF 3(3), of i k rej h] 3(1,2)
      reaches_Suc [of L W c i k 6 "(Inside rej Timing, h, s)"]
      reaches_Suc [of L W c i k 7 "(Inside rej Looking, h, s)"] show ?thesis by simp
  qed
qed

lemma region_reaches:
  assumes "moduleWorkContextLocked L W c (dropped rej s) = (r, s')"
  shows "reaches L W c i k 10 (Locking rej, None, s) (leave k rej r, None, s')"
  using looking_reaches [OF assms, of i k rej "Some i"]
    reaches_Suc [of L W c i k 8 "(Inside rej Forgetting, Some i, s)"]
    reaches_Suc [of L W c i k 9 "(Locking rej, None, s)"]
  by (simp add: region_forgets del: region_step.simps)

text \<open>Turns of one goroutine of the system.\<close>

lemma interleave_Cons: "interleave L W c tasks (i # is) g = interleave L W c tasks is (micro_turn L W c tasks i g)"
  by (simp add: interleave_def)

lemma interleave_append:
  "interleave L W c tasks (is @ js) g = interleave L W c tasks js (interleave L W c tasks is g)"
  by (simp add: interleave_def)

lemma interleave_solo:
  assumes "(solo L W c i (tasks i) ^^ n) (place_of g i, holder g, cell g) = (p, h, s)"
  shows "cell (interleave L W c tasks (replicate n i) g) = s \<and>
    holder (interleave L W c tasks (replicate n i) g) = h \<and>
    place_of (interleave L W c tasks (replicate n i) g) = (place_of g)(i := p)"
  using assms
proof (induction n arbitrary: g)
  case (Suc n)
  let ?g = "micro_turn L W c tasks i g"
  obtain p' h' s' where m: "micro L W c i (tasks i) (place_of g i) (holder g) (cell g) = (p', h', s')"
    by (metis prod_cases3)
  then have g: "place_of ?g = (place_of g)(i := p')" "holder ?g = h'" "cell ?g = s'"
    by (simp_all add: micro_turn_def)
  from Suc.prems have "(solo L W c i (tasks i) ^^ n) (p', h', s') = (p, h, s)"
    by (simp only: funpow_Suc_right comp_apply solo_simps m)
  with Suc.IH [of ?g] g show ?case by (simp add: interleave_Cons fun_upd_def fun_eq_iff)
qed (auto simp: interleave_def)

lemma call_of_request: "present (c_authority c) \<Longrightarrow> task_request L c (call_of L W c p msg f) = call_request L c p msg"
  by (rule ext) (simp add: task_request_def call_of_def call_request_def)

lemma call_of_answer:
  "ct_answer (call_of L W c p msg f) l m = map_sum id f (host_answer W p l (call_request L c p msg m))"
  by (simp add: call_of_def host_answer_def)

text \<open>One call of the endpoint, as a turn.\<close>

lemma calling_turn:
  fixes L c p msg
  assumes "present (c_authority c)"
  defines "Q \<equiv> call_request L c p msg"
  shows "micro L W c i (Calls (call_of L W c p msg f)) (Calling rej m) h s =
    (if rej = None \<and> rejected (host_answer W p (log s) (Q m)) then Locking (Some m)
     else Finished (map_sum id f (host_answer W p (log s) (Q m))), h, s\<lparr>log := log s @ [EvCall (Q m)]\<rparr>)"
  unfolding Q_def
  by (cases "host_answer W p (log s) (call_request L c p msg m)")
    (simp_all add: call_of_answer rejected_def call_of_request [OF assms(1)])

lemma call_reaches:
  fixes f :: "'res option \<Rightarrow> 'r"
  assumes "callAsModule L W c p msg s = (r, s')"
  shows "reaches L W c i (Calls (call_of L W c p msg f)) 23 (Entering, None, s) (Finished (map_sum id f r), None, s')"
    (is "reaches L W c i ?k _ _ _")
proof (cases "present (c_authority c)")
  case False
  with assms have "r = Inl (fail_sentinel ErrNoAuthority)" "s' = s"
    by (auto simp: callAsModule_def present_def throw_def)
  with False show ?thesis by (simp add: reaches_run)
next
  case True
  let ?Q = "call_request L c p msg"
  have region: "reaches L W c i ?k 10 (Locking rej, None, t) (leave ?k rej x, None, t')"
    if "moduleWorkContextLocked L W c (dropped rej t) = (x, t')" for rej t x t'
    using region_reaches [OF that] .
  have call: "reaches L W c i ?k 1 (Calling rej m, None, t) (if rej = None \<and> rejected (host_answer W p (log t) (?Q m))
      then Locking (Some m) else Finished (map_sum id f (host_answer W p (log t) (?Q m))),
      None, t\<lparr>log := log t @ [EvCall (?Q m)]\<rparr>)" for rej m t
    using True by (simp add: reaches_run calling_turn del: micro.simps)
  have rejected_once: "reaches L W c i ?k 11 (Locking None, None, s) (Locking (Some m), None,
      s1\<lparr>log := log s1 @ [EvCall (?Q m)]\<rparr>)"
    if "moduleWorkContextLocked L W c s = (Inr m, s1)" "rejected (host_answer W p (log s1) (?Q m))" for m s1
    using reaches_trans [OF region [of None s "Inr m" s1], of 1] call [of None m s1] that
    by (simp add: dropped_def leave_def)
  have "reaches L W c i ?k 22 (Locking None, None, s) (Finished (map_sum id f r), None, s')"
    using assms
  proof (cases rule: callAsModule_result)
    case no_endpoint
    with True show ?thesis by simp
  next
    case (no_module e)
    with reaches_more [OF region [of None s "Inl e" s'], of 22] show ?thesis
      by (simp add: dropped_def leave_def)
  next
    case (first m s1)
    from first call [of None m s1] have
      "reaches L W c i ?k 1 (Calling None m, None, s1) (Finished (map_sum id f r), None, s')" by simp
    moreover from region [of None s "Inr m" s1] first(1) have
      "reaches L W c i ?k 10 (Locking None, None, s) (Calling None m, None, s1)"
      by (simp add: dropped_def leave_def)
    ultimately have "reaches L W c i ?k (10 + 1) (Locking None, None, s) (Finished (map_sum id f r), None, s')"
      by (rule reaches_trans [rotated])
    then show ?thesis by (rule reaches_more) simp
  next
    case (no_retry m s1 e)
    let ?t = "s1\<lparr>log := log s1 @ [EvCall (?Q m)]\<rparr>"
    from no_retry have "reaches L W c i ?k 11 (Locking None, None, s) (Locking (Some m), None, ?t)"
      by (intro rejected_once) simp_all
    moreover from no_retry region [of "Some m" ?t "Inl e" s'] have
      "reaches L W c i ?k 10 (Locking (Some m), None, ?t) (Finished (Inl e), None, s')"
      by (simp add: dropped_def leave_def)
    ultimately show ?thesis using reaches_trans reaches_more no_retry by fastforce
  next
    case (retried m s1 m' s2)
    let ?t = "s1\<lparr>log := log s1 @ [EvCall (?Q m)]\<rparr>"
    from retried have once: "reaches L W c i ?k 11 (Locking None, None, s) (Locking (Some m), None, ?t)"
      by (intro rejected_once) simp_all
    from retried region [of "Some m" ?t "Inr m'" s2] have
      again: "reaches L W c i ?k 10 (Locking (Some m), None, ?t) (Calling (Some m) m', None, s2)"
      by (simp add: dropped_def leave_def)
    from retried call [of "Some m" m' s2] have
      "reaches L W c i ?k 1 (Calling (Some m) m', None, s2) (Finished (map_sum id f r), None, s')" by simp
    from reaches_trans [OF reaches_trans [OF once again] this] show ?thesis by simp
  qed
  with True show ?thesis
    using reaches_Suc [of L W c i ?k 22 "(Entering, None, s)"] by simp
qed

text \<open>The other tasks alone: \<open>ModuleWorkContext\<close> and the three mints.\<close>

lemma read_reaches:
  assumes "ModuleWorkContext L W c s = (r, s')"
  shows "reaches L W c i (Reads f) 23 (Entering, None, s) (Finished (map_sum id f r), None, s')"
proof -
  from assms region_reaches [of L W c None s r s' i "Reads f"] have
    "reaches L W c i (Reads f) 10 (Locking None, None, s) (Finished (map_sum id f r), None, s')"
    by (cases r) (simp_all add: ModuleWorkContext_def dropped_def leave_def)
  with reaches_Suc [of L W c i "Reads f" 10 "(Entering, None, s)"] reaches_more [of L W c i "Reads f" 11 _ _ 23]
  show ?thesis by simp
qed

lemma mint_op_map:
  "mint_op W cr P wrap (\<lambda>out now. map_sum id f (fin out now)) s =
     (let (r, s') = mint_op W cr P wrap fin s in (map_sum id f r, s'))"
  by (auto simp: mint_op_def op_defs Let_def split: sum.splits prod.splits)

lemma mint_reaches:
  assumes "mt_refusal q = None" and "mint_op W (c_credentials c)
      (\<lambda>t. post L W (c_broker c) (mt_path q) t (mt_body q)) (mt_wrap q) (mt_check q) s = (r, s')"
  shows "reaches L W c i (Mints q) 23 (Entering, None, s) (Finished r, None, s')"
proof -
  from free_mint_reaches [OF assms(2), of i None] assms(1) reaches_Suc [of L W c i "Mints q" 3 "(Entering, None, s)"]
    reaches_more [of L W c i "Mints q" 4 _ _ 23] show ?thesis by simp
qed

lemma mints_reach:
  "MintModuleWorkContext L W c s = (r1, s1) \<Longrightarrow>
     reaches L W c i (Mints (module_mint L c f1)) 23 (Entering, None, s) (Finished (map_sum id f1 r1), None, s1)"
  "MintModuleOperationContext L W c b s = (r2, s2) \<Longrightarrow>
     reaches L W c i (Mints (operation_mint L c b f2)) 23 (Entering, None, s) (Finished (map_sum id f2 r2), None, s2)"
  "MintSourceOperationContext L W c b s = (r3, s3) \<Longrightarrow>
     reaches L W c i (Mints (source_mint L c b f3)) 23 (Entering, None, s) (Finished (map_sum id f3 r3), None, s3)"
proof -
  assume "MintModuleWorkContext L W c s = (r1, s1)"
  then show "reaches L W c i (Mints (module_mint L c f1)) 23 (Entering, None, s) (Finished (map_sum id f1 r1), None, s1)"
    by (intro mint_reaches) (simp_all add: module_mint_def mint_op_map MintModuleWorkContext_mint_op)
next
  assume run: "MintModuleOperationContext L W c b s = (r2, s2)"
  show "reaches L W c i (Mints (operation_mint L c b f2)) 23 (Entering, None, s) (Finished (map_sum id f2 r2), None, s2)"
  proof (cases "b = []")
    case True
    with run show ?thesis
      by (auto simp: MintModuleOperationContext_def throw_def reaches_run operation_mint_def)
  next
    case False
    with run show ?thesis unfolding MintModuleOperationContext_mint_op [OF False]
      by (intro mint_reaches) (simp_all add: operation_mint_def mint_op_map operation_check_def [abs_def])
  qed
next
  assume run: "MintSourceOperationContext L W c b s = (r3, s3)"
  show "reaches L W c i (Mints (source_mint L c b f3)) 23 (Entering, None, s) (Finished (map_sum id f3 r3), None, s3)"
  proof (cases "b = []")
    case True
    with run show ?thesis
      by (auto simp: MintSourceOperationContext_def throw_def reaches_run source_mint_def)
  next
    case False
    with run show ?thesis unfolding MintSourceOperationContext_mint_op [OF False]
      by (intro mint_reaches) (simp_all add: source_mint_def mint_op_map source_check_def [abs_def])
  qed
qed

text \<open>C11:
  A goroutine that is not interrupted is the sequential call. From any shared state with the mutex
  free, 23 turns of it, the mutex among them twice if the host rejects its Work Context, leave the
  state as \<open>callAsModule\<close> leaves it, the mutex free and the goroutine done with the result
  \<open>callAsModule\<close> returns; no other goroutine has moved.
\<close>

theorem locked_alone:
  assumes "tasks i = Calls (call_of L W c p msg f)" and "place_of g i = Entering" and "holder g = None"
  shows "cell (interleave L W c tasks (replicate 23 i) g) = snd (callAsModule L W c p msg (cell g)) \<and>
    holder (interleave L W c tasks (replicate 23 i) g) = None \<and>
    place_of (interleave L W c tasks (replicate 23 i) g) =
      (place_of g)(i := Finished (map_sum id f (fst (callAsModule L W c p msg (cell g)))))"
proof -
  obtain r s' where run: "callAsModule L W c p msg (cell g) = (r, s')" by fastforce
  from reaches_finished [OF call_reaches [OF run, where i = i and f = f]] run assms
    interleave_solo [where tasks = tasks and n = 23 and g = g and p = "Finished (map_sum id f r)" and h = None and s = s'] show ?thesis by simp
qed

theorem locked_alone_witness:
  "place_of (interleave sample_lib (sample_world 200 no_answer) sample_client
     (\<lambda>_. Calls (call_of sample_lib (sample_world 200 no_answer) sample_client Exchange_procedure
        \<lparr>xq_BindingId = ''b'', xq_ParentWorkContextToken = ''wc-p'', xq_Lookup = False, xq_DelegationId = []\<rparr> id))
     (replicate 23 7) (system_on stale_state)) 7 = Finished (Inr (Some \<lparr>iw_Token = ''wc-child''\<rparr>))"
proof -
  let ?msg = "\<lparr>xq_BindingId = ''b'', xq_ParentWorkContextToken = ''wc-p'', xq_Lookup = False, xq_DelegationId = []\<rparr>"
  let ?g = "system_on stale_state :: IssuedWorkContext option system"
  have "place_of ?g 7 = Entering" "holder ?g = None" "cell ?g = stale_state" by (simp_all add: system_on_def)
  with locked_alone [where tasks = "\<lambda>_. Calls (call_of sample_lib (sample_world 200 no_answer) sample_client
      Exchange_procedure ?msg id)", OF refl this(1,2)] sample_exchange [of no_answer ?msg]
  show ?thesis by simp
qed

section \<open>A sample\<close>

text \<open>The sample host with a clock that stands still, step by step.\<close>

lemma still_stages:
  "module_mint_step sample_lib still_world sample_client AtToken s =
     (Inl (AtPost ''tok''), s\<lparr>log := log s @ [EvToken]\<rparr>)"
  "module_mint_step sample_lib still_world sample_client (AtPost t) s =
     (Inl (AtExpiry (sample_fields ''new'')), s\<lparr>log := log s @ [EvPost (mint_request sample_client t)]\<rparr>)"
  "module_mint_step sample_lib still_world sample_client (AtExpiry (sample_fields ''new'')) s =
     (Inr (Inr \<lparr>mc_Token = ''wc-new'', mc_ExpiresAt = 900000000000\<rparr>), s\<lparr>log := log s @ [EvNow]\<rparr>)"
proof -
  have now: "w_now still_world l = 0" for l by (simp add: still_world_def)
  show "module_mint_step sample_lib still_world sample_client AtToken s =
     (Inl (AtPost ''tok''), s\<lparr>log := log s @ [EvToken]\<rparr>)"
    by (simp add: module_mint_step_def still_parts)
  show "module_mint_step sample_lib still_world sample_client (AtPost t) s =
     (Inl (AtExpiry (sample_fields ''new'')), s\<lparr>log := log s @ [EvPost (mint_request sample_client t)]\<rparr>)"
    by (simp add: module_mint_step_def still_parts sample_post mint_request_def)
  show "module_mint_step sample_lib still_world sample_client (AtExpiry (sample_fields ''new'')) s =
     (Inr (Inr \<lparr>mc_Token = ''wc-new'', mc_ExpiresAt = 900000000000\<rparr>), s\<lparr>log := log s @ [EvNow]\<rparr>)"
    by (simp add: module_mint_step_def module_capability_def sample_new now)
qed

text \<open>An exchange, and a question the sample host answers whoever asks.\<close>

definition exchange_call :: "IssuedWorkContext option call_task" where
  "exchange_call = call_of sample_lib still_world sample_client Exchange_procedure
     \<lparr>xq_BindingId = ''b'', xq_ParentWorkContextToken = [], xq_Lookup = False, xq_DelegationId = ''d''\<rparr> id"

definition resolve_call :: "ModuleResolveWorkContextAuthorityResponse option call_task" where
  "resolve_call = call_of sample_lib still_world sample_client
     \<lparr>pr_method = ModuleCapabilities_ResolveWorkContextAuthority, pr_msg = MsgResolve, pr_answers = sv_resolve\<rparr>
     \<lparr>rq_WorkContext = ''wc-cap'', rq_Question = None\<rparr> id"

text \<open>A host that rejects every exchange until eight events have passed.\<close>

definition early_call :: "IssuedWorkContext option call_task" where
  "early_call = exchange_call\<lparr>ct_answer := \<lambda>l m. if length l < 8 then Inl unauthenticated else Inr None\<rparr>"

end
