(* ===== verification/MaLockedFacts.thy ===== *)
theory MaLockedFacts
  imports MaLocked
begin

text \<open>
  What holds in every interleaving of the statements of theory MaLocked. Positions on the log take the
  place of the adjacent events of theory MaReach, because between the three events of a mint any other
  goroutine may have its own. The invariant says, for every goroutine and every place it can be in,
  what the log then proves; it is kept by the goroutine's own turn, and by the turns of all others
  because they only extend the log, and write the cache only while they hold the mutex.
\<close>

section \<open>Positions on a log\<close>

definition happened :: "event list \<Rightarrow> nat \<Rightarrow> event \<Rightarrow> bool" where
  "happened lg p ev \<longleftrightarrow> p < length lg \<and> lg ! p = ev"

lemma happened_append: "happened lg p ev \<Longrightarrow> happened (lg @ new) p ev"
  by (simp add: happened_def nth_append)

lemma happened_last: "happened (lg @ [ev]) (length lg) ev"
  by (simp add: happened_def)

lemma take_grown [simp]: "happened lg p ev \<Longrightarrow> take p (lg @ new) = take p lg"
  by (simp add: happened_def)

lemma happened_diff [simp]: "happened lg p ev \<Longrightarrow> p - length lg = 0"
  by (simp add: happened_def)

text \<open>At \<open>q\<close> the projected token was read, and it was \<open>t\<close>.\<close>

definition token_read :: "world \<Rightarrow> Client \<Rightarrow> event list \<Rightarrow> nat \<Rightarrow> string \<Rightarrow> bool" where
  "token_read W c lg q t \<longleftrightarrow> happened lg q EvToken \<and>
     fst (projectedToken W (c_credentials c) (initial_state\<lparr>log := take q lg\<rparr>)) = Inr t"

text \<open>At \<open>p\<close> the broker answered this client's mint request, sent with \<open>t\<close>, with \<open>out\<close>.\<close>

definition mint_answered ::
  "core_lib \<Rightarrow> world \<Rightarrow> Client \<Rightarrow> event list \<Rightarrow> nat \<Rightarrow> string \<Rightarrow> (string \<Rightarrow> string) \<Rightarrow> bool" where
  "mint_answered L W c lg p t out \<longleftrightarrow> happened lg p (EvPost (mint_request c t)) \<and>
     (\<exists>a. w_http W (take p lg) (mint_request c t) = Inr a \<and> read_answer L workContextPath a = Inr out)"

text \<open>
  \<open>issued L W c lg b k\<close>: \<open>k\<close> came out of a mint whose three steps lie at positions from \<open>b\<close> on: the
  token read, the broker's answer to it, and the clock by which the answer is sealed and not expired.
\<close>

definition issued :: "core_lib \<Rightarrow> world \<Rightarrow> Client \<Rightarrow> event list \<Rightarrow> nat \<Rightarrow> ModuleContext \<Rightarrow> bool" where
  "issued L W c lg b k \<longleftrightarrow> (\<exists>q p n t out. b \<le> q \<and> token_read W c lg q t \<and> q < p \<and>
     mint_answered L W c lg p t out \<and> p < n \<and> happened lg n EvNow \<and>
     module_capability L out (w_now W (take n lg)) = Inr k)"

definition refused :: "core_lib \<Rightarrow> Client \<Rightarrow> 'r task \<Rightarrow> event list \<Rightarrow> nat \<Rightarrow> string \<Rightarrow> bool" where
  "refused L c k lg x m \<longleftrightarrow> (\<exists>j e. k = Calls j \<and> happened lg x (EvCall (task_request L c j m)) \<and>
     ct_answer j (take x lg) m = Inl e \<and> CodeOf e = CodeUnauthenticated)"

lemma token_read_append: "token_read W c lg q t \<Longrightarrow> token_read W c (lg @ new) q t"
  by (auto simp: token_read_def happened_append)

lemma mint_answered_append: "mint_answered L W c lg p t out \<Longrightarrow> mint_answered L W c (lg @ new) p t out"
  by (auto simp: mint_answered_def happened_append)

lemma issued_append: "issued L W c lg b k \<Longrightarrow> issued L W c (lg @ new) b k"
  unfolding issued_def using token_read_append mint_answered_append happened_append take_grown by metis

lemma issued_sooner: "issued L W c lg b k \<Longrightarrow> a \<le> b \<Longrightarrow> issued L W c lg a k"
  unfolding issued_def by (meson order.trans)

lemma refused_append: "refused L c k lg x m \<Longrightarrow> refused L c k (lg @ new) x m"
  by (auto simp: refused_def happened_append)

lemma refused_before: "refused L c k lg x m \<Longrightarrow> Suc x \<le> length lg"
  by (auto simp: refused_def happened_def)

lemma issued_sealed: "issued L W c lg b k \<Longrightarrow> sealed L (mc_Token k)"
  by (auto simp: issued_def dest: module_capability_Inr)

lemma sealed_token: "sealed L m \<Longrightarrow> m \<noteq> []"
  by (auto simp: sealed_def)

text \<open>The projected token depends on the log alone.\<close>

lemma projectedToken_log:
  "fst (projectedToken W cr s) = fst (projectedToken W cr (initial_state\<lparr>log := log s\<rparr>))"
proof (cases "cred_Token cr")
  case (Some src)
  obtain f where f: "\<And>s. ProjectedToken W src s = (f (log s), s\<lparr>log := log s @ [EvToken]\<rparr>)"
    by (simp add: ProjectedToken_def happens_def)
  show ?thesis
    by (cases "f (log s)") (simp_all add: projectedToken_def Some f op_defs Let_def)
qed (simp add: projectedToken_def throw_def)

section \<open>What a place proves\<close>

text \<open>The cache, seen with the mutex free.\<close>

definition cache_ok :: "core_lib \<Rightarrow> world \<Rightarrow> Client \<Rightarrow> state \<Rightarrow> bool" where
  "cache_ok L W c s \<longleftrightarrow> c_module s = [] \<or>
     (\<exists>k. issued L W c (log s) 0 k \<and> mc_Token k = c_module s \<and> mc_ExpiresAt k = c_expiresAt s)"

text \<open>
  A Work Context that a goroutine may present: issued, and on a retry another one than the rejected
  or issued by a mint that began after the rejection, which lies before \<open>b\<close>.
\<close>

definition usable :: "core_lib \<Rightarrow> world \<Rightarrow> Client \<Rightarrow> event list \<Rightarrow> nat \<Rightarrow> string option \<Rightarrow> string \<Rightarrow> bool" where
  "usable L W c lg b rej m \<longleftrightarrow> (\<exists>k. mc_Token k = m \<and> issued L W c lg 0 k \<and>
     (rej \<noteq> Some m \<or> issued L W c lg b k))"

fun region_ok ::
  "core_lib \<Rightarrow> world \<Rightarrow> Client \<Rightarrow> nat \<Rightarrow> string option \<Rightarrow> state \<Rightarrow> region \<Rightarrow> bool" where
  "region_ok L W c b rej s Forgetting \<longleftrightarrow> True"
| "region_ok L W c b rej s Looking \<longleftrightarrow> (c_module s \<noteq> [] \<longrightarrow> rej \<noteq> Some (c_module s))"
| "region_ok L W c b rej s Timing \<longleftrightarrow> c_module s \<noteq> [] \<and> rej \<noteq> Some (c_module s)"
| "region_ok L W c b rej s (Minting AtToken) \<longleftrightarrow> True"
| "region_ok L W c b rej s (Minting (AtPost t)) \<longleftrightarrow> (\<exists>q\<ge>b. token_read W c (log s) q t)"
| "region_ok L W c b rej s (Minting (AtExpiry out)) \<longleftrightarrow>
     (\<exists>q p t. b \<le> q \<and> token_read W c (log s) q t \<and> q < p \<and> mint_answered L W c (log s) p t out)"
| "region_ok L W c b rej s (SetToken k) \<longleftrightarrow> issued L W c (log s) b k"
| "region_ok L W c b rej s (SetExpiry k) \<longleftrightarrow> issued L W c (log s) b k \<and> c_module s = mc_Token k"
| "region_ok L W c b rej s (Unlocking res) \<longleftrightarrow> (\<forall>m. res = Inr m \<longrightarrow> usable L W c (log s) b rej m)"

fun rejection :: "string list \<Rightarrow> string option" where
  "rejection [] = None"
| "rejection (m # _) = Some m"

text \<open>The position from which a mint counts as renewed: after the rejection, if there was one.\<close>

definition base :: "core_lib \<Rightarrow> Client \<Rightarrow> 'r task \<Rightarrow> event list \<Rightarrow> string option \<Rightarrow> nat \<Rightarrow> bool" where
  "base L c k lg rej b \<longleftrightarrow> (case rej of None \<Rightarrow> b = 0 | Some m \<Rightarrow> \<exists>x. refused L c k lg x m \<and> b = Suc x)"

definition shown_ok :: "core_lib \<Rightarrow> world \<Rightarrow> Client \<Rightarrow> 'r task \<Rightarrow> event list \<Rightarrow> string list \<Rightarrow> bool" where
  "shown_ok L W c k lg sh \<longleftrightarrow> length sh \<le> 1 \<or> (\<exists>m m' b. sh = [m, m'] \<and>
     base L c k lg (Some m) b \<and> usable L W c lg b (Some m) m')"

definition listed :: "string option \<Rightarrow> string list" where
  "listed rej = (case rej of None \<Rightarrow> [] | Some m \<Rightarrow> [m])"

fun place_ok ::
  "core_lib \<Rightarrow> world \<Rightarrow> Client \<Rightarrow> 'r task \<Rightarrow> state \<Rightarrow> string list \<Rightarrow> 'r place \<Rightarrow> bool" where
  "place_ok L W c k s sh Entering \<longleftrightarrow> sh = []"
| "place_ok L W c k s sh (Locking rej) \<longleftrightarrow> sh = listed rej \<and> (\<forall>q. k \<noteq> Mints q) \<and>
     (\<exists>b. base L c k (log s) rej b)"
| "place_ok L W c k s sh (Inside rej st) \<longleftrightarrow> sh = listed rej \<and> (\<forall>q. k \<noteq> Mints q) \<and>
     (\<exists>b. base L c k (log s) rej b \<and> region_ok L W c b rej s st)"
| "place_ok L W c k s sh (Calling rej m) \<longleftrightarrow> sh = listed rej \<and> (\<exists>j. k = Calls j) \<and>
     (\<exists>b. base L c k (log s) rej b \<and> usable L W c (log s) b rej m)"
| "place_ok L W c k s sh (Unlocked st) \<longleftrightarrow> sh = [] \<and> (\<exists>q. k = Mints q) \<and>
     (\<forall>t. st = AtPost t \<longrightarrow> usable_token t)"
| "place_ok L W c k s sh (Finished r) \<longleftrightarrow> shown_ok L W c k (log s) sh"

lemma usable_append: "usable L W c lg b rej m \<Longrightarrow> usable L W c (lg @ new) b rej m"
  unfolding usable_def using issued_append by metis

lemma base_None [simp]: "base L c k lg None b \<longleftrightarrow> b = 0"
  by (simp add: base_def)

lemma base_append: "base L c k lg rej b \<Longrightarrow> base L c k (lg @ new) rej b"
  unfolding base_def by (auto split: option.splits intro: refused_append)

lemma base_le: "base L c k lg rej b \<Longrightarrow> b \<le> length lg"
  by (auto simp: base_def split: option.splits dest: refused_before)

lemma shown_ok_append: "shown_ok L W c k lg sh \<Longrightarrow> shown_ok L W c k (lg @ new) sh"
  unfolding shown_ok_def using base_append usable_append by metis

text \<open>Turns of others extend the log and leave the cache alone while this goroutine has the mutex.\<close>

lemma region_ok_grow:
  assumes "region_ok L W c b rej s st" and "log s' = log s @ new" and "c_module s' = c_module s"
  shows "region_ok L W c b rej s' st"
  using assms
  by (cases "(L, W, c, b, rej, s, st)" rule: region_ok.cases)
    (fastforce intro: token_read_append mint_answered_append issued_append usable_append)+

definition inside :: "'r place \<Rightarrow> bool" where
  "inside p \<longleftrightarrow> (\<exists>rej st. p = Inside rej st)"

lemma inside_simps [simp]:
  "\<not> inside Entering" "\<not> inside (Locking rej)" "inside (Inside rej st)" "\<not> inside (Calling rej m)"
  "\<not> inside (Unlocked ms)" "\<not> inside (Finished r)"
  by (simp_all add: inside_def)

lemma place_ok_grow:
  assumes "place_ok L W c k s sh p" and "log s' = log s @ new" and "inside p \<Longrightarrow> c_module s' = c_module s"
  shows "place_ok L W c k s' sh p"
  using assms
  by (cases p) (auto 4 3 intro: base_append usable_append shown_ok_append region_ok_grow)

section \<open>One turn\<close>

text \<open>A step of a mint: no call, and a broker request only with the token it read.\<close>

lemma mint_step_grows:
  assumes "mint_step W cr (\<lambda>t. post L W br path t body) wrap fin st s = (x, s')"
  shows "\<exists>new. s' = s\<lparr>log := log s @ new\<rparr> \<and> calls new = [] \<and>
    (\<forall>q \<in> set (posts new). \<exists>t. st = AtPost t \<and> q = broker_request br path t body)"
proof (cases st)
  case AtToken
  obtain r t where r: "projectedToken W cr s = (r, t)" by fastforce
  with AtToken assms have "s' = t" by (cases r) auto
  with r show ?thesis
    by (cases rule: projectedToken_result)
      (auto intro: exI [of _ "[]"] exI [of _ "[EvToken]"])
next
  case (AtPost t)
  obtain r u where r: "post L W br path t body s = (r, u)" by fastforce
  with AtPost assms have "s' = u" by (cases r) auto
  with r AtPost show ?thesis
    by (cases rule: post_result)
      (auto intro: exI [of _ "[]"] exI [of _ "[EvPost (broker_request br path t body)]"])
next
  case (AtExpiry out)
  with assms show ?thesis by (auto intro: exI [of _ "[EvNow]"])
qed

lemma token_read_usable: "token_read W c lg q t \<Longrightarrow> usable_token t"
  unfolding token_read_def by (metis projectedToken_result prod.collapse Inr_inject Inl_Inr_False)

lemma mint_token_ok:
  assumes "module_mint_step L W c AtToken s = (x, s')" and "b \<le> length (log s)"
  shows "(\<exists>e. x = Inr (Inl e)) \<or> (\<exists>t. x = Inl (AtPost t) \<and> (\<exists>q\<ge>b. token_read W c (log s') q t))"
proof -
  obtain r u where r: "projectedToken W (c_credentials c) s = (r, u)" by fastforce
  then show ?thesis
  proof (cases rule: projectedToken_result)
    case (token t)
    with projectedToken_log [of W "c_credentials c" s] r have
      "token_read W c (log s @ [EvToken]) (length (log s)) t"
      by (simp add: token_read_def happened_last)
    with assms r token show ?thesis by (auto simp: module_mint_step_def)
  qed (use assms r in \<open>auto simp: module_mint_step_def\<close>)
qed

lemma mint_post_ok:
  assumes "module_mint_step L W c (AtPost t) s = (x, s')" and "q \<ge> b" and "token_read W c (log s) q t"
  shows "(\<exists>e. x = Inr (Inl e)) \<or> (\<exists>out. x = Inl (AtExpiry out) \<and>
    (\<exists>q p t. b \<le> q \<and> token_read W c (log s') q t \<and> q < p \<and> mint_answered L W c (log s') p t out))"
proof -
  obtain r u where r: "post L W (c_broker c) workContextPath t
      (workContextRequest (Prefix (c_credentials c)) (OrganizationID (c_credentials c))) s = (r, u)" by fastforce
  then show ?thesis
  proof (cases rule: post_result)
    case (answered a out)
    then have new: "log u = log s @ [EvPost (mint_request c t)]" by (simp add: mint_request_def)
    from answered new have "mint_answered L W c (log u) (length (log s)) t out"
      unfolding mint_answered_def by (simp add: happened_last mint_request_def)
    moreover from token_read_append [OF assms(3)] new have "token_read W c (log u) q t" by simp
    moreover from assms(3) have "q < length (log s)" by (simp add: token_read_def happened_def)
    ultimately show ?thesis using assms r answered by (auto simp: module_mint_step_def)
  qed (use assms r in \<open>auto simp: module_mint_step_def\<close>)
qed

lemma mint_expiry_ok:
  assumes "module_mint_step L W c (AtExpiry out) s = (x, s')" and "region_ok L W c b rej s (Minting (AtExpiry out))"
  shows "(\<exists>e. x = Inr (Inl e)) \<or> (\<exists>k. x = Inr (Inr k) \<and> issued L W c (log s') b k)"
proof -
  from assms(1) have x: "x = Inr (module_capability L out (w_now W (log s)))" "log s' = log s @ [EvNow]"
    by (auto simp: module_mint_step_def)
  show ?thesis
  proof (cases "module_capability L out (w_now W (log s))")
    case (Inr k)
    from assms(2) obtain q p t where "b \<le> q" "token_read W c (log s) q t" "q < p"
      "mint_answered L W c (log s) p t out" by auto
    with Inr x have "issued L W c (log s') b k"
      unfolding issued_def
      by (intro exI [of _ q] exI [of _ p] exI [of _ "length (log s)"] exI [of _ t] exI [of _ out] conjI)
        (simp_all add: token_read_append mint_answered_append happened_last,
          simp add: mint_answered_def happened_def)
    with Inr x show ?thesis by simp
  qed (use x in simp)
qed

definition quiet :: "Client \<Rightarrow> event list \<Rightarrow> bool" where
  "quiet c new \<longleftrightarrow> calls new = [] \<and> (\<forall>q \<in> set (posts new). broker_ok c q)"

definition resting :: "region \<Rightarrow> bool" where
  "resting st \<longleftrightarrow> (\<forall>k. st \<noteq> SetExpiry k)"

lemma cache_ok_grow: "cache_ok L W c s \<Longrightarrow> log s' = log s @ new \<Longrightarrow> c_module s' = c_module s \<Longrightarrow>
    c_expiresAt s' = c_expiresAt s \<Longrightarrow> cache_ok L W c s'"
  unfolding cache_ok_def using issued_append by metis

text \<open>One statement under the mutex.\<close>

lemma region_step_ok:
  assumes "region_step L W c rej st s = (x, s')" and "region_ok L W c b rej s st"
    and "b \<le> length (log s)" and "resting st \<longrightarrow> cache_ok L W c s"
  obtains (go) st' new where "x = Inl st'" "log s' = log s @ new" "quiet c new"
      "region_ok L W c b rej s' st'" "resting st' \<longrightarrow> cache_ok L W c s'"
  | (leaves) res where "x = Inr res" "st = Unlocking res" "s' = s"
proof (cases st)
  case Forgetting
  with assms have "x = Inl Looking" "s' = dropped rej s" by (auto simp: region_forgets simp del: region_step.simps)
  moreover from Forgetting assms(4) have "cache_ok L W c (dropped rej s)"
    by (auto simp: resting_def cache_ok_def dropped_def forgotten_def split: option.splits)
  ultimately show thesis
    by (intro go [of Looking "[]"]) (auto simp: quiet_def dropped_def forgotten_def split: option.splits)
next
  case Looking
  with assms show thesis
    by (intro go [of "if c_module s \<noteq> [] then Timing else Minting AtToken" "[]"])
      (auto simp: quiet_def resting_def split: if_splits)
next
  case Timing
  with assms(1) have s': "s' = s\<lparr>log := log s @ [EvNow]\<rparr>" by auto
  from Timing assms(4) have ok: "cache_ok L W c s" by (simp add: resting_def)
  with s' have ok': "cache_ok L W c s'" by (auto intro: cache_ok_grow)
  from Timing assms(2) ok have "usable L W c (log s') b rej (c_module s)"
    unfolding s' cache_ok_def usable_def by (auto intro: issued_append)
  with Timing assms(1) s' ok' show thesis
    by (intro go [of "if w_now W (log s) + c_refreshSkew c < c_expiresAt s then Unlocking (Inr (c_module s))
        else Minting AtToken" "[EvNow]"]) (auto simp: quiet_def)
next
  case (Minting ms)
  obtain y u where y: "module_mint_step L W c ms s = (y, u)" by fastforce
  with Minting assms(1) have s': "s' = u" by (auto split: sum.splits)
  from y mint_step_grows [of W "c_credentials c" L "c_broker c"] obtain new where
    new: "u = s\<lparr>log := log s @ new\<rparr>" "calls new = []"
      "\<forall>q \<in> set (posts new). \<exists>t. ms = AtPost t \<and> q = mint_request c t"
    unfolding module_mint_step_def mint_request_def by blast
  from Minting assms(2) new(2,3) have quiet: "quiet c new"
    unfolding quiet_def using token_read_usable mint_request_ok by fastforce
  from Minting assms(4) new(1) have ok: "cache_ok L W c s'"
    unfolding s' by (auto simp: resting_def intro: cache_ok_grow)
  have "\<exists>st'. x = Inl st' \<and> region_ok L W c b rej s' st'"
  proof (cases ms)
    case AtToken
    with mint_token_ok [of L W c s y u b] y assms(1,3) Minting show ?thesis by (fastforce simp: s')
  next
    case (AtPost t)
    with assms(2) Minting obtain q where "q \<ge> b" "token_read W c (log s) q t" by auto
    from mint_post_ok [OF y [unfolded AtPost] this] consider e where "y = Inr (Inl e)"
      | out where "y = Inl (AtExpiry out)" "region_ok L W c b rej u (Minting (AtExpiry out))"
      unfolding region_ok.simps by blast
    then show ?thesis
      by cases (use assms(1) Minting y in \<open>auto simp: s' simp del: region_ok.simps(4-6)\<close>)
  next
    case (AtExpiry out)
    with mint_expiry_ok [of L W c out s y u b rej] y assms(1,2) Minting show ?thesis by (auto simp: s')
  qed
  then obtain st' where "x = Inl st'" "region_ok L W c b rej s' st'" by blast
  with new(1) ok show thesis by (intro go [OF _ _ quiet]) (simp_all add: s')
next
  case (SetToken k)
  with assms show thesis by (intro go [of "SetExpiry k" "[]"]) (auto simp: quiet_def resting_def)
next
  case (SetExpiry k)
  with assms issued_sooner [of L W c "log s" b k 0] show thesis
    by (intro go [of "Unlocking (Inr (mc_Token k))" "[]"])
      (auto simp: quiet_def resting_def usable_def cache_ok_def)
next
  case (Unlocking res)
  with assms leaves [of res] show thesis by simp
qed

section \<open>Every interleaving\<close>

text \<open>A call that carries a Work Context issued before it, and broker requests where they belong.\<close>

definition presents_issued :: "core_lib \<Rightarrow> world \<Rightarrow> Client \<Rightarrow> event list \<Rightarrow> authority_request \<Rightarrow> bool" where
  "presents_issued L W c l q \<longleftrightarrow> (\<exists>k. issued L W c l 0 k \<and> au_header q =
     [(internalTokenHeader, ae_token (c_authority c)), (WorkContextHeader L, mc_Token k)])"

definition log_ok :: "core_lib \<Rightarrow> world \<Rightarrow> Client \<Rightarrow> event list \<Rightarrow> bool" where
  "log_ok L W c lg \<longleftrightarrow> (\<forall>p q. happened lg p (EvCall q) \<longrightarrow> presents_issued L W c (take p lg) q) \<and>
     (\<forall>q \<in> set (posts lg). broker_ok c q)"

lemma log_ok_quiet:
  assumes "log_ok L W c lg" and "quiet c new"
  shows "log_ok L W c (lg @ new)"
proof -
  have "happened lg p (EvCall q) \<and> take p (lg @ new) = take p lg"
    if "happened (lg @ new) p (EvCall q)" for p q
  proof -
    have "EvCall q \<notin> set new" using assms(2) by (simp add: quiet_def calls_Cons_iff)
    moreover have "EvCall q \<in> set new" if "\<not> p < length lg" "p < length lg + length new" "new ! (p - length lg) = EvCall q"
      using that nth_mem [of "p - length lg" new] by auto
    ultimately show ?thesis using that by (auto simp: happened_def nth_append split: if_splits)
  qed
  with assms show ?thesis by (auto simp: log_ok_def quiet_def simp del: take_append)
qed

lemma log_ok_call:
  assumes "log_ok L W c lg" and "presents_issued L W c lg q"
  shows "log_ok L W c (lg @ [EvCall q])"
proof -
  have "happened lg p (EvCall r) \<or> p = length lg \<and> r = q"
    if "happened (lg @ [EvCall q]) p (EvCall r)" for p r
    using that by (auto simp: happened_def nth_append split: if_splits)
  with assms show ?thesis unfolding log_ok_def by (fastforce simp: happened_def)
qed

lemma usable_presented:
  "usable L W c l b rej m \<Longrightarrow> presents_issued L W c l (task_request L c j m)"
  by (auto simp: usable_def presents_issued_def task_request_def authorityRequest_def)

definition at_rest :: "'r place \<Rightarrow> bool" where
  "at_rest p \<longleftrightarrow> (\<forall>rej st. p = Inside rej st \<longrightarrow> resting st)"

text \<open>What a goroutine's own turn keeps.\<close>

definition turn_ok ::
  "core_lib \<Rightarrow> world \<Rightarrow> Client \<Rightarrow> nat \<Rightarrow> 'r task \<Rightarrow> string list \<Rightarrow> 'r place \<times> nat option \<times> state \<Rightarrow>
     'r place \<times> nat option \<times> state \<Rightarrow> bool" where
  "turn_ok L W c i k sh = (\<lambda>(p, h, s) (p', h', s').
     (\<exists>new. log s' = log s @ new) \<and> log_ok L W c (log s') \<and>
     place_ok L W c k s' (sh @ carries p) p' \<and> (inside p' \<longleftrightarrow> h' = Some i) \<and>
     (if inside p then h' \<in> {None, Some i} \<and> (at_rest p' \<longrightarrow> cache_ok L W c s')
      else at_rest p' \<and> c_module s' = c_module s \<and> c_expiresAt s' = c_expiresAt s \<and>
        (h' = h \<or> h = None \<and> h' = Some i)))"

lemma listed_None [simp]: "[] = listed rej \<longleftrightarrow> rej = None" "listed None = []" "listed (Some m) = [m]"
  by (simp_all add: listed_def split: option.splits)

lemma turn_Inside:
  assumes "place_ok L W c k s sh (Inside rej st)" and "log_ok L W c (log s)"
    and "at_rest (Inside rej st :: 'r place) \<Longrightarrow> cache_ok L W c s"
  shows "turn_ok L W c i k sh (Inside rej st, Some i, s) (micro L W c i (k :: 'r task) (Inside rej st) (Some i) s)"
proof -
  obtain x s' where step: "region_step L W c rej st s = (x, s')" by fastforce
  from assms(1) obtain b where b: "base L c k (log s) rej b" "region_ok L W c b rej s st" "sh = listed rej"
    "\<forall>q. k \<noteq> Mints q" by auto
  have rest: "resting st \<longrightarrow> cache_ok L W c s" using assms(3) by (simp add: at_rest_def)
  from step b(2) base_le [OF b(1)] rest show ?thesis
  proof (cases rule: region_step_ok)
    case (go st' new)
    have "log_ok L W c (log s')" "base L c k (log s') rej b"
      unfolding go(2) by (rule log_ok_quiet [OF assms(2) go(3)], rule base_append [OF b(1)])
    with go step b(3,4) show ?thesis by (auto simp: turn_ok_def at_rest_def)
  next
    case (leaves res)
    have "place_ok L W c k s' sh (leave k rej res)"
    proof (cases res)
      case (Inl e)
      with b(3) show ?thesis by (auto simp: leave_def shown_ok_def listed_def split: option.splits)
    next
      case (Inr m)
      with b leaves show ?thesis
        by (cases k) (auto simp: leave_def shown_ok_def listed_def split: option.splits)
    qed
    moreover have "\<not> inside (leave k rej res)"
      by (simp add: leave_def split: sum.splits task.splits)
    moreover have "cache_ok L W c s'" using rest leaves by (simp add: resting_def)
    ultimately show ?thesis using leaves step assms(2) by (simp add: turn_ok_def)
  qed
qed

lemma turn_Calling:
  assumes "place_ok L W c k s sh (Calling rej m)" and "log_ok L W c (log s)" and "h \<noteq> Some i"
  shows "turn_ok L W c i k sh (Calling rej m, h, s) (micro L W c i k (Calling rej m) h s)"
proof -
  from assms(1) obtain j b where k: "k = Calls j" "sh = listed rej" "base L c k (log s) rej b"
    "usable L W c (log s) b rej m" by auto
  let ?lg = "log s @ [EvCall (task_request L c j m)]"
  have ok: "log_ok L W c ?lg" by (rule log_ok_call [OF assms(2) usable_presented [OF k(4)]])
  show ?thesis
  proof (cases rej)
    case None
    have "base L c k ?lg (Some m) (Suc (length (log s)))"
      if "ct_answer j (log s) m = Inl e" "CodeOf e = CodeUnauthenticated" for e
      using that k(1) by (simp add: base_def refused_def happened_last)
    then have "\<exists>b. base L c k ?lg (Some m) b"
      if "ct_answer j (log s) m = Inl e" "CodeOf e = CodeUnauthenticated" for e
      using that by blast
    with None k ok assms(3) show ?thesis
      by (auto simp: turn_ok_def at_rest_def shown_ok_def split: sum.splits)
  next
    case (Some r)
    have "shown_ok L W c k ?lg [r, m]"
      unfolding shown_ok_def using base_append [OF k(3)] usable_append [OF k(4)] Some by auto
    with Some k ok assms(3) show ?thesis
      by (auto simp: turn_ok_def at_rest_def split: sum.splits)
  qed
qed

lemma turn_Unlocked:
  assumes "place_ok L W c k s sh (Unlocked st)" and "log_ok L W c (log s)" and "h \<noteq> Some i"
    and "\<And>q. k = Mints q \<Longrightarrow> mt_path q \<in> mint_paths"
  shows "turn_ok L W c i k sh (Unlocked st, h, s) (micro L W c i k (Unlocked st) h s)"
proof -
  from assms(1) obtain q where k: "k = Mints q" "sh = []" "\<And>t. st = AtPost t \<Longrightarrow> usable_token t" by auto
  obtain x s' where step: "mint_step W (c_credentials c)
      (\<lambda>t. post L W (c_broker c) (mt_path q) t (mt_body q)) (mt_wrap q) (mt_check q) st s = (x, s')" by fastforce
  from mint_step_grows [OF step] obtain new where new: "s' = s\<lparr>log := log s @ new\<rparr>" "calls new = []"
    "\<forall>r \<in> set (posts new). \<exists>t. st = AtPost t \<and> r = broker_request (c_broker c) (mt_path q) t (mt_body q)" by blast
  with k assms(4) have "quiet c new" by (fastforce simp: quiet_def broker_ok_def)
  with new(1) assms(2) have ok: "log_ok L W c (log s')" by (simp add: log_ok_quiet)
  have "usable_token t" if "x = Inl (AtPost t)" for t
    using step that projectedToken_result [of W "c_credentials c" s]
    by (cases st) (auto split: prod.splits sum.splits)
  with step k new(1) ok assms(3) show ?thesis
    by (auto simp: turn_ok_def at_rest_def shown_ok_def split: sum.splits)
qed

lemma micro_ok:
  assumes "place_ok L W c k s sh p" and "log_ok L W c (log s)" and "inside p \<longleftrightarrow> h = Some i"
    and "inside p \<Longrightarrow> at_rest p \<Longrightarrow> cache_ok L W c s" and "\<And>q. k = Mints q \<Longrightarrow> mt_path q \<in> mint_paths"
  shows "turn_ok L W c i k sh (p, h, s) (micro L W c i k p h s)"
proof (cases p)
  case Entering
  with assms show ?thesis
    by (auto simp: turn_ok_def at_rest_def shown_ok_def split: task.splits option.splits)
next
  case (Locking rej)
  with assms show ?thesis by (auto simp: turn_ok_def at_rest_def resting_def)
next
  case (Inside rej st)
  with assms turn_Inside [of L W c k s sh rej st i] show ?thesis by simp
next
  case (Calling rej m)
  with assms turn_Calling [of L W c k s sh rej m h i] show ?thesis by simp
next
  case (Unlocked st)
  with assms turn_Unlocked [of L W c k s sh st h i] show ?thesis by simp
next
  case (Finished r)
  with assms show ?thesis by (simp add: turn_ok_def at_rest_def)
qed

definition system_ok :: "core_lib \<Rightarrow> world \<Rightarrow> Client \<Rightarrow> (nat \<Rightarrow> 'r task) \<Rightarrow> 'r system \<Rightarrow> bool" where
  "system_ok L W c tasks g \<longleftrightarrow> log_ok L W c (log (cell g)) \<and>
     (\<forall>i. inside (place_of g i) \<longleftrightarrow> holder g = Some i) \<and>
     (\<forall>i. place_ok L W c (tasks i) (cell g) (offered g i) (place_of g i)) \<and>
     ((\<forall>i. at_rest (place_of g i)) \<longrightarrow> cache_ok L W c (cell g))"

definition mints_at_paths :: "(nat \<Rightarrow> 'r task) \<Rightarrow> bool" where
  "mints_at_paths tasks \<longleftrightarrow> (\<forall>i q. tasks i = Mints q \<longrightarrow> mt_path q \<in> mint_paths)"

lemma micro_turn_ok:
  assumes "system_ok L W c tasks g" and "mints_at_paths tasks"
  shows "system_ok L W c tasks (micro_turn L W c tasks i g)"
proof -
  let ?p = "place_of g i" and ?s = "cell g" and ?h = "holder g"
  obtain p' h' s' where m: "micro L W c i (tasks i) ?p ?h ?s = (p', h', s')" by (metis prod_cases3)
  have lock: "\<And>j. inside (place_of g j) \<longleftrightarrow> ?h = Some j"
    and places: "\<And>j. place_ok L W c (tasks j) ?s (offered g j) (place_of g j)"
    and ok: "log_ok L W c (log ?s)" "(\<forall>j. at_rest (place_of g j)) \<longrightarrow> cache_ok L W c ?s"
    using assms(1) unfolding system_ok_def by blast+
  have rest: "at_rest (place_of g j)" if "?h \<noteq> Some j" for j
    using lock [of j] that by (auto simp: at_rest_def)
  have "cache_ok L W c ?s" if "inside ?p" "at_rest ?p"
  proof -
    from that(1) lock [of i] have "?h = Some i" by simp
    with rest that(2) have "at_rest (place_of g j)" for j by (cases "j = i") auto
    with ok(2) show ?thesis by blast
  qed
  with micro_ok [OF places ok(1) lock] assms(2) have
    "turn_ok L W c i (tasks i) (offered g i) (?p, ?h, ?s) (p', h', s')"
    unfolding m [symmetric] mints_at_paths_def by blast
  then obtain new where t: "log s' = log ?s @ new" "log_ok L W c (log s')"
    "place_ok L W c (tasks i) s' (offered g i @ carries ?p) p'" "inside p' \<longleftrightarrow> h' = Some i"
    and mine: "inside ?p \<Longrightarrow> h' \<in> {None, Some i} \<and> (at_rest p' \<longrightarrow> cache_ok L W c s')"
    and other: "\<not> inside ?p \<Longrightarrow> at_rest p' \<and> c_module s' = c_module ?s \<and> c_expiresAt s' = c_expiresAt ?s \<and>
        (h' = ?h \<or> ?h = None \<and> h' = Some i)"
    unfolding turn_ok_def prod.case by (auto split: if_splits)
  have lock': "inside (((place_of g)(i := p')) j) \<longleftrightarrow> h' = Some j" for j
    using lock [of j] lock [of i] t(4) mine other by (cases "inside ?p") auto
  have "c_module s' = c_module ?s" if "j \<noteq> i" "inside (place_of g j)" for j
    using that lock [of j] lock [of i] other by auto
  with places t(1,3) have places': "place_ok L W c (tasks j) s' (((offered g)(i := offered g i @ carries ?p)) j)
      (((place_of g)(i := p')) j)" for j
    by (auto intro: place_ok_grow)
  have "cache_ok L W c s'" if all: "\<forall>j. at_rest (((place_of g)(i := p')) j)"
  proof (cases "inside ?p")
    case True
    with mine all show ?thesis by (metis fun_upd_same)
  next
    case False
    with all other have "at_rest (place_of g j)" for j
      using False by (cases "j = i") (auto simp: at_rest_def [of "place_of g i"] dest: spec [of _ j])
    with ok(2) have "cache_ok L W c ?s" by blast
    with other False t(1) show ?thesis by (auto intro: cache_ok_grow)
  qed
  with lock' places' t(2) show ?thesis
    unfolding micro_turn_def m Let_def prod.case system_ok_def by simp
qed

lemma interleave_ok:
  assumes "system_ok L W c tasks g" and "mints_at_paths tasks"
  shows "system_ok L W c tasks (interleave L W c tasks is g)"
  using assms by (induction "is" arbitrary: g) (simp_all add: interleave_def micro_turn_ok)

section \<open>The mutex\<close>

definition lock_agrees :: "'r system \<Rightarrow> bool" where
  "lock_agrees g \<longleftrightarrow> (\<forall>i. inside (place_of g i) \<longleftrightarrow> holder g = Some i)"

lemma leave_outside [simp]: "\<not> inside (leave k rej res)"
  by (simp add: leave_def split: sum.splits task.splits)

lemma micro_lock:
  assumes "micro L W c i k p h s = (p', h', s')" and "inside p \<longleftrightarrow> h = Some i"
  shows "inside p' \<longleftrightarrow> h' = Some i" and "h' = h \<or> h = None \<and> h' = Some i \<or> h = Some i \<and> h' = None"
  using assms by (cases p; auto split: task.splits option.splits sum.splits prod.splits if_splits)+

lemma mint_step_cache:
  "mint_step W cr (\<lambda>t. post L W br path t body) wrap fin st s = (x, s') \<Longrightarrow>
     c_module s' = c_module s \<and> c_expiresAt s' = c_expiresAt s"
  using mint_step_grows by fastforce

lemma micro_outside:
  "micro L W c i k p h s = (p', h', s') \<Longrightarrow> \<not> inside p \<Longrightarrow>
     c_module s' = c_module s \<and> c_expiresAt s' = c_expiresAt s"
  by (cases p) (auto split: task.splits option.splits sum.splits prod.splits if_splits
      dest!: mint_step_cache simp del: mint_step.simps)

lemma micro_turn_lock:
  assumes "lock_agrees g"
  shows "lock_agrees (micro_turn L W c tasks i g)"
proof -
  obtain p' h' s' where m: "micro L W c i (tasks i) (place_of g i) (holder g) (cell g) = (p', h', s')"
    by (metis prod_cases3)
  from micro_lock [OF m] assms have "inside p' \<longleftrightarrow> h' = Some i"
    "h' = holder g \<or> holder g = None \<and> h' = Some i \<or> holder g = Some i \<and> h' = None"
    by (simp_all add: lock_agrees_def)
  with assms show ?thesis by (auto simp: micro_turn_def m lock_agrees_def)
qed

lemma interleave_lock: "lock_agrees g \<Longrightarrow> lock_agrees (interleave L W c tasks is g)"
  by (induction "is" arbitrary: g) (simp_all add: interleave_def micro_turn_lock)

lemma system_on_lock: "lock_agrees (system_on s)"
  by (simp add: lock_agrees_def system_on_def)

text \<open>C7:
  Mutual exclusion. Whatever state the client is in, whatever the goroutines have to do and however
  their statements interleave, no two goroutines are between the mutex's lock and its release at
  once; and while one is, no turn of another changes the cached Work Context or its expiry, or takes
  the mutex away from it.
\<close>

theorem mutual_exclusion:
  assumes "interleave L W c tasks is (system_on s) = g" and "inside (place_of g i)" and "j \<noteq> i"
  shows "\<not> inside (place_of g j) \<and>
    (let g' = micro_turn L W c tasks j g in
     c_module (cell g') = c_module (cell g) \<and> c_expiresAt (cell g') = c_expiresAt (cell g) \<and>
     holder g' = Some i \<and> inside (place_of g' i))"
proof -
  from interleave_lock [OF system_on_lock] assms(1) have lock: "lock_agrees g" by metis
  with assms(2,3) have out: "holder g = Some i" "\<not> inside (place_of g j)" by (auto simp: lock_agrees_def)
  obtain p' h' s' where m: "micro L W c j (tasks j) (place_of g j) (holder g) (cell g) = (p', h', s')"
    by (metis prod_cases3)
  from micro_outside [OF m out(2)] micro_lock [OF m] out assms(3) have
    "c_module s' = c_module (cell g)" "c_expiresAt s' = c_expiresAt (cell g)" "h' = Some i" by auto
  with m assms(2,3) out(2) show ?thesis by (simp add: micro_turn_def)
qed

theorem mutual_exclusion_witness:
  "\<exists>g. interleave sample_lib still_world sample_client (\<lambda>_. Calls exchange_call) [0, 1, 0, 0, 1]
       (system_on initial_state) = g \<and> inside (place_of g 0) \<and> \<not> inside (place_of g 1)"
proof -
  let ?g = "interleave sample_lib still_world sample_client (\<lambda>_. Calls exchange_call) [0, 1, 0, 0, 1]
       (system_on initial_state)"
  have "inside (place_of ?g 0)"
    by (simp add: interleave_def system_on_def micro_turn_def sample_present)
  with mutual_exclusion [OF refl this, of 1] show ?thesis by simp
qed

section \<open>What is presented\<close>

lemma initial_system_ok: "system_ok L W c tasks (system_on initial_state)"
  by (simp add: system_ok_def system_on_def initial_state_def log_ok_def cache_ok_def happened_def)

text \<open>C5:
  Concurrent calls, statement by statement. However the goroutines of a new client interleave, at any
  moment: every call on the log carries the internal token and a sealed Work Context issued by a mint
  whose token read, broker answer and expiry check lie on the log before it; every broker request is
  one of this client's own; a goroutine presents at most two Work Contexts; and if it presents a
  second, the host rejected the first, and the second is another one or comes from a mint that began
  after that rejection.
\<close>

theorem interleaved_calls:
  assumes "interleave L W c tasks is (system_on initial_state) = g" and "mints_at_paths tasks"
  shows "(\<forall>p q. happened (log (cell g)) p (EvCall q) \<longrightarrow> (\<exists>k. issued L W c (take p (log (cell g))) 0 k \<and>
      sealed L (mc_Token k) \<and> au_header q =
        [(internalTokenHeader, ae_token (c_authority c)), (WorkContextHeader L, mc_Token k)])) \<and>
    (\<forall>q \<in> set (posts (log (cell g))). broker_ok c q) \<and>
    length (offered g i) \<le> 2 \<and>
    (\<forall>m m'. offered g i = [m, m'] \<longrightarrow> (\<exists>x k. refused L c (tasks i) (log (cell g)) x m \<and> mc_Token k = m' \<and>
      issued L W c (log (cell g)) 0 k \<and> (m' \<noteq> m \<or> issued L W c (log (cell g)) (Suc x) k)))"
proof -
  from interleave_ok [OF initial_system_ok assms(2)] assms(1) have ok: "system_ok L W c tasks g" by metis
  then have "log_ok L W c (log (cell g))" by (simp add: system_ok_def)
  then have calls: "presents_issued L W c (take p (log (cell g))) q" if "happened (log (cell g)) p (EvCall q)" for p q
    using that by (simp add: log_ok_def)
  from \<open>log_ok L W c (log (cell g))\<close> have posts: "\<forall>q \<in> set (posts (log (cell g))). broker_ok c q"
    by (simp add: log_ok_def)
  from ok have "place_ok L W c (tasks i) (cell g) (offered g i) (place_of g i)" by (simp add: system_ok_def)
  then have shown: "shown_ok L W c (tasks i) (log (cell g)) (offered g i)"
    by (cases "place_of g i") (auto simp: shown_ok_def listed_def split: option.splits)
  show ?thesis
  proof (intro conjI allI impI posts)
    fix p q
    assume "happened (log (cell g)) p (EvCall q)"
    from calls [OF this] obtain k where "issued L W c (take p (log (cell g))) 0 k" "au_header q =
        [(internalTokenHeader, ae_token (c_authority c)), (WorkContextHeader L, mc_Token k)]"
      unfolding presents_issued_def by blast
    with issued_sealed [OF this(1)] show "\<exists>k. issued L W c (take p (log (cell g))) 0 k \<and>
        sealed L (mc_Token k) \<and> au_header q =
          [(internalTokenHeader, ae_token (c_authority c)), (WorkContextHeader L, mc_Token k)]" by blast
  next
    show "length (offered g i) \<le> 2" using shown by (auto simp: shown_ok_def)
  next
    fix m m'
    assume "offered g i = [m, m']"
    with shown obtain b where "base L c (tasks i) (log (cell g)) (Some m) b"
      "usable L W c (log (cell g)) b (Some m) m'" by (auto simp: shown_ok_def)
    then show "\<exists>x k. refused L c (tasks i) (log (cell g)) x m \<and> mc_Token k = m' \<and>
        issued L W c (log (cell g)) 0 k \<and> (m' \<noteq> m \<or> issued L W c (log (cell g)) (Suc x) k)"
      unfolding base_def usable_def option.case by blast
  qed
qed

text \<open>
  A run of the sample: a caller whose Work Context is rejected and refreshed, with a minter that takes
  no mutex in between.
\<close>

definition mixed_tasks :: "nat \<Rightarrow> IssuedWorkContext option task" where
  "mixed_tasks i = (if i = 0 then Calls early_call else Mints (module_mint sample_lib sample_client (\<lambda>_. None)))"

definition mixed_run :: "nat list" where
  "mixed_run = [0, 0, 0, 0, 0, 1, 1, 0, 0, 0, 0, 0, 1, 0, 0, 0, 0, 0, 0, 0, 0, 0, 0, 0]"

lemma micro_turn_eval:
  "micro_turn L W c tasks i \<lparr>cell = s, holder = h, place_of = f, offered = sh\<rparr> =
     (case micro L W c i (tasks i) (f i) h s of (p, h', s') \<Rightarrow>
        \<lparr>cell = s', holder = h', place_of = f(i := p), offered = sh(i := sh i @ carries (f i))\<rparr>)"
  by (simp add: micro_turn_def split: prod.splits)

lemma early_answer: "ct_answer early_call l m = (if length l < 8 then Inl unauthenticated else Inr None)"
  by (simp add: early_call_def)

lemma unauthenticated_code: "CodeOf unauthenticated = CodeUnauthenticated"
  by code_simp

text \<open>The minter of the sample, on the sample host.\<close>

lemma still_free:
  "mt_refusal (module_mint sample_lib sample_client f) = None"
  "micro sample_lib still_world sample_client i (Mints (module_mint sample_lib sample_client f)) (Unlocked AtToken) h s =
     (Unlocked (AtPost ''tok''), h, s\<lparr>log := log s @ [EvToken]\<rparr>)"
  "micro sample_lib still_world sample_client i (Mints (module_mint sample_lib sample_client f)) (Unlocked (AtPost t)) h s =
     (Unlocked (AtExpiry (sample_fields ''new'')), h, s\<lparr>log := log s @ [EvPost (mint_request sample_client t)]\<rparr>)"
  by (simp_all add: module_mint_def still_parts sample_post mint_request_def)

theorem interleaved_calls_witness:
  "\<exists>g x k. interleave sample_lib still_world sample_client mixed_tasks mixed_run (system_on initial_state) = g \<and>
     offered g 0 = [''wc-new'', ''wc-new''] \<and>
     refused sample_lib sample_client (mixed_tasks 0) (log (cell g)) x ''wc-new'' \<and>
     mc_Token k = ''wc-new'' \<and> issued sample_lib still_world sample_client (log (cell g)) (Suc x) k"
proof -
  let ?g = "interleave sample_lib still_world sample_client mixed_tasks mixed_run (system_on initial_state)"
  have shown: "offered ?g 0 = [''wc-new'', ''wc-new'']"
    by (simp add: interleave_def mixed_run_def system_on_def micro_turn_eval mixed_tasks_def
        sample_present still_stages initial_state_def leave_def early_answer unauthenticated_code
        forgetModuleWorkContext_def still_free del: micro.simps(5))
  have "mints_at_paths mixed_tasks"
    by (auto simp: mints_at_paths_def mixed_tasks_def module_mint_def mint_paths_def split: if_splits)
  from interleaved_calls [OF refl this, of sample_lib still_world sample_client mixed_run 0] shown
  obtain x k where "refused sample_lib sample_client (mixed_tasks 0) (log (cell ?g)) x ''wc-new''"
    "mc_Token k = ''wc-new''" "issued sample_lib still_world sample_client (log (cell ?g)) (Suc x) k" by auto
  with shown show ?thesis by (intro exI [of _ ?g] exI [of _ x] exI [of _ k]) simp
qed

end
