(* ===== verification/MaLockedRuns.thy ===== *)
theory MaLockedRuns
  imports MaLockedFacts
begin

text \<open>
  Runs of the interleaved model of theory MaLocked. Every schedule that gives each goroutine a turn
  often enough finishes all of them: the locale \<open>turn_taking\<close> is the argument, interpreted on the
  model. And whatever the schedule, concurrent callers share one refresh.
\<close>

section \<open>Turns that use something up\<close>

text \<open>
  Each of \<open>n\<close> participants, given a turn, changes nothing or leaves less to do; and while something is
  left to do, one of them can move. Then as many rounds as there is left to do, in each of which
  everyone has a turn in any order and any number of times, leave nothing to do.
\<close>

locale turn_taking =
  fixes turn :: "nat \<Rightarrow> 'g \<Rightarrow> 'g" and good :: "'g \<Rightarrow> bool" and left :: "'g \<Rightarrow> nat" and n :: nat
  assumes turn_good: "good g \<Longrightarrow> i < n \<Longrightarrow> good (turn i g)"
    and turn_moves: "good g \<Longrightarrow> i < n \<Longrightarrow> turn i g = g \<or> left (turn i g) < left g"
    and not_stuck: "good g \<Longrightarrow> 0 < left g \<Longrightarrow> \<exists>i<n. turn i g \<noteq> g"
begin

lemma turns_good: "good g \<Longrightarrow> set is \<subseteq> {..<n} \<Longrightarrow> good (fold turn is g)"
  by (induction "is" arbitrary: g) (simp_all add: turn_good)

lemma turns_left: "good g \<Longrightarrow> set is \<subseteq> {..<n} \<Longrightarrow> left (fold turn is g) \<le> left g"
proof (induction "is" arbitrary: g)
  case (Cons i js)
  then have "left (fold turn js (turn i g)) \<le> left (turn i g)" by (simp add: turn_good)
  with turn_moves [of g i] Cons.prems show ?case by auto
qed simp

lemma turns_move:
  "good g \<Longrightarrow> set is \<subseteq> {..<n} \<Longrightarrow> (\<forall>i \<in> set is. turn i g = g) \<or> left (fold turn is g) < left g"
proof (induction "is" arbitrary: g)
  case (Cons i js)
  show ?case
  proof (cases "turn i g = g")
    case True
    with Cons show ?thesis by simp
  next
    case False
    with turn_moves [of g i] Cons.prems have "left (turn i g) < left g" by simp
    moreover have "left (fold turn js (turn i g)) \<le> left (turn i g)"
      using Cons.prems by (intro turns_left turn_good) simp_all
    ultimately show ?thesis by simp
  qed
qed simp

lemma round_moves: "good g \<Longrightarrow> set r = {..<n} \<Longrightarrow> 0 < left g \<Longrightarrow> left (fold turn r g) < left g"
  using turns_move [of g r] not_stuck [of g] by auto

lemma rounds_finish:
  assumes "good g" and "\<forall>r \<in> set rs. set r = {..<n}" and "left g \<le> length rs"
  shows "left (fold turn (concat rs) g) = 0"
  using assms
proof (induction rs arbitrary: g)
  case (Cons r rs)
  then have g: "good (fold turn r g)" by (intro turns_good) simp_all
  have "left (fold turn r g) \<le> length rs"
  proof (cases "left g = 0")
    case True
    with turns_left [of g r] Cons.prems show ?thesis by simp
  next
    case False
    with round_moves [of g r] Cons.prems show ?thesis by simp
  qed
  with Cons.IH [OF g] Cons.prems(2) show ?case by simp
qed simp

end

section \<open>What is left to do\<close>

fun mint_left :: "mint_stage \<Rightarrow> nat" where
  "mint_left AtToken = 3"
| "mint_left (AtPost t) = 2"
| "mint_left (AtExpiry out) = 1"

fun region_left :: "region \<Rightarrow> nat" where
  "region_left Forgetting = 9"
| "region_left Looking = 8"
| "region_left Timing = 7"
| "region_left (Minting st) = 3 + mint_left st"
| "region_left (SetToken k) = 3"
| "region_left (SetExpiry k) = 2"
| "region_left (Unlocking res) = 1"

definition retry_left :: "string option \<Rightarrow> nat" where
  "retry_left rej = (if rej = None then 12 else 1)"

fun place_left :: "'r place \<Rightarrow> nat" where
  "place_left Entering = 23"
| "place_left (Locking rej) = retry_left rej + 10"
| "place_left (Inside rej st) = retry_left rej + region_left st"
| "place_left (Calling rej m) = retry_left rej"
| "place_left (Unlocked st) = mint_left st"
| "place_left (Finished r) = 0"

definition all_left :: "nat \<Rightarrow> 'r system \<Rightarrow> nat" where
  "all_left n g = (\<Sum>i<n. place_left (place_of g i))"

text \<open>A goroutine is only where its task can take it.\<close>

fun fits :: "'r task \<Rightarrow> 'r place \<Rightarrow> bool" where
  "fits k Entering \<longleftrightarrow> True"
| "fits k (Locking rej) \<longleftrightarrow> (\<forall>q. k \<noteq> Mints q)"
| "fits k (Inside rej st) \<longleftrightarrow> (\<forall>q. k \<noteq> Mints q)"
| "fits k (Calling rej m) \<longleftrightarrow> (\<exists>j. k = Calls j)"
| "fits k (Unlocked st) \<longleftrightarrow> (\<exists>q. k = Mints q)"
| "fits k (Finished r) \<longleftrightarrow> True"

lemma mint_step_left: "mint_step W cr P wrap fin st s = (Inl st', s') \<Longrightarrow> mint_left st' < mint_left st"
  by (cases st) (auto split: prod.splits sum.splits)

lemma mint_left_pos [simp]: "0 < mint_left st"
  by (cases st) simp_all

lemma region_step_left: "region_step L W c rej st s = (Inl st', s') \<Longrightarrow> region_left st' < region_left st"
  by (cases st) (auto simp: module_mint_step_def dest!: mint_step_left split: prod.splits sum.splits if_splits
      simp del: mint_step.simps)

lemma leave_fits: "\<forall>q. k \<noteq> Mints q \<Longrightarrow> fits k (leave k rej res) \<and> place_left (leave k rej res) \<le> retry_left rej"
  by (cases k) (auto simp: leave_def retry_left_def split: sum.splits)

lemma region_left_pos [simp]: "0 < region_left st"
  by (cases st) simp_all

text \<open>A turn that changes nothing is of a goroutine that waits or is done.\<close>

lemma inside_left:
  assumes "fits k (Inside rej st)" and "micro L W c i k (Inside rej st) h s = (p', h', s')"
  shows "fits k p' \<and> place_left p' < retry_left rej + region_left st"
proof -
  obtain x u where x: "region_step L W c rej st s = (x, u)" by fastforce
  show ?thesis
  proof (cases x)
    case (Inl st')
    with x assms region_step_left [of L W c rej st s st' u] show ?thesis by auto
  next
    case (Inr res)
    with x assms have "p' = leave k rej res" "\<forall>q. k \<noteq> Mints q" by simp_all
    with leave_fits [of k rej res] region_left_pos [of st] show ?thesis
      by (metis add.right_neutral add_less_cancel_left le_less_trans)
  qed
qed

lemma unlocked_left:
  assumes "micro L W c i (Mints q) (Unlocked st) h s = (p', h', s')"
  shows "fits (Mints q) p' \<and> place_left p' < mint_left st"
proof -
  obtain x u where x: "mint_step W (c_credentials c)
      (\<lambda>t. post L W (c_broker c) (mt_path q) t (mt_body q)) (mt_wrap q) (mt_check q) st s = (x, u)" by fastforce
  show ?thesis
  proof (cases x)
    case (Inl st')
    with mint_step_left [of W "c_credentials c"] x assms show ?thesis by auto
  next
    case (Inr r)
    with x assms show ?thesis by auto
  qed
qed

lemma micro_left:
  assumes "fits k p" and "micro L W c i k p h s = (p', h', s')"
  shows "fits k p' \<and> (place_left p' < place_left p \<or>
    (p', h', s') = (p, h, s) \<and> ((\<exists>r. p = Finished r) \<or> (\<exists>rej. p = Locking rej) \<and> h \<noteq> None))"
proof (cases p)
  case (Inside rej st)
  with assms inside_left [of k rej st L W c i h s] show ?thesis by simp
next
  case (Unlocked st)
  with assms unlocked_left show ?thesis by fastforce
next
  case Entering
  with assms show ?thesis by (cases k) (auto simp: retry_left_def split: option.splits if_splits)
next
  case (Calling rej m)
  then obtain j where j: "k = Calls j" using assms(1) by auto
  with Calling assms(2) show ?thesis
    by (cases "ct_answer j (log s) m") (auto simp: retry_left_def split: if_splits)
qed (use assms in \<open>auto split: if_splits\<close>)

definition n_agree :: "nat \<Rightarrow> (nat \<Rightarrow> 'r task) \<Rightarrow> 'r system \<Rightarrow> bool" where
  "n_agree n tasks g \<longleftrightarrow> lock_agrees g \<and> (\<forall>i. fits (tasks i) (place_of g i)) \<and>
     (\<forall>i. holder g = Some i \<longrightarrow> i < n)"

interpretation locked: turn_taking "micro_turn L W c tasks" "n_agree n tasks" "all_left n" n
  for L W c n and tasks :: "nat \<Rightarrow> 'r task"
proof
  fix g :: "'r system" and i
  obtain p' h' s' where m: "micro L W c i (tasks i) (place_of g i) (holder g) (cell g) = (p', h', s')"
    by (metis prod_cases3)
  assume good: "n_agree n tasks g" and i: "i < n"
  then have fit: "fits (tasks i) (place_of g i)" by (simp add: n_agree_def)
  note left = micro_left [OF fit m]
  from micro_lock [OF m] good i have "holder (micro_turn L W c tasks i g) = Some j \<Longrightarrow> j < n" for j
    by (auto simp: n_agree_def lock_agrees_def micro_turn_def m)
  with good left show "n_agree n tasks (micro_turn L W c tasks i g)"
    by (simp add: n_agree_def micro_turn_lock) (simp add: micro_turn_def m)
  show "micro_turn L W c tasks i g = g \<or> all_left n (micro_turn L W c tasks i g) < all_left n g"
  proof (cases "place_left p' < place_left (place_of g i)")
    case True
    then have "all_left n (micro_turn L W c tasks i g) < all_left n g"
      unfolding all_left_def using i by (intro sum_strict_mono_ex1) (auto simp: micro_turn_def m)
    then show ?thesis ..
  next
    case False
    with left have "p' = place_of g i" "h' = holder g" "s' = cell g" "carries (place_of g i) = []" by auto
    then show ?thesis by (simp add: micro_turn_def m)
  qed
next
  fix g :: "'r system"
  assume good: "n_agree n tasks g" and "0 < all_left n g"
  then have "\<exists>i<n. place_left (place_of g i) \<noteq> 0"
    unfolding all_left_def by (metis lessThan_iff less_irrefl sum.neutral)
  then obtain i where i: "i < n" "0 < place_left (place_of g i)" by auto
  define j where "j = (case holder g of None \<Rightarrow> i | Some j \<Rightarrow> j)"
  have "j < n" using good i(1) by (auto simp: j_def n_agree_def split: option.splits)
  obtain p' h' s' where m: "micro L W c j (tasks j) (place_of g j) (holder g) (cell g) = (p', h', s')"
    by (metis prod_cases3)
  have "\<not> ((\<exists>r. place_of g j = Finished r) \<or> (\<exists>rej. place_of g j = Locking rej) \<and> holder g \<noteq> None)"
  proof (cases "holder g")
    case None
    with i show ?thesis by (auto simp: j_def)
  next
    case (Some h)
    with good have "inside (place_of g j)" by (simp add: j_def n_agree_def lock_agrees_def)
    then show ?thesis by (auto simp: inside_def)
  qed
  with micro_left [OF _ m] good have "place_left p' < place_left (place_of g j)" by (auto simp: n_agree_def)
  then have "micro_turn L W c tasks j g \<noteq> g"
    by (metis micro_turn_def m prod.case fun_upd_same system.select_convs(3) less_irrefl)
  with \<open>j < n\<close> show "\<exists>i<n. micro_turn L W c tasks i g \<noteq> g" by blast
qed

lemma left_0: "fits k p \<Longrightarrow> place_left p = 0 \<longleftrightarrow> (\<exists>r. p = Finished r)"
  by (cases p) (simp_all add: retry_left_def)

lemma rounds_return:
  fixes tasks :: "nat \<Rightarrow> 'r task" and L W c s
  assumes "\<forall>r \<in> set rs. set r = {..<n}" and "23 * n \<le> length rs"
  defines "g \<equiv> interleave L W c tasks (concat rs) (system_on s)"
  shows "i < n \<Longrightarrow> \<exists>r. place_of g i = Finished r" and "holder g = None"
proof -
  let ?g = "interleave L W c tasks (concat rs) (system_on s)"
  have good: "n_agree n tasks (system_on s)" and "all_left n (system_on s :: 'r system) = 23 * n"
    by (simp_all add: n_agree_def system_on_lock) (simp_all add: system_on_def all_left_def)
  with locked.rounds_finish [OF good assms(1)] assms(2) have "all_left n ?g = 0"
    by (simp add: interleave_def)
  moreover have last: "n_agree n tasks ?g"
    unfolding interleave_def by (intro locked.turns_good good) (use assms(1) in auto)
  ultimately have finished: "\<forall>i<n. \<exists>r. place_of ?g i = Finished r"
    using left_0 by (fastforce simp: all_left_def n_agree_def)
  moreover have "holder ?g = None"
  proof (cases "holder ?g")
    case (Some j)
    with last have "j < n" "inside (place_of ?g j)" by (auto simp: n_agree_def lock_agrees_def)
    with finished show ?thesis by (auto simp: inside_def)
  qed
  ultimately show "i < n \<Longrightarrow> \<exists>r. place_of g i = Finished r" and "holder g = None"
    unfolding g_def by blast+
qed

text \<open>C8:
  Nobody waits for ever. Let \<open>n\<close> goroutines run over a client whose mutex is free, whatever state it
  is in, whatever they have to do and whatever the world answers. However a schedule orders their
  statements, once it has gone 23 \<open>n\<close> times through all of them every one has returned, and the
  mutex is free.
\<close>

theorem all_return:
  fixes tasks :: "nat \<Rightarrow> 'r task"
  assumes "\<forall>r \<in> set rs. set r = {..<n}" and "23 * n \<le> length rs"
  shows "\<exists>g. interleave L W c tasks (concat rs) (system_on s) = g \<and>
    (\<forall>i<n. \<exists>r. place_of g i = Finished r) \<and> holder g = None"
  using rounds_return [OF assms] by blast

theorem all_return_witness:
  "\<exists>g. interleave sample_lib still_world sample_client mixed_tasks (concat (replicate 46 [1, 0, 1]))
       (system_on stale_state) = g \<and> (\<forall>i<2. \<exists>r. place_of g i = Finished r)"
proof -
  have "\<forall>r \<in> set (replicate 46 [1, 0, 1 :: nat]). set r = {..<2}" by auto
  from all_return [OF this, of sample_lib still_world sample_client mixed_tasks stale_state] show ?thesis by auto
qed

end
