(* ===== verification/MaLockedRefresh.thy ===== *)
theory MaLockedRefresh
  imports MaLockedRuns
begin

text \<open>
  Concurrent callers share one refresh, with every statement of the client interleaved. The invariant
  follows the refresh through the region that makes it: the Work Context the run began with is cached,
  or it has been dropped and its replacement is on the way in exactly one goroutine, or the replacement
  is cached.
\<close>

section \<open>A broker that answers\<close>

definition lasting :: "world \<Rightarrow> Client \<Rightarrow> string \<Rightarrow> ModuleContext \<Rightarrow> bool" where
  "lasting W c old k \<longleftrightarrow> mc_Token k \<notin> {old, []} \<and> (\<forall>l. w_now W l + c_refreshSkew c < mc_ExpiresAt k)"

text \<open>
  Whenever it is asked, the projected token is there and the broker answers with a Work Context that
  is not \<open>old\<close> and does not expire during the run.
\<close>

definition broker_lasting :: "core_lib \<Rightarrow> world \<Rightarrow> Client \<Rightarrow> string \<Rightarrow> bool" where
  "broker_lasting L W c old \<longleftrightarrow>
     (\<forall>s. \<exists>t. projectedToken W (c_credentials c) s = (Inr t, s\<lparr>log := log s @ [EvToken]\<rparr>)) \<and>
     (\<forall>s t. usable_token t \<longrightarrow> (\<exists>out. module_mint_step L W c (AtPost t) s =
          (Inl (AtExpiry out), s\<lparr>log := log s @ [EvPost (mint_request c t)]\<rparr>) \<and>
        (\<forall>l. \<exists>k. module_capability L out (w_now W l) = Inr k \<and> lasting W c old k)))"

section \<open>Following the refresh\<close>

text \<open>The cache before, with the refresh on its way, and after; \<open>n\<close> requests were there before.\<close>

definition kept :: "world \<Rightarrow> Client \<Rightarrow> nat \<Rightarrow> string \<Rightarrow> state \<Rightarrow> bool" where
  "kept W c n old s \<longleftrightarrow> length (posts (log s)) = n \<and> c_module s = old \<and> (old = [] \<or> steady W c s)"

definition vacant :: "nat \<Rightarrow> state \<Rightarrow> bool" where
  "vacant n s \<longleftrightarrow> length (posts (log s)) = n \<and> c_module s = []"

definition refreshed :: "world \<Rightarrow> Client \<Rightarrow> nat \<Rightarrow> string \<Rightarrow> state \<Rightarrow> bool" where
  "refreshed W c n old s \<longleftrightarrow> length (posts (log s)) = n + 1 \<and> steady W c s \<and> c_module s \<noteq> old"

fun region_one ::
  "core_lib \<Rightarrow> world \<Rightarrow> Client \<Rightarrow> nat \<Rightarrow> string \<Rightarrow> state \<Rightarrow> region \<Rightarrow> bool" where
  "region_one L W c n old s Forgetting \<longleftrightarrow> kept W c n old s \<or> refreshed W c n old s"
| "region_one L W c n old s Looking \<longleftrightarrow> kept W c n old s \<or> vacant n s \<or> refreshed W c n old s"
| "region_one L W c n old s Timing \<longleftrightarrow> steady W c s \<and> (kept W c n old s \<or> refreshed W c n old s)"
| "region_one L W c n old s (Minting AtToken) \<longleftrightarrow> vacant n s"
| "region_one L W c n old s (Minting (AtPost t)) \<longleftrightarrow> vacant n s \<and> usable_token t"
| "region_one L W c n old s (Minting (AtExpiry out)) \<longleftrightarrow> vacant (n + 1) s \<and>
     (\<forall>l. \<exists>k. module_capability L out (w_now W l) = Inr k \<and> lasting W c old k)"
| "region_one L W c n old s (SetToken k) \<longleftrightarrow> vacant (n + 1) s \<and> lasting W c old k"
| "region_one L W c n old s (SetExpiry k) \<longleftrightarrow> length (posts (log s)) = n + 1 \<and>
     c_module s = mc_Token k \<and> lasting W c old k"
| "region_one L W c n old s (Unlocking res) \<longleftrightarrow> steady W c s \<and> res = Inr (c_module s) \<and>
     (kept W c n old s \<or> refreshed W c n old s)"

lemma steady_nonempty: "steady W c s \<Longrightarrow> c_module s \<noteq> []"
  by (simp add: steady_def)

lemma kept_log: "posts l = posts (log s) \<Longrightarrow> kept W c n old (s\<lparr>log := l\<rparr>) = kept W c n old s"
  by (simp add: kept_def)

lemma refreshed_log: "posts l = posts (log s) \<Longrightarrow> refreshed W c n old (s\<lparr>log := l\<rparr>) = refreshed W c n old s"
  by (simp add: refreshed_def)

lemma vacant_log: "posts l = posts (log s) \<Longrightarrow> vacant n (s\<lparr>log := l\<rparr>) = vacant n s"
  by (simp add: vacant_def)

lemmas log_simps = kept_log refreshed_log vacant_log

text \<open>A statement under the mutex moves the refresh on, and a refreshed cache stays as it is.\<close>

definition one_step ::
  "core_lib \<Rightarrow> world \<Rightarrow> Client \<Rightarrow> nat \<Rightarrow> string \<Rightarrow> state \<Rightarrow> (region + (ma_err + string)) \<times> state \<Rightarrow> bool" where
  "one_step L W c n old s = (\<lambda>(x, s'). (refreshed W c n old s \<longrightarrow> refreshed W c n old s' \<and> c_module s' = c_module s) \<and>
     (case x of Inl st' \<Rightarrow> region_one L W c n old s' st'
      | Inr res \<Rightarrow> s' = s \<and> steady W c s \<and> res = Inr (c_module s) \<and> (kept W c n old s \<or> refreshed W c n old s)))"

lemma minting_one:
  assumes "region_one L W c n old s (Minting ms)" and "broker_lasting L W c old"
  shows "one_step L W c n old s (region_step L W c rej (Minting ms) s)"
proof -
  from assms(1) have no: "\<not> refreshed W c n old s"
    by (cases ms) (auto simp: vacant_def refreshed_def steady_def)
  show ?thesis
  proof (cases ms)
    case AtToken
    from assms(2) obtain t where t: "projectedToken W (c_credentials c) s = (Inr t, s\<lparr>log := log s @ [EvToken]\<rparr>)"
      unfolding broker_lasting_def by blast
    then have "usable_token t" by (cases rule: projectedToken_result) auto
    with t no assms(1) AtToken show ?thesis
      by (simp add: one_step_def module_mint_step_def vacant_log)
  next
    case (AtPost t)
    from AtPost assms(1) have "usable_token t" by simp
    with assms(2) obtain out where "module_mint_step L W c (AtPost t) s =
          (Inl (AtExpiry out), s\<lparr>log := log s @ [EvPost (mint_request c t)]\<rparr>)"
        "\<forall>l. \<exists>k. module_capability L out (w_now W l) = Inr k \<and> lasting W c old k"
      unfolding broker_lasting_def by blast
    with no assms(1) AtPost show ?thesis by (simp add: one_step_def vacant_def)
  next
    case (AtExpiry out)
    with assms(1) obtain k where "module_capability L out (w_now W (log s)) = Inr k" "lasting W c old k" by auto
    with no assms(1) AtExpiry show ?thesis
      by (simp add: one_step_def module_mint_step_def vacant_log)
  qed
qed

lemma region_one_step:
  assumes "region_one L W c n old s st" and "broker_lasting L W c old" and "\<And>m. rej = Some m \<Longrightarrow> m = old"
  shows "one_step L W c n old s (region_step L W c rej st s)"
proof (cases st)
  case Forgetting
  have "kept W c n old (dropped rej s) \<or> vacant n (dropped rej s)" if "kept W c n old s"
    using that by (auto simp: dropped_def forgotten_def kept_def vacant_def split: option.splits)
  moreover have "dropped rej s = s" if "refreshed W c n old s"
    using that assms(3) by (auto simp: dropped_def forgotten_def refreshed_def split: option.splits)
  ultimately show ?thesis
    using Forgetting assms(1) by (auto simp: one_step_def region_forgets simp del: region_step.simps)
next
  case Looking
  with assms(1) steady_nonempty show ?thesis
    by (auto simp: one_step_def kept_def vacant_def refreshed_def)
next
  case Timing
  with assms(1) show ?thesis by (auto simp: one_step_def log_simps steady_def)
next
  case (Minting ms)
  with minting_one assms show ?thesis by blast
next
  case (SetToken k)
  with assms(1) show ?thesis by (auto simp: one_step_def vacant_def refreshed_def steady_def)
next
  case (SetExpiry k)
  with assms(1) show ?thesis by (auto simp: one_step_def refreshed_def steady_def lasting_def)
next
  case (Unlocking res)
  with assms(1) show ?thesis by (simp add: one_step_def)
qed

section \<open>The whole system\<close>

text \<open>A Work Context that was handed out: the one there was, or the replacement that is now cached.\<close>

definition handed :: "world \<Rightarrow> Client \<Rightarrow> nat \<Rightarrow> string \<Rightarrow> state \<Rightarrow> string \<Rightarrow> bool" where
  "handed W c n old s m \<longleftrightarrow> m \<noteq> [] \<and> (m = old \<or> refreshed W c n old s \<and> m = c_module s)"

fun rejected_in :: "'r place \<Rightarrow> string option" where
  "rejected_in (Locking rej) = rej"
| "rejected_in (Inside rej st) = rej"
| "rejected_in (Calling rej m) = rej"
| "rejected_in _ = None"

definition place_one ::
  "core_lib \<Rightarrow> world \<Rightarrow> Client \<Rightarrow> nat \<Rightarrow> string \<Rightarrow> state \<Rightarrow> string list \<Rightarrow> 'r place \<Rightarrow> bool" where
  "place_one L W c n old s sh p \<longleftrightarrow> (\<forall>st. p = Unlocked st \<longrightarrow> False) \<and>
     (\<forall>m. rejected_in p = Some m \<longrightarrow> m = old) \<and>
     (\<forall>m \<in> set (sh @ carries p). handed W c n old s m) \<and>
     (\<forall>rej st. p = Inside rej st \<longrightarrow> region_one L W c n old s st)"

definition single_refresh ::
  "core_lib \<Rightarrow> world \<Rightarrow> Client \<Rightarrow> nat \<Rightarrow> string \<Rightarrow> 'r system \<Rightarrow> bool" where
  "single_refresh L W c n old g \<longleftrightarrow> lock_agrees g \<and>
     (holder g = None \<longrightarrow> kept W c n old (cell g) \<or> refreshed W c n old (cell g)) \<and>
     (\<forall>i. place_one L W c n old (cell g) (offered g i) (place_of g i))"

text \<open>What the callers do: calls and reads, and the host rejects only the Work Context there was.\<close>

definition rejects_only :: "string \<Rightarrow> 'r task \<Rightarrow> bool" where
  "rejects_only old k \<longleftrightarrow> (\<forall>q. k \<noteq> Mints q) \<and>
     (\<forall>j l m e. k = Calls j \<longrightarrow> ct_answer j l m = Inl e \<longrightarrow> CodeOf e = CodeUnauthenticated \<longrightarrow> m = old)"

text \<open>The turn of a goroutine that is not under the mutex leaves the cache and the requests alone.\<close>

lemma outside_one:
  assumes "micro L W c i k p h s = (p', h', s')" and "\<not> inside p" and "rejects_only old k"
    and "place_one L W c n old s sh p" and "inside p' \<Longrightarrow> kept W c n old s \<or> refreshed W c n old s"
  shows "(\<exists>l. s' = s\<lparr>log := l\<rparr> \<and> posts l = posts (log s)) \<and> place_one L W c n old s' (sh @ carries p) p'"
proof (cases p)
  case Entering
  with assms show ?thesis
    by (cases k) (auto simp: place_one_def rejects_only_def split: if_splits intro: exI [of _ "log s"])
next
  case (Locking rej)
  with assms show ?thesis
    by (auto simp: place_one_def split: if_splits intro: exI [of _ "log s"])
next
  case (Calling rej m)
  show ?thesis
  proof (cases k)
    case (Calls j)
    with Calling assms have s': "s' = s\<lparr>log := log s @ [EvCall (task_request L c j m)]\<rparr>" by simp
    from Calling Calls assms have "p' = Locking (Some m) \<and> rej = None \<and> m = old \<or> (\<exists>r. p' = Finished r)"
      by (auto simp: rejects_only_def split: sum.splits if_splits)
    with s' Calling assms(4) show ?thesis
      by (auto simp: place_one_def handed_def refreshed_log)
  qed (use Calling assms in \<open>auto simp: place_one_def intro: exI [of _ "log s"]\<close>)
qed (use assms in \<open>auto simp: place_one_def intro: exI [of _ "log s"]\<close>)

lemma handed_on:
  assumes "handed W c n old s m" and "refreshed W c n old s \<longrightarrow> refreshed W c n old s' \<and> c_module s' = c_module s"
  shows "handed W c n old s' m"
  using assms by (auto simp: handed_def)

lemma inside_one:
  assumes "micro L W c i k (Inside rej st) h s = (p', h', s')" and "broker_lasting L W c old"
    and "place_one L W c n old s sh (Inside rej st)"
  shows "(refreshed W c n old s \<longrightarrow> refreshed W c n old s' \<and> c_module s' = c_module s) \<and>
    place_one L W c n old s' sh p' \<and> (h' = h \<and> inside p' \<or> h' = None \<and> (kept W c n old s' \<or> refreshed W c n old s'))"
proof -
  obtain x u where x: "region_step L W c rej st s = (x, u)" by fastforce
  from assms(3) have "region_one L W c n old s st" and rej: "\<And>m. rej = Some m \<Longrightarrow> m = old"
    and sh: "\<forall>m \<in> set sh. handed W c n old s m"
    by (auto simp: place_one_def)
  from region_one_step [OF this(1) assms(2) this(2)] x have step: "one_step L W c n old s (x, u)" by metis
  show ?thesis
  proof (cases x)
    case (Inl st')
    with x assms(1) have "p' = Inside rej st'" "h' = h" "s' = u" by auto
    with step Inl rej sh show ?thesis
      by (auto simp: one_step_def place_one_def intro: handed_on)
  next
    case (Inr res)
    with step have u: "u = s" "steady W c s" "res = Inr (c_module s)" "kept W c n old s \<or> refreshed W c n old s"
      by (auto simp: one_step_def)
    with Inr x assms(1) have p': "p' = leave k rej (Inr (c_module s))" "h' = None" "s' = s" by auto
    have "handed W c n old s (c_module s)" using u by (auto simp: handed_def kept_def steady_def)
    with p' rej sh have "place_one L W c n old s sh p'"
      by (auto simp: place_one_def leave_def split: task.splits)
    with p' u show ?thesis by auto
  qed
qed

lemma micro_turn_one:
  assumes "single_refresh L W c n old g" and "broker_lasting L W c old" and "\<And>i. rejects_only old (tasks i)"
  shows "single_refresh L W c n old (micro_turn L W c tasks i g)"
proof -
  let ?p = "place_of g i" and ?s = "cell g" and ?h = "holder g"
  obtain p' h' s' where m: "micro L W c i (tasks i) ?p ?h ?s = (p', h', s')" by (metis prod_cases3)
  from assms(1) have lock: "lock_agrees g" and free: "?h = None \<longrightarrow> kept W c n old ?s \<or> refreshed W c n old ?s"
    and places: "\<And>j. place_one L W c n old ?s (offered g j) (place_of g j)"
    unfolding single_refresh_def by blast+
  from micro_turn_lock [OF lock] have lock': "lock_agrees (micro_turn L W c tasks i g)" .
  have carry: "carries ?p = []" if "inside ?p" using that by (auto simp: inside_def)
  have "(refreshed W c n old ?s \<longrightarrow> refreshed W c n old s' \<and> c_module s' = c_module ?s) \<and>
    place_one L W c n old s' (offered g i @ carries ?p) p' \<and>
    (h' = None \<longrightarrow> kept W c n old s' \<or> refreshed W c n old s') \<and>
    (\<not> inside ?p \<longrightarrow> (\<exists>l. s' = ?s\<lparr>log := l\<rparr> \<and> posts l = posts (log ?s)))"
  proof (cases "inside ?p")
    case True
    then obtain rej st where p: "?p = Inside rej st" by (auto simp: inside_def)
    from True lock have "?h = Some i" by (simp add: lock_agrees_def)
    with inside_one [OF m [unfolded p] assms(2) places [of i, unfolded p]] p show ?thesis by auto
  next
    case False
    from micro_lock [OF m] lock False have h: "inside p' \<Longrightarrow> ?h = None" "h' = None \<Longrightarrow> ?h = None"
      by (auto simp: lock_agrees_def)
    have "inside p' \<Longrightarrow> kept W c n old ?s \<or> refreshed W c n old ?s" using h(1) free by blast
    from outside_one [OF m False assms(3) places this] obtain l where
      "s' = ?s\<lparr>log := l\<rparr>" "posts l = posts (log ?s)" "place_one L W c n old s' (offered g i @ carries ?p) p'"
      by blast
    with h free show ?thesis by (auto simp: log_simps)
  qed
  then have keep: "refreshed W c n old ?s \<longrightarrow> refreshed W c n old s' \<and> c_module s' = c_module ?s"
    and mine: "place_one L W c n old s' (offered g i @ carries ?p) p'"
    and free': "h' = None \<longrightarrow> kept W c n old s' \<or> refreshed W c n old s'"
    and out: "\<not> inside ?p \<Longrightarrow> \<exists>l. s' = ?s\<lparr>log := l\<rparr> \<and> posts l = posts (log ?s)" by blast+
  have "place_one L W c n old s' (offered g j) (place_of g j)" if "j \<noteq> i" for j
  proof -
    have "region_one L W c n old s' st" if "place_of g j = Inside rej st" for rej st
    proof -
      from that lock have "?h = Some j" by (auto simp: lock_agrees_def inside_def)
      with lock \<open>j \<noteq> i\<close> have "\<not> inside ?p" by (simp add: lock_agrees_def)
      from out [OF this] obtain l where "s' = ?s\<lparr>log := l\<rparr>" "posts l = posts (log ?s)" by blast
      moreover from places [of j] that have "region_one L W c n old ?s st" by (simp add: place_one_def)
      ultimately show ?thesis
        by (cases "(L, W, c, n, old, ?s, st)" rule: region_one.cases) (auto simp: log_simps)
    qed
    with places [of j] keep show ?thesis by (auto simp: place_one_def intro: handed_on)
  qed
  with mine free' lock' show ?thesis by (auto simp: single_refresh_def micro_turn_def m)
qed

lemma interleave_one:
  assumes "single_refresh L W c n old g" and "broker_lasting L W c old" and "\<And>i. rejects_only old (tasks i)"
  shows "single_refresh L W c n old (interleave L W c tasks is g)"
  using assms(1) unfolding interleave_def
  by (induction "is" arbitrary: g) (simp_all add: micro_turn_one assms(2,3))

lemma system_on_one:
  assumes "c_module s = [] \<or> steady W c s"
  shows "single_refresh L W c (length (posts (log s))) (c_module s) (system_on s)"
  using assms by (simp add: single_refresh_def system_on_lock) (simp add: system_on_def kept_def place_one_def)

lemma region_one_posts: "region_one L W c n old s st \<Longrightarrow> length (posts (log s)) \<le> n + 1"
  by (cases "(L, W, c, n, old, s, st)" rule: region_one.cases) (auto simp: kept_def vacant_def refreshed_def)

text \<open>C6:
  Concurrent callers share one refresh. Let the client's cache be empty, or hold a Work Context that
  does not expire during the run, and let the host reject no other; let every mint succeed with a
  Work Context that lasts. Then however the statements of any number of callers and readers
  interleave, the broker is asked at most once; with the mutex free, exactly once if the cached Work
  Context has changed and not at all otherwise; and every Work Context presented is the one there was
  or the one cached now.
\<close>

theorem locked_one_refresh:
  assumes "interleave L W c tasks is (system_on s) = g" and "c_module s = [] \<or> steady W c s"
    and "broker_lasting L W c (c_module s)" and "\<And>i. rejects_only (c_module s) (tasks i)"
  shows "length (posts (log (cell g))) \<le> length (posts (log s)) + 1 \<and>
    (holder g = None \<longrightarrow> length (posts (log (cell g))) =
       length (posts (log s)) + (if c_module (cell g) = c_module s then 0 else 1)) \<and>
    (\<forall>i. set (offered g i) \<subseteq> {c_module s, c_module (cell g)})"
proof -
  let ?n = "length (posts (log s))" and ?old = "c_module s"
  have one: "single_refresh L W c ?n ?old g"
    unfolding assms(1) [symmetric] by (rule interleave_one [OF system_on_one [OF assms(2)] assms(3,4)])
  have "length (posts (log (cell g))) \<le> ?n + 1"
  proof (cases "holder g")
    case None
    with one show ?thesis by (auto simp: single_refresh_def kept_def refreshed_def)
  next
    case (Some i)
    with one have "inside (place_of g i)" by (simp add: single_refresh_def lock_agrees_def)
    then obtain rej st where "place_of g i = Inside rej st" unfolding inside_def by blast
    with one have "region_one L W c ?n ?old (cell g) st" by (auto simp: single_refresh_def place_one_def)
    then show ?thesis by (rule region_one_posts)
  qed
  moreover from one have "holder g = None \<longrightarrow> length (posts (log (cell g))) =
       ?n + (if c_module (cell g) = ?old then 0 else 1)"
    by (auto simp: single_refresh_def kept_def refreshed_def)
  moreover from one have "set (offered g i) \<subseteq> {?old, c_module (cell g)}" for i
    by (auto simp: single_refresh_def place_one_def handed_def)
  ultimately show ?thesis by blast
qed

section \<open>A cold start\<close>

text \<open>
  With nothing cached and no call rejected, a call presents one Work Context, once, and is done.
\<close>

fun once :: "'r place \<Rightarrow> string list \<Rightarrow> bool" where
  "once (Finished r) sh \<longleftrightarrow> length sh = 1"
| "once (Unlocked st) sh \<longleftrightarrow> False"
| "once p sh \<longleftrightarrow> sh = [] \<and> rejected_in p = None"

lemma micro_once:
  assumes "micro L W c i (Calls j) p h s = (p', h', s')" and "once p sh" and "present (c_authority c)"
    and "place_one L W c n [] s sh p" and "broker_lasting L W c []" and "rejects_only [] (Calls j)"
  shows "once p' (sh @ carries p)"
proof (cases p)
  case (Inside rej st)
  obtain x u where x: "region_step L W c rej st s = (x, u)" by fastforce
  from Inside assms(2) have rej: "rej = None" "sh = []" by simp_all
  from Inside assms(4) have "region_one L W c n [] s st" by (simp add: place_one_def)
  from region_one_step [OF this assms(5), of rej] rej x have "one_step L W c n [] s (x, u)" by simp
  then show ?thesis using Inside x assms(1) rej
    by (cases x) (auto simp: one_step_def leave_def)
next
  case (Calling rej m)
  with assms(4) have "m \<noteq> []" by (simp add: place_one_def handed_def)
  with Calling assms(1,2,6) show ?thesis
    by (auto simp: rejects_only_def split: sum.splits if_splits)
qed (use assms in \<open>auto split: if_splits\<close>)

lemma interleave_once:
  assumes "single_refresh L W c n [] g" and "\<forall>i. once (place_of g i) (offered g i)"
    and "present (c_authority c)" and "broker_lasting L W c []"
    and "\<And>i. tasks i = Calls (js i) \<and> rejects_only [] (tasks i)"
  shows "\<forall>i. once (place_of (interleave L W c tasks is g) i) (offered (interleave L W c tasks is g) i)"
  using assms(1,2)
proof (induction "is" arbitrary: g)
  case (Cons i is')
  let ?t = "micro_turn L W c tasks i g"
  obtain p' h' s' where m: "micro L W c i (Calls (js i)) (place_of g i) (holder g) (cell g) = (p', h', s')"
    by (metis prod_cases3)
  from Cons.prems have "place_one L W c n [] (cell g) (offered g i) (place_of g i)"
    by (simp add: single_refresh_def)
  moreover have "rejects_only [] (Calls (js i))" using assms(5) [of i] by metis
  ultimately have "once p' (offered g i @ carries (place_of g i))"
    by (rule micro_once [OF m spec [OF Cons.prems(2)] assms(3) _ assms(4)])
  with Cons.prems(2) have "\<forall>j. once (place_of ?t j) (offered ?t j)"
    using assms(5) [of i] by (simp add: micro_turn_def m)
  moreover have "single_refresh L W c n [] ?t"
    by (rule micro_turn_one [OF Cons.prems(1) assms(4)]) (use assms(5) in blast)
  ultimately show ?case using Cons.IH [of ?t] by (simp add: interleave_Cons)
qed (simp add: interleave_def)

text \<open>C9:
  A cold start. \<open>N\<close> goroutines call the authority endpoint over a client that has nothing cached, the
  broker's mints succeed with Work Contexts that last, and the host rejects none. However a schedule
  orders their statements, once it has gone 23 \<open>N\<close> times through all of them every call has returned
  with the host's answer, the broker has been asked exactly once, and every goroutine has presented
  exactly one Work Context, the same for all: the one that is cached now.
\<close>

theorem cold_start:
  assumes "c_module s = []" and "present (c_authority c)" and "broker_lasting L W c []"
    and "\<And>i. tasks i = Calls (js i) \<and> rejects_only [] (tasks i)"
    and "\<forall>r \<in> set rs. set r = {..<N}" and "23 * N \<le> length rs" and "0 < N"
  shows "\<exists>g. interleave L W c tasks (concat rs) (system_on s) = g \<and>
    (\<forall>i<N. (\<exists>r. place_of g i = Finished r) \<and> offered g i = [c_module (cell g)]) \<and>
    c_module (cell g) \<noteq> [] \<and> length (posts (log (cell g))) = length (posts (log s)) + 1"
proof -
  let ?n = "length (posts (log s))"
  let ?g = "interleave L W c tasks (concat rs) (system_on s)"
  have start: "single_refresh L W c ?n [] (system_on s)"
    using system_on_one [of s W c L] assms(1) by simp
  have one: "single_refresh L W c ?n [] ?g"
    by (rule interleave_one [OF start assms(3)]) (use assms(4) in blast)
  have "\<forall>i. once (place_of (system_on s) i) (offered (system_on s) i)" by (simp add: system_on_def)
  from interleave_once [OF start this assms(2-4)] have
    sh: "\<forall>i. once (place_of ?g i) (offered ?g i)" .
  have finished: "\<forall>i<N. \<exists>r. place_of ?g i = Finished r"
    using rounds_return(1) [OF assms(5,6), where tasks = tasks and s = s] by blast
  have "offered ?g i = [c_module (cell ?g)] \<and> refreshed W c ?n [] (cell ?g)" if "i < N" for i
  proof -
    from finished that obtain r where "place_of ?g i = Finished r" by blast
    with spec [OF sh, of i] have "length (offered ?g i) = 1" by simp
    then obtain m where m: "offered ?g i = [m]" by (cases "offered ?g i") auto
    from one have "place_one L W c ?n [] (cell ?g) (offered ?g i) (place_of ?g i)"
      by (simp add: single_refresh_def)
    with m have "handed W c ?n [] (cell ?g) m" by (simp add: place_one_def)
    with m show ?thesis by (auto simp: handed_def)
  qed
  with finished assms(7) show ?thesis by (auto simp: refreshed_def)
qed

section \<open>The sample\<close>

lemma still_broker_lasting: "old \<noteq> ''wc-new'' \<Longrightarrow> broker_lasting sample_lib still_world sample_client old"
proof -
  assume old: "old \<noteq> ''wc-new''"
  let ?k = "\<lparr>mc_Token = ''wc-new'', mc_ExpiresAt = 900000000000\<rparr>"
  have now: "w_now still_world l = 0" for l by (simp add: still_world_def)
  have "lasting still_world sample_client old ?k"
    using old by (simp add: lasting_def now)
  moreover have "module_capability sample_lib (sample_fields ''new'') (w_now still_world l) = Inr ?k" for l
    by (simp add: module_capability_def sample_new now)
  ultimately show ?thesis
    unfolding broker_lasting_def still_stages still_parts sample_projected by blast
qed

lemma exchange_rejects_only: "rejects_only ''wc-old'' (Calls exchange_call)"
proof -
  have "m = ''wc-old''" if "ct_answer exchange_call l m = Inl e" for l m e
  proof (rule ccontr)
    assume "m \<noteq> ''wc-old''"
    with that show False
      by (simp add: gate_opens exchange_call_def call_of_answer host_answer_def still_world_def Exchange_procedure_def
          call_request_def sample_world_def sample_service_def)
  qed
  then show ?thesis by (auto simp: rejects_only_def)
qed

lemma resolve_never_rejects: "rejects_only [] (Calls resolve_call)"
  by (simp add: rejects_only_def resolve_call_def call_of_answer host_answer_def still_world_def
      sample_world_def sample_service_def no_answer_def)

theorem locked_one_refresh_witness:
  "length (posts (log (cell (interleave sample_lib still_world sample_client (\<lambda>_. Calls exchange_call)
     (concat (replicate 30 [0, 1, 1, 0, 2])) (system_on stale_state))))) \<le> 1"
proof -
  have old: "c_module stale_state = ''wc-old''" "posts (log stale_state) = []"
    by (simp_all add: stale_state_def)
  have steady: "c_module stale_state = [] \<or> steady still_world sample_client stale_state"
    using still_steady by blast
  have lasts: "broker_lasting sample_lib still_world sample_client (c_module stale_state)"
    unfolding old by (rule still_broker_lasting) simp
  have only: "rejects_only (c_module stale_state) (Calls exchange_call)"
    unfolding old by (rule exchange_rejects_only)
  from locked_one_refresh [OF refl steady lasts, of "\<lambda>_. Calls exchange_call"
      "concat (replicate 30 [0, 1, 1, 0, 2])"] only old show ?thesis by simp
qed

theorem cold_start_witness:
  "\<exists>g. interleave sample_lib still_world sample_client (\<lambda>_. Calls resolve_call) (concat (replicate 69 [2, 0, 1]))
       (system_on initial_state) = g \<and>
     (\<forall>i<3. offered g i = [c_module (cell g)]) \<and> length (posts (log (cell g))) = 1"
proof -
  have empty: "c_module initial_state = []" "posts (log initial_state) = []"
    by (simp_all add: initial_state_def)
  have rounds: "\<forall>r \<in> set (replicate 69 [2, 0, 1 :: nat]). set r = {..<3}" by auto
  have lasts: "broker_lasting sample_lib still_world sample_client []"
    by (rule still_broker_lasting) simp
  have tasks: "(\<lambda>_. Calls resolve_call) i = Calls ((\<lambda>_. resolve_call) i) \<and>
      rejects_only [] ((\<lambda>_. Calls resolve_call) i)" for i :: nat
    using resolve_never_rejects by simp
  have "23 * 3 \<le> length (replicate 69 [2, 0, 1 :: nat])" by simp
  from cold_start [OF empty(1) sample_present lasts tasks rounds this] empty(2) show ?thesis by auto
qed

end
