(* ===== verification/MaSourcesLocked.thy ===== *)
theory MaSourcesLocked
  imports MaLockedRuns MaSourcesFacts
begin

text \<open>
  The live-authority sources asked by many goroutines at once. \<open>ask\<close> is three stretches: \<open>load\<close> under
  the source's own mutex, the call of the authority endpoint statement by statement as in theory
  MaLocked, and \<open>store\<close> under the source's mutex again. Between them, and between the statements of the
  call, any other goroutine may move: one that asks the same source, or one that uses the client for
  something else. \<open>load\<close> and \<open>store\<close> each interact with the world at most once, by reading the clock, and
  what they read and write is written under the source's mutex only, so each of them is one turn.
\<close>

section \<open>Goroutines that ask\<close>

type_synonym authority_answer = ModuleResolveWorkContextAuthorityResponse

datatype errand = Asks string WorkContextQuestion | Other "authority_answer option task"

datatype stand = Loading | Busy "authority_answer option place" | Storing authority_answer
  | Answered "ma_err + authority_answer"

fun errand_task ::
  "core_lib \<Rightarrow> world \<Rightarrow> WorkContextSources \<Rightarrow> errand \<Rightarrow> authority_answer option task" where
  "errand_task L W x (Asks key q) = Calls (call_of L W (ss_client x) Resolve_procedure (resolve_message x q) id)"
| "errand_task L W x (Other k) = k"

text \<open>What \<open>ask\<close> does when its call has returned.\<close>

fun arrive :: "errand \<Rightarrow> authority_answer option place \<Rightarrow> stand" where
  "arrive (Asks key q) (Finished (Inl e)) = Answered (Inl e)"
| "arrive (Asks key q) (Finished (Inr None)) = Answered (Inl (fail_sentinel ErrUnreadableAuthorityAnswer))"
| "arrive (Asks key q) (Finished (Inr (Some a))) = Storing a"
| "arrive e p = Busy p"

fun ask_step ::
  "core_lib \<Rightarrow> world \<Rightarrow> WorkContextSources \<Rightarrow> nat \<Rightarrow> errand \<Rightarrow> stand \<Rightarrow> nat option \<Rightarrow> source_state \<Rightarrow>
     stand \<times> nat option \<times> source_state" where
  "ask_step L W x i e Loading h s = (case e of
       Asks key q \<Rightarrow> (case load W x key s of
            (Some a, s) \<Rightarrow> (Answered (Inr a), h, s) | (None, s) \<Rightarrow> (Busy Entering, h, s))
     | Other k \<Rightarrow> (Busy Entering, h, s))"
| "ask_step L W x i e (Busy p) h s =
     (case micro L W (ss_client x) i (errand_task L W x e) p h (client_part s) of
        (p, h, t) \<Rightarrow> (arrive e p, h, with_client s t))"
| "ask_step L W x i e (Storing a) h s = (case e of
       Asks key q \<Rightarrow> (Answered (Inr a), h, store W x key a s)
     | Other k \<Rightarrow> (Storing a, h, s))"
| "ask_step L W x i e (Answered r) h s = (Answered r, h, s)"

record source_system =
  so_state :: source_state
  so_holder :: "nat option"
  so_stand :: "nat \<Rightarrow> stand"
  so_offered :: "nat \<Rightarrow> string list"

fun stand_carries :: "stand \<Rightarrow> string list" where
  "stand_carries (Busy p) = carries p"
| "stand_carries _ = []"

definition ask_turn ::
  "core_lib \<Rightarrow> world \<Rightarrow> WorkContextSources \<Rightarrow> (nat \<Rightarrow> errand) \<Rightarrow> nat \<Rightarrow> source_system \<Rightarrow> source_system" where
  "ask_turn L W x es i g =
     (let (p, h, s) = ask_step L W x i (es i) (so_stand g i) (so_holder g) (so_state g)
      in \<lparr>so_state = s, so_holder = h, so_stand = (so_stand g)(i := p),
          so_offered = (so_offered g)(i := so_offered g i @ stand_carries (so_stand g i))\<rparr>)"

definition ask_interleave ::
  "core_lib \<Rightarrow> world \<Rightarrow> WorkContextSources \<Rightarrow> (nat \<Rightarrow> errand) \<Rightarrow> nat list \<Rightarrow> source_system \<Rightarrow> source_system" where
  "ask_interleave L W x es is g = fold (ask_turn L W x es) is g"

definition source_system_on :: "source_state \<Rightarrow> source_system" where
  "source_system_on s = \<lparr>so_state = s, so_holder = None, so_stand = (\<lambda>_. Loading), so_offered = (\<lambda>_. [])\<rparr>"

section \<open>One goroutine alone\<close>

text \<open>
  The turns of the call are the turns of theory MaLocked, so one goroutine that is not interrupted
  does what \<open>ask\<close> does.
\<close>

definition ask_solo ::
  "core_lib \<Rightarrow> world \<Rightarrow> WorkContextSources \<Rightarrow> nat \<Rightarrow> errand \<Rightarrow> stand \<times> nat option \<times> source_state \<Rightarrow>
     stand \<times> nat option \<times> source_state" where
  "ask_solo L W x i e = (\<lambda>(p, h, s). ask_step L W x i e p h s)"

lemma ask_solo_stays: "(ask_solo L W x i e ^^ n) (Answered r, h, s) = (Answered r, h, s)"
  by (induction n) (simp_all add: ask_solo_def)

text \<open>The first turn at which the call is over.\<close>

lemma busy_solo:
  assumes "(solo L W (ss_client x) i (errand_task L W x (Asks key q)) ^^ n) (p, h, client_part s) = (Finished r, h', t)"
    and "\<And>r. p \<noteq> Finished r"
  shows "\<exists>m\<le>n. (ask_solo L W x i (Asks key q) ^^ m) (Busy p, h, s) =
    (arrive (Asks key q) (Finished r), h', with_client s t)"
  using assms
proof (induction n arbitrary: p h s)
  case (Suc n)
  obtain p1 h1 t1 where m: "micro L W (ss_client x) i (errand_task L W x (Asks key q)) p h (client_part s) = (p1, h1, t1)"
    by (metis prod_cases3)
  have one: "ask_solo L W x i (Asks key q) (Busy p, h, s) = (arrive (Asks key q) p1, h1, with_client s t1)"
    by (simp add: ask_solo_def m del: errand_task.simps)
  from Suc.prems(1) have rest: "(solo L W (ss_client x) i (errand_task L W x (Asks key q)) ^^ n)
      (p1, h1, client_part (with_client s t1)) = (Finished r, h', t)"
    by (simp only: funpow_Suc_right comp_apply solo_simps m with_client_part)
  show ?case
  proof (cases "\<exists>r1. p1 = Finished r1")
    case True
    then obtain r1 where p1: "p1 = Finished r1" by blast
    with rest have "r1 = r" "h1 = h'" "t1 = t" by (simp_all add: solo_stays)
    with one p1 show ?thesis by (intro exI [of _ 1]) simp
  next
    case False
    then have "arrive (Asks key q) p1 = Busy p1" by (cases p1) auto
    with Suc.IH [OF rest] False one obtain m where "m \<le> n" "(ask_solo L W x i (Asks key q) ^^ m)
        (ask_solo L W x i (Asks key q) (Busy p, h, s)) = (arrive (Asks key q) (Finished r), h', with_client s t)"
      by auto
    then show ?thesis by (intro exI [of _ "Suc m"]) (simp add: funpow_swap1)
  qed
qed simp

lemma ask_solo_answers:
  assumes "ask L W x key q s = (r, s')"
  shows "(ask_solo L W x i (Asks key q) ^^ 25) (Loading, None, s) = (Answered r, None, s')"
proof -
  let ?S = "ask_solo L W x i (Asks key q)"
  have "\<exists>m\<le>25. (?S ^^ m) (Loading, None, s) = (Answered r, None, s')"
  proof (cases "load W x key s")
    case (Pair hit s1)
    show ?thesis
    proof (cases hit)
      case (Some a)
      with Pair assms show ?thesis by (intro exI [of _ 1]) (simp add: ask_solo_def ask_def)
    next
      case None
      with Pair have first: "?S (Loading, None, s) = (Busy Entering, None, s1)" by (simp add: ask_solo_def)
      obtain y t where y: "callAsModule L W (ss_client x) Resolve_procedure (resolve_message x q) (client_part s1) = (y, t)"
        by fastforce
      from reaches_finished [OF call_reaches [OF y, where i = i and f = id]] obtain m where m: "m \<le> 23"
        "(?S ^^ m) (Busy Entering, None, s1) = (arrive (Asks key q) (Finished y), None, with_client s1 t)"
        using busy_solo [of 23 L W x i key q Entering None s1 y None t] by (auto simp: sum.map_id)
      have last: "?S (arrive (Asks key q) (Finished y), None, with_client s1 t) = (Answered r, None, s')"
        using assms Pair None y
        by (cases y; cases "projr y") (auto simp: ask_solo_def ask_def resolve_message_def)
      from m first last have "(?S ^^ (Suc (m + 1))) (Loading, None, s) = (Answered r, None, s')"
        by (simp add: funpow_swap1)
      with m(1) show ?thesis by (intro exI [of _ "Suc (m + 1)"]) simp
    qed
  qed
  then obtain m where m: "m \<le> 25" "(?S ^^ m) (Loading, None, s) = (Answered r, None, s')" by blast
  then have "(?S ^^ (25 - m + m)) (Loading, None, s) = (Answered r, None, s')"
    by (simp only: funpow_add comp_apply ask_solo_stays)
  with m(1) show ?thesis by simp
qed

lemma ask_interleave_Cons:
  "ask_interleave L W x es (i # is) g = ask_interleave L W x es is (ask_turn L W x es i g)"
  by (simp add: ask_interleave_def)

lemma ask_interleave_solo:
  assumes "(ask_solo L W x i (es i) ^^ n) (so_stand g i, so_holder g, so_state g) = (p, h, s)"
  shows "so_state (ask_interleave L W x es (replicate n i) g) = s \<and>
    so_holder (ask_interleave L W x es (replicate n i) g) = h \<and>
    so_stand (ask_interleave L W x es (replicate n i) g) = (so_stand g)(i := p)"
  using assms
proof (induction n arbitrary: g)
  case (Suc n)
  let ?g = "ask_turn L W x es i g"
  obtain p' h' s' where m: "ask_step L W x i (es i) (so_stand g i) (so_holder g) (so_state g) = (p', h', s')"
    by (metis prod_cases3)
  then have g: "so_stand ?g = (so_stand g)(i := p')" "so_holder ?g = h'" "so_state ?g = s'"
    by (simp_all add: ask_turn_def)
  from Suc.prems have "(ask_solo L W x i (es i) ^^ n) (p', h', s') = (p, h, s)"
    by (simp only: funpow_Suc_right comp_apply ask_solo_def prod.case m)
  with Suc.IH [of ?g] g show ?case by (simp add: ask_interleave_Cons fun_upd_def fun_eq_iff)
qed (auto simp: ask_interleave_def)

text \<open>
  A question that is not interrupted is the sequential one. From any state with the client's mutex
  free, 25 turns of a goroutine leave the state, the cache of the source in it, as \<open>ask\<close> leaves it,
  and the goroutine with the answer or error \<open>ask\<close> returns.
\<close>

theorem ask_alone:
  assumes "es i = Asks key q" and "so_stand g i = Loading" and "so_holder g = None"
  shows "so_state (ask_interleave L W x es (replicate 25 i) g) = snd (ask L W x key q (so_state g)) \<and>
    so_holder (ask_interleave L W x es (replicate 25 i) g) = None \<and>
    so_stand (ask_interleave L W x es (replicate 25 i) g) =
      (so_stand g)(i := Answered (fst (ask L W x key q (so_state g))))"
proof -
  obtain r s' where run: "ask L W x key q (so_state g) = (r, s')" by fastforce
  from ask_solo_answers [OF run] assms have
    "(ask_solo L W x i (es i) ^^ 25) (so_stand g i, so_holder g, so_state g) = (Answered r, None, s')" by simp
  from ask_interleave_solo [where es = es and i = i and g = g, OF this] run show ?thesis by simp
qed

theorem ask_alone_witness:
  "so_stand (ask_interleave sample_lib (answering \<lparr>rs_Answer = None\<rparr>) sample_source
     (\<lambda>_. Asks (''epoch'' @ nul @ ''p'') (QuestionPrincipalEpoch ''p'')) (replicate 25 4)
     (source_system_on sample_start)) 4 = Answered (Inr \<lparr>rs_Answer = None\<rparr>)"
proof -
  have "so_stand (source_system_on sample_start) 4 = Loading" "so_holder (source_system_on sample_start) = None"
    "so_state (source_system_on sample_start) = sample_start" by (simp_all add: source_system_on_def)
  with ask_alone [where es = "\<lambda>_. Asks (''epoch'' @ nul @ ''p'') (QuestionPrincipalEpoch ''p'')", OF refl this(1,2)]
    sample_ask show ?thesis by simp
qed

end
