(* ===== verification/MaSourcesLockedFacts.thy ===== *)
theory MaSourcesLockedFacts
  imports MaSourcesLocked
begin

text \<open>
  What holds in every interleaving of questions to one source, with other uses of its client among
  them. The client's side is theory MaLockedFacts, through the view of the system that forgets the
  source; the source's side is an invariant of its cache and of every goroutine's answer.
\<close>

section \<open>The client's side\<close>

fun view_place :: "stand \<Rightarrow> authority_answer option place" where
  "view_place Loading = Entering"
| "view_place (Busy p) = p"
| "view_place (Storing a) = Finished (Inr (Some a))"
| "view_place (Answered r) = Finished (map_sum id Some r)"

definition client_view :: "source_system \<Rightarrow> authority_answer option system" where
  "client_view g = \<lparr>cell = client_part (so_state g), holder = so_holder g,
     place_of = (\<lambda>i. view_place (so_stand g i)), offered = so_offered g\<rparr>"

lemma client_view_simps [simp]:
  "cell (client_view g) = client_part (so_state g)" "holder (client_view g) = so_holder g"
  "place_of (client_view g) i = view_place (so_stand g i)" "offered (client_view g) = so_offered g"
  by (simp_all add: client_view_def)

text \<open>The clock readings of \<open>load\<close> and \<open>store\<close> are quiet, and they leave the client alone.\<close>

lemma load_quiet:
  assumes "load W x key s = (r, s')"
  shows "\<exists>new. log s' = log s @ new \<and> quiet c new \<and> c_module s' = c_module s \<and> c_expiresAt s' = c_expiresAt s"
  using assms
  by (auto simp: load_def quiet_def split: prod.splits if_splits intro: exI [of _ "[]"] exI [of _ "[EvNow]"])

lemma store_quiet:
  "\<exists>new. log (store W x key a s) = log s @ new \<and> quiet c new \<and>
     c_module (store W x key a s) = c_module s \<and> c_expiresAt (store W x key a s) = c_expiresAt s"
  by (auto simp: store_def quiet_def intro: exI [of _ "[]"] exI [of _ "[EvNow]"])

lemma outside_rests: "\<not> inside p \<Longrightarrow> at_rest p"
  by (simp add: at_rest_def inside_def)

text \<open>A goroutine of the view may also end, or start, while the log grows quietly.\<close>

lemma system_ok_quiet:
  assumes "system_ok L W c tasks g" and "log t = log (cell g) @ new" and "quiet c new"
    and "c_module t = c_module (cell g)" and "c_expiresAt t = c_expiresAt (cell g)"
    and "\<not> inside (place_of g i)" and "p = place_of g i \<or> (\<exists>r. p = Finished r) \<and> length (offered g i) \<le> 1
      \<or> (\<exists>r r'. p = Finished r \<and> place_of g i = Finished r')"
  shows "system_ok L W c tasks \<lparr>cell = t, holder = holder g, place_of = (place_of g)(i := p), offered = offered g\<rparr>"
proof -
  from assms(7,6) have p: "\<not> inside p" by auto
  have grown: "place_ok L W c (tasks j) t (offered g j) (place_of g j)" for j
    using assms(1,2,4) by (auto simp: system_ok_def intro: place_ok_grow)
  have "place_ok L W c (tasks i) t (offered g i) p"
    using assms(7) grown [of i] by (auto simp: shown_ok_def)
  moreover have "cache_ok L W c t" if "\<forall>j. at_rest (((place_of g)(i := p)) j)"
  proof -
    have "at_rest (place_of g j)" for j
      using spec [OF that, of j] outside_rests [OF assms(6)] by (cases "j = i") auto
    with assms(1) have "cache_ok L W c (cell g)" by (simp add: system_ok_def)
    then show ?thesis using assms(2,4,5) by (rule cache_ok_grow)
  qed
  moreover have "inside (((place_of g)(i := p)) j) \<longleftrightarrow> holder g = Some j" for j
    using assms(1,6) p by (auto simp: system_ok_def)
  ultimately show ?thesis
    using assms(1,2,3) grown log_ok_quiet by (auto simp: system_ok_def)
qed

lemma ask_turn_eq:
  assumes "so_stand g i = st" and "ask_step L W x i (es i) st (so_holder g) (so_state g) = (p, h, s)"
  shows "ask_turn L W x es i g = \<lparr>so_state = s, so_holder = h, so_stand = (so_stand g)(i := p),
    so_offered = (so_offered g)(i := so_offered g i @ stand_carries st)\<rparr>"
  using assms by (simp add: ask_turn_def)

lemma view_after:
  "client_view \<lparr>so_state = s, so_holder = h, so_stand = (so_stand g)(i := p), so_offered = sh\<rparr> =
     \<lparr>cell = client_part s, holder = h, place_of = (place_of (client_view g))(i := view_place p), offered = sh\<rparr>"
  by (simp add: client_view_def fun_eq_iff)

lemma arrive_view: "view_place (arrive e p) = p \<or> (\<exists>r r'. view_place (arrive e p) = Finished r \<and> p = Finished r')"
  by (cases "(e, p)" rule: arrive.cases) auto

lemma ask_turn_ok:
  fixes x es
  defines "c \<equiv> ss_client x"
  assumes "system_ok L W c (\<lambda>i. errand_task L W x (es i)) (client_view g)"
    and "mints_at_paths (\<lambda>i. errand_task L W x (es i))"
  shows "system_ok L W c (\<lambda>i. errand_task L W x (es i)) (client_view (ask_turn L W x es i g))"
proof (cases "so_stand g i")
  case Loading
  obtain p h s where m: "ask_step L W x i (es i) Loading (so_holder g) (so_state g) = (p, h, s)"
    by (metis prod_cases3)
  have h: "h = so_holder g" and p: "p = Busy Entering \<or> (\<exists>r. p = Answered r)"
    using m by (auto split: errand.splits prod.splits option.splits)
  have "\<exists>new. log s = log (so_state g) @ new \<and> quiet c new \<and> c_module s = c_module (so_state g) \<and>
      c_expiresAt s = c_expiresAt (so_state g)"
  proof (cases "es i")
    case (Asks key q)
    obtain r t where l: "load W x key (so_state g) = (r, t)" by fastforce
    with m Asks have "s = t" by (cases r) auto
    with load_quiet [OF l] show ?thesis by simp
  next
    case (Other k)
    with m show ?thesis by (auto simp: quiet_def intro: exI [of _ "[]"])
  qed
  then obtain new where new: "log s = log (so_state g) @ new" "quiet c new" "c_module s = c_module (so_state g)"
    "c_expiresAt s = c_expiresAt (so_state g)" by blast
  have "offered (client_view g) i = []"
    using assms(2) Loading by (auto simp: system_ok_def dest!: spec [of _ i])
  moreover from this have "(so_offered g)(i := []) = so_offered g" by (simp add: fun_upd_idem)
  ultimately show ?thesis using system_ok_quiet [OF assms(2), of "client_part s" new i "view_place p"] new p Loading
    by (auto simp: ask_turn_eq [where es = es and g = g and i = i, OF Loading m] h view_after)
next
  case (Storing a)
  obtain p h s where m: "ask_step L W x i (es i) (Storing a) (so_holder g) (so_state g) = (p, h, s)"
    by (metis prod_cases3)
  have h: "h = so_holder g" and p: "p = Storing a \<or> (\<exists>r. p = Answered r)"
    using m by (auto split: errand.splits)
  have "\<exists>new. log s = log (so_state g) @ new \<and> quiet c new \<and> c_module s = c_module (so_state g) \<and>
      c_expiresAt s = c_expiresAt (so_state g)"
  proof (cases "es i")
    case (Asks key q)
    with m store_quiet show ?thesis by auto
  next
    case (Other k)
    with m show ?thesis by (auto simp: quiet_def intro: exI [of _ "[]"])
  qed
  then obtain new where new: "log s = log (so_state g) @ new" "quiet c new" "c_module s = c_module (so_state g)"
    "c_expiresAt s = c_expiresAt (so_state g)" by blast
  with system_ok_quiet [OF assms(2), of "client_part s" new i "view_place p"] p Storing show ?thesis
    by (auto simp: ask_turn_eq [where es = es and g = g and i = i, OF Storing m] h view_after)
next
  case (Busy p)
  let ?tasks = "\<lambda>i. errand_task L W x (es i)"
  obtain p' h t where m: "micro L W c i (?tasks i) p (so_holder g) (client_part (so_state g)) = (p', h, t)"
    by (metis prod_cases3)
  let ?u = "micro_turn L W c ?tasks i (client_view g)"
  have u: "?u = \<lparr>cell = t, holder = h, place_of = (place_of (client_view g))(i := p'),
      offered = (so_offered g)(i := so_offered g i @ carries p)\<rparr>"
    by (simp add: micro_turn_def Busy m)
  have ok: "system_ok L W c ?tasks ?u" by (rule micro_turn_ok [OF assms(2,3)])
  have turn: "client_view (ask_turn L W x es i g) = \<lparr>cell = t, holder = h,
      place_of = (place_of ?u)(i := view_place (arrive (es i) p')), offered = offered ?u\<rparr>"
  proof -
    have "ask_step L W x i (es i) (Busy p) (so_holder g) (so_state g) =
        (arrive (es i) p', h, with_client (so_state g) t)" using m by (simp add: c_def)
    from ask_turn_eq [where es = es and g = g and i = i, OF Busy this] show ?thesis
      by (simp add: view_after u)
  qed
  show ?thesis
  proof (cases "view_place (arrive (es i) p') = p'")
    case True
    then have "client_view (ask_turn L W x es i g) = ?u" unfolding turn by (simp add: u)
    with ok show ?thesis by simp
  next
    case False
    with arrive_view [of "es i" p'] obtain r r' where "view_place (arrive (es i) p') = Finished r" "p' = Finished r'"
      by blast
    with system_ok_quiet [OF ok, of t "[]" i "Finished r"] show ?thesis
      unfolding turn by (simp add: u quiet_def)
  qed
next
  case (Answered r)
  then have "(so_stand g)(i := Answered r) = so_stand g" by (simp add: fun_upd_idem)
  with Answered have "ask_turn L W x es i g = g" by (simp add: ask_turn_def)
  with assms(2) show ?thesis by simp
qed

lemma ask_interleave_ok:
  assumes "system_ok L W (ss_client x) (\<lambda>i. errand_task L W x (es i)) (client_view g)"
    and "mints_at_paths (\<lambda>i. errand_task L W x (es i))"
  shows "system_ok L W (ss_client x) (\<lambda>i. errand_task L W x (es i)) (client_view (ask_interleave L W x es is g))"
  using assms(1) by (induction "is" arbitrary: g) (simp_all add: ask_interleave_def ask_turn_ok [OF _ assms(2)])

section \<open>The source's side\<close>

text \<open>At \<open>p\<close> the host answered the question \<open>q\<close>, asked with the Work Context \<open>m\<close>, with \<open>a\<close>.\<close>

definition host_said ::
  "core_lib \<Rightarrow> world \<Rightarrow> WorkContextSources \<Rightarrow> event list \<Rightarrow> nat \<Rightarrow> WorkContextQuestion \<Rightarrow> string \<Rightarrow>
     authority_answer \<Rightarrow> bool" where
  "host_said L W x lg p q m a \<longleftrightarrow>
     happened lg p (EvCall (resolve_request L x q m)) \<and> answered L W x q a (take p lg) m"

definition answered_at ::
  "core_lib \<Rightarrow> world \<Rightarrow> WorkContextSources \<Rightarrow> event list \<Rightarrow> nat \<Rightarrow> string \<Rightarrow> authority_answer \<Rightarrow> bool" where
  "answered_at L W x lg p key a \<longleftrightarrow> (\<exists>q m. asked_as q key \<and> host_said L W x lg p q m a)"

text \<open>
  A cached answer: given by the host at some position, with a deadline that is the cache bound after
  the clock's reading by the \<open>store\<close> that came later.
\<close>

definition stored_at ::
  "core_lib \<Rightarrow> world \<Rightarrow> WorkContextSources \<Rightarrow> event list \<Rightarrow> string \<Rightarrow> cachedAuthorityAnswer \<Rightarrow> bool" where
  "stored_at L W x lg key e \<longleftrightarrow> (\<exists>p u. answered_at L W x lg p key (ca_answer e) \<and> p < u \<and> happened lg u EvNow \<and>
     ca_until e = sources_now W x (take u lg) + ws_CacheBound (ss_settings x))"

text \<open>
  What an answer that was returned rests on: the goroutine's own question, put to the host with a Work
  Context it presented, or the memory of an answer to a question of the same key, and then the clock
  was read before the deadline that answer was stored with.
\<close>

definition own_answer ::
  "core_lib \<Rightarrow> world \<Rightarrow> WorkContextSources \<Rightarrow> event list \<Rightarrow> WorkContextQuestion \<Rightarrow> string list \<Rightarrow>
     authority_answer \<Rightarrow> bool" where
  "own_answer L W x lg q sh a \<longleftrightarrow> (\<exists>p m. m \<in> set sh \<and> host_said L W x lg p q m a)"

definition from_memory ::
  "core_lib \<Rightarrow> world \<Rightarrow> WorkContextSources \<Rightarrow> event list \<Rightarrow> string \<Rightarrow> authority_answer \<Rightarrow> bool" where
  "from_memory L W x lg key a \<longleftrightarrow> (\<exists>p u n. answered_at L W x lg p key a \<and> p < u \<and> happened lg u EvNow \<and>
     u < n \<and> happened lg n EvNow \<and>
     sources_now W x (take n lg) < sources_now W x (take u lg) + ws_CacheBound (ss_settings x))"

lemma host_said_append: "host_said L W x lg p q m a \<Longrightarrow> host_said L W x (lg @ new) p q m a"
  unfolding host_said_def using happened_append take_grown by metis

lemma answered_at_append: "answered_at L W x lg p key a \<Longrightarrow> answered_at L W x (lg @ new) p key a"
  unfolding answered_at_def using host_said_append by metis

lemma stored_at_append: "stored_at L W x lg key e \<Longrightarrow> stored_at L W x (lg @ new) key e"
  unfolding stored_at_def using answered_at_append happened_append take_grown by metis

lemma own_answer_append: "own_answer L W x lg q sh a \<Longrightarrow> own_answer L W x (lg @ new) q sh a"
  unfolding own_answer_def using host_said_append by metis

lemma from_memory_append: "from_memory L W x lg key a \<Longrightarrow> from_memory L W x (lg @ new) key a"
  unfolding from_memory_def using answered_at_append happened_append take_grown by (metis (no_types, lifting))

text \<open>A goroutine that has presented no Work Context has been served from memory.\<close>

fun stand_ok ::
  "core_lib \<Rightarrow> world \<Rightarrow> WorkContextSources \<Rightarrow> event list \<Rightarrow> string list \<Rightarrow> errand \<Rightarrow> stand \<Rightarrow> bool" where
  "stand_ok L W x lg sh (Asks key q) Loading \<longleftrightarrow> sh = []"
| "stand_ok L W x lg sh (Asks key q) (Storing a) \<longleftrightarrow> own_answer L W x lg q sh a"
| "stand_ok L W x lg sh (Asks key q) (Answered (Inr a)) \<longleftrightarrow>
     (if sh = [] then from_memory L W x lg key a else own_answer L W x lg q sh a)"
| "stand_ok L W x lg sh (Asks key q) (Busy (Finished r)) \<longleftrightarrow> False"
| "stand_ok L W x lg sh e st \<longleftrightarrow> True"

definition sources_ok :: "core_lib \<Rightarrow> world \<Rightarrow> WorkContextSources \<Rightarrow> (nat \<Rightarrow> errand) \<Rightarrow> source_system \<Rightarrow> bool" where
  "sources_ok L W x es g \<longleftrightarrow> cache_within (ws_CacheEntries (ss_settings x)) (ss_cached (so_state g)) \<and>
     (\<forall>key e. ss_cached (so_state g) key = Some e \<longrightarrow> stored_at L W x (log (so_state g)) key e) \<and>
     (\<forall>i. stand_ok L W x (log (so_state g)) (so_offered g i) (es i) (so_stand g i))"

text \<open>A turn of the client only extends the log; and it ends with an answer by a call that got it.\<close>

lemma region_step_extends: "region_step L W c rej st s = (y, s') \<Longrightarrow> \<exists>new. log s' = log s @ new"
proof (cases st)
  case Forgetting
  assume "region_step L W c rej st s = (y, s')"
  with Forgetting show ?thesis
    by (auto simp: region_forgets dropped_def forgotten_def simp del: region_step.simps split: option.splits)
next
  case (Minting ms)
  assume step: "region_step L W c rej st s = (y, s')"
  obtain z u where z: "module_mint_step L W c ms s = (z, u)" by fastforce
  with step Minting have "s' = u" by (auto split: sum.splits)
  with mint_step_grows [OF z [unfolded module_mint_step_def]] show ?thesis by auto
qed auto

lemma micro_extends: "micro L W c i k p h s = (p', h', s') \<Longrightarrow> \<exists>new. log s' = log s @ new"
proof (cases p)
  case (Inside rej st)
  assume step: "micro L W c i k p h s = (p', h', s')"
  obtain y u where y: "region_step L W c rej st s = (y, u)" by fastforce
  with step Inside have "s' = u" by (auto split: sum.splits)
  with region_step_extends [OF y] show ?thesis by simp
next
  case (Unlocked st)
  assume step: "micro L W c i k p h s = (p', h', s')"
  show ?thesis
  proof (cases k)
    case (Mints q)
    obtain y u where y: "mint_step W (c_credentials c)
        (\<lambda>t. post L W (c_broker c) (mt_path q) t (mt_body q)) (mt_wrap q) (mt_check q) st s = (y, u)" by fastforce
    with step Unlocked Mints have "s' = u" by (auto split: sum.splits)
    with mint_step_grows [OF y] show ?thesis by auto
  qed (use step Unlocked in auto)
qed (auto split: task.splits option.splits sum.splits if_splits)

lemma micro_answer:
  assumes "micro L W c i (Calls j) p h s = (Finished (Inr r), h', s')" and "\<And>r. p \<noteq> Finished r"
  obtains m where "log s' = log s @ [EvCall (task_request L c j m)]" "ct_answer j (log s) m = Inr r" "carries p = [m]"
proof (cases p)
  case (Calling rej m)
  with assms(1) that show thesis by (auto split: sum.splits if_splits)
next
  case (Inside rej st)
  with assms(1) show thesis by (auto simp: leave_def split: prod.splits sum.splits)
qed (use assms in \<open>auto split: if_splits\<close>)

text \<open>An answer of the host, as the call of a question returns it.\<close>

lemma ask_call_answer:
  assumes "micro L W (ss_client x) i (errand_task L W x (Asks key q)) p h (client_part s) = (Finished (Inr (Some a)), h', t)"
    and "\<And>r. p \<noteq> Finished r" and "present (c_authority (ss_client x))"
  shows "own_answer L W x (log t) q (sh @ carries p) a"
proof -
  from micro_answer [OF assms(1) [unfolded errand_task.simps] assms(2)] obtain m where
    m: "log t = log (client_part s) @ [EvCall (task_request L (ss_client x)
        (call_of L W (ss_client x) Resolve_procedure (resolve_message x q) id) m)]"
      "ct_answer (call_of L W (ss_client x) Resolve_procedure (resolve_message x q) id) (log (client_part s)) m
        = Inr (Some a)" and p: "carries p = [m]" by blast
  then have "log t = log s @ [EvCall (resolve_request L x q m)]" "answered L W x q a (log s) m"
    by (simp_all add: call_of_request [OF assms(3)] call_of_answer resolve_request_def answered_def sum.map_id)
  with p show ?thesis unfolding own_answer_def host_said_def
    by (intro exI [of _ "length (log s)"] exI [of _ m]) (simp add: happened_last)
qed

lemma stand_ok_append:
  assumes "stand_ok L W x lg sh e st"
  shows "stand_ok L W x (lg @ new) sh e st"
  using assms
  by (cases "(L, W, x, lg, sh, e, st)" rule: stand_ok.cases)
    (auto intro: own_answer_append from_memory_append split: if_splits)

text \<open>\<open>load\<close> and \<open>store\<close> on the cache of the source.\<close>

definition cache_stored :: "core_lib \<Rightarrow> world \<Rightarrow> WorkContextSources \<Rightarrow> source_state \<Rightarrow> bool" where
  "cache_stored L W x s \<longleftrightarrow> cache_within (ws_CacheEntries (ss_settings x)) (ss_cached s) \<and>
     (\<forall>key e. ss_cached s key = Some e \<longrightarrow> stored_at L W x (log s) key e)"

lemma cache_stored_grow:
  "cache_stored L W x s \<Longrightarrow> log s' = log s @ new \<Longrightarrow> ss_cached s' = ss_cached s \<Longrightarrow> cache_stored L W x s'"
  by (auto simp: cache_stored_def intro: stored_at_append)

lemma load_stored:
  assumes "load W x key s = (r, s')" and "cache_stored L W x s"
  shows "cache_stored L W x s' \<and> (\<exists>new. log s' = log s @ new) \<and>
    (\<forall>a. r = Some a \<longrightarrow> from_memory L W x (log s') key a)"
proof (cases "ws_CacheEntries (ss_settings x) < 0")
  case True
  with assms show ?thesis by (simp add: load_def)
next
  case False
  define now where "now = sources_now W x (log s)"
  show ?thesis
  proof (cases "ss_cached s key")
    case None
    then have "(ss_cached s)(key := None) = ss_cached s" by auto
    with None False assms show ?thesis
      by (auto simp: load_def cache_load_def)
  next
    case (Some e)
    show ?thesis
    proof (cases "now < ca_until e")
      case True
      with Some False assms(1) have s': "s' = s\<lparr>log := log s @ [EvNow]\<rparr>" and r: "r = Some (ca_answer e)"
        by (auto simp: load_def cache_load_def now_def)
      from Some assms(2) obtain p u where e: "answered_at L W x (log s) p key (ca_answer e)" "p < u"
        "happened (log s) u EvNow" "ca_until e = sources_now W x (take u (log s)) + ws_CacheBound (ss_settings x)"
        unfolding cache_stored_def stored_at_def by blast
      have at: "take u (log s') = take u (log s)" "take (length (log s)) (log s') = log s" "u < length (log s)"
        using e(3) s' by (simp_all add: happened_def)
      have "answered_at L W x (log s') p key (ca_answer e)" "happened (log s') u EvNow"
        "happened (log s') (length (log s)) EvNow"
        unfolding s' using e by (simp_all add: answered_at_append happened_append happened_last)
      with at e(2,4) True have "from_memory L W x (log s') key (ca_answer e)"
        unfolding from_memory_def now_def
        by (intro exI [of _ p] exI [of _ u] exI [of _ "length (log s)"]) simp
      with s' r cache_stored_grow [OF assms(2), of s' "[EvNow]"] show ?thesis by simp
    next
      case no: False
      with Some False assms(1) have s': "s' = s\<lparr>ss_cached := (ss_cached s)(key := None), log := log s @ [EvNow]\<rparr>"
        and r: "r = None"
        by (auto simp: load_def cache_load_def now_def)
      have "cache_within (ws_CacheEntries (ss_settings x)) ((ss_cached s)(key := None))"
        using assms(2) False
        by (auto simp: cache_stored_def cache_within_def intro: order.trans [OF card_Diff1_le])
      with assms(2) s' r show ?thesis by (auto simp: cache_stored_def intro: stored_at_append)
    qed
  qed
qed

lemma store_stored:
  assumes "cache_stored L W x s" and "answered_at L W x (log s) p key a"
  shows "cache_stored L W x (store W x key a s)"
proof (cases "ws_CacheEntries (ss_settings x) < 0")
  case False
  let ?e = "\<lparr>ca_answer = a, ca_until = sources_now W x (log s) + ws_CacheBound (ss_settings x)\<rparr>"
  from assms(2) have "p < length (log s)" by (auto simp: answered_at_def host_said_def happened_def)
  with assms(2) have new: "stored_at L W x (log s @ [EvNow]) key ?e"
    unfolding stored_at_def
    by (intro exI [of _ p] exI [of _ "length (log s)"]) (simp add: answered_at_append happened_last)
  have "ss_cached (store W x key a s) j = Some e \<Longrightarrow> (j = key \<and> e = ?e) \<or> ss_cached s j = Some e" for j e
    using False by (auto simp: store_def cache_store_def Let_def split: if_splits)
  with False assms(1) new show ?thesis
    by (fastforce simp: cache_stored_def store_def intro: stored_at_append cache_within_store)
qed (use assms(1) in \<open>simp add: store_def\<close>)

lemma sources_ok_iff:
  "sources_ok L W x es g \<longleftrightarrow> cache_stored L W x (so_state g) \<and>
     (\<forall>i. stand_ok L W x (log (so_state g)) (so_offered g i) (es i) (so_stand g i))"
  by (auto simp: sources_ok_def cache_stored_def)

definition keyed :: "errand \<Rightarrow> bool" where
  "keyed e \<longleftrightarrow> (\<forall>key q. e = Asks key q \<longrightarrow> asked_as q key)"

lemma own_answered: "own_answer L W x lg q sh a \<Longrightarrow> asked_as q key \<Longrightarrow> \<exists>p. answered_at L W x lg p key a"
  by (auto simp: own_answer_def answered_at_def)

lemma own_shown: "own_answer L W x lg q sh a \<Longrightarrow> sh \<noteq> []"
  by (auto simp: own_answer_def)

lemma busy_step:
  assumes "ask_step L W x i e (Busy p) h s = (st, h', s')" and "stand_ok L W x (log s) sh e (Busy p)"
    and "present (c_authority (ss_client x))"
  shows "(\<exists>new. log s' = log s @ new) \<and> ss_cached s' = ss_cached s \<and> stand_ok L W x (log s') (sh @ carries p) e st"
proof -
  obtain p' t where m: "micro L W (ss_client x) i (errand_task L W x e) p h (client_part s) = (p', h', t)"
    and st: "st = arrive e p'" "s' = with_client s t"
    using assms(1) by (auto split: prod.splits)
  from micro_extends [OF m] st have grows: "\<exists>new. log s' = log s @ new" "ss_cached s' = ss_cached s" by auto
  have "stand_ok L W x (log s') (sh @ carries p) e st"
  proof (cases e)
    case (Other k)
    with st show ?thesis by (cases p') simp_all
  next
    case (Asks key q)
    then have "\<And>r. p \<noteq> Finished r" using assms(2) by auto
    note own = ask_call_answer [OF _ this assms(3), of L W i key q h s]
    show ?thesis
    proof (cases "\<exists>a. p' = Finished (Inr (Some a))")
      case True
      then obtain a where "p' = Finished (Inr (Some a))" by blast
      with own [of a h' t sh] m st Asks show ?thesis by simp
    next
      case False
      with st Asks show ?thesis by (cases "(e, p')" rule: arrive.cases) auto
    qed
  qed
  with grows show ?thesis by simp
qed

lemma ask_step_ok:
  assumes "ask_step L W x i e st h s = (st', h', s')" and "cache_stored L W x s" and "stand_ok L W x (log s) sh e st"
    and "keyed e" and "present (c_authority (ss_client x))"
  shows "(\<exists>new. log s' = log s @ new) \<and> cache_stored L W x s' \<and>
    stand_ok L W x (log s') (sh @ stand_carries st) e st'"
proof (cases st)
  case Loading
  show ?thesis
  proof (cases e)
    case (Asks key q)
    obtain r t where l: "load W x key s = (r, t)" by fastforce
    from load_stored [OF l assms(2)] l Loading Asks assms(1,3) show ?thesis by (cases r) auto
  next
    case (Other k)
    with Loading assms show ?thesis by auto
  qed
next
  case (Busy p)
  with busy_step [of L W x i e p h s st' h' s' sh] assms cache_stored_grow show ?thesis
    unfolding Busy stand_carries.simps by blast
next
  case (Storing a)
  show ?thesis
  proof (cases e)
    case (Asks key q)
    with Storing assms(3) have own: "own_answer L W x (log s) q sh a" by simp
    with assms(4) Asks obtain p where p: "answered_at L W x (log s) p key a"
      using own_answered [of L W x "log s" q sh a key] by (auto simp: keyed_def)
    from Storing Asks assms(1) have s': "s' = store W x key a s" "st' = Answered (Inr a)" by auto
    obtain new where new: "log s' = log s @ new" unfolding s' using store_quiet by metis
    from own_answer_append [OF own, of new] new have "own_answer L W x (log s') q sh a" by simp
    with own_shown [OF own] new s' store_stored [OF assms(2) p] Asks Storing show ?thesis by auto
  next
    case (Other k)
    with Storing assms show ?thesis by auto
  qed
next
  case (Answered r)
  with assms show ?thesis by auto
qed

lemma ask_turn_sources:
  assumes "sources_ok L W x es g" and "\<And>i. keyed (es i)" and "present (c_authority (ss_client x))"
  shows "sources_ok L W x es (ask_turn L W x es i g)"
proof -
  obtain st h s where m: "ask_step L W x i (es i) (so_stand g i) (so_holder g) (so_state g) = (st, h, s)"
    by (metis prod_cases3)
  from assms(1) have "cache_stored L W x (so_state g)"
    and st: "\<And>j. stand_ok L W x (log (so_state g)) (so_offered g j) (es j) (so_stand g j)"
    by (simp_all add: sources_ok_iff)
  from ask_step_ok [OF m this(1) st assms(2,3)] obtain new where new: "log s = log (so_state g) @ new"
    "cache_stored L W x s" "stand_ok L W x (log s) (so_offered g i @ stand_carries (so_stand g i)) (es i) st" by blast
  with st stand_ok_append show ?thesis
    by (auto simp: ask_turn_eq [where es = es and g = g and i = i, OF refl m] sources_ok_iff)
qed

lemma ask_interleave_sources:
  assumes "sources_ok L W x es g" and "\<And>i. keyed (es i)" and "present (c_authority (ss_client x))"
  shows "sources_ok L W x es (ask_interleave L W x es is g)"
  using assms(1) by (induction "is" arbitrary: g) (simp_all add: ask_interleave_def ask_turn_sources assms(2,3))

text \<open>A source and a client that are new.\<close>

definition fresh_source :: source_state where
  "fresh_source = \<lparr>log = [], c_module = [], c_expiresAt = zero_time, ss_cached = Map.empty\<rparr>"

lemma fresh_view: "client_view (source_system_on fresh_source) = system_on initial_state"
  by (simp add: client_view_def source_system_on_def fresh_source_def system_on_def client_part_def initial_state_def)

lemma fresh_sources_ok: "sources_ok L W x es (source_system_on fresh_source)"
proof -
  have "stand_ok L W x lg [] e Loading" for lg e by (cases e) simp_all
  then show ?thesis
    by (simp add: sources_ok_def source_system_on_def fresh_source_def cache_within_def)
qed

text \<open>C10:
  Concurrent questions. However the statements of any number of goroutines that ask one source, and of
  others that use its client, interleave from the start: a goroutine that returns an answer after
  calling was given it by the host, to its very question, presented with one of its own Work Contexts;
  one that returns an answer without a call returns what the host gave to a question of the same key,
  and the clock was read after that answer was stored and was then less than the cache bound past its
  reading at the store. The cache never exceeds its size (or one answer, if its size is 0), and every
  call on the log carries an issued Work Context.
\<close>

theorem concurrent_questions:
  assumes "ask_interleave L W x es is (source_system_on fresh_source) = g" and "\<And>i. keyed (es i)"
    and "present (c_authority (ss_client x))" and "mints_at_paths (\<lambda>i. errand_task L W x (es i))"
  shows "(es i = Asks key q \<and> so_stand g i = Answered (Inr a) \<longrightarrow>
      (if so_offered g i = [] then from_memory L W x (log (so_state g)) key a
       else own_answer L W x (log (so_state g)) q (so_offered g i) a)) \<and>
    card (dom (ss_cached (so_state g))) \<le> nat (max 1 (ws_CacheEntries (ss_settings x))) \<and>
    (\<forall>p r. happened (log (so_state g)) p (EvCall r) \<longrightarrow>
      presents_issued L W (ss_client x) (take p (log (so_state g))) r)"
proof -
  have ok: "sources_ok L W x es g"
    unfolding assms(1) [symmetric] by (rule ask_interleave_sources [OF fresh_sources_ok assms(2,3)])
  have "system_ok L W (ss_client x) (\<lambda>i. errand_task L W x (es i)) (client_view (source_system_on fresh_source))"
    unfolding fresh_view by (rule initial_system_ok)
  then have client: "system_ok L W (ss_client x) (\<lambda>i. errand_task L W x (es i)) (client_view g)"
    unfolding assms(1) [symmetric] by (rule ask_interleave_ok [OF _ assms(4)])
  from ok have "stand_ok L W x (log (so_state g)) (so_offered g i) (es i) (so_stand g i)" by (simp add: sources_ok_def)
  then have "es i = Asks key q \<and> so_stand g i = Answered (Inr a) \<longrightarrow>
      (if so_offered g i = [] then from_memory L W x (log (so_state g)) key a
       else own_answer L W x (log (so_state g)) q (so_offered g i) a)" by auto
  with ok client show ?thesis
    by (simp add: sources_ok_def cache_within_def system_ok_def log_ok_def)
qed

lemma fresh_ask:
  "fst (ask sample_lib (answering a) sample_source k q fresh_source) = Inr a"
proof -
  obtain caps where caps: "ae_capabilities (c_authority sample_client) = Some caps"
    by (simp add: sample_client_def)
  have settings: "ss_client sample_source = sample_client" by (simp add: sample_source_def)
  have resolve: "sv_resolve (w_service (answering a)) l r = Inr (Some a)" for l r
    by (simp add: answering_def sample_world_def sample_service_def)
  have load: "load (answering a) sample_source k fresh_source = (None, fresh_source)"
    by (simp add: load_def cache_load_def sample_source_def fresh_source_def fun_eq_iff)
  have "c_module (client_part fresh_source) = []" "length (log (client_part fresh_source)) < 1000"
    by (simp_all add: fresh_source_def)
  note module = sample_locked_empty [OF this, of "\<lambda>l q. Inr (Some a)", folded answering_def]
  have "fst (callAsModule sample_lib (answering a) sample_client Resolve_procedure msg (client_part fresh_source))
      = Inr (Some a)" for msg
    by (simp add: callAsModule_def caps Let_def attempt_def ModuleWorkContext_def module happens_def
        Resolve_procedure_def resolve)
  then obtain t where "callAsModule sample_lib (answering a) sample_client Resolve_procedure
      \<lparr>rq_WorkContext = ws_Capability (ss_settings sample_source), rq_Question = Some q\<rparr> (client_part fresh_source)
      = (Inr (Some a), t)" by (metis prod.collapse)
  then show ?thesis by (simp add: ask_def load settings)
qed

theorem concurrent_questions_witness:
  "\<exists>g p. ask_interleave sample_lib (answering \<lparr>rs_Answer = None\<rparr>) sample_source
       (\<lambda>i. if i = 0 then Asks (''epoch'' @ nul @ ''p'') (QuestionPrincipalEpoch ''p'') else Other (Calls resolve_call))
       (replicate 25 0) (source_system_on fresh_source) = g \<and> so_stand g 0 = Answered (Inr \<lparr>rs_Answer = None\<rparr>) \<and>
     answered_at sample_lib (answering \<lparr>rs_Answer = None\<rparr>) sample_source (log (so_state g)) p
       (''epoch'' @ nul @ ''p'') \<lparr>rs_Answer = None\<rparr>"
proof -
  let ?W = "answering \<lparr>rs_Answer = None\<rparr>" and ?key = "''epoch'' @ nul @ ''p''"
  let ?es = "\<lambda>i :: nat. if i = 0 then Asks ?key (QuestionPrincipalEpoch ''p'') else Other (Calls resolve_call)"
  let ?g = "ask_interleave sample_lib ?W sample_source ?es (replicate 25 0) (source_system_on fresh_source)"
  have "?es 0 = Asks ?key (QuestionPrincipalEpoch ''p'')" "so_stand (source_system_on fresh_source) 0 = Loading"
    "so_holder (source_system_on fresh_source) = None" "so_state (source_system_on fresh_source) = fresh_source"
    by (simp_all add: source_system_on_def)
  with ask_alone [where es = ?es and g = "source_system_on fresh_source", OF this(1-3), of sample_lib ?W sample_source]
    fresh_ask [of "\<lparr>rs_Answer = None\<rparr>" ?key] have
    ans: "so_stand ?g 0 = Answered (Inr \<lparr>rs_Answer = None\<rparr>)" by simp
  have "keyed (?es i)" for i by (simp add: keyed_def)
  moreover have "mints_at_paths (\<lambda>i. errand_task sample_lib ?W sample_source (?es i))"
    by (simp add: mints_at_paths_def)
  moreover have "present (c_authority (ss_client sample_source))" by (simp add: sample_source_def sample_present)
  ultimately have "if so_offered ?g 0 = [] then from_memory sample_lib ?W sample_source (log (so_state ?g)) ?key \<lparr>rs_Answer = None\<rparr>
      else own_answer sample_lib ?W sample_source (log (so_state ?g)) (QuestionPrincipalEpoch ''p'') (so_offered ?g 0) \<lparr>rs_Answer = None\<rparr>"
    using concurrent_questions [where es = ?es and x = sample_source and L = sample_lib and W = ?W and i = 0, OF refl] ans
    by fastforce
  moreover have "asked_as (QuestionPrincipalEpoch ''p'') ?key" by simp
  ultimately have "\<exists>p. answered_at sample_lib ?W sample_source (log (so_state ?g)) p ?key \<lparr>rs_Answer = None\<rparr>"
    unfolding from_memory_def by (metis own_answered)
  with ans show ?thesis by blast
qed

section \<open>Every question is answered\<close>

fun stand_left :: "errand \<Rightarrow> stand \<Rightarrow> nat" where
  "stand_left e Loading = 25"
| "stand_left (Asks key q) (Busy p) = place_left p + 1"
| "stand_left (Other k) (Busy p) = place_left p"
| "stand_left e (Storing a) = 1"
| "stand_left e (Answered r) = 0"

fun stand_fits :: "core_lib \<Rightarrow> world \<Rightarrow> WorkContextSources \<Rightarrow> errand \<Rightarrow> stand \<Rightarrow> bool" where
  "stand_fits L W x (Asks key q) (Busy p) \<longleftrightarrow> fits (errand_task L W x (Asks key q)) p \<and> (\<forall>r. p \<noteq> Finished r)"
| "stand_fits L W x (Other k) (Busy p) \<longleftrightarrow> fits k p"
| "stand_fits L W x (Other k) (Storing a) \<longleftrightarrow> False"
| "stand_fits L W x (Other k) (Answered r) \<longleftrightarrow> False"
| "stand_fits L W x e st \<longleftrightarrow> True"

text \<open>Done: an answer or an error, or the end of another task.\<close>

definition at_end :: "stand \<Rightarrow> bool" where
  "at_end st \<longleftrightarrow> (\<exists>r. st = Answered r) \<or> (\<exists>r. st = Busy (Finished r))"

lemma left_at_end: "stand_fits L W x e st \<Longrightarrow> stand_left e st = 0 \<Longrightarrow> at_end st"
  by (cases "(e, st)" rule: stand_left.cases) (auto simp: at_end_def left_0)

definition waits :: "stand \<Rightarrow> nat option \<Rightarrow> bool" where
  "waits st h \<longleftrightarrow> (\<exists>rej. st = Busy (Locking rej)) \<and> h \<noteq> None"

lemma ask_step_left:
  assumes "stand_fits L W x e st" and "ask_step L W x i e st h s = (st', h', s')"
  shows "stand_fits L W x e st' \<and> (stand_left e st' < stand_left e st \<or>
    (st', h', s') = (st, h, s) \<and> (at_end st \<or> waits st h))"
proof (cases st)
  case Loading
  with assms show ?thesis by (cases e) (auto split: prod.splits option.splits)
next
  case (Busy p)
  obtain p' t where m: "micro L W (ss_client x) i (errand_task L W x e) p h (client_part s) = (p', h', t)"
    and st: "st' = arrive e p'" "s' = with_client s t"
    using assms(2) Busy by (auto split: prod.splits)
  have same: "with_client s (client_part s) = s" by (simp add: with_client_def client_part_def)
  show ?thesis
  proof (cases e)
    case (Asks key q)
    with Busy assms(1) have p: "fits (errand_task L W x e) p" "\<forall>r. p \<noteq> Finished r" by simp_all
    from micro_left [OF p(1) m] p(2) show ?thesis
      using st Asks Busy same by (cases "(e, p')" rule: arrive.cases) (auto simp: waits_def)
  next
    case (Other k)
    with Busy assms(1) have "fits (errand_task L W x e) p" by simp
    from micro_left [OF this m] show ?thesis
      using st Other Busy same by (auto simp: waits_def at_end_def)
  qed
next
  case (Storing a)
  with assms show ?thesis by (cases e) auto
next
  case (Answered r)
  with assms show ?thesis by (cases e) (auto simp: at_end_def)
qed

definition sources_agree ::
  "core_lib \<Rightarrow> world \<Rightarrow> WorkContextSources \<Rightarrow> nat \<Rightarrow> (nat \<Rightarrow> errand) \<Rightarrow> source_system \<Rightarrow> bool" where
  "sources_agree L W x n es g \<longleftrightarrow> lock_agrees (client_view g) \<and> (\<forall>i. stand_fits L W x (es i) (so_stand g i)) \<and>
     (\<forall>i. so_holder g = Some i \<longrightarrow> i < n)"

definition asks_left :: "(nat \<Rightarrow> errand) \<Rightarrow> nat \<Rightarrow> source_system \<Rightarrow> nat" where
  "asks_left es n g = (\<Sum>i<n. stand_left (es i) (so_stand g i))"

lemma arrive_inside [simp]: "inside (view_place (arrive e p)) = inside p"
  by (cases "(e, p)" rule: arrive.cases) auto

lemma ask_step_lock:
  assumes "ask_step L W x i e st h s = (st', h', s')" and "inside (view_place st) \<longleftrightarrow> h = Some i"
  shows "inside (view_place st') \<longleftrightarrow> h' = Some i" and "h' = h \<or> h = None \<and> h' = Some i \<or> h = Some i \<and> h' = None"
proof -
  have "(inside (view_place st') \<longleftrightarrow> h' = Some i) \<and> (h' = h \<or> h = None \<and> h' = Some i \<or> h = Some i \<and> h' = None)"
  proof (cases st)
    case (Busy p)
    then obtain p' t where m: "micro L W (ss_client x) i (errand_task L W x e) p h (client_part s) = (p', h', t)"
      "st' = arrive e p'" using assms(1) by (auto split: prod.splits)
    with micro_lock [OF m(1)] assms(2) Busy show ?thesis by simp
  qed (use assms in \<open>auto split: errand.splits prod.splits option.splits\<close>)
  then show "inside (view_place st') \<longleftrightarrow> h' = Some i"
    "h' = h \<or> h = None \<and> h' = Some i \<or> h = Some i \<and> h' = None" by blast+
qed

interpretation asks: turn_taking "ask_turn L W x es" "sources_agree L W x n es" "asks_left es n" n
  for L W x n es
proof
  fix g :: source_system and i
  obtain st h s where m: "ask_step L W x i (es i) (so_stand g i) (so_holder g) (so_state g) = (st, h, s)"
    by (metis prod_cases3)
  note turn = ask_turn_eq [where es = es and g = g and i = i, OF refl m]
  assume good: "sources_agree L W x n es g" and i: "i < n"
  then have "stand_fits L W x (es i) (so_stand g i)" and lock: "lock_agrees (client_view g)"
    by (simp_all add: sources_agree_def)
  note left = ask_step_left [OF this(1) m]
  have "inside (view_place (so_stand g i)) \<longleftrightarrow> so_holder g = Some i"
    using lock by (simp add: lock_agrees_def)
  note step = ask_step_lock [OF m this]
  from lock step have "lock_agrees (client_view (ask_turn L W x es i g))"
    by (auto simp: turn lock_agrees_def)
  with good left step(2) i show "sources_agree L W x n es (ask_turn L W x es i g)"
    by (auto simp: sources_agree_def) (auto simp: turn)
  show "ask_turn L W x es i g = g \<or> asks_left es n (ask_turn L W x es i g) < asks_left es n g"
  proof (cases "stand_left (es i) st < stand_left (es i) (so_stand g i)")
    case True
    then have "asks_left es n (ask_turn L W x es i g) < asks_left es n g"
      unfolding asks_left_def using i by (intro sum_strict_mono_ex1) (auto simp: turn)
    then show ?thesis ..
  next
    case False
    with left have "st = so_stand g i" "h = so_holder g" "s = so_state g" "stand_carries (so_stand g i) = []"
      by (auto simp: at_end_def waits_def)
    then show ?thesis by (simp add: turn)
  qed
next
  fix g :: source_system
  assume good: "sources_agree L W x n es g" and some: "0 < asks_left es n g"
  have "\<exists>i<n. stand_left (es i) (so_stand g i) \<noteq> 0"
  proof (rule ccontr)
    assume "\<not> ?thesis"
    then have "asks_left es n g = 0" by (simp add: asks_left_def)
    with some show False by simp
  qed
  then obtain i where i: "i < n" "stand_left (es i) (so_stand g i) \<noteq> 0" by auto
  define j where "j = (case so_holder g of None \<Rightarrow> i | Some j \<Rightarrow> j)"
  have j: "j < n" using good i(1) by (auto simp: j_def sources_agree_def split: option.splits)
  obtain st h s where m: "ask_step L W x j (es j) (so_stand g j) (so_holder g) (so_state g) = (st, h, s)"
    by (metis prod_cases3)
  have "\<not> waits (so_stand g j) (so_holder g) \<and> (at_end (so_stand g j) \<longrightarrow> stand_left (es j) (so_stand g j) \<noteq> 0)"
  proof (cases "so_holder g")
    case None
    with i(2) show ?thesis by (simp add: j_def waits_def)
  next
    case (Some h)
    with good have "inside (view_place (so_stand g j))" by (simp add: j_def sources_agree_def lock_agrees_def)
    then show ?thesis by (auto simp: waits_def at_end_def)
  qed
  moreover have "stand_left (es j) (so_stand g j) = 0" if "at_end (so_stand g j)"
    using that good by (cases "es j") (auto simp: at_end_def sources_agree_def dest!: spec [of _ j])
  ultimately have "stand_left (es j) st < stand_left (es j) (so_stand g j)"
    using ask_step_left [OF _ m] good by (auto simp: sources_agree_def)
  then have "so_stand (ask_turn L W x es j g) j \<noteq> so_stand g j"
    by (auto simp: ask_turn_eq [where es = es and g = g and i = j, OF refl m])
  then have "ask_turn L W x es j g \<noteq> g" by auto
  with j show "\<exists>i<n. ask_turn L W x es i g \<noteq> g" by blast
qed

text \<open>
  Every question is answered. Let \<open>n\<close> goroutines ask one source or use its client, in any state with
  the client's mutex free. However a schedule orders their turns, once it has gone 25 \<open>n\<close> times through
  all of them every question has been returned an answer or an error, and everything else has ended.
\<close>

theorem all_answered:
  assumes "\<forall>r \<in> set rs. set r = {..<n}" and "25 * n \<le> length rs"
  shows "\<exists>g. ask_interleave L W x es (concat rs) (source_system_on s) = g \<and>
    (\<forall>i<n. case es i of Asks key q \<Rightarrow> \<exists>r. so_stand g i = Answered r
       | Other k \<Rightarrow> \<exists>r. so_stand g i = Busy (Finished r)) \<and> so_holder g = None"
proof -
  let ?g = "ask_interleave L W x es (concat rs) (source_system_on s)"
  have fits: "stand_fits L W x e Loading" for e by (cases e) simp_all
  have good: "sources_agree L W x n es (source_system_on s)" and "asks_left es n (source_system_on s) = 25 * n"
    by (simp_all add: sources_agree_def source_system_on_def lock_agrees_def fits asks_left_def)
  with asks.rounds_finish [OF good assms(1)] assms(2) have none: "asks_left es n ?g = 0"
    by (simp add: ask_interleave_def)
  have last: "sources_agree L W x n es ?g"
    unfolding ask_interleave_def by (intro asks.turns_good good) (use assms(1) in auto)
  have finished: "stand_left (es i) (so_stand ?g i) = 0 \<and> stand_fits L W x (es i) (so_stand ?g i)" if "i < n" for i
    using none last that by (auto simp: asks_left_def sources_agree_def)
  have "case es i of Asks key q \<Rightarrow> \<exists>r. so_stand ?g i = Answered r
       | Other k \<Rightarrow> \<exists>r. so_stand ?g i = Busy (Finished r)" if "i < n" for i
    using finished [OF that] left_at_end [of L W x "es i" "so_stand ?g i"]
    by (cases "es i") (auto simp: at_end_def)
  moreover have "so_holder ?g = None"
  proof (cases "so_holder ?g")
    case (Some j)
    with last have "j < n" "inside (view_place (so_stand ?g j))" by (auto simp: sources_agree_def lock_agrees_def)
    with finished [of j] left_at_end [of L W x "es j" "so_stand ?g j"] show ?thesis by (auto simp: at_end_def)
  qed
  ultimately show ?thesis by blast
qed

theorem all_answered_witness:
  "\<exists>g. ask_interleave sample_lib still_world sample_source (\<lambda>_. Asks (''epoch'' @ nul @ ''p'') (QuestionPrincipalEpoch ''p''))
       (concat (replicate 50 [1, 0])) (source_system_on fresh_source) = g \<and> (\<forall>i<2. \<exists>r. so_stand g i = Answered r)"
proof -
  have rounds: "\<forall>r \<in> set (replicate 50 [1, 0 :: nat]). set r = {..<2}" by auto
  from all_answered [OF rounds, of sample_lib still_world sample_source
      "\<lambda>_. Asks (''epoch'' @ nul @ ''p'') (QuestionPrincipalEpoch ''p'')" fresh_source] show ?thesis by auto
qed

section \<open>A late store\<close>

text \<open>
  A host whose answer to every question changes from \<open>a\<close> to \<open>b\<close> after three events, with a clock that
  counts events, and a source whose cache bound is two.
\<close>

definition changing :: "authority_answer \<Rightarrow> authority_answer \<Rightarrow> world" where
  "changing a b = sample_world 200 (\<lambda>l q. Inr (Some (if length l < 3 then a else b)))"

definition quick_source :: WorkContextSources where
  "quick_source = sample_source\<lparr>ss_settings := (ss_settings sample_source)\<lparr>ws_CacheBound := 2\<rparr>\<rparr>"

definition epoch_errand :: errand where
  "epoch_errand = Asks (''epoch'' @ nul @ ''p'') (QuestionPrincipalEpoch ''p'')"

definition late_run :: "nat list" where
  "late_run = [0, 0, 0, 0, 0, 0, 0, 0, 1, 1, 1, 1, 1, 1, 1, 1, 1, 0, 2]"

lemma ask_turn_eval:
  "ask_turn L W x es i \<lparr>so_state = s, so_holder = h, so_stand = f, so_offered = sh\<rparr> =
     (case ask_step L W x i (es i) (f i) h s of (p, h', s') \<Rightarrow>
        \<lparr>so_state = s', so_holder = h', so_stand = f(i := p), so_offered = sh(i := sh i @ stand_carries (f i))\<rparr>)"
  by (simp add: ask_turn_def split: prod.splits)

lemma changing_answer:
  "ct_answer (call_of sample_lib (changing a b) sample_client Resolve_procedure msg id) l m
     = Inr (Some (if length l < 3 then a else b))"
  by (simp add: call_of_answer host_answer_def Resolve_procedure_def changing_def sample_world_def sample_service_def)

lemma changing_now: "w_now (changing a b) l = int (length l)"
  by (simp add: changing_def sample_world_def)

text \<open>
  A late answer replaces a newer one. The deadline of a cached answer counts from the clock's reading
  by \<open>store\<close>, not from the host's answer, and \<open>store\<close> does not look at what is held. In this run one
  goroutine asks and is answered \<open>a\<close>; before it stores that, another asks the same, is answered \<open>b\<close> by
  the host that has changed its mind, stores it and returns; then the first stores \<open>a\<close> over it, and a
  third is served \<open>a\<close> from memory, when the clock is more than the cache bound past the host's answer.
\<close>

theorem late_store:
  "\<exists>g. ask_interleave sample_lib (changing a b) quick_source (\<lambda>_. epoch_errand) late_run (source_system_on sample_start) = g \<and>
     so_stand g 1 = Answered (Inr b) \<and> so_stand g 2 = Answered (Inr a) \<and>
     (\<exists>q r. log (so_state g) = [EvNow, EvCall q, EvNow, EvCall r, EvNow, EvNow, EvNow]) \<and>
     sources_now (changing a b) quick_source (take 6 (log (so_state g))) >
       sources_now (changing a b) quick_source (take 2 (log (so_state g))) + ws_CacheBound (ss_settings quick_source)"
proof -
  have settings: "ss_client quick_source = sample_client" "ws_CacheEntries (ss_settings quick_source) = 2048"
    "ws_CacheBound (ss_settings quick_source) = 2" "ws_Now (ss_settings quick_source) = None"
    by (simp_all add: quick_source_def sample_source_def)
  have now: "sources_now (changing a b) quick_source l = int (length l)" for l
    by (simp add: sources_now_def settings changing_now)
  let ?g = "ask_interleave sample_lib (changing a b) quick_source (\<lambda>_. epoch_errand) late_run (source_system_on sample_start)"
  have "so_stand ?g 1 = Answered (Inr b) \<and> so_stand ?g 2 = Answered (Inr a) \<and>
     (\<exists>q r. log (so_state ?g) = [EvNow, EvCall q, EvNow, EvCall r, EvNow, EvNow, EvNow])"
    by (simp add: ask_interleave_def late_run_def source_system_on_def ask_turn_eval epoch_errand_def sample_start_def
        settings now changing_now changing_answer load_def cache_load_def store_def cache_store_def
        client_part_def with_client_def sample_present leave_def)
  then show ?thesis by (auto simp: now settings)
qed

end
