(* ===== verification/ConnectDatasource.thy ===== *)
theory ConnectDatasource
  imports GoConnect
begin

text \<open>
  The generated Connect code of datasource, directory: the procedures, client, handler and
  unimplemented handler of each service, and each as an instance of the locale of theory GoConnect.
\<close>

section \<open>DatasourceService\<close>

definition DatasourceServiceName :: string where
  "DatasourceServiceName = ''saas.accounts.v1.DatasourceService''"

text \<open>The methods of the client interface.\<close>

datatype DatasourceServiceMethod =
    Datasource_PruneSourceOperationReceipts
  | Datasource_LookupPruneSourceOperationReceipts
  | Datasource_InvokeSourceOperation
  | Datasource_LookupInvokeSourceOperation
  | Datasource_ListSourceOperations
  | Datasource_DeclareSourceOperations
  | Datasource_AddGitHubSource
  | Datasource_AddSource
  | Datasource_UpdateSource
  | Datasource_GetDatasourceCatalog
  | Datasource_ListSources
  | Datasource_GetSource
  | Datasource_SyncSource
  | Datasource_GetSourceSync
  | Datasource_DeleteSource
  | Datasource_BeginGitHubAppSetup
  | Datasource_CompleteGitHubAppSetup
  | Datasource_MigrateGitHubSourceToApp
  | Datasource_BeginDatasourceAccountLink
  | Datasource_CompleteDatasourceAccountLink
  | Datasource_ListMyDatasourceAccountLinks
  | Datasource_DeleteDatasourceAccountLink
  | Datasource_GetDatasourceDirectory
  | Datasource_BindDatasourceGroup
  | Datasource_UnbindDatasourceGroup
  | Datasource_ClaimDatasourceDomain
  | Datasource_VerifyDatasourceDomain
  | Datasource_DeleteDatasourceDomain
  | Datasource_ListSourceDelegations
  | Datasource_RevokeSourceDelegation
  | Datasource_DelegateSourceTriggers
  | Datasource_GetSourceTriggerDeclaration
  | Datasource_ReconcileSource
  | Datasource_LookupReconcileSource

primrec DatasourceService_method :: "DatasourceServiceMethod \<Rightarrow> string" where
  "DatasourceService_method Datasource_PruneSourceOperationReceipts = ''PruneSourceOperationReceipts''"
| "DatasourceService_method Datasource_LookupPruneSourceOperationReceipts = ''LookupPruneSourceOperationReceipts''"
| "DatasourceService_method Datasource_InvokeSourceOperation = ''InvokeSourceOperation''"
| "DatasourceService_method Datasource_LookupInvokeSourceOperation = ''LookupInvokeSourceOperation''"
| "DatasourceService_method Datasource_ListSourceOperations = ''ListSourceOperations''"
| "DatasourceService_method Datasource_DeclareSourceOperations = ''DeclareSourceOperations''"
| "DatasourceService_method Datasource_AddGitHubSource = ''AddGitHubSource''"
| "DatasourceService_method Datasource_AddSource = ''AddSource''"
| "DatasourceService_method Datasource_UpdateSource = ''UpdateSource''"
| "DatasourceService_method Datasource_GetDatasourceCatalog = ''GetDatasourceCatalog''"
| "DatasourceService_method Datasource_ListSources = ''ListSources''"
| "DatasourceService_method Datasource_GetSource = ''GetSource''"
| "DatasourceService_method Datasource_SyncSource = ''SyncSource''"
| "DatasourceService_method Datasource_GetSourceSync = ''GetSourceSync''"
| "DatasourceService_method Datasource_DeleteSource = ''DeleteSource''"
| "DatasourceService_method Datasource_BeginGitHubAppSetup = ''BeginGitHubAppSetup''"
| "DatasourceService_method Datasource_CompleteGitHubAppSetup = ''CompleteGitHubAppSetup''"
| "DatasourceService_method Datasource_MigrateGitHubSourceToApp = ''MigrateGitHubSourceToApp''"
| "DatasourceService_method Datasource_BeginDatasourceAccountLink = ''BeginDatasourceAccountLink''"
| "DatasourceService_method Datasource_CompleteDatasourceAccountLink = ''CompleteDatasourceAccountLink''"
| "DatasourceService_method Datasource_ListMyDatasourceAccountLinks = ''ListMyDatasourceAccountLinks''"
| "DatasourceService_method Datasource_DeleteDatasourceAccountLink = ''DeleteDatasourceAccountLink''"
| "DatasourceService_method Datasource_GetDatasourceDirectory = ''GetDatasourceDirectory''"
| "DatasourceService_method Datasource_BindDatasourceGroup = ''BindDatasourceGroup''"
| "DatasourceService_method Datasource_UnbindDatasourceGroup = ''UnbindDatasourceGroup''"
| "DatasourceService_method Datasource_ClaimDatasourceDomain = ''ClaimDatasourceDomain''"
| "DatasourceService_method Datasource_VerifyDatasourceDomain = ''VerifyDatasourceDomain''"
| "DatasourceService_method Datasource_DeleteDatasourceDomain = ''DeleteDatasourceDomain''"
| "DatasourceService_method Datasource_ListSourceDelegations = ''ListSourceDelegations''"
| "DatasourceService_method Datasource_RevokeSourceDelegation = ''RevokeSourceDelegation''"
| "DatasourceService_method Datasource_DelegateSourceTriggers = ''DelegateSourceTriggers''"
| "DatasourceService_method Datasource_GetSourceTriggerDeclaration = ''GetSourceTriggerDeclaration''"
| "DatasourceService_method Datasource_ReconcileSource = ''ReconcileSource''"
| "DatasourceService_method Datasource_LookupReconcileSource = ''LookupReconcileSource''"

primrec DatasourceServiceProcedure :: "DatasourceServiceMethod \<Rightarrow> string" where
  "DatasourceServiceProcedure Datasource_PruneSourceOperationReceipts =
     ''/saas.accounts.v1.DatasourceService/PruneSourceOperationReceipts''"
| "DatasourceServiceProcedure Datasource_LookupPruneSourceOperationReceipts =
     ''/saas.accounts.v1.DatasourceService/LookupPruneSourceOperationReceipts''"
| "DatasourceServiceProcedure Datasource_InvokeSourceOperation =
     ''/saas.accounts.v1.DatasourceService/InvokeSourceOperation''"
| "DatasourceServiceProcedure Datasource_LookupInvokeSourceOperation =
     ''/saas.accounts.v1.DatasourceService/LookupInvokeSourceOperation''"
| "DatasourceServiceProcedure Datasource_ListSourceOperations =
     ''/saas.accounts.v1.DatasourceService/ListSourceOperations''"
| "DatasourceServiceProcedure Datasource_DeclareSourceOperations =
     ''/saas.accounts.v1.DatasourceService/DeclareSourceOperations''"
| "DatasourceServiceProcedure Datasource_AddGitHubSource =
     ''/saas.accounts.v1.DatasourceService/AddGitHubSource''"
| "DatasourceServiceProcedure Datasource_AddSource =
     ''/saas.accounts.v1.DatasourceService/AddSource''"
| "DatasourceServiceProcedure Datasource_UpdateSource =
     ''/saas.accounts.v1.DatasourceService/UpdateSource''"
| "DatasourceServiceProcedure Datasource_GetDatasourceCatalog =
     ''/saas.accounts.v1.DatasourceService/GetDatasourceCatalog''"
| "DatasourceServiceProcedure Datasource_ListSources =
     ''/saas.accounts.v1.DatasourceService/ListSources''"
| "DatasourceServiceProcedure Datasource_GetSource =
     ''/saas.accounts.v1.DatasourceService/GetSource''"
| "DatasourceServiceProcedure Datasource_SyncSource =
     ''/saas.accounts.v1.DatasourceService/SyncSource''"
| "DatasourceServiceProcedure Datasource_GetSourceSync =
     ''/saas.accounts.v1.DatasourceService/GetSourceSync''"
| "DatasourceServiceProcedure Datasource_DeleteSource =
     ''/saas.accounts.v1.DatasourceService/DeleteSource''"
| "DatasourceServiceProcedure Datasource_BeginGitHubAppSetup =
     ''/saas.accounts.v1.DatasourceService/BeginGitHubAppSetup''"
| "DatasourceServiceProcedure Datasource_CompleteGitHubAppSetup =
     ''/saas.accounts.v1.DatasourceService/CompleteGitHubAppSetup''"
| "DatasourceServiceProcedure Datasource_MigrateGitHubSourceToApp =
     ''/saas.accounts.v1.DatasourceService/MigrateGitHubSourceToApp''"
| "DatasourceServiceProcedure Datasource_BeginDatasourceAccountLink =
     ''/saas.accounts.v1.DatasourceService/BeginDatasourceAccountLink''"
| "DatasourceServiceProcedure Datasource_CompleteDatasourceAccountLink =
     ''/saas.accounts.v1.DatasourceService/CompleteDatasourceAccountLink''"
| "DatasourceServiceProcedure Datasource_ListMyDatasourceAccountLinks =
     ''/saas.accounts.v1.DatasourceService/ListMyDatasourceAccountLinks''"
| "DatasourceServiceProcedure Datasource_DeleteDatasourceAccountLink =
     ''/saas.accounts.v1.DatasourceService/DeleteDatasourceAccountLink''"
| "DatasourceServiceProcedure Datasource_GetDatasourceDirectory =
     ''/saas.accounts.v1.DatasourceService/GetDatasourceDirectory''"
| "DatasourceServiceProcedure Datasource_BindDatasourceGroup =
     ''/saas.accounts.v1.DatasourceService/BindDatasourceGroup''"
| "DatasourceServiceProcedure Datasource_UnbindDatasourceGroup =
     ''/saas.accounts.v1.DatasourceService/UnbindDatasourceGroup''"
| "DatasourceServiceProcedure Datasource_ClaimDatasourceDomain =
     ''/saas.accounts.v1.DatasourceService/ClaimDatasourceDomain''"
| "DatasourceServiceProcedure Datasource_VerifyDatasourceDomain =
     ''/saas.accounts.v1.DatasourceService/VerifyDatasourceDomain''"
| "DatasourceServiceProcedure Datasource_DeleteDatasourceDomain =
     ''/saas.accounts.v1.DatasourceService/DeleteDatasourceDomain''"
| "DatasourceServiceProcedure Datasource_ListSourceDelegations =
     ''/saas.accounts.v1.DatasourceService/ListSourceDelegations''"
| "DatasourceServiceProcedure Datasource_RevokeSourceDelegation =
     ''/saas.accounts.v1.DatasourceService/RevokeSourceDelegation''"
| "DatasourceServiceProcedure Datasource_DelegateSourceTriggers =
     ''/saas.accounts.v1.DatasourceService/DelegateSourceTriggers''"
| "DatasourceServiceProcedure Datasource_GetSourceTriggerDeclaration =
     ''/saas.accounts.v1.DatasourceService/GetSourceTriggerDeclaration''"
| "DatasourceServiceProcedure Datasource_ReconcileSource =
     ''/saas.accounts.v1.DatasourceService/ReconcileSource''"
| "DatasourceServiceProcedure Datasource_LookupReconcileSource =
     ''/saas.accounts.v1.DatasourceService/LookupReconcileSource''"

definition datasourceServiceClient :: "DatasourceServiceMethod list" where
  "datasourceServiceClient =
     [Datasource_PruneSourceOperationReceipts,
      Datasource_LookupPruneSourceOperationReceipts,
      Datasource_InvokeSourceOperation,
      Datasource_LookupInvokeSourceOperation,
      Datasource_ListSourceOperations,
      Datasource_DeclareSourceOperations,
      Datasource_AddGitHubSource,
      Datasource_AddSource,
      Datasource_UpdateSource,
      Datasource_GetDatasourceCatalog,
      Datasource_ListSources,
      Datasource_GetSource,
      Datasource_SyncSource,
      Datasource_GetSourceSync,
      Datasource_DeleteSource,
      Datasource_BeginGitHubAppSetup,
      Datasource_CompleteGitHubAppSetup,
      Datasource_MigrateGitHubSourceToApp,
      Datasource_BeginDatasourceAccountLink,
      Datasource_CompleteDatasourceAccountLink,
      Datasource_ListMyDatasourceAccountLinks,
      Datasource_DeleteDatasourceAccountLink,
      Datasource_GetDatasourceDirectory,
      Datasource_BindDatasourceGroup,
      Datasource_UnbindDatasourceGroup,
      Datasource_ClaimDatasourceDomain,
      Datasource_VerifyDatasourceDomain,
      Datasource_DeleteDatasourceDomain,
      Datasource_ListSourceDelegations,
      Datasource_RevokeSourceDelegation,
      Datasource_DelegateSourceTriggers,
      Datasource_GetSourceTriggerDeclaration,
      Datasource_ReconcileSource,
      Datasource_LookupReconcileSource]"

definition NewDatasourceServiceClient :: "string \<Rightarrow> DatasourceServiceMethod \<Rightarrow> endpoint" where
  "NewDatasourceServiceClient baseURL m =
     \<lparr>ep_url = trim_right_char (CHR ''/'') baseURL @ DatasourceServiceProcedure m, ep_schema = DatasourceService_method m\<rparr>"

definition datasourceServiceClient_call :: "(DatasourceServiceMethod \<Rightarrow> endpoint) \<Rightarrow> DatasourceServiceMethod \<Rightarrow> call_kind \<times> endpoint" where
  "datasourceServiceClient_call c m = (CallUnary, c m)"

definition datasourceServiceHandler_routes :: "(DatasourceServiceMethod \<Rightarrow> 'f) \<Rightarrow> DatasourceServiceMethod \<Rightarrow> 'f route" where
  "datasourceServiceHandler_routes svc m =
     \<lparr>rt_procedure = DatasourceServiceProcedure m, rt_kind = CallUnary,
      rt_impl = svc m, rt_schema = DatasourceService_method m\<rparr>"

definition NewDatasourceServiceHandler ::
  "(DatasourceServiceMethod \<Rightarrow> 'f) \<Rightarrow> string \<times> (string \<Rightarrow> 'f route option)" where
  "NewDatasourceServiceHandler svc =
     (''/saas.accounts.v1.DatasourceService/'', \<lambda>path. map_option (datasourceServiceHandler_routes svc)
        (switch_on DatasourceServiceProcedure datasourceServiceClient path))"

definition UnimplementedDatasourceServiceHandler :: "DatasourceServiceMethod \<Rightarrow> connect_failure" where
  "UnimplementedDatasourceServiceHandler m =
     \<lparr>cf_code = CodeUnimplemented, cf_text = ''saas.accounts.v1.DatasourceService.'' @ DatasourceService_method m @ '' is not implemented''\<rparr>"

interpretation datasourceService: connect_service DatasourceServiceName DatasourceService_method DatasourceServiceProcedure datasourceServiceClient
proof
  show "DatasourceServiceProcedure m = CHR ''/'' # DatasourceServiceName @ CHR ''/'' # DatasourceService_method m" for m
    by (cases m) (simp_all add: DatasourceServiceName_def)
  show "m \<in> set datasourceServiceClient" for m by (cases m) (simp_all add: datasourceServiceClient_def)
  show "distinct (map DatasourceService_method datasourceServiceClient)" by code_simp
  show "CHR ''/'' \<notin> set DatasourceServiceName \<and>
      list_all (\<lambda>m. CHR ''/'' \<notin> set (DatasourceService_method m)) datasourceServiceClient"
    by code_simp
qed

section \<open>DirectoryService\<close>

definition DirectoryServiceName :: string where
  "DirectoryServiceName = ''saas.accounts.v1.DirectoryService''"

text \<open>The methods of the client interface.\<close>

datatype DirectoryServiceMethod =
    Directory_ListOrganizationMembers
  | Directory_ListTeams
  | Directory_ListTeamMembers

primrec DirectoryService_method :: "DirectoryServiceMethod \<Rightarrow> string" where
  "DirectoryService_method Directory_ListOrganizationMembers = ''ListOrganizationMembers''"
| "DirectoryService_method Directory_ListTeams = ''ListTeams''"
| "DirectoryService_method Directory_ListTeamMembers = ''ListTeamMembers''"

primrec DirectoryServiceProcedure :: "DirectoryServiceMethod \<Rightarrow> string" where
  "DirectoryServiceProcedure Directory_ListOrganizationMembers =
     ''/saas.accounts.v1.DirectoryService/ListOrganizationMembers''"
| "DirectoryServiceProcedure Directory_ListTeams =
     ''/saas.accounts.v1.DirectoryService/ListTeams''"
| "DirectoryServiceProcedure Directory_ListTeamMembers =
     ''/saas.accounts.v1.DirectoryService/ListTeamMembers''"

definition directoryServiceClient :: "DirectoryServiceMethod list" where
  "directoryServiceClient =
     [Directory_ListOrganizationMembers,
      Directory_ListTeams,
      Directory_ListTeamMembers]"

definition NewDirectoryServiceClient :: "string \<Rightarrow> DirectoryServiceMethod \<Rightarrow> endpoint" where
  "NewDirectoryServiceClient baseURL m =
     \<lparr>ep_url = trim_right_char (CHR ''/'') baseURL @ DirectoryServiceProcedure m, ep_schema = DirectoryService_method m\<rparr>"

definition directoryServiceClient_call :: "(DirectoryServiceMethod \<Rightarrow> endpoint) \<Rightarrow> DirectoryServiceMethod \<Rightarrow> call_kind \<times> endpoint" where
  "directoryServiceClient_call c m = (CallUnary, c m)"

definition directoryServiceHandler_routes :: "(DirectoryServiceMethod \<Rightarrow> 'f) \<Rightarrow> DirectoryServiceMethod \<Rightarrow> 'f route" where
  "directoryServiceHandler_routes svc m =
     \<lparr>rt_procedure = DirectoryServiceProcedure m, rt_kind = CallUnary,
      rt_impl = svc m, rt_schema = DirectoryService_method m\<rparr>"

definition NewDirectoryServiceHandler ::
  "(DirectoryServiceMethod \<Rightarrow> 'f) \<Rightarrow> string \<times> (string \<Rightarrow> 'f route option)" where
  "NewDirectoryServiceHandler svc =
     (''/saas.accounts.v1.DirectoryService/'', \<lambda>path. map_option (directoryServiceHandler_routes svc)
        (switch_on DirectoryServiceProcedure directoryServiceClient path))"

definition UnimplementedDirectoryServiceHandler :: "DirectoryServiceMethod \<Rightarrow> connect_failure" where
  "UnimplementedDirectoryServiceHandler m =
     \<lparr>cf_code = CodeUnimplemented, cf_text = ''saas.accounts.v1.DirectoryService.'' @ DirectoryService_method m @ '' is not implemented''\<rparr>"

interpretation directoryService: connect_service DirectoryServiceName DirectoryService_method DirectoryServiceProcedure directoryServiceClient
proof
  show "DirectoryServiceProcedure m = CHR ''/'' # DirectoryServiceName @ CHR ''/'' # DirectoryService_method m" for m
    by (cases m) (simp_all add: DirectoryServiceName_def)
  show "m \<in> set directoryServiceClient" for m by (cases m) (simp_all add: directoryServiceClient_def)
  show "distinct (map DirectoryService_method directoryServiceClient)" by code_simp
  show "CHR ''/'' \<notin> set DirectoryServiceName \<and>
      list_all (\<lambda>m. CHR ''/'' \<notin> set (DirectoryService_method m)) directoryServiceClient"
    by code_simp
qed

end
