(* ===== verification/ConnectAuthority.thy ===== *)
theory ConnectAuthority
  imports GoConnect
begin

text \<open>
  The generated Connect code of authorization, work_contexts, delegations, introspection, accessible_scopes, approvals: the procedures, client, handler and
  unimplemented handler of each service, and each as an instance of the locale of theory GoConnect.
\<close>

section \<open>PermissionService\<close>

definition PermissionServiceName :: string where
  "PermissionServiceName = ''saas.accounts.v1.PermissionService''"

text \<open>The methods of the client interface.\<close>

datatype PermissionServiceMethod =
    Permission_CreateRole
  | Permission_ListRoles
  | Permission_UpdateRole
  | Permission_DeleteRole
  | Permission_AssignRole
  | Permission_RevokeRole
  | Permission_ListRoleAssignments
  | Permission_CheckPermission
  | Permission_ExplainPermission
  | Permission_Decide
  | Permission_CheckAccess
  | Permission_ListAccessibleScopes
  | Permission_RegisterScopeNode
  | Permission_ListCollectionAccess
  | Permission_GrantScope
  | Permission_RevokeScope
  | Permission_ShareRecord
  | Permission_RevokeShare
  | Permission_ListShares

primrec PermissionService_method :: "PermissionServiceMethod \<Rightarrow> string" where
  "PermissionService_method Permission_CreateRole = ''CreateRole''"
| "PermissionService_method Permission_ListRoles = ''ListRoles''"
| "PermissionService_method Permission_UpdateRole = ''UpdateRole''"
| "PermissionService_method Permission_DeleteRole = ''DeleteRole''"
| "PermissionService_method Permission_AssignRole = ''AssignRole''"
| "PermissionService_method Permission_RevokeRole = ''RevokeRole''"
| "PermissionService_method Permission_ListRoleAssignments = ''ListRoleAssignments''"
| "PermissionService_method Permission_CheckPermission = ''CheckPermission''"
| "PermissionService_method Permission_ExplainPermission = ''ExplainPermission''"
| "PermissionService_method Permission_Decide = ''Decide''"
| "PermissionService_method Permission_CheckAccess = ''CheckAccess''"
| "PermissionService_method Permission_ListAccessibleScopes = ''ListAccessibleScopes''"
| "PermissionService_method Permission_RegisterScopeNode = ''RegisterScopeNode''"
| "PermissionService_method Permission_ListCollectionAccess = ''ListCollectionAccess''"
| "PermissionService_method Permission_GrantScope = ''GrantScope''"
| "PermissionService_method Permission_RevokeScope = ''RevokeScope''"
| "PermissionService_method Permission_ShareRecord = ''ShareRecord''"
| "PermissionService_method Permission_RevokeShare = ''RevokeShare''"
| "PermissionService_method Permission_ListShares = ''ListShares''"

primrec PermissionServiceProcedure :: "PermissionServiceMethod \<Rightarrow> string" where
  "PermissionServiceProcedure Permission_CreateRole =
     ''/saas.accounts.v1.PermissionService/CreateRole''"
| "PermissionServiceProcedure Permission_ListRoles =
     ''/saas.accounts.v1.PermissionService/ListRoles''"
| "PermissionServiceProcedure Permission_UpdateRole =
     ''/saas.accounts.v1.PermissionService/UpdateRole''"
| "PermissionServiceProcedure Permission_DeleteRole =
     ''/saas.accounts.v1.PermissionService/DeleteRole''"
| "PermissionServiceProcedure Permission_AssignRole =
     ''/saas.accounts.v1.PermissionService/AssignRole''"
| "PermissionServiceProcedure Permission_RevokeRole =
     ''/saas.accounts.v1.PermissionService/RevokeRole''"
| "PermissionServiceProcedure Permission_ListRoleAssignments =
     ''/saas.accounts.v1.PermissionService/ListRoleAssignments''"
| "PermissionServiceProcedure Permission_CheckPermission =
     ''/saas.accounts.v1.PermissionService/CheckPermission''"
| "PermissionServiceProcedure Permission_ExplainPermission =
     ''/saas.accounts.v1.PermissionService/ExplainPermission''"
| "PermissionServiceProcedure Permission_Decide =
     ''/saas.accounts.v1.PermissionService/Decide''"
| "PermissionServiceProcedure Permission_CheckAccess =
     ''/saas.accounts.v1.PermissionService/CheckAccess''"
| "PermissionServiceProcedure Permission_ListAccessibleScopes =
     ''/saas.accounts.v1.PermissionService/ListAccessibleScopes''"
| "PermissionServiceProcedure Permission_RegisterScopeNode =
     ''/saas.accounts.v1.PermissionService/RegisterScopeNode''"
| "PermissionServiceProcedure Permission_ListCollectionAccess =
     ''/saas.accounts.v1.PermissionService/ListCollectionAccess''"
| "PermissionServiceProcedure Permission_GrantScope =
     ''/saas.accounts.v1.PermissionService/GrantScope''"
| "PermissionServiceProcedure Permission_RevokeScope =
     ''/saas.accounts.v1.PermissionService/RevokeScope''"
| "PermissionServiceProcedure Permission_ShareRecord =
     ''/saas.accounts.v1.PermissionService/ShareRecord''"
| "PermissionServiceProcedure Permission_RevokeShare =
     ''/saas.accounts.v1.PermissionService/RevokeShare''"
| "PermissionServiceProcedure Permission_ListShares =
     ''/saas.accounts.v1.PermissionService/ListShares''"

definition permissionServiceClient :: "PermissionServiceMethod list" where
  "permissionServiceClient =
     [Permission_CreateRole,
      Permission_ListRoles,
      Permission_UpdateRole,
      Permission_DeleteRole,
      Permission_AssignRole,
      Permission_RevokeRole,
      Permission_ListRoleAssignments,
      Permission_CheckPermission,
      Permission_ExplainPermission,
      Permission_Decide,
      Permission_CheckAccess,
      Permission_ListAccessibleScopes,
      Permission_RegisterScopeNode,
      Permission_ListCollectionAccess,
      Permission_GrantScope,
      Permission_RevokeScope,
      Permission_ShareRecord,
      Permission_RevokeShare,
      Permission_ListShares]"

definition NewPermissionServiceClient :: "string \<Rightarrow> PermissionServiceMethod \<Rightarrow> endpoint" where
  "NewPermissionServiceClient baseURL m =
     \<lparr>ep_url = trim_right_char (CHR ''/'') baseURL @ PermissionServiceProcedure m, ep_schema = PermissionService_method m\<rparr>"

definition permissionServiceClient_call :: "(PermissionServiceMethod \<Rightarrow> endpoint) \<Rightarrow> PermissionServiceMethod \<Rightarrow> call_kind \<times> endpoint" where
  "permissionServiceClient_call c m = (CallUnary, c m)"

definition permissionServiceHandler_routes :: "(PermissionServiceMethod \<Rightarrow> 'f) \<Rightarrow> PermissionServiceMethod \<Rightarrow> 'f route" where
  "permissionServiceHandler_routes svc m =
     \<lparr>rt_procedure = PermissionServiceProcedure m, rt_kind = CallUnary,
      rt_impl = svc m, rt_schema = PermissionService_method m\<rparr>"

definition NewPermissionServiceHandler ::
  "(PermissionServiceMethod \<Rightarrow> 'f) \<Rightarrow> string \<times> (string \<Rightarrow> 'f route option)" where
  "NewPermissionServiceHandler svc =
     (''/saas.accounts.v1.PermissionService/'', \<lambda>path. map_option (permissionServiceHandler_routes svc)
        (switch_on PermissionServiceProcedure permissionServiceClient path))"

definition UnimplementedPermissionServiceHandler :: "PermissionServiceMethod \<Rightarrow> connect_failure" where
  "UnimplementedPermissionServiceHandler m =
     \<lparr>cf_code = CodeUnimplemented, cf_text = ''saas.accounts.v1.PermissionService.'' @ PermissionService_method m @ '' is not implemented''\<rparr>"

interpretation permissionService: connect_service PermissionServiceName PermissionService_method PermissionServiceProcedure permissionServiceClient
proof
  show "PermissionServiceProcedure m = CHR ''/'' # PermissionServiceName @ CHR ''/'' # PermissionService_method m" for m
    by (cases m) (simp_all add: PermissionServiceName_def)
  show "m \<in> set permissionServiceClient" for m by (cases m) (simp_all add: permissionServiceClient_def)
  show "distinct (map PermissionService_method permissionServiceClient)" by code_simp
  show "CHR ''/'' \<notin> set PermissionServiceName \<and>
      list_all (\<lambda>m. CHR ''/'' \<notin> set (PermissionService_method m)) permissionServiceClient"
    by code_simp
qed

section \<open>PrincipalService\<close>

definition PrincipalServiceName :: string where
  "PrincipalServiceName = ''saas.accounts.v1.PrincipalService''"

text \<open>The methods of the client interface.\<close>

datatype PrincipalServiceMethod =
    Principal_GetPrincipal
  | Principal_GetAgentPrincipal
  | Principal_CreateAgentPrincipal
  | Principal_RevokePrincipal
  | Principal_DisableAgentPrincipal
  | Principal_EnableAgentPrincipal
  | Principal_ListPrincipals

primrec PrincipalService_method :: "PrincipalServiceMethod \<Rightarrow> string" where
  "PrincipalService_method Principal_GetPrincipal = ''GetPrincipal''"
| "PrincipalService_method Principal_GetAgentPrincipal = ''GetAgentPrincipal''"
| "PrincipalService_method Principal_CreateAgentPrincipal = ''CreateAgentPrincipal''"
| "PrincipalService_method Principal_RevokePrincipal = ''RevokePrincipal''"
| "PrincipalService_method Principal_DisableAgentPrincipal = ''DisableAgentPrincipal''"
| "PrincipalService_method Principal_EnableAgentPrincipal = ''EnableAgentPrincipal''"
| "PrincipalService_method Principal_ListPrincipals = ''ListPrincipals''"

primrec PrincipalServiceProcedure :: "PrincipalServiceMethod \<Rightarrow> string" where
  "PrincipalServiceProcedure Principal_GetPrincipal =
     ''/saas.accounts.v1.PrincipalService/GetPrincipal''"
| "PrincipalServiceProcedure Principal_GetAgentPrincipal =
     ''/saas.accounts.v1.PrincipalService/GetAgentPrincipal''"
| "PrincipalServiceProcedure Principal_CreateAgentPrincipal =
     ''/saas.accounts.v1.PrincipalService/CreateAgentPrincipal''"
| "PrincipalServiceProcedure Principal_RevokePrincipal =
     ''/saas.accounts.v1.PrincipalService/RevokePrincipal''"
| "PrincipalServiceProcedure Principal_DisableAgentPrincipal =
     ''/saas.accounts.v1.PrincipalService/DisableAgentPrincipal''"
| "PrincipalServiceProcedure Principal_EnableAgentPrincipal =
     ''/saas.accounts.v1.PrincipalService/EnableAgentPrincipal''"
| "PrincipalServiceProcedure Principal_ListPrincipals =
     ''/saas.accounts.v1.PrincipalService/ListPrincipals''"

definition principalServiceClient :: "PrincipalServiceMethod list" where
  "principalServiceClient =
     [Principal_GetPrincipal,
      Principal_GetAgentPrincipal,
      Principal_CreateAgentPrincipal,
      Principal_RevokePrincipal,
      Principal_DisableAgentPrincipal,
      Principal_EnableAgentPrincipal,
      Principal_ListPrincipals]"

definition NewPrincipalServiceClient :: "string \<Rightarrow> PrincipalServiceMethod \<Rightarrow> endpoint" where
  "NewPrincipalServiceClient baseURL m =
     \<lparr>ep_url = trim_right_char (CHR ''/'') baseURL @ PrincipalServiceProcedure m, ep_schema = PrincipalService_method m\<rparr>"

definition principalServiceClient_call :: "(PrincipalServiceMethod \<Rightarrow> endpoint) \<Rightarrow> PrincipalServiceMethod \<Rightarrow> call_kind \<times> endpoint" where
  "principalServiceClient_call c m = (CallUnary, c m)"

definition principalServiceHandler_routes :: "(PrincipalServiceMethod \<Rightarrow> 'f) \<Rightarrow> PrincipalServiceMethod \<Rightarrow> 'f route" where
  "principalServiceHandler_routes svc m =
     \<lparr>rt_procedure = PrincipalServiceProcedure m, rt_kind = CallUnary,
      rt_impl = svc m, rt_schema = PrincipalService_method m\<rparr>"

definition NewPrincipalServiceHandler ::
  "(PrincipalServiceMethod \<Rightarrow> 'f) \<Rightarrow> string \<times> (string \<Rightarrow> 'f route option)" where
  "NewPrincipalServiceHandler svc =
     (''/saas.accounts.v1.PrincipalService/'', \<lambda>path. map_option (principalServiceHandler_routes svc)
        (switch_on PrincipalServiceProcedure principalServiceClient path))"

definition UnimplementedPrincipalServiceHandler :: "PrincipalServiceMethod \<Rightarrow> connect_failure" where
  "UnimplementedPrincipalServiceHandler m =
     \<lparr>cf_code = CodeUnimplemented, cf_text = ''saas.accounts.v1.PrincipalService.'' @ PrincipalService_method m @ '' is not implemented''\<rparr>"

interpretation principalService: connect_service PrincipalServiceName PrincipalService_method PrincipalServiceProcedure principalServiceClient
proof
  show "PrincipalServiceProcedure m = CHR ''/'' # PrincipalServiceName @ CHR ''/'' # PrincipalService_method m" for m
    by (cases m) (simp_all add: PrincipalServiceName_def)
  show "m \<in> set principalServiceClient" for m by (cases m) (simp_all add: principalServiceClient_def)
  show "distinct (map PrincipalService_method principalServiceClient)" by code_simp
  show "CHR ''/'' \<notin> set PrincipalServiceName \<and>
      list_all (\<lambda>m. CHR ''/'' \<notin> set (PrincipalService_method m)) principalServiceClient"
    by code_simp
qed

section \<open>WorkContextService\<close>

definition WorkContextServiceName :: string where
  "WorkContextServiceName = ''saas.accounts.v1.WorkContextService''"

text \<open>The methods of the client interface.\<close>

datatype WorkContextServiceMethod =
    WorkContext_CheckAuthorizationRevision
  | WorkContext_AuthorizeEvidenceRead
  | WorkContext_ConsumeSingleUse
  | WorkContext_StartTask
  | WorkContext_StartInstallationTask
  | WorkContext_StartRootSession
  | WorkContext_ExchangeAudience
  | WorkContext_StartChildSession
  | WorkContext_RenewWorkContext

primrec WorkContextService_method :: "WorkContextServiceMethod \<Rightarrow> string" where
  "WorkContextService_method WorkContext_CheckAuthorizationRevision = ''CheckAuthorizationRevision''"
| "WorkContextService_method WorkContext_AuthorizeEvidenceRead = ''AuthorizeEvidenceRead''"
| "WorkContextService_method WorkContext_ConsumeSingleUse = ''ConsumeSingleUse''"
| "WorkContextService_method WorkContext_StartTask = ''StartTask''"
| "WorkContextService_method WorkContext_StartInstallationTask = ''StartInstallationTask''"
| "WorkContextService_method WorkContext_StartRootSession = ''StartRootSession''"
| "WorkContextService_method WorkContext_ExchangeAudience = ''ExchangeAudience''"
| "WorkContextService_method WorkContext_StartChildSession = ''StartChildSession''"
| "WorkContextService_method WorkContext_RenewWorkContext = ''RenewWorkContext''"

primrec WorkContextServiceProcedure :: "WorkContextServiceMethod \<Rightarrow> string" where
  "WorkContextServiceProcedure WorkContext_CheckAuthorizationRevision =
     ''/saas.accounts.v1.WorkContextService/CheckAuthorizationRevision''"
| "WorkContextServiceProcedure WorkContext_AuthorizeEvidenceRead =
     ''/saas.accounts.v1.WorkContextService/AuthorizeEvidenceRead''"
| "WorkContextServiceProcedure WorkContext_ConsumeSingleUse =
     ''/saas.accounts.v1.WorkContextService/ConsumeSingleUse''"
| "WorkContextServiceProcedure WorkContext_StartTask =
     ''/saas.accounts.v1.WorkContextService/StartTask''"
| "WorkContextServiceProcedure WorkContext_StartInstallationTask =
     ''/saas.accounts.v1.WorkContextService/StartInstallationTask''"
| "WorkContextServiceProcedure WorkContext_StartRootSession =
     ''/saas.accounts.v1.WorkContextService/StartRootSession''"
| "WorkContextServiceProcedure WorkContext_ExchangeAudience =
     ''/saas.accounts.v1.WorkContextService/ExchangeAudience''"
| "WorkContextServiceProcedure WorkContext_StartChildSession =
     ''/saas.accounts.v1.WorkContextService/StartChildSession''"
| "WorkContextServiceProcedure WorkContext_RenewWorkContext =
     ''/saas.accounts.v1.WorkContextService/RenewWorkContext''"

definition workContextServiceClient :: "WorkContextServiceMethod list" where
  "workContextServiceClient =
     [WorkContext_CheckAuthorizationRevision,
      WorkContext_AuthorizeEvidenceRead,
      WorkContext_ConsumeSingleUse,
      WorkContext_StartTask,
      WorkContext_StartInstallationTask,
      WorkContext_StartRootSession,
      WorkContext_ExchangeAudience,
      WorkContext_StartChildSession,
      WorkContext_RenewWorkContext]"

definition NewWorkContextServiceClient :: "string \<Rightarrow> WorkContextServiceMethod \<Rightarrow> endpoint" where
  "NewWorkContextServiceClient baseURL m =
     \<lparr>ep_url = trim_right_char (CHR ''/'') baseURL @ WorkContextServiceProcedure m, ep_schema = WorkContextService_method m\<rparr>"

definition workContextServiceClient_call :: "(WorkContextServiceMethod \<Rightarrow> endpoint) \<Rightarrow> WorkContextServiceMethod \<Rightarrow> call_kind \<times> endpoint" where
  "workContextServiceClient_call c m = (CallUnary, c m)"

definition workContextServiceHandler_routes :: "(WorkContextServiceMethod \<Rightarrow> 'f) \<Rightarrow> WorkContextServiceMethod \<Rightarrow> 'f route" where
  "workContextServiceHandler_routes svc m =
     \<lparr>rt_procedure = WorkContextServiceProcedure m, rt_kind = CallUnary,
      rt_impl = svc m, rt_schema = WorkContextService_method m\<rparr>"

definition NewWorkContextServiceHandler ::
  "(WorkContextServiceMethod \<Rightarrow> 'f) \<Rightarrow> string \<times> (string \<Rightarrow> 'f route option)" where
  "NewWorkContextServiceHandler svc =
     (''/saas.accounts.v1.WorkContextService/'', \<lambda>path. map_option (workContextServiceHandler_routes svc)
        (switch_on WorkContextServiceProcedure workContextServiceClient path))"

definition UnimplementedWorkContextServiceHandler :: "WorkContextServiceMethod \<Rightarrow> connect_failure" where
  "UnimplementedWorkContextServiceHandler m =
     \<lparr>cf_code = CodeUnimplemented, cf_text = ''saas.accounts.v1.WorkContextService.'' @ WorkContextService_method m @ '' is not implemented''\<rparr>"

interpretation workContextService: connect_service WorkContextServiceName WorkContextService_method WorkContextServiceProcedure workContextServiceClient
proof
  show "WorkContextServiceProcedure m = CHR ''/'' # WorkContextServiceName @ CHR ''/'' # WorkContextService_method m" for m
    by (cases m) (simp_all add: WorkContextServiceName_def)
  show "m \<in> set workContextServiceClient" for m by (cases m) (simp_all add: workContextServiceClient_def)
  show "distinct (map WorkContextService_method workContextServiceClient)" by code_simp
  show "CHR ''/'' \<notin> set WorkContextServiceName \<and>
      list_all (\<lambda>m. CHR ''/'' \<notin> set (WorkContextService_method m)) workContextServiceClient"
    by code_simp
qed

section \<open>DelegationService\<close>

definition DelegationServiceName :: string where
  "DelegationServiceName = ''saas.accounts.v1.DelegationService''"

text \<open>The methods of the client interface.\<close>

datatype DelegationServiceMethod =
    Delegation_RequestDelegation
  | Delegation_WaitForDelegation
  | Delegation_DecideDelegation
  | Delegation_ListPendingDelegations

primrec DelegationService_method :: "DelegationServiceMethod \<Rightarrow> string" where
  "DelegationService_method Delegation_RequestDelegation = ''RequestDelegation''"
| "DelegationService_method Delegation_WaitForDelegation = ''WaitForDelegation''"
| "DelegationService_method Delegation_DecideDelegation = ''DecideDelegation''"
| "DelegationService_method Delegation_ListPendingDelegations = ''ListPendingDelegations''"

primrec DelegationServiceProcedure :: "DelegationServiceMethod \<Rightarrow> string" where
  "DelegationServiceProcedure Delegation_RequestDelegation =
     ''/saas.accounts.v1.DelegationService/RequestDelegation''"
| "DelegationServiceProcedure Delegation_WaitForDelegation =
     ''/saas.accounts.v1.DelegationService/WaitForDelegation''"
| "DelegationServiceProcedure Delegation_DecideDelegation =
     ''/saas.accounts.v1.DelegationService/DecideDelegation''"
| "DelegationServiceProcedure Delegation_ListPendingDelegations =
     ''/saas.accounts.v1.DelegationService/ListPendingDelegations''"

definition delegationServiceClient :: "DelegationServiceMethod list" where
  "delegationServiceClient =
     [Delegation_RequestDelegation,
      Delegation_WaitForDelegation,
      Delegation_DecideDelegation,
      Delegation_ListPendingDelegations]"

definition NewDelegationServiceClient :: "string \<Rightarrow> DelegationServiceMethod \<Rightarrow> endpoint" where
  "NewDelegationServiceClient baseURL m =
     \<lparr>ep_url = trim_right_char (CHR ''/'') baseURL @ DelegationServiceProcedure m, ep_schema = DelegationService_method m\<rparr>"

definition delegationServiceClient_call :: "(DelegationServiceMethod \<Rightarrow> endpoint) \<Rightarrow> DelegationServiceMethod \<Rightarrow> call_kind \<times> endpoint" where
  "delegationServiceClient_call c m = ((if m \<in> {Delegation_WaitForDelegation} then CallServerStream else CallUnary), c m)"

definition delegationServiceHandler_routes :: "(DelegationServiceMethod \<Rightarrow> 'f) \<Rightarrow> DelegationServiceMethod \<Rightarrow> 'f route" where
  "delegationServiceHandler_routes svc m =
     \<lparr>rt_procedure = DelegationServiceProcedure m, rt_kind = (if m \<in> {Delegation_WaitForDelegation} then CallServerStream else CallUnary),
      rt_impl = svc m, rt_schema = DelegationService_method m\<rparr>"

definition NewDelegationServiceHandler ::
  "(DelegationServiceMethod \<Rightarrow> 'f) \<Rightarrow> string \<times> (string \<Rightarrow> 'f route option)" where
  "NewDelegationServiceHandler svc =
     (''/saas.accounts.v1.DelegationService/'', \<lambda>path. map_option (delegationServiceHandler_routes svc)
        (switch_on DelegationServiceProcedure delegationServiceClient path))"

definition UnimplementedDelegationServiceHandler :: "DelegationServiceMethod \<Rightarrow> connect_failure" where
  "UnimplementedDelegationServiceHandler m =
     \<lparr>cf_code = CodeUnimplemented, cf_text = ''saas.accounts.v1.DelegationService.'' @ DelegationService_method m @ '' is not implemented''\<rparr>"

interpretation delegationService: connect_service DelegationServiceName DelegationService_method DelegationServiceProcedure delegationServiceClient
proof
  show "DelegationServiceProcedure m = CHR ''/'' # DelegationServiceName @ CHR ''/'' # DelegationService_method m" for m
    by (cases m) (simp_all add: DelegationServiceName_def)
  show "m \<in> set delegationServiceClient" for m by (cases m) (simp_all add: delegationServiceClient_def)
  show "distinct (map DelegationService_method delegationServiceClient)" by code_simp
  show "CHR ''/'' \<notin> set DelegationServiceName \<and>
      list_all (\<lambda>m. CHR ''/'' \<notin> set (DelegationService_method m)) delegationServiceClient"
    by code_simp
qed

section \<open>IntrospectionService\<close>

definition IntrospectionServiceName :: string where
  "IntrospectionServiceName = ''saas.accounts.v1.IntrospectionService''"

text \<open>The methods of the client interface.\<close>

datatype IntrospectionServiceMethod =
    Introspection_GetServiceInfo

primrec IntrospectionService_method :: "IntrospectionServiceMethod \<Rightarrow> string" where
  "IntrospectionService_method Introspection_GetServiceInfo = ''GetServiceInfo''"

primrec IntrospectionServiceProcedure :: "IntrospectionServiceMethod \<Rightarrow> string" where
  "IntrospectionServiceProcedure Introspection_GetServiceInfo =
     ''/saas.accounts.v1.IntrospectionService/GetServiceInfo''"

definition introspectionServiceClient :: "IntrospectionServiceMethod list" where
  "introspectionServiceClient =
     [Introspection_GetServiceInfo]"

definition NewIntrospectionServiceClient :: "string \<Rightarrow> IntrospectionServiceMethod \<Rightarrow> endpoint" where
  "NewIntrospectionServiceClient baseURL m =
     \<lparr>ep_url = trim_right_char (CHR ''/'') baseURL @ IntrospectionServiceProcedure m, ep_schema = IntrospectionService_method m\<rparr>"

definition introspectionServiceClient_call :: "(IntrospectionServiceMethod \<Rightarrow> endpoint) \<Rightarrow> IntrospectionServiceMethod \<Rightarrow> call_kind \<times> endpoint" where
  "introspectionServiceClient_call c m = (CallUnary, c m)"

definition introspectionServiceHandler_routes :: "(IntrospectionServiceMethod \<Rightarrow> 'f) \<Rightarrow> IntrospectionServiceMethod \<Rightarrow> 'f route" where
  "introspectionServiceHandler_routes svc m =
     \<lparr>rt_procedure = IntrospectionServiceProcedure m, rt_kind = CallUnary,
      rt_impl = svc m, rt_schema = IntrospectionService_method m\<rparr>"

definition NewIntrospectionServiceHandler ::
  "(IntrospectionServiceMethod \<Rightarrow> 'f) \<Rightarrow> string \<times> (string \<Rightarrow> 'f route option)" where
  "NewIntrospectionServiceHandler svc =
     (''/saas.accounts.v1.IntrospectionService/'', \<lambda>path. map_option (introspectionServiceHandler_routes svc)
        (switch_on IntrospectionServiceProcedure introspectionServiceClient path))"

definition UnimplementedIntrospectionServiceHandler :: "IntrospectionServiceMethod \<Rightarrow> connect_failure" where
  "UnimplementedIntrospectionServiceHandler m =
     \<lparr>cf_code = CodeUnimplemented, cf_text = ''saas.accounts.v1.IntrospectionService.'' @ IntrospectionService_method m @ '' is not implemented''\<rparr>"

interpretation introspectionService: connect_service IntrospectionServiceName IntrospectionService_method IntrospectionServiceProcedure introspectionServiceClient
proof
  show "IntrospectionServiceProcedure m = CHR ''/'' # IntrospectionServiceName @ CHR ''/'' # IntrospectionService_method m" for m
    by (cases m) (simp_all add: IntrospectionServiceName_def)
  show "m \<in> set introspectionServiceClient" for m by (cases m) (simp_all add: introspectionServiceClient_def)
  show "distinct (map IntrospectionService_method introspectionServiceClient)" by code_simp
  show "CHR ''/'' \<notin> set IntrospectionServiceName \<and>
      list_all (\<lambda>m. CHR ''/'' \<notin> set (IntrospectionService_method m)) introspectionServiceClient"
    by code_simp
qed

section \<open>AccessibleScopeService\<close>

definition AccessibleScopeServiceName :: string where
  "AccessibleScopeServiceName = ''saas.accounts.v1.AccessibleScopeService''"

text \<open>The methods of the client interface.\<close>

datatype AccessibleScopeServiceMethod =
    AccessibleScope_ListMyAccessibleScopes

primrec AccessibleScopeService_method :: "AccessibleScopeServiceMethod \<Rightarrow> string" where
  "AccessibleScopeService_method AccessibleScope_ListMyAccessibleScopes = ''ListMyAccessibleScopes''"

primrec AccessibleScopeServiceProcedure :: "AccessibleScopeServiceMethod \<Rightarrow> string" where
  "AccessibleScopeServiceProcedure AccessibleScope_ListMyAccessibleScopes =
     ''/saas.accounts.v1.AccessibleScopeService/ListMyAccessibleScopes''"

definition accessibleScopeServiceClient :: "AccessibleScopeServiceMethod list" where
  "accessibleScopeServiceClient =
     [AccessibleScope_ListMyAccessibleScopes]"

definition NewAccessibleScopeServiceClient :: "string \<Rightarrow> AccessibleScopeServiceMethod \<Rightarrow> endpoint" where
  "NewAccessibleScopeServiceClient baseURL m =
     \<lparr>ep_url = trim_right_char (CHR ''/'') baseURL @ AccessibleScopeServiceProcedure m, ep_schema = AccessibleScopeService_method m\<rparr>"

definition accessibleScopeServiceClient_call :: "(AccessibleScopeServiceMethod \<Rightarrow> endpoint) \<Rightarrow> AccessibleScopeServiceMethod \<Rightarrow> call_kind \<times> endpoint" where
  "accessibleScopeServiceClient_call c m = (CallUnary, c m)"

definition accessibleScopeServiceHandler_routes :: "(AccessibleScopeServiceMethod \<Rightarrow> 'f) \<Rightarrow> AccessibleScopeServiceMethod \<Rightarrow> 'f route" where
  "accessibleScopeServiceHandler_routes svc m =
     \<lparr>rt_procedure = AccessibleScopeServiceProcedure m, rt_kind = CallUnary,
      rt_impl = svc m, rt_schema = AccessibleScopeService_method m\<rparr>"

definition NewAccessibleScopeServiceHandler ::
  "(AccessibleScopeServiceMethod \<Rightarrow> 'f) \<Rightarrow> string \<times> (string \<Rightarrow> 'f route option)" where
  "NewAccessibleScopeServiceHandler svc =
     (''/saas.accounts.v1.AccessibleScopeService/'', \<lambda>path. map_option (accessibleScopeServiceHandler_routes svc)
        (switch_on AccessibleScopeServiceProcedure accessibleScopeServiceClient path))"

definition UnimplementedAccessibleScopeServiceHandler :: "AccessibleScopeServiceMethod \<Rightarrow> connect_failure" where
  "UnimplementedAccessibleScopeServiceHandler m =
     \<lparr>cf_code = CodeUnimplemented, cf_text = ''saas.accounts.v1.AccessibleScopeService.'' @ AccessibleScopeService_method m @ '' is not implemented''\<rparr>"

interpretation accessibleScopeService: connect_service AccessibleScopeServiceName AccessibleScopeService_method AccessibleScopeServiceProcedure accessibleScopeServiceClient
proof
  show "AccessibleScopeServiceProcedure m = CHR ''/'' # AccessibleScopeServiceName @ CHR ''/'' # AccessibleScopeService_method m" for m
    by (cases m) (simp_all add: AccessibleScopeServiceName_def)
  show "m \<in> set accessibleScopeServiceClient" for m by (cases m) (simp_all add: accessibleScopeServiceClient_def)
  show "distinct (map AccessibleScopeService_method accessibleScopeServiceClient)" by code_simp
  show "CHR ''/'' \<notin> set AccessibleScopeServiceName \<and>
      list_all (\<lambda>m. CHR ''/'' \<notin> set (AccessibleScopeService_method m)) accessibleScopeServiceClient"
    by code_simp
qed

section \<open>ApprovalReviewService\<close>

definition ApprovalReviewServiceName :: string where
  "ApprovalReviewServiceName = ''saas.accounts.v1.ApprovalReviewService''"

text \<open>The methods of the client interface.\<close>

datatype ApprovalReviewServiceMethod =
    ApprovalReview_GetApprovalReview
  | ApprovalReview_DecideApprovalReview

primrec ApprovalReviewService_method :: "ApprovalReviewServiceMethod \<Rightarrow> string" where
  "ApprovalReviewService_method ApprovalReview_GetApprovalReview = ''GetApprovalReview''"
| "ApprovalReviewService_method ApprovalReview_DecideApprovalReview = ''DecideApprovalReview''"

primrec ApprovalReviewServiceProcedure :: "ApprovalReviewServiceMethod \<Rightarrow> string" where
  "ApprovalReviewServiceProcedure ApprovalReview_GetApprovalReview =
     ''/saas.accounts.v1.ApprovalReviewService/GetApprovalReview''"
| "ApprovalReviewServiceProcedure ApprovalReview_DecideApprovalReview =
     ''/saas.accounts.v1.ApprovalReviewService/DecideApprovalReview''"

definition approvalReviewServiceClient :: "ApprovalReviewServiceMethod list" where
  "approvalReviewServiceClient =
     [ApprovalReview_GetApprovalReview,
      ApprovalReview_DecideApprovalReview]"

definition NewApprovalReviewServiceClient :: "string \<Rightarrow> ApprovalReviewServiceMethod \<Rightarrow> endpoint" where
  "NewApprovalReviewServiceClient baseURL m =
     \<lparr>ep_url = trim_right_char (CHR ''/'') baseURL @ ApprovalReviewServiceProcedure m, ep_schema = ApprovalReviewService_method m\<rparr>"

definition approvalReviewServiceClient_call :: "(ApprovalReviewServiceMethod \<Rightarrow> endpoint) \<Rightarrow> ApprovalReviewServiceMethod \<Rightarrow> call_kind \<times> endpoint" where
  "approvalReviewServiceClient_call c m = (CallUnary, c m)"

definition approvalReviewServiceHandler_routes :: "(ApprovalReviewServiceMethod \<Rightarrow> 'f) \<Rightarrow> ApprovalReviewServiceMethod \<Rightarrow> 'f route" where
  "approvalReviewServiceHandler_routes svc m =
     \<lparr>rt_procedure = ApprovalReviewServiceProcedure m, rt_kind = CallUnary,
      rt_impl = svc m, rt_schema = ApprovalReviewService_method m\<rparr>"

definition NewApprovalReviewServiceHandler ::
  "(ApprovalReviewServiceMethod \<Rightarrow> 'f) \<Rightarrow> string \<times> (string \<Rightarrow> 'f route option)" where
  "NewApprovalReviewServiceHandler svc =
     (''/saas.accounts.v1.ApprovalReviewService/'', \<lambda>path. map_option (approvalReviewServiceHandler_routes svc)
        (switch_on ApprovalReviewServiceProcedure approvalReviewServiceClient path))"

definition UnimplementedApprovalReviewServiceHandler :: "ApprovalReviewServiceMethod \<Rightarrow> connect_failure" where
  "UnimplementedApprovalReviewServiceHandler m =
     \<lparr>cf_code = CodeUnimplemented, cf_text = ''saas.accounts.v1.ApprovalReviewService.'' @ ApprovalReviewService_method m @ '' is not implemented''\<rparr>"

interpretation approvalReviewService: connect_service ApprovalReviewServiceName ApprovalReviewService_method ApprovalReviewServiceProcedure approvalReviewServiceClient
proof
  show "ApprovalReviewServiceProcedure m = CHR ''/'' # ApprovalReviewServiceName @ CHR ''/'' # ApprovalReviewService_method m" for m
    by (cases m) (simp_all add: ApprovalReviewServiceName_def)
  show "m \<in> set approvalReviewServiceClient" for m by (cases m) (simp_all add: approvalReviewServiceClient_def)
  show "distinct (map ApprovalReviewService_method approvalReviewServiceClient)" by code_simp
  show "CHR ''/'' \<notin> set ApprovalReviewServiceName \<and>
      list_all (\<lambda>m. CHR ''/'' \<notin> set (ApprovalReviewService_method m)) approvalReviewServiceClient"
    by code_simp
qed

end
