(* ===== verification/ConnectIdentity.thy ===== *)
theory ConnectIdentity
  imports GoConnect
begin

text \<open>
  The generated Connect code of authentication, identity, mfa, sso, api_keys, consent: the procedures, client, handler and
  unimplemented handler of each service, and each as an instance of the locale of theory GoConnect.
\<close>

section \<open>AuthService\<close>

definition AuthServiceName :: string where
  "AuthServiceName = ''saas.accounts.v1.AuthService''"

text \<open>The methods of the client interface.\<close>

datatype AuthServiceMethod =
    Auth_BeginOAuth
  | Auth_Authenticate
  | Auth_CompleteMFAChallenge
  | Auth_BeginWebAuthnMFAChallenge
  | Auth_CompleteWebAuthnMFAChallenge
  | Auth_RefreshToken
  | Auth_SwitchOrganization
  | Auth_Logout
  | Auth_GetJWKS
  | Auth_ValidateClientAuthorization
  | Auth_IssueClientAuthorizationCode
  | Auth_ExchangeClientToken

primrec AuthService_method :: "AuthServiceMethod \<Rightarrow> string" where
  "AuthService_method Auth_BeginOAuth = ''BeginOAuth''"
| "AuthService_method Auth_Authenticate = ''Authenticate''"
| "AuthService_method Auth_CompleteMFAChallenge = ''CompleteMFAChallenge''"
| "AuthService_method Auth_BeginWebAuthnMFAChallenge = ''BeginWebAuthnMFAChallenge''"
| "AuthService_method Auth_CompleteWebAuthnMFAChallenge = ''CompleteWebAuthnMFAChallenge''"
| "AuthService_method Auth_RefreshToken = ''RefreshToken''"
| "AuthService_method Auth_SwitchOrganization = ''SwitchOrganization''"
| "AuthService_method Auth_Logout = ''Logout''"
| "AuthService_method Auth_GetJWKS = ''GetJWKS''"
| "AuthService_method Auth_ValidateClientAuthorization = ''ValidateClientAuthorization''"
| "AuthService_method Auth_IssueClientAuthorizationCode = ''IssueClientAuthorizationCode''"
| "AuthService_method Auth_ExchangeClientToken = ''ExchangeClientToken''"

primrec AuthServiceProcedure :: "AuthServiceMethod \<Rightarrow> string" where
  "AuthServiceProcedure Auth_BeginOAuth =
     ''/saas.accounts.v1.AuthService/BeginOAuth''"
| "AuthServiceProcedure Auth_Authenticate =
     ''/saas.accounts.v1.AuthService/Authenticate''"
| "AuthServiceProcedure Auth_CompleteMFAChallenge =
     ''/saas.accounts.v1.AuthService/CompleteMFAChallenge''"
| "AuthServiceProcedure Auth_BeginWebAuthnMFAChallenge =
     ''/saas.accounts.v1.AuthService/BeginWebAuthnMFAChallenge''"
| "AuthServiceProcedure Auth_CompleteWebAuthnMFAChallenge =
     ''/saas.accounts.v1.AuthService/CompleteWebAuthnMFAChallenge''"
| "AuthServiceProcedure Auth_RefreshToken =
     ''/saas.accounts.v1.AuthService/RefreshToken''"
| "AuthServiceProcedure Auth_SwitchOrganization =
     ''/saas.accounts.v1.AuthService/SwitchOrganization''"
| "AuthServiceProcedure Auth_Logout =
     ''/saas.accounts.v1.AuthService/Logout''"
| "AuthServiceProcedure Auth_GetJWKS =
     ''/saas.accounts.v1.AuthService/GetJWKS''"
| "AuthServiceProcedure Auth_ValidateClientAuthorization =
     ''/saas.accounts.v1.AuthService/ValidateClientAuthorization''"
| "AuthServiceProcedure Auth_IssueClientAuthorizationCode =
     ''/saas.accounts.v1.AuthService/IssueClientAuthorizationCode''"
| "AuthServiceProcedure Auth_ExchangeClientToken =
     ''/saas.accounts.v1.AuthService/ExchangeClientToken''"

definition authServiceClient :: "AuthServiceMethod list" where
  "authServiceClient =
     [Auth_BeginOAuth,
      Auth_Authenticate,
      Auth_CompleteMFAChallenge,
      Auth_BeginWebAuthnMFAChallenge,
      Auth_CompleteWebAuthnMFAChallenge,
      Auth_RefreshToken,
      Auth_SwitchOrganization,
      Auth_Logout,
      Auth_GetJWKS,
      Auth_ValidateClientAuthorization,
      Auth_IssueClientAuthorizationCode,
      Auth_ExchangeClientToken]"

definition NewAuthServiceClient :: "string \<Rightarrow> AuthServiceMethod \<Rightarrow> endpoint" where
  "NewAuthServiceClient baseURL m =
     \<lparr>ep_url = trim_right_char (CHR ''/'') baseURL @ AuthServiceProcedure m, ep_schema = AuthService_method m\<rparr>"

definition authServiceClient_call :: "(AuthServiceMethod \<Rightarrow> endpoint) \<Rightarrow> AuthServiceMethod \<Rightarrow> call_kind \<times> endpoint" where
  "authServiceClient_call c m = (CallUnary, c m)"

definition authServiceHandler_routes :: "(AuthServiceMethod \<Rightarrow> 'f) \<Rightarrow> AuthServiceMethod \<Rightarrow> 'f route" where
  "authServiceHandler_routes svc m =
     \<lparr>rt_procedure = AuthServiceProcedure m, rt_kind = CallUnary,
      rt_impl = svc m, rt_schema = AuthService_method m\<rparr>"

definition NewAuthServiceHandler ::
  "(AuthServiceMethod \<Rightarrow> 'f) \<Rightarrow> string \<times> (string \<Rightarrow> 'f route option)" where
  "NewAuthServiceHandler svc =
     (''/saas.accounts.v1.AuthService/'', \<lambda>path. map_option (authServiceHandler_routes svc)
        (switch_on AuthServiceProcedure authServiceClient path))"

definition UnimplementedAuthServiceHandler :: "AuthServiceMethod \<Rightarrow> connect_failure" where
  "UnimplementedAuthServiceHandler m =
     \<lparr>cf_code = CodeUnimplemented, cf_text = ''saas.accounts.v1.AuthService.'' @ AuthService_method m @ '' is not implemented''\<rparr>"

interpretation authService: connect_service AuthServiceName AuthService_method AuthServiceProcedure authServiceClient
proof
  show "AuthServiceProcedure m = CHR ''/'' # AuthServiceName @ CHR ''/'' # AuthService_method m" for m
    by (cases m) (simp_all add: AuthServiceName_def)
  show "m \<in> set authServiceClient" for m by (cases m) (simp_all add: authServiceClient_def)
  show "distinct (map AuthService_method authServiceClient)" by code_simp
  show "CHR ''/'' \<notin> set AuthServiceName \<and>
      list_all (\<lambda>m. CHR ''/'' \<notin> set (AuthService_method m)) authServiceClient"
    by code_simp
qed

section \<open>UserService\<close>

definition UserServiceName :: string where
  "UserServiceName = ''saas.accounts.v1.UserService''"

text \<open>The methods of the client interface.\<close>

datatype UserServiceMethod =
    User_Version
  | User_GetSelf
  | User_RegisterUser
  | User_GetUser
  | User_ListUsers
  | User_UpdateUser
  | User_DeleteUser
  | User_AddIdentity
  | User_FindUserByIdentity
  | User_ListUserIdentities

primrec UserService_method :: "UserServiceMethod \<Rightarrow> string" where
  "UserService_method User_Version = ''Version''"
| "UserService_method User_GetSelf = ''GetSelf''"
| "UserService_method User_RegisterUser = ''RegisterUser''"
| "UserService_method User_GetUser = ''GetUser''"
| "UserService_method User_ListUsers = ''ListUsers''"
| "UserService_method User_UpdateUser = ''UpdateUser''"
| "UserService_method User_DeleteUser = ''DeleteUser''"
| "UserService_method User_AddIdentity = ''AddIdentity''"
| "UserService_method User_FindUserByIdentity = ''FindUserByIdentity''"
| "UserService_method User_ListUserIdentities = ''ListUserIdentities''"

primrec UserServiceProcedure :: "UserServiceMethod \<Rightarrow> string" where
  "UserServiceProcedure User_Version =
     ''/saas.accounts.v1.UserService/Version''"
| "UserServiceProcedure User_GetSelf =
     ''/saas.accounts.v1.UserService/GetSelf''"
| "UserServiceProcedure User_RegisterUser =
     ''/saas.accounts.v1.UserService/RegisterUser''"
| "UserServiceProcedure User_GetUser =
     ''/saas.accounts.v1.UserService/GetUser''"
| "UserServiceProcedure User_ListUsers =
     ''/saas.accounts.v1.UserService/ListUsers''"
| "UserServiceProcedure User_UpdateUser =
     ''/saas.accounts.v1.UserService/UpdateUser''"
| "UserServiceProcedure User_DeleteUser =
     ''/saas.accounts.v1.UserService/DeleteUser''"
| "UserServiceProcedure User_AddIdentity =
     ''/saas.accounts.v1.UserService/AddIdentity''"
| "UserServiceProcedure User_FindUserByIdentity =
     ''/saas.accounts.v1.UserService/FindUserByIdentity''"
| "UserServiceProcedure User_ListUserIdentities =
     ''/saas.accounts.v1.UserService/ListUserIdentities''"

definition userServiceClient :: "UserServiceMethod list" where
  "userServiceClient =
     [User_Version,
      User_GetSelf,
      User_RegisterUser,
      User_GetUser,
      User_ListUsers,
      User_UpdateUser,
      User_DeleteUser,
      User_AddIdentity,
      User_FindUserByIdentity,
      User_ListUserIdentities]"

definition NewUserServiceClient :: "string \<Rightarrow> UserServiceMethod \<Rightarrow> endpoint" where
  "NewUserServiceClient baseURL m =
     \<lparr>ep_url = trim_right_char (CHR ''/'') baseURL @ UserServiceProcedure m, ep_schema = UserService_method m\<rparr>"

definition userServiceClient_call :: "(UserServiceMethod \<Rightarrow> endpoint) \<Rightarrow> UserServiceMethod \<Rightarrow> call_kind \<times> endpoint" where
  "userServiceClient_call c m = (CallUnary, c m)"

definition userServiceHandler_routes :: "(UserServiceMethod \<Rightarrow> 'f) \<Rightarrow> UserServiceMethod \<Rightarrow> 'f route" where
  "userServiceHandler_routes svc m =
     \<lparr>rt_procedure = UserServiceProcedure m, rt_kind = CallUnary,
      rt_impl = svc m, rt_schema = UserService_method m\<rparr>"

definition NewUserServiceHandler ::
  "(UserServiceMethod \<Rightarrow> 'f) \<Rightarrow> string \<times> (string \<Rightarrow> 'f route option)" where
  "NewUserServiceHandler svc =
     (''/saas.accounts.v1.UserService/'', \<lambda>path. map_option (userServiceHandler_routes svc)
        (switch_on UserServiceProcedure userServiceClient path))"

definition UnimplementedUserServiceHandler :: "UserServiceMethod \<Rightarrow> connect_failure" where
  "UnimplementedUserServiceHandler m =
     \<lparr>cf_code = CodeUnimplemented, cf_text = ''saas.accounts.v1.UserService.'' @ UserService_method m @ '' is not implemented''\<rparr>"

interpretation userService: connect_service UserServiceName UserService_method UserServiceProcedure userServiceClient
proof
  show "UserServiceProcedure m = CHR ''/'' # UserServiceName @ CHR ''/'' # UserService_method m" for m
    by (cases m) (simp_all add: UserServiceName_def)
  show "m \<in> set userServiceClient" for m by (cases m) (simp_all add: userServiceClient_def)
  show "distinct (map UserService_method userServiceClient)" by code_simp
  show "CHR ''/'' \<notin> set UserServiceName \<and>
      list_all (\<lambda>m. CHR ''/'' \<notin> set (UserService_method m)) userServiceClient"
    by code_simp
qed

section \<open>IdentityService\<close>

definition IdentityServiceName :: string where
  "IdentityServiceName = ''saas.accounts.v1.IdentityService''"

text \<open>The methods of the client interface.\<close>

datatype IdentityServiceMethod =
    Identity_ResolveIdentity

primrec IdentityService_method :: "IdentityServiceMethod \<Rightarrow> string" where
  "IdentityService_method Identity_ResolveIdentity = ''ResolveIdentity''"

primrec IdentityServiceProcedure :: "IdentityServiceMethod \<Rightarrow> string" where
  "IdentityServiceProcedure Identity_ResolveIdentity =
     ''/saas.accounts.v1.IdentityService/ResolveIdentity''"

definition identityServiceClient :: "IdentityServiceMethod list" where
  "identityServiceClient =
     [Identity_ResolveIdentity]"

definition NewIdentityServiceClient :: "string \<Rightarrow> IdentityServiceMethod \<Rightarrow> endpoint" where
  "NewIdentityServiceClient baseURL m =
     \<lparr>ep_url = trim_right_char (CHR ''/'') baseURL @ IdentityServiceProcedure m, ep_schema = IdentityService_method m\<rparr>"

definition identityServiceClient_call :: "(IdentityServiceMethod \<Rightarrow> endpoint) \<Rightarrow> IdentityServiceMethod \<Rightarrow> call_kind \<times> endpoint" where
  "identityServiceClient_call c m = (CallUnary, c m)"

definition identityServiceHandler_routes :: "(IdentityServiceMethod \<Rightarrow> 'f) \<Rightarrow> IdentityServiceMethod \<Rightarrow> 'f route" where
  "identityServiceHandler_routes svc m =
     \<lparr>rt_procedure = IdentityServiceProcedure m, rt_kind = CallUnary,
      rt_impl = svc m, rt_schema = IdentityService_method m\<rparr>"

definition NewIdentityServiceHandler ::
  "(IdentityServiceMethod \<Rightarrow> 'f) \<Rightarrow> string \<times> (string \<Rightarrow> 'f route option)" where
  "NewIdentityServiceHandler svc =
     (''/saas.accounts.v1.IdentityService/'', \<lambda>path. map_option (identityServiceHandler_routes svc)
        (switch_on IdentityServiceProcedure identityServiceClient path))"

definition UnimplementedIdentityServiceHandler :: "IdentityServiceMethod \<Rightarrow> connect_failure" where
  "UnimplementedIdentityServiceHandler m =
     \<lparr>cf_code = CodeUnimplemented, cf_text = ''saas.accounts.v1.IdentityService.'' @ IdentityService_method m @ '' is not implemented''\<rparr>"

interpretation identityService: connect_service IdentityServiceName IdentityService_method IdentityServiceProcedure identityServiceClient
proof
  show "IdentityServiceProcedure m = CHR ''/'' # IdentityServiceName @ CHR ''/'' # IdentityService_method m" for m
    by (cases m) (simp_all add: IdentityServiceName_def)
  show "m \<in> set identityServiceClient" for m by (cases m) (simp_all add: identityServiceClient_def)
  show "distinct (map IdentityService_method identityServiceClient)" by code_simp
  show "CHR ''/'' \<notin> set IdentityServiceName \<and>
      list_all (\<lambda>m. CHR ''/'' \<notin> set (IdentityService_method m)) identityServiceClient"
    by code_simp
qed

section \<open>MFAService\<close>

definition MFAServiceName :: string where
  "MFAServiceName = ''saas.accounts.v1.MFAService''"

text \<open>The methods of the client interface.\<close>

datatype MFAServiceMethod =
    MFA_BeginWebAuthnRegistration
  | MFA_FinishWebAuthnRegistration
  | MFA_SetupTOTP
  | MFA_VerifyTOTP
  | MFA_ListDevices
  | MFA_RevokeDevice
  | MFA_GenerateBackupCodes

primrec MFAService_method :: "MFAServiceMethod \<Rightarrow> string" where
  "MFAService_method MFA_BeginWebAuthnRegistration = ''BeginWebAuthnRegistration''"
| "MFAService_method MFA_FinishWebAuthnRegistration = ''FinishWebAuthnRegistration''"
| "MFAService_method MFA_SetupTOTP = ''SetupTOTP''"
| "MFAService_method MFA_VerifyTOTP = ''VerifyTOTP''"
| "MFAService_method MFA_ListDevices = ''ListDevices''"
| "MFAService_method MFA_RevokeDevice = ''RevokeDevice''"
| "MFAService_method MFA_GenerateBackupCodes = ''GenerateBackupCodes''"

primrec MFAServiceProcedure :: "MFAServiceMethod \<Rightarrow> string" where
  "MFAServiceProcedure MFA_BeginWebAuthnRegistration =
     ''/saas.accounts.v1.MFAService/BeginWebAuthnRegistration''"
| "MFAServiceProcedure MFA_FinishWebAuthnRegistration =
     ''/saas.accounts.v1.MFAService/FinishWebAuthnRegistration''"
| "MFAServiceProcedure MFA_SetupTOTP =
     ''/saas.accounts.v1.MFAService/SetupTOTP''"
| "MFAServiceProcedure MFA_VerifyTOTP =
     ''/saas.accounts.v1.MFAService/VerifyTOTP''"
| "MFAServiceProcedure MFA_ListDevices =
     ''/saas.accounts.v1.MFAService/ListDevices''"
| "MFAServiceProcedure MFA_RevokeDevice =
     ''/saas.accounts.v1.MFAService/RevokeDevice''"
| "MFAServiceProcedure MFA_GenerateBackupCodes =
     ''/saas.accounts.v1.MFAService/GenerateBackupCodes''"

definition mFAServiceClient :: "MFAServiceMethod list" where
  "mFAServiceClient =
     [MFA_BeginWebAuthnRegistration,
      MFA_FinishWebAuthnRegistration,
      MFA_SetupTOTP,
      MFA_VerifyTOTP,
      MFA_ListDevices,
      MFA_RevokeDevice,
      MFA_GenerateBackupCodes]"

definition NewMFAServiceClient :: "string \<Rightarrow> MFAServiceMethod \<Rightarrow> endpoint" where
  "NewMFAServiceClient baseURL m =
     \<lparr>ep_url = trim_right_char (CHR ''/'') baseURL @ MFAServiceProcedure m, ep_schema = MFAService_method m\<rparr>"

definition mFAServiceClient_call :: "(MFAServiceMethod \<Rightarrow> endpoint) \<Rightarrow> MFAServiceMethod \<Rightarrow> call_kind \<times> endpoint" where
  "mFAServiceClient_call c m = (CallUnary, c m)"

definition mFAServiceHandler_routes :: "(MFAServiceMethod \<Rightarrow> 'f) \<Rightarrow> MFAServiceMethod \<Rightarrow> 'f route" where
  "mFAServiceHandler_routes svc m =
     \<lparr>rt_procedure = MFAServiceProcedure m, rt_kind = CallUnary,
      rt_impl = svc m, rt_schema = MFAService_method m\<rparr>"

definition NewMFAServiceHandler ::
  "(MFAServiceMethod \<Rightarrow> 'f) \<Rightarrow> string \<times> (string \<Rightarrow> 'f route option)" where
  "NewMFAServiceHandler svc =
     (''/saas.accounts.v1.MFAService/'', \<lambda>path. map_option (mFAServiceHandler_routes svc)
        (switch_on MFAServiceProcedure mFAServiceClient path))"

definition UnimplementedMFAServiceHandler :: "MFAServiceMethod \<Rightarrow> connect_failure" where
  "UnimplementedMFAServiceHandler m =
     \<lparr>cf_code = CodeUnimplemented, cf_text = ''saas.accounts.v1.MFAService.'' @ MFAService_method m @ '' is not implemented''\<rparr>"

interpretation mFAService: connect_service MFAServiceName MFAService_method MFAServiceProcedure mFAServiceClient
proof
  show "MFAServiceProcedure m = CHR ''/'' # MFAServiceName @ CHR ''/'' # MFAService_method m" for m
    by (cases m) (simp_all add: MFAServiceName_def)
  show "m \<in> set mFAServiceClient" for m by (cases m) (simp_all add: mFAServiceClient_def)
  show "distinct (map MFAService_method mFAServiceClient)" by code_simp
  show "CHR ''/'' \<notin> set MFAServiceName \<and>
      list_all (\<lambda>m. CHR ''/'' \<notin> set (MFAService_method m)) mFAServiceClient"
    by code_simp
qed

section \<open>SSOAdminService\<close>

definition SSOAdminServiceName :: string where
  "SSOAdminServiceName = ''saas.accounts.v1.SSOAdminService''"

text \<open>The methods of the client interface.\<close>

datatype SSOAdminServiceMethod =
    SSOAdmin_GetSSO
  | SSOAdmin_StartSetup
  | SSOAdmin_Disable

primrec SSOAdminService_method :: "SSOAdminServiceMethod \<Rightarrow> string" where
  "SSOAdminService_method SSOAdmin_GetSSO = ''GetSSO''"
| "SSOAdminService_method SSOAdmin_StartSetup = ''StartSetup''"
| "SSOAdminService_method SSOAdmin_Disable = ''Disable''"

primrec SSOAdminServiceProcedure :: "SSOAdminServiceMethod \<Rightarrow> string" where
  "SSOAdminServiceProcedure SSOAdmin_GetSSO =
     ''/saas.accounts.v1.SSOAdminService/GetSSO''"
| "SSOAdminServiceProcedure SSOAdmin_StartSetup =
     ''/saas.accounts.v1.SSOAdminService/StartSetup''"
| "SSOAdminServiceProcedure SSOAdmin_Disable =
     ''/saas.accounts.v1.SSOAdminService/Disable''"

definition sSOAdminServiceClient :: "SSOAdminServiceMethod list" where
  "sSOAdminServiceClient =
     [SSOAdmin_GetSSO,
      SSOAdmin_StartSetup,
      SSOAdmin_Disable]"

definition NewSSOAdminServiceClient :: "string \<Rightarrow> SSOAdminServiceMethod \<Rightarrow> endpoint" where
  "NewSSOAdminServiceClient baseURL m =
     \<lparr>ep_url = trim_right_char (CHR ''/'') baseURL @ SSOAdminServiceProcedure m, ep_schema = SSOAdminService_method m\<rparr>"

definition sSOAdminServiceClient_call :: "(SSOAdminServiceMethod \<Rightarrow> endpoint) \<Rightarrow> SSOAdminServiceMethod \<Rightarrow> call_kind \<times> endpoint" where
  "sSOAdminServiceClient_call c m = (CallUnary, c m)"

definition sSOAdminServiceHandler_routes :: "(SSOAdminServiceMethod \<Rightarrow> 'f) \<Rightarrow> SSOAdminServiceMethod \<Rightarrow> 'f route" where
  "sSOAdminServiceHandler_routes svc m =
     \<lparr>rt_procedure = SSOAdminServiceProcedure m, rt_kind = CallUnary,
      rt_impl = svc m, rt_schema = SSOAdminService_method m\<rparr>"

definition NewSSOAdminServiceHandler ::
  "(SSOAdminServiceMethod \<Rightarrow> 'f) \<Rightarrow> string \<times> (string \<Rightarrow> 'f route option)" where
  "NewSSOAdminServiceHandler svc =
     (''/saas.accounts.v1.SSOAdminService/'', \<lambda>path. map_option (sSOAdminServiceHandler_routes svc)
        (switch_on SSOAdminServiceProcedure sSOAdminServiceClient path))"

definition UnimplementedSSOAdminServiceHandler :: "SSOAdminServiceMethod \<Rightarrow> connect_failure" where
  "UnimplementedSSOAdminServiceHandler m =
     \<lparr>cf_code = CodeUnimplemented, cf_text = ''saas.accounts.v1.SSOAdminService.'' @ SSOAdminService_method m @ '' is not implemented''\<rparr>"

interpretation sSOAdminService: connect_service SSOAdminServiceName SSOAdminService_method SSOAdminServiceProcedure sSOAdminServiceClient
proof
  show "SSOAdminServiceProcedure m = CHR ''/'' # SSOAdminServiceName @ CHR ''/'' # SSOAdminService_method m" for m
    by (cases m) (simp_all add: SSOAdminServiceName_def)
  show "m \<in> set sSOAdminServiceClient" for m by (cases m) (simp_all add: sSOAdminServiceClient_def)
  show "distinct (map SSOAdminService_method sSOAdminServiceClient)" by code_simp
  show "CHR ''/'' \<notin> set SSOAdminServiceName \<and>
      list_all (\<lambda>m. CHR ''/'' \<notin> set (SSOAdminService_method m)) sSOAdminServiceClient"
    by code_simp
qed

section \<open>APIKeyService\<close>

definition APIKeyServiceName :: string where
  "APIKeyServiceName = ''saas.accounts.v1.APIKeyService''"

text \<open>The methods of the client interface.\<close>

datatype APIKeyServiceMethod =
    APIKey_CreateAPIKey
  | APIKey_ListAPIKeys
  | APIKey_RevokeAPIKey
  | APIKey_ValidateAPIKey

primrec APIKeyService_method :: "APIKeyServiceMethod \<Rightarrow> string" where
  "APIKeyService_method APIKey_CreateAPIKey = ''CreateAPIKey''"
| "APIKeyService_method APIKey_ListAPIKeys = ''ListAPIKeys''"
| "APIKeyService_method APIKey_RevokeAPIKey = ''RevokeAPIKey''"
| "APIKeyService_method APIKey_ValidateAPIKey = ''ValidateAPIKey''"

primrec APIKeyServiceProcedure :: "APIKeyServiceMethod \<Rightarrow> string" where
  "APIKeyServiceProcedure APIKey_CreateAPIKey =
     ''/saas.accounts.v1.APIKeyService/CreateAPIKey''"
| "APIKeyServiceProcedure APIKey_ListAPIKeys =
     ''/saas.accounts.v1.APIKeyService/ListAPIKeys''"
| "APIKeyServiceProcedure APIKey_RevokeAPIKey =
     ''/saas.accounts.v1.APIKeyService/RevokeAPIKey''"
| "APIKeyServiceProcedure APIKey_ValidateAPIKey =
     ''/saas.accounts.v1.APIKeyService/ValidateAPIKey''"

definition aPIKeyServiceClient :: "APIKeyServiceMethod list" where
  "aPIKeyServiceClient =
     [APIKey_CreateAPIKey,
      APIKey_ListAPIKeys,
      APIKey_RevokeAPIKey,
      APIKey_ValidateAPIKey]"

definition NewAPIKeyServiceClient :: "string \<Rightarrow> APIKeyServiceMethod \<Rightarrow> endpoint" where
  "NewAPIKeyServiceClient baseURL m =
     \<lparr>ep_url = trim_right_char (CHR ''/'') baseURL @ APIKeyServiceProcedure m, ep_schema = APIKeyService_method m\<rparr>"

definition aPIKeyServiceClient_call :: "(APIKeyServiceMethod \<Rightarrow> endpoint) \<Rightarrow> APIKeyServiceMethod \<Rightarrow> call_kind \<times> endpoint" where
  "aPIKeyServiceClient_call c m = (CallUnary, c m)"

definition aPIKeyServiceHandler_routes :: "(APIKeyServiceMethod \<Rightarrow> 'f) \<Rightarrow> APIKeyServiceMethod \<Rightarrow> 'f route" where
  "aPIKeyServiceHandler_routes svc m =
     \<lparr>rt_procedure = APIKeyServiceProcedure m, rt_kind = CallUnary,
      rt_impl = svc m, rt_schema = APIKeyService_method m\<rparr>"

definition NewAPIKeyServiceHandler ::
  "(APIKeyServiceMethod \<Rightarrow> 'f) \<Rightarrow> string \<times> (string \<Rightarrow> 'f route option)" where
  "NewAPIKeyServiceHandler svc =
     (''/saas.accounts.v1.APIKeyService/'', \<lambda>path. map_option (aPIKeyServiceHandler_routes svc)
        (switch_on APIKeyServiceProcedure aPIKeyServiceClient path))"

definition UnimplementedAPIKeyServiceHandler :: "APIKeyServiceMethod \<Rightarrow> connect_failure" where
  "UnimplementedAPIKeyServiceHandler m =
     \<lparr>cf_code = CodeUnimplemented, cf_text = ''saas.accounts.v1.APIKeyService.'' @ APIKeyService_method m @ '' is not implemented''\<rparr>"

interpretation aPIKeyService: connect_service APIKeyServiceName APIKeyService_method APIKeyServiceProcedure aPIKeyServiceClient
proof
  show "APIKeyServiceProcedure m = CHR ''/'' # APIKeyServiceName @ CHR ''/'' # APIKeyService_method m" for m
    by (cases m) (simp_all add: APIKeyServiceName_def)
  show "m \<in> set aPIKeyServiceClient" for m by (cases m) (simp_all add: aPIKeyServiceClient_def)
  show "distinct (map APIKeyService_method aPIKeyServiceClient)" by code_simp
  show "CHR ''/'' \<notin> set APIKeyServiceName \<and>
      list_all (\<lambda>m. CHR ''/'' \<notin> set (APIKeyService_method m)) aPIKeyServiceClient"
    by code_simp
qed

section \<open>ConsentService\<close>

definition ConsentServiceName :: string where
  "ConsentServiceName = ''saas.accounts.v1.ConsentService''"

text \<open>The methods of the client interface.\<close>

datatype ConsentServiceMethod =
    Consent_GetStatus
  | Consent_AcceptTerms
  | Consent_UpdatePreferences

primrec ConsentService_method :: "ConsentServiceMethod \<Rightarrow> string" where
  "ConsentService_method Consent_GetStatus = ''GetStatus''"
| "ConsentService_method Consent_AcceptTerms = ''AcceptTerms''"
| "ConsentService_method Consent_UpdatePreferences = ''UpdatePreferences''"

primrec ConsentServiceProcedure :: "ConsentServiceMethod \<Rightarrow> string" where
  "ConsentServiceProcedure Consent_GetStatus =
     ''/saas.accounts.v1.ConsentService/GetStatus''"
| "ConsentServiceProcedure Consent_AcceptTerms =
     ''/saas.accounts.v1.ConsentService/AcceptTerms''"
| "ConsentServiceProcedure Consent_UpdatePreferences =
     ''/saas.accounts.v1.ConsentService/UpdatePreferences''"

definition consentServiceClient :: "ConsentServiceMethod list" where
  "consentServiceClient =
     [Consent_GetStatus,
      Consent_AcceptTerms,
      Consent_UpdatePreferences]"

definition NewConsentServiceClient :: "string \<Rightarrow> ConsentServiceMethod \<Rightarrow> endpoint" where
  "NewConsentServiceClient baseURL m =
     \<lparr>ep_url = trim_right_char (CHR ''/'') baseURL @ ConsentServiceProcedure m, ep_schema = ConsentService_method m\<rparr>"

definition consentServiceClient_call :: "(ConsentServiceMethod \<Rightarrow> endpoint) \<Rightarrow> ConsentServiceMethod \<Rightarrow> call_kind \<times> endpoint" where
  "consentServiceClient_call c m = (CallUnary, c m)"

definition consentServiceHandler_routes :: "(ConsentServiceMethod \<Rightarrow> 'f) \<Rightarrow> ConsentServiceMethod \<Rightarrow> 'f route" where
  "consentServiceHandler_routes svc m =
     \<lparr>rt_procedure = ConsentServiceProcedure m, rt_kind = CallUnary,
      rt_impl = svc m, rt_schema = ConsentService_method m\<rparr>"

definition NewConsentServiceHandler ::
  "(ConsentServiceMethod \<Rightarrow> 'f) \<Rightarrow> string \<times> (string \<Rightarrow> 'f route option)" where
  "NewConsentServiceHandler svc =
     (''/saas.accounts.v1.ConsentService/'', \<lambda>path. map_option (consentServiceHandler_routes svc)
        (switch_on ConsentServiceProcedure consentServiceClient path))"

definition UnimplementedConsentServiceHandler :: "ConsentServiceMethod \<Rightarrow> connect_failure" where
  "UnimplementedConsentServiceHandler m =
     \<lparr>cf_code = CodeUnimplemented, cf_text = ''saas.accounts.v1.ConsentService.'' @ ConsentService_method m @ '' is not implemented''\<rparr>"

interpretation consentService: connect_service ConsentServiceName ConsentService_method ConsentServiceProcedure consentServiceClient
proof
  show "ConsentServiceProcedure m = CHR ''/'' # ConsentServiceName @ CHR ''/'' # ConsentService_method m" for m
    by (cases m) (simp_all add: ConsentServiceName_def)
  show "m \<in> set consentServiceClient" for m by (cases m) (simp_all add: consentServiceClient_def)
  show "distinct (map ConsentService_method consentServiceClient)" by code_simp
  show "CHR ''/'' \<notin> set ConsentServiceName \<and>
      list_all (\<lambda>m. CHR ''/'' \<notin> set (ConsentService_method m)) consentServiceClient"
    by code_simp
qed

end
