(* ===== verification/ConnectOrganizations.thy ===== *)
theory ConnectOrganizations
  imports GoConnect
begin

text \<open>
  The generated Connect code of organizations, teams, invitations, onboarding, waitlist, user_settings, privacy: the procedures, client, handler and
  unimplemented handler of each service, and each as an instance of the locale of theory GoConnect.
\<close>

section \<open>OrganizationService\<close>

definition OrganizationServiceName :: string where
  "OrganizationServiceName = ''saas.accounts.v1.OrganizationService''"

text \<open>The methods of the client interface.\<close>

datatype OrganizationServiceMethod =
    Organization_CreateOrganization
  | Organization_GetOrganization
  | Organization_ListOrganizations
  | Organization_AddMember
  | Organization_RemoveMember
  | Organization_UpdateOrganization
  | Organization_LeaveOrganization
  | Organization_DeleteOrganization
  | Organization_ListMembers
  | Organization_GetOrgSettings
  | Organization_UpdateOrgSettings
  | Organization_GetOrganizationSettings
  | Organization_UpdateOrganizationSettings

primrec OrganizationService_method :: "OrganizationServiceMethod \<Rightarrow> string" where
  "OrganizationService_method Organization_CreateOrganization = ''CreateOrganization''"
| "OrganizationService_method Organization_GetOrganization = ''GetOrganization''"
| "OrganizationService_method Organization_ListOrganizations = ''ListOrganizations''"
| "OrganizationService_method Organization_AddMember = ''AddMember''"
| "OrganizationService_method Organization_RemoveMember = ''RemoveMember''"
| "OrganizationService_method Organization_UpdateOrganization = ''UpdateOrganization''"
| "OrganizationService_method Organization_LeaveOrganization = ''LeaveOrganization''"
| "OrganizationService_method Organization_DeleteOrganization = ''DeleteOrganization''"
| "OrganizationService_method Organization_ListMembers = ''ListMembers''"
| "OrganizationService_method Organization_GetOrgSettings = ''GetOrgSettings''"
| "OrganizationService_method Organization_UpdateOrgSettings = ''UpdateOrgSettings''"
| "OrganizationService_method Organization_GetOrganizationSettings = ''GetOrganizationSettings''"
| "OrganizationService_method Organization_UpdateOrganizationSettings = ''UpdateOrganizationSettings''"

primrec OrganizationServiceProcedure :: "OrganizationServiceMethod \<Rightarrow> string" where
  "OrganizationServiceProcedure Organization_CreateOrganization =
     ''/saas.accounts.v1.OrganizationService/CreateOrganization''"
| "OrganizationServiceProcedure Organization_GetOrganization =
     ''/saas.accounts.v1.OrganizationService/GetOrganization''"
| "OrganizationServiceProcedure Organization_ListOrganizations =
     ''/saas.accounts.v1.OrganizationService/ListOrganizations''"
| "OrganizationServiceProcedure Organization_AddMember =
     ''/saas.accounts.v1.OrganizationService/AddMember''"
| "OrganizationServiceProcedure Organization_RemoveMember =
     ''/saas.accounts.v1.OrganizationService/RemoveMember''"
| "OrganizationServiceProcedure Organization_UpdateOrganization =
     ''/saas.accounts.v1.OrganizationService/UpdateOrganization''"
| "OrganizationServiceProcedure Organization_LeaveOrganization =
     ''/saas.accounts.v1.OrganizationService/LeaveOrganization''"
| "OrganizationServiceProcedure Organization_DeleteOrganization =
     ''/saas.accounts.v1.OrganizationService/DeleteOrganization''"
| "OrganizationServiceProcedure Organization_ListMembers =
     ''/saas.accounts.v1.OrganizationService/ListMembers''"
| "OrganizationServiceProcedure Organization_GetOrgSettings =
     ''/saas.accounts.v1.OrganizationService/GetOrgSettings''"
| "OrganizationServiceProcedure Organization_UpdateOrgSettings =
     ''/saas.accounts.v1.OrganizationService/UpdateOrgSettings''"
| "OrganizationServiceProcedure Organization_GetOrganizationSettings =
     ''/saas.accounts.v1.OrganizationService/GetOrganizationSettings''"
| "OrganizationServiceProcedure Organization_UpdateOrganizationSettings =
     ''/saas.accounts.v1.OrganizationService/UpdateOrganizationSettings''"

definition organizationServiceClient :: "OrganizationServiceMethod list" where
  "organizationServiceClient =
     [Organization_CreateOrganization,
      Organization_GetOrganization,
      Organization_ListOrganizations,
      Organization_AddMember,
      Organization_RemoveMember,
      Organization_UpdateOrganization,
      Organization_LeaveOrganization,
      Organization_DeleteOrganization,
      Organization_ListMembers,
      Organization_GetOrgSettings,
      Organization_UpdateOrgSettings,
      Organization_GetOrganizationSettings,
      Organization_UpdateOrganizationSettings]"

definition NewOrganizationServiceClient :: "string \<Rightarrow> OrganizationServiceMethod \<Rightarrow> endpoint" where
  "NewOrganizationServiceClient baseURL m =
     \<lparr>ep_url = trim_right_char (CHR ''/'') baseURL @ OrganizationServiceProcedure m, ep_schema = OrganizationService_method m\<rparr>"

definition organizationServiceClient_call :: "(OrganizationServiceMethod \<Rightarrow> endpoint) \<Rightarrow> OrganizationServiceMethod \<Rightarrow> call_kind \<times> endpoint" where
  "organizationServiceClient_call c m = (CallUnary, c m)"

definition organizationServiceHandler_routes :: "(OrganizationServiceMethod \<Rightarrow> 'f) \<Rightarrow> OrganizationServiceMethod \<Rightarrow> 'f route" where
  "organizationServiceHandler_routes svc m =
     \<lparr>rt_procedure = OrganizationServiceProcedure m, rt_kind = CallUnary,
      rt_impl = svc m, rt_schema = OrganizationService_method m\<rparr>"

definition NewOrganizationServiceHandler ::
  "(OrganizationServiceMethod \<Rightarrow> 'f) \<Rightarrow> string \<times> (string \<Rightarrow> 'f route option)" where
  "NewOrganizationServiceHandler svc =
     (''/saas.accounts.v1.OrganizationService/'', \<lambda>path. map_option (organizationServiceHandler_routes svc)
        (switch_on OrganizationServiceProcedure organizationServiceClient path))"

definition UnimplementedOrganizationServiceHandler :: "OrganizationServiceMethod \<Rightarrow> connect_failure" where
  "UnimplementedOrganizationServiceHandler m =
     \<lparr>cf_code = CodeUnimplemented, cf_text = ''saas.accounts.v1.OrganizationService.'' @ OrganizationService_method m @ '' is not implemented''\<rparr>"

interpretation organizationService: connect_service OrganizationServiceName OrganizationService_method OrganizationServiceProcedure organizationServiceClient
proof
  show "OrganizationServiceProcedure m = CHR ''/'' # OrganizationServiceName @ CHR ''/'' # OrganizationService_method m" for m
    by (cases m) (simp_all add: OrganizationServiceName_def)
  show "m \<in> set organizationServiceClient" for m by (cases m) (simp_all add: organizationServiceClient_def)
  show "distinct (map OrganizationService_method organizationServiceClient)" by code_simp
  show "CHR ''/'' \<notin> set OrganizationServiceName \<and>
      list_all (\<lambda>m. CHR ''/'' \<notin> set (OrganizationService_method m)) organizationServiceClient"
    by code_simp
qed

section \<open>TeamService\<close>

definition TeamServiceName :: string where
  "TeamServiceName = ''saas.accounts.v1.TeamService''"

text \<open>The methods of the client interface.\<close>

datatype TeamServiceMethod =
    Team_CreateTeam
  | Team_ListTeams
  | Team_AddMember
  | Team_RemoveMember
  | Team_ListMembers
  | Team_UpdateTeam
  | Team_DeleteTeam

primrec TeamService_method :: "TeamServiceMethod \<Rightarrow> string" where
  "TeamService_method Team_CreateTeam = ''CreateTeam''"
| "TeamService_method Team_ListTeams = ''ListTeams''"
| "TeamService_method Team_AddMember = ''AddMember''"
| "TeamService_method Team_RemoveMember = ''RemoveMember''"
| "TeamService_method Team_ListMembers = ''ListMembers''"
| "TeamService_method Team_UpdateTeam = ''UpdateTeam''"
| "TeamService_method Team_DeleteTeam = ''DeleteTeam''"

primrec TeamServiceProcedure :: "TeamServiceMethod \<Rightarrow> string" where
  "TeamServiceProcedure Team_CreateTeam =
     ''/saas.accounts.v1.TeamService/CreateTeam''"
| "TeamServiceProcedure Team_ListTeams =
     ''/saas.accounts.v1.TeamService/ListTeams''"
| "TeamServiceProcedure Team_AddMember =
     ''/saas.accounts.v1.TeamService/AddMember''"
| "TeamServiceProcedure Team_RemoveMember =
     ''/saas.accounts.v1.TeamService/RemoveMember''"
| "TeamServiceProcedure Team_ListMembers =
     ''/saas.accounts.v1.TeamService/ListMembers''"
| "TeamServiceProcedure Team_UpdateTeam =
     ''/saas.accounts.v1.TeamService/UpdateTeam''"
| "TeamServiceProcedure Team_DeleteTeam =
     ''/saas.accounts.v1.TeamService/DeleteTeam''"

definition teamServiceClient :: "TeamServiceMethod list" where
  "teamServiceClient =
     [Team_CreateTeam,
      Team_ListTeams,
      Team_AddMember,
      Team_RemoveMember,
      Team_ListMembers,
      Team_UpdateTeam,
      Team_DeleteTeam]"

definition NewTeamServiceClient :: "string \<Rightarrow> TeamServiceMethod \<Rightarrow> endpoint" where
  "NewTeamServiceClient baseURL m =
     \<lparr>ep_url = trim_right_char (CHR ''/'') baseURL @ TeamServiceProcedure m, ep_schema = TeamService_method m\<rparr>"

definition teamServiceClient_call :: "(TeamServiceMethod \<Rightarrow> endpoint) \<Rightarrow> TeamServiceMethod \<Rightarrow> call_kind \<times> endpoint" where
  "teamServiceClient_call c m = (CallUnary, c m)"

definition teamServiceHandler_routes :: "(TeamServiceMethod \<Rightarrow> 'f) \<Rightarrow> TeamServiceMethod \<Rightarrow> 'f route" where
  "teamServiceHandler_routes svc m =
     \<lparr>rt_procedure = TeamServiceProcedure m, rt_kind = CallUnary,
      rt_impl = svc m, rt_schema = TeamService_method m\<rparr>"

definition NewTeamServiceHandler ::
  "(TeamServiceMethod \<Rightarrow> 'f) \<Rightarrow> string \<times> (string \<Rightarrow> 'f route option)" where
  "NewTeamServiceHandler svc =
     (''/saas.accounts.v1.TeamService/'', \<lambda>path. map_option (teamServiceHandler_routes svc)
        (switch_on TeamServiceProcedure teamServiceClient path))"

definition UnimplementedTeamServiceHandler :: "TeamServiceMethod \<Rightarrow> connect_failure" where
  "UnimplementedTeamServiceHandler m =
     \<lparr>cf_code = CodeUnimplemented, cf_text = ''saas.accounts.v1.TeamService.'' @ TeamService_method m @ '' is not implemented''\<rparr>"

interpretation teamService: connect_service TeamServiceName TeamService_method TeamServiceProcedure teamServiceClient
proof
  show "TeamServiceProcedure m = CHR ''/'' # TeamServiceName @ CHR ''/'' # TeamService_method m" for m
    by (cases m) (simp_all add: TeamServiceName_def)
  show "m \<in> set teamServiceClient" for m by (cases m) (simp_all add: teamServiceClient_def)
  show "distinct (map TeamService_method teamServiceClient)" by code_simp
  show "CHR ''/'' \<notin> set TeamServiceName \<and>
      list_all (\<lambda>m. CHR ''/'' \<notin> set (TeamService_method m)) teamServiceClient"
    by code_simp
qed

section \<open>InvitationService\<close>

definition InvitationServiceName :: string where
  "InvitationServiceName = ''saas.accounts.v1.InvitationService''"

text \<open>The methods of the client interface.\<close>

datatype InvitationServiceMethod =
    Invitation_CreateInvitation
  | Invitation_InspectInvitation
  | Invitation_InspectInvitationById
  | Invitation_AcceptInvitation
  | Invitation_ListInvitations
  | Invitation_ResendInvitation
  | Invitation_IssueInvitationLink
  | Invitation_RevokeInvitation

primrec InvitationService_method :: "InvitationServiceMethod \<Rightarrow> string" where
  "InvitationService_method Invitation_CreateInvitation = ''CreateInvitation''"
| "InvitationService_method Invitation_InspectInvitation = ''InspectInvitation''"
| "InvitationService_method Invitation_InspectInvitationById = ''InspectInvitationById''"
| "InvitationService_method Invitation_AcceptInvitation = ''AcceptInvitation''"
| "InvitationService_method Invitation_ListInvitations = ''ListInvitations''"
| "InvitationService_method Invitation_ResendInvitation = ''ResendInvitation''"
| "InvitationService_method Invitation_IssueInvitationLink = ''IssueInvitationLink''"
| "InvitationService_method Invitation_RevokeInvitation = ''RevokeInvitation''"

primrec InvitationServiceProcedure :: "InvitationServiceMethod \<Rightarrow> string" where
  "InvitationServiceProcedure Invitation_CreateInvitation =
     ''/saas.accounts.v1.InvitationService/CreateInvitation''"
| "InvitationServiceProcedure Invitation_InspectInvitation =
     ''/saas.accounts.v1.InvitationService/InspectInvitation''"
| "InvitationServiceProcedure Invitation_InspectInvitationById =
     ''/saas.accounts.v1.InvitationService/InspectInvitationById''"
| "InvitationServiceProcedure Invitation_AcceptInvitation =
     ''/saas.accounts.v1.InvitationService/AcceptInvitation''"
| "InvitationServiceProcedure Invitation_ListInvitations =
     ''/saas.accounts.v1.InvitationService/ListInvitations''"
| "InvitationServiceProcedure Invitation_ResendInvitation =
     ''/saas.accounts.v1.InvitationService/ResendInvitation''"
| "InvitationServiceProcedure Invitation_IssueInvitationLink =
     ''/saas.accounts.v1.InvitationService/IssueInvitationLink''"
| "InvitationServiceProcedure Invitation_RevokeInvitation =
     ''/saas.accounts.v1.InvitationService/RevokeInvitation''"

definition invitationServiceClient :: "InvitationServiceMethod list" where
  "invitationServiceClient =
     [Invitation_CreateInvitation,
      Invitation_InspectInvitation,
      Invitation_InspectInvitationById,
      Invitation_AcceptInvitation,
      Invitation_ListInvitations,
      Invitation_ResendInvitation,
      Invitation_IssueInvitationLink,
      Invitation_RevokeInvitation]"

definition NewInvitationServiceClient :: "string \<Rightarrow> InvitationServiceMethod \<Rightarrow> endpoint" where
  "NewInvitationServiceClient baseURL m =
     \<lparr>ep_url = trim_right_char (CHR ''/'') baseURL @ InvitationServiceProcedure m, ep_schema = InvitationService_method m\<rparr>"

definition invitationServiceClient_call :: "(InvitationServiceMethod \<Rightarrow> endpoint) \<Rightarrow> InvitationServiceMethod \<Rightarrow> call_kind \<times> endpoint" where
  "invitationServiceClient_call c m = (CallUnary, c m)"

definition invitationServiceHandler_routes :: "(InvitationServiceMethod \<Rightarrow> 'f) \<Rightarrow> InvitationServiceMethod \<Rightarrow> 'f route" where
  "invitationServiceHandler_routes svc m =
     \<lparr>rt_procedure = InvitationServiceProcedure m, rt_kind = CallUnary,
      rt_impl = svc m, rt_schema = InvitationService_method m\<rparr>"

definition NewInvitationServiceHandler ::
  "(InvitationServiceMethod \<Rightarrow> 'f) \<Rightarrow> string \<times> (string \<Rightarrow> 'f route option)" where
  "NewInvitationServiceHandler svc =
     (''/saas.accounts.v1.InvitationService/'', \<lambda>path. map_option (invitationServiceHandler_routes svc)
        (switch_on InvitationServiceProcedure invitationServiceClient path))"

definition UnimplementedInvitationServiceHandler :: "InvitationServiceMethod \<Rightarrow> connect_failure" where
  "UnimplementedInvitationServiceHandler m =
     \<lparr>cf_code = CodeUnimplemented, cf_text = ''saas.accounts.v1.InvitationService.'' @ InvitationService_method m @ '' is not implemented''\<rparr>"

interpretation invitationService: connect_service InvitationServiceName InvitationService_method InvitationServiceProcedure invitationServiceClient
proof
  show "InvitationServiceProcedure m = CHR ''/'' # InvitationServiceName @ CHR ''/'' # InvitationService_method m" for m
    by (cases m) (simp_all add: InvitationServiceName_def)
  show "m \<in> set invitationServiceClient" for m by (cases m) (simp_all add: invitationServiceClient_def)
  show "distinct (map InvitationService_method invitationServiceClient)" by code_simp
  show "CHR ''/'' \<notin> set InvitationServiceName \<and>
      list_all (\<lambda>m. CHR ''/'' \<notin> set (InvitationService_method m)) invitationServiceClient"
    by code_simp
qed

section \<open>OnboardingService\<close>

definition OnboardingServiceName :: string where
  "OnboardingServiceName = ''saas.accounts.v1.OnboardingService''"

text \<open>The methods of the client interface.\<close>

datatype OnboardingServiceMethod =
    Onboarding_GetProgress
  | Onboarding_CompleteStep
  | Onboarding_SkipStep

primrec OnboardingService_method :: "OnboardingServiceMethod \<Rightarrow> string" where
  "OnboardingService_method Onboarding_GetProgress = ''GetProgress''"
| "OnboardingService_method Onboarding_CompleteStep = ''CompleteStep''"
| "OnboardingService_method Onboarding_SkipStep = ''SkipStep''"

primrec OnboardingServiceProcedure :: "OnboardingServiceMethod \<Rightarrow> string" where
  "OnboardingServiceProcedure Onboarding_GetProgress =
     ''/saas.accounts.v1.OnboardingService/GetProgress''"
| "OnboardingServiceProcedure Onboarding_CompleteStep =
     ''/saas.accounts.v1.OnboardingService/CompleteStep''"
| "OnboardingServiceProcedure Onboarding_SkipStep =
     ''/saas.accounts.v1.OnboardingService/SkipStep''"

definition onboardingServiceClient :: "OnboardingServiceMethod list" where
  "onboardingServiceClient =
     [Onboarding_GetProgress,
      Onboarding_CompleteStep,
      Onboarding_SkipStep]"

definition NewOnboardingServiceClient :: "string \<Rightarrow> OnboardingServiceMethod \<Rightarrow> endpoint" where
  "NewOnboardingServiceClient baseURL m =
     \<lparr>ep_url = trim_right_char (CHR ''/'') baseURL @ OnboardingServiceProcedure m, ep_schema = OnboardingService_method m\<rparr>"

definition onboardingServiceClient_call :: "(OnboardingServiceMethod \<Rightarrow> endpoint) \<Rightarrow> OnboardingServiceMethod \<Rightarrow> call_kind \<times> endpoint" where
  "onboardingServiceClient_call c m = (CallUnary, c m)"

definition onboardingServiceHandler_routes :: "(OnboardingServiceMethod \<Rightarrow> 'f) \<Rightarrow> OnboardingServiceMethod \<Rightarrow> 'f route" where
  "onboardingServiceHandler_routes svc m =
     \<lparr>rt_procedure = OnboardingServiceProcedure m, rt_kind = CallUnary,
      rt_impl = svc m, rt_schema = OnboardingService_method m\<rparr>"

definition NewOnboardingServiceHandler ::
  "(OnboardingServiceMethod \<Rightarrow> 'f) \<Rightarrow> string \<times> (string \<Rightarrow> 'f route option)" where
  "NewOnboardingServiceHandler svc =
     (''/saas.accounts.v1.OnboardingService/'', \<lambda>path. map_option (onboardingServiceHandler_routes svc)
        (switch_on OnboardingServiceProcedure onboardingServiceClient path))"

definition UnimplementedOnboardingServiceHandler :: "OnboardingServiceMethod \<Rightarrow> connect_failure" where
  "UnimplementedOnboardingServiceHandler m =
     \<lparr>cf_code = CodeUnimplemented, cf_text = ''saas.accounts.v1.OnboardingService.'' @ OnboardingService_method m @ '' is not implemented''\<rparr>"

interpretation onboardingService: connect_service OnboardingServiceName OnboardingService_method OnboardingServiceProcedure onboardingServiceClient
proof
  show "OnboardingServiceProcedure m = CHR ''/'' # OnboardingServiceName @ CHR ''/'' # OnboardingService_method m" for m
    by (cases m) (simp_all add: OnboardingServiceName_def)
  show "m \<in> set onboardingServiceClient" for m by (cases m) (simp_all add: onboardingServiceClient_def)
  show "distinct (map OnboardingService_method onboardingServiceClient)" by code_simp
  show "CHR ''/'' \<notin> set OnboardingServiceName \<and>
      list_all (\<lambda>m. CHR ''/'' \<notin> set (OnboardingService_method m)) onboardingServiceClient"
    by code_simp
qed

section \<open>WaitlistService\<close>

definition WaitlistServiceName :: string where
  "WaitlistServiceName = ''saas.accounts.v1.WaitlistService''"

text \<open>The methods of the client interface.\<close>

datatype WaitlistServiceMethod =
    Waitlist_GetAcquisitionStatus
  | Waitlist_Join
  | Waitlist_Verify
  | Waitlist_List
  | Waitlist_Review
  | Waitlist_Invite

primrec WaitlistService_method :: "WaitlistServiceMethod \<Rightarrow> string" where
  "WaitlistService_method Waitlist_GetAcquisitionStatus = ''GetAcquisitionStatus''"
| "WaitlistService_method Waitlist_Join = ''Join''"
| "WaitlistService_method Waitlist_Verify = ''Verify''"
| "WaitlistService_method Waitlist_List = ''List''"
| "WaitlistService_method Waitlist_Review = ''Review''"
| "WaitlistService_method Waitlist_Invite = ''Invite''"

primrec WaitlistServiceProcedure :: "WaitlistServiceMethod \<Rightarrow> string" where
  "WaitlistServiceProcedure Waitlist_GetAcquisitionStatus =
     ''/saas.accounts.v1.WaitlistService/GetAcquisitionStatus''"
| "WaitlistServiceProcedure Waitlist_Join =
     ''/saas.accounts.v1.WaitlistService/Join''"
| "WaitlistServiceProcedure Waitlist_Verify =
     ''/saas.accounts.v1.WaitlistService/Verify''"
| "WaitlistServiceProcedure Waitlist_List =
     ''/saas.accounts.v1.WaitlistService/List''"
| "WaitlistServiceProcedure Waitlist_Review =
     ''/saas.accounts.v1.WaitlistService/Review''"
| "WaitlistServiceProcedure Waitlist_Invite =
     ''/saas.accounts.v1.WaitlistService/Invite''"

definition waitlistServiceClient :: "WaitlistServiceMethod list" where
  "waitlistServiceClient =
     [Waitlist_GetAcquisitionStatus,
      Waitlist_Join,
      Waitlist_Verify,
      Waitlist_List,
      Waitlist_Review,
      Waitlist_Invite]"

definition NewWaitlistServiceClient :: "string \<Rightarrow> WaitlistServiceMethod \<Rightarrow> endpoint" where
  "NewWaitlistServiceClient baseURL m =
     \<lparr>ep_url = trim_right_char (CHR ''/'') baseURL @ WaitlistServiceProcedure m, ep_schema = WaitlistService_method m\<rparr>"

definition waitlistServiceClient_call :: "(WaitlistServiceMethod \<Rightarrow> endpoint) \<Rightarrow> WaitlistServiceMethod \<Rightarrow> call_kind \<times> endpoint" where
  "waitlistServiceClient_call c m = (CallUnary, c m)"

definition waitlistServiceHandler_routes :: "(WaitlistServiceMethod \<Rightarrow> 'f) \<Rightarrow> WaitlistServiceMethod \<Rightarrow> 'f route" where
  "waitlistServiceHandler_routes svc m =
     \<lparr>rt_procedure = WaitlistServiceProcedure m, rt_kind = CallUnary,
      rt_impl = svc m, rt_schema = WaitlistService_method m\<rparr>"

definition NewWaitlistServiceHandler ::
  "(WaitlistServiceMethod \<Rightarrow> 'f) \<Rightarrow> string \<times> (string \<Rightarrow> 'f route option)" where
  "NewWaitlistServiceHandler svc =
     (''/saas.accounts.v1.WaitlistService/'', \<lambda>path. map_option (waitlistServiceHandler_routes svc)
        (switch_on WaitlistServiceProcedure waitlistServiceClient path))"

definition UnimplementedWaitlistServiceHandler :: "WaitlistServiceMethod \<Rightarrow> connect_failure" where
  "UnimplementedWaitlistServiceHandler m =
     \<lparr>cf_code = CodeUnimplemented, cf_text = ''saas.accounts.v1.WaitlistService.'' @ WaitlistService_method m @ '' is not implemented''\<rparr>"

interpretation waitlistService: connect_service WaitlistServiceName WaitlistService_method WaitlistServiceProcedure waitlistServiceClient
proof
  show "WaitlistServiceProcedure m = CHR ''/'' # WaitlistServiceName @ CHR ''/'' # WaitlistService_method m" for m
    by (cases m) (simp_all add: WaitlistServiceName_def)
  show "m \<in> set waitlistServiceClient" for m by (cases m) (simp_all add: waitlistServiceClient_def)
  show "distinct (map WaitlistService_method waitlistServiceClient)" by code_simp
  show "CHR ''/'' \<notin> set WaitlistServiceName \<and>
      list_all (\<lambda>m. CHR ''/'' \<notin> set (WaitlistService_method m)) waitlistServiceClient"
    by code_simp
qed

section \<open>UserSettingsService\<close>

definition UserSettingsServiceName :: string where
  "UserSettingsServiceName = ''saas.accounts.v1.UserSettingsService''"

text \<open>The methods of the client interface.\<close>

datatype UserSettingsServiceMethod =
    UserSettings_Get
  | UserSettings_Update

primrec UserSettingsService_method :: "UserSettingsServiceMethod \<Rightarrow> string" where
  "UserSettingsService_method UserSettings_Get = ''Get''"
| "UserSettingsService_method UserSettings_Update = ''Update''"

primrec UserSettingsServiceProcedure :: "UserSettingsServiceMethod \<Rightarrow> string" where
  "UserSettingsServiceProcedure UserSettings_Get =
     ''/saas.accounts.v1.UserSettingsService/Get''"
| "UserSettingsServiceProcedure UserSettings_Update =
     ''/saas.accounts.v1.UserSettingsService/Update''"

definition userSettingsServiceClient :: "UserSettingsServiceMethod list" where
  "userSettingsServiceClient =
     [UserSettings_Get,
      UserSettings_Update]"

definition NewUserSettingsServiceClient :: "string \<Rightarrow> UserSettingsServiceMethod \<Rightarrow> endpoint" where
  "NewUserSettingsServiceClient baseURL m =
     \<lparr>ep_url = trim_right_char (CHR ''/'') baseURL @ UserSettingsServiceProcedure m, ep_schema = UserSettingsService_method m\<rparr>"

definition userSettingsServiceClient_call :: "(UserSettingsServiceMethod \<Rightarrow> endpoint) \<Rightarrow> UserSettingsServiceMethod \<Rightarrow> call_kind \<times> endpoint" where
  "userSettingsServiceClient_call c m = (CallUnary, c m)"

definition userSettingsServiceHandler_routes :: "(UserSettingsServiceMethod \<Rightarrow> 'f) \<Rightarrow> UserSettingsServiceMethod \<Rightarrow> 'f route" where
  "userSettingsServiceHandler_routes svc m =
     \<lparr>rt_procedure = UserSettingsServiceProcedure m, rt_kind = CallUnary,
      rt_impl = svc m, rt_schema = UserSettingsService_method m\<rparr>"

definition NewUserSettingsServiceHandler ::
  "(UserSettingsServiceMethod \<Rightarrow> 'f) \<Rightarrow> string \<times> (string \<Rightarrow> 'f route option)" where
  "NewUserSettingsServiceHandler svc =
     (''/saas.accounts.v1.UserSettingsService/'', \<lambda>path. map_option (userSettingsServiceHandler_routes svc)
        (switch_on UserSettingsServiceProcedure userSettingsServiceClient path))"

definition UnimplementedUserSettingsServiceHandler :: "UserSettingsServiceMethod \<Rightarrow> connect_failure" where
  "UnimplementedUserSettingsServiceHandler m =
     \<lparr>cf_code = CodeUnimplemented, cf_text = ''saas.accounts.v1.UserSettingsService.'' @ UserSettingsService_method m @ '' is not implemented''\<rparr>"

interpretation userSettingsService: connect_service UserSettingsServiceName UserSettingsService_method UserSettingsServiceProcedure userSettingsServiceClient
proof
  show "UserSettingsServiceProcedure m = CHR ''/'' # UserSettingsServiceName @ CHR ''/'' # UserSettingsService_method m" for m
    by (cases m) (simp_all add: UserSettingsServiceName_def)
  show "m \<in> set userSettingsServiceClient" for m by (cases m) (simp_all add: userSettingsServiceClient_def)
  show "distinct (map UserSettingsService_method userSettingsServiceClient)" by code_simp
  show "CHR ''/'' \<notin> set UserSettingsServiceName \<and>
      list_all (\<lambda>m. CHR ''/'' \<notin> set (UserSettingsService_method m)) userSettingsServiceClient"
    by code_simp
qed

section \<open>GDPRService\<close>

definition GDPRServiceName :: string where
  "GDPRServiceName = ''saas.accounts.v1.GDPRService''"

text \<open>The methods of the client interface.\<close>

datatype GDPRServiceMethod =
    GDPR_RequestExport
  | GDPR_GetExportStatus
  | GDPR_RequestDeletion
  | GDPR_GetDeletionStatus

primrec GDPRService_method :: "GDPRServiceMethod \<Rightarrow> string" where
  "GDPRService_method GDPR_RequestExport = ''RequestExport''"
| "GDPRService_method GDPR_GetExportStatus = ''GetExportStatus''"
| "GDPRService_method GDPR_RequestDeletion = ''RequestDeletion''"
| "GDPRService_method GDPR_GetDeletionStatus = ''GetDeletionStatus''"

primrec GDPRServiceProcedure :: "GDPRServiceMethod \<Rightarrow> string" where
  "GDPRServiceProcedure GDPR_RequestExport =
     ''/saas.accounts.v1.GDPRService/RequestExport''"
| "GDPRServiceProcedure GDPR_GetExportStatus =
     ''/saas.accounts.v1.GDPRService/GetExportStatus''"
| "GDPRServiceProcedure GDPR_RequestDeletion =
     ''/saas.accounts.v1.GDPRService/RequestDeletion''"
| "GDPRServiceProcedure GDPR_GetDeletionStatus =
     ''/saas.accounts.v1.GDPRService/GetDeletionStatus''"

definition gDPRServiceClient :: "GDPRServiceMethod list" where
  "gDPRServiceClient =
     [GDPR_RequestExport,
      GDPR_GetExportStatus,
      GDPR_RequestDeletion,
      GDPR_GetDeletionStatus]"

definition NewGDPRServiceClient :: "string \<Rightarrow> GDPRServiceMethod \<Rightarrow> endpoint" where
  "NewGDPRServiceClient baseURL m =
     \<lparr>ep_url = trim_right_char (CHR ''/'') baseURL @ GDPRServiceProcedure m, ep_schema = GDPRService_method m\<rparr>"

definition gDPRServiceClient_call :: "(GDPRServiceMethod \<Rightarrow> endpoint) \<Rightarrow> GDPRServiceMethod \<Rightarrow> call_kind \<times> endpoint" where
  "gDPRServiceClient_call c m = (CallUnary, c m)"

definition gDPRServiceHandler_routes :: "(GDPRServiceMethod \<Rightarrow> 'f) \<Rightarrow> GDPRServiceMethod \<Rightarrow> 'f route" where
  "gDPRServiceHandler_routes svc m =
     \<lparr>rt_procedure = GDPRServiceProcedure m, rt_kind = CallUnary,
      rt_impl = svc m, rt_schema = GDPRService_method m\<rparr>"

definition NewGDPRServiceHandler ::
  "(GDPRServiceMethod \<Rightarrow> 'f) \<Rightarrow> string \<times> (string \<Rightarrow> 'f route option)" where
  "NewGDPRServiceHandler svc =
     (''/saas.accounts.v1.GDPRService/'', \<lambda>path. map_option (gDPRServiceHandler_routes svc)
        (switch_on GDPRServiceProcedure gDPRServiceClient path))"

definition UnimplementedGDPRServiceHandler :: "GDPRServiceMethod \<Rightarrow> connect_failure" where
  "UnimplementedGDPRServiceHandler m =
     \<lparr>cf_code = CodeUnimplemented, cf_text = ''saas.accounts.v1.GDPRService.'' @ GDPRService_method m @ '' is not implemented''\<rparr>"

interpretation gDPRService: connect_service GDPRServiceName GDPRService_method GDPRServiceProcedure gDPRServiceClient
proof
  show "GDPRServiceProcedure m = CHR ''/'' # GDPRServiceName @ CHR ''/'' # GDPRService_method m" for m
    by (cases m) (simp_all add: GDPRServiceName_def)
  show "m \<in> set gDPRServiceClient" for m by (cases m) (simp_all add: gDPRServiceClient_def)
  show "distinct (map GDPRService_method gDPRServiceClient)" by code_simp
  show "CHR ''/'' \<notin> set GDPRServiceName \<and>
      list_all (\<lambda>m. CHR ''/'' \<notin> set (GDPRService_method m)) gDPRServiceClient"
    by code_simp
qed

end
