(* ===== verification/ConnectPlatform.thy ===== *)
theory ConnectPlatform
  imports GoConnect
begin

text \<open>
  The generated Connect code of platform_admin, installations, clients_service, solution_entitlements_service, solution_registry_service: the procedures, client, handler and
  unimplemented handler of each service, and each as an instance of the locale of theory GoConnect.
\<close>

section \<open>PlatformAdminService\<close>

definition PlatformAdminServiceName :: string where
  "PlatformAdminServiceName = ''saas.accounts.v1.PlatformAdminService''"

text \<open>The methods of the client interface.\<close>

datatype PlatformAdminServiceMethod =
    PlatformAdmin_SearchUsers
  | PlatformAdmin_SuspendUser
  | PlatformAdmin_UnsuspendUser
  | PlatformAdmin_ImpersonateUser
  | PlatformAdmin_StopImpersonation
  | PlatformAdmin_ListActiveSessions
  | PlatformAdmin_RevokeSession
  | PlatformAdmin_GetOrgEntitlements
  | PlatformAdmin_OverrideEntitlement
  | PlatformAdmin_GrantPlatformRole
  | PlatformAdmin_RevokePlatformRole
  | PlatformAdmin_ListPlatformAdmins
  | PlatformAdmin_ListAllOrganizations
  | PlatformAdmin_GetOrganizationRoster
  | PlatformAdmin_ListFeatureFlags
  | PlatformAdmin_UpsertFeatureFlag
  | PlatformAdmin_GetJobOperations
  | PlatformAdmin_ListJobs
  | PlatformAdmin_GetJob
  | PlatformAdmin_ReplayJob
  | PlatformAdmin_GetEventOperations
  | PlatformAdmin_ListEventSubscriptions
  | PlatformAdmin_ListPlatformCatalogue
  | PlatformAdmin_GetModuleEnvelope
  | PlatformAdmin_PutModuleEnvelope

primrec PlatformAdminService_method :: "PlatformAdminServiceMethod \<Rightarrow> string" where
  "PlatformAdminService_method PlatformAdmin_SearchUsers = ''SearchUsers''"
| "PlatformAdminService_method PlatformAdmin_SuspendUser = ''SuspendUser''"
| "PlatformAdminService_method PlatformAdmin_UnsuspendUser = ''UnsuspendUser''"
| "PlatformAdminService_method PlatformAdmin_ImpersonateUser = ''ImpersonateUser''"
| "PlatformAdminService_method PlatformAdmin_StopImpersonation = ''StopImpersonation''"
| "PlatformAdminService_method PlatformAdmin_ListActiveSessions = ''ListActiveSessions''"
| "PlatformAdminService_method PlatformAdmin_RevokeSession = ''RevokeSession''"
| "PlatformAdminService_method PlatformAdmin_GetOrgEntitlements = ''GetOrgEntitlements''"
| "PlatformAdminService_method PlatformAdmin_OverrideEntitlement = ''OverrideEntitlement''"
| "PlatformAdminService_method PlatformAdmin_GrantPlatformRole = ''GrantPlatformRole''"
| "PlatformAdminService_method PlatformAdmin_RevokePlatformRole = ''RevokePlatformRole''"
| "PlatformAdminService_method PlatformAdmin_ListPlatformAdmins = ''ListPlatformAdmins''"
| "PlatformAdminService_method PlatformAdmin_ListAllOrganizations = ''ListAllOrganizations''"
| "PlatformAdminService_method PlatformAdmin_GetOrganizationRoster = ''GetOrganizationRoster''"
| "PlatformAdminService_method PlatformAdmin_ListFeatureFlags = ''ListFeatureFlags''"
| "PlatformAdminService_method PlatformAdmin_UpsertFeatureFlag = ''UpsertFeatureFlag''"
| "PlatformAdminService_method PlatformAdmin_GetJobOperations = ''GetJobOperations''"
| "PlatformAdminService_method PlatformAdmin_ListJobs = ''ListJobs''"
| "PlatformAdminService_method PlatformAdmin_GetJob = ''GetJob''"
| "PlatformAdminService_method PlatformAdmin_ReplayJob = ''ReplayJob''"
| "PlatformAdminService_method PlatformAdmin_GetEventOperations = ''GetEventOperations''"
| "PlatformAdminService_method PlatformAdmin_ListEventSubscriptions = ''ListEventSubscriptions''"
| "PlatformAdminService_method PlatformAdmin_ListPlatformCatalogue = ''ListPlatformCatalogue''"
| "PlatformAdminService_method PlatformAdmin_GetModuleEnvelope = ''GetModuleEnvelope''"
| "PlatformAdminService_method PlatformAdmin_PutModuleEnvelope = ''PutModuleEnvelope''"

primrec PlatformAdminServiceProcedure :: "PlatformAdminServiceMethod \<Rightarrow> string" where
  "PlatformAdminServiceProcedure PlatformAdmin_SearchUsers =
     ''/saas.accounts.v1.PlatformAdminService/SearchUsers''"
| "PlatformAdminServiceProcedure PlatformAdmin_SuspendUser =
     ''/saas.accounts.v1.PlatformAdminService/SuspendUser''"
| "PlatformAdminServiceProcedure PlatformAdmin_UnsuspendUser =
     ''/saas.accounts.v1.PlatformAdminService/UnsuspendUser''"
| "PlatformAdminServiceProcedure PlatformAdmin_ImpersonateUser =
     ''/saas.accounts.v1.PlatformAdminService/ImpersonateUser''"
| "PlatformAdminServiceProcedure PlatformAdmin_StopImpersonation =
     ''/saas.accounts.v1.PlatformAdminService/StopImpersonation''"
| "PlatformAdminServiceProcedure PlatformAdmin_ListActiveSessions =
     ''/saas.accounts.v1.PlatformAdminService/ListActiveSessions''"
| "PlatformAdminServiceProcedure PlatformAdmin_RevokeSession =
     ''/saas.accounts.v1.PlatformAdminService/RevokeSession''"
| "PlatformAdminServiceProcedure PlatformAdmin_GetOrgEntitlements =
     ''/saas.accounts.v1.PlatformAdminService/GetOrgEntitlements''"
| "PlatformAdminServiceProcedure PlatformAdmin_OverrideEntitlement =
     ''/saas.accounts.v1.PlatformAdminService/OverrideEntitlement''"
| "PlatformAdminServiceProcedure PlatformAdmin_GrantPlatformRole =
     ''/saas.accounts.v1.PlatformAdminService/GrantPlatformRole''"
| "PlatformAdminServiceProcedure PlatformAdmin_RevokePlatformRole =
     ''/saas.accounts.v1.PlatformAdminService/RevokePlatformRole''"
| "PlatformAdminServiceProcedure PlatformAdmin_ListPlatformAdmins =
     ''/saas.accounts.v1.PlatformAdminService/ListPlatformAdmins''"
| "PlatformAdminServiceProcedure PlatformAdmin_ListAllOrganizations =
     ''/saas.accounts.v1.PlatformAdminService/ListAllOrganizations''"
| "PlatformAdminServiceProcedure PlatformAdmin_GetOrganizationRoster =
     ''/saas.accounts.v1.PlatformAdminService/GetOrganizationRoster''"
| "PlatformAdminServiceProcedure PlatformAdmin_ListFeatureFlags =
     ''/saas.accounts.v1.PlatformAdminService/ListFeatureFlags''"
| "PlatformAdminServiceProcedure PlatformAdmin_UpsertFeatureFlag =
     ''/saas.accounts.v1.PlatformAdminService/UpsertFeatureFlag''"
| "PlatformAdminServiceProcedure PlatformAdmin_GetJobOperations =
     ''/saas.accounts.v1.PlatformAdminService/GetJobOperations''"
| "PlatformAdminServiceProcedure PlatformAdmin_ListJobs =
     ''/saas.accounts.v1.PlatformAdminService/ListJobs''"
| "PlatformAdminServiceProcedure PlatformAdmin_GetJob =
     ''/saas.accounts.v1.PlatformAdminService/GetJob''"
| "PlatformAdminServiceProcedure PlatformAdmin_ReplayJob =
     ''/saas.accounts.v1.PlatformAdminService/ReplayJob''"
| "PlatformAdminServiceProcedure PlatformAdmin_GetEventOperations =
     ''/saas.accounts.v1.PlatformAdminService/GetEventOperations''"
| "PlatformAdminServiceProcedure PlatformAdmin_ListEventSubscriptions =
     ''/saas.accounts.v1.PlatformAdminService/ListEventSubscriptions''"
| "PlatformAdminServiceProcedure PlatformAdmin_ListPlatformCatalogue =
     ''/saas.accounts.v1.PlatformAdminService/ListPlatformCatalogue''"
| "PlatformAdminServiceProcedure PlatformAdmin_GetModuleEnvelope =
     ''/saas.accounts.v1.PlatformAdminService/GetModuleEnvelope''"
| "PlatformAdminServiceProcedure PlatformAdmin_PutModuleEnvelope =
     ''/saas.accounts.v1.PlatformAdminService/PutModuleEnvelope''"

definition platformAdminServiceClient :: "PlatformAdminServiceMethod list" where
  "platformAdminServiceClient =
     [PlatformAdmin_SearchUsers,
      PlatformAdmin_SuspendUser,
      PlatformAdmin_UnsuspendUser,
      PlatformAdmin_ImpersonateUser,
      PlatformAdmin_StopImpersonation,
      PlatformAdmin_ListActiveSessions,
      PlatformAdmin_RevokeSession,
      PlatformAdmin_GetOrgEntitlements,
      PlatformAdmin_OverrideEntitlement,
      PlatformAdmin_GrantPlatformRole,
      PlatformAdmin_RevokePlatformRole,
      PlatformAdmin_ListPlatformAdmins,
      PlatformAdmin_ListAllOrganizations,
      PlatformAdmin_GetOrganizationRoster,
      PlatformAdmin_ListFeatureFlags,
      PlatformAdmin_UpsertFeatureFlag,
      PlatformAdmin_GetJobOperations,
      PlatformAdmin_ListJobs,
      PlatformAdmin_GetJob,
      PlatformAdmin_ReplayJob,
      PlatformAdmin_GetEventOperations,
      PlatformAdmin_ListEventSubscriptions,
      PlatformAdmin_ListPlatformCatalogue,
      PlatformAdmin_GetModuleEnvelope,
      PlatformAdmin_PutModuleEnvelope]"

definition NewPlatformAdminServiceClient :: "string \<Rightarrow> PlatformAdminServiceMethod \<Rightarrow> endpoint" where
  "NewPlatformAdminServiceClient baseURL m =
     \<lparr>ep_url = trim_right_char (CHR ''/'') baseURL @ PlatformAdminServiceProcedure m, ep_schema = PlatformAdminService_method m\<rparr>"

definition platformAdminServiceClient_call :: "(PlatformAdminServiceMethod \<Rightarrow> endpoint) \<Rightarrow> PlatformAdminServiceMethod \<Rightarrow> call_kind \<times> endpoint" where
  "platformAdminServiceClient_call c m = (CallUnary, c m)"

definition platformAdminServiceHandler_routes :: "(PlatformAdminServiceMethod \<Rightarrow> 'f) \<Rightarrow> PlatformAdminServiceMethod \<Rightarrow> 'f route" where
  "platformAdminServiceHandler_routes svc m =
     \<lparr>rt_procedure = PlatformAdminServiceProcedure m, rt_kind = CallUnary,
      rt_impl = svc m, rt_schema = PlatformAdminService_method m\<rparr>"

definition NewPlatformAdminServiceHandler ::
  "(PlatformAdminServiceMethod \<Rightarrow> 'f) \<Rightarrow> string \<times> (string \<Rightarrow> 'f route option)" where
  "NewPlatformAdminServiceHandler svc =
     (''/saas.accounts.v1.PlatformAdminService/'', \<lambda>path. map_option (platformAdminServiceHandler_routes svc)
        (switch_on PlatformAdminServiceProcedure platformAdminServiceClient path))"

definition UnimplementedPlatformAdminServiceHandler :: "PlatformAdminServiceMethod \<Rightarrow> connect_failure" where
  "UnimplementedPlatformAdminServiceHandler m =
     \<lparr>cf_code = CodeUnimplemented, cf_text = ''saas.accounts.v1.PlatformAdminService.'' @ PlatformAdminService_method m @ '' is not implemented''\<rparr>"

interpretation platformAdminService: connect_service PlatformAdminServiceName PlatformAdminService_method PlatformAdminServiceProcedure platformAdminServiceClient
proof
  show "PlatformAdminServiceProcedure m = CHR ''/'' # PlatformAdminServiceName @ CHR ''/'' # PlatformAdminService_method m" for m
    by (cases m) (simp_all add: PlatformAdminServiceName_def)
  show "m \<in> set platformAdminServiceClient" for m by (cases m) (simp_all add: platformAdminServiceClient_def)
  show "distinct (map PlatformAdminService_method platformAdminServiceClient)" by code_simp
  show "CHR ''/'' \<notin> set PlatformAdminServiceName \<and>
      list_all (\<lambda>m. CHR ''/'' \<notin> set (PlatformAdminService_method m)) platformAdminServiceClient"
    by code_simp
qed

section \<open>InstallationService\<close>

definition InstallationServiceName :: string where
  "InstallationServiceName = ''saas.accounts.v1.InstallationService''"

text \<open>The methods of the client interface.\<close>

datatype InstallationServiceMethod =
    Installation_InstallSolution
  | Installation_UninstallSolution
  | Installation_NarrowInstallation
  | Installation_RetryInstallation
  | Installation_TransferInstallationOwnership
  | Installation_GetInstallation
  | Installation_ListInstallations
  | Installation_ListAvailableSolutions
  | Installation_ListOrganizationInstallations
  | Installation_GrantInstallationToTeam
  | Installation_RevokeInstallationFromTeam

primrec InstallationService_method :: "InstallationServiceMethod \<Rightarrow> string" where
  "InstallationService_method Installation_InstallSolution = ''InstallSolution''"
| "InstallationService_method Installation_UninstallSolution = ''UninstallSolution''"
| "InstallationService_method Installation_NarrowInstallation = ''NarrowInstallation''"
| "InstallationService_method Installation_RetryInstallation = ''RetryInstallation''"
| "InstallationService_method Installation_TransferInstallationOwnership = ''TransferInstallationOwnership''"
| "InstallationService_method Installation_GetInstallation = ''GetInstallation''"
| "InstallationService_method Installation_ListInstallations = ''ListInstallations''"
| "InstallationService_method Installation_ListAvailableSolutions = ''ListAvailableSolutions''"
| "InstallationService_method Installation_ListOrganizationInstallations = ''ListOrganizationInstallations''"
| "InstallationService_method Installation_GrantInstallationToTeam = ''GrantInstallationToTeam''"
| "InstallationService_method Installation_RevokeInstallationFromTeam = ''RevokeInstallationFromTeam''"

primrec InstallationServiceProcedure :: "InstallationServiceMethod \<Rightarrow> string" where
  "InstallationServiceProcedure Installation_InstallSolution =
     ''/saas.accounts.v1.InstallationService/InstallSolution''"
| "InstallationServiceProcedure Installation_UninstallSolution =
     ''/saas.accounts.v1.InstallationService/UninstallSolution''"
| "InstallationServiceProcedure Installation_NarrowInstallation =
     ''/saas.accounts.v1.InstallationService/NarrowInstallation''"
| "InstallationServiceProcedure Installation_RetryInstallation =
     ''/saas.accounts.v1.InstallationService/RetryInstallation''"
| "InstallationServiceProcedure Installation_TransferInstallationOwnership =
     ''/saas.accounts.v1.InstallationService/TransferInstallationOwnership''"
| "InstallationServiceProcedure Installation_GetInstallation =
     ''/saas.accounts.v1.InstallationService/GetInstallation''"
| "InstallationServiceProcedure Installation_ListInstallations =
     ''/saas.accounts.v1.InstallationService/ListInstallations''"
| "InstallationServiceProcedure Installation_ListAvailableSolutions =
     ''/saas.accounts.v1.InstallationService/ListAvailableSolutions''"
| "InstallationServiceProcedure Installation_ListOrganizationInstallations =
     ''/saas.accounts.v1.InstallationService/ListOrganizationInstallations''"
| "InstallationServiceProcedure Installation_GrantInstallationToTeam =
     ''/saas.accounts.v1.InstallationService/GrantInstallationToTeam''"
| "InstallationServiceProcedure Installation_RevokeInstallationFromTeam =
     ''/saas.accounts.v1.InstallationService/RevokeInstallationFromTeam''"

definition installationServiceClient :: "InstallationServiceMethod list" where
  "installationServiceClient =
     [Installation_InstallSolution,
      Installation_UninstallSolution,
      Installation_NarrowInstallation,
      Installation_RetryInstallation,
      Installation_TransferInstallationOwnership,
      Installation_GetInstallation,
      Installation_ListInstallations,
      Installation_ListAvailableSolutions,
      Installation_ListOrganizationInstallations,
      Installation_GrantInstallationToTeam,
      Installation_RevokeInstallationFromTeam]"

definition NewInstallationServiceClient :: "string \<Rightarrow> InstallationServiceMethod \<Rightarrow> endpoint" where
  "NewInstallationServiceClient baseURL m =
     \<lparr>ep_url = trim_right_char (CHR ''/'') baseURL @ InstallationServiceProcedure m, ep_schema = InstallationService_method m\<rparr>"

definition installationServiceClient_call :: "(InstallationServiceMethod \<Rightarrow> endpoint) \<Rightarrow> InstallationServiceMethod \<Rightarrow> call_kind \<times> endpoint" where
  "installationServiceClient_call c m = (CallUnary, c m)"

definition installationServiceHandler_routes :: "(InstallationServiceMethod \<Rightarrow> 'f) \<Rightarrow> InstallationServiceMethod \<Rightarrow> 'f route" where
  "installationServiceHandler_routes svc m =
     \<lparr>rt_procedure = InstallationServiceProcedure m, rt_kind = CallUnary,
      rt_impl = svc m, rt_schema = InstallationService_method m\<rparr>"

definition NewInstallationServiceHandler ::
  "(InstallationServiceMethod \<Rightarrow> 'f) \<Rightarrow> string \<times> (string \<Rightarrow> 'f route option)" where
  "NewInstallationServiceHandler svc =
     (''/saas.accounts.v1.InstallationService/'', \<lambda>path. map_option (installationServiceHandler_routes svc)
        (switch_on InstallationServiceProcedure installationServiceClient path))"

definition UnimplementedInstallationServiceHandler :: "InstallationServiceMethod \<Rightarrow> connect_failure" where
  "UnimplementedInstallationServiceHandler m =
     \<lparr>cf_code = CodeUnimplemented, cf_text = ''saas.accounts.v1.InstallationService.'' @ InstallationService_method m @ '' is not implemented''\<rparr>"

interpretation installationService: connect_service InstallationServiceName InstallationService_method InstallationServiceProcedure installationServiceClient
proof
  show "InstallationServiceProcedure m = CHR ''/'' # InstallationServiceName @ CHR ''/'' # InstallationService_method m" for m
    by (cases m) (simp_all add: InstallationServiceName_def)
  show "m \<in> set installationServiceClient" for m by (cases m) (simp_all add: installationServiceClient_def)
  show "distinct (map InstallationService_method installationServiceClient)" by code_simp
  show "CHR ''/'' \<notin> set InstallationServiceName \<and>
      list_all (\<lambda>m. CHR ''/'' \<notin> set (InstallationService_method m)) installationServiceClient"
    by code_simp
qed

section \<open>ClientRegistryService\<close>

definition ClientRegistryServiceName :: string where
  "ClientRegistryServiceName = ''saas.accounts.v1.ClientRegistryService''"

text \<open>The methods of the client interface.\<close>

datatype ClientRegistryServiceMethod =
    ClientRegistry_ListRegisteredClients

primrec ClientRegistryService_method :: "ClientRegistryServiceMethod \<Rightarrow> string" where
  "ClientRegistryService_method ClientRegistry_ListRegisteredClients = ''ListRegisteredClients''"

primrec ClientRegistryServiceProcedure :: "ClientRegistryServiceMethod \<Rightarrow> string" where
  "ClientRegistryServiceProcedure ClientRegistry_ListRegisteredClients =
     ''/saas.accounts.v1.ClientRegistryService/ListRegisteredClients''"

definition clientRegistryServiceClient :: "ClientRegistryServiceMethod list" where
  "clientRegistryServiceClient =
     [ClientRegistry_ListRegisteredClients]"

definition NewClientRegistryServiceClient :: "string \<Rightarrow> ClientRegistryServiceMethod \<Rightarrow> endpoint" where
  "NewClientRegistryServiceClient baseURL m =
     \<lparr>ep_url = trim_right_char (CHR ''/'') baseURL @ ClientRegistryServiceProcedure m, ep_schema = ClientRegistryService_method m\<rparr>"

definition clientRegistryServiceClient_call :: "(ClientRegistryServiceMethod \<Rightarrow> endpoint) \<Rightarrow> ClientRegistryServiceMethod \<Rightarrow> call_kind \<times> endpoint" where
  "clientRegistryServiceClient_call c m = (CallUnary, c m)"

definition clientRegistryServiceHandler_routes :: "(ClientRegistryServiceMethod \<Rightarrow> 'f) \<Rightarrow> ClientRegistryServiceMethod \<Rightarrow> 'f route" where
  "clientRegistryServiceHandler_routes svc m =
     \<lparr>rt_procedure = ClientRegistryServiceProcedure m, rt_kind = CallUnary,
      rt_impl = svc m, rt_schema = ClientRegistryService_method m\<rparr>"

definition NewClientRegistryServiceHandler ::
  "(ClientRegistryServiceMethod \<Rightarrow> 'f) \<Rightarrow> string \<times> (string \<Rightarrow> 'f route option)" where
  "NewClientRegistryServiceHandler svc =
     (''/saas.accounts.v1.ClientRegistryService/'', \<lambda>path. map_option (clientRegistryServiceHandler_routes svc)
        (switch_on ClientRegistryServiceProcedure clientRegistryServiceClient path))"

definition UnimplementedClientRegistryServiceHandler :: "ClientRegistryServiceMethod \<Rightarrow> connect_failure" where
  "UnimplementedClientRegistryServiceHandler m =
     \<lparr>cf_code = CodeUnimplemented, cf_text = ''saas.accounts.v1.ClientRegistryService.'' @ ClientRegistryService_method m @ '' is not implemented''\<rparr>"

interpretation clientRegistryService: connect_service ClientRegistryServiceName ClientRegistryService_method ClientRegistryServiceProcedure clientRegistryServiceClient
proof
  show "ClientRegistryServiceProcedure m = CHR ''/'' # ClientRegistryServiceName @ CHR ''/'' # ClientRegistryService_method m" for m
    by (cases m) (simp_all add: ClientRegistryServiceName_def)
  show "m \<in> set clientRegistryServiceClient" for m by (cases m) (simp_all add: clientRegistryServiceClient_def)
  show "distinct (map ClientRegistryService_method clientRegistryServiceClient)" by code_simp
  show "CHR ''/'' \<notin> set ClientRegistryServiceName \<and>
      list_all (\<lambda>m. CHR ''/'' \<notin> set (ClientRegistryService_method m)) clientRegistryServiceClient"
    by code_simp
qed

section \<open>SolutionEntitlementService\<close>

definition SolutionEntitlementServiceName :: string where
  "SolutionEntitlementServiceName = ''saas.accounts.v1.SolutionEntitlementService''"

text \<open>The methods of the client interface.\<close>

datatype SolutionEntitlementServiceMethod =
    SolutionEntitlement_ListSolutionEntitlements

primrec SolutionEntitlementService_method :: "SolutionEntitlementServiceMethod \<Rightarrow> string" where
  "SolutionEntitlementService_method SolutionEntitlement_ListSolutionEntitlements = ''ListSolutionEntitlements''"

primrec SolutionEntitlementServiceProcedure :: "SolutionEntitlementServiceMethod \<Rightarrow> string" where
  "SolutionEntitlementServiceProcedure SolutionEntitlement_ListSolutionEntitlements =
     ''/saas.accounts.v1.SolutionEntitlementService/ListSolutionEntitlements''"

definition solutionEntitlementServiceClient :: "SolutionEntitlementServiceMethod list" where
  "solutionEntitlementServiceClient =
     [SolutionEntitlement_ListSolutionEntitlements]"

definition NewSolutionEntitlementServiceClient :: "string \<Rightarrow> SolutionEntitlementServiceMethod \<Rightarrow> endpoint" where
  "NewSolutionEntitlementServiceClient baseURL m =
     \<lparr>ep_url = trim_right_char (CHR ''/'') baseURL @ SolutionEntitlementServiceProcedure m, ep_schema = SolutionEntitlementService_method m\<rparr>"

definition solutionEntitlementServiceClient_call :: "(SolutionEntitlementServiceMethod \<Rightarrow> endpoint) \<Rightarrow> SolutionEntitlementServiceMethod \<Rightarrow> call_kind \<times> endpoint" where
  "solutionEntitlementServiceClient_call c m = (CallUnary, c m)"

definition solutionEntitlementServiceHandler_routes :: "(SolutionEntitlementServiceMethod \<Rightarrow> 'f) \<Rightarrow> SolutionEntitlementServiceMethod \<Rightarrow> 'f route" where
  "solutionEntitlementServiceHandler_routes svc m =
     \<lparr>rt_procedure = SolutionEntitlementServiceProcedure m, rt_kind = CallUnary,
      rt_impl = svc m, rt_schema = SolutionEntitlementService_method m\<rparr>"

definition NewSolutionEntitlementServiceHandler ::
  "(SolutionEntitlementServiceMethod \<Rightarrow> 'f) \<Rightarrow> string \<times> (string \<Rightarrow> 'f route option)" where
  "NewSolutionEntitlementServiceHandler svc =
     (''/saas.accounts.v1.SolutionEntitlementService/'', \<lambda>path. map_option (solutionEntitlementServiceHandler_routes svc)
        (switch_on SolutionEntitlementServiceProcedure solutionEntitlementServiceClient path))"

definition UnimplementedSolutionEntitlementServiceHandler :: "SolutionEntitlementServiceMethod \<Rightarrow> connect_failure" where
  "UnimplementedSolutionEntitlementServiceHandler m =
     \<lparr>cf_code = CodeUnimplemented, cf_text = ''saas.accounts.v1.SolutionEntitlementService.'' @ SolutionEntitlementService_method m @ '' is not implemented''\<rparr>"

interpretation solutionEntitlementService: connect_service SolutionEntitlementServiceName SolutionEntitlementService_method SolutionEntitlementServiceProcedure solutionEntitlementServiceClient
proof
  show "SolutionEntitlementServiceProcedure m = CHR ''/'' # SolutionEntitlementServiceName @ CHR ''/'' # SolutionEntitlementService_method m" for m
    by (cases m) (simp_all add: SolutionEntitlementServiceName_def)
  show "m \<in> set solutionEntitlementServiceClient" for m by (cases m) (simp_all add: solutionEntitlementServiceClient_def)
  show "distinct (map SolutionEntitlementService_method solutionEntitlementServiceClient)" by code_simp
  show "CHR ''/'' \<notin> set SolutionEntitlementServiceName \<and>
      list_all (\<lambda>m. CHR ''/'' \<notin> set (SolutionEntitlementService_method m)) solutionEntitlementServiceClient"
    by code_simp
qed

section \<open>SolutionRegistryService\<close>

definition SolutionRegistryServiceName :: string where
  "SolutionRegistryServiceName = ''saas.accounts.v1.SolutionRegistryService''"

text \<open>The methods of the client interface.\<close>

datatype SolutionRegistryServiceMethod =
    SolutionRegistry_ListSolutionHostBindings
  | SolutionRegistry_ListSolutionRegistrations
  | SolutionRegistry_GetRetainedSolutionFrontend

primrec SolutionRegistryService_method :: "SolutionRegistryServiceMethod \<Rightarrow> string" where
  "SolutionRegistryService_method SolutionRegistry_ListSolutionHostBindings = ''ListSolutionHostBindings''"
| "SolutionRegistryService_method SolutionRegistry_ListSolutionRegistrations = ''ListSolutionRegistrations''"
| "SolutionRegistryService_method SolutionRegistry_GetRetainedSolutionFrontend = ''GetRetainedSolutionFrontend''"

primrec SolutionRegistryServiceProcedure :: "SolutionRegistryServiceMethod \<Rightarrow> string" where
  "SolutionRegistryServiceProcedure SolutionRegistry_ListSolutionHostBindings =
     ''/saas.accounts.v1.SolutionRegistryService/ListSolutionHostBindings''"
| "SolutionRegistryServiceProcedure SolutionRegistry_ListSolutionRegistrations =
     ''/saas.accounts.v1.SolutionRegistryService/ListSolutionRegistrations''"
| "SolutionRegistryServiceProcedure SolutionRegistry_GetRetainedSolutionFrontend =
     ''/saas.accounts.v1.SolutionRegistryService/GetRetainedSolutionFrontend''"

definition solutionRegistryServiceClient :: "SolutionRegistryServiceMethod list" where
  "solutionRegistryServiceClient =
     [SolutionRegistry_ListSolutionHostBindings,
      SolutionRegistry_ListSolutionRegistrations,
      SolutionRegistry_GetRetainedSolutionFrontend]"

definition NewSolutionRegistryServiceClient :: "string \<Rightarrow> SolutionRegistryServiceMethod \<Rightarrow> endpoint" where
  "NewSolutionRegistryServiceClient baseURL m =
     \<lparr>ep_url = trim_right_char (CHR ''/'') baseURL @ SolutionRegistryServiceProcedure m, ep_schema = SolutionRegistryService_method m\<rparr>"

definition solutionRegistryServiceClient_call :: "(SolutionRegistryServiceMethod \<Rightarrow> endpoint) \<Rightarrow> SolutionRegistryServiceMethod \<Rightarrow> call_kind \<times> endpoint" where
  "solutionRegistryServiceClient_call c m = (CallUnary, c m)"

definition solutionRegistryServiceHandler_routes :: "(SolutionRegistryServiceMethod \<Rightarrow> 'f) \<Rightarrow> SolutionRegistryServiceMethod \<Rightarrow> 'f route" where
  "solutionRegistryServiceHandler_routes svc m =
     \<lparr>rt_procedure = SolutionRegistryServiceProcedure m, rt_kind = CallUnary,
      rt_impl = svc m, rt_schema = SolutionRegistryService_method m\<rparr>"

definition NewSolutionRegistryServiceHandler ::
  "(SolutionRegistryServiceMethod \<Rightarrow> 'f) \<Rightarrow> string \<times> (string \<Rightarrow> 'f route option)" where
  "NewSolutionRegistryServiceHandler svc =
     (''/saas.accounts.v1.SolutionRegistryService/'', \<lambda>path. map_option (solutionRegistryServiceHandler_routes svc)
        (switch_on SolutionRegistryServiceProcedure solutionRegistryServiceClient path))"

definition UnimplementedSolutionRegistryServiceHandler :: "SolutionRegistryServiceMethod \<Rightarrow> connect_failure" where
  "UnimplementedSolutionRegistryServiceHandler m =
     \<lparr>cf_code = CodeUnimplemented, cf_text = ''saas.accounts.v1.SolutionRegistryService.'' @ SolutionRegistryService_method m @ '' is not implemented''\<rparr>"

interpretation solutionRegistryService: connect_service SolutionRegistryServiceName SolutionRegistryService_method SolutionRegistryServiceProcedure solutionRegistryServiceClient
proof
  show "SolutionRegistryServiceProcedure m = CHR ''/'' # SolutionRegistryServiceName @ CHR ''/'' # SolutionRegistryService_method m" for m
    by (cases m) (simp_all add: SolutionRegistryServiceName_def)
  show "m \<in> set solutionRegistryServiceClient" for m by (cases m) (simp_all add: solutionRegistryServiceClient_def)
  show "distinct (map SolutionRegistryService_method solutionRegistryServiceClient)" by code_simp
  show "CHR ''/'' \<notin> set SolutionRegistryServiceName \<and>
      list_all (\<lambda>m. CHR ''/'' \<notin> set (SolutionRegistryService_method m)) solutionRegistryServiceClient"
    by code_simp
qed

end
