(* ===== verification/ConnectOperations.thy ===== *)
theory ConnectOperations
  imports GoConnect
begin

text \<open>
  The generated Connect code of audit, billing, dashboards, notifications, resource_follows, usage, webhooks: the procedures, client, handler and
  unimplemented handler of each service, and each as an instance of the locale of theory GoConnect.
\<close>

section \<open>AuditService\<close>

definition AuditServiceName :: string where
  "AuditServiceName = ''saas.accounts.v1.AuditService''"

text \<open>The methods of the client interface.\<close>

datatype AuditServiceMethod =
    Audit_QueryAuditLog
  | Audit_AggregateAuditLog
  | Audit_ListAuditEventTypes
  | Audit_ExportAuditLog

primrec AuditService_method :: "AuditServiceMethod \<Rightarrow> string" where
  "AuditService_method Audit_QueryAuditLog = ''QueryAuditLog''"
| "AuditService_method Audit_AggregateAuditLog = ''AggregateAuditLog''"
| "AuditService_method Audit_ListAuditEventTypes = ''ListAuditEventTypes''"
| "AuditService_method Audit_ExportAuditLog = ''ExportAuditLog''"

primrec AuditServiceProcedure :: "AuditServiceMethod \<Rightarrow> string" where
  "AuditServiceProcedure Audit_QueryAuditLog =
     ''/saas.accounts.v1.AuditService/QueryAuditLog''"
| "AuditServiceProcedure Audit_AggregateAuditLog =
     ''/saas.accounts.v1.AuditService/AggregateAuditLog''"
| "AuditServiceProcedure Audit_ListAuditEventTypes =
     ''/saas.accounts.v1.AuditService/ListAuditEventTypes''"
| "AuditServiceProcedure Audit_ExportAuditLog =
     ''/saas.accounts.v1.AuditService/ExportAuditLog''"

definition auditServiceClient :: "AuditServiceMethod list" where
  "auditServiceClient =
     [Audit_QueryAuditLog,
      Audit_AggregateAuditLog,
      Audit_ListAuditEventTypes,
      Audit_ExportAuditLog]"

definition NewAuditServiceClient :: "string \<Rightarrow> AuditServiceMethod \<Rightarrow> endpoint" where
  "NewAuditServiceClient baseURL m =
     \<lparr>ep_url = trim_right_char (CHR ''/'') baseURL @ AuditServiceProcedure m, ep_schema = AuditService_method m\<rparr>"

definition auditServiceClient_call :: "(AuditServiceMethod \<Rightarrow> endpoint) \<Rightarrow> AuditServiceMethod \<Rightarrow> call_kind \<times> endpoint" where
  "auditServiceClient_call c m = (CallUnary, c m)"

definition auditServiceHandler_routes :: "(AuditServiceMethod \<Rightarrow> 'f) \<Rightarrow> AuditServiceMethod \<Rightarrow> 'f route" where
  "auditServiceHandler_routes svc m =
     \<lparr>rt_procedure = AuditServiceProcedure m, rt_kind = CallUnary,
      rt_impl = svc m, rt_schema = AuditService_method m\<rparr>"

definition NewAuditServiceHandler ::
  "(AuditServiceMethod \<Rightarrow> 'f) \<Rightarrow> string \<times> (string \<Rightarrow> 'f route option)" where
  "NewAuditServiceHandler svc =
     (''/saas.accounts.v1.AuditService/'', \<lambda>path. map_option (auditServiceHandler_routes svc)
        (switch_on AuditServiceProcedure auditServiceClient path))"

definition UnimplementedAuditServiceHandler :: "AuditServiceMethod \<Rightarrow> connect_failure" where
  "UnimplementedAuditServiceHandler m =
     \<lparr>cf_code = CodeUnimplemented, cf_text = ''saas.accounts.v1.AuditService.'' @ AuditService_method m @ '' is not implemented''\<rparr>"

interpretation auditService: connect_service AuditServiceName AuditService_method AuditServiceProcedure auditServiceClient
proof
  show "AuditServiceProcedure m = CHR ''/'' # AuditServiceName @ CHR ''/'' # AuditService_method m" for m
    by (cases m) (simp_all add: AuditServiceName_def)
  show "m \<in> set auditServiceClient" for m by (cases m) (simp_all add: auditServiceClient_def)
  show "distinct (map AuditService_method auditServiceClient)" by code_simp
  show "CHR ''/'' \<notin> set AuditServiceName \<and>
      list_all (\<lambda>m. CHR ''/'' \<notin> set (AuditService_method m)) auditServiceClient"
    by code_simp
qed

section \<open>BillingService\<close>

definition BillingServiceName :: string where
  "BillingServiceName = ''saas.accounts.v1.BillingService''"

text \<open>The methods of the client interface.\<close>

datatype BillingServiceMethod =
    Billing_ListPublicPlans
  | Billing_OpenPortal
  | Billing_ListInvoices

primrec BillingService_method :: "BillingServiceMethod \<Rightarrow> string" where
  "BillingService_method Billing_ListPublicPlans = ''ListPublicPlans''"
| "BillingService_method Billing_OpenPortal = ''OpenPortal''"
| "BillingService_method Billing_ListInvoices = ''ListInvoices''"

primrec BillingServiceProcedure :: "BillingServiceMethod \<Rightarrow> string" where
  "BillingServiceProcedure Billing_ListPublicPlans =
     ''/saas.accounts.v1.BillingService/ListPublicPlans''"
| "BillingServiceProcedure Billing_OpenPortal =
     ''/saas.accounts.v1.BillingService/OpenPortal''"
| "BillingServiceProcedure Billing_ListInvoices =
     ''/saas.accounts.v1.BillingService/ListInvoices''"

definition billingServiceClient :: "BillingServiceMethod list" where
  "billingServiceClient =
     [Billing_ListPublicPlans,
      Billing_OpenPortal,
      Billing_ListInvoices]"

definition NewBillingServiceClient :: "string \<Rightarrow> BillingServiceMethod \<Rightarrow> endpoint" where
  "NewBillingServiceClient baseURL m =
     \<lparr>ep_url = trim_right_char (CHR ''/'') baseURL @ BillingServiceProcedure m, ep_schema = BillingService_method m\<rparr>"

definition billingServiceClient_call :: "(BillingServiceMethod \<Rightarrow> endpoint) \<Rightarrow> BillingServiceMethod \<Rightarrow> call_kind \<times> endpoint" where
  "billingServiceClient_call c m = (CallUnary, c m)"

definition billingServiceHandler_routes :: "(BillingServiceMethod \<Rightarrow> 'f) \<Rightarrow> BillingServiceMethod \<Rightarrow> 'f route" where
  "billingServiceHandler_routes svc m =
     \<lparr>rt_procedure = BillingServiceProcedure m, rt_kind = CallUnary,
      rt_impl = svc m, rt_schema = BillingService_method m\<rparr>"

definition NewBillingServiceHandler ::
  "(BillingServiceMethod \<Rightarrow> 'f) \<Rightarrow> string \<times> (string \<Rightarrow> 'f route option)" where
  "NewBillingServiceHandler svc =
     (''/saas.accounts.v1.BillingService/'', \<lambda>path. map_option (billingServiceHandler_routes svc)
        (switch_on BillingServiceProcedure billingServiceClient path))"

definition UnimplementedBillingServiceHandler :: "BillingServiceMethod \<Rightarrow> connect_failure" where
  "UnimplementedBillingServiceHandler m =
     \<lparr>cf_code = CodeUnimplemented, cf_text = ''saas.accounts.v1.BillingService.'' @ BillingService_method m @ '' is not implemented''\<rparr>"

interpretation billingService: connect_service BillingServiceName BillingService_method BillingServiceProcedure billingServiceClient
proof
  show "BillingServiceProcedure m = CHR ''/'' # BillingServiceName @ CHR ''/'' # BillingService_method m" for m
    by (cases m) (simp_all add: BillingServiceName_def)
  show "m \<in> set billingServiceClient" for m by (cases m) (simp_all add: billingServiceClient_def)
  show "distinct (map BillingService_method billingServiceClient)" by code_simp
  show "CHR ''/'' \<notin> set BillingServiceName \<and>
      list_all (\<lambda>m. CHR ''/'' \<notin> set (BillingService_method m)) billingServiceClient"
    by code_simp
qed

section \<open>DashboardService\<close>

definition DashboardServiceName :: string where
  "DashboardServiceName = ''saas.accounts.v1.DashboardService''"

text \<open>The methods of the client interface.\<close>

datatype DashboardServiceMethod =
    Dashboard_CreateDashboard
  | Dashboard_GetDashboard
  | Dashboard_ListDashboards
  | Dashboard_UpdateDashboard
  | Dashboard_DeleteDashboard
  | Dashboard_ShareDashboard

primrec DashboardService_method :: "DashboardServiceMethod \<Rightarrow> string" where
  "DashboardService_method Dashboard_CreateDashboard = ''CreateDashboard''"
| "DashboardService_method Dashboard_GetDashboard = ''GetDashboard''"
| "DashboardService_method Dashboard_ListDashboards = ''ListDashboards''"
| "DashboardService_method Dashboard_UpdateDashboard = ''UpdateDashboard''"
| "DashboardService_method Dashboard_DeleteDashboard = ''DeleteDashboard''"
| "DashboardService_method Dashboard_ShareDashboard = ''ShareDashboard''"

primrec DashboardServiceProcedure :: "DashboardServiceMethod \<Rightarrow> string" where
  "DashboardServiceProcedure Dashboard_CreateDashboard =
     ''/saas.accounts.v1.DashboardService/CreateDashboard''"
| "DashboardServiceProcedure Dashboard_GetDashboard =
     ''/saas.accounts.v1.DashboardService/GetDashboard''"
| "DashboardServiceProcedure Dashboard_ListDashboards =
     ''/saas.accounts.v1.DashboardService/ListDashboards''"
| "DashboardServiceProcedure Dashboard_UpdateDashboard =
     ''/saas.accounts.v1.DashboardService/UpdateDashboard''"
| "DashboardServiceProcedure Dashboard_DeleteDashboard =
     ''/saas.accounts.v1.DashboardService/DeleteDashboard''"
| "DashboardServiceProcedure Dashboard_ShareDashboard =
     ''/saas.accounts.v1.DashboardService/ShareDashboard''"

definition dashboardServiceClient :: "DashboardServiceMethod list" where
  "dashboardServiceClient =
     [Dashboard_CreateDashboard,
      Dashboard_GetDashboard,
      Dashboard_ListDashboards,
      Dashboard_UpdateDashboard,
      Dashboard_DeleteDashboard,
      Dashboard_ShareDashboard]"

definition NewDashboardServiceClient :: "string \<Rightarrow> DashboardServiceMethod \<Rightarrow> endpoint" where
  "NewDashboardServiceClient baseURL m =
     \<lparr>ep_url = trim_right_char (CHR ''/'') baseURL @ DashboardServiceProcedure m, ep_schema = DashboardService_method m\<rparr>"

definition dashboardServiceClient_call :: "(DashboardServiceMethod \<Rightarrow> endpoint) \<Rightarrow> DashboardServiceMethod \<Rightarrow> call_kind \<times> endpoint" where
  "dashboardServiceClient_call c m = (CallUnary, c m)"

definition dashboardServiceHandler_routes :: "(DashboardServiceMethod \<Rightarrow> 'f) \<Rightarrow> DashboardServiceMethod \<Rightarrow> 'f route" where
  "dashboardServiceHandler_routes svc m =
     \<lparr>rt_procedure = DashboardServiceProcedure m, rt_kind = CallUnary,
      rt_impl = svc m, rt_schema = DashboardService_method m\<rparr>"

definition NewDashboardServiceHandler ::
  "(DashboardServiceMethod \<Rightarrow> 'f) \<Rightarrow> string \<times> (string \<Rightarrow> 'f route option)" where
  "NewDashboardServiceHandler svc =
     (''/saas.accounts.v1.DashboardService/'', \<lambda>path. map_option (dashboardServiceHandler_routes svc)
        (switch_on DashboardServiceProcedure dashboardServiceClient path))"

definition UnimplementedDashboardServiceHandler :: "DashboardServiceMethod \<Rightarrow> connect_failure" where
  "UnimplementedDashboardServiceHandler m =
     \<lparr>cf_code = CodeUnimplemented, cf_text = ''saas.accounts.v1.DashboardService.'' @ DashboardService_method m @ '' is not implemented''\<rparr>"

interpretation dashboardService: connect_service DashboardServiceName DashboardService_method DashboardServiceProcedure dashboardServiceClient
proof
  show "DashboardServiceProcedure m = CHR ''/'' # DashboardServiceName @ CHR ''/'' # DashboardService_method m" for m
    by (cases m) (simp_all add: DashboardServiceName_def)
  show "m \<in> set dashboardServiceClient" for m by (cases m) (simp_all add: dashboardServiceClient_def)
  show "distinct (map DashboardService_method dashboardServiceClient)" by code_simp
  show "CHR ''/'' \<notin> set DashboardServiceName \<and>
      list_all (\<lambda>m. CHR ''/'' \<notin> set (DashboardService_method m)) dashboardServiceClient"
    by code_simp
qed

section \<open>NotificationService\<close>

definition NotificationServiceName :: string where
  "NotificationServiceName = ''saas.accounts.v1.NotificationService''"

text \<open>The methods of the client interface.\<close>

datatype NotificationServiceMethod =
    Notification_ListNotifications
  | Notification_GetUnreadCount
  | Notification_MarkRead
  | Notification_MarkAllRead
  | Notification_DeleteNotification
  | Notification_ResolveNotificationAction

primrec NotificationService_method :: "NotificationServiceMethod \<Rightarrow> string" where
  "NotificationService_method Notification_ListNotifications = ''ListNotifications''"
| "NotificationService_method Notification_GetUnreadCount = ''GetUnreadCount''"
| "NotificationService_method Notification_MarkRead = ''MarkRead''"
| "NotificationService_method Notification_MarkAllRead = ''MarkAllRead''"
| "NotificationService_method Notification_DeleteNotification = ''DeleteNotification''"
| "NotificationService_method Notification_ResolveNotificationAction = ''ResolveNotificationAction''"

primrec NotificationServiceProcedure :: "NotificationServiceMethod \<Rightarrow> string" where
  "NotificationServiceProcedure Notification_ListNotifications =
     ''/saas.accounts.v1.NotificationService/ListNotifications''"
| "NotificationServiceProcedure Notification_GetUnreadCount =
     ''/saas.accounts.v1.NotificationService/GetUnreadCount''"
| "NotificationServiceProcedure Notification_MarkRead =
     ''/saas.accounts.v1.NotificationService/MarkRead''"
| "NotificationServiceProcedure Notification_MarkAllRead =
     ''/saas.accounts.v1.NotificationService/MarkAllRead''"
| "NotificationServiceProcedure Notification_DeleteNotification =
     ''/saas.accounts.v1.NotificationService/DeleteNotification''"
| "NotificationServiceProcedure Notification_ResolveNotificationAction =
     ''/saas.accounts.v1.NotificationService/ResolveNotificationAction''"

definition notificationServiceClient :: "NotificationServiceMethod list" where
  "notificationServiceClient =
     [Notification_ListNotifications,
      Notification_GetUnreadCount,
      Notification_MarkRead,
      Notification_MarkAllRead,
      Notification_DeleteNotification,
      Notification_ResolveNotificationAction]"

definition NewNotificationServiceClient :: "string \<Rightarrow> NotificationServiceMethod \<Rightarrow> endpoint" where
  "NewNotificationServiceClient baseURL m =
     \<lparr>ep_url = trim_right_char (CHR ''/'') baseURL @ NotificationServiceProcedure m, ep_schema = NotificationService_method m\<rparr>"

definition notificationServiceClient_call :: "(NotificationServiceMethod \<Rightarrow> endpoint) \<Rightarrow> NotificationServiceMethod \<Rightarrow> call_kind \<times> endpoint" where
  "notificationServiceClient_call c m = (CallUnary, c m)"

definition notificationServiceHandler_routes :: "(NotificationServiceMethod \<Rightarrow> 'f) \<Rightarrow> NotificationServiceMethod \<Rightarrow> 'f route" where
  "notificationServiceHandler_routes svc m =
     \<lparr>rt_procedure = NotificationServiceProcedure m, rt_kind = CallUnary,
      rt_impl = svc m, rt_schema = NotificationService_method m\<rparr>"

definition NewNotificationServiceHandler ::
  "(NotificationServiceMethod \<Rightarrow> 'f) \<Rightarrow> string \<times> (string \<Rightarrow> 'f route option)" where
  "NewNotificationServiceHandler svc =
     (''/saas.accounts.v1.NotificationService/'', \<lambda>path. map_option (notificationServiceHandler_routes svc)
        (switch_on NotificationServiceProcedure notificationServiceClient path))"

definition UnimplementedNotificationServiceHandler :: "NotificationServiceMethod \<Rightarrow> connect_failure" where
  "UnimplementedNotificationServiceHandler m =
     \<lparr>cf_code = CodeUnimplemented, cf_text = ''saas.accounts.v1.NotificationService.'' @ NotificationService_method m @ '' is not implemented''\<rparr>"

interpretation notificationService: connect_service NotificationServiceName NotificationService_method NotificationServiceProcedure notificationServiceClient
proof
  show "NotificationServiceProcedure m = CHR ''/'' # NotificationServiceName @ CHR ''/'' # NotificationService_method m" for m
    by (cases m) (simp_all add: NotificationServiceName_def)
  show "m \<in> set notificationServiceClient" for m by (cases m) (simp_all add: notificationServiceClient_def)
  show "distinct (map NotificationService_method notificationServiceClient)" by code_simp
  show "CHR ''/'' \<notin> set NotificationServiceName \<and>
      list_all (\<lambda>m. CHR ''/'' \<notin> set (NotificationService_method m)) notificationServiceClient"
    by code_simp
qed

section \<open>ResourceFollowService\<close>

definition ResourceFollowServiceName :: string where
  "ResourceFollowServiceName = ''saas.accounts.v1.ResourceFollowService''"

text \<open>The methods of the client interface.\<close>

datatype ResourceFollowServiceMethod =
    ResourceFollow_Follow
  | ResourceFollow_Unfollow

primrec ResourceFollowService_method :: "ResourceFollowServiceMethod \<Rightarrow> string" where
  "ResourceFollowService_method ResourceFollow_Follow = ''Follow''"
| "ResourceFollowService_method ResourceFollow_Unfollow = ''Unfollow''"

primrec ResourceFollowServiceProcedure :: "ResourceFollowServiceMethod \<Rightarrow> string" where
  "ResourceFollowServiceProcedure ResourceFollow_Follow =
     ''/saas.accounts.v1.ResourceFollowService/Follow''"
| "ResourceFollowServiceProcedure ResourceFollow_Unfollow =
     ''/saas.accounts.v1.ResourceFollowService/Unfollow''"

definition resourceFollowServiceClient :: "ResourceFollowServiceMethod list" where
  "resourceFollowServiceClient =
     [ResourceFollow_Follow,
      ResourceFollow_Unfollow]"

definition NewResourceFollowServiceClient :: "string \<Rightarrow> ResourceFollowServiceMethod \<Rightarrow> endpoint" where
  "NewResourceFollowServiceClient baseURL m =
     \<lparr>ep_url = trim_right_char (CHR ''/'') baseURL @ ResourceFollowServiceProcedure m, ep_schema = ResourceFollowService_method m\<rparr>"

definition resourceFollowServiceClient_call :: "(ResourceFollowServiceMethod \<Rightarrow> endpoint) \<Rightarrow> ResourceFollowServiceMethod \<Rightarrow> call_kind \<times> endpoint" where
  "resourceFollowServiceClient_call c m = (CallUnary, c m)"

definition resourceFollowServiceHandler_routes :: "(ResourceFollowServiceMethod \<Rightarrow> 'f) \<Rightarrow> ResourceFollowServiceMethod \<Rightarrow> 'f route" where
  "resourceFollowServiceHandler_routes svc m =
     \<lparr>rt_procedure = ResourceFollowServiceProcedure m, rt_kind = CallUnary,
      rt_impl = svc m, rt_schema = ResourceFollowService_method m\<rparr>"

definition NewResourceFollowServiceHandler ::
  "(ResourceFollowServiceMethod \<Rightarrow> 'f) \<Rightarrow> string \<times> (string \<Rightarrow> 'f route option)" where
  "NewResourceFollowServiceHandler svc =
     (''/saas.accounts.v1.ResourceFollowService/'', \<lambda>path. map_option (resourceFollowServiceHandler_routes svc)
        (switch_on ResourceFollowServiceProcedure resourceFollowServiceClient path))"

definition UnimplementedResourceFollowServiceHandler :: "ResourceFollowServiceMethod \<Rightarrow> connect_failure" where
  "UnimplementedResourceFollowServiceHandler m =
     \<lparr>cf_code = CodeUnimplemented, cf_text = ''saas.accounts.v1.ResourceFollowService.'' @ ResourceFollowService_method m @ '' is not implemented''\<rparr>"

interpretation resourceFollowService: connect_service ResourceFollowServiceName ResourceFollowService_method ResourceFollowServiceProcedure resourceFollowServiceClient
proof
  show "ResourceFollowServiceProcedure m = CHR ''/'' # ResourceFollowServiceName @ CHR ''/'' # ResourceFollowService_method m" for m
    by (cases m) (simp_all add: ResourceFollowServiceName_def)
  show "m \<in> set resourceFollowServiceClient" for m by (cases m) (simp_all add: resourceFollowServiceClient_def)
  show "distinct (map ResourceFollowService_method resourceFollowServiceClient)" by code_simp
  show "CHR ''/'' \<notin> set ResourceFollowServiceName \<and>
      list_all (\<lambda>m. CHR ''/'' \<notin> set (ResourceFollowService_method m)) resourceFollowServiceClient"
    by code_simp
qed

section \<open>UsageService\<close>

definition UsageServiceName :: string where
  "UsageServiceName = ''saas.accounts.v1.UsageService''"

text \<open>The methods of the client interface.\<close>

datatype UsageServiceMethod =
    Usage_ConsumeUsage
  | Usage_GetUsage
  | Usage_ListUsageMeters
  | Usage_GetUsageHistory

primrec UsageService_method :: "UsageServiceMethod \<Rightarrow> string" where
  "UsageService_method Usage_ConsumeUsage = ''ConsumeUsage''"
| "UsageService_method Usage_GetUsage = ''GetUsage''"
| "UsageService_method Usage_ListUsageMeters = ''ListUsageMeters''"
| "UsageService_method Usage_GetUsageHistory = ''GetUsageHistory''"

primrec UsageServiceProcedure :: "UsageServiceMethod \<Rightarrow> string" where
  "UsageServiceProcedure Usage_ConsumeUsage =
     ''/saas.accounts.v1.UsageService/ConsumeUsage''"
| "UsageServiceProcedure Usage_GetUsage =
     ''/saas.accounts.v1.UsageService/GetUsage''"
| "UsageServiceProcedure Usage_ListUsageMeters =
     ''/saas.accounts.v1.UsageService/ListUsageMeters''"
| "UsageServiceProcedure Usage_GetUsageHistory =
     ''/saas.accounts.v1.UsageService/GetUsageHistory''"

definition usageServiceClient :: "UsageServiceMethod list" where
  "usageServiceClient =
     [Usage_ConsumeUsage,
      Usage_GetUsage,
      Usage_ListUsageMeters,
      Usage_GetUsageHistory]"

definition NewUsageServiceClient :: "string \<Rightarrow> UsageServiceMethod \<Rightarrow> endpoint" where
  "NewUsageServiceClient baseURL m =
     \<lparr>ep_url = trim_right_char (CHR ''/'') baseURL @ UsageServiceProcedure m, ep_schema = UsageService_method m\<rparr>"

definition usageServiceClient_call :: "(UsageServiceMethod \<Rightarrow> endpoint) \<Rightarrow> UsageServiceMethod \<Rightarrow> call_kind \<times> endpoint" where
  "usageServiceClient_call c m = (CallUnary, c m)"

definition usageServiceHandler_routes :: "(UsageServiceMethod \<Rightarrow> 'f) \<Rightarrow> UsageServiceMethod \<Rightarrow> 'f route" where
  "usageServiceHandler_routes svc m =
     \<lparr>rt_procedure = UsageServiceProcedure m, rt_kind = CallUnary,
      rt_impl = svc m, rt_schema = UsageService_method m\<rparr>"

definition NewUsageServiceHandler ::
  "(UsageServiceMethod \<Rightarrow> 'f) \<Rightarrow> string \<times> (string \<Rightarrow> 'f route option)" where
  "NewUsageServiceHandler svc =
     (''/saas.accounts.v1.UsageService/'', \<lambda>path. map_option (usageServiceHandler_routes svc)
        (switch_on UsageServiceProcedure usageServiceClient path))"

definition UnimplementedUsageServiceHandler :: "UsageServiceMethod \<Rightarrow> connect_failure" where
  "UnimplementedUsageServiceHandler m =
     \<lparr>cf_code = CodeUnimplemented, cf_text = ''saas.accounts.v1.UsageService.'' @ UsageService_method m @ '' is not implemented''\<rparr>"

interpretation usageService: connect_service UsageServiceName UsageService_method UsageServiceProcedure usageServiceClient
proof
  show "UsageServiceProcedure m = CHR ''/'' # UsageServiceName @ CHR ''/'' # UsageService_method m" for m
    by (cases m) (simp_all add: UsageServiceName_def)
  show "m \<in> set usageServiceClient" for m by (cases m) (simp_all add: usageServiceClient_def)
  show "distinct (map UsageService_method usageServiceClient)" by code_simp
  show "CHR ''/'' \<notin> set UsageServiceName \<and>
      list_all (\<lambda>m. CHR ''/'' \<notin> set (UsageService_method m)) usageServiceClient"
    by code_simp
qed

section \<open>WebhookService\<close>

definition WebhookServiceName :: string where
  "WebhookServiceName = ''saas.accounts.v1.WebhookService''"

text \<open>The methods of the client interface.\<close>

datatype WebhookServiceMethod =
    Webhook_CreateSubscription
  | Webhook_DeleteSubscription
  | Webhook_ListSubscriptions
  | Webhook_ListDeliveries
  | Webhook_GetDelivery
  | Webhook_ReplayDelivery
  | Webhook_TestWebhook
  | Webhook_RotateSecret

primrec WebhookService_method :: "WebhookServiceMethod \<Rightarrow> string" where
  "WebhookService_method Webhook_CreateSubscription = ''CreateSubscription''"
| "WebhookService_method Webhook_DeleteSubscription = ''DeleteSubscription''"
| "WebhookService_method Webhook_ListSubscriptions = ''ListSubscriptions''"
| "WebhookService_method Webhook_ListDeliveries = ''ListDeliveries''"
| "WebhookService_method Webhook_GetDelivery = ''GetDelivery''"
| "WebhookService_method Webhook_ReplayDelivery = ''ReplayDelivery''"
| "WebhookService_method Webhook_TestWebhook = ''TestWebhook''"
| "WebhookService_method Webhook_RotateSecret = ''RotateSecret''"

primrec WebhookServiceProcedure :: "WebhookServiceMethod \<Rightarrow> string" where
  "WebhookServiceProcedure Webhook_CreateSubscription =
     ''/saas.accounts.v1.WebhookService/CreateSubscription''"
| "WebhookServiceProcedure Webhook_DeleteSubscription =
     ''/saas.accounts.v1.WebhookService/DeleteSubscription''"
| "WebhookServiceProcedure Webhook_ListSubscriptions =
     ''/saas.accounts.v1.WebhookService/ListSubscriptions''"
| "WebhookServiceProcedure Webhook_ListDeliveries =
     ''/saas.accounts.v1.WebhookService/ListDeliveries''"
| "WebhookServiceProcedure Webhook_GetDelivery =
     ''/saas.accounts.v1.WebhookService/GetDelivery''"
| "WebhookServiceProcedure Webhook_ReplayDelivery =
     ''/saas.accounts.v1.WebhookService/ReplayDelivery''"
| "WebhookServiceProcedure Webhook_TestWebhook =
     ''/saas.accounts.v1.WebhookService/TestWebhook''"
| "WebhookServiceProcedure Webhook_RotateSecret =
     ''/saas.accounts.v1.WebhookService/RotateSecret''"

definition webhookServiceClient :: "WebhookServiceMethod list" where
  "webhookServiceClient =
     [Webhook_CreateSubscription,
      Webhook_DeleteSubscription,
      Webhook_ListSubscriptions,
      Webhook_ListDeliveries,
      Webhook_GetDelivery,
      Webhook_ReplayDelivery,
      Webhook_TestWebhook,
      Webhook_RotateSecret]"

definition NewWebhookServiceClient :: "string \<Rightarrow> WebhookServiceMethod \<Rightarrow> endpoint" where
  "NewWebhookServiceClient baseURL m =
     \<lparr>ep_url = trim_right_char (CHR ''/'') baseURL @ WebhookServiceProcedure m, ep_schema = WebhookService_method m\<rparr>"

definition webhookServiceClient_call :: "(WebhookServiceMethod \<Rightarrow> endpoint) \<Rightarrow> WebhookServiceMethod \<Rightarrow> call_kind \<times> endpoint" where
  "webhookServiceClient_call c m = (CallUnary, c m)"

definition webhookServiceHandler_routes :: "(WebhookServiceMethod \<Rightarrow> 'f) \<Rightarrow> WebhookServiceMethod \<Rightarrow> 'f route" where
  "webhookServiceHandler_routes svc m =
     \<lparr>rt_procedure = WebhookServiceProcedure m, rt_kind = CallUnary,
      rt_impl = svc m, rt_schema = WebhookService_method m\<rparr>"

definition NewWebhookServiceHandler ::
  "(WebhookServiceMethod \<Rightarrow> 'f) \<Rightarrow> string \<times> (string \<Rightarrow> 'f route option)" where
  "NewWebhookServiceHandler svc =
     (''/saas.accounts.v1.WebhookService/'', \<lambda>path. map_option (webhookServiceHandler_routes svc)
        (switch_on WebhookServiceProcedure webhookServiceClient path))"

definition UnimplementedWebhookServiceHandler :: "WebhookServiceMethod \<Rightarrow> connect_failure" where
  "UnimplementedWebhookServiceHandler m =
     \<lparr>cf_code = CodeUnimplemented, cf_text = ''saas.accounts.v1.WebhookService.'' @ WebhookService_method m @ '' is not implemented''\<rparr>"

interpretation webhookService: connect_service WebhookServiceName WebhookService_method WebhookServiceProcedure webhookServiceClient
proof
  show "WebhookServiceProcedure m = CHR ''/'' # WebhookServiceName @ CHR ''/'' # WebhookService_method m" for m
    by (cases m) (simp_all add: WebhookServiceName_def)
  show "m \<in> set webhookServiceClient" for m by (cases m) (simp_all add: webhookServiceClient_def)
  show "distinct (map WebhookService_method webhookServiceClient)" by code_simp
  show "CHR ''/'' \<notin> set WebhookServiceName \<and>
      list_all (\<lambda>m. CHR ''/'' \<notin> set (WebhookService_method m)) webhookServiceClient"
    by code_simp
qed

end
