(* ===== verification/ConnectRoutes.thy ===== *)
theory ConnectRoutes
  imports ConnectModule ConnectDatasource ConnectAuthority ConnectIdentity ConnectOrganizations ConnectPlatform ConnectOperations
begin

text \<open>
  All 36 generated services of gen/saas/accounts/v1/accountsv1connect together: one method of any
  of them is an \<open>rpc\<close>, a server mounts the handler every constructor returns at the path it
  returns, and a client calls the procedure its constructor configured. \<open>serve_mux\<close> is the standard
  library's \<^verbatim>\<open>http.ServeMux\<close> on patterns that end in a slash: the longest registered pattern that is
  a prefix of the path. The properties say that the 270 methods never shadow each other and that
  client and handler of each agree.
\<close>

section \<open>The methods of all services\<close>

datatype rpc =
    InModuleCapabilitiesService ModuleCapabilitiesServiceMethod
  | InDatasourceService DatasourceServiceMethod
  | InDirectoryService DirectoryServiceMethod
  | InPermissionService PermissionServiceMethod
  | InPrincipalService PrincipalServiceMethod
  | InWorkContextService WorkContextServiceMethod
  | InDelegationService DelegationServiceMethod
  | InIntrospectionService IntrospectionServiceMethod
  | InAccessibleScopeService AccessibleScopeServiceMethod
  | InApprovalReviewService ApprovalReviewServiceMethod
  | InAuthService AuthServiceMethod
  | InUserService UserServiceMethod
  | InIdentityService IdentityServiceMethod
  | InMFAService MFAServiceMethod
  | InSSOAdminService SSOAdminServiceMethod
  | InAPIKeyService APIKeyServiceMethod
  | InConsentService ConsentServiceMethod
  | InOrganizationService OrganizationServiceMethod
  | InTeamService TeamServiceMethod
  | InInvitationService InvitationServiceMethod
  | InOnboardingService OnboardingServiceMethod
  | InWaitlistService WaitlistServiceMethod
  | InUserSettingsService UserSettingsServiceMethod
  | InGDPRService GDPRServiceMethod
  | InPlatformAdminService PlatformAdminServiceMethod
  | InInstallationService InstallationServiceMethod
  | InClientRegistryService ClientRegistryServiceMethod
  | InSolutionEntitlementService SolutionEntitlementServiceMethod
  | InSolutionRegistryService SolutionRegistryServiceMethod
  | InAuditService AuditServiceMethod
  | InBillingService BillingServiceMethod
  | InDashboardService DashboardServiceMethod
  | InNotificationService NotificationServiceMethod
  | InResourceFollowService ResourceFollowServiceMethod
  | InUsageService UsageServiceMethod
  | InWebhookService WebhookServiceMethod

primrec rpc_service :: "rpc \<Rightarrow> string" where
  "rpc_service (InModuleCapabilitiesService m) = ModuleCapabilitiesServiceName"
| "rpc_service (InDatasourceService m) = DatasourceServiceName"
| "rpc_service (InDirectoryService m) = DirectoryServiceName"
| "rpc_service (InPermissionService m) = PermissionServiceName"
| "rpc_service (InPrincipalService m) = PrincipalServiceName"
| "rpc_service (InWorkContextService m) = WorkContextServiceName"
| "rpc_service (InDelegationService m) = DelegationServiceName"
| "rpc_service (InIntrospectionService m) = IntrospectionServiceName"
| "rpc_service (InAccessibleScopeService m) = AccessibleScopeServiceName"
| "rpc_service (InApprovalReviewService m) = ApprovalReviewServiceName"
| "rpc_service (InAuthService m) = AuthServiceName"
| "rpc_service (InUserService m) = UserServiceName"
| "rpc_service (InIdentityService m) = IdentityServiceName"
| "rpc_service (InMFAService m) = MFAServiceName"
| "rpc_service (InSSOAdminService m) = SSOAdminServiceName"
| "rpc_service (InAPIKeyService m) = APIKeyServiceName"
| "rpc_service (InConsentService m) = ConsentServiceName"
| "rpc_service (InOrganizationService m) = OrganizationServiceName"
| "rpc_service (InTeamService m) = TeamServiceName"
| "rpc_service (InInvitationService m) = InvitationServiceName"
| "rpc_service (InOnboardingService m) = OnboardingServiceName"
| "rpc_service (InWaitlistService m) = WaitlistServiceName"
| "rpc_service (InUserSettingsService m) = UserSettingsServiceName"
| "rpc_service (InGDPRService m) = GDPRServiceName"
| "rpc_service (InPlatformAdminService m) = PlatformAdminServiceName"
| "rpc_service (InInstallationService m) = InstallationServiceName"
| "rpc_service (InClientRegistryService m) = ClientRegistryServiceName"
| "rpc_service (InSolutionEntitlementService m) = SolutionEntitlementServiceName"
| "rpc_service (InSolutionRegistryService m) = SolutionRegistryServiceName"
| "rpc_service (InAuditService m) = AuditServiceName"
| "rpc_service (InBillingService m) = BillingServiceName"
| "rpc_service (InDashboardService m) = DashboardServiceName"
| "rpc_service (InNotificationService m) = NotificationServiceName"
| "rpc_service (InResourceFollowService m) = ResourceFollowServiceName"
| "rpc_service (InUsageService m) = UsageServiceName"
| "rpc_service (InWebhookService m) = WebhookServiceName"

primrec rpc_method :: "rpc \<Rightarrow> string" where
  "rpc_method (InModuleCapabilitiesService m) = ModuleCapabilitiesService_method m"
| "rpc_method (InDatasourceService m) = DatasourceService_method m"
| "rpc_method (InDirectoryService m) = DirectoryService_method m"
| "rpc_method (InPermissionService m) = PermissionService_method m"
| "rpc_method (InPrincipalService m) = PrincipalService_method m"
| "rpc_method (InWorkContextService m) = WorkContextService_method m"
| "rpc_method (InDelegationService m) = DelegationService_method m"
| "rpc_method (InIntrospectionService m) = IntrospectionService_method m"
| "rpc_method (InAccessibleScopeService m) = AccessibleScopeService_method m"
| "rpc_method (InApprovalReviewService m) = ApprovalReviewService_method m"
| "rpc_method (InAuthService m) = AuthService_method m"
| "rpc_method (InUserService m) = UserService_method m"
| "rpc_method (InIdentityService m) = IdentityService_method m"
| "rpc_method (InMFAService m) = MFAService_method m"
| "rpc_method (InSSOAdminService m) = SSOAdminService_method m"
| "rpc_method (InAPIKeyService m) = APIKeyService_method m"
| "rpc_method (InConsentService m) = ConsentService_method m"
| "rpc_method (InOrganizationService m) = OrganizationService_method m"
| "rpc_method (InTeamService m) = TeamService_method m"
| "rpc_method (InInvitationService m) = InvitationService_method m"
| "rpc_method (InOnboardingService m) = OnboardingService_method m"
| "rpc_method (InWaitlistService m) = WaitlistService_method m"
| "rpc_method (InUserSettingsService m) = UserSettingsService_method m"
| "rpc_method (InGDPRService m) = GDPRService_method m"
| "rpc_method (InPlatformAdminService m) = PlatformAdminService_method m"
| "rpc_method (InInstallationService m) = InstallationService_method m"
| "rpc_method (InClientRegistryService m) = ClientRegistryService_method m"
| "rpc_method (InSolutionEntitlementService m) = SolutionEntitlementService_method m"
| "rpc_method (InSolutionRegistryService m) = SolutionRegistryService_method m"
| "rpc_method (InAuditService m) = AuditService_method m"
| "rpc_method (InBillingService m) = BillingService_method m"
| "rpc_method (InDashboardService m) = DashboardService_method m"
| "rpc_method (InNotificationService m) = NotificationService_method m"
| "rpc_method (InResourceFollowService m) = ResourceFollowService_method m"
| "rpc_method (InUsageService m) = UsageService_method m"
| "rpc_method (InWebhookService m) = WebhookService_method m"

primrec rpc_procedure :: "rpc \<Rightarrow> string" where
  "rpc_procedure (InModuleCapabilitiesService m) = ModuleCapabilitiesServiceProcedure m"
| "rpc_procedure (InDatasourceService m) = DatasourceServiceProcedure m"
| "rpc_procedure (InDirectoryService m) = DirectoryServiceProcedure m"
| "rpc_procedure (InPermissionService m) = PermissionServiceProcedure m"
| "rpc_procedure (InPrincipalService m) = PrincipalServiceProcedure m"
| "rpc_procedure (InWorkContextService m) = WorkContextServiceProcedure m"
| "rpc_procedure (InDelegationService m) = DelegationServiceProcedure m"
| "rpc_procedure (InIntrospectionService m) = IntrospectionServiceProcedure m"
| "rpc_procedure (InAccessibleScopeService m) = AccessibleScopeServiceProcedure m"
| "rpc_procedure (InApprovalReviewService m) = ApprovalReviewServiceProcedure m"
| "rpc_procedure (InAuthService m) = AuthServiceProcedure m"
| "rpc_procedure (InUserService m) = UserServiceProcedure m"
| "rpc_procedure (InIdentityService m) = IdentityServiceProcedure m"
| "rpc_procedure (InMFAService m) = MFAServiceProcedure m"
| "rpc_procedure (InSSOAdminService m) = SSOAdminServiceProcedure m"
| "rpc_procedure (InAPIKeyService m) = APIKeyServiceProcedure m"
| "rpc_procedure (InConsentService m) = ConsentServiceProcedure m"
| "rpc_procedure (InOrganizationService m) = OrganizationServiceProcedure m"
| "rpc_procedure (InTeamService m) = TeamServiceProcedure m"
| "rpc_procedure (InInvitationService m) = InvitationServiceProcedure m"
| "rpc_procedure (InOnboardingService m) = OnboardingServiceProcedure m"
| "rpc_procedure (InWaitlistService m) = WaitlistServiceProcedure m"
| "rpc_procedure (InUserSettingsService m) = UserSettingsServiceProcedure m"
| "rpc_procedure (InGDPRService m) = GDPRServiceProcedure m"
| "rpc_procedure (InPlatformAdminService m) = PlatformAdminServiceProcedure m"
| "rpc_procedure (InInstallationService m) = InstallationServiceProcedure m"
| "rpc_procedure (InClientRegistryService m) = ClientRegistryServiceProcedure m"
| "rpc_procedure (InSolutionEntitlementService m) = SolutionEntitlementServiceProcedure m"
| "rpc_procedure (InSolutionRegistryService m) = SolutionRegistryServiceProcedure m"
| "rpc_procedure (InAuditService m) = AuditServiceProcedure m"
| "rpc_procedure (InBillingService m) = BillingServiceProcedure m"
| "rpc_procedure (InDashboardService m) = DashboardServiceProcedure m"
| "rpc_procedure (InNotificationService m) = NotificationServiceProcedure m"
| "rpc_procedure (InResourceFollowService m) = ResourceFollowServiceProcedure m"
| "rpc_procedure (InUsageService m) = UsageServiceProcedure m"
| "rpc_procedure (InWebhookService m) = WebhookServiceProcedure m"

text \<open>What the client of a service, built for a base URL, sends a method as.\<close>

primrec rpc_call :: "string \<Rightarrow> rpc \<Rightarrow> call_kind \<times> endpoint" where
  "rpc_call base (InModuleCapabilitiesService m) = moduleCapabilitiesServiceClient_call (NewModuleCapabilitiesServiceClient base) m"
| "rpc_call base (InDatasourceService m) = datasourceServiceClient_call (NewDatasourceServiceClient base) m"
| "rpc_call base (InDirectoryService m) = directoryServiceClient_call (NewDirectoryServiceClient base) m"
| "rpc_call base (InPermissionService m) = permissionServiceClient_call (NewPermissionServiceClient base) m"
| "rpc_call base (InPrincipalService m) = principalServiceClient_call (NewPrincipalServiceClient base) m"
| "rpc_call base (InWorkContextService m) = workContextServiceClient_call (NewWorkContextServiceClient base) m"
| "rpc_call base (InDelegationService m) = delegationServiceClient_call (NewDelegationServiceClient base) m"
| "rpc_call base (InIntrospectionService m) = introspectionServiceClient_call (NewIntrospectionServiceClient base) m"
| "rpc_call base (InAccessibleScopeService m) = accessibleScopeServiceClient_call (NewAccessibleScopeServiceClient base) m"
| "rpc_call base (InApprovalReviewService m) = approvalReviewServiceClient_call (NewApprovalReviewServiceClient base) m"
| "rpc_call base (InAuthService m) = authServiceClient_call (NewAuthServiceClient base) m"
| "rpc_call base (InUserService m) = userServiceClient_call (NewUserServiceClient base) m"
| "rpc_call base (InIdentityService m) = identityServiceClient_call (NewIdentityServiceClient base) m"
| "rpc_call base (InMFAService m) = mFAServiceClient_call (NewMFAServiceClient base) m"
| "rpc_call base (InSSOAdminService m) = sSOAdminServiceClient_call (NewSSOAdminServiceClient base) m"
| "rpc_call base (InAPIKeyService m) = aPIKeyServiceClient_call (NewAPIKeyServiceClient base) m"
| "rpc_call base (InConsentService m) = consentServiceClient_call (NewConsentServiceClient base) m"
| "rpc_call base (InOrganizationService m) = organizationServiceClient_call (NewOrganizationServiceClient base) m"
| "rpc_call base (InTeamService m) = teamServiceClient_call (NewTeamServiceClient base) m"
| "rpc_call base (InInvitationService m) = invitationServiceClient_call (NewInvitationServiceClient base) m"
| "rpc_call base (InOnboardingService m) = onboardingServiceClient_call (NewOnboardingServiceClient base) m"
| "rpc_call base (InWaitlistService m) = waitlistServiceClient_call (NewWaitlistServiceClient base) m"
| "rpc_call base (InUserSettingsService m) = userSettingsServiceClient_call (NewUserSettingsServiceClient base) m"
| "rpc_call base (InGDPRService m) = gDPRServiceClient_call (NewGDPRServiceClient base) m"
| "rpc_call base (InPlatformAdminService m) = platformAdminServiceClient_call (NewPlatformAdminServiceClient base) m"
| "rpc_call base (InInstallationService m) = installationServiceClient_call (NewInstallationServiceClient base) m"
| "rpc_call base (InClientRegistryService m) = clientRegistryServiceClient_call (NewClientRegistryServiceClient base) m"
| "rpc_call base (InSolutionEntitlementService m) = solutionEntitlementServiceClient_call (NewSolutionEntitlementServiceClient base) m"
| "rpc_call base (InSolutionRegistryService m) = solutionRegistryServiceClient_call (NewSolutionRegistryServiceClient base) m"
| "rpc_call base (InAuditService m) = auditServiceClient_call (NewAuditServiceClient base) m"
| "rpc_call base (InBillingService m) = billingServiceClient_call (NewBillingServiceClient base) m"
| "rpc_call base (InDashboardService m) = dashboardServiceClient_call (NewDashboardServiceClient base) m"
| "rpc_call base (InNotificationService m) = notificationServiceClient_call (NewNotificationServiceClient base) m"
| "rpc_call base (InResourceFollowService m) = resourceFollowServiceClient_call (NewResourceFollowServiceClient base) m"
| "rpc_call base (InUsageService m) = usageServiceClient_call (NewUsageServiceClient base) m"
| "rpc_call base (InWebhookService m) = webhookServiceClient_call (NewWebhookServiceClient base) m"

primrec rpc_route :: "(rpc \<Rightarrow> 'f) \<Rightarrow> rpc \<Rightarrow> 'f route" where
  "rpc_route svc (InModuleCapabilitiesService m) = moduleCapabilitiesServiceHandler_routes (\<lambda>m. svc (InModuleCapabilitiesService m)) m"
| "rpc_route svc (InDatasourceService m) = datasourceServiceHandler_routes (\<lambda>m. svc (InDatasourceService m)) m"
| "rpc_route svc (InDirectoryService m) = directoryServiceHandler_routes (\<lambda>m. svc (InDirectoryService m)) m"
| "rpc_route svc (InPermissionService m) = permissionServiceHandler_routes (\<lambda>m. svc (InPermissionService m)) m"
| "rpc_route svc (InPrincipalService m) = principalServiceHandler_routes (\<lambda>m. svc (InPrincipalService m)) m"
| "rpc_route svc (InWorkContextService m) = workContextServiceHandler_routes (\<lambda>m. svc (InWorkContextService m)) m"
| "rpc_route svc (InDelegationService m) = delegationServiceHandler_routes (\<lambda>m. svc (InDelegationService m)) m"
| "rpc_route svc (InIntrospectionService m) = introspectionServiceHandler_routes (\<lambda>m. svc (InIntrospectionService m)) m"
| "rpc_route svc (InAccessibleScopeService m) = accessibleScopeServiceHandler_routes (\<lambda>m. svc (InAccessibleScopeService m)) m"
| "rpc_route svc (InApprovalReviewService m) = approvalReviewServiceHandler_routes (\<lambda>m. svc (InApprovalReviewService m)) m"
| "rpc_route svc (InAuthService m) = authServiceHandler_routes (\<lambda>m. svc (InAuthService m)) m"
| "rpc_route svc (InUserService m) = userServiceHandler_routes (\<lambda>m. svc (InUserService m)) m"
| "rpc_route svc (InIdentityService m) = identityServiceHandler_routes (\<lambda>m. svc (InIdentityService m)) m"
| "rpc_route svc (InMFAService m) = mFAServiceHandler_routes (\<lambda>m. svc (InMFAService m)) m"
| "rpc_route svc (InSSOAdminService m) = sSOAdminServiceHandler_routes (\<lambda>m. svc (InSSOAdminService m)) m"
| "rpc_route svc (InAPIKeyService m) = aPIKeyServiceHandler_routes (\<lambda>m. svc (InAPIKeyService m)) m"
| "rpc_route svc (InConsentService m) = consentServiceHandler_routes (\<lambda>m. svc (InConsentService m)) m"
| "rpc_route svc (InOrganizationService m) = organizationServiceHandler_routes (\<lambda>m. svc (InOrganizationService m)) m"
| "rpc_route svc (InTeamService m) = teamServiceHandler_routes (\<lambda>m. svc (InTeamService m)) m"
| "rpc_route svc (InInvitationService m) = invitationServiceHandler_routes (\<lambda>m. svc (InInvitationService m)) m"
| "rpc_route svc (InOnboardingService m) = onboardingServiceHandler_routes (\<lambda>m. svc (InOnboardingService m)) m"
| "rpc_route svc (InWaitlistService m) = waitlistServiceHandler_routes (\<lambda>m. svc (InWaitlistService m)) m"
| "rpc_route svc (InUserSettingsService m) = userSettingsServiceHandler_routes (\<lambda>m. svc (InUserSettingsService m)) m"
| "rpc_route svc (InGDPRService m) = gDPRServiceHandler_routes (\<lambda>m. svc (InGDPRService m)) m"
| "rpc_route svc (InPlatformAdminService m) = platformAdminServiceHandler_routes (\<lambda>m. svc (InPlatformAdminService m)) m"
| "rpc_route svc (InInstallationService m) = installationServiceHandler_routes (\<lambda>m. svc (InInstallationService m)) m"
| "rpc_route svc (InClientRegistryService m) = clientRegistryServiceHandler_routes (\<lambda>m. svc (InClientRegistryService m)) m"
| "rpc_route svc (InSolutionEntitlementService m) = solutionEntitlementServiceHandler_routes (\<lambda>m. svc (InSolutionEntitlementService m)) m"
| "rpc_route svc (InSolutionRegistryService m) = solutionRegistryServiceHandler_routes (\<lambda>m. svc (InSolutionRegistryService m)) m"
| "rpc_route svc (InAuditService m) = auditServiceHandler_routes (\<lambda>m. svc (InAuditService m)) m"
| "rpc_route svc (InBillingService m) = billingServiceHandler_routes (\<lambda>m. svc (InBillingService m)) m"
| "rpc_route svc (InDashboardService m) = dashboardServiceHandler_routes (\<lambda>m. svc (InDashboardService m)) m"
| "rpc_route svc (InNotificationService m) = notificationServiceHandler_routes (\<lambda>m. svc (InNotificationService m)) m"
| "rpc_route svc (InResourceFollowService m) = resourceFollowServiceHandler_routes (\<lambda>m. svc (InResourceFollowService m)) m"
| "rpc_route svc (InUsageService m) = usageServiceHandler_routes (\<lambda>m. svc (InUsageService m)) m"
| "rpc_route svc (InWebhookService m) = webhookServiceHandler_routes (\<lambda>m. svc (InWebhookService m)) m"

primrec rpc_unimplemented :: "rpc \<Rightarrow> connect_failure" where
  "rpc_unimplemented (InModuleCapabilitiesService m) = UnimplementedModuleCapabilitiesServiceHandler m"
| "rpc_unimplemented (InDatasourceService m) = UnimplementedDatasourceServiceHandler m"
| "rpc_unimplemented (InDirectoryService m) = UnimplementedDirectoryServiceHandler m"
| "rpc_unimplemented (InPermissionService m) = UnimplementedPermissionServiceHandler m"
| "rpc_unimplemented (InPrincipalService m) = UnimplementedPrincipalServiceHandler m"
| "rpc_unimplemented (InWorkContextService m) = UnimplementedWorkContextServiceHandler m"
| "rpc_unimplemented (InDelegationService m) = UnimplementedDelegationServiceHandler m"
| "rpc_unimplemented (InIntrospectionService m) = UnimplementedIntrospectionServiceHandler m"
| "rpc_unimplemented (InAccessibleScopeService m) = UnimplementedAccessibleScopeServiceHandler m"
| "rpc_unimplemented (InApprovalReviewService m) = UnimplementedApprovalReviewServiceHandler m"
| "rpc_unimplemented (InAuthService m) = UnimplementedAuthServiceHandler m"
| "rpc_unimplemented (InUserService m) = UnimplementedUserServiceHandler m"
| "rpc_unimplemented (InIdentityService m) = UnimplementedIdentityServiceHandler m"
| "rpc_unimplemented (InMFAService m) = UnimplementedMFAServiceHandler m"
| "rpc_unimplemented (InSSOAdminService m) = UnimplementedSSOAdminServiceHandler m"
| "rpc_unimplemented (InAPIKeyService m) = UnimplementedAPIKeyServiceHandler m"
| "rpc_unimplemented (InConsentService m) = UnimplementedConsentServiceHandler m"
| "rpc_unimplemented (InOrganizationService m) = UnimplementedOrganizationServiceHandler m"
| "rpc_unimplemented (InTeamService m) = UnimplementedTeamServiceHandler m"
| "rpc_unimplemented (InInvitationService m) = UnimplementedInvitationServiceHandler m"
| "rpc_unimplemented (InOnboardingService m) = UnimplementedOnboardingServiceHandler m"
| "rpc_unimplemented (InWaitlistService m) = UnimplementedWaitlistServiceHandler m"
| "rpc_unimplemented (InUserSettingsService m) = UnimplementedUserSettingsServiceHandler m"
| "rpc_unimplemented (InGDPRService m) = UnimplementedGDPRServiceHandler m"
| "rpc_unimplemented (InPlatformAdminService m) = UnimplementedPlatformAdminServiceHandler m"
| "rpc_unimplemented (InInstallationService m) = UnimplementedInstallationServiceHandler m"
| "rpc_unimplemented (InClientRegistryService m) = UnimplementedClientRegistryServiceHandler m"
| "rpc_unimplemented (InSolutionEntitlementService m) = UnimplementedSolutionEntitlementServiceHandler m"
| "rpc_unimplemented (InSolutionRegistryService m) = UnimplementedSolutionRegistryServiceHandler m"
| "rpc_unimplemented (InAuditService m) = UnimplementedAuditServiceHandler m"
| "rpc_unimplemented (InBillingService m) = UnimplementedBillingServiceHandler m"
| "rpc_unimplemented (InDashboardService m) = UnimplementedDashboardServiceHandler m"
| "rpc_unimplemented (InNotificationService m) = UnimplementedNotificationServiceHandler m"
| "rpc_unimplemented (InResourceFollowService m) = UnimplementedResourceFollowServiceHandler m"
| "rpc_unimplemented (InUsageService m) = UnimplementedUsageServiceHandler m"
| "rpc_unimplemented (InWebhookService m) = UnimplementedWebhookServiceHandler m"

text \<open>Every handler over one implementation \<open>svc\<close> of all methods, with its mount path.\<close>

definition mounts :: "(rpc \<Rightarrow> 'f) \<Rightarrow> (string \<times> (string \<Rightarrow> 'f route option)) list" where
  "mounts svc =
     [NewModuleCapabilitiesServiceHandler (\<lambda>m. svc (InModuleCapabilitiesService m)),
      NewDatasourceServiceHandler (\<lambda>m. svc (InDatasourceService m)),
      NewDirectoryServiceHandler (\<lambda>m. svc (InDirectoryService m)),
      NewPermissionServiceHandler (\<lambda>m. svc (InPermissionService m)),
      NewPrincipalServiceHandler (\<lambda>m. svc (InPrincipalService m)),
      NewWorkContextServiceHandler (\<lambda>m. svc (InWorkContextService m)),
      NewDelegationServiceHandler (\<lambda>m. svc (InDelegationService m)),
      NewIntrospectionServiceHandler (\<lambda>m. svc (InIntrospectionService m)),
      NewAccessibleScopeServiceHandler (\<lambda>m. svc (InAccessibleScopeService m)),
      NewApprovalReviewServiceHandler (\<lambda>m. svc (InApprovalReviewService m)),
      NewAuthServiceHandler (\<lambda>m. svc (InAuthService m)),
      NewUserServiceHandler (\<lambda>m. svc (InUserService m)),
      NewIdentityServiceHandler (\<lambda>m. svc (InIdentityService m)),
      NewMFAServiceHandler (\<lambda>m. svc (InMFAService m)),
      NewSSOAdminServiceHandler (\<lambda>m. svc (InSSOAdminService m)),
      NewAPIKeyServiceHandler (\<lambda>m. svc (InAPIKeyService m)),
      NewConsentServiceHandler (\<lambda>m. svc (InConsentService m)),
      NewOrganizationServiceHandler (\<lambda>m. svc (InOrganizationService m)),
      NewTeamServiceHandler (\<lambda>m. svc (InTeamService m)),
      NewInvitationServiceHandler (\<lambda>m. svc (InInvitationService m)),
      NewOnboardingServiceHandler (\<lambda>m. svc (InOnboardingService m)),
      NewWaitlistServiceHandler (\<lambda>m. svc (InWaitlistService m)),
      NewUserSettingsServiceHandler (\<lambda>m. svc (InUserSettingsService m)),
      NewGDPRServiceHandler (\<lambda>m. svc (InGDPRService m)),
      NewPlatformAdminServiceHandler (\<lambda>m. svc (InPlatformAdminService m)),
      NewInstallationServiceHandler (\<lambda>m. svc (InInstallationService m)),
      NewClientRegistryServiceHandler (\<lambda>m. svc (InClientRegistryService m)),
      NewSolutionEntitlementServiceHandler (\<lambda>m. svc (InSolutionEntitlementService m)),
      NewSolutionRegistryServiceHandler (\<lambda>m. svc (InSolutionRegistryService m)),
      NewAuditServiceHandler (\<lambda>m. svc (InAuditService m)),
      NewBillingServiceHandler (\<lambda>m. svc (InBillingService m)),
      NewDashboardServiceHandler (\<lambda>m. svc (InDashboardService m)),
      NewNotificationServiceHandler (\<lambda>m. svc (InNotificationService m)),
      NewResourceFollowServiceHandler (\<lambda>m. svc (InResourceFollowService m)),
      NewUsageServiceHandler (\<lambda>m. svc (InUsageService m)),
      NewWebhookServiceHandler (\<lambda>m. svc (InWebhookService m))]"

section \<open>The multiplexer\<close>

definition longer :: "string \<Rightarrow> string \<times> 'h \<Rightarrow> (string \<times> 'h) option \<Rightarrow> (string \<times> 'h) option" where
  "longer path e best = (if has_prefix path (fst e) \<and>
       (case best of None \<Rightarrow> True | Some b \<Rightarrow> length (fst b) < length (fst e)) then Some e else best)"

definition serve_mux :: "(string \<times> (string \<Rightarrow> 'r option)) list \<Rightarrow> string \<Rightarrow> 'r option" where
  "serve_mux ms path = (case fold (longer path) ms None of None \<Rightarrow> None | Some e \<Rightarrow> snd e path)"

definition serve :: "(rpc \<Rightarrow> 'f) \<Rightarrow> string \<Rightarrow> 'f route option" where
  "serve svc = serve_mux (mounts svc)"

lemma mount_path_unique:
  assumes "mount_path p" "mount_path q" "has_prefix path p" "has_prefix path q"
  shows "p = q"
proof -
  obtain s t where p: "p = CHR ''/'' # s @ ''/''" "CHR ''/'' \<notin> set s"
    and q: "q = CHR ''/'' # t @ ''/''" "CHR ''/'' \<notin> set t"
    using assms(1,2) by (auto simp: mount_path_def)
  obtain u where "path = p @ u" using assms(3) by (auto simp: has_prefix_iff)
  moreover obtain v where "path = q @ v" using assms(4) by (auto simp: has_prefix_iff)
  ultimately have "takeWhile (\<lambda>c. c \<noteq> CHR ''/'') (s @ CHR ''/'' # u) =
      takeWhile (\<lambda>c. c \<noteq> CHR ''/'') (t @ CHR ''/'' # v)"
    using p q by simp
  moreover have "takeWhile (\<lambda>c. c \<noteq> CHR ''/'') (a @ CHR ''/'' # b) = a" if "CHR ''/'' \<notin> set a" for a b
    using that by (subst takeWhile_append2) auto
  ultimately have "s = t" using p(2) q(2) by simp
  with p q show ?thesis by simp
qed

lemma fold_longer:
  assumes "\<forall>e \<in> set ms. mount_path (fst e)" and "distinct (map fst ms)"
  shows "fold (longer path) ms None = Some e \<longleftrightarrow> e \<in> set ms \<and> has_prefix path (fst e)"
  using assms
proof (induction ms arbitrary: e rule: rev_induct)
  case (snoc x xs)
  then have IH: "fold (longer path) xs None = Some e \<longleftrightarrow> e \<in> set xs \<and> has_prefix path (fst e)" for e
    by simp
  show ?case
  proof (cases "has_prefix path (fst x)")
    case True
    have "\<not> has_prefix path (fst y)" if "y \<in> set xs" for y
      using mount_path_unique [of "fst x" "fst y" path] True that snoc.prems by fastforce
    note none = this
    with IH have "fold (longer path) xs None = None" by (metis option.exhaust)
    moreover have "longer path x None = Some x" using True by (simp add: longer_def)
    ultimately have run: "fold (longer path) (xs @ [x]) None = Some x" by simp
    show ?thesis unfolding run using True none by (cases e) auto
  next
    case False
    then have "longer path x best = best" for best by (simp add: longer_def)
    with IH False show ?thesis by auto
  qed
qed simp

lemma serve_mux_iff:
  assumes "\<forall>e \<in> set ms. mount_path (fst e)" and "distinct (map fst ms)"
  shows "serve_mux ms path = Some r \<longleftrightarrow>
    (\<exists>e \<in> set ms. has_prefix path (fst e) \<and> snd e path = Some r)"
proof (cases "fold (longer path) ms None")
  case None
  have "\<not> has_prefix path (fst e)" if "e \<in> set ms" for e
    using fold_longer [OF assms, of path e] None that by simp
  with None show ?thesis by (auto simp: serve_mux_def)
next
  case (Some e)
  with fold_longer [OF assms] have "f = e" if "f \<in> set ms" "has_prefix path (fst f)" for f
    using that by (metis option.inject)
  with Some fold_longer [OF assms, of path e] show ?thesis by (auto simp: serve_mux_def)
qed

section \<open>Every mount\<close>

lemma service_names_distinct:
  "distinct [ModuleCapabilitiesServiceName,
     DatasourceServiceName,
     DirectoryServiceName,
     PermissionServiceName,
     PrincipalServiceName,
     WorkContextServiceName,
     DelegationServiceName,
     IntrospectionServiceName,
     AccessibleScopeServiceName,
     ApprovalReviewServiceName,
     AuthServiceName,
     UserServiceName,
     IdentityServiceName,
     MFAServiceName,
     SSOAdminServiceName,
     APIKeyServiceName,
     ConsentServiceName,
     OrganizationServiceName,
     TeamServiceName,
     InvitationServiceName,
     OnboardingServiceName,
     WaitlistServiceName,
     UserSettingsServiceName,
     GDPRServiceName,
     PlatformAdminServiceName,
     InstallationServiceName,
     ClientRegistryServiceName,
     SolutionEntitlementServiceName,
     SolutionRegistryServiceName,
     AuditServiceName,
     BillingServiceName,
     DashboardServiceName,
     NotificationServiceName,
     ResourceFollowServiceName,
     UsageServiceName,
     WebhookServiceName]"
  by code_simp

lemma mounts_distinct: "distinct (map fst (mounts svc))"
proof -
  have "map fst (mounts svc) = map (\<lambda>s. CHR ''/'' # s @ ''/'')
      [ModuleCapabilitiesServiceName,
       DatasourceServiceName,
       DirectoryServiceName,
       PermissionServiceName,
       PrincipalServiceName,
       WorkContextServiceName,
       DelegationServiceName,
       IntrospectionServiceName,
       AccessibleScopeServiceName,
       ApprovalReviewServiceName,
       AuthServiceName,
       UserServiceName,
       IdentityServiceName,
       MFAServiceName,
       SSOAdminServiceName,
       APIKeyServiceName,
       ConsentServiceName,
       OrganizationServiceName,
       TeamServiceName,
       InvitationServiceName,
       OnboardingServiceName,
       WaitlistServiceName,
       UserSettingsServiceName,
       GDPRServiceName,
       PlatformAdminServiceName,
       InstallationServiceName,
       ClientRegistryServiceName,
       SolutionEntitlementServiceName,
       SolutionRegistryServiceName,
       AuditServiceName,
       BillingServiceName,
       DashboardServiceName,
       NotificationServiceName,
       ResourceFollowServiceName,
       UsageServiceName,
       WebhookServiceName]"
    by (simp add: mounts_def NewModuleCapabilitiesServiceHandler_def ModuleCapabilitiesServiceName_def
      NewDatasourceServiceHandler_def DatasourceServiceName_def
      NewDirectoryServiceHandler_def DirectoryServiceName_def
      NewPermissionServiceHandler_def PermissionServiceName_def
      NewPrincipalServiceHandler_def PrincipalServiceName_def
      NewWorkContextServiceHandler_def WorkContextServiceName_def
      NewDelegationServiceHandler_def DelegationServiceName_def
      NewIntrospectionServiceHandler_def IntrospectionServiceName_def
      NewAccessibleScopeServiceHandler_def AccessibleScopeServiceName_def
      NewApprovalReviewServiceHandler_def ApprovalReviewServiceName_def
      NewAuthServiceHandler_def AuthServiceName_def
      NewUserServiceHandler_def UserServiceName_def
      NewIdentityServiceHandler_def IdentityServiceName_def
      NewMFAServiceHandler_def MFAServiceName_def
      NewSSOAdminServiceHandler_def SSOAdminServiceName_def
      NewAPIKeyServiceHandler_def APIKeyServiceName_def
      NewConsentServiceHandler_def ConsentServiceName_def
      NewOrganizationServiceHandler_def OrganizationServiceName_def
      NewTeamServiceHandler_def TeamServiceName_def
      NewInvitationServiceHandler_def InvitationServiceName_def
      NewOnboardingServiceHandler_def OnboardingServiceName_def
      NewWaitlistServiceHandler_def WaitlistServiceName_def
      NewUserSettingsServiceHandler_def UserSettingsServiceName_def
      NewGDPRServiceHandler_def GDPRServiceName_def
      NewPlatformAdminServiceHandler_def PlatformAdminServiceName_def
      NewInstallationServiceHandler_def InstallationServiceName_def
      NewClientRegistryServiceHandler_def ClientRegistryServiceName_def
      NewSolutionEntitlementServiceHandler_def SolutionEntitlementServiceName_def
      NewSolutionRegistryServiceHandler_def SolutionRegistryServiceName_def
      NewAuditServiceHandler_def AuditServiceName_def
      NewBillingServiceHandler_def BillingServiceName_def
      NewDashboardServiceHandler_def DashboardServiceName_def
      NewNotificationServiceHandler_def NotificationServiceName_def
      NewResourceFollowServiceHandler_def ResourceFollowServiceName_def
      NewUsageServiceHandler_def UsageServiceName_def
      NewWebhookServiceHandler_def WebhookServiceName_def)
  moreover have "inj_on (\<lambda>s. CHR ''/'' # s @ ''/'') A" for A by (simp add: inj_on_def)
  ultimately show ?thesis using service_names_distinct by (simp only: distinct_map)
qed

lemma moduleCapabilitiesService_mount:
  "mount_path (fst (NewModuleCapabilitiesServiceHandler svc)) \<and>
   (has_prefix path (fst (NewModuleCapabilitiesServiceHandler svc)) \<and> snd (NewModuleCapabilitiesServiceHandler svc) path = Some rt \<longleftrightarrow>
      (\<exists>m. path = ModuleCapabilitiesServiceProcedure m \<and> rt = moduleCapabilitiesServiceHandler_routes svc m))"
  using moduleCapabilitiesService.mount_law unfolding NewModuleCapabilitiesServiceHandler_def ModuleCapabilitiesServiceName_def by simp

lemma datasourceService_mount:
  "mount_path (fst (NewDatasourceServiceHandler svc)) \<and>
   (has_prefix path (fst (NewDatasourceServiceHandler svc)) \<and> snd (NewDatasourceServiceHandler svc) path = Some rt \<longleftrightarrow>
      (\<exists>m. path = DatasourceServiceProcedure m \<and> rt = datasourceServiceHandler_routes svc m))"
  using datasourceService.mount_law unfolding NewDatasourceServiceHandler_def DatasourceServiceName_def by simp

lemma directoryService_mount:
  "mount_path (fst (NewDirectoryServiceHandler svc)) \<and>
   (has_prefix path (fst (NewDirectoryServiceHandler svc)) \<and> snd (NewDirectoryServiceHandler svc) path = Some rt \<longleftrightarrow>
      (\<exists>m. path = DirectoryServiceProcedure m \<and> rt = directoryServiceHandler_routes svc m))"
  using directoryService.mount_law unfolding NewDirectoryServiceHandler_def DirectoryServiceName_def by simp

lemma permissionService_mount:
  "mount_path (fst (NewPermissionServiceHandler svc)) \<and>
   (has_prefix path (fst (NewPermissionServiceHandler svc)) \<and> snd (NewPermissionServiceHandler svc) path = Some rt \<longleftrightarrow>
      (\<exists>m. path = PermissionServiceProcedure m \<and> rt = permissionServiceHandler_routes svc m))"
  using permissionService.mount_law unfolding NewPermissionServiceHandler_def PermissionServiceName_def by simp

lemma principalService_mount:
  "mount_path (fst (NewPrincipalServiceHandler svc)) \<and>
   (has_prefix path (fst (NewPrincipalServiceHandler svc)) \<and> snd (NewPrincipalServiceHandler svc) path = Some rt \<longleftrightarrow>
      (\<exists>m. path = PrincipalServiceProcedure m \<and> rt = principalServiceHandler_routes svc m))"
  using principalService.mount_law unfolding NewPrincipalServiceHandler_def PrincipalServiceName_def by simp

lemma workContextService_mount:
  "mount_path (fst (NewWorkContextServiceHandler svc)) \<and>
   (has_prefix path (fst (NewWorkContextServiceHandler svc)) \<and> snd (NewWorkContextServiceHandler svc) path = Some rt \<longleftrightarrow>
      (\<exists>m. path = WorkContextServiceProcedure m \<and> rt = workContextServiceHandler_routes svc m))"
  using workContextService.mount_law unfolding NewWorkContextServiceHandler_def WorkContextServiceName_def by simp

lemma delegationService_mount:
  "mount_path (fst (NewDelegationServiceHandler svc)) \<and>
   (has_prefix path (fst (NewDelegationServiceHandler svc)) \<and> snd (NewDelegationServiceHandler svc) path = Some rt \<longleftrightarrow>
      (\<exists>m. path = DelegationServiceProcedure m \<and> rt = delegationServiceHandler_routes svc m))"
  using delegationService.mount_law unfolding NewDelegationServiceHandler_def DelegationServiceName_def by simp

lemma introspectionService_mount:
  "mount_path (fst (NewIntrospectionServiceHandler svc)) \<and>
   (has_prefix path (fst (NewIntrospectionServiceHandler svc)) \<and> snd (NewIntrospectionServiceHandler svc) path = Some rt \<longleftrightarrow>
      (\<exists>m. path = IntrospectionServiceProcedure m \<and> rt = introspectionServiceHandler_routes svc m))"
  using introspectionService.mount_law unfolding NewIntrospectionServiceHandler_def IntrospectionServiceName_def by simp

lemma accessibleScopeService_mount:
  "mount_path (fst (NewAccessibleScopeServiceHandler svc)) \<and>
   (has_prefix path (fst (NewAccessibleScopeServiceHandler svc)) \<and> snd (NewAccessibleScopeServiceHandler svc) path = Some rt \<longleftrightarrow>
      (\<exists>m. path = AccessibleScopeServiceProcedure m \<and> rt = accessibleScopeServiceHandler_routes svc m))"
  using accessibleScopeService.mount_law unfolding NewAccessibleScopeServiceHandler_def AccessibleScopeServiceName_def by simp

lemma approvalReviewService_mount:
  "mount_path (fst (NewApprovalReviewServiceHandler svc)) \<and>
   (has_prefix path (fst (NewApprovalReviewServiceHandler svc)) \<and> snd (NewApprovalReviewServiceHandler svc) path = Some rt \<longleftrightarrow>
      (\<exists>m. path = ApprovalReviewServiceProcedure m \<and> rt = approvalReviewServiceHandler_routes svc m))"
  using approvalReviewService.mount_law unfolding NewApprovalReviewServiceHandler_def ApprovalReviewServiceName_def by simp

lemma authService_mount:
  "mount_path (fst (NewAuthServiceHandler svc)) \<and>
   (has_prefix path (fst (NewAuthServiceHandler svc)) \<and> snd (NewAuthServiceHandler svc) path = Some rt \<longleftrightarrow>
      (\<exists>m. path = AuthServiceProcedure m \<and> rt = authServiceHandler_routes svc m))"
  using authService.mount_law unfolding NewAuthServiceHandler_def AuthServiceName_def by simp

lemma userService_mount:
  "mount_path (fst (NewUserServiceHandler svc)) \<and>
   (has_prefix path (fst (NewUserServiceHandler svc)) \<and> snd (NewUserServiceHandler svc) path = Some rt \<longleftrightarrow>
      (\<exists>m. path = UserServiceProcedure m \<and> rt = userServiceHandler_routes svc m))"
  using userService.mount_law unfolding NewUserServiceHandler_def UserServiceName_def by simp

lemma identityService_mount:
  "mount_path (fst (NewIdentityServiceHandler svc)) \<and>
   (has_prefix path (fst (NewIdentityServiceHandler svc)) \<and> snd (NewIdentityServiceHandler svc) path = Some rt \<longleftrightarrow>
      (\<exists>m. path = IdentityServiceProcedure m \<and> rt = identityServiceHandler_routes svc m))"
  using identityService.mount_law unfolding NewIdentityServiceHandler_def IdentityServiceName_def by simp

lemma mFAService_mount:
  "mount_path (fst (NewMFAServiceHandler svc)) \<and>
   (has_prefix path (fst (NewMFAServiceHandler svc)) \<and> snd (NewMFAServiceHandler svc) path = Some rt \<longleftrightarrow>
      (\<exists>m. path = MFAServiceProcedure m \<and> rt = mFAServiceHandler_routes svc m))"
  using mFAService.mount_law unfolding NewMFAServiceHandler_def MFAServiceName_def by simp

lemma sSOAdminService_mount:
  "mount_path (fst (NewSSOAdminServiceHandler svc)) \<and>
   (has_prefix path (fst (NewSSOAdminServiceHandler svc)) \<and> snd (NewSSOAdminServiceHandler svc) path = Some rt \<longleftrightarrow>
      (\<exists>m. path = SSOAdminServiceProcedure m \<and> rt = sSOAdminServiceHandler_routes svc m))"
  using sSOAdminService.mount_law unfolding NewSSOAdminServiceHandler_def SSOAdminServiceName_def by simp

lemma aPIKeyService_mount:
  "mount_path (fst (NewAPIKeyServiceHandler svc)) \<and>
   (has_prefix path (fst (NewAPIKeyServiceHandler svc)) \<and> snd (NewAPIKeyServiceHandler svc) path = Some rt \<longleftrightarrow>
      (\<exists>m. path = APIKeyServiceProcedure m \<and> rt = aPIKeyServiceHandler_routes svc m))"
  using aPIKeyService.mount_law unfolding NewAPIKeyServiceHandler_def APIKeyServiceName_def by simp

lemma consentService_mount:
  "mount_path (fst (NewConsentServiceHandler svc)) \<and>
   (has_prefix path (fst (NewConsentServiceHandler svc)) \<and> snd (NewConsentServiceHandler svc) path = Some rt \<longleftrightarrow>
      (\<exists>m. path = ConsentServiceProcedure m \<and> rt = consentServiceHandler_routes svc m))"
  using consentService.mount_law unfolding NewConsentServiceHandler_def ConsentServiceName_def by simp

lemma organizationService_mount:
  "mount_path (fst (NewOrganizationServiceHandler svc)) \<and>
   (has_prefix path (fst (NewOrganizationServiceHandler svc)) \<and> snd (NewOrganizationServiceHandler svc) path = Some rt \<longleftrightarrow>
      (\<exists>m. path = OrganizationServiceProcedure m \<and> rt = organizationServiceHandler_routes svc m))"
  using organizationService.mount_law unfolding NewOrganizationServiceHandler_def OrganizationServiceName_def by simp

lemma teamService_mount:
  "mount_path (fst (NewTeamServiceHandler svc)) \<and>
   (has_prefix path (fst (NewTeamServiceHandler svc)) \<and> snd (NewTeamServiceHandler svc) path = Some rt \<longleftrightarrow>
      (\<exists>m. path = TeamServiceProcedure m \<and> rt = teamServiceHandler_routes svc m))"
  using teamService.mount_law unfolding NewTeamServiceHandler_def TeamServiceName_def by simp

lemma invitationService_mount:
  "mount_path (fst (NewInvitationServiceHandler svc)) \<and>
   (has_prefix path (fst (NewInvitationServiceHandler svc)) \<and> snd (NewInvitationServiceHandler svc) path = Some rt \<longleftrightarrow>
      (\<exists>m. path = InvitationServiceProcedure m \<and> rt = invitationServiceHandler_routes svc m))"
  using invitationService.mount_law unfolding NewInvitationServiceHandler_def InvitationServiceName_def by simp

lemma onboardingService_mount:
  "mount_path (fst (NewOnboardingServiceHandler svc)) \<and>
   (has_prefix path (fst (NewOnboardingServiceHandler svc)) \<and> snd (NewOnboardingServiceHandler svc) path = Some rt \<longleftrightarrow>
      (\<exists>m. path = OnboardingServiceProcedure m \<and> rt = onboardingServiceHandler_routes svc m))"
  using onboardingService.mount_law unfolding NewOnboardingServiceHandler_def OnboardingServiceName_def by simp

lemma waitlistService_mount:
  "mount_path (fst (NewWaitlistServiceHandler svc)) \<and>
   (has_prefix path (fst (NewWaitlistServiceHandler svc)) \<and> snd (NewWaitlistServiceHandler svc) path = Some rt \<longleftrightarrow>
      (\<exists>m. path = WaitlistServiceProcedure m \<and> rt = waitlistServiceHandler_routes svc m))"
  using waitlistService.mount_law unfolding NewWaitlistServiceHandler_def WaitlistServiceName_def by simp

lemma userSettingsService_mount:
  "mount_path (fst (NewUserSettingsServiceHandler svc)) \<and>
   (has_prefix path (fst (NewUserSettingsServiceHandler svc)) \<and> snd (NewUserSettingsServiceHandler svc) path = Some rt \<longleftrightarrow>
      (\<exists>m. path = UserSettingsServiceProcedure m \<and> rt = userSettingsServiceHandler_routes svc m))"
  using userSettingsService.mount_law unfolding NewUserSettingsServiceHandler_def UserSettingsServiceName_def by simp

lemma gDPRService_mount:
  "mount_path (fst (NewGDPRServiceHandler svc)) \<and>
   (has_prefix path (fst (NewGDPRServiceHandler svc)) \<and> snd (NewGDPRServiceHandler svc) path = Some rt \<longleftrightarrow>
      (\<exists>m. path = GDPRServiceProcedure m \<and> rt = gDPRServiceHandler_routes svc m))"
  using gDPRService.mount_law unfolding NewGDPRServiceHandler_def GDPRServiceName_def by simp

lemma platformAdminService_mount:
  "mount_path (fst (NewPlatformAdminServiceHandler svc)) \<and>
   (has_prefix path (fst (NewPlatformAdminServiceHandler svc)) \<and> snd (NewPlatformAdminServiceHandler svc) path = Some rt \<longleftrightarrow>
      (\<exists>m. path = PlatformAdminServiceProcedure m \<and> rt = platformAdminServiceHandler_routes svc m))"
  using platformAdminService.mount_law unfolding NewPlatformAdminServiceHandler_def PlatformAdminServiceName_def by simp

lemma installationService_mount:
  "mount_path (fst (NewInstallationServiceHandler svc)) \<and>
   (has_prefix path (fst (NewInstallationServiceHandler svc)) \<and> snd (NewInstallationServiceHandler svc) path = Some rt \<longleftrightarrow>
      (\<exists>m. path = InstallationServiceProcedure m \<and> rt = installationServiceHandler_routes svc m))"
  using installationService.mount_law unfolding NewInstallationServiceHandler_def InstallationServiceName_def by simp

lemma clientRegistryService_mount:
  "mount_path (fst (NewClientRegistryServiceHandler svc)) \<and>
   (has_prefix path (fst (NewClientRegistryServiceHandler svc)) \<and> snd (NewClientRegistryServiceHandler svc) path = Some rt \<longleftrightarrow>
      (\<exists>m. path = ClientRegistryServiceProcedure m \<and> rt = clientRegistryServiceHandler_routes svc m))"
  using clientRegistryService.mount_law unfolding NewClientRegistryServiceHandler_def ClientRegistryServiceName_def by simp

lemma solutionEntitlementService_mount:
  "mount_path (fst (NewSolutionEntitlementServiceHandler svc)) \<and>
   (has_prefix path (fst (NewSolutionEntitlementServiceHandler svc)) \<and> snd (NewSolutionEntitlementServiceHandler svc) path = Some rt \<longleftrightarrow>
      (\<exists>m. path = SolutionEntitlementServiceProcedure m \<and> rt = solutionEntitlementServiceHandler_routes svc m))"
  using solutionEntitlementService.mount_law unfolding NewSolutionEntitlementServiceHandler_def SolutionEntitlementServiceName_def by simp

lemma solutionRegistryService_mount:
  "mount_path (fst (NewSolutionRegistryServiceHandler svc)) \<and>
   (has_prefix path (fst (NewSolutionRegistryServiceHandler svc)) \<and> snd (NewSolutionRegistryServiceHandler svc) path = Some rt \<longleftrightarrow>
      (\<exists>m. path = SolutionRegistryServiceProcedure m \<and> rt = solutionRegistryServiceHandler_routes svc m))"
  using solutionRegistryService.mount_law unfolding NewSolutionRegistryServiceHandler_def SolutionRegistryServiceName_def by simp

lemma auditService_mount:
  "mount_path (fst (NewAuditServiceHandler svc)) \<and>
   (has_prefix path (fst (NewAuditServiceHandler svc)) \<and> snd (NewAuditServiceHandler svc) path = Some rt \<longleftrightarrow>
      (\<exists>m. path = AuditServiceProcedure m \<and> rt = auditServiceHandler_routes svc m))"
  using auditService.mount_law unfolding NewAuditServiceHandler_def AuditServiceName_def by simp

lemma billingService_mount:
  "mount_path (fst (NewBillingServiceHandler svc)) \<and>
   (has_prefix path (fst (NewBillingServiceHandler svc)) \<and> snd (NewBillingServiceHandler svc) path = Some rt \<longleftrightarrow>
      (\<exists>m. path = BillingServiceProcedure m \<and> rt = billingServiceHandler_routes svc m))"
  using billingService.mount_law unfolding NewBillingServiceHandler_def BillingServiceName_def by simp

lemma dashboardService_mount:
  "mount_path (fst (NewDashboardServiceHandler svc)) \<and>
   (has_prefix path (fst (NewDashboardServiceHandler svc)) \<and> snd (NewDashboardServiceHandler svc) path = Some rt \<longleftrightarrow>
      (\<exists>m. path = DashboardServiceProcedure m \<and> rt = dashboardServiceHandler_routes svc m))"
  using dashboardService.mount_law unfolding NewDashboardServiceHandler_def DashboardServiceName_def by simp

lemma notificationService_mount:
  "mount_path (fst (NewNotificationServiceHandler svc)) \<and>
   (has_prefix path (fst (NewNotificationServiceHandler svc)) \<and> snd (NewNotificationServiceHandler svc) path = Some rt \<longleftrightarrow>
      (\<exists>m. path = NotificationServiceProcedure m \<and> rt = notificationServiceHandler_routes svc m))"
  using notificationService.mount_law unfolding NewNotificationServiceHandler_def NotificationServiceName_def by simp

lemma resourceFollowService_mount:
  "mount_path (fst (NewResourceFollowServiceHandler svc)) \<and>
   (has_prefix path (fst (NewResourceFollowServiceHandler svc)) \<and> snd (NewResourceFollowServiceHandler svc) path = Some rt \<longleftrightarrow>
      (\<exists>m. path = ResourceFollowServiceProcedure m \<and> rt = resourceFollowServiceHandler_routes svc m))"
  using resourceFollowService.mount_law unfolding NewResourceFollowServiceHandler_def ResourceFollowServiceName_def by simp

lemma usageService_mount:
  "mount_path (fst (NewUsageServiceHandler svc)) \<and>
   (has_prefix path (fst (NewUsageServiceHandler svc)) \<and> snd (NewUsageServiceHandler svc) path = Some rt \<longleftrightarrow>
      (\<exists>m. path = UsageServiceProcedure m \<and> rt = usageServiceHandler_routes svc m))"
  using usageService.mount_law unfolding NewUsageServiceHandler_def UsageServiceName_def by simp

lemma webhookService_mount:
  "mount_path (fst (NewWebhookServiceHandler svc)) \<and>
   (has_prefix path (fst (NewWebhookServiceHandler svc)) \<and> snd (NewWebhookServiceHandler svc) path = Some rt \<longleftrightarrow>
      (\<exists>m. path = WebhookServiceProcedure m \<and> rt = webhookServiceHandler_routes svc m))"
  using webhookService.mount_law unfolding NewWebhookServiceHandler_def WebhookServiceName_def by simp

lemmas mount_laws =
  moduleCapabilitiesService_mount
  datasourceService_mount
  directoryService_mount
  permissionService_mount
  principalService_mount
  workContextService_mount
  delegationService_mount
  introspectionService_mount
  accessibleScopeService_mount
  approvalReviewService_mount
  authService_mount
  userService_mount
  identityService_mount
  mFAService_mount
  sSOAdminService_mount
  aPIKeyService_mount
  consentService_mount
  organizationService_mount
  teamService_mount
  invitationService_mount
  onboardingService_mount
  waitlistService_mount
  userSettingsService_mount
  gDPRService_mount
  platformAdminService_mount
  installationService_mount
  clientRegistryService_mount
  solutionEntitlementService_mount
  solutionRegistryService_mount
  auditService_mount
  billingService_mount
  dashboardService_mount
  notificationService_mount
  resourceFollowService_mount
  usageService_mount
  webhookService_mount

lemma mounts_paths: "\<forall>e \<in> set (mounts svc). mount_path (fst e)"
  by (simp add: mounts_def mount_laws)

lemma ex_rpc:
  "(\<exists>r. P r) \<longleftrightarrow> (\<exists>m. P (InModuleCapabilitiesService m)) \<or>
     (\<exists>m. P (InDatasourceService m)) \<or>
     (\<exists>m. P (InDirectoryService m)) \<or>
     (\<exists>m. P (InPermissionService m)) \<or>
     (\<exists>m. P (InPrincipalService m)) \<or>
     (\<exists>m. P (InWorkContextService m)) \<or>
     (\<exists>m. P (InDelegationService m)) \<or>
     (\<exists>m. P (InIntrospectionService m)) \<or>
     (\<exists>m. P (InAccessibleScopeService m)) \<or>
     (\<exists>m. P (InApprovalReviewService m)) \<or>
     (\<exists>m. P (InAuthService m)) \<or>
     (\<exists>m. P (InUserService m)) \<or>
     (\<exists>m. P (InIdentityService m)) \<or>
     (\<exists>m. P (InMFAService m)) \<or>
     (\<exists>m. P (InSSOAdminService m)) \<or>
     (\<exists>m. P (InAPIKeyService m)) \<or>
     (\<exists>m. P (InConsentService m)) \<or>
     (\<exists>m. P (InOrganizationService m)) \<or>
     (\<exists>m. P (InTeamService m)) \<or>
     (\<exists>m. P (InInvitationService m)) \<or>
     (\<exists>m. P (InOnboardingService m)) \<or>
     (\<exists>m. P (InWaitlistService m)) \<or>
     (\<exists>m. P (InUserSettingsService m)) \<or>
     (\<exists>m. P (InGDPRService m)) \<or>
     (\<exists>m. P (InPlatformAdminService m)) \<or>
     (\<exists>m. P (InInstallationService m)) \<or>
     (\<exists>m. P (InClientRegistryService m)) \<or>
     (\<exists>m. P (InSolutionEntitlementService m)) \<or>
     (\<exists>m. P (InSolutionRegistryService m)) \<or>
     (\<exists>m. P (InAuditService m)) \<or>
     (\<exists>m. P (InBillingService m)) \<or>
     (\<exists>m. P (InDashboardService m)) \<or>
     (\<exists>m. P (InNotificationService m)) \<or>
     (\<exists>m. P (InResourceFollowService m)) \<or>
     (\<exists>m. P (InUsageService m)) \<or>
     (\<exists>m. P (InWebhookService m))"
  (is "?l \<longleftrightarrow> ?r")
proof
  assume ?l
  show ?r
  proof (rule ccontr)
    assume "\<not> ?r"
    then have "\<not> P r" for r by (induction r) simp_all
    with \<open>?l\<close> show False by simp
  qed
qed auto

lemma mounts_routes:
  "(\<exists>e \<in> set (mounts svc). has_prefix path (fst e) \<and> snd e path = Some rt) \<longleftrightarrow>
     (\<exists>r. path = rpc_procedure r \<and> rt = rpc_route svc r)"
  unfolding ex_rpc mounts_def rpc_procedure.simps rpc_route.simps by (simp add: mount_laws)

lemma rpc_split: "split_on (CHR ''/'') (rpc_procedure r) = [[], rpc_service r, rpc_method r]"
  by (cases r) (simp_all add: moduleCapabilitiesService.proc_service
      datasourceService.proc_service
      directoryService.proc_service
      permissionService.proc_service
      principalService.proc_service
      workContextService.proc_service
      delegationService.proc_service
      introspectionService.proc_service
      accessibleScopeService.proc_service
      approvalReviewService.proc_service
      authService.proc_service
      userService.proc_service
      identityService.proc_service
      mFAService.proc_service
      sSOAdminService.proc_service
      aPIKeyService.proc_service
      consentService.proc_service
      organizationService.proc_service
      teamService.proc_service
      invitationService.proc_service
      onboardingService.proc_service
      waitlistService.proc_service
      userSettingsService.proc_service
      gDPRService.proc_service
      platformAdminService.proc_service
      installationService.proc_service
      clientRegistryService.proc_service
      solutionEntitlementService.proc_service
      solutionRegistryService.proc_service
      auditService.proc_service
      billingService.proc_service
      dashboardService.proc_service
      notificationService.proc_service
      resourceFollowService.proc_service
      usageService.proc_service
      webhookService.proc_service)

lemma rpc_route_fields:
  "rt_impl (rpc_route svc r) = svc r \<and> rt_procedure (rpc_route svc r) = rpc_procedure r \<and>
   rt_schema (rpc_route svc r) = rpc_method r"
  by (cases r) (simp_all add: moduleCapabilitiesServiceHandler_routes_def
      datasourceServiceHandler_routes_def
      directoryServiceHandler_routes_def
      permissionServiceHandler_routes_def
      principalServiceHandler_routes_def
      workContextServiceHandler_routes_def
      delegationServiceHandler_routes_def
      introspectionServiceHandler_routes_def
      accessibleScopeServiceHandler_routes_def
      approvalReviewServiceHandler_routes_def
      authServiceHandler_routes_def
      userServiceHandler_routes_def
      identityServiceHandler_routes_def
      mFAServiceHandler_routes_def
      sSOAdminServiceHandler_routes_def
      aPIKeyServiceHandler_routes_def
      consentServiceHandler_routes_def
      organizationServiceHandler_routes_def
      teamServiceHandler_routes_def
      invitationServiceHandler_routes_def
      onboardingServiceHandler_routes_def
      waitlistServiceHandler_routes_def
      userSettingsServiceHandler_routes_def
      gDPRServiceHandler_routes_def
      platformAdminServiceHandler_routes_def
      installationServiceHandler_routes_def
      clientRegistryServiceHandler_routes_def
      solutionEntitlementServiceHandler_routes_def
      solutionRegistryServiceHandler_routes_def
      auditServiceHandler_routes_def
      billingServiceHandler_routes_def
      dashboardServiceHandler_routes_def
      notificationServiceHandler_routes_def
      resourceFollowServiceHandler_routes_def
      usageServiceHandler_routes_def
      webhookServiceHandler_routes_def)

lemma rpc_call_fields:
  "fst (rpc_call base r) = rt_kind (rpc_route svc r) \<and>
   snd (rpc_call base r) = \<lparr>ep_url = trim_right_char (CHR ''/'') base @ rpc_procedure r,
     ep_schema = rpc_method r\<rparr>"
  by (cases r) (simp_all add: moduleCapabilitiesServiceClient_call_def NewModuleCapabilitiesServiceClient_def moduleCapabilitiesServiceHandler_routes_def
      datasourceServiceClient_call_def NewDatasourceServiceClient_def datasourceServiceHandler_routes_def
      directoryServiceClient_call_def NewDirectoryServiceClient_def directoryServiceHandler_routes_def
      permissionServiceClient_call_def NewPermissionServiceClient_def permissionServiceHandler_routes_def
      principalServiceClient_call_def NewPrincipalServiceClient_def principalServiceHandler_routes_def
      workContextServiceClient_call_def NewWorkContextServiceClient_def workContextServiceHandler_routes_def
      delegationServiceClient_call_def NewDelegationServiceClient_def delegationServiceHandler_routes_def
      introspectionServiceClient_call_def NewIntrospectionServiceClient_def introspectionServiceHandler_routes_def
      accessibleScopeServiceClient_call_def NewAccessibleScopeServiceClient_def accessibleScopeServiceHandler_routes_def
      approvalReviewServiceClient_call_def NewApprovalReviewServiceClient_def approvalReviewServiceHandler_routes_def
      authServiceClient_call_def NewAuthServiceClient_def authServiceHandler_routes_def
      userServiceClient_call_def NewUserServiceClient_def userServiceHandler_routes_def
      identityServiceClient_call_def NewIdentityServiceClient_def identityServiceHandler_routes_def
      mFAServiceClient_call_def NewMFAServiceClient_def mFAServiceHandler_routes_def
      sSOAdminServiceClient_call_def NewSSOAdminServiceClient_def sSOAdminServiceHandler_routes_def
      aPIKeyServiceClient_call_def NewAPIKeyServiceClient_def aPIKeyServiceHandler_routes_def
      consentServiceClient_call_def NewConsentServiceClient_def consentServiceHandler_routes_def
      organizationServiceClient_call_def NewOrganizationServiceClient_def organizationServiceHandler_routes_def
      teamServiceClient_call_def NewTeamServiceClient_def teamServiceHandler_routes_def
      invitationServiceClient_call_def NewInvitationServiceClient_def invitationServiceHandler_routes_def
      onboardingServiceClient_call_def NewOnboardingServiceClient_def onboardingServiceHandler_routes_def
      waitlistServiceClient_call_def NewWaitlistServiceClient_def waitlistServiceHandler_routes_def
      userSettingsServiceClient_call_def NewUserSettingsServiceClient_def userSettingsServiceHandler_routes_def
      gDPRServiceClient_call_def NewGDPRServiceClient_def gDPRServiceHandler_routes_def
      platformAdminServiceClient_call_def NewPlatformAdminServiceClient_def platformAdminServiceHandler_routes_def
      installationServiceClient_call_def NewInstallationServiceClient_def installationServiceHandler_routes_def
      clientRegistryServiceClient_call_def NewClientRegistryServiceClient_def clientRegistryServiceHandler_routes_def
      solutionEntitlementServiceClient_call_def NewSolutionEntitlementServiceClient_def solutionEntitlementServiceHandler_routes_def
      solutionRegistryServiceClient_call_def NewSolutionRegistryServiceClient_def solutionRegistryServiceHandler_routes_def
      auditServiceClient_call_def NewAuditServiceClient_def auditServiceHandler_routes_def
      billingServiceClient_call_def NewBillingServiceClient_def billingServiceHandler_routes_def
      dashboardServiceClient_call_def NewDashboardServiceClient_def dashboardServiceHandler_routes_def
      notificationServiceClient_call_def NewNotificationServiceClient_def notificationServiceHandler_routes_def
      resourceFollowServiceClient_call_def NewResourceFollowServiceClient_def resourceFollowServiceHandler_routes_def
      usageServiceClient_call_def NewUsageServiceClient_def usageServiceHandler_routes_def
      webhookServiceClient_call_def NewWebhookServiceClient_def webhookServiceHandler_routes_def)

lemma rpc_unimplemented_text:
  "rpc_unimplemented r = \<lparr>cf_code = CodeUnimplemented,
     cf_text = rpc_service r @ ''.'' @ rpc_method r @ '' is not implemented''\<rparr>"
  by (cases r) (simp_all add: UnimplementedModuleCapabilitiesServiceHandler_def ModuleCapabilitiesServiceName_def
      UnimplementedDatasourceServiceHandler_def DatasourceServiceName_def
      UnimplementedDirectoryServiceHandler_def DirectoryServiceName_def
      UnimplementedPermissionServiceHandler_def PermissionServiceName_def
      UnimplementedPrincipalServiceHandler_def PrincipalServiceName_def
      UnimplementedWorkContextServiceHandler_def WorkContextServiceName_def
      UnimplementedDelegationServiceHandler_def DelegationServiceName_def
      UnimplementedIntrospectionServiceHandler_def IntrospectionServiceName_def
      UnimplementedAccessibleScopeServiceHandler_def AccessibleScopeServiceName_def
      UnimplementedApprovalReviewServiceHandler_def ApprovalReviewServiceName_def
      UnimplementedAuthServiceHandler_def AuthServiceName_def
      UnimplementedUserServiceHandler_def UserServiceName_def
      UnimplementedIdentityServiceHandler_def IdentityServiceName_def
      UnimplementedMFAServiceHandler_def MFAServiceName_def
      UnimplementedSSOAdminServiceHandler_def SSOAdminServiceName_def
      UnimplementedAPIKeyServiceHandler_def APIKeyServiceName_def
      UnimplementedConsentServiceHandler_def ConsentServiceName_def
      UnimplementedOrganizationServiceHandler_def OrganizationServiceName_def
      UnimplementedTeamServiceHandler_def TeamServiceName_def
      UnimplementedInvitationServiceHandler_def InvitationServiceName_def
      UnimplementedOnboardingServiceHandler_def OnboardingServiceName_def
      UnimplementedWaitlistServiceHandler_def WaitlistServiceName_def
      UnimplementedUserSettingsServiceHandler_def UserSettingsServiceName_def
      UnimplementedGDPRServiceHandler_def GDPRServiceName_def
      UnimplementedPlatformAdminServiceHandler_def PlatformAdminServiceName_def
      UnimplementedInstallationServiceHandler_def InstallationServiceName_def
      UnimplementedClientRegistryServiceHandler_def ClientRegistryServiceName_def
      UnimplementedSolutionEntitlementServiceHandler_def SolutionEntitlementServiceName_def
      UnimplementedSolutionRegistryServiceHandler_def SolutionRegistryServiceName_def
      UnimplementedAuditServiceHandler_def AuditServiceName_def
      UnimplementedBillingServiceHandler_def BillingServiceName_def
      UnimplementedDashboardServiceHandler_def DashboardServiceName_def
      UnimplementedNotificationServiceHandler_def NotificationServiceName_def
      UnimplementedResourceFollowServiceHandler_def ResourceFollowServiceName_def
      UnimplementedUsageServiceHandler_def UsageServiceName_def
      UnimplementedWebhookServiceHandler_def WebhookServiceName_def)

section \<open>The services together\<close>

text \<open>
  A server with all services mounted answers exactly the procedures: a path reaches a route if and
  only if it is the procedure of a method, and then it is that method's route; every other path is
  not found. No service shadows another, whatever the order they are mounted in.
\<close>

theorem serve_iff:
  "serve svc path = Some rt \<longleftrightarrow> (\<exists>r. path = rpc_procedure r \<and> rt = rpc_route svc r)"
  unfolding serve_def serve_mux_iff [OF mounts_paths mounts_distinct] by (rule mounts_routes)

text \<open>C19:
  The client and the handler of every method agree: a call goes to the base URL without its
  trailing slashes followed by a path on which a server with all services mounted runs exactly the
  implementation of that method, in the same kind (unary or server stream) and with the same method
  schema; and the name the unimplemented handler reports is the one in that path.
\<close>

theorem client_reaches_handler:
  "\<exists>path rt. ep_url (snd (rpc_call base r)) = trim_right_char (CHR ''/'') base @ path \<and>
     serve svc path = Some rt \<and> rt_impl rt = svc r \<and> rt_kind rt = fst (rpc_call base r) \<and>
     rt_schema rt = ep_schema (snd (rpc_call base r)) \<and>
     (\<exists>s m. split_on (CHR ''/'') path = [[], s, m] \<and>
        cf_text (rpc_unimplemented r) = s @ ''.'' @ m @ '' is not implemented'')"
proof -
  have "serve svc (rpc_procedure r) = Some (rpc_route svc r)"
    unfolding serve_def serve_mux_iff [OF mounts_paths mounts_distinct] mounts_routes by blast
  moreover have "ep_url (snd (rpc_call base r)) = trim_right_char (CHR ''/'') base @ rpc_procedure r"
    "rt_kind (rpc_route svc r) = fst (rpc_call base r)" "ep_schema (snd (rpc_call base r)) = rpc_method r"
    using rpc_call_fields [of base r svc] by simp_all
  ultimately show ?thesis
    using rpc_route_fields [of svc r] rpc_split [of r] rpc_unimplemented_text [of r]
    by (intro exI [of _ "rpc_procedure r"] exI [of _ "rpc_route svc r"]) auto
qed

end
