(* ===== verification/Accounts.thy ===== *)
theory Accounts
  imports ConnectRoutes
begin

text \<open>
  accounts/client.go and accounts/datasources.go, and datasource.New of datasource/client.go: the
  facades over the generated clients. A facade binds a generated client to the gateway's base URL
  and to an HTTP client, the gateway's own or the one of theory ConnectResponse around it, and hides
  Connect's envelope. The transport answers a call as it likes; what is sent is recorded.
\<close>

section \<open>Clients\<close>

text \<open>Which HTTP client a generated client is given.\<close>

datatype http_binding = GatewayHTTP | NormalizedHTTP

record 'o AccountsClient =
  cl_BaseURL :: string
  cl_opts :: "'o list"

record ('m, 'o) inner_client =
  in_http :: http_binding
  in_endpoints :: "'m \<Rightarrow> endpoint"
  in_opts :: "'o list"

definition accounts_New :: "string \<Rightarrow> 'o list \<Rightarrow> 'o AccountsClient" where
  "accounts_New baseURL opts = \<lparr>cl_BaseURL = baseURL, cl_opts = opts\<rparr>"

definition Audit :: "'o AccountsClient \<Rightarrow> (AuditServiceMethod, 'o) inner_client" where
  "Audit c = \<lparr>in_http = GatewayHTTP, in_endpoints = NewAuditServiceClient (cl_BaseURL c),
     in_opts = cl_opts c\<rparr>"

definition Datasources :: "'o AccountsClient \<Rightarrow> (DatasourceServiceMethod, 'o) inner_client" where
  "Datasources c = \<lparr>in_http = NormalizedHTTP, in_endpoints = NewDatasourceServiceClient (cl_BaseURL c),
     in_opts = cl_opts c\<rparr>"

definition datasource_New :: "string \<Rightarrow> 'o list \<Rightarrow> (DatasourceServiceMethod, 'o) inner_client" where
  "datasource_New baseURL opts = \<lparr>in_http = NormalizedHTTP,
     in_endpoints = NewDatasourceServiceClient baseURL, in_opts = opts\<rparr>"

section \<open>Calls\<close>

text \<open>A call that was sent: over which HTTP client, how and where, and the message.\<close>

record 'req sent_call =
  se_http :: http_binding
  se_kind :: call_kind
  se_endpoint :: endpoint
  se_msg :: 'req

type_synonym ('req, 'e, 'res) transport = "'req sent_call \<Rightarrow> 'e + 'res"

type_synonym ('req, 'e, 'res) answered_call = "'req sent_call list \<times> ('e + 'res)"

definition generated_call ::
  "('req, 'e, 'res) transport \<Rightarrow> http_binding \<Rightarrow> call_kind \<times> endpoint \<Rightarrow> 'req \<Rightarrow> ('req, 'e, 'res) answered_call"
where
  "generated_call transport http ke req =
     (let c = \<lparr>se_http = http, se_kind = fst ke, se_endpoint = snd ke, se_msg = req\<rparr>
      in ([c], transport c))"

text \<open>\<open>unary\<close>: one call; its error, or the message of its response.\<close>

definition unary :: "'req \<Rightarrow> ('req \<Rightarrow> ('req, 'e, 'res) answered_call) \<Rightarrow> ('req, 'e, 'res) answered_call" where
  "unary req call = (case call req of
       (sent, Inl err) \<Rightarrow> (sent, Inl err) | (sent, Inr res) \<Rightarrow> (sent, Inr res))"

text \<open>A method of the generated client the facade holds.\<close>

definition inner_datasource ::
  "('req, 'e, 'res) transport \<Rightarrow> (DatasourceServiceMethod, 'o) inner_client \<Rightarrow> DatasourceServiceMethod \<Rightarrow>
     'req \<Rightarrow> ('req, 'e, 'res) answered_call" where
  "inner_datasource transport d m =
     generated_call transport (in_http d) (datasourceServiceClient_call (in_endpoints d) m)"

definition QueryAuditLog ::
  "('req, 'e, 'res) transport \<Rightarrow> (AuditServiceMethod, 'o) inner_client \<Rightarrow> 'req \<Rightarrow>
     ('req, 'e, 'res) answered_call" where
  "QueryAuditLog transport a req =
     (case generated_call transport (in_http a)
         (auditServiceClient_call (in_endpoints a) Audit_QueryAuditLog) req of
       (sent, Inl err) \<Rightarrow> (sent, Inl err) | (sent, Inr res) \<Rightarrow> (sent, Inr res))"

text \<open>The methods of the datasource facade.\<close>

type_synonym ('req, 'e, 'res, 'o) datasource_method =
  "('req, 'e, 'res) transport \<Rightarrow> (DatasourceServiceMethod, 'o) inner_client \<Rightarrow> 'req \<Rightarrow>
     ('req, 'e, 'res) answered_call"

definition Datasources_ListSources :: "('req, 'e, 'res, 'o) datasource_method" where
  "Datasources_ListSources transport d req = unary req (inner_datasource transport d Datasource_ListSources)"

definition Datasources_GetSource :: "('req, 'e, 'res, 'o) datasource_method" where
  "Datasources_GetSource transport d req = unary req (inner_datasource transport d Datasource_GetSource)"

definition Datasources_AddSource :: "('req, 'e, 'res, 'o) datasource_method" where
  "Datasources_AddSource transport d req = unary req (inner_datasource transport d Datasource_AddSource)"

definition Datasources_ListSourceOperations :: "('req, 'e, 'res, 'o) datasource_method" where
  "Datasources_ListSourceOperations transport d req = unary req (inner_datasource transport d Datasource_ListSourceOperations)"

definition Datasources_DeclareSourceOperations :: "('req, 'e, 'res, 'o) datasource_method" where
  "Datasources_DeclareSourceOperations transport d req = unary req (inner_datasource transport d Datasource_DeclareSourceOperations)"

definition Datasources_InvokeSourceOperation :: "('req, 'e, 'res, 'o) datasource_method" where
  "Datasources_InvokeSourceOperation transport d req = unary req (inner_datasource transport d Datasource_InvokeSourceOperation)"

definition Datasources_LookupInvokeSourceOperation :: "('req, 'e, 'res, 'o) datasource_method" where
  "Datasources_LookupInvokeSourceOperation transport d req = unary req (inner_datasource transport d Datasource_LookupInvokeSourceOperation)"

definition Datasources_BeginDatasourceAccountLink :: "('req, 'e, 'res, 'o) datasource_method" where
  "Datasources_BeginDatasourceAccountLink transport d req = unary req (inner_datasource transport d Datasource_BeginDatasourceAccountLink)"

definition Datasources_CompleteDatasourceAccountLink :: "('req, 'e, 'res, 'o) datasource_method" where
  "Datasources_CompleteDatasourceAccountLink transport d req = unary req (inner_datasource transport d Datasource_CompleteDatasourceAccountLink)"

definition Datasources_ListMyDatasourceAccountLinks :: "('req, 'e, 'res, 'o) datasource_method" where
  "Datasources_ListMyDatasourceAccountLinks transport d req = unary req (inner_datasource transport d Datasource_ListMyDatasourceAccountLinks)"

section \<open>What a facade sends\<close>

text \<open>The facade's methods with the remote methods they stand for.\<close>

definition datasource_methods ::
  "(('req, 'e, 'res, 'o) datasource_method \<times> DatasourceServiceMethod) list" where
  "datasource_methods =
     [(Datasources_ListSources, Datasource_ListSources),
      (Datasources_GetSource, Datasource_GetSource),
      (Datasources_AddSource, Datasource_AddSource),
      (Datasources_ListSourceOperations, Datasource_ListSourceOperations),
      (Datasources_DeclareSourceOperations, Datasource_DeclareSourceOperations),
      (Datasources_InvokeSourceOperation, Datasource_InvokeSourceOperation),
      (Datasources_LookupInvokeSourceOperation, Datasource_LookupInvokeSourceOperation),
      (Datasources_BeginDatasourceAccountLink, Datasource_BeginDatasourceAccountLink),
      (Datasources_CompleteDatasourceAccountLink, Datasource_CompleteDatasourceAccountLink),
      (Datasources_ListMyDatasourceAccountLinks, Datasource_ListMyDatasourceAccountLinks)]"

lemma unary_id: "unary req call = call req"
  by (simp add: unary_def split: prod.splits sum.splits)

lemma datasource_methods_call:
  assumes "(f, m) \<in> set datasource_methods"
  shows "f transport d req = inner_datasource transport d m req"
  using assms unfolding datasource_methods_def
  by (auto simp: unary_id Datasources_ListSources_def
      Datasources_GetSource_def
      Datasources_AddSource_def
      Datasources_ListSourceOperations_def
      Datasources_DeclareSourceOperations_def
      Datasources_InvokeSourceOperation_def
      Datasources_LookupInvokeSourceOperation_def
      Datasources_BeginDatasourceAccountLink_def
      Datasources_CompleteDatasourceAccountLink_def
      Datasources_ListMyDatasourceAccountLinks_def)

text \<open>
  Where a generated unary call to a method of any service arrives: at the implementation of that
  method, on a server with all services mounted.
\<close>

definition arrives :: "string \<Rightarrow> rpc \<Rightarrow> 'req sent_call \<Rightarrow> bool" where
  "arrives base r c \<longleftrightarrow> se_kind c = CallUnary \<and>
     (\<exists>path rt. ep_url (se_endpoint c) = trim_right_char (CHR ''/'') base @ path \<and>
        serve (\<lambda>m. m) path = Some rt \<and> rt_impl rt = r)"

lemma arrives_call:
  assumes "fst (rpc_call base r) = CallUnary" and "se_kind c = CallUnary"
    and "se_endpoint c = snd (rpc_call base r)"
  shows "arrives base r c"
proof -
  have "serve (\<lambda>m. m) (rpc_procedure r) = Some (rpc_route (\<lambda>m. m) r)"
    unfolding serve_def serve_mux_iff [OF mounts_paths mounts_distinct] mounts_routes by blast
  with assms rpc_route_fields [of "\<lambda>m. m" r] rpc_call_fields [of base r "\<lambda>m. m"] show ?thesis
    unfolding arrives_def by (intro conjI exI [of _ "rpc_procedure r"] exI [of _ "rpc_route (\<lambda>m. m) r"]) simp_all
qed

lemma datasource_calls_unary:
  "(f, m) \<in> set (datasource_methods :: (('req, 'e, 'res, 'o) datasource_method \<times> _) list) \<Longrightarrow>
     datasourceServiceClient_call c m = (CallUnary, c m)"
  by (auto simp: datasource_methods_def datasourceServiceClient_call_def)

text \<open>C39:
  The accounts facade adds nothing and loses nothing. Each of its datasource methods, and the audit
  query, makes exactly one unary call with the very message it was given, over the HTTP client of its
  facade, to the address at which a server with all services mounted runs exactly the method it is
  named after; and it returns the answer of that call. The datasource package's client is bound to
  the same addresses in the same way.
\<close>

theorem facade_forwards:
  assumes "(f, m) \<in> set datasource_methods" and "d \<in> {Datasources (accounts_New base opts), datasource_New base opts}"
  shows "(\<exists>c. f transport d req = ([c], transport c) \<and> se_msg c = req \<and> se_http c = NormalizedHTTP \<and>
      arrives base (InDatasourceService m) c) \<and>
    (\<exists>c. QueryAuditLog transport' (Audit (accounts_New base opts)) req' = ([c], transport' c) \<and> se_msg c = req' \<and>
      se_http c = GatewayHTTP \<and> arrives base (InAuditService Audit_QueryAuditLog) c)"
proof (intro conjI)
  have d: "in_http d = NormalizedHTTP" "in_endpoints d = NewDatasourceServiceClient base"
    using assms(2) by (auto simp: Datasources_def accounts_New_def datasource_New_def)
  let ?c = "\<lparr>se_http = NormalizedHTTP, se_kind = CallUnary,
    se_endpoint = NewDatasourceServiceClient base m, se_msg = req\<rparr>"
  have "f transport d req = ([?c], transport ?c)"
    using datasource_methods_call [OF assms(1)] datasource_calls_unary [OF assms(1)] d
    by (simp add: inner_datasource_def generated_call_def Let_def)
  moreover have "arrives base (InDatasourceService m) ?c"
    using datasource_calls_unary [OF assms(1)] by (intro arrives_call) simp_all
  ultimately show "\<exists>c. f transport d req = ([c], transport c) \<and> se_msg c = req \<and> se_http c = NormalizedHTTP \<and>
      arrives base (InDatasourceService m) c"
    by (intro exI [of _ ?c]) simp
next
  let ?c = "\<lparr>se_http = GatewayHTTP, se_kind = CallUnary,
    se_endpoint = NewAuditServiceClient base Audit_QueryAuditLog, se_msg = req'\<rparr>"
  have kind: "auditServiceClient_call c Audit_QueryAuditLog = (CallUnary, c Audit_QueryAuditLog)" for c
    by (simp add: auditServiceClient_call_def)
  have "QueryAuditLog transport' (Audit (accounts_New base opts)) req' = ([?c], transport' ?c)"
    by (simp add: QueryAuditLog_def generated_call_def Let_def kind Audit_def accounts_New_def split: sum.splits)
  moreover have "arrives base (InAuditService Audit_QueryAuditLog) ?c"
    by (intro arrives_call) (simp_all add: kind)
  ultimately show "\<exists>c. QueryAuditLog transport' (Audit (accounts_New base opts)) req' = ([c], transport' c) \<and>
      se_msg c = req' \<and> se_http c = GatewayHTTP \<and> arrives base (InAuditService Audit_QueryAuditLog) c"
    by (intro exI [of _ ?c]) simp
qed

theorem facade_forwards_witness:
  "\<exists>c. Datasources_GetSource (\<lambda>c. Inr (se_msg c) :: string + nat) (Datasources (accounts_New ''https://gw/'' [()]))
       (7 :: nat) = ([c], Inr 7) \<and>
     arrives ''https://gw/'' (InDatasourceService Datasource_GetSource) c"
proof -
  have "(Datasources_GetSource, Datasource_GetSource) \<in> set datasource_methods"
    by (simp add: datasource_methods_def)
  from facade_forwards [OF this, of "Datasources (accounts_New ''https://gw/'' [()])" "''https://gw/''" "[()]"
      "\<lambda>c. Inr (se_msg c) :: string + nat" 7 "\<lambda>c. Inl ()" "()"]
  show ?thesis by auto
qed

end
