(* ===== verification/ConnectResponse.thy ===== *)
theory ConnectResponse
  imports GoQuote
begin

text \<open>
  internal/connectresponse/connectresponse.go: the HTTP client both datasource facades bind their
  generated client to. \<open>Do\<close> passes a response on, refuses one in an encoding it does not read, or
  hands out a JSON error response with a body that is decompressed and rid of a byte-order mark as
  it is read.

  \<^verbatim>\<open>mime.ParseMediaType\<close> and \<^verbatim>\<open>gzip.NewReader\<close> are parameters: the media type with its parameters, or
  \<open>None\<close> for an error; the bytes a gzip source decompresses to with the error they end in, or the
  error of its header. \<^verbatim>\<open>bufio.Reader\<close> is modelled, with its buffer of 4096 bytes.
\<close>

section \<open>Readers\<close>

datatype read_end = EOF | ReadFailed string

text \<open>A reader as the bytes it will deliver and the error it then returns, again on every read.\<close>

record byte_source =
  bs_data :: string
  bs_end :: read_end

text \<open>
  One \<^verbatim>\<open>Read\<close> into \<open>n\<close> bytes. How many bytes come at once is up to the reader, at least one:
  \<open>chunk\<close> chooses, from the number of bytes left.
\<close>

definition source_read ::
  "(nat \<Rightarrow> nat) \<Rightarrow> nat \<Rightarrow> byte_source \<Rightarrow> (string \<times> read_end option) \<times> byte_source" where
  "source_read chunk n b =
     (if n = 0 then (([], None), b)
      else if bs_data b = [] then (([], Some (bs_end b)), b)
      else let k = max 1 (min n (chunk (length (bs_data b))))
        in ((take k (bs_data b), None), b\<lparr>bs_data := drop k (bs_data b)\<rparr>))"

text \<open>
  A \<^verbatim>\<open>bufio.Reader\<close>: what is buffered and the reader below. Between calls its own error field is nil,
  since every call that meets an error returns it at once.
\<close>

record bufio =
  bf_buf :: string
  bf_rd :: byte_source

definition bufio_size :: nat where
  "bufio_size = 4096"

lemma source_read_progress:
  "source_read chunk n b = ((d, None), b') \<Longrightarrow> 0 < n \<Longrightarrow> d \<noteq> []"
  by (auto simp: source_read_def Let_def split: if_splits)

lemma source_read_shorter:
  "((d, None), rd) = source_read chunk (bufio_size - length buf) b \<Longrightarrow> \<not> 3 \<le> length buf \<Longrightarrow>
     3 - length (buf @ d) < 3 - length buf"
  using source_read_progress [of chunk "bufio_size - length buf" b d rd]
  by (cases d) (auto simp: bufio_size_def)

text \<open>\<^verbatim>\<open>Peek(3)\<close>: fill until three bytes are buffered or the reader ends. The error is dropped.\<close>

function peek_fill :: "(nat \<Rightarrow> nat) \<Rightarrow> bufio \<Rightarrow> bufio" where
  "peek_fill chunk b =
     (if 3 \<le> length (bf_buf b) then b
      else case source_read chunk (bufio_size - length (bf_buf b)) (bf_rd b) of
        ((d, Some e), rd) \<Rightarrow> \<lparr>bf_buf = bf_buf b @ d, bf_rd = rd\<rparr>
      | ((d, None), rd) \<Rightarrow> peek_fill chunk \<lparr>bf_buf = bf_buf b @ d, bf_rd = rd\<rparr>)"
  by pat_completeness auto

termination
  by (relation "measure (\<lambda>(chunk, b). 3 - length (bf_buf b))") (auto dest: source_read_shorter)

declare peek_fill.simps [simp del]

definition bufio_read :: "(nat \<Rightarrow> nat) \<Rightarrow> nat \<Rightarrow> bufio \<Rightarrow> (string \<times> read_end option) \<times> bufio" where
  "bufio_read chunk n b =
     (if n = 0 then (([], None), b)
      else if bf_buf b \<noteq> [] then ((take n (bf_buf b), None), b\<lparr>bf_buf := drop n (bf_buf b)\<rparr>)
      else if bufio_size \<le> n
      then (case source_read chunk n (bf_rd b) of (r, rd) \<Rightarrow> (r, b\<lparr>bf_rd := rd\<rparr>))
      else case source_read chunk bufio_size (bf_rd b) of
        ((d, Some e), rd) \<Rightarrow> (([], Some e), b\<lparr>bf_rd := rd\<rparr>)
      | ((d, None), rd) \<Rightarrow> ((take n d, None), \<lparr>bf_buf = drop n d, bf_rd = rd\<rparr>))"

section \<open>The body of a JSON error\<close>

record connectJSONErrorBody =
  eb_source :: byte_source
  eb_compressed :: bool
  eb_initialized :: bool
  eb_reader :: "bufio option"
  eb_gzip :: bool
  eb_err :: "read_end option"

definition byte_order_mark :: string where
  "byte_order_mark = [CHR 0xEF, CHR 0xBB, CHR 0xBF]"

text \<open>The buffered reader over \<open>source\<close>, past a byte-order mark.\<close>

definition start_reader :: "(nat \<Rightarrow> nat) \<Rightarrow> byte_source \<Rightarrow> bufio" where
  "start_reader chunk source =
     (let b = peek_fill chunk \<lparr>bf_buf = [], bf_rd = source\<rparr>
      in if take 3 (bf_buf b) = byte_order_mark then b\<lparr>bf_buf := drop 3 (bf_buf b)\<rparr> else b)"

definition initialize ::
  "(byte_source \<Rightarrow> read_end + byte_source) \<Rightarrow> (nat \<Rightarrow> nat) \<Rightarrow> connectJSONErrorBody \<Rightarrow> connectJSONErrorBody" where
  "initialize gunzip chunk b =
     (if eb_initialized b then b
      else let b = b\<lparr>eb_initialized := True\<rparr> in
        if eb_compressed b
        then (case gunzip (eb_source b) of
            Inl e \<Rightarrow> b\<lparr>eb_err := Some e\<rparr>
          | Inr r \<Rightarrow> b\<lparr>eb_gzip := True, eb_reader := Some (start_reader chunk r)\<rparr>)
        else b\<lparr>eb_reader := Some (start_reader chunk (eb_source b))\<rparr>)"

text \<open>\<^verbatim>\<open>Read\<close>; a body that is initialized without an error has its reader.\<close>

definition Body_Read ::
  "(byte_source \<Rightarrow> read_end + byte_source) \<Rightarrow> (nat \<Rightarrow> nat) \<Rightarrow> nat \<Rightarrow> connectJSONErrorBody \<Rightarrow>
     (string \<times> read_end option) \<times> connectJSONErrorBody" where
  "Body_Read gunzip chunk n b =
     (let b = initialize gunzip chunk b in
      case eb_err b of
        Some e \<Rightarrow> (([], Some e), b)
      | None \<Rightarrow> (case eb_reader b of
          None \<Rightarrow> (([], None), b)
        | Some r \<Rightarrow> (case bufio_read chunk n r of (res, r) \<Rightarrow> (res, b\<lparr>eb_reader := Some r\<rparr>))))"

text \<open>
  \<^verbatim>\<open>Close\<close>: the error of the gzip reader when there is one, joined with the source's; the source
  is closed in every case.
\<close>

definition Body_Close :: "'e option \<Rightarrow> 'e option \<Rightarrow> connectJSONErrorBody \<Rightarrow> 'e list" where
  "Body_Close gzip_close source_close b =
     (if eb_gzip b then (case gzip_close of Some e \<Rightarrow> [e] | None \<Rightarrow> []) else []) @
     (case source_close of Some e \<Rightarrow> [e] | None \<Rightarrow> [])"

section \<open>Responses\<close>

record UnsupportedEncoding =
  Encoding :: string

definition UnsupportedEncoding_Error :: "(string \<Rightarrow> bool) \<Rightarrow> UnsupportedEncoding \<Rightarrow> string" where
  "UnsupportedEncoding_Error is_print e =
     ''datasource: unsupported response encoding '' @ go_quote is_print (Encoding e)"

text \<open>A header by canonical name, with all its values.\<close>

type_synonym http_header = "string \<Rightarrow> string list"

definition header_Get :: "http_header \<Rightarrow> string \<Rightarrow> string" where
  "header_Get h k = (case h k of [] \<Rightarrow> [] | v # vs \<Rightarrow> v)"

datatype body = RawBody byte_source | JSONErrorBody connectJSONErrorBody

record http_reply =
  rp_StatusCode :: int
  rp_Header :: http_header
  rp_ContentLength :: int
  rp_Uncompressed :: bool
  rp_Body :: body

datatype 'e do_error = HTTPError 'e | ConnectError connect_code UnsupportedEncoding

text \<open>
  \<^verbatim>\<open>strings.ToLower\<close> as far as its result is compared with ASCII words: two runes outside ASCII
  have an ASCII lower case, the dotted capital I and the Kelvin sign; every other one stays outside.
\<close>

fun go_lower :: "string \<Rightarrow> string" where
  "go_lower [] = []"
| "go_lower (c # s) =
     (if 65 \<le> byte c \<and> byte c \<le> 90 then char_of (byte c + 32) # go_lower s
      else if has_prefix (c # s) [CHR 0xC4, CHR 0xB0] then CHR ''i'' # go_lower (drop 1 s)
      else if has_prefix (c # s) [CHR 0xE2, CHR 0x84, CHR 0xAA] then CHR ''k'' # go_lower (drop 2 s)
      else c # go_lower s)"

text \<open>The source of a body, which the wrapper reads through.\<close>

fun body_source :: "body \<Rightarrow> byte_source" where
  "body_source (RawBody s) = s"
| "body_source (JSONErrorBody b) = eb_source b"

definition new_error_body :: "byte_source \<Rightarrow> bool \<Rightarrow> connectJSONErrorBody" where
  "new_error_body source compressed = \<lparr>eb_source = source, eb_compressed = compressed,
     eb_initialized = False, eb_reader = None, eb_gzip = False, eb_err = None\<rparr>"

type_synonym media_parser = "string \<Rightarrow> (string \<times> (string \<times> string) list) option"

text \<open>
  Whether the answer's media type is JSON with no parameter but a UTF-8 charset. An absent parameter
  reads as the empty string, which is no charset.
\<close>

definition json_media :: "media_parser \<Rightarrow> string \<Rightarrow> bool" where
  "json_media parse contentType = (case parse contentType of
       None \<Rightarrow> False
     | Some (mediaType, params) \<Rightarrow> \<not> (mediaType \<noteq> ''application/json'' \<or> length params > 1 \<or>
         (length params = 1 \<and>
          go_lower (case map_of params ''charset'' of None \<Rightarrow> [] | Some v \<Rightarrow> v) \<noteq> ''utf-8'')))"

text \<open>
  \<open>Do\<close>, on the request's content type and what the gateway's client answered; and whether it closed
  the response's body.
\<close>

definition Do :: "media_parser \<Rightarrow> string \<Rightarrow> 'e + http_reply \<Rightarrow> ('e do_error + http_reply) \<times> bool" where
  "Do parse requestType answer = (case answer of
       Inl e \<Rightarrow> (Inl (HTTPError e), False)
     | Inr response \<Rightarrow>
       (if has_prefix requestType ''application/grpc'' then (Inr response, False)
        else let raw = header_Get (rp_Header response) ''Content-Encoding''; encoding = go_lower raw in
          if encoding \<noteq> [] \<and> encoding \<noteq> ''identity'' \<and> encoding \<noteq> ''gzip''
          then (Inl (ConnectError CodeInternal \<lparr>Encoding = raw\<rparr>), True)
          else if rp_StatusCode response = 200 then (Inr response, False)
          else if \<not> json_media parse (header_Get (rp_Header response) ''Content-Type'')
          then (Inr response, False)
          else (Inr (response\<lparr>
              rp_Header := (rp_Header response)(''Content-Type'' := [''application/json''],
                ''Content-Encoding'' := [], ''Content-Length'' := []),
              rp_ContentLength := - 1,
              rp_Uncompressed := (rp_Uncompressed response \<or> encoding = ''gzip''),
              rp_Body := JSONErrorBody (new_error_body (body_source (rp_Body response))
                (encoding = ''gzip''))\<rparr>), False)))"

section \<open>What is read\<close>

lemma source_read_result:
  assumes "source_read chunk n b = ((d, e), b')"
  shows "bs_end b' = bs_end b \<and> bs_data b = d @ bs_data b' \<and>
    (e \<noteq> None \<longrightarrow> d = [] \<and> bs_data b = [] \<and> e = Some (bs_end b)) \<and>
    (0 < n \<and> e = None \<longrightarrow> d \<noteq> []) \<and> length d \<le> n"
  using assms by (auto simp: source_read_def Let_def split: if_splits)

text \<open>What a buffered reader still has to deliver, and how it ends.\<close>

definition pending :: "bufio \<Rightarrow> byte_source" where
  "pending b = (bf_rd b)\<lparr>bs_data := bf_buf b @ bs_data (bf_rd b)\<rparr>"

lemma byte_source_eq: "bs_data a = bs_data b \<Longrightarrow> bs_end a = bs_end b \<Longrightarrow> a = (b :: byte_source)"
  by simp

lemma peek_fill_pending: "pending (peek_fill chunk b) = pending b"
proof (induction chunk b rule: peek_fill.induct)
  case (1 chunk b)
  obtain d e rd where r: "source_read chunk (bufio_size - length (bf_buf b)) (bf_rd b) = ((d, e), rd)"
    by (metis prod.collapse)
  note s = source_read_result [OF r]
  show ?case
  proof (cases "3 \<le> length (bf_buf b)")
    case True
    then show ?thesis by (simp add: peek_fill.simps)
  next
    case False
    show ?thesis
    proof (cases e)
      case None
      with False r "1.IH" have "pending (peek_fill chunk b) = pending \<lparr>bf_buf = bf_buf b @ d, bf_rd = rd\<rparr>"
        by (subst peek_fill.simps) simp
      with s show ?thesis by (auto simp: pending_def intro!: byte_source_eq)
    next
      case (Some x)
      with False r have "peek_fill chunk b = \<lparr>bf_buf = bf_buf b @ d, bf_rd = rd\<rparr>"
        by (subst peek_fill.simps) simp
      with s show ?thesis by (auto simp: pending_def intro!: byte_source_eq)
    qed
  qed
qed

text \<open>It has three bytes buffered, or all there is.\<close>

lemma peek_fill_enough:
  "3 \<le> length (bf_buf (peek_fill chunk b)) \<or> bs_data (bf_rd (peek_fill chunk b)) = []"
proof (induction chunk b rule: peek_fill.induct)
  case (1 chunk b)
  obtain d e rd where r: "source_read chunk (bufio_size - length (bf_buf b)) (bf_rd b) = ((d, e), rd)"
    by (metis prod.collapse)
  note s = source_read_result [OF r]
  show ?case
  proof (cases "3 \<le> length (bf_buf b)")
    case False
    with r s "1.IH" show ?thesis by (cases e; subst (1 2) peek_fill.simps) auto
  qed (simp add: peek_fill.simps)
qed

definition past_mark :: "byte_source \<Rightarrow> byte_source" where
  "past_mark s = (if has_prefix (bs_data s) byte_order_mark then s\<lparr>bs_data := drop 3 (bs_data s)\<rparr> else s)"

lemma start_reader_pending: "pending (start_reader chunk source) = past_mark source"
proof -
  define b where "b = peek_fill chunk \<lparr>bf_buf = [], bf_rd = source\<rparr>"
  have p: "pending b = source"
    by (simp add: b_def peek_fill_pending) (simp add: pending_def)
  have data: "bs_data source = bf_buf b @ bs_data (bf_rd b)"
    unfolding p [symmetric] by (simp add: pending_def)
  have len: "length byte_order_mark = 3" by (simp add: byte_order_mark_def)
  have "take 3 (bf_buf b) = byte_order_mark \<longleftrightarrow> has_prefix (bs_data source) byte_order_mark"
  proof (cases "3 \<le> length (bf_buf b)")
    case True
    then show ?thesis by (simp add: has_prefix_def len data)
  next
    case False
    then have "bs_data (bf_rd b) = []" using peek_fill_enough unfolding b_def by blast
    with data have "bs_data source = bf_buf b" by simp
    then show ?thesis by (simp add: has_prefix_def len)
  qed
  moreover have "take 3 (bf_buf b) = byte_order_mark \<Longrightarrow>
      pending (b\<lparr>bf_buf := drop 3 (bf_buf b)\<rparr>) = source\<lparr>bs_data := drop 3 (bs_data source)\<rparr>"
  proof -
    assume "take 3 (bf_buf b) = byte_order_mark"
    then have "length (take 3 (bf_buf b)) = 3" by (simp add: len)
    then have "3 \<le> length (bf_buf b)" by (simp add: min_def split: if_splits)
    then show ?thesis unfolding p [symmetric] by (simp add: pending_def)
  qed
  ultimately show ?thesis
    using p by (simp add: start_reader_def Let_def b_def [symmetric] past_mark_def)
qed

lemma bufio_read_result:
  assumes "bufio_read chunk n b = ((d, e), b')"
  shows "bs_end (pending b') = bs_end (pending b) \<and> bs_data (pending b) = d @ bs_data (pending b') \<and>
    (e \<noteq> None \<longrightarrow> d = [] \<and> bs_data (pending b) = [] \<and> e = Some (bs_end (pending b))) \<and>
    (0 < n \<and> e = None \<longrightarrow> d \<noteq> [])"
proof (cases "n = 0 \<or> bf_buf b \<noteq> []")
  case True
  with assms show ?thesis by (auto simp: bufio_read_def pending_def split: if_splits)
next
  case False
  define m where "m = (if bufio_size \<le> n then n else bufio_size)"
  obtain x y rd where r: "source_read chunk m (bf_rd b) = ((x, y), rd)"
    by (metis prod.collapse)
  have "0 < m" by (simp add: m_def bufio_size_def)
  with source_read_result [OF r] False assms r show ?thesis
    by (cases "bufio_size \<le> n"; cases y)
      (auto simp: bufio_read_def pending_def m_def split: if_splits)
qed

text \<open>Reading with a list of buffer sizes, until an error: what was delivered and that error.\<close>

fun reads ::
  "(byte_source \<Rightarrow> read_end + byte_source) \<Rightarrow> (nat \<Rightarrow> nat) \<Rightarrow> nat list \<Rightarrow> connectJSONErrorBody \<Rightarrow>
     string \<times> read_end option" where
  "reads gunzip chunk [] b = ([], None)"
| "reads gunzip chunk (n # ns) b = (case Body_Read gunzip chunk n b of
       ((d, Some e), b) \<Rightarrow> (d, Some e)
     | ((d, None), b) \<Rightarrow> (let (ds, e) = reads gunzip chunk ns b in (d @ ds, e)))"

text \<open>What reading should give: the source, decompressed when it is compressed, past its mark.\<close>

definition decoded :: "(byte_source \<Rightarrow> read_end + byte_source) \<Rightarrow> byte_source \<Rightarrow> bool \<Rightarrow> byte_source" where
  "decoded gunzip source compressed =
     (if compressed then (case gunzip source of Inl e \<Rightarrow> \<lparr>bs_data = [], bs_end = e\<rparr> | Inr r \<Rightarrow> past_mark r)
      else past_mark source)"

text \<open>What an initialized body still delivers.\<close>

definition remaining :: "connectJSONErrorBody \<Rightarrow> byte_source \<Rightarrow> bool" where
  "remaining b t \<longleftrightarrow> eb_initialized b \<and> (case eb_err b of
       Some e \<Rightarrow> t = \<lparr>bs_data = [], bs_end = e\<rparr>
     | None \<Rightarrow> (\<exists>r. eb_reader b = Some r \<and> t = pending r))"

lemma Body_Read_remaining:
  assumes "remaining (initialize gunzip chunk b) t" and "Body_Read gunzip chunk n b = ((d, e), b')"
  shows "remaining b' (t\<lparr>bs_data := drop (length d) (bs_data t)\<rparr>) \<and>
    bs_data t = d @ drop (length d) (bs_data t) \<and>
    (e \<noteq> None \<longrightarrow> d = [] \<and> bs_data t = [] \<and> e = Some (bs_end t)) \<and> (0 < n \<and> e = None \<longrightarrow> d \<noteq> [])"
proof (cases "eb_err (initialize gunzip chunk b)")
  case (Some x)
  with assms show ?thesis by (auto simp: Body_Read_def remaining_def split: option.splits)
next
  case None
  with assms(1) obtain r where r: "eb_reader (initialize gunzip chunk b) = Some r" "t = pending r"
    "eb_initialized (initialize gunzip chunk b)" by (auto simp: remaining_def)
  obtain x y r' where read: "bufio_read chunk n r = ((x, y), r')" by (metis prod.collapse)
  with assms(2) None r(1) have eq: "d = x" "e = y" "b' = (initialize gunzip chunk b)\<lparr>eb_reader := Some r'\<rparr>"
    by (auto simp: Body_Read_def)
  note s = bufio_read_result [OF read]
  then have "pending r' = (pending r)\<lparr>bs_data := drop (length x) (bs_data (pending r))\<rparr>"
    by (intro byte_source_eq) auto
  with s eq r None show ?thesis by (auto simp: remaining_def)
qed

lemma initialize_again: "eb_initialized b \<Longrightarrow> initialize gunzip chunk b = b"
  by (simp add: initialize_def)

lemma reads_remaining:
  assumes "remaining (initialize gunzip chunk b) t" and "reads gunzip chunk ns b = (d, e)"
  shows "(\<exists>u. bs_data t = d @ u \<and> (e \<noteq> None \<longrightarrow> u = [] \<and> e = Some (bs_end t))) \<and>
    ((\<forall>n \<in> set ns. 0 < n) \<and> length (bs_data t) < length ns \<longrightarrow> e \<noteq> None)"
  using assms
proof (induction ns arbitrary: b t d e)
  case (Cons n ns)
  obtain x y b' where read: "Body_Read gunzip chunk n b = ((x, y), b')" by (metis prod.collapse)
  note s = Body_Read_remaining [OF Cons.prems(1) read]
  show ?case
  proof (cases y)
    case (Some f)
    with Cons.prems(2) read s show ?thesis by auto
  next
    case None
    obtain ds where ds: "reads gunzip chunk ns b' = (ds, e)" "d = x @ ds"
      using Cons.prems(2) read None by (auto split: prod.splits)
    have "eb_initialized b'" using s by (simp add: remaining_def)
    then have "remaining (initialize gunzip chunk b') (t\<lparr>bs_data := drop (length x) (bs_data t)\<rparr>)"
      using s by (simp add: initialize_again)
    from Cons.IH [OF this ds(1)] s None ds(2) show ?thesis
      by (cases x) (auto dest!: spec)
  qed
qed auto

lemma remaining_fresh:
  "remaining (initialize gunzip chunk (new_error_body source compressed)) (decoded gunzip source compressed)"
  by (auto simp: remaining_def initialize_def new_error_body_def decoded_def Let_def
      start_reader_pending split: sum.splits)

section \<open>What a facade is handed\<close>

lemma Do_error_body:
  assumes "Do parse requestType (Inr response) = (Inr r, closed)" and "rp_Body response = RawBody source"
    and "rp_Body r = JSONErrorBody b"
  shows "b = new_error_body source (go_lower (header_Get (rp_Header response) ''Content-Encoding'') = ''gzip'') \<and>
    rp_StatusCode response \<noteq> 200 \<and> rp_StatusCode r = rp_StatusCode response \<and>
    rp_Header r ''Content-Type'' = [''application/json''] \<and> rp_Header r ''Content-Encoding'' = [] \<and>
    json_media parse (header_Get (rp_Header response) ''Content-Type'')"
  using assms by (auto simp: Do_def Let_def header_Get_def split: if_splits)

text \<open>C38:
  The outcome of \<open>Do\<close> for every answer of the gateway's client. Its error is passed on. A response
  is refused, and its body closed, exactly when the call is not gRPC and its content encoding is
  none, after lower-casing, of empty, identity and gzip. Every other response is handed out with its
  status, its body's source still open, and every header but the three that describe the body.
\<close>

theorem Do_outcome:
  "case Do parse requestType answer of
     (Inl (HTTPError e), closed) \<Rightarrow> answer = Inl e \<and> \<not> closed
   | (Inl (ConnectError code u), closed) \<Rightarrow> closed \<and> code = CodeInternal \<and>
       (\<exists>response. answer = Inr response \<and> Encoding u = header_Get (rp_Header response) ''Content-Encoding'' \<and>
          \<not> has_prefix requestType ''application/grpc'' \<and>
          go_lower (Encoding u) \<notin> {'''', ''identity'', ''gzip''})
   | (Inr r, closed) \<Rightarrow> \<not> closed \<and> (\<exists>response. answer = Inr response \<and>
       (has_prefix requestType ''application/grpc'' \<or>
        go_lower (header_Get (rp_Header response) ''Content-Encoding'') \<in> {'''', ''identity'', ''gzip''}) \<and>
       rp_StatusCode r = rp_StatusCode response \<and>
       body_source (rp_Body r) = body_source (rp_Body response) \<and>
       {k. rp_Header r k \<noteq> rp_Header response k}
         \<subseteq> {''Content-Type'', ''Content-Encoding'', ''Content-Length''})"
proof (cases answer)
  case (Inr response)
  have kept: "{k. (h(a := x, b := y, c := z)) k \<noteq> h k} \<subseteq> {a, b, c}"
    for h :: http_header and a b c x y z by auto
  from Inr show ?thesis
    by (simp add: Do_def Let_def new_error_body_def kept del: fun_upd_apply)
qed (simp add: Do_def)

text \<open>C20:
  Reading a rewritten body. Whatever buffer sizes it is read with and however the bytes arrive, what
  is delivered is a prefix of the decoded body (decompressed when the response said gzip, without one
  leading byte-order mark); an error or the end is only reported once all of it was delivered, and is
  the one the decoded body ends in; and reading with more buffers than it has bytes, none empty,
  always reaches that end.
\<close>

theorem JSON_error_reads:
  assumes "Do parse requestType (Inr response) = (Inr r, closed)" and "rp_Body response = RawBody source"
    and "rp_Body r = JSONErrorBody b" and "reads gunzip chunk ns b = (d, e)"
  shows "let t = decoded gunzip source
       (go_lower (header_Get (rp_Header response) ''Content-Encoding'') = ''gzip'')
     in has_prefix (bs_data t) d \<and> (e \<noteq> None \<longrightarrow> d = bs_data t \<and> e = Some (bs_end t)) \<and>
       (list_all (\<lambda>n. 0 < n) ns \<and> length (bs_data t) < length ns \<longrightarrow> e \<noteq> None)"
proof -
  let ?z = "go_lower (header_Get (rp_Header response) ''Content-Encoding'') = ''gzip''"
  from Do_error_body [OF assms(1-3)] have b: "b = new_error_body source ?z" by blast
  from reads_remaining [OF remaining_fresh assms(4) [unfolded b]] show ?thesis
    by (auto simp: list_all_iff has_prefix_iff Let_def)
qed

definition sample_reply :: http_reply where
  "sample_reply = \<lparr>rp_StatusCode = 503,
     rp_Header = (\<lambda>k. if k = ''Content-Type'' then [''application/json''] else []),
     rp_ContentLength = 5, rp_Uncompressed = False,
     rp_Body = RawBody \<lparr>bs_data = byte_order_mark @ ''{}'', bs_end = EOF\<rparr>\<rparr>"

definition sample_parse :: media_parser where
  "sample_parse s = (if s = ''application/json'' then Some (s, []) else None)"

theorem JSON_error_reads_witness:
  "\<exists>r b. Do sample_parse ''application/proto'' (Inr sample_reply :: string + http_reply) = (Inr r, False) \<and>
     rp_Body r = JSONErrorBody b \<and>
     reads (\<lambda>s. Inl EOF) (\<lambda>n. 1) [1, 7, 1] b = (''{}'', Some EOF)"
proof -
  let ?src = "\<lparr>bs_data = byte_order_mark @ ''{}'', bs_end = EOF\<rparr>"
  obtain r where run: "Do sample_parse ''application/proto'' (Inr sample_reply :: string + http_reply)
      = (Inr r, False)" "rp_Body r = JSONErrorBody (new_error_body ?src False)"
    by (simp add: Do_def sample_reply_def header_Get_def json_media_def sample_parse_def has_prefix_def)
  obtain d e where reads: "reads (\<lambda>s. Inl EOF) (\<lambda>n. 1) [1, 7, 1] (new_error_body ?src False) = (d, e)"
    by fastforce
  have body: "rp_Body sample_reply = RawBody ?src" by (simp add: sample_reply_def)
  have plain: "go_lower (header_Get (rp_Header sample_reply) ''Content-Encoding'') \<noteq> ''gzip''"
    by (simp add: sample_reply_def header_Get_def)
  have "decoded (\<lambda>s. Inl EOF) ?src False = \<lparr>bs_data = ''{}'', bs_end = EOF\<rparr>"
    by (simp add: decoded_def past_mark_def byte_order_mark_def has_prefix_def)
  with JSON_error_reads [OF run(1) body run(2) reads] plain have "d = ''{}'' \<and> e = Some EOF"
    by (auto simp: Let_def)
  with reads run show ?thesis by blast
qed

end
