(* ===== verification/Spec2Isabelle.thy ===== *)
theory Spec2Isabelle
  imports DatasourceLookup DatasourceDeclarations SettingsCodec Catalog MaTransport MaLockedRefresh
    MaSourcesLockedFacts ConnectRoutes Accounts ConnectResponse
begin

text \<open>
  A verification development of the Go SDK \<^verbatim>\<open>saas-sdk-go\<close>: the client side of a SaaS host. The SDK
  has five parts, which meet only in the generated Connect clients and in the HTTP client they share.

  \<^enum> \<^bold>\<open>Datasources\<close> (\<^verbatim>\<open>datasource/\<close>). A caller invokes an operation of an external provider
    through the host, under an effect ID. The SDK mints or checks that ID, sends one request, reads
    the host's receipt and classifies every failure, so that the effect can always be looked up again.
  \<^enum> \<^bold>\<open>Settings\<close> (\<^verbatim>\<open>settings/\<close>). Typed paths into protobuf settings messages, a bounded JSON codec,
    and a catalog of contributed settings rendered to proto, Go and TypeScript source.
  \<^enum> \<^bold>\<open>Module authority\<close> (\<^verbatim>\<open>moduleauthority/\<close>). A module holds a projected token and an internal token,
    mints Work Contexts at the gateway's broker, caches its own, and presents it on every call to the
    authority endpoint; sources answer what a capability's live authority is, with a bounded cache.
  \<^enum> \<^bold>\<open>Accounts\<close> (\<^verbatim>\<open>accounts/\<close>). A facade over the generated clients, message for message.
  \<^enum> \<^bold>\<open>Transport\<close> (\<^verbatim>\<open>internal/connectresponse/\<close>, \<^verbatim>\<open>gen/saas/accounts/v1/accountsv1connect/\<close>). The HTTP
    client the datasource facades share, and the generated clients and handlers of 36 services.
\<close>

text \<open>
  \<^bold>\<open>Theories and sources.\<close>

  \<^item> \<open>Prelude\<close>: Go strings as byte lists (\<open>trim_space\<close>, UTF-8, decimal numbers), error trees with
    \<open>errors_as\<close> and \<open>errors_is\<close>. \<open>GoJSON\<close>, \<open>GoQuote\<close>, \<open>GoRegex\<close>, \<open>GoUrl\<close>: what the source uses of
    \<^verbatim>\<open>encoding/json\<close>, \<^verbatim>\<open>strconv\<close>, \<^verbatim>\<open>regexp\<close>, \<^verbatim>\<open>net/url\<close> and \<^verbatim>\<open>net\<close>, from the standard library.
  \<^item> \<open>DatasourceWire\<close> (\<^verbatim>\<open>datasource.pb.go\<close>), \<open>DatasourceErrors\<close> (\<^verbatim>\<open>errors.go\<close>, \<^verbatim>\<open>types.go\<close>),
    \<open>DatasourceOperations\<close> (\<^verbatim>\<open>json.go\<close>, \<^verbatim>\<open>invoke_options.go\<close>, \<^verbatim>\<open>operations.go\<close>), \<open>DatasourceDeclarations\<close>
    (the declaration calls and \<^verbatim>\<open>client.go\<close>). An operation is a function from the parameters and the
    host's answer to what was sent and what is returned. \<open>DatasourceEffects\<close> and \<open>DatasourceLookup\<close>
    hold the promises of \<open>Invoke\<close> and \<open>Lookup\<close>.
  \<^item> \<open>SettingsField\<close> (\<^verbatim>\<open>field.go\<close>), \<open>SettingsLaws\<close> (the contract \<open>proto_message\<close> of a protobuf message
    as a locale, and the field operations under it), \<open>SettingsDynamic\<close> (a message tree that satisfies
    the contract), \<open>SettingsFacts\<close>, \<open>SettingsCodec\<close> (\<^verbatim>\<open>json.go\<close>), \<open>Catalog\<close> (\<^verbatim>\<open>catalog/\<close>).
  \<^item> \<open>MaErrors\<close> (\<^verbatim>\<open>broker_errors.go\<close>), \<open>MaTransport\<close> (\<^verbatim>\<open>transport.go\<close>), \<open>MaWire\<close> (the messages),
    \<open>MaBroker\<close> (\<^verbatim>\<open>broker.go\<close>, \<^verbatim>\<open>token.go\<close>), \<open>MaClient\<close> (\<^verbatim>\<open>client.go\<close>, \<^verbatim>\<open>authority.go\<close>, \<^verbatim>\<open>gateway.go\<close>),
    \<open>MaFacade\<close> (\<^verbatim>\<open>source_context.go\<close>, \<^verbatim>\<open>artifact.go\<close>, \<^verbatim>\<open>installation.go\<close>, \<^verbatim>\<open>notify.go\<close>, \<^verbatim>\<open>audit.go\<close>,
    \<^verbatim>\<open>audit_declarations.go\<close>), \<open>MaSources\<close> (\<^verbatim>\<open>verifier_sources.go\<close>). An operation takes the state to
    a result and the next state; the state is the cached module Work Context with a log of every token
    read, clock read, broker request and authority call. \<open>MaClientFacts\<close>, \<open>MaFacadeFacts\<close> and
    \<open>MaSourcesFacts\<close> have one case rule per operation and the properties that follow; the nine
    operations that call as the module are interpretations of the locale \<open>module_operation\<close>.
    \<open>MaReach\<close> has the reachable states of a client, by its own operations and by the questions of
    sources that use it, with the locale \<open>client_invariant\<close> and its two
    interpretations; \<open>MaConcurrent\<close> has the interleavings of concurrent callers, from one use of the
    client's mutex to the next.
  \<^item> \<open>MaLocked\<close>: the same goroutines statement by statement, with the mutex itself: waiting for it, each
    read and write of what it guards (\<^verbatim>\<open>moduleWorkContextLocked\<close>, \<^verbatim>\<open>forgetModuleWorkContext\<close>), and between
    them any other caller, any reader (\<^verbatim>\<open>ModuleWorkContext\<close>) and any mint, which takes no mutex.
    \<open>MaLockedFacts\<close> has the invariant of every interleaving, over positions of the log; \<open>MaLockedRuns\<close>
    the locale \<open>turn_taking\<close> of fair schedules, \<open>MaLockedRefresh\<close> the shared refresh. \<open>MaSourcesLocked\<close>
    and \<open>MaSourcesLockedFacts\<close>: goroutines that ask one source at once (\<^verbatim>\<open>ask\<close>: \<^verbatim>\<open>load\<close>, call, \<^verbatim>\<open>store\<close>), seen
    by the client as callers through the projection \<open>client_view\<close>.
  \<^item> \<open>GoConnect\<close> (the locale \<open>connect_service\<close>, what all generated files have in common),
    \<open>ConnectModule\<close>, \<open>ConnectDatasource\<close>, \<open>ConnectAuthority\<close>, \<open>ConnectIdentity\<close>, \<open>ConnectOrganizations\<close>,
    \<open>ConnectPlatform\<close>, \<open>ConnectOperations\<close> (one group of definitions and one interpretation per
    service), \<open>ConnectRoutes\<close> (all services on one server), \<open>Accounts\<close> (\<^verbatim>\<open>accounts/\<close> and
    \<^verbatim>\<open>datasource.New\<close>), \<open>ConnectResponse\<close> (\<^verbatim>\<open>connectresponse.go\<close>).
\<close>

text \<open>
  \<^bold>\<open>What is shown.\<close>

  \<^item> Effects: at most one request per \<open>Invoke\<close>, the effect ID the same in message, header and receipt;
    success only on a committed receipt; every failure after dispatch is an unknown outcome unless
    the host established one; \<open>Lookup\<close> never invents evidence; what error classification means.
  \<^item> Settings: reading back, framing, undoing and refusing a write, under the contract of a message;
    a default applied once; which paths are fields; the codec's bound, and that it hands to the JSON library what it is given; which contributions are admitted, and
    that the rendered source determines them.
  \<^item> Module authority: the transport rule on the URL that is requested; mints that are sealed, unexpired
    and for what was asked; errors typed by the status alone; the refresh-once rule; in every
    reachable state and under every interleaving only minted Work Contexts are presented; concurrent
    callers share one refresh; the broker's credentials go to the broker alone; live answers are the
    host's own, and the bounded cache refines an unbounded memory of them.
  \<^item> Concurrency: mutual exclusion; every goroutine returns on every fair schedule; one goroutine alone
    is the sequential operation; a cold start asks the broker once for any number of callers; an
    answer that is shared between goroutines was given by the host and is served within the bound of
    its store, which \<open>late_store\<close> shows is not a bound from the host's answer.
  \<^item> Transport: of 270 methods, client, path, handler and implementation agree and no service shadows
    another; the facades forward; an error body is delivered exactly, without its byte-order mark.

  \<^bold>\<open>Bounds and termination.\<close> No definition uses fuel. Recursion is structural on lists and messages;
  the others (trimming, scanning, \<^verbatim>\<open>bufio.Reader.Peek\<close>) have a measure. The limits of the source, such
  as 64 KiB of a token or of an answer, 128 bytes of an effect ID, 2 seconds and 2048 entries of a
  cache, the field numbers of protobuf, are definitions with the source's values. Instants and
  durations are unbounded integers; the enumerations and sizes on the wire are words of their width.
  A goroutine takes at most 23 turns that are not waiting (the first check, twice ten turns from the
  lock to its release, twice a call), and a question at most 25; \<open>n\<close> goroutines need at most \<open>23 n\<close>
  rounds of a schedule, because in every round somebody who is not waiting moves.

  \<^bold>\<open>Parameters.\<close> Code that is not in the repository is an argument of the definitions: what a host
  or broker answers (on the log and the request), the clock and the token source; \<^verbatim>\<open>protojson\<close> and
  \<^verbatim>\<open>structpb\<close>, \<^verbatim>\<open>json.Marshal\<close>, \<^verbatim>\<open>json.Unmarshal\<close> of a broker answer, RFC 3339 parsing, \<^verbatim>\<open>uuid.Parse\<close>,
  the structural reader of a Work Context, \<^verbatim>\<open>mime.ParseMediaType\<close>, \<^verbatim>\<open>gzip\<close>, \<^verbatim>\<open>unicode.IsPrint\<close>; what
  \<^verbatim>\<open>connect.NewClient\<close> and \<^verbatim>\<open>connect.NewUnaryHandler\<close> do with the arguments recorded here.

  \<^bold>\<open>Not modelled.\<close> The rest of the generated messages (\<^verbatim>\<open>*.pb.go\<close>: descriptors and reflection), the
  re-exported aliases of \<^verbatim>\<open>types.go\<close>, the tests, fixtures and gates (\<^verbatim>\<open>internal/apiboundary\<close>,
  \<^verbatim>\<open>internal/agentcontext\<close>, \<^verbatim>\<open>conformance\<close>). They have no behaviour of their own or are no part of the
  SDK. The Go memory model below a statement is not modelled: what the mutex guards is read and
  written in the region only, where by \<open>mutual_exclusion\<close> one goroutine is at a time, so there is no data
  race for it to order. \<^verbatim>\<open>load\<close> and \<^verbatim>\<open>store\<close> of a source, which do nothing under its mutex but read the clock once and use
  the map, are one turn each, and so is a call of the host or the broker: other goroutines move before it or
  after it. A reader returns an error in a read of its own, after its bytes. A cancelled context shows only as the error of the call it cancels.
\<close>

end
